(* ===== verification/Py_Base.thy ===== *)
theory Py_Base
  imports Main "HOL-Library.AList" "HOL-Library.Sublist" "HOL-Library.Char_ord"
    "HOL-Library.List_Lexorder"
begin

text \<open>
  The prelude: Python as the library modules of lab-in-a-box use it.

  \<^item> \<open>exc\<close> and \<open>'a res\<close>: exceptions as values. \<open>SystemExit\<close> carries the text
    \<open>lab_creation.die\<close> prints before it exits.
  \<^item> Text is \<open>string\<close>, the UTF-8 bytes of the Python text. \<open>str_lower\<close>, \<open>is_space\<close> and
    \<open>is_digit\<close> know the ASCII characters only; a dash that the code prints as one Unicode
    character is the three bytes \<open>emdash\<close>.
  \<^item> \<open>pval\<close>: what a JSON or YAML file parses to (floats aside). A dict is an association
    list in insertion order, so that iteration order is the code's; \<open>AList.update\<close> and
    \<open>AList.delete\<close> are item assignment and \<open>del\<close>.
  \<^item> The collections \<open>res_simps\<close> (the error monad) and \<open>text_simps\<close> (splitting and
    joining) are what the component proofs simplify with.
\<close>

named_theorems res_simps
named_theorems text_simps

section \<open>Exceptions as values\<close>

datatype exc = SystemExit string | RuntimeError string | ValueError string | KeyError string
  | AttributeError string | TypeError string | IndexError string | OSError string | RegexError string

type_synonym 'a res = "exc + 'a"

definition res_bind :: "'a res \<Rightarrow> ('a \<Rightarrow> 'b res) \<Rightarrow> 'b res" where
  "res_bind m f = (case m of Inl e \<Rightarrow> Inl e | Inr x \<Rightarrow> f x)"

fun res_map :: "('a \<Rightarrow> 'b res) \<Rightarrow> 'a list \<Rightarrow> 'b list res" where
  "res_map f [] = Inr []"
| "res_map f (x # xs) = res_bind (f x) (\<lambda>y. res_bind (res_map f xs) (\<lambda>ys. Inr (y # ys)))"

fun res_fold :: "('a \<Rightarrow> 's \<Rightarrow> 's res) \<Rightarrow> 'a list \<Rightarrow> 's \<Rightarrow> 's res" where
  "res_fold f [] s = Inr s"
| "res_fold f (x # xs) s = res_bind (f x s) (res_fold f xs)"

definition is_ok :: "'a res \<Rightarrow> bool" where
  "is_ok m = (case m of Inl _ \<Rightarrow> False | Inr _ \<Rightarrow> True)"

lemma res_bind_Inl [simp, res_simps]: "res_bind (Inl e) f = Inl e"
  by (simp add: res_bind_def)

lemma res_bind_Inr [simp, res_simps]: "res_bind (Inr x) f = f x"
  by (simp add: res_bind_def)

lemma res_bind_eq_Inr [res_simps]:
  "res_bind m f = Inr y \<longleftrightarrow> (\<exists>x. m = Inr x \<and> f x = Inr y)"
  by (auto simp: res_bind_def split: sum.splits)

lemma res_bind_eq_Inl [res_simps]:
  "res_bind m f = Inl e \<longleftrightarrow> m = Inl e \<or> (\<exists>x. m = Inr x \<and> f x = Inl e)"
  by (auto simp: res_bind_def split: sum.splits)

lemma is_ok_simps [simp]: "is_ok (Inr x)" "\<not> is_ok (Inl e)"
  by (simp_all add: is_ok_def)

lemma res_map_Inr_length: "res_map f xs = Inr ys \<Longrightarrow> length ys = length xs"
  by (induction xs arbitrary: ys) (auto simp: res_simps)

lemma res_map_Inr_conv: "(\<And>x. x \<in> set xs \<Longrightarrow> f x = Inr (g x)) \<Longrightarrow> res_map f xs = Inr (map g xs)"
  by (induction xs) auto

lemma res_fold_invariant:
  assumes "res_fold f xs s = Inr t" and "P s"
    and "\<And>x s t. x \<in> set xs \<Longrightarrow> P s \<Longrightarrow> f x s = Inr t \<Longrightarrow> P t"
  shows "P t"
  using assms
proof (induction xs arbitrary: s)
  case Nil
  then show ?case by simp
next
  case (Cons x xs)
  then obtain s' where s': "f x s = Inr s'" "res_fold f xs s' = Inr t"
    by (auto simp: res_simps)
  with Cons.prems have "P s'" by auto
  with s' Cons show ?case by (metis list.set_intros(2))
qed

section \<open>Characters and text\<close>

definition code :: "char \<Rightarrow> nat" where
  "code c = of_char c"

definition is_space :: "char \<Rightarrow> bool" where
  "is_space c = (9 \<le> code c \<and> code c \<le> 13 \<or> 28 \<le> code c \<and> code c \<le> 32)"

definition is_digit :: "char \<Rightarrow> bool" where
  "is_digit c = (48 \<le> code c \<and> code c \<le> 57)"

definition is_word :: "char \<Rightarrow> bool" where
  "is_word c = (is_digit c \<or> 65 \<le> code c \<and> code c \<le> 90 \<or> 97 \<le> code c \<and> code c \<le> 122 \<or> code c = 95)"

definition lower_char :: "char \<Rightarrow> char" where
  "lower_char c = (if 65 \<le> code c \<and> code c \<le> 90 then char_of (code c + 32) else c)"

definition upper_char :: "char \<Rightarrow> char" where
  "upper_char c = (if 97 \<le> code c \<and> code c \<le> 122 then char_of (code c - 32) else c)"

definition str_lower :: "string \<Rightarrow> string" where
  "str_lower s = map lower_char s"

definition str_upper :: "string \<Rightarrow> string" where
  "str_upper s = map upper_char s"

definition NL :: string where
  "NL = [CHR 0x0A]"

definition TAB :: string where
  "TAB = [CHR 0x09]"

definition QUOTE :: string where
  "QUOTE = [CHR 0x27]"

definition emdash :: string where
  "emdash = [CHR 0xE2, CHR 0x80, CHR 0x94]"

definition endash :: string where
  "endash = [CHR 0xE2, CHR 0x80, CHR 0x93]"

definition str_strip :: "string \<Rightarrow> string" where
  "str_strip s = rev (dropWhile is_space (rev (dropWhile is_space s)))"

definition rstrip_ch :: "char \<Rightarrow> string \<Rightarrow> string" where
  "rstrip_ch c s = rev (dropWhile (\<lambda>x. x = c) (rev s))"

text \<open>\<open>sub in s\<close>, \<open>s.startswith(p)\<close> and \<open>s.endswith(p)\<close>.\<close>

fun contains :: "string \<Rightarrow> string \<Rightarrow> bool" where
  "contains n [] = (n = [])"
| "contains n (c # cs) = (prefix n (c # cs) \<or> contains n cs)"

abbreviation starts_with :: "string \<Rightarrow> string \<Rightarrow> bool" where
  "starts_with s p \<equiv> prefix p s"

abbreviation ends_with :: "string \<Rightarrow> string \<Rightarrow> bool" where
  "ends_with s p \<equiv> suffix p s"

text \<open>\<open>s.split()\<close>: the maximal runs of non-blank characters.\<close>

fun words_acc :: "string \<Rightarrow> string \<Rightarrow> string list" where
  "words_acc acc [] = (if acc = [] then [] else [acc])"
| "words_acc acc (c # cs) =
     (if is_space c then (if acc = [] then words_acc [] cs else acc # words_acc [] cs)
      else words_acc (acc @ [c]) cs)"

definition words :: "string \<Rightarrow> string list" where
  "words s = words_acc [] s"

text \<open>\<open>s.split(c)\<close> on one character: one piece more than there are separators.\<close>

fun split_ch :: "char \<Rightarrow> string \<Rightarrow> string list" where
  "split_ch c [] = [[]]"
| "split_ch c (x # xs) =
     (if x = c then [] # split_ch c xs
      else (case split_ch c xs of [] \<Rightarrow> [[x]] | w # ws \<Rightarrow> (x # w) # ws))"

text \<open>\<open>s.splitlines()\<close>: LF, CR, CR LF, VT, FF and the separators 0x1c to 0x1e end a line.\<close>

definition is_break :: "char \<Rightarrow> bool" where
  "is_break c = (10 \<le> code c \<and> code c \<le> 13 \<or> 28 \<le> code c \<and> code c \<le> 30)"

fun lines_acc :: "string \<Rightarrow> string \<Rightarrow> string list" where
  "lines_acc acc [] = (if acc = [] then [] else [acc])"
| "lines_acc acc (c # cs) =
     (if is_break c then
        acc # (case cs of [] \<Rightarrow> []
               | d # ds \<Rightarrow> if code c = 13 \<and> code d = 10 then lines_acc [] ds else lines_acc [] cs)
      else lines_acc (acc @ [c]) cs)"

definition splitlines :: "string \<Rightarrow> string list" where
  "splitlines s = lines_acc [] s"

fun join :: "string \<Rightarrow> string list \<Rightarrow> string" where
  "join sep [] = []"
| "join sep [x] = x"
| "join sep (x # y # xs) = x @ sep @ join sep (y # xs)"

definition replace_ch :: "char \<Rightarrow> string \<Rightarrow> string \<Rightarrow> string" where
  "replace_ch c new s = concat (map (\<lambda>x. if x = c then new else [x]) s)"

text \<open>A file's text as the code writes it: the lines, each ended by a newline.\<close>

definition unlines :: "string list \<Rightarrow> string" where
  "unlines ls = join NL ls @ NL"

definition line_ok :: "string \<Rightarrow> bool" where
  "line_ok l = list_all (\<lambda>c. \<not> is_break c) l"

section \<open>Numbers as text\<close>

fun nat_str :: "nat \<Rightarrow> string" where
  "nat_str n = (if n < 10 then [char_of (n + 48)] else nat_str (n div 10) @ [char_of (n mod 10 + 48)])"

declare nat_str.simps [simp del]

text \<open>The same on integers, which evaluate in binary.\<close>

function uint_str :: "int \<Rightarrow> string" where
  "uint_str i = (if i < 10 then [char_of (nat i + 48)] else uint_str (i div 10) @ [char_of (nat (i mod 10) + 48)])"
  by pat_completeness auto
termination by (relation "measure nat") auto

declare uint_str.simps [simp del]

definition int_str :: "int \<Rightarrow> string" where
  "int_str i = (if i < 0 then ''-'' @ uint_str (- i) else uint_str i)"

fun digits_val :: "nat \<Rightarrow> string \<Rightarrow> nat option" where
  "digits_val n [] = Some n"
| "digits_val n (c # cs) = (if is_digit c then digits_val (10 * n + (code c - 48)) cs else None)"

text \<open>A decimal literal of \<open>int()\<close>: digits, with single underscores between digits.\<close>

fun int_digits :: "nat \<Rightarrow> string \<Rightarrow> nat option" where
  "int_digits n [] = Some n"
| "int_digits n (c # cs) =
     (if is_digit c then int_digits (10 * n + (code c - 48)) cs
      else if code c = 95 then
        (case cs of d # ds \<Rightarrow> if is_digit d then int_digits (10 * n + (code d - 48)) ds else None
                  | [] \<Rightarrow> None)
      else None)"

definition unsigned_int :: "string \<Rightarrow> nat option" where
  "unsigned_int s = (case s of [] \<Rightarrow> None | c # cs \<Rightarrow> if is_digit c then int_digits 0 s else None)"

definition py_int :: "string \<Rightarrow> int option" where
  "py_int s0 =
     (let s = str_strip s0 in
      case s of [] \<Rightarrow> None
      | c # cs \<Rightarrow> if code c = 45 then map_option (\<lambda>n. - int n) (unsigned_int cs)
                  else if code c = 43 then map_option int (unsigned_int cs)
                  else map_option int (unsigned_int s))"

section \<open>Values of a parsed JSON or YAML file\<close>

datatype pval = PNone | PBool bool | PInt int | PStr string | PList "pval list"
  | PDict "(string \<times> pval) list"

type_synonym dict = "(string \<times> pval) list"

fun truthy :: "pval \<Rightarrow> bool" where
  "truthy PNone = False"
| "truthy (PBool b) = b"
| "truthy (PInt i) = (i \<noteq> 0)"
| "truthy (PStr s) = (s \<noteq> [])"
| "truthy (PList xs) = (xs \<noteq> [])"
| "truthy (PDict d) = (d \<noteq> [])"

fun is_dict :: "pval \<Rightarrow> bool" where
  "is_dict (PDict _) = True"
| "is_dict _ = False"

fun is_str :: "pval \<Rightarrow> bool" where
  "is_str (PStr _) = True"
| "is_str _ = False"

text \<open>\<open>d.get(k)\<close> and \<open>d.get(k, v)\<close>.\<close>

definition get :: "dict \<Rightarrow> string \<Rightarrow> pval" where
  "get d k = (case map_of d k of None \<Rightarrow> PNone | Some v \<Rightarrow> v)"

definition get_dflt :: "dict \<Rightarrow> string \<Rightarrow> pval \<Rightarrow> pval" where
  "get_dflt d k v = (case map_of d k of None \<Rightarrow> v | Some w \<Rightarrow> w)"

definition has_key :: "dict \<Rightarrow> string \<Rightarrow> bool" where
  "has_key d k = (map_of d k \<noteq> None)"

text \<open>\<open>a or b\<close>.\<close>

definition py_or :: "pval \<Rightarrow> pval \<Rightarrow> pval" where
  "py_or a b = (if truthy a then a else b)"

text \<open>
  \<open>(v or {})\<close> used as a mapping (\<open>.get\<close>, \<open>.items()\<close>), and \<open>(v or [])\<close> iterated: a value of
  another type raises, as in the code, unless it is falsy. Iterating a string or a dict
  gives its characters or keys.
\<close>

definition or_dict :: "pval \<Rightarrow> dict res" where
  "or_dict v = (if \<not> truthy v then Inr []
     else case v of PDict d \<Rightarrow> Inr d | _ \<Rightarrow> Inl (AttributeError ''get''))"

definition or_list :: "pval \<Rightarrow> pval list res" where
  "or_list v = (if \<not> truthy v then Inr []
     else case v of PList xs \<Rightarrow> Inr xs
          | PStr s \<Rightarrow> Inr (map (\<lambda>c. PStr [c]) s)
          | PDict d \<Rightarrow> Inr (map (\<lambda>kv. PStr (fst kv)) d)
          | _ \<Rightarrow> Inl (TypeError ''not iterable''))"

text \<open>\<open>int(v)\<close>.\<close>

definition to_int :: "pval \<Rightarrow> int res" where
  "to_int v =
     (case v of
        PInt i \<Rightarrow> Inr i
      | PBool b \<Rightarrow> Inr (if b then 1 else 0)
      | PStr s \<Rightarrow> (case py_int s of Some i \<Rightarrow> Inr i | None \<Rightarrow> Inl (ValueError s))
      | _ \<Rightarrow> Inl (TypeError ''int''))"

text \<open>\<open>str(v)\<close>, and \<open>repr(v)\<close> for the elements of a container.\<close>

definition hex_digit :: "nat \<Rightarrow> char" where
  "hex_digit n = (if n < 10 then char_of (n + 48) else char_of (n + 87))"

definition repr_char :: "char \<Rightarrow> char \<Rightarrow> string" where
  "repr_char q c =
     (if c = q \<or> code c = 92 then [char_of (92::nat), c]
      else if code c = 10 then [char_of (92::nat), CHR ''n'']
      else if code c = 13 then [char_of (92::nat), CHR ''r'']
      else if code c = 9 then [char_of (92::nat), CHR ''t'']
      else if code c < 32 \<or> code c = 127 then
        [char_of (92::nat), CHR ''x'', hex_digit (code c div 16), hex_digit (code c mod 16)]
      else [c])"

definition repr_str :: "string \<Rightarrow> string" where
  "repr_str s =
     (let q = (if CHR 0x27 \<in> set s \<and> CHR 0x22 \<notin> set s then CHR 0x22 else CHR 0x27)
      in [q] @ concat (map (repr_char q) s) @ [q])"

fun py_repr :: "pval \<Rightarrow> string" where
  "py_repr PNone = ''None''"
| "py_repr (PBool b) = (if b then ''True'' else ''False'')"
| "py_repr (PInt i) = int_str i"
| "py_repr (PStr s) = repr_str s"
| "py_repr (PList xs) = ''['' @ join '', '' (map py_repr xs) @ '']''"
| "py_repr (PDict d) = ''{'' @ join '', '' (map (\<lambda>(k, v). repr_str k @ '': '' @ py_repr v) d) @ ''}''"

definition py_str :: "pval \<Rightarrow> string" where
  "py_str v = (case v of PStr s \<Rightarrow> s | _ \<Rightarrow> py_repr v)"

text \<open>
  \<open>==\<close>: a bool equals the int it stands for, and two dicts are equal whatever their order.
\<close>

lemma size_zip_left [termination_simp]:
  "(a, b) \<in> set (zip xs ys) \<Longrightarrow> size a < Suc (size_list size xs)"
  by (drule set_zip_leftD) (simp add: size_list_estimation' less_Suc_eq_le)

fun py_eq :: "pval \<Rightarrow> pval \<Rightarrow> bool" where
  "py_eq PNone PNone = True"
| "py_eq (PBool a) (PBool b) = (a = b)"
| "py_eq (PBool a) (PInt i) = (i = (if a then 1 else 0))"
| "py_eq (PInt i) (PBool a) = (i = (if a then 1 else 0))"
| "py_eq (PInt i) (PInt j) = (i = j)"
| "py_eq (PStr s) (PStr t) = (s = t)"
| "py_eq (PList xs) (PList ys) =
     (length xs = length ys \<and> list_all (\<lambda>(x, y). py_eq x y) (zip xs ys))"
| "py_eq (PDict a) (PDict b) =
     (length a = length b \<and>
      list_all (\<lambda>(k, v). case map_of b k of None \<Rightarrow> False | Some w \<Rightarrow> py_eq v w) a)"
| "py_eq _ _ = False"

definition py_in :: "pval \<Rightarrow> pval list \<Rightarrow> bool" where
  "py_in v vs = list_ex (py_eq v) vs"

text \<open>
  \<open>x in c\<close> for a container \<open>c\<close> read from a file, \<open>sep.join(xs)\<close>, and \<open>sorted(set(xs))\<close>: a
  list or dict cannot be in a set, and values of different kinds cannot be ordered.
\<close>

definition py_member :: "pval \<Rightarrow> pval \<Rightarrow> bool res" where
  "py_member x c = (case c of
       PList xs \<Rightarrow> Inr (py_in x xs)
     | PDict d \<Rightarrow> Inr (case x of PStr k \<Rightarrow> has_key d k | _ \<Rightarrow> False)
     | PStr s \<Rightarrow> (case x of PStr n \<Rightarrow> Inr (contains n s) | _ \<Rightarrow> Inl (TypeError ''in <string>''))
     | _ \<Rightarrow> Inl (TypeError ''not iterable''))"

definition as_str :: "pval \<Rightarrow> string res" where
  "as_str v = (case v of PStr s \<Rightarrow> Inr s | _ \<Rightarrow> Inl (TypeError ''expected str''))"

definition join_vals :: "string \<Rightarrow> pval list \<Rightarrow> string res" where
  "join_vals sep vs = res_bind (res_map as_str vs) (\<lambda>ss. Inr (join sep ss))"

fun hashable :: "pval \<Rightarrow> bool" where
  "hashable (PList _) = False"
| "hashable (PDict _) = False"
| "hashable _ = True"

fun num_val :: "pval \<Rightarrow> int option" where
  "num_val (PInt i) = Some i"
| "num_val (PBool b) = Some (if b then 1 else 0)"
| "num_val _ = None"

fun py_uniq :: "pval list \<Rightarrow> pval list" where
  "py_uniq [] = []"
| "py_uniq (x # xs) = (if py_in x xs then py_uniq xs else x # py_uniq xs)"

definition str_of :: "pval \<Rightarrow> string" where
  "str_of v = (case v of PStr s \<Rightarrow> s | _ \<Rightarrow> [])"

definition sorted_set :: "pval list \<Rightarrow> pval list res" where
  "sorted_set vs =
     (if \<not> list_all hashable vs then Inl (TypeError ''unhashable type'')
      else let us = py_uniq vs in
        if list_all is_str us then Inr (map PStr (sort (map str_of us)))
        else if length us \<le> 1 then Inr us
        else if list_all (\<lambda>v. num_val v \<noteq> None) us then Inr (sort_key (\<lambda>v. the (num_val v)) us)
        else Inl (TypeError ''not ordered''))"

text \<open>Quoted text in a message.\<close>

definition sq :: "string \<Rightarrow> string" where
  "sq s = QUOTE @ s @ QUOTE"

definition dq :: "string \<Rightarrow> string" where
  "dq s = [CHR 0x22] @ s @ [CHR 0x22]"

text \<open>\<open>json.dumps\<close> of ASCII text and of a list or dict of it (other characters stay as they are).\<close>

definition json_char :: "char \<Rightarrow> string" where
  "json_char c =
     (if code c = 34 \<or> code c = 92 then [char_of (92::nat), c]
      else if code c = 10 then [char_of (92::nat), CHR ''n'']
      else if code c = 13 then [char_of (92::nat), CHR ''r'']
      else if code c = 9 then [char_of (92::nat), CHR ''t'']
      else if code c = 8 then [char_of (92::nat), CHR ''b'']
      else if code c = 12 then [char_of (92::nat), CHR ''f'']
      else if code c < 32 then
        [char_of (92::nat), CHR ''u'', CHR ''0'', CHR ''0'', hex_digit (code c div 16), hex_digit (code c mod 16)]
      else [c])"

definition json_str :: "string \<Rightarrow> string" where
  "json_str s = dq (concat (map json_char s))"

fun json_val :: "pval \<Rightarrow> string" where
  "json_val PNone = ''null''"
| "json_val (PBool b) = (if b then ''true'' else ''false'')"
| "json_val (PInt i) = int_str i"
| "json_val (PStr s) = json_str s"
| "json_val (PList xs) = ''['' @ join '', '' (map json_val xs) @ '']''"
| "json_val (PDict d) = ''{'' @ join '', '' (map (\<lambda>(k, v). json_str k @ '': '' @ json_val v) d) @ ''}''"

section \<open>Lemmas\<close>

lemma update_same: "map_of d k = Some v \<Longrightarrow> AList.update k v d = d"
  by (induction d) auto

lemma get_dict_map_of: "get d k = PDict c \<Longrightarrow> map_of d k = Some (PDict c)"
  by (auto simp: get_def split: option.splits)

lemma update_get_dict: "get d k = PDict c \<Longrightarrow> AList.update k (PDict c) d = d"
  by (simp add: get_dict_map_of update_same)

lemma update_get_list: "get d k = PList c \<Longrightarrow> AList.update k (PList c) d = d"
  by (rule update_same) (auto simp: get_def split: option.splits)

lemma py_eq_PStr [simp]: "py_eq (PStr s) v \<longleftrightarrow> v = PStr s" "py_eq v (PStr s) \<longleftrightarrow> v = PStr s"
  by (cases v; auto)+

lemma py_in_PStr [simp]: "py_in (PStr s) vs \<longleftrightarrow> PStr s \<in> set vs"
  by (auto simp: py_in_def list_ex_iff)

lemma py_uniq_strs: "py_uniq (map PStr ss) = map PStr (remdups ss)"
  by (induction ss) (auto simp: image_iff)

lemma sorted_set_strs: "sorted_set (map PStr ss) = Inr (map PStr (sort (remdups ss)))"
  by (simp add: sorted_set_def py_uniq_strs list_all_iff o_def str_of_def Let_def)

lemma as_str_PStr [simp]: "as_str (PStr s) = Inr s"
  by (simp add: as_str_def)

lemma join_vals_strs [simp]: "join_vals sep (map PStr ss) = Inr (join sep ss)"
proof -
  have "res_map as_str (map PStr ss) = Inr ss" by (induction ss) auto
  then show ?thesis by (simp add: join_vals_def)
qed

lemma get_update [simp]: "get (AList.update k v d) k' = (if k' = k then v else get d k')"
  by (simp add: get_def update_conv')

lemma get_delete [simp]: "get (AList.delete k d) k' = (if k' = k then PNone else get d k')"
  by (simp add: get_def delete_conv')

lemma get_dflt_update [simp]: "get_dflt (AList.update k v d) k' w = (if k' = k then v else get_dflt d k' w)"
  by (simp add: get_dflt_def update_conv')

lemma get_dflt_delete [simp]: "get_dflt (AList.delete k d) k' w = (if k' = k then w else get_dflt d k' w)"
  by (simp add: get_dflt_def delete_conv')

lemma has_key_update [simp]: "has_key (AList.update k v d) k' = (k' = k \<or> has_key d k')"
  by (simp add: has_key_def update_conv')

lemma has_key_delete [simp]: "has_key (AList.delete k d) k' = (k' \<noteq> k \<and> has_key d k')"
  by (simp add: has_key_def delete_conv')

lemma delete_absent: "\<not> has_key d k \<Longrightarrow> AList.delete k d = d"
  by (simp add: has_key_def map_of_eq_None_iff delete_id)

lemma get_absent: "\<not> has_key d k \<Longrightarrow> get d k = PNone"
  by (simp add: has_key_def get_def)

lemma truthy_has_key: "truthy (get d k) \<Longrightarrow> has_key d k"
  by (auto simp: get_def has_key_def split: option.splits)

lemma is_dict_conv: "is_dict v \<longleftrightarrow> (\<exists>d. v = PDict d)"
  by (cases v) auto

lemma contains_iff_sublist: "contains n s \<longleftrightarrow> sublist n s"
  by (induction s) (auto simp: sublist_Cons_right)

lemma contains_refl [simp]: "contains s s"
  by (simp add: contains_iff_sublist)

lemma words_acc_nonempty: "w \<in> set (words_acc acc s) \<Longrightarrow> w \<noteq> []"
  by (induction s arbitrary: acc) (auto split: if_splits)

lemma words_nonempty: "w \<in> set (words s) \<Longrightarrow> w \<noteq> []"
  by (simp add: words_def words_acc_nonempty)

text \<open>A token: a non-empty text without blanks.\<close>

definition token :: "string \<Rightarrow> bool" where
  "token w = (w \<noteq> [] \<and> (\<forall>c \<in> set w. \<not> is_space c))"

lemma words_acc_no_space:
  "\<forall>c \<in> set acc. \<not> is_space c \<Longrightarrow> w \<in> set (words_acc acc s) \<Longrightarrow> c \<in> set w \<Longrightarrow> \<not> is_space c"
proof (induction s arbitrary: acc)
  case Nil
  then show ?case by (auto split: if_splits)
next
  case (Cons x s)
  have "w = acc \<or> w \<in> set (words_acc [] s) \<or> (\<not> is_space x \<and> w \<in> set (words_acc (acc @ [x]) s))"
    using Cons.prems(2) by (auto split: if_splits)
  then show ?case
  proof (elim disjE conjE)
    assume "w = acc" then show ?thesis using Cons.prems by blast
  next
    assume "w \<in> set (words_acc [] s)" then show ?thesis using Cons.IH [of "[]"] Cons.prems(3) by simp
  next
    assume "\<not> is_space x" "w \<in> set (words_acc (acc @ [x]) s)"
    then show ?thesis using Cons.IH [of "acc @ [x]"] Cons.prems(1,3) by simp
  qed
qed

lemma words_token_mem [intro]: "w \<in> set (words s) \<Longrightarrow> token w"
  using words_acc_no_space [of "[]" w s] words_nonempty [of w s]
  by (auto simp: token_def words_def)

lemma words_acc_append:
  "\<forall>c \<in> set w. \<not> is_space c \<Longrightarrow> words_acc acc (w @ s) = words_acc (acc @ w) s"
  by (induction w arbitrary: acc) auto

lemma words_token [text_simps]:
  "token w \<Longrightarrow> words w = [w]"
  using words_acc_append [of w "[]" "[]"] by (simp add: words_def token_def)

lemma words_token_space [text_simps]:
  "token w \<Longrightarrow> is_space c \<Longrightarrow> words (w @ c # s) = w # words s"
  by (simp add: words_def token_def words_acc_append)

lemma words_space [text_simps]: "is_space c \<Longrightarrow> words (c # s) = words s"
  by (simp add: words_def)

lemma words_Nil [simp]: "words [] = []"
  by (simp add: words_def)

lemma is_space_blank [simp]: "is_space CHR '' ''" "is_space CHR 0x09" "is_space CHR 0x0A"
  by (simp_all add: is_space_def code_def)

lemma words_join_blank:
  "(\<And>w. w \<in> set ws \<Longrightarrow> token w) \<Longrightarrow> words (join '' '' ws) = ws"
proof (induction ws rule: induct_list012)
  case 1
  then show ?case by simp
next
  case (2 x)
  then show ?case by (simp add: words_token)
next
  case (3 x y zs)
  then have "words (join '' '' (y # zs)) = y # zs" by simp
  with 3 show ?case by (simp add: words_token_space)
qed

lemma words_idem: "words (join '' '' (words s)) = words s"
  by (rule words_join_blank) (rule words_token_mem)

lemma lines_acc_append:
  "line_ok l \<Longrightarrow> lines_acc acc (l @ s) = lines_acc (acc @ l) s"
  by (induction l arbitrary: acc) (auto simp: line_ok_def)

lemma is_break_NL [simp]: "is_break CHR 0x0A"
  by (simp add: is_break_def code_def)

lemma lines_acc_NL: "lines_acc acc (CHR 0x0A # s) = acc # lines_acc [] s"
  by (cases s) (auto simp: code_def)

lemma splitlines_Nil [simp]: "splitlines [] = []"
  by (simp add: splitlines_def)

lemma splitlines_Cons_line [text_simps]:
  "line_ok l \<Longrightarrow> splitlines (l @ NL @ s) = l # splitlines s"
  by (simp add: splitlines_def lines_acc_append NL_def lines_acc_NL del: lines_acc.simps)

lemma splitlines_line [text_simps]: "line_ok l \<Longrightarrow> l \<noteq> [] \<Longrightarrow> splitlines l = [l]"
  using lines_acc_append [of l "[]" "[]"] by (simp add: splitlines_def)

lemma line_ok_lines_acc: "line_ok acc \<Longrightarrow> l \<in> set (lines_acc acc s) \<Longrightarrow> line_ok l"
proof (induction acc s rule: lines_acc.induct)
  case (1 acc)
  then show ?case by (auto split: if_splits)
next
  case (2 acc c cs)
  then show ?case
    by (cases cs) (auto simp: line_ok_def split: if_splits)
qed

lemma line_ok_splitlines: "l \<in> set (splitlines s) \<Longrightarrow> line_ok l"
  unfolding splitlines_def by (rule line_ok_lines_acc) (auto simp: line_ok_def)

text \<open>
  What the code writes with \<open>"\\n".join(lines) + "\\n"\<close> it reads back with \<open>splitlines()\<close>;
  the empty file is the exception, which comes back as one empty line.
\<close>

lemma splitlines_unlines [text_simps]:
  assumes "\<And>l. l \<in> set ls \<Longrightarrow> line_ok l"
  shows "splitlines (unlines ls) = (if ls = [] then [[]] else ls)"
  using assms
proof (induction ls rule: induct_list012)
  case 1
  then show ?case using splitlines_Cons_line [of "[]" "[]"] by (simp add: unlines_def line_ok_def)
next
  case (2 x)
  then show ?case using splitlines_Cons_line [of x "[]"] by (simp add: unlines_def)
next
  case (3 x y zs)
  then show ?case
    using splitlines_Cons_line [of x "unlines (y # zs)"] by (simp add: unlines_def)
qed

lemma splitlines_append_line:
  "line_ok l \<Longrightarrow> (\<And>x. x \<in> set ls \<Longrightarrow> line_ok x) \<Longrightarrow>
   splitlines (concat (map (\<lambda>x. x @ NL) ls) @ l @ NL) = ls @ [l]"
  using splitlines_Cons_line [of l "[]"] by (induction ls) (auto simp: splitlines_Cons_line)

lemma split_ch_nonempty [simp]: "split_ch c s \<noteq> []"
  by (induction s) (auto split: list.splits)

lemma split_ch_join: "join [c] (split_ch c s) = s"
proof (induction s)
  case Nil
  then show ?case by simp
next
  case (Cons x xs)
  obtain w ws where "split_ch c xs = w # ws"
    by (meson neq_Nil_conv split_ch_nonempty)
  with Cons show ?case by (cases ws) auto
qed

lemma split_ch_append: "split_ch c (a @ c # b) = split_ch c a @ split_ch c b"
  by (induction a) (auto split: list.splits)

lemma join_append: "xs \<noteq> [] \<Longrightarrow> ys \<noteq> [] \<Longrightarrow> join sep (xs @ ys) = join sep xs @ sep @ join sep ys"
proof (induction xs rule: induct_list012)
  case (2 x)
  then show ?case by (cases ys) auto
qed auto

lemma split_ch_token: "c \<notin> set s \<Longrightarrow> split_ch c s = [s]"
  by (induction s) auto

lemma nat_str_digits: "c \<in> set (nat_str n) \<Longrightarrow> is_digit c"
proof (induction n rule: nat_str.induct)
  case (1 n)
  then show ?case
    by (subst (asm) nat_str.simps)
       (auto simp: is_digit_def code_def split: if_splits)
qed

lemma nat_str_nonempty [simp]: "nat_str n \<noteq> []"
  by (subst nat_str.simps) simp

lemma digits_val_append:
  "digits_val n (s @ t) = (case digits_val n s of None \<Rightarrow> None | Some m \<Rightarrow> digits_val m t)"
  by (induction s arbitrary: n) auto

lemma digits_val_nat_str [simp]: "digits_val 0 (nat_str n) = Some n"
proof (induction n rule: nat_str.induct)
  case (1 n)
  have d: "digits_val m [char_of (k + 48 :: nat)] = Some (10 * m + k)" if "k < 10" for m k
    using that by (simp add: is_digit_def code_def)
  show ?case
  proof (cases "n < 10")
    case True
    then show ?thesis using d [of n 0] by (subst nat_str.simps) simp
  next
    case False
    with 1 d [of "n mod 10" "n div 10"] show ?thesis
      by (subst nat_str.simps) (simp add: digits_val_append)
  qed
qed

lemma uint_str_nat: "uint_str (int n) = nat_str n"
proof (induction n rule: nat_str.induct)
  case (1 n)
  then show ?case
    by (subst nat_str.simps, subst uint_str.simps) (auto simp: nat_mod_distrib zdiv_int zmod_int)
qed

lemma int_str_nat: "int_str (int n) = nat_str n"
  by (simp add: int_str_def uint_str_nat)

lemma int_str_chars: "c \<in> set (int_str i) \<Longrightarrow> is_digit c \<or> c = CHR ''-''"
proof -
  have u: "c \<in> set (uint_str j) \<Longrightarrow> 0 \<le> j \<Longrightarrow> is_digit c" for j
    using uint_str_nat [of "nat j"] nat_str_digits [of c "nat j"] by simp
  assume "c \<in> set (int_str i)"
  then show ?thesis using u [of i] u [of "- i"] by (auto simp: int_str_def split: if_splits)
qed

lemma nat_str_inject: "nat_str m = nat_str n \<longleftrightarrow> m = n"
  by (metis digits_val_nat_str option.inject)

end
