(* ===== verification/Addon_Registry.thy ===== *)
theory Addon_Registry
  imports Py_Base
begin

text \<open>
  \<open>libs/apps.py\<close>, the registry of the \<open>install_<addon>\<close> executables, with the placement kinds
  of \<open>libs/targets.py\<close>.

  \<^item> Finding them: \<open>addon_files\<close>, over the listing of a directory, and \<open>addon_installer\<close>.
  \<^item> Asking them: \<open>describe_many\<close> with its cache. Running \<open>--schema json\<close>, the file
    signature, the hash of a path and \<open>os.path.realpath\<close> are parameters.
  \<^item> The shape of an \<open>addons\<close> entry, and the names a lab definition refers to.
  \<^item> The placement rules: \<open>supports\<close>, \<open>requirement_issue\<close>, \<open>check_requirements\<close>.
\<close>

section \<open>Placement kinds (libs/targets.py)\<close>

definition TARGET_BAREMETAL :: string where
  "TARGET_BAREMETAL = ''baremetal''"

definition TARGET_VM :: string where
  "TARGET_VM = ''vm''"

definition TARGET_CONTAINER :: string where
  "TARGET_CONTAINER = ''container''"

definition is_existing_node :: "pval \<Rightarrow> bool res" where
  "is_existing_node node_cfg = res_bind (or_dict node_cfg) (\<lambda>c. Inr (truthy (get c ''existing'')))"

definition node_kind :: "dict \<Rightarrow> string \<Rightarrow> string res" where
  "node_kind defn node =
     res_bind (or_dict (get_dflt defn ''nodes'' (PDict []))) (\<lambda>nodes.
     res_bind (is_existing_node (py_or (get_dflt nodes node (PDict [])) (PDict []))) (\<lambda>ex.
     Inr (if ex then TARGET_BAREMETAL else TARGET_VM)))"

section \<open>Finding the executables\<close>

text \<open>\<open>os.path.basename\<close> and \<open>os.path.join\<close>.\<close>

definition basename :: "string \<Rightarrow> string" where
  "basename p = rev (takeWhile (\<lambda>c. c \<noteq> CHR ''/'') (rev p))"

definition path_join :: "string \<Rightarrow> string \<Rightarrow> string" where
  "path_join d f = (if starts_with f ''/'' then f else if d = [] \<or> ends_with d ''/'' then d @ f
                    else d @ ''/'' @ f)"

definition addon_name :: "string \<Rightarrow> string" where
  "addon_name filename = takeWhile (\<lambda>c. c \<noteq> CHR ''.'') (basename filename)"

text \<open>
  A directory is its listing: file name and \<open>isfile\<close>; None when it is no directory.
\<close>

fun addon_files_from :: "string \<Rightarrow> (string \<times> bool) list \<Rightarrow> (string \<times> string) list \<Rightarrow> (string \<times> string) list" where
  "addon_files_from dir [] found = found"
| "addon_files_from dir ((fname, isfile) # rest) found =
     addon_files_from dir rest
       (if starts_with fname ''install_'' \<and> isfile
        then AList.update (addon_name fname) (path_join dir fname) found else found)"

definition addon_files :: "(string \<Rightarrow> (string \<times> bool) list option) \<Rightarrow> string \<Rightarrow> (string \<times> string) list" where
  "addon_files fs dir =
     (case fs dir of None \<Rightarrow> [] | Some listing \<Rightarrow> addon_files_from dir (sort_key fst listing) [])"

definition addon_installer ::
  "(string \<Rightarrow> (string \<times> bool) list option) \<Rightarrow> (string \<Rightarrow> bool) \<Rightarrow> (string \<Rightarrow> string option) \<Rightarrow> string
   \<Rightarrow> string \<Rightarrow> string option" where
  "addon_installer fs executable which own_dir name =
     (case map_of (addon_files fs own_dir) (''install_'' @ name) of
        Some path \<Rightarrow> if path \<noteq> [] \<and> executable path then Some path else which (''install_'' @ name)
      | None \<Rightarrow> which (''install_'' @ name))"

section \<open>Asking them\<close>

text \<open>
  \<open>describe_many\<close>: the cache is the parsed \<open>addons.json\<close>. \<open>key\<close> is the hash of the path,
  \<open>sig\<close> the signature of the files the output depends on, \<open>run\<close> the output of
  \<open>--schema json\<close> (the empty dict when there is none). The first pass sorts the paths into
  cached results and work to do, the second stores what was run.
\<close>

fun describe_split ::
  "(string \<Rightarrow> string) \<Rightarrow> (string \<Rightarrow> pval) \<Rightarrow> dict \<Rightarrow> string list \<Rightarrow> (string \<times> pval) list \<Rightarrow> string list
   \<Rightarrow> ((string \<times> pval) list \<times> string list) res" where
  "describe_split key sig cache [] result todo = Inr (result, todo)"
| "describe_split key sig cache (p # ps) result todo =
     (let entry = get cache (key p) in
      if truthy entry then
        (case entry of
           PDict e \<Rightarrow>
             if py_eq (get e ''sig'') (sig p) then
               (case map_of e ''out'' of
                  None \<Rightarrow> Inl (KeyError ''out'')
                | Some out \<Rightarrow> describe_split key sig cache ps (AList.update p out result) todo)
             else describe_split key sig cache ps result (todo @ [p])
         | _ \<Rightarrow> Inl (AttributeError ''get''))
      else describe_split key sig cache ps result (todo @ [p]))"

fun describe_store ::
  "(string \<Rightarrow> string) \<Rightarrow> (string \<Rightarrow> pval) \<Rightarrow> (string \<Rightarrow> dict) \<Rightarrow> string list \<Rightarrow> (string \<times> pval) list \<times> dict
   \<Rightarrow> (string \<times> pval) list \<times> dict" where
  "describe_store key sig run [] (result, cache) = (result, cache)"
| "describe_store key sig run (p # ps) (result, cache) =
     describe_store key sig run ps
       (AList.update p (PDict (run p)) result,
        if run p \<noteq> [] then AList.update (key p) (PDict [(''sig'', sig p), (''out'', PDict (run p))]) cache
        else cache)"

definition describe_many ::
  "(string \<Rightarrow> string) \<Rightarrow> (string \<Rightarrow> string) \<Rightarrow> (string \<Rightarrow> pval) \<Rightarrow> (string \<Rightarrow> dict) \<Rightarrow> dict \<Rightarrow> string list
   \<Rightarrow> ((string \<times> pval) list \<times> dict) res" where
  "describe_many realpath key sig run cache paths =
     res_bind (describe_split key sig cache (map realpath paths) [] []) (\<lambda>(result, todo).
     Inr (describe_store key sig run todo (result, cache)))"

definition describe ::
  "(string \<Rightarrow> string) \<Rightarrow> (string \<Rightarrow> string) \<Rightarrow> (string \<Rightarrow> pval) \<Rightarrow> (string \<Rightarrow> dict) \<Rightarrow> dict \<Rightarrow> string
   \<Rightarrow> (pval \<times> dict) res" where
  "describe realpath key sig run cache path =
     res_bind (describe_many realpath key sig run cache [realpath path]) (\<lambda>(result, cache').
     (case map_of result (realpath path) of None \<Rightarrow> Inl (KeyError path) | Some v \<Rightarrow> Inr (v, cache')))"

definition DEFAULT_PLUGIN :: dict where
  "DEFAULT_PLUGIN =
     [(''name'', PNone), (''targets'', PList [PStr ''container'']), (''layers'', PList [PStr ''kubernetes'']),
      (''requires_kubernetes'', PNone), (''requires_cluster'', PList []), (''provides_cluster'', PList []),
      (''aux_services'', PList [])]"

definition update_all :: "dict \<Rightarrow> dict \<Rightarrow> dict" where
  "update_all new d = fold (\<lambda>(k, v). AList.update k v) new d"

definition load_plugin_from_path ::
  "(string \<Rightarrow> bool) \<Rightarrow> (string \<Rightarrow> dict) \<Rightarrow> string option \<Rightarrow> pval \<Rightarrow> dict" where
  "load_plugin_from_path isfile desc path name =
     (let plugin = AList.update ''name'' name DEFAULT_PLUGIN in
      case path of None \<Rightarrow> plugin
      | Some p \<Rightarrow>
          if p = [] \<or> \<not> isfile p then plugin
          else (case get (desc p) ''capabilities'' of
                  PDict caps \<Rightarrow> if caps \<noteq> [] then update_all caps plugin else plugin
                | _ \<Rightarrow> plugin))"

text \<open>\<open>load_plugin\<close> with its module-level cache, which lives as long as the process.\<close>

definition load_plugin ::
  "(string \<Rightarrow> string option) \<Rightarrow> (string option \<Rightarrow> pval \<Rightarrow> dict) \<Rightarrow> string \<Rightarrow> (string \<times> dict) list
   \<Rightarrow> dict \<times> (string \<times> dict) list" where
  "load_plugin installer from_path name cache =
     (case map_of cache name of
        Some p \<Rightarrow> (p, cache)
      | None \<Rightarrow> (let plugin = from_path (installer name) (PStr name) in (plugin, AList.update name plugin cache)))"

section \<open>addons entries\<close>

text \<open>
  An entry is a name or a mapping with the name as its only key. Whatever else it is, the code
  takes it for a name, so the result is a value.
\<close>

definition addon_entry_name :: "pval \<Rightarrow> pval res" where
  "addon_entry_name entry =
     (case entry of
        PDict d \<Rightarrow>
          (case d of
             [(k, v)] \<Rightarrow> Inr (PStr k)
           | _ \<Rightarrow> Inl (SystemExit (''addons[] entry '' @ py_repr entry @
                     '' must have exactly one key (the addon name) '' @ emdash @ '' got '' @ nat_str (length d))))
      | _ \<Rightarrow> Inr entry)"

definition addon_entry_overrides :: "pval \<Rightarrow> pval res" where
  "addon_entry_overrides entry =
     (case entry of
        PDict d \<Rightarrow> res_bind (addon_entry_name entry) (\<lambda>k. Inr (py_or (get d (str_of k)) (PDict [])))
      | _ \<Rightarrow> Inr (PDict []))"

definition owner_addons :: "pval \<Rightarrow> pval list res" where
  "owner_addons owner = res_bind (or_dict owner) (\<lambda>c. or_list (get c ''addons''))"

definition owner_addon_names :: "pval \<Rightarrow> pval list res" where
  "owner_addon_names owner = res_bind (owner_addons owner) (res_map addon_entry_name)"

definition collect_addon_names :: "dict \<Rightarrow> pval list res" where
  "collect_addon_names defn =
     res_bind (or_dict (get_dflt defn ''kclusters'' (PDict []))) (\<lambda>clus.
     res_bind (res_map (\<lambda>(_, c). owner_addon_names c) clus) (\<lambda>a.
     res_bind (or_dict (get_dflt defn ''nodes'' (PDict []))) (\<lambda>nodes.
     res_bind (res_map (\<lambda>(_, c). owner_addon_names c) nodes) (\<lambda>b.
     sorted_set (concat a @ concat b)))))"

definition attach_capabilities :: "dict \<Rightarrow> dict \<Rightarrow> dict" where
  "attach_capabilities schema plugin =
     (let lst = (\<lambda>k. (k, py_or (get plugin k) (PList []))) in
      AList.update ''capabilities''
        (PDict [lst ''targets'', lst ''layers'',
                (''requires_kubernetes'', get plugin ''requires_kubernetes''),
                lst ''requires_cluster'', lst ''provides_cluster'', lst ''aux_services'',
                (''versions'', py_or (get plugin ''versions'') (PDict [])),
                (''check'', PBool (truthy (get plugin ''check''))),
                (''status'', py_or (get plugin ''status'') (PStr ''stable'')),
                (''status_note'', py_or (get plugin ''status_note'') (PStr []))])
        schema)"

definition status_warning :: "dict \<Rightarrow> string" where
  "status_warning plugin =
     (if py_or (get plugin ''status'') (PStr ''stable'') \<noteq> PStr ''under-construction'' then []
      else ''addon '' @ sq (py_str (py_or (get plugin ''name'') (PStr ''?''))) @
           '' is UNDER CONSTRUCTION and may not work: '' @
           py_str (py_or (get plugin ''status_note'') (PStr ''no details given'')))"

section \<open>Placement rules\<close>

definition supports :: "dict \<Rightarrow> string \<Rightarrow> bool res" where
  "supports plugin kind = py_member (PStr kind) (py_or (get plugin ''targets'') (PList []))"

definition NEEDS_TEXT :: "(string \<times> (string \<times> string)) list" where
  "NEEDS_TEXT = [(''ingress'', (''an ingress controller'', ''clu_ingress'')),
                 (''storageclass'', (''a default storage class'', ''clu_storage''))]"

definition need_issue :: "pval \<Rightarrow> string" where
  "need_issue need =
     (let (what, field) = (case map_of NEEDS_TEXT (str_of need) of None \<Rightarrow> (py_str need, []) | Some p \<Rightarrow> p) in
      ''needs '' @ what @ '' and this kcluster has none '' @ emdash @ '' set '' @
      (if field = [] then py_str need else field) @ '' on it, or add an add-on that provides '' @ sq (py_str need))"

fun first_missing :: "string list \<Rightarrow> pval list \<Rightarrow> string option res" where
  "first_missing provides [] = Inr None"
| "first_missing provides (need # rest) =
     (if \<not> hashable need then Inl (TypeError ''unhashable type'')
      else if need \<in> PStr ` set provides then first_missing provides rest
      else Inr (Some (need_issue need)))"

definition requirement_issue :: "dict \<Rightarrow> string \<Rightarrow> pval \<Rightarrow> string list option \<Rightarrow> string option res" where
  "requirement_issue plugin kind clu_type provides =
     res_bind (supports plugin kind) (\<lambda>ok.
     if \<not> ok then
       res_bind (or_list (get plugin ''targets'')) (\<lambda>ts.
       res_bind (join_vals '', '' ts) (\<lambda>txt.
       Inr (Some (''does not support target '' @ sq kind @ '' '' @ emdash @ '' supported: '' @
                  (if txt = [] then ''none'' else txt)))))
     else if kind \<noteq> TARGET_CONTAINER then Inr None
     else
       (let required = get plugin ''requires_kubernetes'' in
        res_bind (if truthy required then py_member clu_type required else Inr True) (\<lambda>fits.
        if \<not> fits then
          Inr (Some (''requires a Kubernetes distribution in '' @ py_str required @ '' '' @ emdash @
                     '' cluster is '' @ sq (py_str clu_type)))
        else (case provides of None \<Rightarrow> Inr None
              | Some ps \<Rightarrow> res_bind (or_list (get plugin ''requires_cluster'')) (first_missing ps)))))"

definition check_requirements :: "dict \<Rightarrow> string \<Rightarrow> pval \<Rightarrow> string list option \<Rightarrow> unit res" where
  "check_requirements plugin kind clu_type provides =
     res_bind (requirement_issue plugin kind clu_type provides) (\<lambda>issue.
     case issue of
       Some msg \<Rightarrow> if msg \<noteq> [] then Inl (SystemExit (''Addon '' @ sq (py_str (py_or (get plugin ''name'') (PStr ''?''))) @ '' '' @ msg))
                   else Inr ()
     | None \<Rightarrow> Inr ())"

section \<open>Lemmas\<close>

lemma addon_entry_name_str [simp]: "addon_entry_name (PStr s) = Inr (PStr s)"
  by (simp add: addon_entry_name_def)

lemma addon_entry_name_single [simp]: "addon_entry_name (PDict [(k, v)]) = Inr (PStr k)"
  by (simp add: addon_entry_name_def)

lemma addon_entry_name_multi:
  "length d \<noteq> 1 \<Longrightarrow> \<exists>m. addon_entry_name (PDict d) = Inl (SystemExit m)"
  by (auto simp: addon_entry_name_def split: list.splits)

text \<open>The winner of a run of updates under one key is the last file.\<close>

definition names_addon :: "string \<Rightarrow> string \<times> bool \<Rightarrow> bool" where
  "names_addon n x = (starts_with (fst x) ''install_'' \<and> snd x \<and> addon_name (fst x) = n)"

lemma addon_files_from_get:
  "map_of (addon_files_from dir ls found) n =
     (case filter (names_addon n) ls of
        [] \<Rightarrow> map_of found n
      | m # ms \<Rightarrow> Some (path_join dir (fst (last (m # ms)))))"
proof (induction ls arbitrary: found)
  case Nil
  show ?case by simp
next
  case (Cons x rest)
  obtain f b where x: "x = (f, b)" by fastforce
  define found' where
    "found' = (if starts_with f ''install_'' \<and> b then AList.update (addon_name f) (path_join dir f) found else found)"
  have step: "addon_files_from dir (x # rest) found = addon_files_from dir rest found'"
    by (simp add: x found'_def)
  have get: "map_of found' n = (if names_addon n x then Some (path_join dir f) else map_of found n)"
    by (simp add: found'_def names_addon_def x update_conv')
  show ?case unfolding step Cons.IH get by (auto simp: x split: list.splits)
qed

lemma addon_files_mem:
  assumes "fs dir = Some ls" and "map_of (addon_files fs dir) n = Some p"
  shows "\<exists>x \<in> set ls. names_addon n x \<and> p = path_join dir (fst x) \<and>
     (\<forall>y \<in> set ls. names_addon n y \<longrightarrow> fst y \<le> fst x)"
proof -
  define ms where "ms = filter (names_addon n) (sort_key fst ls)"
  have ne: "ms \<noteq> []" and p: "p = path_join dir (fst (last ms))"
    using assms by (auto simp: addon_files_def addon_files_from_get ms_def split: list.splits)
  have srt: "sorted (map fst ms)"
    unfolding ms_def by (intro sorted_filter) simp
  have top: "fst y \<le> fst (last ms)" if "y \<in> set ms" for y
    using that srt
  proof (induction ms)
    case (Cons m ms)
    then show ?case by (cases "ms = []") auto
  qed simp
  have "last ms \<in> set ms" using ne by simp
  then have "last ms \<in> set ls" "names_addon n (last ms)" by (simp_all add: ms_def)
  moreover have "fst y \<le> fst (last ms)" if "y \<in> set ls" "names_addon n y" for y
    by (rule top) (simp add: ms_def that)
  ultimately show ?thesis using p by blast
qed

text \<open>A cache whose entries, where the signature still fits, hold what the add-on would print.\<close>

definition cache_ok ::
  "(string \<Rightarrow> string) \<Rightarrow> (string \<Rightarrow> pval) \<Rightarrow> (string \<Rightarrow> dict) \<Rightarrow> string list \<Rightarrow> dict \<Rightarrow> bool" where
  "cache_ok key sig run ps cache = list_all (\<lambda>p.
     case get cache (key p) of
       PDict e \<Rightarrow> e = [] \<or> (py_eq (get e ''sig'') (sig p) \<longrightarrow> map_of e ''out'' = Some (PDict (run p)))
     | v \<Rightarrow> \<not> truthy v) ps"

lemma cache_ok_update:
  assumes "cache_ok key sig run ps cache" and "inj_on key (set ps)" and "p \<in> set ps"
  shows "cache_ok key sig run ps (AList.update (key p) (PDict [(''sig'', sig p), (''out'', PDict (run p))]) cache)"
  using assms unfolding cache_ok_def list_all_iff
  by (auto simp: inj_on_def split: pval.splits)

lemma describe_split_ok:
  assumes "cache_ok key sig run S cache" and "set ps \<subseteq> set S"
    and "\<And>p v. map_of result p = Some v \<Longrightarrow> v = PDict (run p)"
  shows "\<exists>result' todo'. describe_split key sig cache ps result todo = Inr (result', todo') \<and>
     (\<forall>p v. map_of result' p = Some v \<longrightarrow> v = PDict (run p)) \<and> set todo' \<subseteq> set todo \<union> set ps \<and>
     set todo \<subseteq> set todo' \<and> dom (map_of result) \<subseteq> dom (map_of result') \<and>
     set ps \<subseteq> dom (map_of result') \<union> set todo'"
  using assms(2,3)
proof (induction ps arbitrary: result todo)
  case Nil
  then show ?case by auto
next
  case (Cons p ps)
  show ?case
  proof (cases "\<exists>e. get cache (key p) = PDict e \<and> e \<noteq> [] \<and> py_eq (get e ''sig'') (sig p)")
    case True
    then obtain e where e: "get cache (key p) = PDict e" "e \<noteq> []" "py_eq (get e ''sig'') (sig p)" by blast
    have "map_of e ''out'' = Some (PDict (run p))"
      using assms(1) Cons.prems(1) e by (auto simp: cache_ok_def list_all_iff)
    then have step: "describe_split key sig cache (p # ps) result todo =
        describe_split key sig cache ps (AList.update p (PDict (run p)) result) todo"
      using e by (simp add: Let_def)
    have good: "v = PDict (run q)" if "map_of (AList.update p (PDict (run p)) result) q = Some v" for q v
      using that Cons.prems(2) by (simp add: update_conv' split: if_splits)
    obtain result' todo' where r:
      "describe_split key sig cache ps (AList.update p (PDict (run p)) result) todo = Inr (result', todo')"
      "\<forall>p v. map_of result' p = Some v \<longrightarrow> v = PDict (run p)" "set todo' \<subseteq> set todo \<union> set ps"
      "set todo \<subseteq> set todo'" "dom (map_of (AList.update p (PDict (run p)) result)) \<subseteq> dom (map_of result')"
      "set ps \<subseteq> dom (map_of result') \<union> set todo'"
      using Cons.IH [of "AList.update p (PDict (run p)) result" todo, OF _ good] Cons.prems(1) by auto
    from r(5) have d: "p \<in> dom (map_of result')" "dom (map_of result) \<subseteq> dom (map_of result')"
      by (simp_all add: update_conv')
    show ?thesis
      unfolding step by (intro exI conjI, rule r(1)) (use r d in auto)
  next
    case False
    have "truthy (get cache (key p)) \<longrightarrow> (\<exists>e. get cache (key p) = PDict e)"
      using assms(1) Cons.prems(1) by (cases "get cache (key p)") (auto simp: cache_ok_def list_all_iff)
    with False have step: "describe_split key sig cache (p # ps) result todo =
        describe_split key sig cache ps result (todo @ [p])"
      by (auto simp: Let_def split: pval.splits)
    show ?thesis
      unfolding step using Cons.IH [of result "todo @ [p]"] Cons.prems by auto
  qed
qed

lemma describe_store_ok:
  assumes "cache_ok key sig run S cache" and "set ps \<subseteq> set S" and "inj_on key (set S)"
    and "describe_store key sig run ps (result, cache) = (result', cache')"
    and "\<And>p v. map_of result p = Some v \<Longrightarrow> v = PDict (run p)"
  shows "cache_ok key sig run S cache' \<and> (\<forall>p v. map_of result' p = Some v \<longrightarrow> v = PDict (run p)) \<and>
     dom (map_of result') = dom (map_of result) \<union> set ps"
  using assms(1,2,4,5)
proof (induction ps arbitrary: result cache)
  case Nil
  then show ?case by auto
next
  case (Cons p ps)
  let ?c = "if run p \<noteq> [] then AList.update (key p) (PDict [(''sig'', sig p), (''out'', PDict (run p))]) cache else cache"
  have c: "cache_ok key sig run S ?c"
    using cache_ok_update [OF Cons.prems(1) assms(3)] Cons.prems by auto
  have r: "v = PDict (run q)" if "map_of (AList.update p (PDict (run p)) result) q = Some v" for q v
    using that Cons.prems(4) by (auto simp: update_conv' split: if_splits)
  have "describe_store key sig run ps (AList.update p (PDict (run p)) result, ?c) = (result', cache')"
    using Cons.prems(3) by simp
  from Cons.IH [OF c _ this r] Cons.prems(2) show ?case
    by (auto simp: update_conv')
qed

lemma requirement_container:
  assumes "get plugin ''targets'' = PList (map PStr ts)"
    and "get plugin ''requires_kubernetes'' = PList (map PStr rk) \<or> get plugin ''requires_kubernetes'' = PNone \<and> rk = []"
    and "get plugin ''requires_cluster'' = PList (map PStr needs)"
  shows "requirement_issue plugin kind (PStr c) (Some ps) = Inr None \<longleftrightarrow>
     kind \<in> set ts \<and> (kind = ''container'' \<longrightarrow> (rk = [] \<or> c \<in> set rk) \<and> set needs \<subseteq> set ps)"
proof -
  have fm: "first_missing ps (map PStr xs) = Inr None \<longleftrightarrow> set xs \<subseteq> set ps" for xs
    by (induction xs) (auto simp: image_iff)
  have sup: "supports plugin kind = Inr (kind \<in> set ts)"
    using assms(1) by (simp add: supports_def py_or_def py_member_def image_iff)
  have ol: "or_list (PList xs) = Inr xs" for xs by (simp add: or_list_def)
  have req: "(if truthy (get plugin ''requires_kubernetes'') then py_member (PStr c) (get plugin ''requires_kubernetes'')
      else Inr True) = Inr (rk = [] \<or> c \<in> set rk)"
    using assms(2) by (auto simp: py_member_def image_iff)
  show ?thesis
  proof (cases "kind \<in> set ts")
    case False
    then show ?thesis by (simp add: requirement_issue_def sup assms(1) ol)
  next
    case True
    show ?thesis
    proof (cases "kind = TARGET_CONTAINER")
      case False
      with True show ?thesis by (simp add: requirement_issue_def sup TARGET_CONTAINER_def)
    next
      case k: True
      show ?thesis
      proof (cases "rk = [] \<or> c \<in> set rk")
        case True
        then have "requirement_issue plugin kind (PStr c) (Some ps) = first_missing ps (map PStr needs)"
          using \<open>kind \<in> set ts\<close> k sup by (simp only: requirement_issue_def req Let_def) (simp add: assms(3) ol)
        with True \<open>kind \<in> set ts\<close> k show ?thesis by (simp only: fm) (simp add: TARGET_CONTAINER_def)
      next
        case False
        then show ?thesis
          using \<open>kind \<in> set ts\<close> k sup
          by (simp only: requirement_issue_def req Let_def) (simp add: TARGET_CONTAINER_def)
      qed
    qed
  qed
qed

section \<open>Properties\<close>

text \<open>Finding an add-on: the file \<open>addon_files\<close> picks for a name is an existing
  \<open>install_\<close> file of that name, and of several the last one in sorted order.\<close>

theorem addon_files_last_wins:
  assumes "fs dir = Some ls" and "map_of (addon_files fs dir) n = Some p"
  shows "\<exists>x \<in> set ls. names_addon n x \<and> p = path_join dir (fst x) \<and>
     (\<forall>y \<in> set ls. names_addon n y \<longrightarrow> fst y \<le> fst x)"
  using assms by (rule addon_files_mem)

theorem addon_files_last_wins_witness:
  "map_of (addon_files (\<lambda>d. Some [(''install_x.sh'', True), (''install_x'', True)]) ''d'') ''install_x'' = Some ''d/install_x.sh''
   \<and> (\<exists>x \<in> set [(''install_x.sh'', True), (''install_x'', True)].
         names_addon ''install_x'' x \<and> ''d/install_x.sh'' = path_join ''d'' (fst x) \<and>
         (\<forall>y \<in> set [(''install_x.sh'', True), (''install_x'', True)]. names_addon ''install_x'' y \<longrightarrow> fst y \<le> fst x))"
proof -
  have a: "map_of (addon_files (\<lambda>d. Some [(''install_x.sh'', True), (''install_x'', True)]) ''d'') ''install_x'' = Some ''d/install_x.sh''"
    by code_simp
  show ?thesis using a addon_files_last_wins [OF _ a] by blast
qed

text \<open>C29 The add-on cache: if every cache entry whose signature still fits holds what the add-on
  would print, \<open>describe_many\<close> answers every path with what the add-on prints, and leaves the
  cache in that state.\<close>

theorem describe_many_correct:
  assumes "cache_ok key sig run S cache" and "set (map realpath paths) \<subseteq> set S" and "inj_on key (set S)"
  shows "\<exists>result cache'. describe_many realpath key sig run cache paths = Inr (result, cache') \<and>
     (\<forall>p \<in> set paths. map_of result (realpath p) = Some (PDict (run (realpath p)))) \<and>
     cache_ok key sig run S cache'"
proof -
  obtain result todo where r: "describe_split key sig cache (map realpath paths) [] [] = Inr (result, todo)"
    "\<forall>p v. map_of result p = Some v \<longrightarrow> v = PDict (run p)" "set todo \<subseteq> set (map realpath paths)"
    "set (map realpath paths) \<subseteq> dom (map_of result) \<union> set todo"
    using describe_split_ok [OF assms(1,2), of "[]" "[]"] by auto
  obtain result' cache' where s: "describe_store key sig run todo (result, cache) = (result', cache')"
    by fastforce
  have t: "cache_ok key sig run S cache'" "\<forall>p v. map_of result' p = Some v \<longrightarrow> v = PDict (run p)"
     "dom (map_of result') = dom (map_of result) \<union> set todo"
    using describe_store_ok [OF assms(1) _ assms(3) s] r(2,3) assms(2) by blast+
  have "map_of result' (realpath p) = Some (PDict (run (realpath p)))" if "p \<in> set paths" for p
  proof -
    have "realpath p \<in> dom (map_of result')" using r(4) t(3) that by auto
    with t(2) show ?thesis by blast
  qed
  moreover have "describe_many realpath key sig run cache paths = Inr (result', cache')"
    by (simp add: describe_many_def r(1) s)
  ultimately show ?thesis using t(1) by blast
qed

theorem describe_many_correct_witness:
  "\<exists>result cache'. describe_many (\<lambda>p. p) (\<lambda>p. p) (\<lambda>p. PInt 1) (\<lambda>p. [(''addon'', PStr p)])
       [(''a'', PDict [(''sig'', PInt 1), (''out'', PDict [(''addon'', PStr ''a'')])])] [''a'', ''b''] = Inr (result, cache') \<and>
     (\<forall>p \<in> set [''a'', ''b'']. map_of result p = Some (PDict [(''addon'', PStr p)])) \<and>
     cache_ok (\<lambda>p. p) (\<lambda>p. PInt 1) (\<lambda>p. [(''addon'', PStr p)]) [''a'', ''b''] cache'"
  by (rule describe_many_correct [where realpath = "\<lambda>p. p"]) (simp_all add: cache_ok_def get_def)

text \<open>C28 Placement: on a kcluster that provides \<open>ps\<close>, an add-on may be placed exactly when it
  supports the target and, for a container, its Kubernetes distribution is accepted and every
  need of it is provided; \<open>check_requirements\<close> returns then and dies otherwise.\<close>

theorem placement_rule:
  assumes "get plugin ''targets'' = PList (map PStr ts)"
    and "get plugin ''requires_kubernetes'' = PList (map PStr rk) \<or> get plugin ''requires_kubernetes'' = PNone \<and> rk = []"
    and "get plugin ''requires_cluster'' = PList (map PStr needs)"
  shows "(requirement_issue plugin kind (PStr c) (Some ps) = Inr None) =
     (kind \<in> set ts \<and> (kind = ''container'' \<longrightarrow> (rk = [] \<or> c \<in> set rk) \<and> set needs \<subseteq> set ps))"
  using assms by (rule requirement_container)

theorem placement_rule_witness:
  "requirement_issue [(''targets'', PList [PStr ''container'']), (''requires_cluster'', PList [PStr ''ingress''])]
     ''container'' (PStr ''k3s'') (Some [''ingress'']) = Inr None"
  using placement_rule [of "[(''targets'', PList [PStr ''container'']), (''requires_cluster'', PList [PStr ''ingress''])]"
      "[''container'']" "[]" "[''ingress'']" "''container''" "''k3s''" "[''ingress'']"]
  by (simp add: get_def)

end
