(* ===== verification/Migration_Steps.thy ===== *)
theory Migration_Steps
  imports Addon_Registry
begin

text \<open>
  \<open>libs/migrations.py\<close>: the steps that move a lab definition across a breaking schema version.

  A step changes the parsed definition in place and returns the changes as sentences; here it
  returns the new definition and the sentences. The configurations of an add-on are its
  top-level section and the overrides in the \<open>addons\<close> lists of the kclusters and the nodes, in
  that order; \<open>for_configs f name\<close> is the loop \<open>for cfg in _section_configs(definition, name)\<close>
  whose body changes \<open>cfg\<close> by \<open>f\<close>. An error while the list is built is raised before the first
  change, and no body raises, so the order of the two does not show.
\<close>

type_synonym step_result = "dict \<times> string list"

section \<open>The configurations of an add-on\<close>

definition entry_config :: "string \<Rightarrow> pval \<Rightarrow> dict list" where
  "entry_config name entry =
     (case entry of PDict e \<Rightarrow> (case get e name of PDict c \<Rightarrow> [c] | _ \<Rightarrow> []) | _ \<Rightarrow> [])"

definition owner_configs :: "string \<Rightarrow> pval \<Rightarrow> dict list res" where
  "owner_configs name owner =
     res_bind (owner_addons owner) (\<lambda>es. Inr (concat (map (entry_config name) es)))"

definition owners :: "dict \<Rightarrow> string \<Rightarrow> (string \<times> pval) list res" where
  "owners defn part = or_dict (get defn part)"

definition section_configs :: "dict \<Rightarrow> string \<Rightarrow> dict list res" where
  "section_configs defn name =
     res_bind (owners defn ''kclusters'') (\<lambda>ks. res_bind (owners defn ''nodes'') (\<lambda>ns.
     res_bind (res_map (\<lambda>(_, own). owner_configs name own) (ks @ ns)) (\<lambda>cs.
     Inr ((case get defn name of PDict c \<Rightarrow> [c] | _ \<Rightarrow> []) @ concat cs))))"

fun for_entries :: "string \<Rightarrow> (dict \<Rightarrow> step_result) \<Rightarrow> pval list \<Rightarrow> pval list \<times> string list" where
  "for_entries name f [] = ([], [])"
| "for_entries name f (entry # rest) =
     (let (rest', ch') = for_entries name f rest in
      case entry of
        PDict e \<Rightarrow>
          (case get e name of
             PDict c \<Rightarrow> (let (c', ch) = f c in (PDict (AList.update name (PDict c') e) # rest', ch @ ch'))
           | _ \<Rightarrow> (entry # rest', ch'))
      | _ \<Rightarrow> (entry # rest', ch'))"

definition for_owner :: "string \<Rightarrow> (dict \<Rightarrow> step_result) \<Rightarrow> pval \<Rightarrow> (pval \<times> string list) res" where
  "for_owner name f owner =
     res_bind (or_dict owner) (\<lambda>cfg. res_bind (or_list (get cfg ''addons'')) (\<lambda>_.
     case get cfg ''addons'' of
       PList es \<Rightarrow>
         (let (es', ch) = for_entries name f es in Inr (PDict (AList.update ''addons'' (PList es') cfg), ch))
     | _ \<Rightarrow> Inr (owner, [])))"

fun for_owners ::
  "string \<Rightarrow> (dict \<Rightarrow> step_result) \<Rightarrow> (string \<times> pval) list \<Rightarrow> ((string \<times> pval) list \<times> string list) res" where
  "for_owners name f [] = Inr ([], [])"
| "for_owners name f ((k, own) # rest) =
     res_bind (for_owner name f own) (\<lambda>(own', ch).
     res_bind (for_owners name f rest) (\<lambda>(rest', ch').
     Inr ((k, own') # rest', ch @ ch')))"

definition for_part :: "string \<Rightarrow> (dict \<Rightarrow> step_result) \<Rightarrow> string \<Rightarrow> dict \<Rightarrow> step_result res" where
  "for_part name f part defn =
     res_bind (owners defn part) (\<lambda>os. res_bind (for_owners name f os) (\<lambda>(os', ch).
     Inr (if os = [] then defn else AList.update part (PDict os') defn, ch)))"

definition for_section :: "string \<Rightarrow> (dict \<Rightarrow> step_result) \<Rightarrow> dict \<Rightarrow> step_result" where
  "for_section name f defn =
     (case get defn name of
        PDict c \<Rightarrow> (let (c', ch) = f c in (AList.update name (PDict c') defn, ch))
      | _ \<Rightarrow> (defn, []))"

definition for_overrides :: "string \<Rightarrow> (dict \<Rightarrow> step_result) \<Rightarrow> dict \<Rightarrow> step_result res" where
  "for_overrides name f defn =
     res_bind (for_part name f ''kclusters'' defn) (\<lambda>(d1, c1).
     res_bind (for_part name f ''nodes'' d1) (\<lambda>(d2, c2). Inr (d2, c1 @ c2)))"

definition for_configs :: "string \<Rightarrow> (dict \<Rightarrow> step_result) \<Rightarrow> dict \<Rightarrow> step_result res" where
  "for_configs name f defn =
     (let (d1, c1) = for_section name f defn in
      res_bind (for_overrides name f d1) (\<lambda>(d2, c2). Inr (d2, c1 @ c2)))"

section \<open>Dropping keys\<close>

fun drop_keys_cfg :: "string list \<Rightarrow> string \<Rightarrow> dict \<Rightarrow> step_result" where
  "drop_keys_cfg [] reason cfg = (cfg, [])"
| "drop_keys_cfg (key # keys) reason cfg =
     (if has_key cfg key then
        (let (cfg', ch) = drop_keys_cfg keys reason (AList.delete key cfg)
         in (cfg', (key @ '' removed ('' @ reason @ '')'') # ch))
      else drop_keys_cfg keys reason cfg)"

definition drop_keys :: "string \<Rightarrow> string list \<Rightarrow> string \<Rightarrow> dict \<Rightarrow> step_result res" where
  "drop_keys name keys reason = for_configs name (drop_keys_cfg keys reason)"

definition postgresql_2_0 :: "dict \<Rightarrow> step_result res" where
  "postgresql_2_0 = drop_keys ''postgresql'' [''postgresql_rel'', ''postgresql_repo_url'', ''postgresql_version'']
     ''Kubernetes mode runs registry.suse.com/suse/postgres:<postgresql_pg_version>''"

definition appcollection_2_0 :: "dict \<Rightarrow> step_result res" where
  "appcollection_2_0 = drop_keys ''appcollection'' [''appcollection_rel'', ''appcollection_repo_url'']
     ''charts come from appcollection_registry''"

definition kagent_2_0 :: "dict \<Rightarrow> step_result res" where
  "kagent_2_0 = drop_keys ''kagent'' [''kagent_rel'', ''kagent_repo_url''] ''kagent installs from kagent_registry''"

definition litellm_2_0 :: "string \<Rightarrow> dict \<Rightarrow> step_result res" where
  "litellm_2_0 name = drop_keys name [name @ ''_rel'', name @ ''_repo_url''] (''the proxy installs from '' @ name @ ''_chart'')"

text \<open>
  Conditional removals: a rule is a key, the test its value must meet to go, and the sentence
  made from it. A key that is not there meets no test of the code.
\<close>

type_synonym drop_rule = "string \<times> (pval \<Rightarrow> bool) \<times> (pval \<Rightarrow> string)"

fun drop_rules :: "drop_rule list \<Rightarrow> dict \<Rightarrow> step_result" where
  "drop_rules [] cfg = (cfg, [])"
| "drop_rules ((key, bad, msg) # rest) cfg =
     (if has_key cfg key \<and> bad (get cfg key) then
        (let (cfg', ch) = drop_rules rest (AList.delete key cfg) in (cfg', msg (get cfg key) # ch))
      else drop_rules rest cfg)"

definition trento_rules :: "drop_rule list" where
  "trento_rules =
     [(''trento_admin'', \<lambda>v. contains ''@'' (py_str v),
       \<lambda>v. ''trento_admin '' @ sq (py_str v) @ '' removed (it is now the admin user name, default admin)'')]"

definition trento_2_0 :: "dict \<Rightarrow> step_result res" where
  "trento_2_0 defn =
     res_bind (drop_keys ''trento'' [''trento_rel'', ''trento_repo_url''] ''Trento installs from trento_chart'' defn) (\<lambda>(d1, c1).
     res_bind (for_configs ''trento'' (drop_rules trento_rules) d1) (\<lambda>(d2, c2). Inr (d2, c1 @ c2)))"

text \<open>\<open>^20[0-9]{2}\\.\<close>\<close>

definition edge_version :: "string \<Rightarrow> bool" where
  "edge_version s =
     (case s of a # b # c # d # e # _ \<Rightarrow>
        a = CHR ''2'' \<and> b = CHR ''0'' \<and> is_digit c \<and> is_digit d \<and> e = CHR ''.''
      | _ \<Rightarrow> False)"

definition linkerd_rules :: "drop_rule list" where
  "linkerd_rules =
     [(''linkerd_repo_url'', \<lambda>v. contains ''helm.linkerd.io/stable'' (py_str v),
       \<lambda>_. ''linkerd_repo_url removed (stable channel; linkerd now installs from the edge channel)''),
      (''linkerd_rel'', \<lambda>v. v = PStr ''linkerd'',
       \<lambda>_. ''linkerd_rel removed (the edge repo is added as linkerd-edge)''),
      (''linkerd_version'', \<lambda>v. truthy v \<and> \<not> edge_version (py_str v),
       \<lambda>v. ''linkerd_version '' @ sq (py_str v) @ '' removed (not an edge chart version)'')]"

definition linkerd_2_0 :: "dict \<Rightarrow> step_result res" where
  "linkerd_2_0 = for_configs ''linkerd'' (drop_rules linkerd_rules)"

definition keycloak_cfg :: "dict \<Rightarrow> step_result" where
  "keycloak_cfg cfg =
     (if get cfg ''keycloak_rel'' = PStr ''bitnami''
         \<or> contains ''bitnami'' (py_str (get_dflt cfg ''keycloak_repo_url'' (PStr [])))
      then drop_keys_cfg [''keycloak_rel'', ''keycloak_repo_url'', ''keycloak_version'']
             ''Bitnami chart; keycloak now installs codecentric/keycloakx'' cfg
      else (cfg, []))"

definition keycloak_2_0 :: "dict \<Rightarrow> step_result res" where
  "keycloak_2_0 = for_configs ''keycloak'' keycloak_cfg"

definition compliance_rules :: "drop_rule list" where
  "compliance_rules =
     [(''complianceascode_rel'', \<lambda>v. v = PStr ''compliance-operator'',
       \<lambda>_. ''complianceascode_rel removed (Rancher's repo is added as rancher-charts)''),
      (''complianceascode_repo_url'', \<lambda>v. contains ''openshift.github.io'' (py_str v),
       \<lambda>_. ''complianceascode_repo_url removed (charts come from https://charts.rancher.io)''),
      (''complianceascode_version'', \<lambda>v. truthy v \<and> \<not> contains ''+up'' (py_str v),
       \<lambda>v. ''complianceascode_version '' @ sq (py_str v) @ '' removed (not a Rancher chart version)''),
      (''complianceascode_profile'', \<lambda>v. truthy v \<and> \<not> ends_with (py_str v) ''-profile'',
       \<lambda>v. ''complianceascode_profile '' @ sq (py_str v) @ '' removed (the operator's default profile is used)'')]"

definition complianceascode_2_0 :: "dict \<Rightarrow> step_result res" where
  "complianceascode_2_0 defn =
     res_bind (drop_keys ''complianceascode'' [''complianceascode_ns''] ''the namespace is the chart's own'' defn) (\<lambda>(d1, c1).
     res_bind (for_configs ''complianceascode'' (drop_rules compliance_rules) d1) (\<lambda>(d2, c2). Inr (d2, c1 @ c2)))"

section \<open>Setting keys\<close>

text \<open>Rancher: an override is read together with the section it inherits from.\<close>

definition RANCHER_STABLE_URL :: string where
  "RANCHER_STABLE_URL = ''https://releases.rancher.com/server-charts/stable''"

definition effective :: "dict \<Rightarrow> dict \<Rightarrow> string \<Rightarrow> pval" where
  "effective inherited cfg k = (if has_key cfg k then get cfg k else get inherited k)"

definition rancher_cfg :: "dict \<Rightarrow> dict \<Rightarrow> step_result" where
  "rancher_cfg inherited cfg =
     (let eff = effective inherited cfg in
      if \<not> truthy (eff ''rancher_rel'') then (cfg, [])
      else
        (let (c1, ch1) =
           (if \<not> truthy (eff ''rancher_repo_url'') then
              (AList.update ''rancher_repo_url'' (PStr RANCHER_STABLE_URL) cfg,
               [''rancher_repo_url set to '' @ RANCHER_STABLE_URL])
            else (cfg, []));
           chart = py_str (eff ''rancher_rel'') @ ''/rancher'' in
         if \<not> truthy (eff ''rancher_helm_chart'') then
           (AList.update ''rancher_helm_chart'' (PStr chart) c1, ch1 @ [''rancher_helm_chart set to '' @ chart])
         else (c1, ch1)))"

definition rancher_2_0 :: "dict \<Rightarrow> step_result res" where
  "rancher_2_0 defn =
     (let (d1, c1) = for_section ''rancher'' (rancher_cfg []) defn;
          section = (case get d1 ''rancher'' of PDict c \<Rightarrow> c | _ \<Rightarrow> []) in
      res_bind (for_overrides ''rancher'' (rancher_cfg section) d1) (\<lambda>(d2, c2). Inr (d2, c1 @ c2)))"

text \<open>The text of a port list, split at commas and blanks.\<close>

definition split_ports :: "string \<Rightarrow> string list" where
  "split_ports s = words (map (\<lambda>c. if c = CHR '','' then CHR '' '' else c) s)"

fun ports_cfg :: "string list \<Rightarrow> string \<Rightarrow> dict \<Rightarrow> step_result" where
  "ports_cfg [] place cfg = (cfg, [])"
| "ports_cfg (key # keys) place cfg =
     (case get cfg key of
        PStr value \<Rightarrow>
          if str_strip value = [] then ports_cfg keys place cfg
          else
            (let ports = PList (map PStr (split_ports (str_strip value)));
                 (cfg', ch) = ports_cfg keys place (AList.update key ports cfg) in
             (cfg', (place @ ''.'' @ key @ '': '' @ dq value @ '' -> '' @ json_val ports) # ch))
      | _ \<Rightarrow> ports_cfg keys place cfg)"

definition PORT_KEYS :: "string list" where
  "PORT_KEYS = [''open_ports'', ''aws_open_ports'']"

fun ports_nodes :: "(string \<times> pval) list \<Rightarrow> (string \<times> pval) list \<times> string list" where
  "ports_nodes [] = ([], [])"
| "ports_nodes ((name, cfg) # rest) =
     (let (rest', ch') = ports_nodes rest in
      case cfg of
        PDict c \<Rightarrow> (let (c', ch) = ports_cfg PORT_KEYS (''nodes.'' @ name) c in ((name, PDict c') # rest', ch @ ch'))
      | _ \<Rightarrow> ((name, cfg) # rest', ch'))"

definition open_ports_2_0 :: "dict \<Rightarrow> step_result res" where
  "open_ports_2_0 defn =
     res_bind (owners defn ''nodes'') (\<lambda>_.
     (let (d1, c1) = for_section ''common'' (ports_cfg PORT_KEYS ''common'') defn in
      case get d1 ''nodes'' of
        PDict ns \<Rightarrow> (let (ns', c2) = ports_nodes ns in Inr (AList.update ''nodes'' (PDict ns') d1, c1 @ c2))
      | _ \<Rightarrow> Inr (d1, c1)))"

text \<open>The source of a chart that now comes from the SUSE Application Collection.\<close>

definition all_entry_names :: "dict \<Rightarrow> pval list res" where
  "all_entry_names defn =
     res_bind (owners defn ''kclusters'') (\<lambda>ks. res_bind (owners defn ''nodes'') (\<lambda>ns.
     res_bind (res_map (\<lambda>(_, own). owner_addon_names own) (ks @ ns)) (\<lambda>xs. Inr (concat xs))))"

definition default_note :: "string \<Rightarrow> string \<Rightarrow> string" where
  "default_note name key =
     name @ '': '' @ key @ '' set to '' @ dq ''upstream'' @ '', the chart this lab was written against''"

definition appcollection_default_2_0 :: "string \<Rightarrow> string \<Rightarrow> dict \<Rightarrow> step_result res" where
  "appcollection_default_2_0 name pfx defn =
     (let key = (if pfx = [] then name else pfx) @ ''_source'' in
      res_bind (all_entry_names defn) (\<lambda>names.
      if \<not> (is_dict (get defn name) \<or> py_in (PStr name) names) then Inr (defn, [])
      else
        (let (defn1, section) = (case get defn name of
               PDict c \<Rightarrow> (defn, c)
             | _ \<Rightarrow> (AList.update name (PDict []) defn, [])) in
         if has_key section key then Inr (defn1, [])
         else Inr (AList.update name (PDict (AList.update key (PStr ''upstream'') section)) defn1,
                   [default_note name key]))))"

definition MIGRATIONS :: "(string \<times> (dict \<Rightarrow> step_result res)) list" where
  "MIGRATIONS =
     [(''anthropic_2_0'', litellm_2_0 ''anthropic''),
      (''appcollection_2_0'', appcollection_2_0),
      (''argocd_2_0'', appcollection_default_2_0 ''argocd'' []),
      (''complianceascode_2_0'', complianceascode_2_0),
      (''coredns_2_0'', appcollection_default_2_0 ''coredns'' []),
      (''fluentd_2_0'', appcollection_default_2_0 ''fluentd'' []),
      (''gemini_2_0'', litellm_2_0 ''gemini''),
      (''harbor_2_0'', appcollection_default_2_0 ''harbor'' []),
      (''kagent_2_0'', kagent_2_0),
      (''keycloak_2_0'', keycloak_2_0),
      (''kimi_2_0'', litellm_2_0 ''kimi''),
      (''linkerd_2_0'', linkerd_2_0),
      (''longhorn_2_0'', appcollection_default_2_0 ''longhorn'' ''lh''),
      (''milvus_2_0'', appcollection_default_2_0 ''milvus'' []),
      (''ollama_2_0'', appcollection_default_2_0 ''ollama'' []),
      (''open_ports_2_0'', open_ports_2_0),
      (''open_webui_2_0'', appcollection_default_2_0 ''open_webui'' []),
      (''openai_2_0'', litellm_2_0 ''openai''),
      (''postgresql_2_0'', postgresql_2_0),
      (''rancher_2_0'', rancher_2_0),
      (''traefik_2_0'', appcollection_default_2_0 ''traefik'' []),
      (''trento_2_0'', trento_2_0)]"

section \<open>Versions and what is pending\<close>

text \<open>
  An entry of \<open>schemas/compatibility.json\<close>, and the record: schema name to entries, oldest
  first. A file is a parsed document or, for a shell configuration file, its lines.
\<close>

record version_entry =
  ve_version :: string
  ve_breaking :: bool
  ve_changes :: string
  ve_migration :: "string option"

type_synonym compat = "(string \<times> version_entry list) list"

datatype data = Doc dict | Lines "string list"

definition LAB_VERSIONS_KEY :: string where
  "LAB_VERSIONS_KEY = ''schema_versions''"

definition version_key :: "pval \<Rightarrow> int list res" where
  "version_key v =
     (case v of
        PStr s \<Rightarrow> res_map (\<lambda>p. case py_int p of None \<Rightarrow> Inl (ValueError p) | Some i \<Rightarrow> Inr i) (split_ch CHR ''.'' s)
      | _ \<Rightarrow> Inl (AttributeError ''split''))"

definition BASE_SECTIONS :: "string list" where
  "BASE_SECTIONS = [''common'', ''nodes'', ''disabled_nodes'', ''kclusters'', ''cluster'', ''pxe'']"

definition schemas_of :: "string \<Rightarrow> data \<Rightarrow> string list res" where
  "schemas_of kind data =
     (if kind \<noteq> ''lab'' then Inr [kind]
      else case data of
        Lines _ \<Rightarrow> Inl (AttributeError ''get'')
      | Doc d \<Rightarrow>
          res_bind (collect_addon_names d) (\<lambda>ns.
          (let all = ns @ map (\<lambda>(k, v). PStr k) (filter (\<lambda>(k, v). is_dict (get d k)) d) in
           res_bind (res_map as_str (filter (\<lambda>v. v \<notin> PStr ` set (LAB_VERSIONS_KEY # BASE_SECTIONS)) all)) (\<lambda>ss.
           Inr (''lab'' # sort (remdups (map (\<lambda>s. ''addon:'' @ s) ss)))))))"

text \<open>\<open>^# Schema version:\s*(\S+)\s*$\<close>\<close>

definition version_line :: "string \<Rightarrow> string option" where
  "version_line l =
     (if starts_with l ''# Schema version:'' then
        (case words (drop (length ''# Schema version:'') l) of [w] \<Rightarrow> Some w | _ \<Rightarrow> None)
      else None)"

text \<open>\<open>dict(v)\<close>: of a mapping or of a list of pairs.\<close>

definition dict_of :: "pval \<Rightarrow> dict res" where
  "dict_of v =
     (case v of
        PDict d \<Rightarrow> Inr d
      | PList xs \<Rightarrow> res_bind (res_map (\<lambda>x. case x of PList [PStr k, w] \<Rightarrow> Inr (k, w) | _ \<Rightarrow> Inl (TypeError ''dict'')) xs)
                       (\<lambda>kvs. Inr (update_all kvs []))
      | _ \<Rightarrow> Inl (TypeError ''dict''))"

definition recorded_versions :: "string \<Rightarrow> data \<Rightarrow> dict res" where
  "recorded_versions kind data =
     (case data of
        Doc d \<Rightarrow>
          if kind = ''lab'' then dict_of (py_or (get d LAB_VERSIONS_KEY) (PDict []))
          else Inr (if truthy (get d ''schema_version'') then [(kind, get d ''schema_version'')] else [])
      | Lines ls \<Rightarrow>
          if kind = ''lab'' then Inl (AttributeError ''get'')
          else Inr (case List.map_filter version_line ls of [] \<Rightarrow> [] | v # _ \<Rightarrow> [(kind, PStr v)]))"

definition entries_of :: "compat \<Rightarrow> string \<Rightarrow> version_entry list" where
  "entries_of rc name = (case map_of rc name of None \<Rightarrow> [] | Some es \<Rightarrow> es)"

fun pending_entries :: "string \<Rightarrow> int list \<Rightarrow> version_entry list \<Rightarrow> (string \<times> string \<times> string) list res" where
  "pending_entries name have [] = Inr []"
| "pending_entries name have (e # es) =
     (case ve_migration e of
        None \<Rightarrow> pending_entries name have es
      | Some step \<Rightarrow>
          if step = [] then pending_entries name have es
          else res_bind (version_key (PStr (ve_version e))) (\<lambda>v.
               res_bind (pending_entries name have es) (\<lambda>rest.
               Inr (if have < v then (name, ve_version e, step) # rest else rest))))"

definition pending_schema :: "dict \<Rightarrow> compat \<Rightarrow> string \<Rightarrow> (string \<times> string \<times> string) list res" where
  "pending_schema recorded rc name =
     res_bind (version_key (get_dflt recorded name (PStr ''1.0''))) (\<lambda>have.
     pending_entries name have (entries_of rc name))"

definition pending :: "string \<Rightarrow> data \<Rightarrow> compat \<Rightarrow> (string \<times> string \<times> string) list res" where
  "pending kind data rc =
     res_bind (recorded_versions kind data) (\<lambda>recorded. res_bind (schemas_of kind data) (\<lambda>names.
     res_bind (res_map (pending_schema recorded rc) names) (\<lambda>ps. Inr (concat ps))))"

definition latest_versions :: "compat \<Rightarrow> string list \<Rightarrow> dict" where
  "latest_versions rc names =
     List.map_filter (\<lambda>n. if entries_of rc n = [] then None
                          else Some (n, PStr (ve_version (last (entries_of rc n))))) names"

fun set_version_line :: "string \<Rightarrow> string list \<Rightarrow> string list option" where
  "set_version_line line [] = None"
| "set_version_line line (l # ls) =
     (if version_line l \<noteq> None then Some (line # ls) else map_option (\<lambda>ls'. l # ls') (set_version_line line ls))"

definition stamp :: "string \<Rightarrow> data \<Rightarrow> compat \<Rightarrow> data res" where
  "stamp kind data rc =
     res_bind (schemas_of kind data) (\<lambda>names.
     (let latest = latest_versions rc names in
      case data of
        Doc d \<Rightarrow>
          if kind = ''lab'' then Inr (Doc (AList.update LAB_VERSIONS_KEY (PDict latest) d))
          else (case map_of latest kind of None \<Rightarrow> Inl (KeyError kind)
                | Some v \<Rightarrow> Inr (Doc (AList.update ''schema_version'' v d)))
      | Lines ls \<Rightarrow>
          (case map_of latest kind of None \<Rightarrow> Inl (KeyError kind)
           | Some v \<Rightarrow>
               (let line = ''# Schema version: '' @ py_str v in
                Inr (Lines (case set_version_line line ls of None \<Rightarrow> line # ls | Some ls' \<Rightarrow> ls'))))))"

definition run_step :: "string \<Rightarrow> data \<Rightarrow> (data \<times> string list) res" where
  "run_step step data =
     (case map_of MIGRATIONS step of
        None \<Rightarrow> Inl (KeyError step)
      | Some f \<Rightarrow> (case data of
            Doc d \<Rightarrow> res_bind (f d) (\<lambda>(d', ch). Inr (Doc d', ch))
          | Lines _ \<Rightarrow> Inl (AttributeError ''get'')))"

fun run_steps :: "(string \<times> string \<times> string) list \<Rightarrow> data \<Rightarrow> (data \<times> string list) res" where
  "run_steps [] data = Inr (data, [])"
| "run_steps ((name, version, step) # rest) data =
     res_bind (run_step step data) (\<lambda>(data', ch).
     res_bind (run_steps rest data') (\<lambda>(data'', ch').
     Inr (data'', map (\<lambda>c. name @ '' '' @ version @ '': '' @ c) ch @ ch')))"

definition migrate :: "string \<Rightarrow> data \<Rightarrow> compat \<Rightarrow> (data \<times> string list) res" where
  "migrate kind data rc = res_bind (pending kind data rc) (\<lambda>ps. run_steps ps data)"

definition needed_changes :: "string \<Rightarrow> data \<Rightarrow> compat \<Rightarrow> string list res" where
  "needed_changes kind data rc = res_bind (migrate kind data rc) (\<lambda>(_, ch). Inr ch)"

definition require_current :: "compat \<Rightarrow> dict \<Rightarrow> string \<Rightarrow> unit res" where
  "require_current rc defn path =
     res_bind (needed_changes ''lab'' (Doc defn) rc) (\<lambda>changes.
     if changes = [] then Inr ()
     else res_bind (stamp ''lab'' (Doc defn) rc) (\<lambda>current.
       (let v = (case current of Doc d \<Rightarrow> get d LAB_VERSIONS_KEY | Lines _ \<Rightarrow> PNone) in
        Inl (SystemExit (path @ '' is written for older schema versions and needs these changes:'' @ NL @ ''  '' @
          join (NL @ ''  '') changes @ NL @ ''Run: migrate_config.py '' @ path @
          ''   (writes the migrated copy next to it)'' @ NL @
          ''If it is written for the current versions, add to it: '' @ dq LAB_VERSIONS_KEY @ '': '' @ json_val v)))))"

section \<open>What the loop over the configurations does\<close>

definition quiet :: "(dict \<Rightarrow> step_result) \<Rightarrow> dict list \<Rightarrow> bool" where
  "quiet f cs = list_all (\<lambda>c. f c = (c, [])) cs"

lemma quiet_simps [simp]: "quiet f []" "quiet f (c # cs) \<longleftrightarrow> f c = (c, []) \<and> quiet f cs"
  "quiet f (cs @ ds) \<longleftrightarrow> quiet f cs \<and> quiet f ds"
  by (auto simp: quiet_def)

lemma for_entries_configs:
  "for_entries name f es = (es', ch) \<Longrightarrow>
   concat (map (entry_config name) es') = map (\<lambda>c. fst (f c)) (concat (map (entry_config name) es)) \<and>
   ch = concat (map (\<lambda>c. snd (f c)) (concat (map (entry_config name) es)))"
  by (induction es arbitrary: es' ch)
     (auto simp: entry_config_def split: prod.splits pval.splits)

lemma for_entries_quiet:
  "quiet f (concat (map (entry_config name) es)) \<Longrightarrow> for_entries name f es = (es, [])"
  by (induction es)
     (auto simp: entry_config_def update_get_dict split: prod.splits pval.splits)

lemma or_list_PList [simp]: "or_list (PList xs) = Inr xs"
  by (simp add: or_list_def)

lemma or_dict_PDict [simp]: "or_dict (PDict d) = Inr d"
  by (simp add: or_dict_def)

lemma update_nonempty [simp]: "AList.update k v d \<noteq> []"
  by (cases d) auto

lemma or_list_no_configs:
  "or_list v = Inr es \<Longrightarrow> (\<nexists>xs. v = PList xs) \<Longrightarrow> concat (map (entry_config name) es) = []"
  by (cases v) (auto simp: or_list_def entry_config_def split: if_splits)

lemma for_owner_configs:
  assumes "for_owner name f own = Inr (own', ch)"
  shows "\<exists>cs. owner_configs name own = Inr cs \<and> owner_configs name own' = Inr (map (\<lambda>c. fst (f c)) cs) \<and>
     ch = concat (map (\<lambda>c. snd (f c)) cs)"
proof -
  from assms obtain cfg es where cfg: "or_dict own = Inr cfg" "or_list (get cfg ''addons'') = Inr es"
    by (auto simp: for_owner_def res_simps)
  let ?cs = "concat (map (entry_config name) es)"
  have cs: "owner_configs name own = Inr ?cs"
    by (simp add: owner_configs_def owner_addons_def cfg)
  show ?thesis
  proof (cases "\<exists>xs. get cfg ''addons'' = PList xs")
    case True
    with cfg have "get cfg ''addons'' = PList es" by auto
    with assms cfg for_entries_configs [of name f es] cs show ?thesis
      by (auto simp: for_owner_def owner_configs_def owner_addons_def split: prod.splits)
  next
    case False
    then have "own' = own" "ch = []"
      using assms cfg by (auto simp: for_owner_def split: pval.splits)
    with cs or_list_no_configs [OF cfg(2) False] show ?thesis by simp
  qed
qed

lemma for_owner_quiet:
  assumes "owner_configs name own = Inr cs" and "quiet f cs"
  shows "for_owner name f own = Inr (own, [])"
proof -
  from assms(1) obtain cfg es where cfg: "or_dict own = Inr cfg" "or_list (get cfg ''addons'') = Inr es"
    and cs: "cs = concat (map (entry_config name) es)"
    by (auto simp: owner_configs_def owner_addons_def res_simps)
  show ?thesis
  proof (cases "\<exists>xs. get cfg ''addons'' = PList xs")
    case True
    with cfg have es: "get cfg ''addons'' = PList es" by auto
    then have "cfg \<noteq> []" by (auto simp: get_def)
    with cfg(1) have "own = PDict cfg" by (auto simp: or_dict_def split: if_splits pval.splits)
    with es cfg for_entries_quiet assms(2) cs show ?thesis
      by (simp add: for_owner_def update_get_list)
  next
    case False
    then show ?thesis using cfg by (auto simp: for_owner_def split: pval.splits)
  qed
qed

definition part_configs :: "string \<Rightarrow> dict \<Rightarrow> string \<Rightarrow> dict list res" where
  "part_configs name defn part =
     res_bind (owners defn part) (\<lambda>os.
     res_bind (res_map (\<lambda>(_, own). owner_configs name own) os) (\<lambda>cs. Inr (concat cs)))"

lemma for_owners_configs:
  "for_owners name f os = Inr (os', ch) \<Longrightarrow>
   \<exists>cs. res_map (\<lambda>(_, own). owner_configs name own) os = Inr cs \<and>
     res_map (\<lambda>(_, own). owner_configs name own) os' = Inr (map (map (\<lambda>c. fst (f c))) cs) \<and>
     ch = concat (map (\<lambda>c. snd (f c)) (concat cs)) \<and> length os' = length os"
proof (induction os arbitrary: os' ch)
  case Nil
  then show ?case by simp
next
  case (Cons x os)
  obtain k own where x: "x = (k, own)" by fastforce
  from Cons.prems x obtain own' c1 os1 c2 where h: "for_owner name f own = Inr (own', c1)"
    "for_owners name f os = Inr (os1, c2)" "os' = (k, own') # os1" "ch = c1 @ c2"
    by (auto simp: res_simps)
  from for_owner_configs [OF h(1)] Cons.IH [OF h(2)] h(3,4) x show ?case
    by (auto simp: res_simps)
qed

lemma for_owners_quiet:
  "res_map (\<lambda>(_, own). owner_configs name own) os = Inr cs \<Longrightarrow> quiet f (concat cs) \<Longrightarrow>
   for_owners name f os = Inr (os, [])"
proof (induction os arbitrary: cs)
  case (Cons x os)
  then show ?case
    by (cases x) (auto simp: res_simps for_owner_quiet)
qed simp

lemma for_part_configs:
  assumes "for_part name f part d = Inr (d', ch)"
  shows "\<exists>cs. part_configs name d part = Inr cs \<and> part_configs name d' part = Inr (map (\<lambda>c. fst (f c)) cs) \<and>
     ch = concat (map (\<lambda>c. snd (f c)) cs) \<and> (\<forall>k. k \<noteq> part \<longrightarrow> get d' k = get d k)"
proof -
  from assms obtain os os' where os: "owners d part = Inr os" "for_owners name f os = Inr (os', ch)"
    and d': "d' = (if os = [] then d else AList.update part (PDict os') d)"
    by (auto simp: for_part_def res_simps)
  from for_owners_configs [OF os(2)] obtain cs where
    cs: "res_map (\<lambda>(_, own). owner_configs name own) os = Inr cs"
      "res_map (\<lambda>(_, own). owner_configs name own) os' = Inr (map (map (\<lambda>c. fst (f c))) cs)"
      "ch = concat (map (\<lambda>c. snd (f c)) (concat cs))" "length os' = length os" by auto
  have "owners d' part = Inr os'"
    using d' os(1) cs(4) by (auto simp: owners_def)
  with os(1) cs d' show ?thesis by (auto simp: part_configs_def map_concat)
qed

lemma for_part_quiet:
  assumes "part_configs name d part = Inr cs" and "quiet f cs"
  shows "for_part name f part d = Inr (d, [])"
proof -
  from assms obtain os css where os: "owners d part = Inr os"
    "res_map (\<lambda>(_, own). owner_configs name own) os = Inr css" "quiet f (concat css)"
    by (auto simp: part_configs_def res_simps)
  have "AList.update part (PDict os) d = d" if "os \<noteq> []"
  proof -
    from that os(1) have "get d part = PDict os"
      by (auto simp: owners_def or_dict_def split: if_splits pval.splits)
    then show ?thesis by (rule update_get_dict)
  qed
  with os for_owners_quiet [OF os(2,3)] show ?thesis by (auto simp: for_part_def)
qed

definition top_config :: "string \<Rightarrow> dict \<Rightarrow> dict list" where
  "top_config name d = (case get d name of PDict c \<Rightarrow> [c] | _ \<Rightarrow> [])"

lemma res_map_append:
  "res_map f (xs @ ys) = res_bind (res_map f xs) (\<lambda>as. res_bind (res_map f ys) (\<lambda>bs. Inr (as @ bs)))"
  by (induction xs) (auto simp: res_bind_def split: sum.splits)

lemma section_configs_parts:
  "section_configs d name = Inr cs \<longleftrightarrow>
   (\<exists>ks ns. part_configs name d ''kclusters'' = Inr ks \<and> part_configs name d ''nodes'' = Inr ns \<and>
      cs = top_config name d @ ks @ ns)"
  by (auto simp: section_configs_def part_configs_def res_simps res_map_append top_config_def)

lemma for_section_configs:
  "for_section name f d = (d', ch) \<Longrightarrow>
   top_config name d' = map (\<lambda>c. fst (f c)) (top_config name d) \<and>
   ch = concat (map (\<lambda>c. snd (f c)) (top_config name d)) \<and> (\<forall>k. k \<noteq> name \<longrightarrow> get d' k = get d k)"
  by (auto simp: for_section_def top_config_def split: pval.splits prod.splits)

lemma for_section_quiet: "quiet f (top_config name d) \<Longrightarrow> for_section name f d = (d, [])"
  by (auto simp: for_section_def top_config_def update_get_dict split: pval.splits)

lemma part_configs_cong: "get d' part = get d part \<Longrightarrow> part_configs name d' part = part_configs name d part"
  by (simp add: part_configs_def owners_def)

lemma top_config_cong: "get d' name = get d name \<Longrightarrow> top_config name d' = top_config name d"
  by (simp add: top_config_def)

definition own_name :: "string \<Rightarrow> bool" where
  "own_name name = (name \<noteq> ''kclusters'' \<and> name \<noteq> ''nodes'')"

lemma for_overrides_configs:
  assumes "for_overrides name f d = Inr (d', ch)" and "own_name name"
  shows "\<exists>ks ns. part_configs name d ''kclusters'' = Inr ks \<and> part_configs name d ''nodes'' = Inr ns \<and>
     part_configs name d' ''kclusters'' = Inr (map (\<lambda>c. fst (f c)) ks) \<and>
     part_configs name d' ''nodes'' = Inr (map (\<lambda>c. fst (f c)) ns) \<and>
     ch = concat (map (\<lambda>c. snd (f c)) (ks @ ns)) \<and>
     (\<forall>k. own_name k \<longrightarrow> get d' k = get d k)"
proof -
  from assms(1) obtain d1 c1 c2 where p: "for_part name f ''kclusters'' d = Inr (d1, c1)"
    "for_part name f ''nodes'' d1 = Inr (d', c2)" "ch = c1 @ c2"
    by (auto simp: for_overrides_def res_simps)
  obtain ks where ks: "part_configs name d ''kclusters'' = Inr ks"
    "part_configs name d1 ''kclusters'' = Inr (map (\<lambda>c. fst (f c)) ks)" "c1 = concat (map (\<lambda>c. snd (f c)) ks)"
    "\<And>k. k \<noteq> ''kclusters'' \<Longrightarrow> get d1 k = get d k"
    using for_part_configs [OF p(1)] by blast
  obtain ns where ns: "part_configs name d1 ''nodes'' = Inr ns"
    "part_configs name d' ''nodes'' = Inr (map (\<lambda>c. fst (f c)) ns)" "c2 = concat (map (\<lambda>c. snd (f c)) ns)"
    "\<And>k. k \<noteq> ''nodes'' \<Longrightarrow> get d' k = get d1 k"
    using for_part_configs [OF p(2)] by blast
  have "part_configs name d ''nodes'' = Inr ns"
    using ns(1) part_configs_cong [of d1 "''nodes''" d name] ks(4) by simp
  moreover have "part_configs name d' ''kclusters'' = Inr (map (\<lambda>c. fst (f c)) ks)"
    using ks(2) part_configs_cong [of d' "''kclusters''" d1 name] ns(4) by simp
  ultimately show ?thesis
    using ks(1,3,4) ns(2,3,4) p(3) by (simp add: own_name_def)
qed

lemma for_overrides_quiet:
  "part_configs name d ''kclusters'' = Inr ks \<Longrightarrow> part_configs name d ''nodes'' = Inr ns \<Longrightarrow> quiet f (ks @ ns) \<Longrightarrow>
   for_overrides name f d = Inr (d, [])"
  by (simp add: for_overrides_def for_part_quiet)

text \<open>The loop runs its body once on every configuration the list has, and on nothing else.\<close>

lemma for_configs_configs:
  assumes "for_configs name f d = Inr (d', ch)" and "own_name name"
  shows "\<exists>cs. section_configs d name = Inr cs \<and> section_configs d' name = Inr (map (\<lambda>c. fst (f c)) cs) \<and>
     ch = concat (map (\<lambda>c. snd (f c)) cs) \<and> (\<forall>k. k \<noteq> name \<and> own_name k \<longrightarrow> get d' k = get d k)"
proof -
  obtain d1 c1 where s: "for_section name f d = (d1, c1)" by fastforce
  with assms(1) obtain c2 where o2: "for_overrides name f d1 = Inr (d', c2)" "ch = c1 @ c2"
    by (auto simp: for_configs_def res_simps)
  have k: "part_configs name d1 ''kclusters'' = part_configs name d ''kclusters''"
    "part_configs name d1 ''nodes'' = part_configs name d ''nodes''"
    using for_section_configs [OF s] assms(2) by (auto intro!: part_configs_cong simp: own_name_def)
  have t: "top_config name d' = top_config name d1"
    using for_overrides_configs [OF o2(1) assms(2)] assms(2) by (auto intro!: top_config_cong)
  from for_section_configs [OF s] for_overrides_configs [OF o2(1) assms(2)] o2(2) k t
  show ?thesis by (auto simp: section_configs_parts)
qed

lemma for_configs_quiet:
  "section_configs d name = Inr cs \<Longrightarrow> quiet f cs \<Longrightarrow> for_configs name f d = Inr (d, [])"
  by (auto simp: section_configs_parts for_configs_def for_section_quiet for_overrides_quiet)

section \<open>The contract of a step\<close>

text \<open>
  What \<open>migrate\<close> relies on: a step run on its own result changes and reports nothing, a step
  that reports nothing changes nothing, and no step touches the versions the file records.
\<close>

locale migration_step =
  fixes step :: "dict \<Rightarrow> step_result res"
  assumes settled: "step d = Inr (d', ch) \<Longrightarrow> step d' = Inr (d', [])"
    and silent: "step d = Inr (d', []) \<Longrightarrow> d' = d"
    and keeps_versions: "step d = Inr (d', ch) \<Longrightarrow> get d' LAB_VERSIONS_KEY = get d LAB_VERSIONS_KEY"
begin

lemma fixpoint_iff: "(\<exists>d0 ch. step d0 = Inr (d, ch)) \<longleftrightarrow> step d = Inr (d, [])"
  using settled by blast

lemma laws:
  "step d = Inr (d', ch) \<Longrightarrow> step d' = Inr (d', []) \<and> (ch = [] \<longrightarrow> d' = d) \<and>
     get d' LAB_VERSIONS_KEY = get d LAB_VERSIONS_KEY"
  using settled silent keeps_versions by blast

end

text \<open>The body of a loop over the configurations, and the step it gives.\<close>

locale config_step =
  fixes f :: "dict \<Rightarrow> step_result"
  assumes cfg_settled: "f (fst (f c)) = (fst (f c), [])"
    and cfg_silent: "snd (f c) = [] \<Longrightarrow> fst (f c) = c"
begin

lemma quiet_image: "quiet f (map (\<lambda>c. fst (f c)) cs)"
  by (induction cs) (simp_all add: cfg_settled)

lemma quiet_silent: "concat (map (\<lambda>c. snd (f c)) cs) = [] \<Longrightarrow> quiet f cs"
proof (induction cs)
  case (Cons c cs)
  then show ?case using cfg_silent [of c] by (cases "f c") auto
qed simp

lemma for_configs_settled:
  assumes "for_configs name f d = Inr (d', ch)" and "own_name name"
  shows "for_configs name f d' = Inr (d', [])"
proof -
  obtain cs where "section_configs d' name = Inr (map (\<lambda>c. fst (f c)) cs)"
    using for_configs_configs [OF assms] by blast
  then show ?thesis by (rule for_configs_quiet) (rule quiet_image)
qed

lemma for_configs_silent:
  assumes "for_configs name f d = Inr (d', [])" and "own_name name"
  shows "d' = d"
proof -
  obtain cs where cs: "section_configs d name = Inr cs" "concat (map (\<lambda>c. snd (f c)) cs) = []"
    using for_configs_configs [OF assms] by auto
  from for_configs_quiet [OF cs(1) quiet_silent [OF cs(2)]] assms(1) show ?thesis by simp
qed

end

locale config_migration = config_step +
  fixes name :: string
  assumes own: "own_name name" and not_versions: "name \<noteq> LAB_VERSIONS_KEY"
begin

lemma versions_kept:
  assumes "for_configs name f d = Inr (d', ch)"
  shows "get d' LAB_VERSIONS_KEY = get d LAB_VERSIONS_KEY"
proof -
  have "k \<noteq> name \<and> own_name k \<Longrightarrow> get d' k = get d k" for k
    using for_configs_configs [OF assms own] by blast
  then show ?thesis using not_versions by (simp add: own_name_def LAB_VERSIONS_KEY_def)
qed

end

sublocale config_migration \<subseteq> migration_step "for_configs name f"
  using for_configs_settled for_configs_silent versions_kept own by unfold_locales blast+

text \<open>Two passes over the same configurations, the second keeping what the first settled.\<close>

definition two_passes :: "string \<Rightarrow> (dict \<Rightarrow> step_result) \<Rightarrow> (dict \<Rightarrow> step_result) \<Rightarrow> dict \<Rightarrow> step_result res" where
  "two_passes name f g d =
     res_bind (for_configs name f d) (\<lambda>(d1, c1). res_bind (for_configs name g d1) (\<lambda>(d2, c2). Inr (d2, c1 @ c2)))"

locale two_pass_migration = p: config_migration f name + q: config_migration g name
  for f g name +
  assumes keeps_first: "f c = (c, []) \<Longrightarrow> f (fst (g c)) = (fst (g c), [])"
begin

lemma two_settled:
  assumes "two_passes name f g d = Inr (d', ch)"
  shows "two_passes name f g d' = Inr (d', [])"
proof -
  from assms obtain d1 c1 c2 where r: "for_configs name f d = Inr (d1, c1)" "for_configs name g d1 = Inr (d', c2)"
    by (auto simp: two_passes_def res_simps)
  obtain cs where "section_configs d1 name = Inr (map (\<lambda>c. fst (f c)) cs)"
    using for_configs_configs [OF r(1) p.own] by blast
  with for_configs_configs [OF r(2) p.own]
  have "section_configs d' name = Inr (map (\<lambda>c. fst (g c)) (map (\<lambda>c. fst (f c)) cs))" by auto
  moreover have "quiet f (map (\<lambda>c. fst (g c)) (map (\<lambda>c. fst (f c)) cs))"
    by (induction cs) (simp_all add: keeps_first p.cfg_settled)
  ultimately have "for_configs name f d' = Inr (d', [])" by (rule for_configs_quiet)
  with q.settled [OF r(2)] show ?thesis by (simp add: two_passes_def)
qed

lemma two_silent: "two_passes name f g d = Inr (d', []) \<Longrightarrow> d' = d"
  using p.silent q.silent by (auto simp: two_passes_def res_simps)

lemma two_versions: "two_passes name f g d = Inr (d', ch) \<Longrightarrow> get d' LAB_VERSIONS_KEY = get d LAB_VERSIONS_KEY"
  using p.keeps_versions q.keeps_versions by (force simp: two_passes_def res_simps)

end

sublocale two_pass_migration \<subseteq> migration_step "two_passes name f g"
  using two_settled two_silent two_versions by unfold_locales blast+

section \<open>The steps keep the contract\<close>

lemma drop_keys_cfg_absent: "\<forall>k \<in> set ks. \<not> has_key c k \<Longrightarrow> drop_keys_cfg ks r c = (c, [])"
  by (induction ks) auto

lemma drop_keys_cfg_keys:
  "has_key (fst (drop_keys_cfg ks r c)) k \<longleftrightarrow> k \<notin> set ks \<and> has_key c k"
  by (induction ks r c rule: drop_keys_cfg.induct) (auto split: prod.splits)

lemma drop_keys_cfg_get:
  "get_dflt (fst (drop_keys_cfg ks r c)) k w = (if k \<in> set ks then w else get_dflt c k w)"
proof (induction ks r c rule: drop_keys_cfg.induct)
  case (2 key keys reason cfg)
  have "\<not> has_key cfg key \<Longrightarrow> get_dflt cfg key w = w" by (simp add: has_key_def get_dflt_def)
  with 2 show ?case by (auto split: prod.splits)
qed simp

lemma get_as_dflt: "get c k = get_dflt c k PNone"
  by (simp add: get_def get_dflt_def)

lemma drop_keys_cfg_silent: "snd (drop_keys_cfg ks r c) = [] \<Longrightarrow> fst (drop_keys_cfg ks r c) = c"
  by (induction ks r c rule: drop_keys_cfg.induct) (auto split: prod.splits if_splits)

interpretation drop_keys: config_step "drop_keys_cfg ks r" for ks r
  by unfold_locales
     (auto simp: drop_keys_cfg_keys intro!: drop_keys_cfg_absent drop_keys_cfg_silent)

definition meets :: "drop_rule list \<Rightarrow> dict \<Rightarrow> string \<Rightarrow> bool" where
  "meets rs c k = (has_key c k \<and> list_ex (\<lambda>(key, bad, msg). key = k \<and> bad (get c k)) rs)"

lemma drop_rules_get:
  "map_of (fst (drop_rules rs c)) k = (if meets rs c k then None else map_of c k)"
proof (induction rs c rule: drop_rules.induct)
  case (2 key bad msg rest cfg)
  have "\<not> has_key (AList.delete key cfg) key" by simp
  with 2 show ?case
    by (auto simp: meets_def delete_conv' has_key_def get_def split: prod.splits if_splits option.splits)
qed (simp add: meets_def)

lemma drop_rules_quiet: "(\<And>k. \<not> meets rs c k) \<Longrightarrow> drop_rules rs c = (c, [])"
  by (induction rs) (auto simp: meets_def)

lemma drop_rules_silent: "snd (drop_rules rs c) = [] \<Longrightarrow> fst (drop_rules rs c) = c"
  by (induction rs c rule: drop_rules.induct) (auto split: prod.splits if_splits)

interpretation drop_rules: config_step "drop_rules rs" for rs
proof unfold_locales
  fix c
  have "\<not> meets rs (fst (drop_rules rs c)) k" for k
    using drop_rules_get [of rs c k] by (auto simp: meets_def has_key_def get_def split: if_splits)
  then show "drop_rules rs (fst (drop_rules rs c)) = (fst (drop_rules rs c), [])"
    by (rule drop_rules_quiet)
qed (rule drop_rules_silent)

lemma py_str_simps [simp]: "py_str (PStr s) = s" "py_str PNone = ''None''"
  by (simp_all add: py_str_def)

interpretation keycloak: config_step keycloak_cfg
proof unfold_locales
  fix c
  show "keycloak_cfg (fst (keycloak_cfg c)) = (fst (keycloak_cfg c), [])"
    by (auto simp: keycloak_cfg_def drop_keys_cfg_get get_as_dflt simp del: drop_keys_cfg.simps)
  show "snd (keycloak_cfg c) = [] \<Longrightarrow> fst (keycloak_cfg c) = c"
    by (auto simp: keycloak_cfg_def drop_keys_cfg_silent simp del: drop_keys_cfg.simps split: if_splits)
qed

lemma rancher_keys [simp]:
  "''rancher_rel'' \<noteq> ''rancher_repo_url''" "''rancher_rel'' \<noteq> ''rancher_helm_chart''"
  "''rancher_repo_url'' \<noteq> ''rancher_helm_chart''" "''rancher_helm_chart'' \<noteq> ''rancher_repo_url''"
  by simp_all

lemma effective_update:
  "effective inherited (AList.update k v c) k' = (if k' = k then v else effective inherited c k')"
  by (simp add: effective_def)

lemma rancher_cfg_quiet:
  assumes "truthy (effective inherited c ''rancher_repo_url'')" and "truthy (effective inherited c ''rancher_helm_chart'')"
  shows "rancher_cfg inherited c = (c, [])"
  unfolding rancher_cfg_def Let_def using assms by (simp only: not_True_eq_False if_False prod.case if_cancel)

lemma rancher_cfg_cases:
  "rancher_cfg inherited c = (c, []) \<or>
   truthy (effective inherited (fst (rancher_cfg inherited c)) ''rancher_repo_url'') \<and>
   truthy (effective inherited (fst (rancher_cfg inherited c)) ''rancher_helm_chart'') \<and>
   snd (rancher_cfg inherited c) \<noteq> []"
proof (cases "truthy (effective inherited c ''rancher_rel'')")
  case False
  then show ?thesis by (simp only: rancher_cfg_def Let_def not_False_eq_True if_True simp_thms)
next
  case rel: True
  have url: "truthy (PStr RANCHER_STABLE_URL)" by (simp add: RANCHER_STABLE_URL_def)
  have chart: "truthy (PStr (x @ ''/rancher''))" for x by simp
  show ?thesis
    by (cases "truthy (effective inherited c ''rancher_repo_url'')";
        cases "truthy (effective inherited c ''rancher_helm_chart'')")
       (simp_all only: rancher_cfg_def Let_def rel not_True_eq_False not_False_eq_True if_False if_True prod.case
          fst_conv snd_conv effective_update rancher_keys url chart append_Nil append_is_Nil_conv list.distinct simp_thms)
qed

interpretation rancher_override: config_step "rancher_cfg inherited" for inherited
proof unfold_locales
  fix c
  show "rancher_cfg inherited (fst (rancher_cfg inherited c)) = (fst (rancher_cfg inherited c), [])"
    using rancher_cfg_cases [of inherited c] rancher_cfg_quiet [of inherited "fst (rancher_cfg inherited c)"] by auto
  show "snd (rancher_cfg inherited c) = [] \<Longrightarrow> fst (rancher_cfg inherited c) = c"
    using rancher_cfg_cases [of inherited c] by auto
qed

lemma config_migration_laws:
  assumes "config_step f" and "own_name name" and "name \<noteq> LAB_VERSIONS_KEY"
  shows "migration_step (for_configs name f)"
proof (rule migration_step.intro)
  have m: "config_migration f name"
    using assms by (simp add: config_migration_def config_migration_axioms_def)
  show "\<And>d d' ch. for_configs name f d = Inr (d', ch) \<Longrightarrow> for_configs name f d' = Inr (d', [])"
    by (rule config_step.for_configs_settled [OF assms(1) _ assms(2)])
  show "\<And>d d'. for_configs name f d = Inr (d', []) \<Longrightarrow> d' = d"
    by (rule config_step.for_configs_silent [OF assms(1) _ assms(2)])
  show "\<And>d d' ch. for_configs name f d = Inr (d', ch) \<Longrightarrow> get d' LAB_VERSIONS_KEY = get d LAB_VERSIONS_KEY"
    by (rule config_migration.versions_kept [OF m])
qed

lemma two_pass_laws:
  assumes "config_step f" and "config_step g" and "own_name name" and "name \<noteq> LAB_VERSIONS_KEY"
    and "\<And>c. f c = (c, []) \<Longrightarrow> f (fst (g c)) = (fst (g c), [])"
  shows "migration_step (two_passes name f g)"
proof -
  have t: "two_pass_migration f g name"
    using assms
    by (simp add: two_pass_migration_def two_pass_migration_axioms_def config_migration_def config_migration_axioms_def)
  show ?thesis
    by (rule migration_step.intro)
       (erule two_pass_migration.two_settled [OF t] two_pass_migration.two_silent [OF t]
          two_pass_migration.two_versions [OF t])+
qed

text \<open>Rancher: after the run, the section and every override read with it are complete.\<close>

lemma top_config_get: "top_config name d = [c] \<longleftrightarrow> get d name = PDict c"
  by (auto simp: top_config_def split: pval.splits)

definition section_of :: "dict \<Rightarrow> string \<Rightarrow> dict" where
  "section_of d name = (case get d name of PDict c \<Rightarrow> c | _ \<Rightarrow> [])"

lemma rancher_2_0_alt:
  "rancher_2_0 d = (let (d1, c1) = for_section ''rancher'' (rancher_cfg []) d in
      res_bind (for_overrides ''rancher'' (rancher_cfg (section_of d1 ''rancher'')) d1) (\<lambda>(d2, c2). Inr (d2, c1 @ c2)))"
  by (simp add: rancher_2_0_def section_of_def)

lemma own_rancher: "own_name ''rancher''"
  by (simp add: own_name_def)

lemma rancher_2_0_settled:
  assumes "rancher_2_0 d = Inr (d', ch)"
  shows "rancher_2_0 d' = Inr (d', [])"
proof -
  obtain d1 c1 where s: "for_section ''rancher'' (rancher_cfg []) d = (d1, c1)" by fastforce
  with assms obtain c2 where o2: "for_overrides ''rancher'' (rancher_cfg (section_of d1 ''rancher'')) d1 = Inr (d', c2)"
    by (auto simp: rancher_2_0_alt res_simps)
  let ?f = "rancher_cfg (section_of d1 ''rancher'')"
  obtain ks ns where parts: "part_configs ''rancher'' d' ''kclusters'' = Inr (map (\<lambda>c. fst (?f c)) ks)"
    "part_configs ''rancher'' d' ''nodes'' = Inr (map (\<lambda>c. fst (?f c)) ns)"
    and same: "get d' ''rancher'' = get d1 ''rancher''"
    using for_overrides_configs [OF o2 own_rancher] own_rancher by blast
  have "top_config ''rancher'' d' = map (\<lambda>c. fst (rancher_cfg [] c)) (top_config ''rancher'' d)"
    using for_section_configs [OF s] top_config_cong [OF same] by simp
  then have "quiet (rancher_cfg []) (top_config ''rancher'' d')"
    by (simp add: rancher_override.quiet_image)
  then have sec: "for_section ''rancher'' (rancher_cfg []) d' = (d', [])" by (rule for_section_quiet)
  have "quiet ?f (map (\<lambda>c. fst (?f c)) ks @ map (\<lambda>c. fst (?f c)) ns)"
    by (simp only: quiet_simps rancher_override.quiet_image)
  from for_overrides_quiet [OF parts this]
  have "for_overrides ''rancher'' (rancher_cfg (section_of d' ''rancher'')) d' = Inr (d', [])"
    by (simp add: section_of_def same)
  then show ?thesis by (simp add: rancher_2_0_alt sec)
qed

lemma rancher_2_0_silent:
  assumes "rancher_2_0 d = Inr (d', [])"
  shows "d' = d"
proof -
  obtain d1 where s: "for_section ''rancher'' (rancher_cfg []) d = (d1, [])"
    and o2: "for_overrides ''rancher'' (rancher_cfg (section_of d1 ''rancher'')) d1 = Inr (d', [])"
    using assms by (auto simp: rancher_2_0_alt res_simps split: prod.splits)
  have "quiet (rancher_cfg []) (top_config ''rancher'' d)"
    using for_section_configs [OF s] by (intro rancher_override.quiet_silent) simp
  then have d1: "d1 = d" using for_section_quiet s by fastforce
  let ?f = "rancher_cfg (section_of d1 ''rancher'')"
  obtain ks ns where k: "part_configs ''rancher'' d1 ''kclusters'' = Inr ks" "part_configs ''rancher'' d1 ''nodes'' = Inr ns"
    "concat (map (\<lambda>c. snd (?f c)) (ks @ ns)) = []"
    using for_overrides_configs [OF o2 own_rancher] by metis
  from for_overrides_quiet [OF k(1,2) rancher_override.quiet_silent [OF k(3)]] o2 d1 show ?thesis by simp
qed

lemma rancher_2_0_versions:
  assumes "rancher_2_0 d = Inr (d', ch)"
  shows "get d' LAB_VERSIONS_KEY = get d LAB_VERSIONS_KEY"
proof -
  obtain d1 c1 where s: "for_section ''rancher'' (rancher_cfg []) d = (d1, c1)" by fastforce
  with assms obtain c2 where "for_overrides ''rancher'' (rancher_cfg (section_of d1 ''rancher'')) d1 = Inr (d', c2)"
    by (auto simp: rancher_2_0_alt res_simps)
  then have "own_name k \<Longrightarrow> get d' k = get d1 k" for k
    using for_overrides_configs [OF _ own_rancher] by blast
  then have "get d' LAB_VERSIONS_KEY = get d1 LAB_VERSIONS_KEY"
    by (simp add: own_name_def LAB_VERSIONS_KEY_def)
  with for_section_configs [OF s] show ?thesis by (simp add: LAB_VERSIONS_KEY_def)
qed

interpretation rancher: migration_step rancher_2_0
  by unfold_locales (fact rancher_2_0_settled rancher_2_0_silent rancher_2_0_versions)+

text \<open>Open ports: a list is no text, so a port list that was split stays.\<close>

definition split_value :: "pval \<Rightarrow> pval" where
  "split_value v = (case v of
     PStr s \<Rightarrow> if str_strip s = [] then v else PList (map PStr (split_ports (str_strip s))) | _ \<Rightarrow> v)"

lemma split_value_idem [simp]: "split_value (split_value v) = split_value v"
  by (auto simp: split_value_def split: pval.splits)

lemma ports_cfg_Cons:
  "ports_cfg (k # ks) w c =
     (if split_value (get c k) = get c k then ports_cfg ks w c
      else let (c', ch) = ports_cfg ks w (AList.update k (split_value (get c k)) c) in
        (c', (w @ ''.'' @ k @ '': '' @ dq (str_of (get c k)) @ '' -> '' @ json_val (split_value (get c k))) # ch))"
proof (cases "get c k")
  case (PStr s)
  show ?thesis
  proof (cases "str_strip s = []")
    case True
    then show ?thesis by (simp only: ports_cfg.simps(2) PStr split_value_def pval.case if_True simp_thms)
  next
    case False
    then show ?thesis by (simp only: ports_cfg.simps(2) PStr split_value_def pval.case if_False simp_thms pval.distinct Let_def str_of_def)
  qed
qed (simp_all only: ports_cfg.simps(2) split_value_def pval.case if_True simp_thms)


declare ports_cfg.simps(2) [simp del]

lemma ports_cfg_get:
  "get (fst (ports_cfg keys w c)) k = (if k \<in> set keys then split_value (get c k) else get c k)"
proof (induction keys arbitrary: c)
  case (Cons key keys)
  show ?case
  proof (cases "split_value (get c key) = get c key")
    case True
    with Cons show ?thesis by (auto simp: ports_cfg_Cons)
  next
    case False
    with Cons [of "AList.update key (split_value (get c key)) c"] show ?thesis
      by (auto simp: ports_cfg_Cons split: prod.splits)
  qed
qed simp

lemma ports_cfg_quiet:
  "\<forall>k \<in> set keys. split_value (get c k) = get c k \<Longrightarrow> ports_cfg keys w c = (c, [])"
  by (induction keys) (auto simp: ports_cfg_Cons)

lemma ports_cfg_silent: "snd (ports_cfg keys w c) = [] \<Longrightarrow> fst (ports_cfg keys w c) = c"
  by (induction keys) (auto simp: ports_cfg_Cons split: prod.splits if_splits)

interpretation ports: config_step "ports_cfg keys w" for keys w
  by unfold_locales (auto simp: ports_cfg_get intro!: ports_cfg_quiet ports_cfg_silent)

lemma ports_nodes_fst: "map fst (fst (ports_nodes ns)) = map fst ns"
  by (induction ns rule: ports_nodes.induct) (auto split: pval.splits prod.splits)

lemma ports_nodes_settled: "ports_nodes (fst (ports_nodes ns)) = (fst (ports_nodes ns), [])"
proof (induction ns)
  case (Cons x ns)
  obtain n cfg where x: "x = (n, cfg)" by fastforce
  obtain ns' ch' where r: "ports_nodes ns = (ns', ch')" by fastforce
  show ?case
  proof (cases "\<exists>c. cfg = PDict c")
    case True
    then obtain c where c: "cfg = PDict c" by blast
    obtain c' ch where f: "ports_cfg PORT_KEYS (''nodes.'' @ n) c = (c', ch)" by fastforce
    have "ports_cfg PORT_KEYS (''nodes.'' @ n) c' = (c', [])"
      using ports.cfg_settled [of PORT_KEYS "''nodes.'' @ n" c] f by simp
    then show ?thesis using Cons x c r f by simp
  next
    case False
    then show ?thesis using Cons x r by (cases cfg) simp_all
  qed
qed simp

lemma ports_nodes_silent: "snd (ports_nodes ns) = [] \<Longrightarrow> fst (ports_nodes ns) = ns"
proof (induction ns)
  case (Cons x ns)
  obtain n cfg where x: "x = (n, cfg)" by fastforce
  show ?case
  proof (cases "\<exists>c. cfg = PDict c")
    case True
    then obtain c where "cfg = PDict c" by blast
    then show ?thesis
      using Cons x ports_cfg_silent [of PORT_KEYS "''nodes.'' @ n" c] by (auto split: prod.splits)
  next
    case False
    then show ?thesis using Cons x by (cases cfg) (auto split: prod.splits)
  qed
qed simp

definition ports_rest :: "dict \<Rightarrow> step_result" where
  "ports_rest d = (case get d ''nodes'' of
     PDict ns \<Rightarrow> (AList.update ''nodes'' (PDict (fst (ports_nodes ns))) d, snd (ports_nodes ns)) | _ \<Rightarrow> (d, []))"

lemma ports_rest_get: "k \<noteq> ''nodes'' \<Longrightarrow> get (fst (ports_rest d)) k = get d k"
  by (simp add: ports_rest_def split: pval.splits)

lemma ports_rest_owners: "(\<exists>os. owners (fst (ports_rest d)) ''nodes'' = Inr os) \<longleftrightarrow> (\<exists>os. owners d ''nodes'' = Inr os)"
  by (simp add: ports_rest_def owners_def split: pval.splits)

interpretation ports_rest: config_step ports_rest
proof unfold_locales
  fix d
  show "ports_rest (fst (ports_rest d)) = (fst (ports_rest d), [])"
    by (simp add: ports_rest_def ports_nodes_settled update_get_dict split: pval.splits)
  show "snd (ports_rest d) = [] \<Longrightarrow> fst (ports_rest d) = d"
    by (simp add: ports_rest_def ports_nodes_silent update_get_dict split: pval.splits)
qed

abbreviation ports_common :: "dict \<Rightarrow> step_result" where
  "ports_common \<equiv> for_section ''common'' (ports_cfg PORT_KEYS ''common'')"

lemma open_ports_alt:
  "open_ports_2_0 d = res_bind (owners d ''nodes'') (\<lambda>_.
     Inr (fst (ports_rest (fst (ports_common d))), snd (ports_common d) @ snd (ports_rest (fst (ports_common d)))))"
proof -
  obtain d1 c1 where "ports_common d = (d1, c1)" by fastforce
  then show ?thesis
    by (cases "get d1 ''nodes''") (simp_all add: open_ports_2_0_def ports_rest_def split_beta)
qed

interpretation ports_common: config_step ports_common
proof unfold_locales
  fix d
  have s: "ports_common d = (fst (ports_common d), snd (ports_common d))" by simp
  show "ports_common (fst (ports_common d)) = (fst (ports_common d), [])"
    by (rule for_section_quiet) (simp only: for_section_configs [OF s] ports.quiet_image)
  assume "snd (ports_common d) = []"
  then have "quiet (ports_cfg PORT_KEYS ''common'') (top_config ''common'' d)"
    using for_section_configs [OF s] by (intro ports.quiet_silent) simp
  then show "fst (ports_common d) = d" by (simp add: for_section_quiet)
qed

lemma ports_common_get: "k \<noteq> ''common'' \<Longrightarrow> get (fst (ports_common d)) k = get d k"
  using for_section_configs [of "''common''" "ports_cfg PORT_KEYS ''common''" d "fst (ports_common d)" "snd (ports_common d)"]
  by simp

lemma ports_common_rest:
  "ports_common d = (d, []) \<Longrightarrow> ports_common (fst (ports_rest d)) = (fst (ports_rest d), [])"
  using ports_rest_get [of "''common''" d]
  by (auto simp: for_section_def update_get_dict split: pval.splits prod.splits)
     (metis for_section_def update_get_dict get_update pval.inject(5))

lemma open_ports_versions:
  "open_ports_2_0 d = Inr (d', ch) \<Longrightarrow> get d' LAB_VERSIONS_KEY = get d LAB_VERSIONS_KEY"
  by (auto simp: open_ports_alt res_simps LAB_VERSIONS_KEY_def ports_rest_get ports_common_get)

lemma open_ports_silent: "open_ports_2_0 d = Inr (d', []) \<Longrightarrow> d' = d"
  using ports_common.cfg_silent [of d] ports_rest.cfg_silent [of d] by (auto simp: open_ports_alt res_simps)

lemma open_ports_settled:
  assumes "open_ports_2_0 d = Inr (d', ch)"
  shows "open_ports_2_0 d' = Inr (d', [])"
proof -
  let ?d1 = "fst (ports_common d)"
  from assms have d': "d' = fst (ports_rest ?d1)" and o: "\<exists>os. owners d ''nodes'' = Inr os"
    by (auto simp: open_ports_alt res_simps)
  have "\<exists>os. owners d' ''nodes'' = Inr os"
    using o ports_common_get [of "''nodes''" d] unfolding d' ports_rest_owners by (simp add: owners_def)
  moreover have "ports_common d' = (d', [])"
    unfolding d' by (rule ports_common_rest) (rule ports_common.cfg_settled)
  moreover have "ports_rest d' = (d', [])"
    unfolding d' by (rule ports_rest.cfg_settled)
  ultimately show ?thesis by (auto simp: open_ports_alt)
qed

interpretation open_ports: migration_step open_ports_2_0
  by unfold_locales (fact open_ports_settled open_ports_silent open_ports_versions)+

text \<open>The default source: the names in the \<open>addons\<close> lists do not depend on the sections.\<close>

lemma all_entry_names_update:
  "own_name name \<Longrightarrow> all_entry_names (AList.update name v d) = all_entry_names d"
  by (simp add: all_entry_names_def owners_def own_name_def eq_commute [of _ name])

definition source_key :: "string \<Rightarrow> string \<Rightarrow> string" where
  "source_key name pfx = (if pfx = [] then name else pfx) @ ''_source''"

lemma default_alt:
  "appcollection_default_2_0 name pfx d =
     res_bind (all_entry_names d) (\<lambda>names.
     if \<not> (is_dict (get d name) \<or> py_in (PStr name) names) \<or> has_key (section_of d name) (source_key name pfx)
     then Inr (d, [])
     else Inr (AList.update name (PDict (AList.update (source_key name pfx) (PStr ''upstream'') (section_of d name))) d,
               [default_note name (source_key name pfx)]))"
proof -
  have u: "AList.update name w (AList.update name v d) = AList.update name w d" for v w
    by (induction d) auto
  have n: "\<not> has_key [] k" for k by (simp add: has_key_def)
  show ?thesis
  proof (cases "\<exists>c. get d name = PDict c")
    case True
    then obtain c where "get d name = PDict c" by blast
    then show ?thesis
      by (simp only: appcollection_default_2_0_def section_of_def source_key_def Let_def pval.case prod.case is_dict.simps
          simp_thms if_False)
  next
    case False
    then have "(case get d name of PDict c \<Rightarrow> (d, c) | _ \<Rightarrow> (AList.update name (PDict []) d, [])) =
        (AList.update name (PDict []) d, [])" "section_of d name = []" "\<not> is_dict (get d name)"
      by (auto simp: section_of_def is_dict_conv split: pval.splits)
    then show ?thesis
      by (simp only: appcollection_default_2_0_def source_key_def Let_def prod.case n u simp_thms if_False)
  qed
qed

lemma default_step:
  assumes "own_name name" and "name \<noteq> LAB_VERSIONS_KEY"
  shows "migration_step (appcollection_default_2_0 name pfx)"
proof (rule migration_step.intro)
  fix d d' ch
  assume r: "appcollection_default_2_0 name pfx d = Inr (d', ch)"
  let ?sec = "AList.update (source_key name pfx) (PStr ''upstream'') (section_of d name)"
  obtain names where n: "all_entry_names d = Inr names"
    using r by (cases "all_entry_names d") (simp_all only: default_alt res_bind_Inl sum.distinct)
  have cases: "d' = d \<and> ch = [] \<or> d' = AList.update name (PDict ?sec) d \<and> ch \<noteq> []"
    using r unfolding default_alt n res_bind_Inr by (simp split: if_splits) blast+
  then show "get d' LAB_VERSIONS_KEY = get d LAB_VERSIONS_KEY"
    using assms(2) by auto
  show "appcollection_default_2_0 name pfx d' = Inr (d', [])"
  proof (cases "d' = d \<and> ch = []")
    case True
    with r show ?thesis by simp
  next
    case False
    with cases have d': "d' = AList.update name (PDict ?sec) d" by blast
    then have "section_of d' name = ?sec" by (simp add: section_of_def)
    then have "has_key (section_of d' name) (source_key name pfx)" by simp
    moreover have "all_entry_names d' = Inr names"
      unfolding d' by (simp only: all_entry_names_update [OF assms(1)] n)
    ultimately show ?thesis by (simp only: default_alt res_bind_Inr simp_thms if_True)
  qed
next
  fix d d'
  assume r: "appcollection_default_2_0 name pfx d = Inr (d', [])"
  then show "d' = d"
    by (cases "all_entry_names d") (simp_all add: default_alt split: if_splits)
qed

text \<open>The keys two passes look at differ, so the second keeps what the first settled.\<close>

lemma drop_then_rules:
  assumes "own_name name" and "name \<noteq> LAB_VERSIONS_KEY"
  shows "migration_step (two_passes name (drop_keys_cfg ks r) (drop_rules rs))"
proof (rule two_pass_laws [OF drop_keys.config_step_axioms drop_rules.config_step_axioms assms])
  fix c
  assume "drop_keys_cfg ks r c = (c, [])"
  then have "\<not> has_key c k" if "k \<in> set ks" for k
    using that drop_keys_cfg_keys [of ks r c k] by simp
  then have "\<not> has_key (fst (drop_rules rs c)) k" if "k \<in> set ks" for k
    using that drop_rules_get [of rs c k] by (simp add: has_key_def)
  then show "drop_keys_cfg ks r (fst (drop_rules rs c)) = (fst (drop_rules rs c), [])"
    by (intro drop_keys_cfg_absent) blast
qed

lemma two_pass_steps:
  "trento_2_0 = two_passes ''trento'' (drop_keys_cfg [''trento_rel'', ''trento_repo_url''] ''Trento installs from trento_chart'')
     (drop_rules trento_rules)"
  "complianceascode_2_0 = two_passes ''complianceascode''
     (drop_keys_cfg [''complianceascode_ns''] ''the namespace is the chart's own'') (drop_rules compliance_rules)"
  by (auto simp only: fun_eq_iff trento_2_0_def complianceascode_2_0_def two_passes_def drop_keys_def)

lemma names_own:
  "list_all (\<lambda>n. own_name n \<and> n \<noteq> LAB_VERSIONS_KEY)
     [''anthropic'', ''appcollection'', ''argocd'', ''complianceascode'', ''coredns'', ''fluentd'', ''gemini'', ''harbor'',
      ''kagent'', ''keycloak'', ''kimi'', ''linkerd'', ''longhorn'', ''milvus'', ''ollama'', ''open_webui'', ''openai'',
      ''postgresql'', ''traefik'', ''trento'']"
  by (simp add: own_name_def LAB_VERSIONS_KEY_def)

lemma every_step: "list_all (\<lambda>(name, f). migration_step f) MIGRATIONS"
  using names_own
  unfolding MIGRATIONS_def litellm_2_0_def appcollection_2_0_def kagent_2_0_def postgresql_2_0_def
    linkerd_2_0_def keycloak_2_0_def two_pass_steps drop_keys_def
  by (simp only: list.pred_inject prod.case simp_thms default_step drop_then_rules
      config_migration_laws [OF drop_keys.config_step_axioms] config_migration_laws [OF drop_rules.config_step_axioms]
      config_migration_laws [OF keycloak.config_step_axioms] rancher.migration_step_axioms open_ports.migration_step_axioms)

lemma step_contract: "map_of MIGRATIONS step = Some f \<Longrightarrow> migration_step f"
  using every_step by (auto simp: list_all_iff dest!: map_of_SomeD)

section \<open>Recording the versions\<close>

lemma run_step_silent: "run_step step data = Inr (data', []) \<Longrightarrow> data' = data"
  by (auto simp: run_step_def res_simps split: option.splits data.splits
      dest!: step_contract dest: migration_step.silent)

lemma run_steps_silent: "run_steps ps data = Inr (data', []) \<Longrightarrow> data' = data"
proof (induction ps arbitrary: data)
  case (Cons x ps)
  obtain n v st where x: "x = (n, v, st)" by (cases x) auto
  with Cons.prems obtain data1 where h: "run_step st data = Inr (data1, [])" "run_steps ps data1 = Inr (data', [])"
    by (auto simp: res_simps)
  from run_step_silent [OF h(1)] Cons.IH [OF h(2)] show ?case by simp
qed simp

lemma run_step_versions: "run_step step (Doc d) = Inr (data, ch) \<Longrightarrow> \<exists>d'. data = Doc d' \<and> get d' LAB_VERSIONS_KEY = get d LAB_VERSIONS_KEY"
  by (auto simp: run_step_def res_simps split: option.splits dest!: step_contract dest: migration_step.keeps_versions)

lemma run_steps_versions:
  "run_steps ps (Doc d) = Inr (data, ch) \<Longrightarrow> \<exists>d'. data = Doc d' \<and> get d' LAB_VERSIONS_KEY = get d LAB_VERSIONS_KEY"
proof (induction ps arbitrary: d ch)
  case (Cons x ps)
  obtain n v st where x: "x = (n, v, st)" by (cases x) auto
  with Cons.prems obtain u c1 c2 where h: "run_step st (Doc d) = Inr (u, c1)" "run_steps ps u = Inr (data, c2)"
    by (auto simp: res_simps)
  from run_step_versions [OF h(1)] obtain d1 where "u = Doc d1" "get d1 LAB_VERSIONS_KEY = get d LAB_VERSIONS_KEY" by blast
  with Cons.IH h(2) show ?case by metis
qed auto

lemma map_of_map_filter_self:
  "map_of (List.map_filter (\<lambda>n. if bad n then None else Some (n, f n)) ns) n =
     (if n \<in> set ns \<and> \<not> bad n then Some (f n) else None)"
  by (induction ns) (auto simp: List.map_filter_simps)

lemma latest_versions_get:
  "map_of (latest_versions rc ns) n =
     (if n \<in> set ns \<and> entries_of rc n \<noteq> [] then Some (PStr (ve_version (last (entries_of rc n)))) else None)"
  unfolding latest_versions_def by (rule map_of_map_filter_self)

text \<open>A record as the maintainers' check leaves it: versions parse, and the last is the newest.\<close>

definition entries_ok :: "version_entry list \<Rightarrow> bool" where
  "entries_ok es = list_all (\<lambda>e.
     case (version_key (PStr (ve_version e)), version_key (PStr (ve_version (last es)))) of
       (Inr v, Inr w) \<Rightarrow> v \<le> w
     | _ \<Rightarrow> False) es"

definition record_ok :: "compat \<Rightarrow> bool" where
  "record_ok rc = list_all (\<lambda>(n, es). entries_ok es) rc"

lemma record_ok_entries: "record_ok rc \<Longrightarrow> entries_ok (entries_of rc n)"
  by (auto simp: record_ok_def entries_of_def list_all_iff entries_ok_def split: option.splits dest!: map_of_SomeD)

lemma pending_entries_none:
  "(\<And>e. e \<in> set es \<Longrightarrow> \<exists>v. version_key (PStr (ve_version e)) = Inr v \<and> v \<le> have) \<Longrightarrow>
   pending_entries name have es = Inr []"
proof (induction es)
  case (Cons e es)
  then obtain v where "version_key (PStr (ve_version e)) = Inr v" "v \<le> have" by (meson list.set_intros(1))
  with Cons show ?case by (auto split: option.splits)
qed simp

lemma version_key_default: "version_key (PStr ''1.0'') = Inr [1, 0]"
  by code_simp

lemma pending_schema_stamped:
  assumes "record_ok rc" and "n \<in> set ns"
  shows "pending_schema (latest_versions rc ns) rc n = Inr []"
proof (cases "entries_of rc n = []")
  case True
  then show ?thesis using assms(2)
    by (simp add: pending_schema_def get_dflt_def latest_versions_get version_key_default)
next
  case False
  let ?last = "version_key (PStr (ve_version (last (entries_of rc n))))"
  have ok: "\<exists>v w. version_key (PStr (ve_version e)) = Inr v \<and> ?last = Inr w \<and> v \<le> w" if "e \<in> set (entries_of rc n)" for e
    using record_ok_entries [OF assms(1), of n] that
    by (cases "version_key (PStr (ve_version e))"; cases ?last) (auto simp: entries_ok_def list_all_iff)
  then obtain w where w: "?last = Inr w" using False by (meson last_in_set)
  have "pending_entries n w (entries_of rc n) = Inr []"
    by (rule pending_entries_none) (use ok w in fastforce)
  with False w assms(2) show ?thesis by (simp add: pending_schema_def get_dflt_def latest_versions_get)
qed

lemma collect_addon_names_update:
  "own_name k \<Longrightarrow> collect_addon_names (AList.update k v d) = collect_addon_names d"
  by (simp add: collect_addon_names_def own_name_def eq_commute [of _ k])

definition addon_section :: "dict \<Rightarrow> string \<Rightarrow> bool" where
  "addon_section d k = (k \<notin> set (LAB_VERSIONS_KEY # BASE_SECTIONS) \<and> is_dict (get d k))"

lemma schemas_of_lab:
  "schemas_of ''lab'' (Doc d) =
     res_bind (collect_addon_names d) (\<lambda>ns.
     res_bind (res_map as_str (filter (\<lambda>v. v \<notin> PStr ` set (LAB_VERSIONS_KEY # BASE_SECTIONS)) ns @
        map PStr (filter (addon_section d) (map fst d)))) (\<lambda>ss.
     Inr (''lab'' # sort (remdups (map (\<lambda>s. ''addon:'' @ s) ss)))))"
proof -
  have "filter (\<lambda>v. v \<notin> PStr ` S) (map (\<lambda>(k, v). PStr k) (filter (\<lambda>(k, v). P k) xs)) =
      map PStr (filter (\<lambda>k. k \<notin> S \<and> P k) (map fst xs))" for S P and xs :: dict
    by (induction xs) (auto simp: image_iff)
  then show ?thesis
    by (simp only: schemas_of_def addon_section_def [abs_def] Let_def filter_append data.case if_False simp_thms)
qed

lemma schemas_of_stamped:
  "schemas_of ''lab'' (Doc (AList.update LAB_VERSIONS_KEY v d)) = schemas_of ''lab'' (Doc d)"
proof -
  have a: "addon_section (AList.update LAB_VERSIONS_KEY v d) = addon_section d"
    by (auto simp: addon_section_def fun_eq_iff)
  have b: "\<not> addon_section d LAB_VERSIONS_KEY" by (simp add: addon_section_def)
  have c: "filter (addon_section d) (map fst (AList.update LAB_VERSIONS_KEY v d)) = filter (addon_section d) (map fst d)"
    using b by (simp add: update_keys)
  have "own_name LAB_VERSIONS_KEY" by (simp add: own_name_def LAB_VERSIONS_KEY_def)
  then show ?thesis by (simp only: schemas_of_lab a c collect_addon_names_update)
qed

lemma pending_after_stamp:
  assumes "stamp ''lab'' (Doc d) rc = Inr data" and "record_ok rc"
  shows "pending ''lab'' data rc = Inr []"
proof -
  obtain names where n: "schemas_of ''lab'' (Doc d) = Inr names"
    and data: "data = Doc (AList.update LAB_VERSIONS_KEY (PDict (latest_versions rc names)) d)"
    using assms(1) by (auto simp: stamp_def res_simps)
  have r: "recorded_versions ''lab'' data = Inr (latest_versions rc names)"
    by (simp add: data recorded_versions_def py_or_def dict_of_def)
  have s: "schemas_of ''lab'' data = Inr names" by (simp add: data schemas_of_stamped n)
  have "res_map (pending_schema (latest_versions rc names) rc) names = Inr (map (\<lambda>_. []) names)"
    by (rule res_map_Inr_conv) (rule pending_schema_stamped [OF assms(2)])
  moreover have "concat (map (\<lambda>_. []) names) = []" by (induction names) auto
  ultimately show ?thesis by (simp add: pending_def r s)
qed

section \<open>Properties\<close>

text \<open>Every migration step: run on its own result it changes and reports nothing, when it reports
  nothing it changed nothing, and it leaves the versions the file records alone.\<close>

theorem migration_step_laws:
  assumes "map_of MIGRATIONS step = Some f" and "f d = Inr (d', ch)"
  shows "f d' = Inr (d', []) \<and> (ch = [] \<longrightarrow> d' = d) \<and> get d' LAB_VERSIONS_KEY = get d LAB_VERSIONS_KEY"
  by (rule migration_step.laws [OF step_contract [OF assms(1)] assms(2)])

text \<open>A lab definition stamped with the current versions needs no migration, and
  \<open>require_current\<close> accepts it.\<close>

theorem stamped_is_current:
  assumes "stamp ''lab'' (Doc d) rc = Inr (Doc d')" and "record_ok rc"
  shows "pending ''lab'' (Doc d') rc = Inr [] \<and> require_current rc d' path = Inr ()"
  using pending_after_stamp [OF assms]
  by (simp add: require_current_def needed_changes_def migrate_def)

text \<open>C30 \<open>require_current\<close> is sound: a definition it accepts is one \<open>migrate\<close> leaves as it is.\<close>

theorem require_current_sound:
  assumes "require_current rc d path = Inr ()"
  shows "migrate ''lab'' (Doc d) rc = Inr (Doc d, [])"
proof -
  from assms obtain d' where m: "migrate ''lab'' (Doc d) rc = Inr (d', [])"
    by (auto simp: require_current_def needed_changes_def res_simps split: if_splits)
  then have "d' = Doc d" by (auto simp: migrate_def res_simps intro: run_steps_silent)
  with m show ?thesis by simp
qed

definition sample_record :: compat where
  "sample_record =
     [(''lab'', [\<lparr>ve_version = ''1.0'', ve_breaking = False, ve_changes = ''first'', ve_migration = None\<rparr>,
                \<lparr>ve_version = ''2.0'', ve_breaking = True, ve_changes = ''ports'', ve_migration = Some ''open_ports_2_0''\<rparr>])]"

definition sample_lab :: dict where
  "sample_lab = [(''common'', PDict [(''open_ports'', PStr ''443, 69/udp'')])]"

definition sample_lab_new :: dict where
  "sample_lab_new = [(''common'', PDict [(''open_ports'', PList [PStr ''443'', PStr ''69/udp''])])]"

theorem migration_step_laws_witness:
  "open_ports_2_0 sample_lab_new = Inr (sample_lab_new, []) \<and> sample_lab \<noteq> sample_lab_new"
proof -
  have r: "open_ports_2_0 sample_lab =
      Inr (sample_lab_new, [''common.open_ports: '' @ dq ''443, 69/udp'' @ '' -> '' @ json_val (PList [PStr ''443'', PStr ''69/udp''])])"
    by code_simp
  have m: "map_of MIGRATIONS ''open_ports_2_0'' = Some open_ports_2_0"
    by (simp add: MIGRATIONS_def)
  from migration_step_laws [OF m r] show ?thesis by (simp add: sample_lab_def sample_lab_new_def)
qed

theorem stamped_is_current_witness:
  "pending ''lab'' (Doc (AList.update LAB_VERSIONS_KEY (PDict [(''lab'', PStr ''2.0'')]) sample_lab_new)) sample_record = Inr []
   \<and> require_current sample_record (AList.update LAB_VERSIONS_KEY (PDict [(''lab'', PStr ''2.0'')]) sample_lab_new) ''lab.json'' = Inr ()"
proof -
  have s: "stamp ''lab'' (Doc sample_lab_new) sample_record =
      Inr (Doc (AList.update LAB_VERSIONS_KEY (PDict [(''lab'', PStr ''2.0'')]) sample_lab_new))"
    by code_simp
  have "record_ok sample_record" by code_simp
  from stamped_is_current [OF s this] show ?thesis .
qed

theorem require_current_sound_witness:
  "migrate ''lab'' (Doc sample_lab_new) sample_record = Inr (Doc sample_lab_new, [])"
proof -
  have "require_current sample_record sample_lab_new ''lab.json'' = Inr ()" by code_simp
  then show ?thesis by (rule require_current_sound)
qed

end
