(* ===== verification/Py_Regex.thy ===== *)
theory Py_Regex
  imports Py_Base
begin

text \<open>
  Python's \<open>re\<close> module, as far as the code uses it: a parser for the pattern text and a
  backtracking matcher. A match state is the character before the position, the text that is
  left, and the groups captured so far; \<open>rx_run\<close> lists the states a match may end in, in
  the order the backtracking engine tries them, so the head of the list is the match Python
  returns. Greedy quantifiers only: a lazy one (\<open>*?\<close>) is outside the subset and does not
  parse, and no pattern of the repository's library modules that is modelled has one.
\<close>

section \<open>Patterns and matching\<close>

datatype rx = REps | RSet bool "(nat \<times> nat) list" | RSeq rx rx | RAlt rx rx | RStar rx
  | RGrp nat rx | RBol | REol | RWordB

type_synonym rx_state = "char option \<times> string \<times> (nat \<times> string) list"

definition in_set :: "bool \<Rightarrow> (nat \<times> nat) list \<Rightarrow> char \<Rightarrow> bool" where
  "in_set neg rs c = (list_ex (\<lambda>(a, b). a \<le> code c \<and> code c \<le> b) rs \<noteq> neg)"

definition word_at :: "char option \<Rightarrow> bool" where
  "word_at x = (case x of None \<Rightarrow> False | Some c \<Rightarrow> is_word c)"

definition head_char :: "string \<Rightarrow> char option" where
  "head_char s = (case s of [] \<Rightarrow> None | c # _ \<Rightarrow> Some c)"

definition rest_len :: "rx_state \<Rightarrow> nat" where
  "rest_len st = length (fst (snd st))"

function rx_run :: "rx \<Rightarrow> rx_state \<Rightarrow> rx_state list" where
  "rx_run REps st = [st]"
| "rx_run (RSet neg rs) st =
     (case st of (p, s, g) \<Rightarrow>
        (case s of [] \<Rightarrow> [] | c # cs \<Rightarrow> if in_set neg rs c then [(Some c, cs, g)] else []))"
| "rx_run (RSeq r1 r2) st = concat (map (rx_run r2) (rx_run r1 st))"
| "rx_run (RAlt r1 r2) st = rx_run r1 st @ rx_run r2 st"
| "rx_run (RStar r) st =
     concat (map (\<lambda>st'. if rest_len st' < rest_len st then rx_run (RStar r) st' else []) (rx_run r st))
     @ [st]"
| "rx_run (RGrp n r) st =
     (case st of (p, s, g) \<Rightarrow>
        map (\<lambda>(p', s', g'). (p', s', (n, take (length s - length s') s) # g')) (rx_run r st))"
| "rx_run RBol st = (case st of (p, s, g) \<Rightarrow> if p = None then [st] else [])"
| "rx_run REol st = (case st of (p, s, g) \<Rightarrow> if s = [] \<or> s = NL then [st] else [])"
| "rx_run RWordB st =
     (case st of (p, s, g) \<Rightarrow> if word_at p \<noteq> word_at (head_char s) then [st] else [])"
  by pat_completeness auto
termination
  by (relation "measures [\<lambda>(r, st). size r, \<lambda>(r, st). rest_len st]") auto

declare rx_run.simps(5) [simp del]

text \<open>\<open>re.match\<close>, \<open>re.fullmatch\<close> and \<open>re.search\<close>.\<close>

definition rx_match :: "rx \<Rightarrow> string \<Rightarrow> rx_state option" where
  "rx_match r s = (case rx_run r (None, s, []) of [] \<Rightarrow> None | m # _ \<Rightarrow> Some m)"

definition rx_fullmatch :: "rx \<Rightarrow> string \<Rightarrow> rx_state option" where
  "rx_fullmatch r s = find (\<lambda>m. fst (snd m) = []) (rx_run r (None, s, []))"

fun rx_search_from :: "rx \<Rightarrow> char option \<Rightarrow> string \<Rightarrow> rx_state option" where
  "rx_search_from r p s =
     (case rx_run r (p, s, []) of
        m # _ \<Rightarrow> Some m
      | [] \<Rightarrow> (case s of [] \<Rightarrow> None | c # cs \<Rightarrow> rx_search_from r (Some c) cs))"

declare rx_search_from.simps [simp del]

definition rx_search :: "rx \<Rightarrow> string \<Rightarrow> rx_state option" where
  "rx_search r s = rx_search_from r None s"

text \<open>
  \<open>re.findall\<close> without groups: the matched texts, each search starting where the last match
  ended. None of the patterns it is used with matches the empty text.
\<close>

function rx_findall_from :: "rx \<Rightarrow> char option \<Rightarrow> string \<Rightarrow> string list" where
  "rx_findall_from r p s =
     (case s of [] \<Rightarrow> []
      | c # cs \<Rightarrow>
        (case rx_run r (p, s, []) of
           [] \<Rightarrow> rx_findall_from r (Some c) cs
         | (p', s', g) # _ \<Rightarrow>
             (if length s' < length s then take (length s - length s') s # rx_findall_from r p' s'
              else rx_findall_from r (Some c) cs)))"
  by pat_completeness auto
termination
  by (relation "measure (\<lambda>(r, p, s). length s)") auto

declare rx_findall_from.simps [simp del]

definition rx_findall :: "rx \<Rightarrow> string \<Rightarrow> string list" where
  "rx_findall r s = rx_findall_from r None s"

text \<open>\<open>m.group(n)\<close>: the last text the group took, if it took part in the match.\<close>

definition group :: "rx_state \<Rightarrow> nat \<Rightarrow> string option" where
  "group m n = map_of (snd (snd m)) n"

section \<open>The pattern text\<close>

definition ch_range :: "char \<Rightarrow> nat \<times> nat" where
  "ch_range c = (code c, code c)"

definition lit :: "char \<Rightarrow> rx" where
  "lit c = RSet False [ch_range c]"

definition digit_set :: "(nat \<times> nat) list" where
  "digit_set = [(48, 57)]"

definition space_set :: "(nat \<times> nat) list" where
  "space_set = [(9, 13), (28, 32)]"

definition word_set :: "(nat \<times> nat) list" where
  "word_set = [(48, 57), (65, 90), (95, 95), (97, 122)]"

definition any_char :: rx where
  "any_char = RSet True [(10, 10)]"

fun rx_repeat :: "nat \<Rightarrow> rx \<Rightarrow> rx" where
  "rx_repeat 0 r = REps"
| "rx_repeat (Suc n) r = RSeq r (rx_repeat n r)"

fun rx_upto :: "nat \<Rightarrow> rx \<Rightarrow> rx" where
  "rx_upto 0 r = REps"
| "rx_upto (Suc n) r = RAlt (RSeq r (rx_upto n r)) REps"

definition rx_plus :: "rx \<Rightarrow> rx" where
  "rx_plus r = RSeq r (RStar r)"

fun rx_lits :: "string \<Rightarrow> rx" where
  "rx_lits [] = REps"
| "rx_lits (c # cs) = RSeq (lit c) (rx_lits cs)"

definition is_quant :: "char \<Rightarrow> bool" where
  "is_quant c = (c = CHR ''*'' \<or> c = CHR ''+'' \<or> c = CHR ''?'')"

text \<open>The escapes \<open>\\d \\s \\S \\w\<close> and a quoted punctuation character.\<close>

definition escape_ranges :: "char \<Rightarrow> (bool \<times> (nat \<times> nat) list) option" where
  "escape_ranges c =
     (if c = CHR ''d'' then Some (False, digit_set)
      else if c = CHR ''s'' then Some (False, space_set)
      else if c = CHR ''S'' then Some (True, space_set)
      else if c = CHR ''w'' then Some (False, word_set)
      else if is_word c then None
      else Some (False, [ch_range c]))"

text \<open>The inside of a character class, up to the bracket that closes it: one that comes first is a literal. A range goes from one
  character to one that is not before it.\<close>

definition class_item :: "string \<Rightarrow> ((nat \<times> nat) list \<times> string) option" where
  "class_item s =
     (case s of [] \<Rightarrow> None
      | c # cs \<Rightarrow>
        if code c = 92 then
          (case cs of [] \<Rightarrow> None | d # ds \<Rightarrow> (case escape_ranges d of Some (False, rs) \<Rightarrow> Some (rs, ds) | _ \<Rightarrow> None))
        else Some ([ch_range c], cs))"

definition class_range :: "(nat \<times> nat) list \<Rightarrow> (nat \<times> nat) list \<Rightarrow> (nat \<times> nat) option" where
  "class_range rs qs =
     (case (rs, qs) of
        ([(a, a')], [(b, b')]) \<Rightarrow> if a = a' \<and> b = b' \<and> a \<le> b then Some (a, b) else None
      | _ \<Rightarrow> None)"

fun p_class :: "nat \<Rightarrow> (nat \<times> nat) list \<Rightarrow> string \<Rightarrow> ((nat \<times> nat) list \<times> string) option" where
  "p_class 0 acc s = None"
| "p_class (Suc f) acc s =
     (if starts_with s '']'' \<and> acc \<noteq> [] then Some (rev acc, drop 1 s)
      else case class_item s of None \<Rightarrow> None
        | Some (rs, ds) \<Rightarrow>
          (case ds of
             d # e # es \<Rightarrow>
               if d = CHR ''-'' \<and> e \<noteq> CHR '']'' then
                 (case class_item (e # es) of None \<Rightarrow> None
                  | Some (qs, rest) \<Rightarrow> (case class_range rs qs of None \<Rightarrow> None | Some r \<Rightarrow> p_class f (r # acc) rest))
               else p_class f (rev rs @ acc) ds
           | _ \<Rightarrow> p_class f (rev rs @ acc) ds))"

text \<open>The counts of \<open>{m}\<close>, \<open>{m,n}\<close>, \<open>{m,}\<close>, \<open>{,n}\<close> and \<open>{,}\<close>: any other braces are literal.\<close>

definition p_counts :: "string \<Rightarrow> (nat \<times> nat option) option" where
  "p_counts s =
     (case split_ch CHR '','' s of
        [a] \<Rightarrow> map_option (\<lambda>m. (m, Some m)) (unsigned_int a)
      | [a, b] \<Rightarrow> (case (if a = [] then Some 0 else unsigned_int a, if b = [] then Some None else map_option Some (unsigned_int b)) of
          (Some m, Some n) \<Rightarrow> Some (m, n) | _ \<Rightarrow> None)
      | _ \<Rightarrow> None)"

definition count_rx :: "nat \<Rightarrow> nat option \<Rightarrow> rx \<Rightarrow> rx" where
  "count_rx m n r =
     RSeq (rx_repeat m r) (case n of None \<Rightarrow> RStar r | Some k \<Rightarrow> rx_upto (k - m) r)"

text \<open>Counts in braces at the beginning of a text, and what follows them.\<close>

definition braces :: "string \<Rightarrow> ((nat \<times> nat option) \<times> string) option" where
  "braces s =
     (if \<not> starts_with s ''{'' then None
      else let body = takeWhile (\<lambda>x. x \<noteq> CHR ''}'') (drop 1 s); tail = drop (length body + 1) s in
        (case (tail, p_counts body) of (_ # rest, Some mn) \<Rightarrow> Some (mn, rest) | _ \<Rightarrow> None))"

definition quant_next :: "string \<Rightarrow> bool" where
  "quant_next s = (braces s \<noteq> None \<or> (case s of [] \<Rightarrow> False | c # _ \<Rightarrow> is_quant c))"

definition one_quant :: "rx \<Rightarrow> string \<Rightarrow> (rx \<times> string) option" where
  "one_quant a s =
     (case braces s of
        Some ((m, n), rest) \<Rightarrow> (case n of Some k \<Rightarrow> if k < m then None else Some (count_rx m n a, rest) | None \<Rightarrow> Some (count_rx m n a, rest))
      | None \<Rightarrow>
        (case s of [] \<Rightarrow> None
         | c # cs \<Rightarrow>
           if c = CHR ''*'' then Some (RStar a, cs) else if c = CHR ''+'' then Some (rx_plus a, cs) else Some (RAlt a REps, cs)))"

text \<open>A quantifier after an atom; there is none for a position, and a second one is Python's \<open>multiple repeat\<close> error
  (or, as \<open>*?\<close>, outside the subset).\<close>

definition p_quant :: "rx \<Rightarrow> string \<Rightarrow> (rx \<times> string) option" where
  "p_quant a s =
     (if \<not> quant_next s then Some (a, s)
      else if a \<in> {RBol, REol, RWordB} then None
      else case one_quant a s of
        Some (q, rest) \<Rightarrow> if quant_next rest then None else Some (q, rest)
      | None \<Rightarrow> None)"

fun p_alt :: "nat \<Rightarrow> nat \<Rightarrow> string \<Rightarrow> (rx \<times> nat \<times> string) option"
  and p_seq :: "nat \<Rightarrow> nat \<Rightarrow> string \<Rightarrow> (rx \<times> nat \<times> string) option"
  and p_atom :: "nat \<Rightarrow> nat \<Rightarrow> string \<Rightarrow> (rx \<times> nat \<times> string) option" where
  "p_alt 0 g s = None"
| "p_alt (Suc f) g s =
     (case p_seq f g s of None \<Rightarrow> None
      | Some (r, g', rest) \<Rightarrow>
        (case rest of
           c # cs \<Rightarrow> if c = CHR ''|'' then
                       (case p_alt f g' cs of None \<Rightarrow> None
                        | Some (r2, g'', rest') \<Rightarrow> Some (RAlt r r2, g'', rest'))
                     else Some (r, g', rest)
         | [] \<Rightarrow> Some (r, g', rest)))"
| "p_seq 0 g s = None"
| "p_seq (Suc f) g s =
     (case s of [] \<Rightarrow> Some (REps, g, [])
      | c # cs \<Rightarrow>
        if c = CHR '')'' \<or> c = CHR ''|'' then Some (REps, g, s)
        else (case p_atom f g s of None \<Rightarrow> None
              | Some (a, g', rest) \<Rightarrow>
                (case p_quant a rest of None \<Rightarrow> None
                 | Some (q, rest') \<Rightarrow>
                   (case p_seq f g' rest' of None \<Rightarrow> None
                    | Some (r, g'', rest'') \<Rightarrow> Some (RSeq q r, g'', rest'')))))"
| "p_atom 0 g s = None"
| "p_atom (Suc f) g s =
     (case s of [] \<Rightarrow> None
      | c # cs \<Rightarrow>
        if c = CHR ''('' then
          (let cap = \<not> prefix ''?:'' cs; body = (if cap then cs else drop 2 cs);
               n = g + 1 in
           (case p_alt f (if cap then n else g) body of
              Some (r, g', d # rest) \<Rightarrow>
                if d = CHR '')'' then Some (if cap then RGrp n r else r, g', rest) else None
            | _ \<Rightarrow> None))
        else if c = CHR ''['' then
          (case cs of [] \<Rightarrow> None
           | d # ds \<Rightarrow>
             (case p_class (length cs) [] (if d = CHR ''^'' then ds else cs) of None \<Rightarrow> None
              | Some (rs, rest) \<Rightarrow> Some (RSet (d = CHR ''^'') rs, g, rest)))
        else if c = CHR ''.'' then Some (any_char, g, cs)
        else if c = CHR ''^'' then Some (RBol, g, cs)
        else if c = CHR ''$'' then Some (REol, g, cs)
        else if code c = 92 then
          (case cs of [] \<Rightarrow> None
           | d # ds \<Rightarrow> if d = CHR ''b'' then Some (RWordB, g, ds)
                       else map_option (\<lambda>(neg, rs). (RSet neg rs, g, ds)) (escape_ranges d))
        else if quant_next s then None
        else Some (lit c, g, cs))"

text \<open>\<open>re.compile\<close>: None stands for \<open>re.error\<close> (or a construct outside the subset).\<close>

definition rx_parse :: "string \<Rightarrow> rx option" where
  "rx_parse s =
     (case p_alt (2 * length s + 3) 0 s of
        Some (r, _, []) \<Rightarrow> Some r
      | _ \<Rightarrow> None)"

section \<open>What the matcher computes\<close>

text \<open>Matching never grows the text that is left.\<close>

lemma rx_run_shrinks: "st' \<in> set (rx_run r st) \<Longrightarrow> rest_len st' \<le> rest_len st"
proof (induction r st arbitrary: st' rule: rx_run.induct)
  case (3 r1 r2 st)
  then obtain st1 where "st1 \<in> set (rx_run r1 st)" "st' \<in> set (rx_run r2 st1)" by auto
  with "3.IH" show ?case by (metis le_trans)
next
  case (5 r st)
  from "5.prems" consider "st' = st"
    | st1 where "st1 \<in> set (rx_run r st)" "rest_len st1 < rest_len st" "st' \<in> set (rx_run (RStar r) st1)"
    by (subst (asm) rx_run.simps(5)) (auto split: if_splits)
  then show ?case
  proof cases
    case 2
    with "5.IH"(2) [of st1 st'] show ?thesis by simp
  qed simp
qed (auto simp: rest_len_def split: prod.splits list.splits if_splits)

lemma rx_run_lit [simp]:
  "rx_run (lit c) (p, s, g) = (case s of [] \<Rightarrow> [] | d # ds \<Rightarrow> if d = c then [(Some d, ds, g)] else [])"
  by (auto simp: lit_def in_set_def ch_range_def code_def split: list.splits)

text \<open>A literal text matches itself and nothing else.\<close>

lemma rx_run_lits:
  "rx_run (rx_lits w) (p, s, g) =
     (if prefix w s then [(if w = [] then p else Some (last w), drop (length w) s, g)] else [])"
proof (induction w arbitrary: p s)
  case Nil
  then show ?case by simp
next
  case (Cons c cs)
  then show ?case by (cases s) auto
qed

lemma rx_search_lits: "rx_search_from (rx_lits w) p s \<noteq> None \<longleftrightarrow> contains w s"
proof (induction s arbitrary: p)
  case Nil
  then show ?case by (subst rx_search_from.simps) (simp add: rx_run_lits)
next
  case (Cons c cs)
  then show ?case by (subst rx_search_from.simps) (simp add: rx_run_lits)
qed

lemma rx_search_alt:
  "rx_search_from (RAlt a b) p s \<noteq> None \<longleftrightarrow> rx_search_from a p s \<noteq> None \<or> rx_search_from b p s \<noteq> None"
proof (induction s arbitrary: p)
  case Nil
  show ?case
    by (simp add: rx_search_from.simps [of _ p "[]"] split: list.splits)
next
  case (Cons c cs)
  show ?case
    using Cons [of "Some c"]
    by (simp add: rx_search_from.simps [of _ p "c # cs"] split: list.splits)
qed

end
