(* ===== verification/Version_Matrix.thy ===== *)
theory Version_Matrix
  imports Py_Base
begin

text \<open>
  \<open>libs/versions.py\<close>: the versions an add-on declares it can install, and the warnings a lab
  outside that matrix gets; and \<open>libs/provisioning.py\<close>, the URLs and TLS options of the files
  the lab's machines fetch. Versions are compared as lists of numbers, which is how Python
  compares the tuples. Digits are the ASCII ones.
\<close>

section \<open>Versions\<close>

text \<open>\<open>re.sub(r"^--version[=\s]+", "", s)\<close>\<close>

definition is_sep :: "char \<Rightarrow> bool" where
  "is_sep c = (c = CHR ''='' \<or> is_space c)"

definition strip_flag :: "string \<Rightarrow> string" where
  "strip_flag s =
     (let rest = drop (length ''--version'') s in
      if starts_with s ''--version'' \<and> rest \<noteq> [] \<and> is_sep (hd rest) then dropWhile is_sep rest else s)"

definition bare_version :: "pval \<Rightarrow> string" where
  "bare_version value = strip_flag (str_strip (if value = PNone then [] else py_str value))"

definition normalize :: "pval \<Rightarrow> string" where
  "normalize value =
     (case bare_version value of
        c # d # rest \<Rightarrow> if (c = CHR ''v'' \<or> c = CHR ''V'') \<and> is_digit d then d # rest else c # d # rest
      | v \<Rightarrow> v)"

text \<open>\<open>shlex.quote\<close>: text of safe characters stays, other text is put in single quotes.\<close>

definition shell_safe :: "char \<Rightarrow> bool" where
  "shell_safe c = (is_word c \<or> c \<in> set ''@%+=:,./-'')"

definition shlex_quote :: "string \<Rightarrow> string" where
  "shlex_quote s =
     (if s = [] then sq []
      else if list_all shell_safe s then s
      else sq (replace_ch CHR 0x27 (QUOTE @ dq QUOTE @ QUOTE) s))"

definition helm_version_flag :: "pval \<Rightarrow> string" where
  "helm_version_flag value =
     (let v = bare_version value in if v \<noteq> [] then ''--version '' @ shlex_quote v else [])"

text \<open>\<open>\d+(?:\.\d+)*\<close> at the start of the text, as numbers.\<close>

function dotted :: "string \<Rightarrow> nat list" where
  "dotted s =
     (let ds = takeWhile is_digit s in
      if ds = [] then []
      else the (digits_val 0 ds) #
        (case dropWhile is_digit s of [] \<Rightarrow> [] | c # rest \<Rightarrow> if c = CHR ''.'' then dotted rest else []))"
  by pat_completeness auto
termination
proof (relation "measure length", goal_cases)
  case (2 s ds c rest)
  have "length (dropWhile is_digit s) \<le> length s" by (rule length_dropWhile_le)
  with 2 show ?case by simp
qed simp

declare dotted.simps [simp del]

definition numbers :: "pval \<Rightarrow> nat list" where
  "numbers version = dotted (normalize version)"

definition matches :: "pval \<Rightarrow> string \<Rightarrow> bool" where
  "matches declared value =
     (let d = normalize declared; v = normalize (PStr value) in
      d \<noteq> [] \<and> (v = d \<or> starts_with v (d @ ''.'')))"

fun first_matching :: "string \<Rightarrow> pval list \<Rightarrow> dict option res" where
  "first_matching value [] = Inr None"
| "first_matching value (e # rest) =
     (case e of
        PDict d \<Rightarrow> if matches (PStr (py_str (get_dflt d ''version'' (PStr [])))) value then Inr (Some d)
                   else first_matching value rest
      | _ \<Rightarrow> Inl (AttributeError ''get''))"

definition entry_for :: "pval \<Rightarrow> string \<Rightarrow> dict option res" where
  "entry_for entries value = res_bind (or_list entries) (first_matching value)"

text \<open>\<open>^v?\d+\.\d+\<close>: a channel such as \<open>stable\<close> has no minor version.\<close>

definition kubernetes_minor :: "pval \<Rightarrow> nat list" where
  "kubernetes_minor clu_rel =
     (let s = str_strip (py_str (py_or clu_rel (PStr [])));
          t = (case s of c # cs \<Rightarrow> if c = CHR ''v'' then cs else s | [] \<Rightarrow> []) in
      if length (dotted t) \<ge> 2 then take 2 (numbers clu_rel) else [])"

definition entry_version :: "pval \<Rightarrow> string option res" where
  "entry_version e =
     (case e of
        PDict d \<Rightarrow> Inr (if truthy (get d ''version'') then Some (py_str (get d ''version'')) else None)
      | _ \<Rightarrow> Inl (AttributeError ''get''))"

definition suggestions :: "pval \<Rightarrow> string \<Rightarrow> string list res" where
  "suggestions versions field =
     res_bind (or_dict versions) (\<lambda>vs. res_bind (or_list (get vs field)) (\<lambda>es.
     res_bind (res_map entry_version es) (\<lambda>xs. Inr (List.map_filter id xs))))"

definition sorted_strs :: "pval \<Rightarrow> string list res" where
  "sorted_strs v = res_bind (or_list v) (\<lambda>xs. res_bind (res_map as_str xs) (\<lambda>ss. Inr (sort ss)))"

section \<open>The checks\<close>

definition range_issue ::
  "string \<Rightarrow> string \<Rightarrow> string \<Rightarrow> pval \<Rightarrow> nat list \<Rightarrow> dict \<Rightarrow> string list" where
  "range_issue field declared clu_type clu_rel kube rng =
     (let low = numbers (get_dflt rng ''min'' (PStr [])); high = numbers (get_dflt rng ''max'' (PStr [])) in
      if low \<noteq> [] \<and> kube < take 2 low \<or> high \<noteq> [] \<and> kube > take 2 high then
        [field @ '' '' @ declared @ '' supports Kubernetes '' @ py_str (get_dflt rng ''min'' (PStr ''any'')) @ endash @
         py_str (get_dflt rng ''max'' (PStr ''any'')) @ '' on '' @ clu_type @ '', the kcluster's clu_rel is '' @
         sq (py_str clu_rel)]
      else [])"

definition kubernetes_issues ::
  "string \<Rightarrow> string \<Rightarrow> pval \<Rightarrow> string \<Rightarrow> pval \<Rightarrow> nat list \<Rightarrow> string list res" where
  "kubernetes_issues field declared supported clu_type clu_rel kube =
     (if \<not> (truthy supported \<and> clu_type \<noteq> []) then Inr []
      else res_bind (py_member (PStr clu_type) supported) (\<lambda>known.
        if \<not> known then
          res_bind (sorted_strs supported) (\<lambda>ss.
          Inr [field @ '' '' @ declared @ '' is not declared for clu_type '' @ sq clu_type @
               '' (declared: '' @ join '', '' ss @ '')''])
        else if kube = [] then Inr []
        else (case supported of
                PDict d \<Rightarrow> res_bind (or_dict (get d clu_type)) (\<lambda>rng.
                           Inr (range_issue field declared clu_type clu_rel kube rng))
              | _ \<Rightarrow> Inl (TypeError ''indices''))))"

fun os_issues :: "string \<Rightarrow> string \<Rightarrow> pval \<Rightarrow> string list \<Rightarrow> string list res" where
  "os_issues field declared allowed [] = Inr []"
| "os_issues field declared allowed (variant # rest) =
     res_bind (py_member (PStr variant) allowed) (\<lambda>known.
     res_bind (if known then Inr []
               else res_bind (or_list allowed) (\<lambda>as. res_bind (join_vals '', '' as) (\<lambda>txt.
                 Inr [field @ '' '' @ declared @ '' is not declared for VM_OSVARIANT '' @ sq variant @
                      '' (declared: '' @ txt @ '')'']))) (\<lambda>here.
     res_bind (os_issues field declared allowed rest) (\<lambda>more. Inr (here @ more))))"

definition field_issues ::
  "dict \<Rightarrow> pval \<Rightarrow> string \<Rightarrow> pval \<Rightarrow> string list \<Rightarrow> string \<times> pval \<Rightarrow> string list res" where
  "field_issues versions cfg clu_type clu_rel os_variants = (\<lambda>(field, entries).
     res_bind (or_dict cfg) (\<lambda>c. (let value = get c field in
      if value = PNone \<or> value = PStr [] then Inr []
      else res_bind (entry_for entries (py_str value)) (\<lambda>entry.
        case entry of
          None \<Rightarrow>
            res_bind (suggestions (PDict versions) field) (\<lambda>ss.
            Inr [field @ '' '' @ sq (py_str value) @ '' is not in the version matrix ('' @
                 (if join '', '' ss = [] then ''none declared'' else join '', '' ss) @ '')''])
        | Some e \<Rightarrow>
            (if \<not> has_key e ''version'' then Inl (KeyError ''version'')
             else
               (let declared = py_str (get e ''version'') in
                res_bind (kubernetes_issues field declared (get e ''kubernetes'') clu_type clu_rel (kubernetes_minor clu_rel)) (\<lambda>k.
                res_bind (if truthy (get e ''os'') then os_issues field declared (get e ''os'') (sort (remdups os_variants))
                          else Inr []) (\<lambda>os. Inr (k @ os)))))))))"

definition issues :: "pval \<Rightarrow> pval \<Rightarrow> string \<Rightarrow> pval \<Rightarrow> string list \<Rightarrow> string list res" where
  "issues versions cfg clu_type clu_rel os_variants =
     res_bind (or_dict versions) (\<lambda>vs.
     res_bind (res_map (field_issues vs cfg clu_type clu_rel os_variants) (sort_key fst vs)) (\<lambda>xs.
     Inr (concat xs)))"

section \<open>Provisioning URLs (libs/provisioning.py)\<close>

definition base_url :: "string \<Rightarrow> string \<Rightarrow> string" where
  "base_url host override = (if override \<noteq> [] then rstrip_ch CHR ''/'' override else ''https://'' @ host)"

definition tls_verify :: "pval \<Rightarrow> bool" where
  "tls_verify value =
     (str_lower (str_strip (py_str (py_or value (PStr [])))) \<in> set [''1'', ''true'', ''yes'', ''on''])"

definition installer_base :: "string \<Rightarrow> (string \<times> string) list" where
  "installer_base url =
     [(''autoyast'', ''autoyast='' @ url),
      (''kickstart'', ''inst.ks='' @ url @ '' inst.sshd inst.text TERM=vt100''),
      (''preseed'', ''auto=true priority=critical url='' @ url)]"

definition INSTALLER_NO_VERIFY :: "(string \<times> string) list" where
  "INSTALLER_NO_VERIFY =
     [(''autoyast'', ''ssl.certs=0''), (''kickstart'', ''inst.noverifyssl''),
      (''preseed'', ''debian-installer/allow_unauthenticated_ssl=true'')]"

definition installer_args :: "string \<Rightarrow> string \<Rightarrow> bool \<Rightarrow> string res" where
  "installer_args install_type url verify =
     (case (map_of (installer_base url) install_type, map_of INSTALLER_NO_VERIFY install_type) of
        (Some args, Some nv) \<Rightarrow>
          Inr (if starts_with url ''https://'' \<and> \<not> verify then args @ '' '' @ nv else args)
      | _ \<Rightarrow> Inl (KeyError install_type))"

definition curl_tls_option :: "string \<Rightarrow> bool \<Rightarrow> string" where
  "curl_tls_option url verify = (if starts_with url ''https://'' \<and> \<not> verify then ''-k'' else [])"

section \<open>Lemmas\<close>

lemma prefix_components: "prefix (split_ch c d) (split_ch c v) \<longleftrightarrow> v = d \<or> prefix (d @ [c]) v"
proof
  assume "prefix (split_ch c d) (split_ch c v)"
  then obtain zs where z: "split_ch c v = split_ch c d @ zs" by (auto simp: prefix_def)
  have v: "v = join [c] (split_ch c d @ zs)" by (simp only: split_ch_join z [symmetric])
  show "v = d \<or> prefix (d @ [c]) v"
  proof (cases "zs = []")
    case True
    then show ?thesis unfolding v by (simp add: split_ch_join)
  next
    case False
    then show ?thesis unfolding v by (simp add: join_append split_ch_join)
  qed
next
  assume "v = d \<or> prefix (d @ [c]) v"
  then show "prefix (split_ch c d) (split_ch c v)"
    by (auto simp: prefix_def split_ch_append)
qed

lemma first_matching_Some:
  "first_matching value es = Inr (Some d) \<Longrightarrow>
   PDict d \<in> set es \<and> matches (PStr (py_str (get_dflt d ''version'' (PStr [])))) value"
  by (induction es) (auto split: pval.splits if_splits)

lemma os_issues_none: "os_issues f dcl allowed vs = Inr [] \<Longrightarrow> v \<in> set vs \<Longrightarrow> py_member (PStr v) allowed = Inr True"
  by (induction vs) (auto simp: res_simps split: if_splits)

definition in_range :: "nat list \<Rightarrow> dict \<Rightarrow> bool" where
  "in_range kube rng =
     ((numbers (get_dflt rng ''min'' (PStr [])) = [] \<or> take 2 (numbers (get_dflt rng ''min'' (PStr []))) \<le> kube) \<and>
      (numbers (get_dflt rng ''max'' (PStr [])) = [] \<or> kube \<le> take 2 (numbers (get_dflt rng ''max'' (PStr [])))))"

lemma range_issue_none: "range_issue f d t r kube rng = [] \<longleftrightarrow> in_range kube rng"
  by (auto simp: range_issue_def in_range_def Let_def not_less)

lemma kubernetes_issues_none:
  assumes "kubernetes_issues f dcl supported t r kube = Inr []" and "truthy supported" and "t \<noteq> []"
  shows "py_member (PStr t) supported = Inr True \<and>
     (kube \<noteq> [] \<longrightarrow> (\<exists>d rng. supported = PDict d \<and> or_dict (get d t) = Inr rng \<and> in_range kube rng))"
proof -
  from assms obtain known where k: "py_member (PStr t) supported = Inr known"
    by (auto simp: kubernetes_issues_def res_simps)
  with assms have known: "known"
    by (cases known) (auto simp: kubernetes_issues_def res_simps)
  have "\<exists>d rng. supported = PDict d \<and> or_dict (get d t) = Inr rng \<and> in_range kube rng" if "kube \<noteq> []"
    using assms k known that
    by (cases supported) (auto simp: kubernetes_issues_def res_simps range_issue_none)
  with k known show ?thesis by simp
qed

lemma res_map_mem:
  "res_map f xs = Inr ys \<Longrightarrow> x \<in> set xs \<Longrightarrow> \<exists>y. f x = Inr y \<and> y \<in> set ys"
  by (induction xs arbitrary: ys) (auto simp: res_simps)

section \<open>Properties\<close>

text \<open>A declared version matches a value exactly when its dot-separated parts are the first
  parts of the value's: 2.1 is no match for 2.13.\<close>

theorem matches_components:
  "matches declared value =
     (normalize declared \<noteq> [] \<and>
      prefix (split_ch CHR ''.'' (normalize declared)) (split_ch CHR ''.'' (normalize (PStr value))))"
  by (auto simp: matches_def prefix_components Let_def)

text \<open>C32 A lab without a warning is inside the declared matrix: each version field it sets matches
  a declared entry, and where that entry restricts the kcluster type, the Kubernetes minor
  version or the operating system, the lab keeps to it.\<close>

theorem no_issue_means_inside_matrix:
  assumes "issues (PDict vs) (PDict c) clu_type clu_rel os_variants = Inr []" and "vs \<noteq> []" and "c \<noteq> []"
    and "(field, entries) \<in> set vs" and "get c field \<noteq> PNone" and "get c field \<noteq> PStr []"
  shows "\<exists>es e. or_list entries = Inr es \<and> PDict e \<in> set es \<and>
     matches (PStr (py_str (get_dflt e ''version'' (PStr [])))) (py_str (get c field)) \<and>
     (truthy (get e ''kubernetes'') \<and> clu_type \<noteq> [] \<longrightarrow>
        py_member (PStr clu_type) (get e ''kubernetes'') = Inr True \<and>
        (kubernetes_minor clu_rel \<noteq> [] \<longrightarrow>
           (\<exists>d rng. get e ''kubernetes'' = PDict d \<and> or_dict (get d clu_type) = Inr rng \<and>
              in_range (kubernetes_minor clu_rel) rng))) \<and>
     (truthy (get e ''os'') \<longrightarrow> (\<forall>v \<in> set os_variants. py_member (PStr v) (get e ''os'') = Inr True))"
proof -
  from assms(1,2) obtain xs where xs: "res_map (field_issues vs (PDict c) clu_type clu_rel os_variants) (sort_key fst vs) = Inr xs"
    "concat xs = []" by (auto simp: issues_def or_dict_def res_simps)
  from res_map_mem [OF xs(1), of "(field, entries)"] assms(4) xs(2)
  have f: "field_issues vs (PDict c) clu_type clu_rel os_variants (field, entries) = Inr []"
    by fastforce
  have ne: "get c field \<noteq> PNone \<and> get c field \<noteq> PStr []" using assms(5,6) by simp
  from f ne assms(3) obtain es e k where e: "or_list entries = Inr es" "first_matching (py_str (get c field)) es = Inr (Some e)"
    "kubernetes_issues field (py_str (get e ''version'')) (get e ''kubernetes'') clu_type clu_rel (kubernetes_minor clu_rel) = Inr []"
    "truthy (get e ''os'') \<longrightarrow> os_issues field (py_str (get e ''version'')) (get e ''os'') (sort (remdups os_variants)) = Inr []"
    by (auto simp: field_issues_def or_dict_def entry_for_def res_simps Let_def split: option.splits if_splits)
  have "\<forall>v \<in> set os_variants. py_member (PStr v) (get e ''os'') = Inr True" if "truthy (get e ''os'')"
    using os_issues_none e(4) that by fastforce
  with e(1) first_matching_Some [OF e(2)] kubernetes_issues_none [OF e(3)] show ?thesis by blast
qed

definition sample_versions :: dict where
  "sample_versions = [(''rancher_version'', PList [PDict [(''version'', PStr ''2.13''),
     (''kubernetes'', PDict [(''rke2'', PDict [(''min'', PStr ''1.32''), (''max'', PStr ''1.34'')])]),
     (''os'', PList [PStr ''sle15sp7''])]])]"

theorem no_issue_means_inside_matrix_witness:
  "\<exists>es e. or_list (get sample_versions ''rancher_version'') = Inr es \<and> PDict e \<in> set es \<and>
     matches (PStr (py_str (get_dflt e ''version'' (PStr [])))) ''v2.13.3''"
proof -
  have "issues (PDict sample_versions) (PDict [(''rancher_version'', PStr ''v2.13.3'')]) ''rke2'' (PStr ''v1.33.1+rke2r1'')
      [''sle15sp7''] = Inr []"
    by code_simp
  from no_issue_means_inside_matrix [OF this, of "''rancher_version''" "get sample_versions ''rancher_version''"]
  show ?thesis by (auto simp: sample_versions_def get_def py_str_def)
qed

end
