(* ===== verification/Dns_Zone.thy ===== *)
theory Dns_Zone
  imports Py_Base
begin

text \<open>
  \<open>libs/dns_zone.py\<close>: the files of a BIND zone, the header a new one starts with, the
  \<open>named.conf\<close> stanza that declares it, and the records two servers' copies of it are compared
  by. A set of records is a set; \<open>record_of\<close> is the body of the loop over the lines.
\<close>

section \<open>Files and declarations\<close>

definition ZONE_DIR_DEBIAN :: string where
  "ZONE_DIR_DEBIAN = ''/etc/bind''"

definition ZONE_DIR_DEFAULT :: string where
  "ZONE_DIR_DEFAULT = ''/var/lib/named''"

definition DEBIAN_IDS :: "string list" where
  "DEBIAN_IDS = [''debian'', ''ubuntu'', ''raspbian'', ''linuxmint'', ''devuan'', ''pop'']"

definition zone_dir :: "string \<Rightarrow> string \<Rightarrow> string" where
  "zone_dir os_id os_like =
     (if str_lower os_id \<in> set DEBIAN_IDS \<or> contains ''debian'' (str_lower os_like) \<or> contains ''ubuntu'' (str_lower os_like)
      then ZONE_DIR_DEBIAN else ZONE_DIR_DEFAULT)"

definition forward_file :: "string \<Rightarrow> string" where
  "forward_file mydomain = mydomain @ ''.lan''"

definition reverse_file :: "string \<Rightarrow> string" where
  "reverse_file mynet_reverse = mynet_reverse @ ''.db''"

definition reverse_zone :: "string \<Rightarrow> string" where
  "reverse_zone mynet_reverse = mynet_reverse @ ''.in-addr.arpa''"

definition soa_line :: "string \<Rightarrow> string" where
  "soa_line d = ''@ IN SOA ns.'' @ d @ ''. admin.'' @ d @ ''. ( 1 3600 900 604800 300 )''"

definition ns_line :: "string \<Rightarrow> string" where
  "ns_line d = ''@ IN NS ns.'' @ d @ ''.''"

definition forward_header :: "string \<Rightarrow> int \<Rightarrow> string list" where
  "forward_header mydomain ttl = [''$TTL '' @ int_str ttl, soa_line mydomain, ns_line mydomain, ''ns IN A 127.0.0.1'']"

definition reverse_header :: "string \<Rightarrow> string \<Rightarrow> int \<Rightarrow> string list" where
  "reverse_header mydomain mynet_reverse ttl = [''$TTL '' @ int_str ttl, soa_line mydomain, ns_line mydomain]"

definition local_named_conf :: "string \<Rightarrow> string \<Rightarrow> string" where
  "local_named_conf os_id os_like =
     (if zone_dir os_id os_like = ZONE_DIR_DEBIAN then ''/etc/bind/named.conf.local'' else ''/etc/named.conf'')"

definition remote_named_conf :: "string \<Rightarrow> string \<Rightarrow> string" where
  "remote_named_conf os_id os_like =
     (if zone_dir os_id os_like = ZONE_DIR_DEBIAN then ''/etc/bind/named.conf.local'' else ''/etc/named.lab.conf'')"

definition main_named_conf :: "string \<Rightarrow> string \<Rightarrow> string" where
  "main_named_conf os_id os_like =
     (if zone_dir os_id os_like = ZONE_DIR_DEBIAN then ''/etc/bind/named.conf'' else ''/etc/named.conf'')"

definition include_needed :: "string \<Rightarrow> string \<Rightarrow> bool" where
  "include_needed os_id os_like = (remote_named_conf os_id os_like \<noteq> ''/etc/bind/named.conf.local'')"

definition zone_path :: "string \<Rightarrow> string \<Rightarrow> string \<Rightarrow> string" where
  "zone_path file_name os_id os_like = zone_dir os_id os_like @ ''/'' @ file_name"

definition stanza :: "string \<Rightarrow> string \<Rightarrow> string" where
  "stanza zone zone_file =
     ''zone '' @ dq zone @ '' { type master; file '' @ dq zone_file @ ''; allow-update { none; }; };''"

section \<open>Records\<close>

definition record_of :: "string \<Rightarrow> string option" where
  "record_of raw =
     (let line = str_strip (takeWhile (\<lambda>c. c \<noteq> CHR '';'') raw) in
      if line = [] \<or> starts_with line ''$'' \<or> starts_with line ''@'' \<or> starts_with line '')'' then None
      else
        (let fields = words line in
         case fields of [] \<Rightarrow> None
         | name # _ \<Rightarrow>
             if name \<in> set [''IN'', ''SOA'', ''NS'', ''MX'', ''ns''] then None
             else if name \<noteq> [] \<and> list_all is_digit name \<and> length fields < 3 then None
             else Some (join '' '' fields)))"

definition records :: "string \<Rightarrow> string set" where
  "records text = set (List.map_filter record_of (splitlines text))"

text \<open>The expression for \<open>sed\<close>; \<open>[[:space:]]\<close> is a POSIX class.\<close>

definition escape_field :: "string \<Rightarrow> string" where
  "escape_field f = replace_ch CHR ''.'' [char_of (92::nat), CHR ''.''] (replace_ch (char_of (92::nat)) (replicate 2 (char_of (92::nat))) f)"

definition pattern :: "string \<Rightarrow> string" where
  "pattern record =
     ''^[[:space:]]*'' @ join ''[[:space:]]+'' (map escape_field (words record)) @ ''[[:space:]]*$''"

section \<open>Lemmas\<close>

lemma dropWhile_tokens: "token w \<Longrightarrow> dropWhile is_space (w @ s) = w @ s"
  by (cases w) (auto simp: token_def)

lemma dropWhile_rev_token: "token w \<Longrightarrow> dropWhile is_space (rev w @ s) = rev w @ s"
  by (cases w rule: rev_cases) (auto simp: token_def)

text \<open>Blank-joined tokens have no blank at either end.\<close>

lemma join_snoc: "ws \<noteq> [] \<Longrightarrow> join s (ws @ [w]) = join s ws @ s @ w"
  by (induction ws rule: induct_list012) auto

lemma join_Cons: "ws \<noteq> [] \<Longrightarrow> join s (w # ws) = w @ s @ join s ws"
  by (cases ws) auto

lemma strip_join:
  assumes "\<And>w. w \<in> set ws \<Longrightarrow> token w"
  shows "str_strip (join '' '' ws) = join '' '' ws"
proof (cases ws)
  case Nil
  then show ?thesis by (simp add: str_strip_def)
next
  case (Cons w rest)
  have left: "dropWhile is_space (join '' '' ws) = join '' '' ws"
    using assms dropWhile_tokens [of w] Cons by (cases rest) (simp_all add: dropWhile_tokens [of w "[]", simplified])
  obtain init l where l: "ws = init @ [l]" using Cons by (metis rev_exhaust list.distinct(1))
  have "dropWhile is_space (rev (join '' '' ws)) = rev (join '' '' ws)"
  proof (cases "init = []")
    case True
    then show ?thesis using assms dropWhile_rev_token [of l "[]"] l by simp
  next
    case False
    then have "rev (join '' '' ws) = rev l @ rev (join '' '' init @ '' '')" by (simp add: l join_snoc)
    then show ?thesis using assms dropWhile_rev_token [of l] l by simp
  qed
  then show ?thesis by (simp add: str_strip_def left)
qed

lemma words_join_words: "words (join '' '' (words s)) = words s"
  by (rule words_idem)

lemma set_join: "set (join s ws) \<subseteq> set s \<union> \<Union> (set ` set ws)"
  by (induction ws rule: induct_list012) auto

lemma words_acc_chars: "w \<in> set (words_acc acc s) \<Longrightarrow> set w \<subseteq> set acc \<union> set s"
  by (induction s arbitrary: acc) (fastforce split: if_splits)+

lemma words_chars: "w \<in> set (words s) \<Longrightarrow> set w \<subseteq> set s"
  using words_acc_chars [of w "[]" s] by (simp add: words_def)

lemma set_str_strip: "set (str_strip s) \<subseteq> set s"
  by (auto simp: str_strip_def dest!: set_dropWhileD)

lemma str_strip_hd:
  assumes "str_strip s \<noteq> []"
  shows "\<not> is_space (hd (str_strip s))"
proof -
  define t where "t = dropWhile is_space s"
  define D where "D = dropWhile is_space (rev t)"
  have strip: "str_strip s = rev D" by (simp add: str_strip_def t_def D_def)
  with assms have ne: "rev D \<noteq> []" by simp
  have "rev t = takeWhile is_space (rev t) @ D" by (simp add: D_def)
  then have t: "t = rev D @ rev (takeWhile is_space (rev t))" by (metis rev_append rev_rev_ident)
  have "hd t = hd (rev D)" using ne by (subst t) (rule hd_append2)
  moreover have "t \<noteq> []" using ne t by (metis append_is_Nil_conv)
  then have "\<not> is_space (hd t)" using hd_dropWhile [of is_space s] by (simp add: t_def)
  ultimately show ?thesis unfolding strip by simp
qed

lemma words_acc_hd: "acc \<noteq> [] \<Longrightarrow> \<exists>w ws. words_acc acc t = w # ws \<and> hd w = hd acc \<and> w \<noteq> []"
proof (induction t arbitrary: acc)
  case (Cons a t)
  then show ?case using Cons.IH [of "acc @ [a]"] by auto
qed simp

lemma words_hd:
  assumes "s \<noteq> []" and "\<not> is_space (hd s)"
  shows "\<exists>w ws. words s = w # ws \<and> hd w = hd s \<and> w \<noteq> []"
  using words_acc_hd [of "[hd s]" "tl s"] assms by (cases s) (auto simp: words_def)

text \<open>A record is its own record: comparing records needs no second normalisation.\<close>

lemma record_of_fix:
  assumes "record_of raw = Some r"
  shows "record_of r = Some r"
proof -
  define line where "line = str_strip (takeWhile (\<lambda>c. c \<noteq> CHR '';'') raw)"
  from assms have line: "line \<noteq> []" "\<not> starts_with line ''$''" "\<not> starts_with line ''@''" "\<not> starts_with line '')''"
    by (auto simp: record_of_def line_def [symmetric] Let_def split: if_splits)
  obtain w ws where w: "words line = w # ws" "hd w = hd line" "w \<noteq> []"
    using words_hd [OF line(1)] str_strip_hd line(1) unfolding line_def by blast
  from assms line w(1) have r: "r = join '' '' (words line)"
    and keep: "w \<notin> set [''IN'', ''SOA'', ''NS'', ''MX'', ''ns'']"
      "\<not> (w \<noteq> [] \<and> list_all is_digit w \<and> length (words line) < 3)"
    by (auto simp: record_of_def line_def [symmetric] Let_def split: if_splits)
  have semi: "CHR '';'' \<notin> set line"
    using set_str_strip [of "takeWhile (\<lambda>c. c \<noteq> CHR '';'') raw"] by (auto simp: line_def dest: set_takeWhileD)
  have "CHR '';'' \<notin> set r"
    using set_join [of "'' ''" "words line"] words_chars [of _ line] semi by (fastforce simp: r)
  then have tw: "takeWhile (\<lambda>c. c \<noteq> CHR '';'') r = r" by (auto simp: takeWhile_eq_all_conv)
  have strip: "str_strip r = r" unfolding r by (rule strip_join) (rule words_token_mem)
  have wr: "words r = words line" unfolding r by (rule words_idem)
  obtain t where t: "r = w @ t" unfolding r w(1) by (cases ws) auto
  then have "r \<noteq> []" "hd r = hd line" using w by auto
  then have "\<not> starts_with r ''$''" "\<not> starts_with r ''@''" "\<not> starts_with r '')''"
    using line by (cases r; cases line; simp)+
  with \<open>r \<noteq> []\<close> keep show ?thesis
    unfolding record_of_def tw strip wr Let_def w(1) using r w(1) by simp
qed

lemma record_of_line_ok:
  assumes "line_ok raw" and "record_of raw = Some r"
  shows "line_ok r"
proof -
  let ?line = "str_strip (takeWhile (\<lambda>c. c \<noteq> CHR '';'') raw)"
  have "r = join '' '' (words ?line)"
    using assms(2) by (auto simp: record_of_def Let_def split: if_splits list.splits)
  then have "set r \<subseteq> {CHR '' ''} \<union> set ?line"
    using set_join [of "'' ''" "words ?line"] words_chars [of _ ?line] by fastforce
  also have "\<dots> \<subseteq> {CHR '' ''} \<union> set raw"
    using set_str_strip [of "takeWhile (\<lambda>c. c \<noteq> CHR '';'') raw"] by (auto dest: set_takeWhileD)
  finally show ?thesis using assms(1) by (auto simp: line_ok_def list_all_iff is_break_def code_def)
qed

lemma set_map_filter: "set (List.map_filter f xs) = {y. \<exists>x \<in> set xs. f x = Some y}"
  by (induction xs) (auto simp: List.map_filter_simps split: option.splits)

lemma records_mem: "r \<in> records text \<longleftrightarrow> (\<exists>raw \<in> set (splitlines text). record_of raw = Some r)"
  by (auto simp: records_def set_map_filter)

lemma records_fix: "r \<in> records text \<Longrightarrow> line_ok r \<and> record_of r = Some r"
  by (auto simp: records_mem record_of_fix intro: record_of_line_ok line_ok_splitlines)

lemma record_of_Nil [simp]: "record_of [] = None"
  by (simp add: record_of_def str_strip_def)

lemma records_unlines:
  "(\<And>l. l \<in> set ls \<Longrightarrow> line_ok l) \<Longrightarrow> records (unlines ls) = {r. \<exists>l \<in> set ls. record_of l = Some r}"
  by (auto simp: records_def set_map_filter splitlines_unlines)

lemma strip_hd_keep: "l \<noteq> [] \<Longrightarrow> \<not> is_space (hd l) \<Longrightarrow> \<exists>t. str_strip l = hd l # t"
proof -
  assume l: "l \<noteq> []" "\<not> is_space (hd l)"
  then have d: "dropWhile is_space l = l" by (cases l) auto
  obtain x xs where x: "l = x # xs" using l by (cases l) auto
  have "dropWhile is_space (rev xs @ [x]) = dropWhile is_space (rev xs) @ [x]"
  proof (cases "\<forall>c \<in> set (rev xs). is_space c")
    case True
    then have "dropWhile is_space (rev xs) = []" by (simp only: dropWhile_eq_Nil_conv)
    with True l x show ?thesis by (simp add: dropWhile_append)
  next
    case False
    then show ?thesis by (auto simp: dropWhile_append1)
  qed
  then show ?thesis using d x by (simp add: str_strip_def)
qed

lemma header_line_no_record:
  assumes "c = CHR ''@'' \<or> c = CHR ''$''"
  shows "record_of (c # s) = None"
proof -
  let ?t = "takeWhile (\<lambda>x. x \<noteq> CHR '';'') (c # s)"
  have "\<not> is_space c" "c \<noteq> CHR '';''" using assms by (auto simp: is_space_def code_def)
  then have "?t \<noteq> []" "\<not> is_space (hd ?t)" "hd ?t = c" by simp_all
  from strip_hd_keep [OF this(1,2)] this(3) obtain t where "str_strip ?t = c # t" by auto
  with assms show ?thesis by (auto simp: record_of_def Let_def)
qed

lemma ns_line_no_record: "record_of ''ns IN A 127.0.0.1'' = None"
  by code_simp

lemma line_ok_int_str: "line_ok (int_str i)"
  unfolding line_ok_def list_all_iff
proof
  fix c assume "c \<in> set (int_str i)"
  then have "is_digit c \<or> c = CHR ''-''" by (rule int_str_chars)
  then show "\<not> is_break c" by (auto simp: is_digit_def is_break_def code_def)
qed

lemma line_ok_append [simp]: "line_ok (a @ b) \<longleftrightarrow> line_ok a \<and> line_ok b"
  by (simp add: line_ok_def)

lemma header_lines:
  assumes "line_ok d" and "l \<in> set (forward_header d ttl)"
  shows "line_ok l \<and> record_of l = None"
proof -
  have lits: "line_ok ''$TTL ''" "line_ok ''@ IN SOA ns.''" "line_ok ''. admin.''" "line_ok ''. ( 1 3600 900 604800 300 )''"
    "line_ok ''@ IN NS ns.''" "line_ok ''.''" "line_ok ''ns IN A 127.0.0.1''"
    by code_simp+
  have "line_ok (''$TTL '' @ int_str ttl)" "line_ok (soa_line d)" "line_ok (ns_line d)"
    by (simp_all only: soa_line_def ns_line_def line_ok_append lits assms(1) line_ok_int_str simp_thms)
  moreover have "record_of (''$TTL '' @ int_str ttl) = None" "record_of (soa_line d) = None" "record_of (ns_line d) = None"
    by (simp_all add: soa_line_def ns_line_def header_line_no_record)
  ultimately show ?thesis using assms(2) ns_line_no_record lits(7)
    by (simp only: forward_header_def list.set insert_iff empty_iff) blast
qed

section \<open>Properties\<close>

text \<open>The records of a zone are a normal form: a file that holds just them, in any order, has the
  same records, and so does the file they came from however its lines were spaced.\<close>

theorem records_normal_form:
  assumes "set ls = records text"
  shows "records (unlines ls) = records text"
proof -
  have "records (unlines ls) = {r. \<exists>l \<in> set ls. record_of l = Some r}"
    by (rule records_unlines) (use assms records_fix in blast)
  then show ?thesis using assms records_fix by fastforce
qed

theorem records_normal_form_witness:
  "records (unlines [''node1 IN A 10.0.0.1'']) = records (unlines [''$TTL 300'', ''node1   IN  A   10.0.0.1 ; a node''])"
  by (rule records_normal_form) code_simp

text \<open>A zone this project creates holds no record of its own, so two servers' headers never differ
  in what is compared; a record line added to it is its only record.\<close>

theorem new_zone_has_only_its_records:
  assumes "line_ok d" and "line_ok l" and "record_of l = Some r"
  shows "records (unlines (forward_header d ttl)) = {} \<and> records (unlines (forward_header d ttl @ [l])) = {r}"
proof
  have h: "line_ok x \<and> record_of x = None" if "x \<in> set (forward_header d ttl)" for x
    using header_lines [OF assms(1) that] .
  show "records (unlines (forward_header d ttl)) = {}"
    using records_unlines [of "forward_header d ttl"] h by auto
  have "line_ok x" if "x \<in> set (forward_header d ttl @ [l])" for x using that h assms(2) by auto
  then show "records (unlines (forward_header d ttl @ [l])) = {r}"
    using records_unlines [of "forward_header d ttl @ [l]"] h assms(3) by auto
qed

theorem new_zone_has_only_its_records_witness:
  "records (unlines (forward_header ''lab.local'' 300 @ [''node1  IN A 10.0.0.1''])) = {''node1 IN A 10.0.0.1''}"
proof -
  have a: "line_ok ''lab.local''" and b: "line_ok ''node1  IN A 10.0.0.1''"
    and c: "record_of ''node1  IN A 10.0.0.1'' = Some ''node1 IN A 10.0.0.1''" by code_simp+
  from new_zone_has_only_its_records [OF a b c] show ?thesis by blast
qed

end
