(* ===== verification/Dns_Service.thy ===== *)
theory Dns_Service
  imports Dns_Zone Py_Regex
begin

text \<open>
  \<open>DNSService\<close> of \<open>libs/services.py\<close>: the records of a lab, written to the BIND server of the
  automation node and to every remote master that answers.

  \<^item> A host's files are a map from path to text. A server is None for this host, or a name.
    \<open>dns_world\<close> holds both hosts' files, each host's os-release, the answers to the SSH probes,
    and the per-process cache of who answered. The process-wide lock is not modelled: each
    operation is one step.
  \<^item> Commands sent over SSH are modelled by their effect on the remote file: \<open>grep -qF\<close> with
    \<open>echo >>\<close>, and \<open>sed\<close> deleting the lines an expression is found in. Reading a line ending
    follows each tool: \<open>splitlines\<close> for Python, newline only for grep and sed. An expression
    given to \<open>sed\<close> has no special character but the dot.
  \<^item> They are run with \<open>check=False\<close>: where SSH does not reach the master (\<open>dw_ssh\<close>) a command changes nothing there, what
    it would print is empty and what it would find is not found, and the code goes on. A master is reached or not for the
    whole of an operation; its os-release is the one the operation has resolved.
  \<^item> \<open>restart_named\<close> has no effect on the files; whether named serves a zone is a parameter.
\<close>

section \<open>Files\<close>

type_synonym files = "string \<Rightarrow> string option"

definition text_at :: "files \<Rightarrow> string \<Rightarrow> string" where
  "text_at f p = (case f p of None \<Rightarrow> [] | Some t \<Rightarrow> t)"

text \<open>The lines of a file as grep and sed see them, and whether the last one is ended.\<close>

definition nl_lines :: "string \<Rightarrow> string list \<times> bool" where
  "nl_lines t = (let ps = split_ch CHR 0x0A t in if last ps = [] then (butlast ps, True) else (ps, False))"

definition sed_keep :: "(string \<Rightarrow> bool) \<Rightarrow> string \<Rightarrow> string" where
  "sed_keep P t =
     (let (ls, ended) = nl_lines t; kept = filter P ls in
      if kept = [] then [] else join NL kept @ (if ended \<or> \<not> P (last ls) then NL else []))"

definition sed_delete :: "(string \<Rightarrow> bool) \<Rightarrow> string \<Rightarrow> files \<Rightarrow> files" where
  "sed_delete hit p f = (case f p of None \<Rightarrow> f | Some t \<Rightarrow> f(p := Some (sed_keep (\<lambda>l. \<not> hit l) t)))"

definition grep_F :: "string \<Rightarrow> string \<Rightarrow> bool" where
  "grep_F s t = list_ex (contains s) (fst (nl_lines t))"

definition append_text :: "string \<Rightarrow> string \<Rightarrow> files \<Rightarrow> files" where
  "append_text p new f = f(p := Some (text_at f p @ new))"

section \<open>Record lines of one file\<close>

definition dns_add_line :: "string \<Rightarrow> string \<Rightarrow> files \<Rightarrow> files" where
  "dns_add_line p record f =
     (let lines = splitlines (text_at f p) in
      f(p := Some (if record \<notin> set lines then unlines (lines @ [record]) else text_at f p)))"

text \<open>The operations that rewrite a file without some of its lines, when it exists.\<close>

definition rewrite_lines :: "(string \<Rightarrow> bool) \<Rightarrow> string \<Rightarrow> files \<Rightarrow> files" where
  "rewrite_lines keep p f =
     (case f p of None \<Rightarrow> f | Some t \<Rightarrow> f(p := Some (unlines (filter keep (splitlines t)))))"

definition dns_remove_line :: "string \<Rightarrow> string \<Rightarrow> files \<Rightarrow> files" where
  "dns_remove_line p record = rewrite_lines (\<lambda>l. l \<noteq> record) p"

definition service_suffix :: "string \<Rightarrow> string" where
  "service_suffix ip = TAB @ ''IN A  '' @ ip"

definition dns_remove_service_lines :: "string \<Rightarrow> string \<Rightarrow> files \<Rightarrow> files" where
  "dns_remove_service_lines p ip f =
     (if ip \<noteq> [] then rewrite_lines (\<lambda>l. \<not> ends_with l (service_suffix ip)) p f else f)"

definition dns_append_line :: "string \<Rightarrow> string \<Rightarrow> files \<Rightarrow> files" where
  "dns_append_line p record f = append_text p (record @ NL) f"

definition dns_remove_ptr_for_octet :: "string \<Rightarrow> string \<Rightarrow> files \<Rightarrow> files" where
  "dns_remove_ptr_for_octet p last_octet = rewrite_lines (\<lambda>l. take 1 (words l) \<noteq> [last_octet]) p"

text \<open>\<open>dns_zone.pattern\<close> with \<open>[[:space:]]\<close> replaced by \<open>\s\<close>, as Python's \<open>re\<close> is given it.\<close>

definition S_CLASS :: string where
  "S_CLASS = [char_of (92::nat), CHR ''s'']"

definition py_pattern :: "string \<Rightarrow> string" where
  "py_pattern record =
     ''^'' @ S_CLASS @ ''*'' @ join (S_CLASS @ ''+'') (map escape_field (words record)) @ S_CLASS @ ''*$''"

definition compile_rx :: "string \<Rightarrow> rx res" where
  "compile_rx s = (case rx_parse s of None \<Rightarrow> Inl (RegexError s) | Some r \<Rightarrow> Inr r)"

definition dns_remove_record :: "string \<Rightarrow> string \<Rightarrow> files \<Rightarrow> files res" where
  "dns_remove_record p record f =
     (if f p = None then Inr f
      else res_bind (compile_rx (py_pattern record)) (\<lambda>r.
           Inr (rewrite_lines (\<lambda>l. rx_match r l = None) p f)))"

definition other_a_patterns :: "string \<Rightarrow> string \<Rightarrow> string \<times> string" where
  "other_a_patterns short keep_ip =
     (''^'' @ S_CLASS @ ''*'' @ join (S_CLASS @ ''+'') (map escape_field (words short)) @
        S_CLASS @ ''+IN'' @ S_CLASS @ ''+A'' @ S_CLASS @ ''+'',
      S_CLASS @ replace_ch CHR ''.'' [char_of (92::nat), CHR ''.''] keep_ip @ S_CLASS @ ''*$'')"

definition dns_remove_other_a :: "string \<Rightarrow> string \<Rightarrow> string \<Rightarrow> files \<Rightarrow> files res" where
  "dns_remove_other_a p short keep_ip f =
     (if f p = None then Inr f
      else res_bind (compile_rx (fst (other_a_patterns short keep_ip))) (\<lambda>any_a.
           res_bind (compile_rx (snd (other_a_patterns short keep_ip))) (\<lambda>keep.
           Inr (rewrite_lines (\<lambda>l. \<not> (rx_match any_a l \<noteq> None \<and> rx_search keep l = None)) p f))))"

section \<open>The same lines on a remote master\<close>

text \<open>A basic expression with no special character but the dot.\<close>

fun bre :: "string \<Rightarrow> rx" where
  "bre [] = REps"
| "bre (c # cs) = RSeq (if c = CHR ''.'' then any_char else lit c) (bre cs)"

definition remote_dns_add :: "string \<Rightarrow> string \<Rightarrow> files \<Rightarrow> files" where
  "remote_dns_add p record f = (if f p \<noteq> None \<and> grep_F record (text_at f p) then f else append_text p (record @ NL) f)"

definition remote_sed :: "string \<Rightarrow> string \<Rightarrow> files \<Rightarrow> files" where
  "remote_sed expression p = sed_delete (\<lambda>l. rx_search (bre expression) l \<noteq> None) p"

definition remote_remove_service_lines :: "string \<Rightarrow> string \<Rightarrow> files \<Rightarrow> files" where
  "remote_remove_service_lines p ip = sed_delete (\<lambda>l. ends_with l (service_suffix ip)) p"

definition remote_dns_remove_ptr_for_octet :: "string \<Rightarrow> string \<Rightarrow> files \<Rightarrow> files" where
  "remote_dns_remove_ptr_for_octet p last_octet =
     sed_delete (\<lambda>l. starts_with l last_octet \<and> drop (length last_octet) l \<noteq> [] \<and>
                     is_space (hd (drop (length last_octet) l))) p"

definition remote_dns_remove_record :: "string \<Rightarrow> string \<Rightarrow> files \<Rightarrow> files" where
  "remote_dns_remove_record p record f =
     (case rx_parse (py_pattern record) of None \<Rightarrow> f
      | Some r \<Rightarrow> sed_delete (\<lambda>l. rx_search r l \<noteq> None) p f)"

definition remote_dns_remove_other_a :: "string \<Rightarrow> string \<Rightarrow> string \<Rightarrow> files \<Rightarrow> files" where
  "remote_dns_remove_other_a p short keep_ip f =
     (case (rx_parse (fst (other_a_patterns short keep_ip)), rx_parse (snd (other_a_patterns short keep_ip))) of
        (Some any_a, Some keep) \<Rightarrow> sed_delete (\<lambda>l. rx_search any_a l \<noteq> None \<and> rx_search keep l = None) p f
      | _ \<Rightarrow> f)"

section \<open>Hosts\<close>

type_synonym server = "string option"

record dns_world =
  dw_local :: files
  dw_hosts :: "string \<Rightarrow> files"
  dw_local_os :: "string \<times> string"
  dw_os :: "string \<Rightarrow> string \<times> string"
  dw_ssh :: "string \<Rightarrow> bool"
  dw_probe :: "string \<Rightarrow> bool"
  dw_probe_again :: "string \<Rightarrow> bool"
  dw_cache :: "(string \<times> bool) list"
  dw_hosts_file :: "string option"

definition files_of :: "server \<Rightarrow> dns_world \<Rightarrow> files" where
  "files_of s w = (case s of None \<Rightarrow> dw_local w | Some h \<Rightarrow> if dw_ssh w h then dw_hosts w h else (\<lambda>_. None))"

definition upd_files :: "server \<Rightarrow> (files \<Rightarrow> files) \<Rightarrow> dns_world \<Rightarrow> dns_world" where
  "upd_files s g w =
     (case s of None \<Rightarrow> w\<lparr>dw_local := g (dw_local w)\<rparr>
      | Some h \<Rightarrow> if dw_ssh w h then w\<lparr>dw_hosts := (dw_hosts w)(h := g (dw_hosts w h))\<rparr> else w)"

definition os_of :: "server \<Rightarrow> dns_world \<Rightarrow> string \<times> string" where
  "os_of s w = (case s of None \<Rightarrow> dw_local_os w | Some h \<Rightarrow> dw_os w h)"

definition zone_file_path :: "server \<Rightarrow> string \<Rightarrow> dns_world \<Rightarrow> string" where
  "zone_file_path s file_name w = zone_path file_name (fst (os_of s w)) (snd (os_of s w))"

text \<open>
  Whether a remote master answers: the first attempts, then once more after its known_hosts
  entry is dropped; asked once per process.
\<close>

definition reachable :: "string \<Rightarrow> dns_world \<Rightarrow> bool \<times> dns_world" where
  "reachable server w =
     (case map_of (dw_cache w) server of
        Some b \<Rightarrow> (b, w)
      | None \<Rightarrow> (let b = (dw_probe w server \<or> dw_probe_again w server) in
                 (b, w\<lparr>dw_cache := AList.update server b (dw_cache w)\<rparr>)))"

fun masters :: "string list \<Rightarrow> dns_world \<Rightarrow> string list \<times> dns_world" where
  "masters [] w = ([], w)"
| "masters (s # ss) w =
     (let (b, w1) = reachable s w; (rest, w2) = masters ss w1 in (if b then s # rest else rest, w2))"

section \<open>Zones\<close>

definition zone_mark :: "string \<Rightarrow> string" where
  "zone_mark zone = ''zone '' @ dq zone"

definition local_conf :: "dns_world \<Rightarrow> string" where
  "local_conf w = local_named_conf (fst (dw_local_os w)) (snd (dw_local_os w))"

definition zone_declared :: "server \<Rightarrow> string \<Rightarrow> dns_world \<Rightarrow> bool" where
  "zone_declared s zone w =
     (case s of
        None \<Rightarrow> (case dw_local w (local_conf w) of None \<Rightarrow> False | Some t \<Rightarrow> contains (zone_mark zone) t)
      | Some h \<Rightarrow> list_ex (\<lambda>p. case files_of s w p of None \<Rightarrow> False | Some t \<Rightarrow> grep_F (zone_mark zone) t)
                    [''/etc/named.conf'', ''/etc/named.lab.conf'', ''/etc/bind/named.conf.local''])"

definition create_local_zone :: "string \<Rightarrow> string \<Rightarrow> string list \<Rightarrow> dns_world \<Rightarrow> dns_world" where
  "create_local_zone zone file_name header w =
     (let path = zone_file_path None file_name w in
      upd_files None (\<lambda>f.
        append_text (local_conf w) (NL @ stanza zone path @ NL)
          (if str_strip (text_at f path) = [] then f(path := Some (unlines header)) else f)) w)"

definition create_remote_zone :: "string \<Rightarrow> string \<Rightarrow> string \<Rightarrow> string list \<Rightarrow> dns_world \<Rightarrow> dns_world" where
  "create_remote_zone server zone file_name header w =
     (let (os_id, os_like) = dw_os w server;
          path = zone_path file_name os_id os_like;
          conf = remote_named_conf os_id os_like;
          main = main_named_conf os_id os_like in
      upd_files (Some server) (\<lambda>f0.
        (let f1 = (if text_at f0 path \<noteq> [] then f0 else f0(path := Some (unlines header)));
             f2 = append_text conf (stanza zone path @ NL) f1 in
         if include_needed os_id os_like \<and> \<not> grep_F conf (text_at f2 main)
         then append_text main (''include '' @ dq conf @ '';'' @ NL) f2 else f2)) w)"

definition wanted_zones :: "string \<Rightarrow> string \<Rightarrow> (string \<times> string \<times> string list) list" where
  "wanted_zones mydomain mynet_reverse =
     (mydomain, forward_file mydomain, forward_header mydomain 86400) #
     (if mynet_reverse \<noteq> [] then
        [(reverse_zone mynet_reverse, reverse_file mynet_reverse, reverse_header mydomain mynet_reverse 86400)]
      else [])"

definition create_zone :: "server \<Rightarrow> string \<Rightarrow> string \<Rightarrow> string list \<Rightarrow> dns_world \<Rightarrow> dns_world" where
  "create_zone s zone file_name header w =
     (case s of None \<Rightarrow> create_local_zone zone file_name header w
      | Some h \<Rightarrow> create_remote_zone h zone file_name header w)"

fun ensure_zones :: "server \<Rightarrow> (string \<times> string \<times> string list) list \<Rightarrow> dns_world \<Rightarrow> bool \<times> dns_world" where
  "ensure_zones s [] w = (False, w)"
| "ensure_zones s ((zone, file_name, header) # rest) w =
     (if zone_declared s zone w then ensure_zones s rest w
      else (let (_, w') = ensure_zones s rest (create_zone s zone file_name header w) in (True, w')))"

definition ensure_zone :: "server \<Rightarrow> string \<Rightarrow> string \<Rightarrow> dns_world \<Rightarrow> bool \<times> dns_world" where
  "ensure_zone s mydomain mynet_reverse w = ensure_zones s (wanted_zones mydomain mynet_reverse) w"

section \<open>Comparing the masters\<close>

definition zone_records :: "server \<Rightarrow> string \<Rightarrow> dns_world \<Rightarrow> string set" where
  "zone_records s file_name w = records (text_at (files_of s w) (zone_file_path s file_name w))"

definition zone_files :: "string \<Rightarrow> string \<Rightarrow> string list" where
  "zone_files mydomain mynet_reverse =
     forward_file mydomain # (if mynet_reverse \<noteq> [] then [reverse_file mynet_reverse] else [])"

definition zone_pairs :: "string \<Rightarrow> string \<Rightarrow> (string \<times> string) list" where
  "zone_pairs mydomain mynet_reverse =
     (forward_file mydomain, mydomain) #
     (if mynet_reverse \<noteq> [] then [(reverse_file mynet_reverse, reverse_zone mynet_reverse)] else [])"

definition server_name :: "server \<Rightarrow> string" where
  "server_name s = (case s of None \<Rightarrow> ''this host'' | Some h \<Rightarrow> if h = [] then ''this host'' else h)"

text \<open>
  \<open>ask s zone path\<close> is what the server answers to the two shell commands: exit code and output
  of the dig query, and of named-checkzone.
\<close>

type_synonym zone_ask = "server \<Rightarrow> string \<Rightarrow> string \<Rightarrow> (int \<times> string) \<times> (int \<times> string)"

definition zone_loads :: "zone_ask \<Rightarrow> server \<Rightarrow> string \<Rightarrow> string \<Rightarrow> dns_world \<Rightarrow> bool \<times> string" where
  "zone_loads ask s zone file_name w =
     (let ((rc, out), (rc2, out2)) = ask s zone (zone_file_path s file_name w) in
      if rc = 126 then (True, [])
      else if rc = 0 then
        (if str_strip out \<noteq> [] then (True, [])
         else (False, ''its own named is running but answers no SOA for the zone, so the zone is declared and written but not served''))
      else if rc2 \<in> {0, 126, 127} then (True, [])
      else
        (let detail = join '' '' (filter (\<lambda>l. l \<noteq> []) (map str_strip (splitlines out2))) in
         (False, if detail \<noteq> [] then detail else ''named-checkzone exited '' @ int_str rc2)))"

definition load_message :: "server \<Rightarrow> string \<Rightarrow> string \<Rightarrow> string" where
  "load_message s zone detail =
     ''DNS server '' @ sq (server_name s) @ '' cannot load its copy of '' @ sq zone @
     '', so it answers nothing for that zone however well its records agree with the other masters: '' @ detail"

definition validate_zones :: "zone_ask \<Rightarrow> string \<Rightarrow> string \<Rightarrow> string list \<Rightarrow> dns_world \<Rightarrow> string list \<times> dns_world" where
  "validate_zones ask mydomain mynet_reverse remotes w =
     (let (ms, w1) = masters remotes w in
      (concat (map (\<lambda>s. concat (map (\<lambda>(file_name, zone).
          (case zone_loads ask s zone file_name w1 of (loads, detail) \<Rightarrow>
             if loads then [] else [load_message s zone detail])) (zone_pairs mydomain mynet_reverse)))
        (None # map Some ms)), w1))"

text \<open>The keys of \<open>{server: ... for server in servers}\<close>: each once, at its first place.\<close>

fun uniq_from :: "'a list \<Rightarrow> 'a list \<Rightarrow> 'a list" where
  "uniq_from seen [] = []"
| "uniq_from seen (x # xs) = (if x \<in> set seen then uniq_from seen xs else x # uniq_from (x # seen) xs)"

type_synonym comparison = "(string \<times> server \<times> string set \<times> string set) list"

definition compare_file :: "dns_world \<Rightarrow> server list \<Rightarrow> string \<Rightarrow> comparison" where
  "compare_file w servers file_name =
     (let held = (\<lambda>s. zone_records s file_name w); union = \<Union> (held ` set servers) in
      map (\<lambda>s. (let others = (if length servers > 1 then \<Union> (held ` (set servers - {s})) else held s) in
                (file_name, s, union - held s, held s - others))) servers)"

definition compare_zone :: "string \<Rightarrow> string \<Rightarrow> string list \<Rightarrow> dns_world \<Rightarrow> comparison \<times> dns_world" where
  "compare_zone mydomain mynet_reverse remotes w =
     (let (ms, w1) = masters remotes w; servers = uniq_from [] (None # map Some ms) in
      (concat (map (compare_file w1 servers) (zone_files mydomain mynet_reverse)), w1))"

definition missing_message :: "string \<Rightarrow> server \<Rightarrow> string set \<Rightarrow> string" where
  "missing_message file_name s missing =
     ''DNS server '' @ sq (server_name s) @ '' is missing '' @ nat_str (card missing) @ '' record(s) of '' @
     sq file_name @ '': '' @ join '', '' (sorted_list_of_set missing)"

definition alone_message :: "string \<Rightarrow> server \<Rightarrow> string set \<Rightarrow> string" where
  "alone_message file_name s alone =
     ''DNS server '' @ sq (server_name s) @ '' holds '' @ nat_str (card alone) @ '' record(s) of '' @ sq file_name @
     '' no other master has, which is either a record the others have not been written yet or one deleted from them: '' @
     join '', '' (sorted_list_of_set alone)"

fun difference_messages :: "comparison \<Rightarrow> string list" where
  "difference_messages [] = []"
| "difference_messages ((file_name, s, missing, alone) # rest) =
     (if missing \<noteq> {} then [missing_message file_name s missing] else []) @
     (if alone \<noteq> {} then [alone_message file_name s alone] else []) @ difference_messages rest"

definition report_zone ::
  "zone_ask \<Rightarrow> string \<Rightarrow> string \<Rightarrow> string list \<Rightarrow> dns_world \<Rightarrow> string list \<times> dns_world" where
  "report_zone ask mydomain mynet_reverse remotes w =
     (let (m1, w1) = validate_zones ask mydomain mynet_reverse remotes w;
          (cmp, w2) = compare_zone mydomain mynet_reverse remotes w1 in
      (m1 @ difference_messages cmp, w2))"

section \<open>Bringing the masters into step\<close>

definition write_records :: "server \<Rightarrow> string \<Rightarrow> string list \<Rightarrow> dns_world \<Rightarrow> dns_world" where
  "write_records s file_name rs w =
     (let p = zone_file_path s file_name w in
      upd_files s (fold (\<lambda>r. case s of None \<Rightarrow> dns_append_line p r | Some _ \<Rightarrow> remote_dns_add p r) rs) w)"

fun write_missing :: "comparison \<Rightarrow> dns_world \<Rightarrow> dns_world" where
  "write_missing [] w = w"
| "write_missing ((file_name, s, missing, alone) # rest) w =
     write_missing rest (if missing \<noteq> {} then write_records s file_name (sorted_list_of_set missing) w else w)"

definition sync_zone ::
  "zone_ask \<Rightarrow> string \<Rightarrow> string \<Rightarrow> string list \<Rightarrow> dns_world \<Rightarrow> string list \<times> dns_world" where
  "sync_zone ask mydomain mynet_reverse remotes w =
     (let (m1, w1) = validate_zones ask mydomain mynet_reverse remotes w;
          (cmp, w2) = compare_zone mydomain mynet_reverse remotes w1 in
      (m1 @ difference_messages cmp, write_missing cmp w2))"

definition prune_record :: "server \<Rightarrow> string \<Rightarrow> string \<Rightarrow> dns_world \<Rightarrow> dns_world res" where
  "prune_record s file_name record w =
     (let p = zone_file_path s file_name w in
      case s of
        None \<Rightarrow> res_bind (dns_remove_record p record (dw_local w)) (\<lambda>f. Inr (w\<lparr>dw_local := f\<rparr>))
      | Some h \<Rightarrow> Inr (upd_files s (remote_dns_remove_record p record) w))"

fun prune_alone :: "comparison \<Rightarrow> dns_world \<Rightarrow> (string list \<times> dns_world) res" where
  "prune_alone [] w = Inr ([], w)"
| "prune_alone ((file_name, s, missing, alone) # rest) w =
     res_bind (res_fold (prune_record s file_name) (sorted_list_of_set alone) w) (\<lambda>w1.
     res_bind (prune_alone rest w1) (\<lambda>(ms, w2).
     Inr (map (\<lambda>r. ''removed '' @ sq r @ '' from DNS server '' @ sq (server_name s) @ '' ('' @ file_name @ '')'')
            (sorted_list_of_set alone) @ ms, w2)))"

definition prune_zone :: "string \<Rightarrow> string \<Rightarrow> string list \<Rightarrow> dns_world \<Rightarrow> (string list \<times> dns_world) res" where
  "prune_zone mydomain mynet_reverse remotes w =
     (let (cmp, w1) = compare_zone mydomain mynet_reverse remotes w in
      if length (uniq_from [] (map (\<lambda>(f, s, m, a). s) cmp)) < 2 then Inr ([], w1) else prune_alone cmp w1)"

section \<open>The records of a machine\<close>

definition short_name :: "string \<Rightarrow> string" where
  "short_name vm_name = hd (split_ch CHR ''.'' vm_name)"

definition last_octet_of :: "string \<Rightarrow> string" where
  "last_octet_of myip = last (split_ch CHR ''.'' myip)"

definition a_record :: "string \<Rightarrow> string \<Rightarrow> string" where
  "a_record vm_name myip = short_name vm_name @ ''         IN  A       '' @ myip"

definition ptr_record :: "string \<Rightarrow> string \<Rightarrow> string" where
  "ptr_record vm_name myip = last_octet_of myip @ ''      IN  PTR     '' @ vm_name @ ''.''"

definition hosts_suffix :: "string \<Rightarrow> string" where
  "hosts_suffix vm_name = ''  '' @ vm_name @ '' '' @ short_name vm_name @ ''  # lab-in-a-box''"

definition update_hosts_file :: "string \<Rightarrow> string \<Rightarrow> dns_world \<Rightarrow> dns_world" where
  "update_hosts_file vm_name myip w =
     (case dw_hosts_file w of None \<Rightarrow> w
      | Some p \<Rightarrow> upd_files None (\<lambda>f.
          f(p := Some (unlines (filter (\<lambda>l. \<not> ends_with l (hosts_suffix vm_name)) (splitlines (text_at f p)) @
                                (if myip \<noteq> [] then [myip @ hosts_suffix vm_name] else []))))) w)"

fun ensure_all :: "server list \<Rightarrow> string \<Rightarrow> string \<Rightarrow> dns_world \<Rightarrow> bool \<times> dns_world" where
  "ensure_all [] mydomain mynet_reverse w = (False, w)"
| "ensure_all (s # ss) mydomain mynet_reverse w =
     (let (c1, w1) = ensure_zone s mydomain mynet_reverse w; (c2, w2) = ensure_all ss mydomain mynet_reverse w1 in
      (c1 \<or> c2, w2))"

definition add_remote :: "string \<Rightarrow> string \<Rightarrow> string \<Rightarrow> string \<Rightarrow> bool \<Rightarrow> string \<Rightarrow> dns_world \<Rightarrow> dns_world" where
  "add_remote vm_name myip mydomain mynet_reverse replace h w =
     (let lan = zone_file_path (Some h) (forward_file mydomain) w;
          rev = zone_file_path (Some h) (reverse_file mynet_reverse) w in
      upd_files (Some h) (\<lambda>f0.
        (let f1 = (if mynet_reverse \<noteq> [] then remote_dns_remove_ptr_for_octet rev (last_octet_of myip) f0 else f0);
             f2 = (if replace then remote_dns_remove_other_a lan (short_name vm_name) myip f1 else f1);
             f3 = remote_dns_add lan (a_record vm_name myip) f2 in
         if mynet_reverse \<noteq> [] then remote_dns_add rev (ptr_record vm_name myip) f3 else f3)) w)"

definition add_local :: "string \<Rightarrow> string \<Rightarrow> string \<Rightarrow> string \<Rightarrow> bool \<Rightarrow> dns_world \<Rightarrow> dns_world res" where
  "add_local vm_name myip mydomain mynet_reverse replace w =
     (let lan = zone_file_path None (forward_file mydomain) w;
          rev = zone_file_path None (reverse_file mynet_reverse) w;
          f0 = dw_local w;
          f1 = (if mynet_reverse \<noteq> [] then dns_remove_ptr_for_octet rev (last_octet_of myip) f0 else f0) in
      res_bind (if replace then dns_remove_other_a lan (short_name vm_name) myip f1 else Inr f1) (\<lambda>f2.
      (let f3 = dns_add_line lan (a_record vm_name myip) f2;
           f4 = (if mynet_reverse \<noteq> [] then dns_add_line rev (ptr_record vm_name myip) f3 else f3) in
       Inr (update_hosts_file vm_name myip (w\<lparr>dw_local := f4\<rparr>)))))"

definition add_to_dns ::
  "zone_ask \<Rightarrow> string \<Rightarrow> string \<Rightarrow> string \<Rightarrow> string \<Rightarrow> string list \<Rightarrow> bool \<Rightarrow> dns_world \<Rightarrow> dns_world res" where
  "add_to_dns ask vm_name myip mydomain mynet_reverse remotes replace w =
     (let (servers, w1) = masters remotes w;
          (resync, w2) = ensure_all (None # map Some servers) mydomain mynet_reverse w1;
          w3 = fold (add_remote vm_name myip mydomain mynet_reverse replace) servers w2 in
      res_bind (add_local vm_name myip mydomain mynet_reverse replace w3) (\<lambda>w4.
      Inr (if resync then snd (sync_zone ask mydomain mynet_reverse remotes w4) else w4)))"

definition del_remote :: "string \<Rightarrow> string \<Rightarrow> string \<Rightarrow> string \<Rightarrow> string \<Rightarrow> dns_world \<Rightarrow> dns_world" where
  "del_remote vm_name myip mydomain mynet_reverse h w =
     (let lan = zone_file_path (Some h) (forward_file mydomain) w;
          rev = zone_file_path (Some h) (reverse_file mynet_reverse) w in
      upd_files (Some h) (\<lambda>f0.
        (let f1 = (if mynet_reverse \<noteq> [] then remote_sed (ptr_record vm_name myip) rev f0 else f0);
             f2 = remote_sed (a_record vm_name myip) lan f1 in
         remote_remove_service_lines lan myip f2)) w)"

definition del_from_dns :: "string \<Rightarrow> string \<Rightarrow> string \<Rightarrow> string \<Rightarrow> string list \<Rightarrow> dns_world \<Rightarrow> dns_world" where
  "del_from_dns vm_name myip mydomain mynet_reverse remotes w =
     (let (servers, w1) = masters remotes w;
          w2 = fold (del_remote vm_name myip mydomain mynet_reverse) servers w1;
          lan = zone_file_path None (forward_file mydomain) w2;
          rev = zone_file_path None (reverse_file mynet_reverse) w2 in
      update_hosts_file vm_name []
        (upd_files None (\<lambda>f.
          dns_remove_service_lines lan myip (dns_remove_line lan (a_record vm_name myip)
            (if mynet_reverse \<noteq> [] then dns_remove_line rev (ptr_record vm_name myip) f else f))) w2))"

section \<open>The records of a cluster service\<close>

definition service_record :: "string \<Rightarrow> string \<Rightarrow> string" where
  "service_record dns_entry ip = dns_entry @ service_suffix ip"

definition service_target :: "(dict \<Rightarrow> bool) \<Rightarrow> string \<times> pval \<Rightarrow> string list res" where
  "service_target wanted = (\<lambda>(name, v). case v of
     PDict cfg \<Rightarrow> Inr (if wanted cfg \<and> has_key cfg ''myip'' then [py_str (get cfg ''myip'')] else [])
   | _ \<Rightarrow> Inl (AttributeError ''get''))"

definition service_targets :: "dict \<Rightarrow> string \<Rightarrow> string \<Rightarrow> string list res" where
  "service_targets defn clu_name clu_type =
     (let key = ''INSTALL_'' @ str_upper clu_type @ ''_TYPE'';
          in_cluster = (\<lambda>cfg. get cfg ''kcluster'' = PStr clu_name) in
      case get_dflt defn ''nodes'' (PDict []) of
        PDict nodes \<Rightarrow>
          res_bind (res_map (service_target (\<lambda>cfg. get cfg key = PStr ''agent'' \<and> in_cluster cfg)) nodes) (\<lambda>agents.
          if concat agents \<noteq> [] then Inr (concat agents)
          else res_bind (res_map (service_target in_cluster) nodes) (\<lambda>all. Inr (concat all)))
      | _ \<Rightarrow> Inl (AttributeError ''items''))"

definition add_service_remote :: "string \<Rightarrow> string \<Rightarrow> string \<Rightarrow> string \<Rightarrow> dns_world \<Rightarrow> dns_world" where
  "add_service_remote dns_entry ip mydomain h w =
     (let zone = zone_file_path (Some h) (forward_file mydomain) w in
      upd_files (Some h) (\<lambda>f. append_text zone (service_record dns_entry ip @ NL)
                                (remote_sed (service_record dns_entry ip) zone f)) w)"

definition add_service_local :: "string \<Rightarrow> string \<Rightarrow> string \<Rightarrow> dns_world \<Rightarrow> dns_world" where
  "add_service_local dns_entry ip mydomain w =
     (let zone = zone_file_path None (forward_file mydomain) w; r = service_record dns_entry ip in
      upd_files None (\<lambda>f. dns_append_line zone r (dns_remove_line zone r f)) w)"

definition add_service_dns ::
  "zone_ask \<Rightarrow> dict \<Rightarrow> string \<Rightarrow> string \<Rightarrow> string \<Rightarrow> string \<Rightarrow> string list \<Rightarrow> dns_world \<Rightarrow> dns_world res" where
  "add_service_dns ask defn clu_name clu_type dns_entry mydomain remotes w =
     res_bind (service_targets defn clu_name clu_type) (\<lambda>ips.
     if ips = [] then Inr w
     else
       (let (servers, w1) = masters remotes w;
            (resync, w2) = ensure_all (None # map Some servers) mydomain [] w1;
            w3 = fold (\<lambda>ip wa. add_service_local dns_entry ip mydomain
                                 (fold (add_service_remote dns_entry ip mydomain) servers wa)) ips w2 in
        Inr (if resync then snd (sync_zone ask mydomain [] remotes w3) else w3)))"

definition add_dns_to_named_rr ::
  "zone_ask \<Rightarrow> dict \<Rightarrow> string \<Rightarrow> string \<Rightarrow> string \<Rightarrow> string list \<Rightarrow> dns_world \<Rightarrow> dns_world res" where
  "add_dns_to_named_rr ask defn dns_entry node_name mydomain remotes w =
     (case get_dflt defn ''nodes'' (PDict []) of
        PDict nodes \<Rightarrow>
          res_bind (or_dict (get_dflt nodes node_name (PDict []))) (\<lambda>cfg.
          (let r = service_record dns_entry (py_str (get_dflt cfg ''myip'' (PStr [])));
               (servers, w1) = masters remotes w;
               (resync, w2) = ensure_all (None # map Some servers) mydomain [] w1;
               zone = zone_file_path None (forward_file mydomain) w2 in
           if r \<in> set (splitlines (text_at (dw_local w2) zone)) \<and> \<not> resync then Inr w2
           else
             (let w3 = fold (\<lambda>h wa. upd_files (Some h) (remote_dns_add (zone_file_path (Some h) (forward_file mydomain) wa) r) wa)
                            servers w2;
                  w4 = upd_files None (dns_add_line zone r) w3 in
              Inr (if resync then snd (sync_zone ask mydomain [] remotes w4) else w4))))
      | _ \<Rightarrow> Inl (AttributeError ''get''))"

section \<open>A file of record lines\<close>

text \<open>
  What the callers rely on when a record is added: it is one of the lines afterwards, the other
  lines stay in their order, and adding it again changes no line.
\<close>

locale record_store =
  fixes add :: "string \<Rightarrow> 'f \<Rightarrow> 'f" and lines :: "'f \<Rightarrow> string list" and ok :: "string \<Rightarrow> bool"
  assumes added: "ok r \<Longrightarrow> r \<in> set (lines (add r f))"
    and kept: "ok r \<Longrightarrow> filter (\<lambda>l. l \<noteq> r \<and> l \<noteq> []) (lines (add r f)) = filter (\<lambda>l. l \<noteq> r \<and> l \<noteq> []) (lines f)"
    and again: "ok r \<Longrightarrow> r \<in> set (lines f) \<Longrightarrow> lines (add r f) = lines f"
begin

lemma add_idem: "ok r \<Longrightarrow> lines (add r (add r f)) = lines (add r f)"
  by (rule again) (simp_all add: added)

lemma other_kept: "ok r \<Longrightarrow> l \<noteq> r \<Longrightarrow> l \<noteq> [] \<Longrightarrow> l \<in> set (lines (add r f)) \<longleftrightarrow> l \<in> set (lines f)"
  using arg_cong [OF kept [of r f], of set] by auto

lemma adds_all: "\<forall>r \<in> set rs. ok r \<and> r \<noteq> [] \<Longrightarrow> set rs \<union> {l \<in> set (lines f). l \<noteq> []} \<subseteq> set (lines (fold add rs f))"
proof (induction rs arbitrary: f)
  case (Cons r rs)
  have "l \<in> set (lines (add r f))" if "l \<in> set (lines f)" "l \<noteq> []" for l
    using that other_kept [of r l f] added [of r f] Cons.prems by (cases "l = r") auto
  then have "insert r {l \<in> set (lines f). l \<noteq> []} \<subseteq> {l \<in> set (lines (add r f)). l \<noteq> []}"
    using added [of r f] Cons.prems by auto
  with Cons.IH [of "add r f"] Cons.prems show ?case by auto
qed auto

end

definition file_lines :: "string \<Rightarrow> files \<Rightarrow> string list" where
  "file_lines p f = splitlines (text_at f p)"

lemma file_lines_ok: "l \<in> set (file_lines p f) \<Longrightarrow> line_ok l"
  unfolding file_lines_def by (rule line_ok_splitlines)

lemma file_lines_unlines:
  "(\<And>l. l \<in> set ls \<Longrightarrow> line_ok l) \<Longrightarrow> file_lines p (f(p := Some (unlines ls))) = (if ls = [] then [[]] else ls)"
  by (simp add: file_lines_def text_at_def splitlines_unlines)

lemma file_lines_other: "q \<noteq> p \<Longrightarrow> file_lines q (f(p := t)) = file_lines q f"
  by (simp add: file_lines_def text_at_def)

lemma dns_add_line_lines:
  assumes "line_ok r"
  shows "file_lines p (dns_add_line p r f) = (if r \<in> set (file_lines p f) then file_lines p f else file_lines p f @ [r])"
proof (cases "r \<in> set (file_lines p f)")
  case True
  then show ?thesis by (simp add: dns_add_line_def file_lines_def text_at_def)
next
  case False
  have "line_ok l" if "l \<in> set (file_lines p f @ [r])" for l using that assms file_lines_ok by auto
  with False show ?thesis
    using file_lines_unlines [of "file_lines p f @ [r]" p f] by (simp add: dns_add_line_def file_lines_def)
qed

interpretation local_store: record_store "dns_add_line p" "file_lines p" line_ok for p
  by unfold_locales (auto simp: dns_add_line_lines)

lemma rewrite_lines_lines:
  "file_lines p (rewrite_lines keep p f) =
     (if f p \<noteq> None \<and> filter keep (file_lines p f) = [] then [[]] else filter keep (file_lines p f))"
proof (cases "f p")
  case None
  then show ?thesis by (simp add: rewrite_lines_def file_lines_def text_at_def)
next
  case (Some t)
  have "line_ok l" if "l \<in> set (filter keep (splitlines t))" for l
    using that line_ok_splitlines by auto
  with Some show ?thesis
    using file_lines_unlines [of "filter keep (splitlines t)" p f]
    by (simp add: rewrite_lines_def file_lines_def text_at_def)
qed

lemma rewrite_lines_mem:
  "l \<in> set (file_lines p (rewrite_lines keep p f)) \<longleftrightarrow>
   l \<in> set (file_lines p f) \<and> keep l \<or> l = [] \<and> f p \<noteq> None \<and> filter keep (file_lines p f) = []"
  by (auto simp: rewrite_lines_lines filter_empty_conv)

lemma rewrite_lines_other: "q \<noteq> p \<Longrightarrow> rewrite_lines keep p f q = f q"
  by (simp add: rewrite_lines_def split: option.splits)

lemma dns_add_line_other: "q \<noteq> p \<Longrightarrow> dns_add_line p r f q = f q"
  by (simp add: dns_add_line_def Let_def)

lemma file_lines_cong: "f q = g q \<Longrightarrow> file_lines q f = file_lines q g"
  by (simp add: file_lines_def text_at_def)

section \<open>Registering a machine\<close>

definition same_host :: "dns_world \<Rightarrow> dns_world \<Rightarrow> bool" where
  "same_host v w = (dw_local v = dw_local w \<and> dw_local_os v = dw_local_os w \<and> dw_hosts_file v = dw_hosts_file w)"

lemma same_host_trans: "same_host u v \<Longrightarrow> same_host v w \<Longrightarrow> same_host u w"
  by (simp add: same_host_def)

lemma reachable_keep: "same_host (snd (reachable s w)) w \<and> dw_hosts (snd (reachable s w)) = dw_hosts w \<and>
    dw_ssh (snd (reachable s w)) = dw_ssh w \<and> dw_os (snd (reachable s w)) = dw_os w"
  by (simp add: reachable_def same_host_def Let_def split: option.splits)

lemma masters_keep: "same_host (snd (masters rs w)) w \<and> dw_hosts (snd (masters rs w)) = dw_hosts w \<and>
    dw_ssh (snd (masters rs w)) = dw_ssh w \<and> dw_os (snd (masters rs w)) = dw_os w"
proof (induction rs arbitrary: w)
  case (Cons r rs)
  have "snd (masters (r # rs) w) = snd (masters rs (snd (reachable r w)))" by (simp add: Let_def split: prod.splits)
  then show ?case using Cons [of "snd (reachable r w)"] reachable_keep [of r w] same_host_trans by metis
qed (simp add: same_host_def)

lemma zone_paths_differ: "zone_file_path s (forward_file a) w \<noteq> zone_file_path s (reverse_file b) w"
proof
  assume "zone_file_path s (forward_file a) w = zone_file_path s (reverse_file b) w"
  then have "forward_file a = reverse_file b" by (simp add: zone_file_path_def zone_path_def)
  then have "rev (forward_file a) = rev (reverse_file b)" by simp
  then show False by (simp add: forward_file_def reverse_file_def)
qed

lemma words_ptr: "token (last_octet_of ip) \<Longrightarrow> take 1 (words (ptr_record vm ip)) = [last_octet_of ip]"
  by (simp add: ptr_record_def words_token_space)

lemma upd_remote_keep: "same_host (upd_files (Some h) g w) w"
  by (simp add: same_host_def upd_files_def)

lemma del_remotes_keep: "same_host (fold (del_remote vm ip md mr) qs v) v"
proof (induction qs arbitrary: v)
  case (Cons q qs)
  have "same_host (del_remote vm ip md mr q v) v" unfolding del_remote_def Let_def by (rule upd_remote_keep)
  with Cons [of "del_remote vm ip md mr q v"] show ?case using same_host_trans by (simp only: fold.simps o_apply)
qed (simp add: same_host_def)

text \<open>The A records of another address, which \<open>replace\<close> takes away.\<close>

definition stale_a :: "string \<Rightarrow> string \<Rightarrow> string \<Rightarrow> bool" where
  "stale_a short keep_ip l =
     (case (rx_parse (fst (other_a_patterns short keep_ip)), rx_parse (snd (other_a_patterns short keep_ip))) of
        (Some any_a, Some keep) \<Rightarrow> rx_match any_a l \<noteq> None \<and> rx_search keep l = None
      | _ \<Rightarrow> False)"

lemma remove_other_a:
  assumes "dns_remove_other_a p short ip f = Inr f'"
  shows "q \<noteq> p \<Longrightarrow> f' q = f q"
    and "l \<noteq> [] \<Longrightarrow> l \<in> set (file_lines p f') \<longleftrightarrow> l \<in> set (file_lines p f) \<and> \<not> stale_a short ip l"
proof -
  consider "f p = None" "f' = f" | any_a keep where "rx_parse (fst (other_a_patterns short ip)) = Some any_a"
      "rx_parse (snd (other_a_patterns short ip)) = Some keep"
      "f' = rewrite_lines (\<lambda>l. \<not> (rx_match any_a l \<noteq> None \<and> rx_search keep l = None)) p f"
    using assms by (auto simp: dns_remove_other_a_def compile_rx_def res_simps split: if_splits option.splits)
  note cs = this
  show "q \<noteq> p \<Longrightarrow> f' q = f q" using cs by cases (simp_all add: rewrite_lines_other)
  show "l \<noteq> [] \<Longrightarrow> l \<in> set (file_lines p f') \<longleftrightarrow> l \<in> set (file_lines p f) \<and> \<not> stale_a short ip l"
    using cs
  proof cases
    case 1
    then show "l \<noteq> [] \<Longrightarrow> l \<in> set (file_lines p f') \<longleftrightarrow> l \<in> set (file_lines p f) \<and> \<not> stale_a short ip l"
      by (simp add: file_lines_def text_at_def splitlines_def)
  next
    case 2
    then show "l \<noteq> [] \<Longrightarrow> l \<in> set (file_lines p f') \<longleftrightarrow> l \<in> set (file_lines p f) \<and> \<not> stale_a short ip l"
      by (auto simp: stale_a_def rewrite_lines_mem)
  qed
qed

text \<open>What \<open>add_local\<close> leaves in the two zone files.\<close>

lemma add_local_files:
  assumes "add_local vm ip md mr replace w = Inr w'" and "mr \<noteq> []"
    and "dw_hosts_file w \<noteq> Some (zone_file_path None (forward_file md) w)"
    and "dw_hosts_file w \<noteq> Some (zone_file_path None (reverse_file mr) w)"
  shows "\<exists>f. (\<forall>l. l \<noteq> [] \<longrightarrow> (l \<in> set (file_lines (zone_file_path None (forward_file md) w) f) \<longleftrightarrow>
         l \<in> set (file_lines (zone_file_path None (forward_file md) w) (dw_local w)) \<and> \<not> (replace \<and> stale_a (short_name vm) ip l))) \<and>
     file_lines (zone_file_path None (forward_file md) w) (dw_local w') =
       file_lines (zone_file_path None (forward_file md) w)
         (dns_add_line (zone_file_path None (forward_file md) w) (a_record vm ip) f) \<and>
     file_lines (zone_file_path None (reverse_file mr) w) (dw_local w') =
       file_lines (zone_file_path None (reverse_file mr) w)
         (dns_add_line (zone_file_path None (reverse_file mr) w) (ptr_record vm ip)
           (dns_remove_ptr_for_octet (zone_file_path None (reverse_file mr) w) (last_octet_of ip) (dw_local w)))"
proof -
  let ?lan = "zone_file_path None (forward_file md) w" and ?rev = "zone_file_path None (reverse_file mr) w"
  have ne: "?lan \<noteq> ?rev" by (rule zone_paths_differ)
  let ?f1 = "dns_remove_ptr_for_octet ?rev (last_octet_of ip) (dw_local w)"
  obtain f2 where f2: "(if replace then dns_remove_other_a ?lan (short_name vm) ip ?f1 else Inr ?f1) = Inr f2"
    and w': "w' = update_hosts_file vm ip (w\<lparr>dw_local := dns_add_line ?rev (ptr_record vm ip) (dns_add_line ?lan (a_record vm ip) f2)\<rparr>)"
    using assms(1,2) by (auto simp: add_local_def Let_def res_simps simp del: if_split)
  let ?f4 = "dns_add_line ?rev (ptr_record vm ip) (dns_add_line ?lan (a_record vm ip) f2)"
  have h: "dw_local w' q = ?f4 q" if "dw_hosts_file w \<noteq> Some q" for q
    using that by (auto simp: w' update_hosts_file_def upd_files_def split: option.splits)
  have "?f1 ?lan = dw_local w ?lan" using ne by (simp add: dns_remove_ptr_for_octet_def rewrite_lines_other)
  then have f1: "file_lines ?lan ?f1 = file_lines ?lan (dw_local w)" by (rule file_lines_cong)
  have kept: "\<forall>l. l \<noteq> [] \<longrightarrow> (l \<in> set (file_lines ?lan f2) \<longleftrightarrow>
      l \<in> set (file_lines ?lan (dw_local w)) \<and> \<not> (replace \<and> stale_a (short_name vm) ip l))"
  proof (cases replace)
    case True
    then show ?thesis using remove_other_a(2) [of ?lan "short_name vm" ip ?f1 f2] f1 f2 by simp
  next
    case False
    then show ?thesis using f1 f2 by simp
  qed
  have rev2: "f2 ?rev = ?f1 ?rev"
  proof (cases replace)
    case True
    then show ?thesis using remove_other_a(1) [of ?lan "short_name vm" ip ?f1 f2 ?rev] ne f2 by auto
  qed (use f2 in simp)
  have "?f4 ?lan = dns_add_line ?lan (a_record vm ip) f2 ?lan" using ne by (simp add: dns_add_line_other)
  then have lan: "file_lines ?lan (dw_local w') = file_lines ?lan (dns_add_line ?lan (a_record vm ip) f2)"
    using h [OF assms(3)] by (intro file_lines_cong) simp
  have "?f4 ?rev = dns_add_line ?rev (ptr_record vm ip) ?f1 ?rev"
    using ne rev2 by (simp add: dns_add_line_def text_at_def Let_def)
  then have "file_lines ?rev (dw_local w') = file_lines ?rev (dns_add_line ?rev (ptr_record vm ip) ?f1)"
    using h [OF assms(4)] by (intro file_lines_cong) simp
  with lan kept show ?thesis by blast
qed

lemma ensure_zones_False: "ensure_zones s zs w = (False, w') \<Longrightarrow> w' = w"
  by (induction s zs w rule: ensure_zones.induct) (auto split: if_splits prod.splits)

lemma ensure_all_False: "ensure_all ss md mr w = (False, w') \<Longrightarrow> w' = w"
  by (induction ss arbitrary: w w') (auto simp: ensure_zone_def Let_def split: prod.splits dest!: ensure_zones_False)

lemma add_remotes_keep: "same_host (fold (add_remote vm ip md mr replace) qs v) v"
proof (induction qs arbitrary: v)
  case (Cons q qs)
  have "same_host (add_remote vm ip md mr replace q v) v" unfolding add_remote_def Let_def by (rule upd_remote_keep)
  with Cons [of "add_remote vm ip md mr replace q v"] show ?case using same_host_trans by (simp only: fold.simps o_apply)
qed (simp add: same_host_def)

definition zones_ready :: "string \<Rightarrow> string \<Rightarrow> string list \<Rightarrow> dns_world \<Rightarrow> bool" where
  "zones_ready md mr remotes w =
     (case masters remotes w of (servers, w1) \<Rightarrow> \<not> fst (ensure_all (None # map Some servers) md mr w1))"

lemma add_to_dns_local:
  assumes "add_to_dns ask vm ip md mr remotes replace w = Inr w'" and "zones_ready md mr remotes w"
  shows "\<exists>v. same_host v w \<and> add_local vm ip md mr replace v = Inr w'"
proof -
  obtain servers w1 where m: "masters remotes w = (servers, w1)" by fastforce
  obtain w2 where e: "ensure_all (None # map Some servers) md mr w1 = (False, w2)"
    using assms(2) unfolding zones_ready_def m prod.case by (cases "ensure_all (None # map Some servers) md mr w1") auto
  then have "w2 = w1" by (rule ensure_all_False)
  then have "add_local vm ip md mr replace (fold (add_remote vm ip md mr replace) servers w1) = Inr w'"
    using assms(1) by (auto simp: add_to_dns_def m e res_simps simp del: ensure_all.simps)
  moreover have "same_host w1 w" using masters_keep [of remotes w] m by simp
  ultimately show ?thesis using add_remotes_keep same_host_trans by blast
qed


text \<open>Removing a machine from this host: neither its A record nor its PTR record nor any service
  record pointing at its address is left, and every other line stays.\<close>

theorem deregistered:
  assumes "w' = del_from_dns vm ip md mr remotes w" and "mr \<noteq> []" and "ip \<noteq> []"
    and "dw_hosts_file w \<noteq> Some (zone_file_path None (forward_file md) w)"
    and "dw_hosts_file w \<noteq> Some (zone_file_path None (reverse_file mr) w)"
    and "l \<noteq> []"
  shows "(l \<in> set (file_lines (zone_file_path None (forward_file md) w) (dw_local w')) \<longleftrightarrow>
       l \<in> set (file_lines (zone_file_path None (forward_file md) w) (dw_local w)) \<and>
       l \<noteq> a_record vm ip \<and> \<not> ends_with l (service_suffix ip)) \<and>
     (l \<in> set (file_lines (zone_file_path None (reverse_file mr) w) (dw_local w')) \<longleftrightarrow>
       l \<in> set (file_lines (zone_file_path None (reverse_file mr) w) (dw_local w)) \<and> l \<noteq> ptr_record vm ip)"
proof -
  let ?lan = "zone_file_path None (forward_file md) w" and ?rev = "zone_file_path None (reverse_file mr) w"
  obtain ms w1 where m: "masters remotes w = (ms, w1)" by fastforce
  have m1: "dw_local w1 = dw_local w \<and> dw_local_os w1 = dw_local_os w \<and> dw_hosts_file w1 = dw_hosts_file w"
  using masters_keep [of remotes w] m by (simp add: same_host_def)
  define w2 where "w2 = fold (del_remote vm ip md mr) ms w1"
  have "same_host w2 w1" unfolding w2_def by (rule del_remotes_keep)
  with m1 have w2: "dw_local w2 = dw_local w" "dw_local_os w2 = dw_local_os w" "dw_hosts_file w2 = dw_hosts_file w"
    by (simp_all add: same_host_def)
  have paths: "zone_file_path None x w2 = zone_file_path None x w" for x
    by (simp add: zone_file_path_def os_of_def w2)
  let ?f1 = "dns_remove_line ?rev (ptr_record vm ip) (dw_local w)"
  let ?f3 = "dns_remove_service_lines ?lan ip (dns_remove_line ?lan (a_record vm ip) ?f1)"
  have w': "w' = update_hosts_file vm [] (upd_files None (\<lambda>f. dns_remove_service_lines ?lan ip
      (dns_remove_line ?lan (a_record vm ip) (dns_remove_line ?rev (ptr_record vm ip) f))) w2)"
    using assms(1,2) by (simp add: del_from_dns_def m w2_def [symmetric] paths Let_def)
  have h: "dw_local w' q = ?f3 q" if "dw_hosts_file w \<noteq> Some q" for q
    using that by (auto simp: w' update_hosts_file_def upd_files_def w2 split: option.splits)
  have ne: "?lan \<noteq> ?rev" by (rule zone_paths_differ)
  have lan: "file_lines ?lan (dw_local w') = file_lines ?lan ?f3" using h [OF assms(4)] by (rule file_lines_cong)
  have "?f3 ?rev = ?f1 ?rev"
    using ne assms(3) by (simp add: dns_remove_service_lines_def dns_remove_line_def rewrite_lines_other)
  then have rev: "file_lines ?rev (dw_local w') = file_lines ?rev ?f1"
    using h [OF assms(5)] by (intro file_lines_cong) simp
  have "file_lines ?lan ?f1 = file_lines ?lan (dw_local w)"
    using ne by (intro file_lines_cong) (simp add: dns_remove_line_def rewrite_lines_other)
  then show ?thesis
    unfolding lan rev using assms(3,6)
    by (auto simp: dns_remove_service_lines_def dns_remove_line_def rewrite_lines_mem)
qed

section \<open>A master holds its zones\<close>

lemma contains_split:
  "CHR 0x0A \<notin> set n \<Longrightarrow> n \<noteq> [] \<Longrightarrow> contains n t \<longleftrightarrow> (\<exists>l \<in> set (split_ch CHR 0x0A t). contains n l)"
proof (induction t)
  case (Cons c cs)
  obtain w ws where w: "split_ch CHR 0x0A cs = w # ws" by (meson neq_Nil_conv split_ch_nonempty)
  have pre: "c \<noteq> CHR 0x0A \<Longrightarrow> prefix n (c # cs) \<longleftrightarrow> prefix n (c # w)"
  proof -
    assume c: "c \<noteq> CHR 0x0A"
    have cs: "cs = join [CHR 0x0A] (w # ws)" using split_ch_join [of "CHR 0x0A" cs] w by simp
    show ?thesis
    proof (cases ws)
      case Nil
      then show ?thesis using cs by simp
    next
      case (Cons v vs)
      with cs have "c # cs = (c # w) @ CHR 0x0A # join [CHR 0x0A] ws" by simp
      then show ?thesis using Cons.prems(1) by (auto simp: prefix_append prefix_Cons Cons)
    qed
  qed
  show ?case
  proof (cases "c = CHR 0x0A")
    case True
    then have "\<not> prefix n (c # cs)" using Cons.prems by (cases n) auto
    with True Cons show ?thesis by simp
  next
    case False
    then show ?thesis using Cons w pre by auto
  qed
qed auto

lemma nl_lines_contains:
  assumes "n \<noteq> []" and "ps \<noteq> []"
  shows "list_ex (contains n) (fst (if last ps = [] then (butlast ps, True) else (ps, False))) \<longleftrightarrow>
     (\<exists>l \<in> set ps. contains n l)"
  using assms by (cases ps rule: rev_cases) (auto simp: list_ex_iff)

lemma grep_F_contains: "CHR 0x0A \<notin> set n \<Longrightarrow> n \<noteq> [] \<Longrightarrow> grep_F n t \<longleftrightarrow> contains n t"
  unfolding grep_F_def nl_lines_def Let_def
  using nl_lines_contains [OF _ split_ch_nonempty, of n "CHR 0x0A" t] contains_split [of n t] by simp

definition mark_in :: "string \<Rightarrow> string option \<Rightarrow> bool" where
  "mark_in n t = (case t of None \<Rightarrow> False | Some x \<Rightarrow> contains n x)"

lemma contains_appendL: "contains n a \<Longrightarrow> contains n (a @ b)"
  unfolding contains_iff_sublist by (meson sublist_append_rightI sublist_order.order_trans)

lemma contains_appendR: "contains n b \<Longrightarrow> contains n (a @ b)"
  unfolding contains_iff_sublist by (meson sublist_append_leftI sublist_order.order_trans)

lemma mark_in_append: "mark_in n (f p) \<Longrightarrow> mark_in n (append_text q x f p)"
  by (auto simp: mark_in_def append_text_def text_at_def contains_appendL split: option.splits)

lemma mark_in_new: "contains n x \<Longrightarrow> mark_in n (append_text q x f q)"
  by (auto simp: mark_in_def append_text_def contains_appendR)

definition conf_paths :: "server \<Rightarrow> dns_world \<Rightarrow> string list" where
  "conf_paths s w = (case s of None \<Rightarrow> [local_conf w]
     | Some h \<Rightarrow> [''/etc/named.conf'', ''/etc/named.lab.conf'', ''/etc/bind/named.conf.local''])"

definition plain_zone :: "string \<Rightarrow> bool" where
  "plain_zone z = (CHR 0x0A \<notin> set z)"

lemma zone_mark_plain: "plain_zone z \<Longrightarrow> CHR 0x0A \<notin> set (zone_mark z) \<and> zone_mark z \<noteq> []"
  by (auto simp: zone_mark_def plain_zone_def dq_def)

lemma zone_declared_marks:
  "plain_zone z \<Longrightarrow> zone_declared s z w \<longleftrightarrow> (\<exists>p \<in> set (conf_paths s w). mark_in (zone_mark z) (files_of s w p))"
  using zone_mark_plain [of z]
  by (auto simp: zone_declared_def conf_paths_def files_of_def mark_in_def grep_F_contains split: option.splits)

lemma contains_stanza: "contains (zone_mark z) (stanza z p)"
proof -
  have "stanza z p = zone_mark z @ ('' { type master; file '' @ dq p @ ''; allow-update { none; }; };'')"
    by (simp only: stanza_def zone_mark_def append_assoc)
  then show ?thesis by (simp only: contains_appendL contains_refl)
qed

lemma strip_nonblank:
  assumes "c \<in> set t" and "\<not> is_space c"
  shows "str_strip t \<noteq> []"
proof -
  have "c \<in> set (dropWhile is_space t)"
    using assms by (metis Un_iff set_append set_takeWhileD takeWhile_dropWhile_id)
  with assms(2) have "dropWhile is_space (rev (dropWhile is_space t)) \<noteq> []"
    by (auto simp: dropWhile_eq_Nil_conv)
  then show ?thesis by (simp add: str_strip_def)
qed

lemma contains_chars: "contains n t \<Longrightarrow> set n \<subseteq> set t"
  by (auto simp: contains_iff_sublist sublist_def)

lemma mark_in_nonblank:
  assumes "mark_in (zone_mark z) (f p)"
  shows "str_strip (text_at f p) \<noteq> [] \<and> text_at f p \<noteq> []"
proof -
  from assms have c: "contains (zone_mark z) (text_at f p)" by (auto simp: mark_in_def text_at_def split: option.splits)
  have "CHR ''z'' \<in> set (zone_mark z)" by (simp add: zone_mark_def)
  with contains_chars [OF c] have "CHR ''z'' \<in> set (text_at f p)" by blast
  moreover have "\<not> is_space CHR ''z''" by (simp add: is_space_def code_def)
  ultimately show ?thesis using strip_nonblank by (metis empty_iff list.set(1))
qed

definition init_file :: "(string \<Rightarrow> bool) \<Rightarrow> string \<Rightarrow> string list \<Rightarrow> files \<Rightarrow> files" where
  "init_file blank path header f = (if blank (text_at f path) then f(path := Some (unlines header)) else f)"

lemma mark_in_init:
  assumes "mark_in (zone_mark z) (f p)" and "\<And>t. blank t \<Longrightarrow> str_strip t = [] \<or> t = []"
  shows "mark_in (zone_mark z) (init_file blank path header f p)"
  using mark_in_nonblank [of z f p] assms by (auto simp: init_file_def)

text \<open>Whether the commands for a server run on it.\<close>

definition reached :: "server \<Rightarrow> dns_world \<Rightarrow> bool" where
  "reached s w = (case s of None \<Rightarrow> True | Some h \<Rightarrow> dw_ssh w h)"

lemma create_zone_reached [simp]: "reached t (create_zone s zone file_name header w) = reached t w"
  by (simp add: reached_def create_zone_def create_local_zone_def create_remote_zone_def upd_files_def Let_def
      split: option.splits prod.splits)

lemma create_zone_files:
  assumes "reached s w"
  shows "\<exists>conf x f1. conf \<in> set (conf_paths s w) \<and> contains (zone_mark zone) x \<and>
     f1 = init_file (\<lambda>t. case s of None \<Rightarrow> str_strip t = [] | Some _ \<Rightarrow> t = []) (zone_file_path s file_name w) header (files_of s w) \<and>
     (files_of s (create_zone s zone file_name header w) = append_text conf x f1 \<or>
      (\<exists>q y. files_of s (create_zone s zone file_name header w) = append_text q y (append_text conf x f1)))"
proof (cases s)
  case None
  let ?path = "zone_file_path None file_name w"
  have "contains (zone_mark zone) (NL @ stanza zone ?path @ NL)"
    by (intro contains_appendR contains_appendL contains_stanza)
  with None show ?thesis
    by (intro exI [of _ "local_conf w"] exI [of _ "NL @ stanza zone ?path @ NL"] exI conjI disjI1, simp_all add: conf_paths_def)
       (simp add: create_zone_def create_local_zone_def files_of_def upd_files_def init_file_def Let_def)
next
  case (Some h)
  have r: "dw_ssh w h" using assms Some by (simp add: reached_def)
  obtain os_id os_like where os: "dw_os w h = (os_id, os_like)" by fastforce
  let ?path = "zone_path file_name os_id os_like"
  let ?conf = "remote_named_conf os_id os_like"
  let ?f1 = "init_file (\<lambda>t. t = []) ?path header (dw_hosts w h)"
  let ?f2 = "append_text ?conf (stanza zone ?path @ NL) ?f1"
  have p: "zone_file_path (Some h) file_name w = ?path" by (simp add: zone_file_path_def os_of_def os)
  have c: "?conf \<in> set (conf_paths (Some h) w)" by (simp add: conf_paths_def remote_named_conf_def)
  have m: "contains (zone_mark zone) (stanza zone ?path @ NL)" by (intro contains_appendL contains_stanza)
  have i: "(if text_at (dw_hosts w h) ?path \<noteq> [] then dw_hosts w h else (dw_hosts w h)(?path := Some (unlines header))) = ?f1"
    by (simp add: init_file_def)
  have "files_of (Some h) (create_zone (Some h) zone file_name header w) = ?f2 \<or>
     (\<exists>q y. files_of (Some h) (create_zone (Some h) zone file_name header w) = append_text q y ?f2)"
    unfolding create_zone_def create_remote_zone_def os option.case prod.case Let_def
    using r
    by (simp only: reached_def files_of_def upd_files_def option.case dns_world.simps fun_upd_same i if_True) auto
  with Some p c m show ?thesis
    using r by (intro exI [of _ ?conf] exI [of _ "stanza zone ?path @ NL"] exI [of _ ?f1]) (simp add: files_of_def [of "Some h" w])
qed

lemma create_zone_confs: "conf_paths s (create_zone s zone file_name header w) = conf_paths s w"
  by (auto simp: conf_paths_def create_zone_def create_local_zone_def local_conf_def upd_files_def Let_def split: option.splits)

lemma create_zone_declares:
  assumes "plain_zone zone" and "reached s w"
  shows "zone_declared s zone (create_zone s zone file_name header w)"
proof -
  obtain conf x f1 where c: "conf \<in> set (conf_paths s w)" "contains (zone_mark zone) x"
    "files_of s (create_zone s zone file_name header w) = append_text conf x f1 \<or>
     (\<exists>q y. files_of s (create_zone s zone file_name header w) = append_text q y (append_text conf x f1))"
    using create_zone_files [OF assms(2), of zone file_name header] by blast
  then have "mark_in (zone_mark zone) (files_of s (create_zone s zone file_name header w) conf)"
    using mark_in_new mark_in_append by fastforce
  with c(1) assms(1) show ?thesis by (auto simp: zone_declared_marks create_zone_confs)
qed

lemma create_zone_keeps:
  assumes "plain_zone z" and "zone_declared s z w" and "reached s w"
  shows "zone_declared s z (create_zone s zone file_name header w)"
proof -
  from assms(1,2) obtain p where p: "p \<in> set (conf_paths s w)" "mark_in (zone_mark z) (files_of s w p)"
    by (auto simp: zone_declared_marks)
  obtain conf x f1 where c: "f1 = init_file (\<lambda>t. case s of None \<Rightarrow> str_strip t = [] | Some _ \<Rightarrow> t = [])
      (zone_file_path s file_name w) header (files_of s w)"
    "files_of s (create_zone s zone file_name header w) = append_text conf x f1 \<or>
     (\<exists>q y. files_of s (create_zone s zone file_name header w) = append_text q y (append_text conf x f1))"
    using create_zone_files [OF assms(3), of zone file_name header] by blast
  have "mark_in (zone_mark z) (f1 p)"
    unfolding c(1) by (rule mark_in_init [of z "files_of s w" p]) (use p(2) in \<open>auto split: option.splits\<close>)
  then have "mark_in (zone_mark z) (files_of s (create_zone s zone file_name header w) p)"
    using c(2) mark_in_append by fastforce
  with p(1) assms(1) show ?thesis by (auto simp: zone_declared_marks create_zone_confs)
qed

lemma ensure_zones_keeps:
  "plain_zone z \<Longrightarrow> reached s w \<Longrightarrow> zone_declared s z w \<Longrightarrow> zone_declared s z (snd (ensure_zones s zs w))"
  by (induction s zs w rule: ensure_zones.induct) (auto simp: create_zone_keeps split: prod.splits)

lemma ensure_zones_declares:
  "reached s w \<Longrightarrow> \<forall>(z, f, h) \<in> set zs. plain_zone z \<Longrightarrow> (z, f, h) \<in> set zs \<Longrightarrow> zone_declared s z (snd (ensure_zones s zs w))"
proof (induction s zs w rule: ensure_zones.induct)
  case (2 s zone file_name header rest w)
  show ?case
  proof (cases "(z, f, h) \<in> set rest")
    case True
    with 2 show ?thesis by (auto split: prod.splits)
  next
    case False
    with 2 have "z = zone" "plain_zone z" by auto
    then show ?thesis
      using ensure_zones_keeps [of z s w rest] "2.prems"(1)
        ensure_zones_keeps [of z s "create_zone s zone file_name header w" rest] create_zone_declares [of z s w file_name header]
      by (auto split: prod.splits)
  qed
qed simp

lemma not_reached:
  assumes "\<not> reached s w"
  shows "\<not> zone_declared s z w" and "create_zone s z file_name header w = w"
  using assms
  by (auto simp: reached_def zone_declared_def files_of_def create_zone_def create_remote_zone_def upd_files_def Let_def list_ex_iff
      split: option.splits prod.splits)

lemma ensure_zones_not_reached: "\<not> reached s w \<Longrightarrow> zs \<noteq> [] \<Longrightarrow> ensure_zones s zs w = (True, w)"
proof (induction s zs w rule: ensure_zones.induct)
  case (2 s zone file_name header rest w)
  then show ?case using not_reached [of s w] by (cases rest) auto
qed simp

lemma ensure_zones_done: "\<forall>(z, f, h) \<in> set zs. zone_declared s z w \<Longrightarrow> ensure_zones s zs w = (False, w)"
  by (induction zs) auto


section \<open>Records after a sync\<close>

lemma lines_acc_ended: "lines_acc acc (u @ CHR 0x0A # x) = lines_acc acc (u @ [CHR 0x0A]) @ lines_acc [] x"
proof (induction acc u rule: lines_acc.induct)
  case (1 acc)
  then show ?case using lines_acc_NL [of acc x] lines_acc_NL [of acc "[]"] by simp
next
  case (2 acc c cs)
  show ?case
  proof (cases "is_break c")
    case False
    then show ?thesis using 2 by simp
  next
    case True
    show ?thesis
    proof (cases cs)
      case Nil
      then show ?thesis using True lines_acc_NL [of "[]" x] lines_acc_NL [of "[]" "[]"] by (simp add: code_def)
    next
      case (Cons d ds)
      then show ?thesis using 2 True by simp
    qed
  qed
qed

definition text_ended :: "string \<Rightarrow> bool" where
  "text_ended t = (t = [] \<or> last t = CHR 0x0A)"

lemma splitlines_ended: "text_ended t \<Longrightarrow> splitlines (t @ x) = splitlines t @ splitlines x"
  using lines_acc_ended [of "[]" "butlast t" x]
  by (cases "t = []") (auto simp: text_ended_def splitlines_def, metis append_butlast_last_id append_Cons append_Nil append_assoc)

lemma records_ended: "text_ended t \<Longrightarrow> records (t @ x) = records t \<union> records x"
  by (auto simp: records_mem splitlines_ended)

lemma records_line: "line_ok r \<Longrightarrow> record_of r = Some r \<Longrightarrow> records (r @ NL) = {r}"
  using splitlines_Cons_line [of r "[]"] by (simp add: records_def List.map_filter_simps)

lemma append_lines_records:
  assumes "\<forall>r \<in> set rs. line_ok r \<and> record_of r = Some r" and "text_ended (text_at f p)"
  shows "records (text_at (fold (dns_append_line p) rs f) p) = records (text_at f p) \<union> set rs \<and>
    text_ended (text_at (fold (dns_append_line p) rs f) p)"
  using assms
proof (induction rs arbitrary: f)
  case (Cons r rs)
  have t: "text_at (dns_append_line p r f) p = text_at f p @ (r @ NL)"
    by (simp add: dns_append_line_def append_text_def text_at_def)
  have e: "text_ended (text_at (dns_append_line p r f) p)" unfolding t by (simp add: text_ended_def NL_def)
  have "records (text_at (dns_append_line p r f) p) = insert r (records (text_at f p))"
    unfolding t using records_ended [OF Cons.prems(2)] records_line [of r] Cons.prems(1) by simp
  with Cons.IH [OF _ e] Cons.prems(1) show ?case by simp
qed simp

lemma append_lines_other: "q \<noteq> p \<Longrightarrow> fold (dns_append_line p) rs f q = f q"
  by (induction rs arbitrary: f) (auto simp: dns_append_line_def append_text_def)

definition fix_records :: "string set \<Rightarrow> bool" where
  "fix_records m = (finite m \<and> (\<forall>r \<in> m. line_ok r \<and> record_of r = Some r))"

lemma fix_records_records: "fix_records (records t)"
  using records_fix [of _ t] by (auto simp: fix_records_def records_def)

lemma fix_records_ops: "fix_records a \<Longrightarrow> fix_records (a - b)" "finite S \<Longrightarrow> \<forall>x \<in> S. fix_records (g x) \<Longrightarrow> fix_records (\<Union> (g ` S))"
  by (auto simp: fix_records_def)

lemma write_records_local:
  assumes "fix_records m" and "text_ended (text_at (dw_local w) p)"
  shows "records (text_at (dw_local (write_records s f (sorted_list_of_set m) w)) p) \<supseteq>
      records (text_at (dw_local w) p) \<union> (if s = None \<and> zone_file_path None f w = p then m else {}) \<and>
    text_ended (text_at (dw_local (write_records s f (sorted_list_of_set m) w)) p) \<and>
    dw_local_os (write_records s f (sorted_list_of_set m) w) = dw_local_os w"
proof (cases s)
  case None
  let ?q = "zone_file_path None f w"
  have w: "dw_local (write_records s f (sorted_list_of_set m) w) = fold (dns_append_line ?q) (sorted_list_of_set m) (dw_local w)"
    "dw_local_os (write_records s f (sorted_list_of_set m) w) = dw_local_os w"
    by (simp_all add: None write_records_def upd_files_def)
  have m: "set (sorted_list_of_set m) = m" using assms(1) by (simp add: fix_records_def)
  show ?thesis
  proof (cases "?q = p")
    case True
    with w m assms append_lines_records [of "sorted_list_of_set m" "dw_local w" p] show ?thesis
      by (auto simp: fix_records_def)
  next
    case False
    then have "text_at (dw_local (write_records s f (sorted_list_of_set m) w)) p = text_at (dw_local w) p"
      using append_lines_other [of p ?q] by (simp add: w text_at_def)
    with False assms(2) w(2) show ?thesis by simp
  qed
next
  case (Some h)
  then show ?thesis using assms(2) by (simp add: write_records_def upd_files_def)
qed

lemma write_missing_local:
  assumes "\<forall>(f, s, m, a) \<in> set cmp. fix_records m" and "text_ended (text_at (dw_local w) p)"
  shows "records (text_at (dw_local w) p) \<subseteq> records (text_at (dw_local (write_missing cmp w)) p) \<and>
    (\<forall>f m a. (f, None, m, a) \<in> set cmp \<and> zone_file_path None f w = p \<longrightarrow>
        m \<subseteq> records (text_at (dw_local (write_missing cmp w)) p)) \<and>
    dw_local_os (write_missing cmp w) = dw_local_os w"
  using assms
proof (induction cmp arbitrary: w)
  case (Cons x cmp)
  obtain f s m a where x: "x = (f, s, m, a)" by (cases x) auto
  define w1 where "w1 = (if m \<noteq> {} then write_records s f (sorted_list_of_set m) w else w)"
  have step: "write_missing (x # cmp) w = write_missing cmp w1" by (simp add: x w1_def)
  have m: "fix_records m" using Cons.prems(1) x by auto
  have w1: "records (text_at (dw_local w) p) \<union> (if s = None \<and> zone_file_path None f w = p then m else {})
      \<subseteq> records (text_at (dw_local w1) p)" "text_ended (text_at (dw_local w1) p)" "dw_local_os w1 = dw_local_os w"
    using write_records_local [OF m Cons.prems(2), of s f] Cons.prems(2) by (auto simp: w1_def)
  have paths: "zone_file_path None g w1 = zone_file_path None g w" for g
    by (simp add: zone_file_path_def os_of_def w1(3))
  have fix_cmp: "\<forall>(f, s, m, a) \<in> set cmp. fix_records m" using Cons.prems(1) by simp
  let ?after = "records (text_at (dw_local (write_missing cmp w1)) p)"
  have ih1: "records (text_at (dw_local w1) p) \<subseteq> ?after"
    and ih2: "\<And>g n b. (g, None, n, b) \<in> set cmp \<Longrightarrow> zone_file_path None g w = p \<Longrightarrow> n \<subseteq> ?after"
    and ih3: "dw_local_os (write_missing cmp w1) = dw_local_os w"
    using Cons.IH [OF fix_cmp w1(2)] by (simp_all only: paths w1(3))
  have "n \<subseteq> ?after" if "(g, None, n, b) \<in> set (x # cmp)" "zone_file_path None g w = p" for g n b
  proof (cases "(g, None, n, b) \<in> set cmp")
    case True
    then show ?thesis using ih2 that(2) by blast
  next
    case False
    with that x have "s = None" "m = n" "zone_file_path None f w = p" by auto
    with w1(1) ih1 show ?thesis by auto
  qed
  with ih1 ih3 w1(1) show ?case unfolding step by blast
qed simp

definition answers :: "dns_world \<Rightarrow> string \<Rightarrow> bool" where
  "answers w h = (case map_of (dw_cache w) h of Some b \<Rightarrow> b | None \<Rightarrow> dw_probe w h \<or> dw_probe_again w h)"

lemma reachable_answers: "fst (reachable h w) = answers w h \<and> answers (snd (reachable h w)) = answers w"
  by (auto simp: reachable_def answers_def fun_eq_iff update_conv' Let_def split: option.splits)

lemma masters_answers: "fst (masters rs w) = filter (answers w) rs \<and> answers (snd (masters rs w)) = answers w"
  by (induction rs arbitrary: w) (auto simp: Let_def split_beta reachable_answers)

lemma zone_records_masters: "zone_records s f (snd (masters rs w)) = zone_records s f w"
  using masters_keep [of rs w]
  by (cases s) (simp_all add: zone_records_def files_of_def zone_file_path_def os_of_def same_host_def)

lemma uniq_from_set: "set (uniq_from seen xs) = set xs - set seen"
  by (induction xs arbitrary: seen) auto

abbreviation the_masters :: "string list \<Rightarrow> dns_world \<Rightarrow> server list" where
  "the_masters remotes w \<equiv> None # map Some (filter (answers w) remotes)"

lemma compare_zone_eq:
  "compare_zone md mr remotes w =
     (concat (map (compare_file w (uniq_from [] (the_masters remotes w))) (zone_files md mr)), snd (masters remotes w))"
proof -
  have "compare_file (snd (masters remotes w)) = compare_file w"
    by (simp add: fun_eq_iff compare_file_def zone_records_masters)
  then show ?thesis using masters_answers [of remotes w] by (simp add: compare_zone_def Let_def split_beta)
qed

lemma compare_file_fix: "(g, s, m, a) \<in> set (compare_file w ss f) \<Longrightarrow> fix_records m"
  by (auto simp: compare_file_def zone_records_def Let_def intro!: fix_records_ops fix_records_records)

lemma compare_file_mem:
  "s \<in> set ss \<Longrightarrow> \<exists>a. (f, s, \<Union> ((\<lambda>s. zone_records s f w) ` set ss) - zone_records s f w, a) \<in> set (compare_file w ss f)"
  by (auto simp: compare_file_def Let_def)

lemma compare_zone_fix: "(f, s, m, a) \<in> set (fst (compare_zone md mr remotes w)) \<Longrightarrow> fix_records m"
  unfolding compare_zone_eq using compare_file_fix by fastforce

text \<open>C10 After a sync this host holds every record of a zone file that a master that answers held before, as SSH reads its file, and every
  one it held itself: nothing is removed and nothing is left out. The last line of this host's zone file is ended, as the code
  leaves it: to one that is not the first missing record is glued, and both are lost.\<close>

theorem sync_completes_this_host:
  assumes "sync_zone ask md mr remotes w = (ms, w')" and "f \<in> set (zone_files md mr)"
    and "s \<in> set (the_masters remotes w)"
    and "text_ended (text_at (dw_local w) (zone_file_path None f w))"
  shows "zone_records s f w \<subseteq> zone_records None f w'"
proof -
  define w1 where "w1 = snd (masters remotes w)"
  define cmp where "cmp = fst (compare_zone md mr remotes w1)"
  define w2 where "w2 = snd (masters remotes w1)"
  have v: "snd (validate_zones ask md mr remotes w) = w1"
    by (simp add: validate_zones_def w1_def Let_def split_beta)
  have c: "compare_zone md mr remotes w1 = (cmp, w2)" by (simp add: cmp_def w2_def compare_zone_eq)
  have w': "w' = write_missing cmp w2"
    using assms(1) v c by (simp add: sync_zone_def Let_def split_beta)
  have loc: "dw_local w2 = dw_local w" "dw_local_os w2 = dw_local_os w"
    using masters_keep [of remotes w1] masters_keep [of remotes w] by (simp_all add: w1_def w2_def same_host_def)
  have p: "zone_file_path None f w2 = zone_file_path None f w" by (simp add: zone_file_path_def os_of_def loc)
  let ?p = "zone_file_path None f w"
  have fixm: "\<forall>(f, s, m, a) \<in> set cmp. fix_records m" using compare_zone_fix cmp_def by blast
  have ended: "text_ended (text_at (dw_local w2) ?p)" using assms(4) by (simp add: loc)
  note wm = write_missing_local [OF fixm ended]
  have ans: "answers w1 = answers w" using masters_answers [of remotes w] by (simp add: w1_def)
  let ?held = "\<lambda>s. zone_records s f w" and ?ss = "uniq_from [] (the_masters remotes w)"
  have h1: "zone_records s f w1 = ?held s" for s by (simp add: w1_def zone_records_masters)
  have "\<exists>a. (f, None, \<Union> (?held ` set ?ss) - ?held None, a) \<in> set cmp"
  proof -
    have "None \<in> set ?ss" by (simp add: uniq_from_set)
    from compare_file_mem [OF this, of f w1] assms(2) show ?thesis
      unfolding cmp_def compare_zone_eq ans fst_conv by (simp only: h1) fastforce
  qed
  then have miss: "\<Union> (?held ` set ?ss) - ?held None \<subseteq> records (text_at (dw_local w') ?p)"
    using wm p w' by blast
  have own: "?held None \<subseteq> records (text_at (dw_local w') ?p)"
    using wm by (simp add: w' zone_records_def files_of_def loc)
  have "zone_records None f w' = records (text_at (dw_local w') ?p)"
    using wm by (simp add: zone_records_def files_of_def zone_file_path_def os_of_def w' loc)
  with miss own assms(3) show ?thesis by (auto simp: uniq_from_set)
qed

lemma difference_messages_none: "difference_messages cmp = [] \<longleftrightarrow> (\<forall>(f, s, m, a) \<in> set cmp. m = {} \<and> a = {})"
  by (induction cmp rule: difference_messages.induct) auto

lemma compare_file_messages:
  assumes "distinct ss"
  shows "difference_messages (compare_file w ss f) = [] \<longleftrightarrow>
     (\<forall>s \<in> set ss. \<forall>t \<in> set ss. zone_records s f w = zone_records t f w)"
proof -
  let ?h = "\<lambda>s. zone_records s f w"
  have e: "difference_messages (compare_file w ss f) = [] \<longleftrightarrow>
      (\<forall>s \<in> set ss. \<Union> (?h ` set ss) - ?h s = {} \<and>
         ?h s - (if length ss > 1 then \<Union> (?h ` (set ss - {s})) else ?h s) = {})"
    by (simp only: difference_messages_none compare_file_def Let_def set_map ball_simps prod.case)
  show ?thesis
  proof
    assume "difference_messages (compare_file w ss f) = []"
    then have "\<Union> (?h ` set ss) - ?h s = {}" if "s \<in> set ss" for s using e that by blast
    then show "\<forall>s \<in> set ss. \<forall>t \<in> set ss. ?h s = ?h t" by blast
  next
    assume same: "\<forall>s \<in> set ss. \<forall>t \<in> set ss. ?h s = ?h t"
    have "?h s - (if length ss > 1 then \<Union> (?h ` (set ss - {s})) else ?h s) = {}" if "s \<in> set ss" for s
    proof (cases "set ss - {s} = {}")
      case False
      then obtain t where t: "t \<in> set ss - {s}" by blast
      then have "?h s = ?h t" using same that by blast
      with t have "?h s \<subseteq> \<Union> (?h ` (set ss - {s}))" by blast
      then show ?thesis by (simp only: Diff_eq_empty_iff split: if_split) simp
    next
      case True
      then have "set ss = {s}" using that by auto
      then have "length ss = 1" using distinct_card [OF assms] by simp
      then show ?thesis by simp
    qed
    with same show "difference_messages (compare_file w ss f) = []" unfolding e by blast
  qed
qed

lemma uniq_from_distinct: "distinct (uniq_from seen xs)"
  by (induction xs arbitrary: seen) (auto simp: uniq_from_set)

lemma difference_messages_append: "difference_messages (xs @ ys) = difference_messages xs @ difference_messages ys"
  by (induction xs rule: difference_messages.induct) auto

lemma difference_messages_concat: "difference_messages (concat xs) = concat (map difference_messages xs)"
  by (induction xs) (auto simp: difference_messages_append)

text \<open>The comparison reports no difference exactly when every master that answers holds the same
  records of every zone.\<close>

theorem no_difference_iff_same_records:
  "(difference_messages (fst (compare_zone md mr remotes w)) = []) =
   (\<forall>f \<in> set (zone_files md mr). \<forall>s \<in> set (the_masters remotes w). \<forall>t \<in> set (the_masters remotes w).
      zone_records s f w = zone_records t f w)"
proof -
  have "set (uniq_from [] (the_masters remotes w)) = set (the_masters remotes w)" by (simp add: uniq_from_set)
  then show ?thesis
    unfolding compare_zone_eq fst_conv difference_messages_concat
    by (simp only: concat_eq_Nil_conv set_map image_image ball_simps compare_file_messages [OF uniq_from_distinct])
qed

section \<open>Where the remote masters differ\<close>

definition one_file :: "string \<Rightarrow> string \<Rightarrow> files" where
  "one_file p t = (\<lambda>q. if q = p then Some t else None)"

text \<open>
  \<open>grep -qF\<close> looks for the record anywhere in a line: the record of node1 is not written to a
  remote master that has the one of xnode1, whereas this host compares whole lines.
\<close>

lemma remote_add_skips_substring:
  "remote_dns_add ''z'' (a_record ''node1'' ''10.0.0.1'') (one_file ''z'' (a_record ''xnode1'' ''10.0.0.1'' @ NL)) ''z''
     = Some (a_record ''xnode1'' ''10.0.0.1'' @ NL) \<and>
   a_record ''node1'' ''10.0.0.1'' \<in> set (file_lines ''z''
     (dns_add_line ''z'' (a_record ''node1'' ''10.0.0.1'') (one_file ''z'' (a_record ''xnode1'' ''10.0.0.1'' @ NL))))"
  by code_simp

text \<open>
  The expression that removes a machine from a remote master is not anchored: removing node1 at
  10.0.0.1 also removes node1's record at 10.0.0.14 and xnode1's.
\<close>

lemma remote_delete_removes_others:
  "del_remote ''node1'' ''10.0.0.1'' ''lab'' [] ''m''
     \<lparr>dw_local = (\<lambda>_. None),
      dw_hosts = (\<lambda>_. one_file ''/var/lib/named/lab.lan''
        (a_record ''node1'' ''10.0.0.14'' @ NL @ a_record ''xnode1'' ''10.0.0.1'' @ NL)),
      dw_local_os = ([], []), dw_os = (\<lambda>_. (''sles'', [])), dw_ssh = (\<lambda>_. True), dw_probe = (\<lambda>_. True), dw_probe_again = (\<lambda>_. True),
      dw_cache = [], dw_hosts_file = None\<rparr>
   = w \<Longrightarrow> dw_hosts w ''m'' ''/var/lib/named/lab.lan'' = Some []"
proof -
  let ?t = "a_record ''node1'' ''10.0.0.14'' @ NL @ a_record ''xnode1'' ''10.0.0.1'' @ NL"
  have "remote_remove_service_lines ''/var/lib/named/lab.lan'' ''10.0.0.1''
      (remote_sed (a_record ''node1'' ''10.0.0.1'') ''/var/lib/named/lab.lan'' (one_file ''/var/lib/named/lab.lan'' ?t))
      ''/var/lib/named/lab.lan'' = Some []"
    by code_simp
  moreover have "zone_path (forward_file ''lab'') ''sles'' [] = ''/var/lib/named/lab.lan''" by code_simp
  moreover assume "del_remote ''node1'' ''10.0.0.1'' ''lab'' [] ''m''
     \<lparr>dw_local = (\<lambda>_. None), dw_hosts = (\<lambda>_. one_file ''/var/lib/named/lab.lan'' ?t),
      dw_local_os = ([], []), dw_os = (\<lambda>_. (''sles'', [])), dw_ssh = (\<lambda>_. True), dw_probe = (\<lambda>_. True), dw_probe_again = (\<lambda>_. True),
      dw_cache = [], dw_hosts_file = None\<rparr> = w"
  ultimately show ?thesis
    by (auto simp: del_remote_def upd_files_def zone_file_path_def os_of_def Let_def)
qed

text \<open>
  A record is appended to the file as it is: where the last line has no newline, the record is
  glued to it and neither is a record any more.
\<close>

lemma append_glues_to_unended_line:
  "file_lines ''z'' (dns_append_line ''z'' (a_record ''n2'' ''10.0.0.2'') (one_file ''z'' (a_record ''n1'' ''10.0.0.1'')))
     = [a_record ''n1'' ''10.0.0.1'' @ a_record ''n2'' ''10.0.0.2'']"
  by code_simp

text \<open>A wildcard record makes the pruning expression one Python refuses.\<close>

lemma prune_wildcard_fails:
  "(case dns_remove_record ''z'' ''*.apps IN A 10.0.0.1'' (one_file ''z'' (''*.apps IN A 10.0.0.1'' @ NL)) of
      Inl e \<Rightarrow> e = RegexError (py_pattern ''*.apps IN A 10.0.0.1'') | Inr _ \<Rightarrow> False)"
  by code_simp

lemma prune_plain_works:
  "(case dns_remove_record ''z'' ''n1 IN A 10.0.0.1'' (one_file ''z'' (''n1   IN  A 10.0.0.1'' @ NL @ ''n10 IN A 10.0.0.1'' @ NL)) of
      Inl _ \<Rightarrow> False | Inr f \<Rightarrow> file_lines ''z'' f = [''n10 IN A 10.0.0.1''])"
  by code_simp

section \<open>Witnesses\<close>

definition sample_dns :: dns_world where
  "sample_dns =
     \<lparr>dw_local = one_file ''/var/lib/named/lab.lan'' (unlines (forward_header ''lab'' 86400)),
      dw_hosts = (\<lambda>_. one_file ''/var/lib/named/lab.lan'' (''n9 IN A 10.0.0.9'' @ NL)),
      dw_local_os = (''sles'', ''suse''), dw_os = (\<lambda>_. (''sles'', ''suse'')), dw_ssh = (\<lambda>_. True), dw_probe = (\<lambda>_. True),
      dw_probe_again = (\<lambda>_. True), dw_cache = [], dw_hosts_file = Some ''/etc/hosts''\<rparr>"

lemma sample_dns_paths:
  "zone_file_path None (forward_file ''lab'') sample_dns = ''/var/lib/named/lab.lan''"
  "zone_file_path None (reverse_file ''0.0.10'') sample_dns = ''/var/lib/named/0.0.10.db''"
  by code_simp+

lemma sample_dns_hosts:
  "dw_hosts_file sample_dns \<noteq> Some (zone_file_path None (forward_file ''lab'') sample_dns)"
  "dw_hosts_file sample_dns \<noteq> Some (zone_file_path None (reverse_file ''0.0.10'') sample_dns)"
  "''0.0.10'' \<noteq> ([] :: string)" "''10.0.0.1'' \<noteq> ([] :: string)" "''ns IN A 127.0.0.1'' \<noteq> ([] :: string)"
  by code_simp+

lemma add_to_dns_total: "\<exists>w'. add_to_dns ask vm ip md mr remotes False w = Inr w'"
  by (simp add: add_to_dns_def add_local_def Let_def split: prod.splits)

text \<open>The same host with both its zones declared.\<close>

definition declared_dns :: dns_world where
  "declared_dns = sample_dns\<lparr>dw_local := (dw_local sample_dns)(''/etc/named.conf'' :=
     Some (stanza ''lab'' ''lab.lan'' @ NL @ stanza (reverse_zone ''0.0.10'') ''0.0.10.db'' @ NL))\<rparr>"


theorem deregistered_witness:
  "''ns IN A 127.0.0.1'' \<in> set (file_lines ''/var/lib/named/lab.lan''
     (dw_local (del_from_dns ''n1.lab'' ''10.0.0.1'' ''lab'' ''0.0.10'' [] sample_dns)))"
proof -
  have m: "''ns IN A 127.0.0.1'' \<in> set (file_lines ''/var/lib/named/lab.lan'' (dw_local sample_dns))" by code_simp
  have n: "''ns IN A 127.0.0.1'' \<noteq> a_record ''n1.lab'' ''10.0.0.1''"
    "\<not> ends_with ''ns IN A 127.0.0.1'' (service_suffix ''10.0.0.1'')" by code_simp+
  from deregistered [OF refl sample_dns_hosts(3,4,1,2,5), unfolded sample_dns_paths] m n show ?thesis by blast
qed


theorem sync_completes_this_host_witness:
  "''n9 IN A 10.0.0.9'' \<in> zone_records None ''lab.lan'' (snd (sync_zone (\<lambda>s z p. ((0, ''soa''), (0, []))) ''lab'' [] [''m1''] sample_dns))"
proof -
  have a: "''lab.lan'' \<in> set (zone_files ''lab'' [])" by code_simp
  have b: "Some ''m1'' \<in> set (the_masters [''m1''] sample_dns)" by code_simp
  have c: "text_ended (text_at (dw_local sample_dns) (zone_file_path None ''lab.lan'' sample_dns))" by code_simp
  have "''n9 IN A 10.0.0.9'' \<in> zone_records (Some ''m1'') ''lab.lan'' sample_dns" by code_simp
  with sync_completes_this_host [OF prod.collapse [symmetric] a b c] show ?thesis by blast
qed

theorem no_difference_iff_same_records_witness:
  "difference_messages (fst (compare_zone ''lab'' [] [''m1''] sample_dns)) \<noteq> []"
proof -
  have a: "''n9 IN A 10.0.0.9'' \<in> zone_records (Some ''m1'') ''lab.lan'' sample_dns" by code_simp
  have b: "''n9 IN A 10.0.0.9'' \<notin> zone_records None ''lab.lan'' sample_dns" by code_simp
  have c: "''lab.lan'' \<in> set (zone_files ''lab'' [])" by code_simp
  have d: "Some ''m1'' \<in> set (the_masters [''m1''] sample_dns)" by code_simp
  have e: "None \<in> set (the_masters [''m1''] sample_dns)" by code_simp
  from a b c d e show ?thesis
    unfolding no_difference_iff_same_records by blast
qed

end
