(* ===== verification/Ip_Alloc.thy ===== *)
theory Ip_Alloc
  imports Py_Regex "HOL-Library.Multiset"
begin

text \<open>
  \<open>libs/ipalloc.py\<close>: the IP address of a node whose lab definition gives none.

  Addresses are IPv4, as integers below \<open>2 ^ 32\<close>; the part of Python's \<open>ipaddress\<close> the code
  uses is \<open>ip_network\<close> (with a prefix length, a netmask or a hostmask), \<open>hosts\<close> and membership.
  The text of a zone file (None when it cannot be read), the resolver, the output of
  \<open>ip -4 -o addr show\<close>, the ping and the hash of a name are parameters. The groups of the
  address expression do not capture.
\<close>

section \<open>Addresses and networks (ipaddress)\<close>

definition octet :: "string \<Rightarrow> int option" where
  "octet s =
     (if s \<noteq> [] \<and> length s \<le> 3 \<and> list_all is_digit s \<and> (length s = 1 \<or> hd s \<noteq> CHR ''0'')
      then (case digits_val 0 s of Some n \<Rightarrow> if n \<le> 255 then Some (int n) else None | None \<Rightarrow> None)
      else None)"

definition ip_address :: "string \<Rightarrow> int option" where
  "ip_address s =
     (case map octet (split_ch CHR ''.'' s) of
        [Some a, Some b, Some c, Some d] \<Rightarrow> Some (((a * 256 + b) * 256 + c) * 256 + d)
      | _ \<Rightarrow> None)"

definition ip_str :: "int \<Rightarrow> string" where
  "ip_str n = join ''.'' (map (\<lambda>i. nat_str (nat i)) [n div 16777216, n div 65536 mod 256, n div 256 mod 256, n mod 256])"

type_synonym network = "int \<times> nat"

definition netmask :: "nat \<Rightarrow> int" where
  "netmask p = 2 ^ 32 - 2 ^ (32 - p)"

definition prefix_of_mask :: "int \<Rightarrow> nat option" where
  "prefix_of_mask m = find (\<lambda>p. m = netmask p) [0..<33]"

definition mask_prefix :: "string \<Rightarrow> nat option" where
  "mask_prefix s =
     (if s \<noteq> [] \<and> list_all is_digit s then
        (case digits_val 0 s of Some n \<Rightarrow> if n \<le> 32 then Some n else None | None \<Rightarrow> None)
      else
        (case ip_address s of None \<Rightarrow> None
         | Some m \<Rightarrow> (case prefix_of_mask m of Some p \<Rightarrow> Some p | None \<Rightarrow> prefix_of_mask (2 ^ 32 - 1 - m))))"

definition ip_network :: "string \<Rightarrow> string \<Rightarrow> network option" where
  "ip_network address mask_text =
     (case (ip_address address, mask_prefix mask_text) of
        (Some a, Some p) \<Rightarrow> Some (a - a mod 2 ^ (32 - p), p)
      | _ \<Rightarrow> None)"

definition net_size :: "network \<Rightarrow> int" where
  "net_size n = 2 ^ (32 - snd n)"

definition hosts :: "network \<Rightarrow> int list" where
  "hosts n = (if snd n \<ge> 31 then [fst n..fst n + net_size n - 1] else [fst n + 1..fst n + net_size n - 2])"

definition in_network :: "int \<Rightarrow> network \<Rightarrow> bool" where
  "in_network a n = (fst n \<le> a \<and> a < fst n + net_size n)"

definition network_str :: "network \<Rightarrow> string" where
  "network_str n = ip_str (fst n) @ ''/'' @ nat_str (snd n)"

section \<open>What is taken\<close>

text \<open>\<open>str(v or "")\<close>\<close>

definition text_of :: "pval \<Rightarrow> string" where
  "text_of v = py_str (py_or v (PStr []))"

definition lab_network :: "dict \<Rightarrow> network option" where
  "lab_network common =
     (let gateway = str_strip (text_of (get common ''mygw'')); mask_text = str_strip (text_of (get common ''mymask'')) in
      if gateway = [] \<or> mask_text = [] then None else ip_network gateway mask_text)"

text \<open>\<open>\b(?:\d{1,3}\.){3}\d{1,3}\b\<close> and \<open>\bIN\s+A\b\<close>\<close>

definition digits13 :: rx where
  "digits13 = count_rx 1 (Some 3) (RSet False digit_set)"

definition IPV4 :: rx where
  "IPV4 = RSeq RWordB (RSeq (rx_repeat 3 (RSeq digits13 (lit CHR ''.''))) (RSeq digits13 RWordB))"

definition in_a_rx :: rx where
  "in_a_rx = RSeq RWordB (RSeq (rx_lits ''IN'') (RSeq (rx_plus (RSet False space_set)) (RSeq (lit CHR ''A'') RWordB)))"

definition ips_in_text :: "string \<Rightarrow> string set" where
  "ips_in_text text = set (rx_findall IPV4 text)"

definition common_ips :: "dict \<Rightarrow> string list" where
  "common_ips common =
     concat (map (\<lambda>key. words (map (\<lambda>c. if c = CHR '','' then CHR '' '' else c) (text_of (get common key))))
                 [''mygw'', ''mydns''])"

definition node_ip :: "pval \<Rightarrow> string list res" where
  "node_ip node_cfg =
     res_bind (or_dict node_cfg) (\<lambda>c.
     (let myip = str_strip (text_of (get c ''myip'')) in Inr (if myip \<noteq> [] then [myip] else [])))"

definition definition_ips :: "dict \<Rightarrow> string list res" where
  "definition_ips defn =
     res_bind (or_dict (get_dflt defn ''common'' (PDict []))) (\<lambda>common.
     res_bind (or_dict (get defn ''nodes'')) (\<lambda>nodes.
     res_bind (res_map (\<lambda>(_, c). node_ip c) nodes) (\<lambda>ips.
     Inr (filter (\<lambda>ip. rx_fullmatch IPV4 ip \<noteq> None) (common_ips common @ concat ips)))))"

definition dns_ips :: "string \<Rightarrow> (string \<Rightarrow> string option) \<Rightarrow> string list" where
  "dns_ips mydomain zone =
     (if mydomain = [] then []
      else case zone (mydomain @ ''.lan'') of None \<Rightarrow> []
           | Some text \<Rightarrow> concat (map (\<lambda>line. if rx_search in_a_rx line \<noteq> None then rx_findall IPV4 line else [])
                                     (splitlines text)))"

fun find_address :: "string \<Rightarrow> string list \<Rightarrow> string option" where
  "find_address short [] = None"
| "find_address short (line # rest) =
     (let fields = words line in
      if length fields \<ge> 4 \<and> hd fields = short \<and> last (butlast fields) = ''A'' then Some (last fields)
      else find_address short rest)"

definition dns_address :: "string \<Rightarrow> string \<Rightarrow> (string \<Rightarrow> string option) \<Rightarrow> (string \<Rightarrow> string option) \<Rightarrow> string" where
  "dns_address vm_name mydomain zone resolver =
     (let short = hd (split_ch CHR ''.'' vm_name);
          resolved = (case resolver vm_name of None \<Rightarrow> [] | Some a \<Rightarrow> a) in
      if short = [] \<or> mydomain = [] then resolved
      else case zone (mydomain @ ''.lan'') of None \<Rightarrow> resolved
           | Some text \<Rightarrow> (case find_address short (splitlines text) of Some a \<Rightarrow> a | None \<Rightarrow> resolved))"

text \<open>\<open>inet (\d{1,3}(?:\.\d{1,3}){3}/\d{1,2})\<close>\<close>

definition inet_rx :: rx where
  "inet_rx = RSeq (rx_lits ''inet '') (RSeq digits13 (RSeq (rx_repeat 3 (RSeq (lit CHR ''.'') digits13))
     (RSeq (lit CHR ''/'') (count_rx 1 (Some 2) (RSet False digit_set)))))"

definition local_ips :: "string \<Rightarrow> string list" where
  "local_ips out = map (\<lambda>m. takeWhile (\<lambda>c. c \<noteq> CHR ''/'') (drop (length ''inet '') m)) (rx_findall inet_rx out)"

section \<open>The allocation\<close>

definition candidates :: "(string \<Rightarrow> nat) \<Rightarrow> string \<Rightarrow> network \<Rightarrow> string list" where
  "candidates digest vm_name network =
     (let hs = hosts network in
      if hs = [] then []
      else (let start = digest (vm_name @ ''@'' @ network_str network) mod length hs in
            map ip_str (drop start hs @ take start hs)))"

fun first_free :: "string list \<Rightarrow> bool \<Rightarrow> (string \<Rightarrow> bool) \<Rightarrow> string list \<Rightarrow> string option" where
  "first_free taken probe ping [] = None"
| "first_free taken probe ping (c # cs) =
     (if c \<in> set taken then first_free taken probe ping cs
      else if probe \<and> ping c then first_free taken probe ping cs
      else Some c)"

text \<open>What the allocator learns from outside: zone files, resolver, own addresses, ping, hash.\<close>

record ip_world =
  w_zone :: "string \<Rightarrow> string option"
  w_resolver :: "string \<Rightarrow> string option"
  w_addr_out :: string
  w_ping :: "string \<Rightarrow> bool"
  w_digest :: "string \<Rightarrow> nat"

definition own_myip :: "string \<Rightarrow> dict \<Rightarrow> string res" where
  "own_myip vm_name defn =
     res_bind (or_dict (get defn ''nodes'')) (\<lambda>nodes.
     case get_dflt nodes vm_name (PDict []) of
       PDict c \<Rightarrow> Inr (text_of (get c ''myip''))
     | _ \<Rightarrow> Inl (AttributeError ''get''))"

definition taken_ips :: "ip_world \<Rightarrow> string \<Rightarrow> dict \<Rightarrow> string list \<Rightarrow> string \<Rightarrow> string list res" where
  "taken_ips w vm_name defn used mydomain =
     res_bind (definition_ips defn) (\<lambda>dips. res_bind (own_myip vm_name defn) (\<lambda>own.
     Inr (filter (\<lambda>ip. ip \<noteq> own) (used @ dips @ dns_ips mydomain (w_zone w) @ local_ips (w_addr_out w)))))"

definition allocate ::
  "ip_world \<Rightarrow> string \<Rightarrow> dict \<Rightarrow> string list \<Rightarrow> string \<Rightarrow> bool \<Rightarrow> string option res" where
  "allocate w vm_name defn used mydomain0 probe =
     res_bind (or_dict (get_dflt defn ''common'' (PDict []))) (\<lambda>common.
     case lab_network common of
       None \<Rightarrow> Inr None
     | Some network \<Rightarrow>
         (let mydomain = (if mydomain0 \<noteq> [] then mydomain0 else text_of (get common ''mydomain''));
              registered = dns_address vm_name mydomain (w_zone w) (w_resolver w) in
          case (if registered = [] then Inr False
                else case ip_address registered of None \<Rightarrow> Inl (ValueError registered)
                     | Some a \<Rightarrow> Inr (in_network a network)) of
            Inl e \<Rightarrow> Inl e
          | Inr True \<Rightarrow> Inr (Some registered)
          | Inr False \<Rightarrow>
              res_bind (taken_ips w vm_name defn used mydomain) (\<lambda>taken.
              Inr (first_free taken probe (w_ping w) (candidates (w_digest w) vm_name network)))))"

section \<open>Lemmas\<close>

lemma first_free_Some:
  "first_free taken probe ping cs = Some c \<Longrightarrow> c \<in> set cs \<and> c \<notin> set taken \<and> (probe \<longrightarrow> \<not> ping c)"
  by (induction cs) (auto split: if_splits)

lemma first_free_None:
  "first_free taken probe ping cs = None \<Longrightarrow> c \<in> set cs \<Longrightarrow> c \<in> set taken \<or> probe \<and> ping c"
  by (induction cs) (auto split: if_splits)

lemma mset_candidates: "mset (candidates digest vm n) = mset (map ip_str (hosts n))"
proof (cases "hosts n = []")
  case False
  define st where "st = digest (vm @ ''@'' @ network_str n) mod length (hosts n)"
  have "mset (drop st (hosts n) @ take st (hosts n)) = mset (hosts n)"
    by (simp only: mset_append add.commute [of "mset (drop _ _)"]) (metis append_take_drop_id mset_append)
  then have "mset (map ip_str (drop st (hosts n) @ take st (hosts n))) = mset (map ip_str (hosts n))"
    by (simp only: mset_map)
  with False show ?thesis by (simp only: candidates_def Let_def st_def if_False)
qed (simp add: candidates_def)

lemma set_candidates: "set (candidates digest vm n) = ip_str ` set (hosts n)"
  by (metis mset_candidates set_map set_mset_mset)

lemma in_hosts: "a \<in> set (hosts n) \<Longrightarrow> in_network a n \<and> (snd n \<le> 30 \<longrightarrow> fst n < a \<and> a < fst n + net_size n - 1)"
  by (auto simp: hosts_def in_network_def split: if_splits)

definition node_registered :: "ip_world \<Rightarrow> string \<Rightarrow> dict \<Rightarrow> string \<Rightarrow> string" where
  "node_registered w vm_name common mydomain0 =
     dns_address vm_name (if mydomain0 \<noteq> [] then mydomain0 else text_of (get common ''mydomain'')) (w_zone w) (w_resolver w)"

definition lab_domain :: "dict \<Rightarrow> string \<Rightarrow> string" where
  "lab_domain common mydomain0 = (if mydomain0 \<noteq> [] then mydomain0 else text_of (get common ''mydomain''))"

lemma or_dict_dflt: "get defn k = PDict c \<Longrightarrow> or_dict (get_dflt defn k (PDict [])) = Inr c"
  by (auto simp: get_def get_dflt_def or_dict_def split: option.splits)

text \<open>The node's own record, where it is in the lab's network.\<close>

definition own_record :: "ip_world \<Rightarrow> string \<Rightarrow> dict \<Rightarrow> network \<Rightarrow> string \<Rightarrow> bool" where
  "own_record w vm common n md \<longleftrightarrow>
     (case ip_address (node_registered w vm common md) of None \<Rightarrow> False | Some a \<Rightarrow> in_network a n)"

lemma ip_address_Nil [simp]: "ip_address [] = None"
  by code_simp

lemma allocate_cases:
  assumes "get defn ''common'' = PDict common" and "lab_network common = Some n"
    and "allocate w vm defn used md probe = Inr r"
  shows "if own_record w vm common n md then r = Some (node_registered w vm common md)
    else \<exists>taken. taken_ips w vm defn used (lab_domain common md) = Inr taken \<and>
       r = first_free taken probe (w_ping w) (candidates (w_digest w) vm n)"
proof -
  let ?reg = "node_registered w vm common md"
  have "allocate w vm defn used md probe =
      (case (if ?reg = [] then Inr False else case ip_address ?reg of None \<Rightarrow> Inl (ValueError ?reg)
               | Some a \<Rightarrow> Inr (in_network a n)) of
         Inl e \<Rightarrow> Inl e
       | Inr True \<Rightarrow> Inr (Some ?reg)
       | Inr False \<Rightarrow> res_bind (taken_ips w vm defn used (lab_domain common md)) (\<lambda>taken.
           Inr (first_free taken probe (w_ping w) (candidates (w_digest w) vm n))))"
    by (simp only: allocate_def or_dict_dflt [OF assms(1)] res_bind_Inr assms(2) option.case Let_def
        node_registered_def lab_domain_def)
  with assms(3) show ?thesis
    by (cases "?reg = []"; cases "ip_address ?reg") (auto simp: own_record_def res_simps split: bool.splits if_splits)
qed

lemma taken_definition_ip:
  assumes "taken_ips w vm defn used md = Inr taken" and "own_myip vm defn = Inr own" and "ip \<noteq> own"
    and "definition_ips defn = Inr dips" and "ip \<in> set dips \<or> ip \<in> set used"
  shows "ip \<in> set taken"
  using assms by (auto simp: taken_ips_def)

lemma definition_ips_node:
  assumes "definition_ips defn = Inr dips" and "get defn ''nodes'' = PDict nodes" and "(vm, PDict c) \<in> set nodes"
    and "str_strip (text_of (get c ''myip'')) = ip" and "ip \<noteq> []" and "rx_fullmatch IPV4 ip \<noteq> None"
  shows "ip \<in> set dips"
proof -
  from assms(1,2) obtain common ips where i: "res_map (\<lambda>(_, c). node_ip c) nodes = Inr ips"
    "dips = filter (\<lambda>ip. rx_fullmatch IPV4 ip \<noteq> None) (common_ips common @ concat ips)"
    by (auto simp: definition_ips_def or_dict_def res_simps split: if_splits)
  have "res_map f xs = Inr ys \<Longrightarrow> x \<in> set xs \<Longrightarrow> \<exists>y. f x = Inr y \<and> y \<in> set ys" for f :: "string \<times> pval \<Rightarrow> string list res" and xs ys x
    by (induction xs arbitrary: ys) (auto simp: res_simps)
  from this [OF i(1) assms(3)] obtain y where y: "node_ip (PDict c) = Inr y" "y \<in> set ips" by auto
  have "c \<noteq> []" using assms(4,5) by (auto simp: get_def text_of_def py_or_def py_str_def str_strip_def)
  with y(1) assms(4,5) have "y = [ip]" by (simp add: node_ip_def or_dict_def Let_def)
  with y(2) i(2) assms(6) show ?thesis by fastforce
qed

section \<open>Properties\<close>


text \<open>C35 An IPv4 address that a lab's definition gives one node is allocated to another in two cases alone: the lab DNS or the resolver already holds it
  for the other, or the definition gives it to the other too. So of two nodes for which neither is so, once the address of one is written into the
  definition the other is never given it.\<close>

theorem allocated_once:
  assumes "get defn ''common'' = PDict common" and "lab_network common = Some n"
    and "get defn ''nodes'' = PDict nodes" and "(vm1, PDict c) \<in> set nodes"
    and "str_strip (text_of (get c ''myip'')) = ip" and "ip \<noteq> []" and "rx_fullmatch IPV4 ip \<noteq> None"
    and "allocate w vm2 defn used md probe = Inr (Some ip)"
  shows "own_record w vm2 common n md \<and> node_registered w vm2 common md = ip \<or> own_myip vm2 defn = Inr ip"
proof (cases "own_record w vm2 common n md")
  case True
  then show ?thesis using allocate_cases [OF assms(1,2,8)] by simp
next
  case False
  obtain taken where t: "taken_ips w vm2 defn used (lab_domain common md) = Inr taken"
    and r: "Some ip = first_free taken probe (w_ping w) (candidates (w_digest w) vm2 n)"
    using allocate_cases [OF assms(1,2,8)] False by auto
  from t obtain dips own where d: "definition_ips defn = Inr dips" "own_myip vm2 defn = Inr own" by (auto simp: taken_ips_def res_simps)
  have i: "ip \<in> set dips \<or> ip \<in> set used" using definition_ips_node [OF d(1) assms(3-7)] by simp
  have free: "ip \<notin> set taken" using first_free_Some [OF r [symmetric]] by simp
  have "own = ip"
  proof (rule ccontr)
    assume "own \<noteq> ip"
    then have "ip \<in> set taken" by (intro taken_definition_ip [OF t d(2) _ d(1) i]) simp
    with free show False by contradiction
  qed
  then show ?thesis using d(2) by simp
qed

definition sample_world :: ip_world where
  "sample_world = \<lparr>w_zone = (\<lambda>_. None), w_resolver = (\<lambda>_. None), w_addr_out = ''1: lo inet 127.0.0.1/8'',
     w_ping = (\<lambda>ip. ip = ''10.0.0.3''), w_digest = (\<lambda>_. 0)\<rparr>"

definition sample_lab_net :: dict where
  "sample_lab_net = [(''mygw'', PStr ''10.0.0.1''), (''mymask'', PStr ''255.255.255.248'')]"

definition sample_nodes_lab :: dict where
  "sample_nodes_lab = [(''common'', PDict sample_lab_net),
     (''nodes'', PDict [(''n1'', PDict [(''myip'', PStr ''10.0.0.2'')]), (''n2'', PDict [])])]"

lemma sample_facts:
  "get sample_nodes_lab ''common'' = PDict sample_lab_net"
  "lab_network sample_lab_net = Some (167772160, 29)"
  "ip_address (node_registered sample_world ''n2'' sample_lab_net []) = None"
  "own_myip ''n2'' sample_nodes_lab = Inr []"
  "rx_fullmatch IPV4 ''10.0.0.2'' \<noteq> None"
  by code_simp+


text \<open>The resolver still holds the address of n1 for n2: it is given to both.\<close>

definition stale_world :: ip_world where
  "stale_world = sample_world\<lparr>w_resolver := (\<lambda>vm. if vm = ''n2'' then Some ''10.0.0.2'' else None)\<rparr>"

lemma own_record_unchecked:
  "allocate stale_world ''n2'' sample_nodes_lab [''10.0.0.2''] [] True = Inr (Some ''10.0.0.2'')"
  by code_simp

theorem allocated_once_witness:
  "node_registered stale_world ''n2'' sample_lab_net [] = ''10.0.0.2'' \<and> own_myip ''n2'' sample_nodes_lab = Inr []"
proof -
  have c: "get sample_nodes_lab ''nodes'' = PDict [(''n1'', PDict [(''myip'', PStr ''10.0.0.2'')]), (''n2'', PDict [])]"
    "(''n1'', PDict [(''myip'', PStr ''10.0.0.2'')]) \<in> set [(''n1'', PDict [(''myip'', PStr ''10.0.0.2'')]), (''n2'', PDict [])]"
    by (simp_all add: sample_nodes_lab_def get_def)
  have i: "str_strip (text_of (get [(''myip'', PStr ''10.0.0.2'')] ''myip'')) = ''10.0.0.2''" by code_simp
  have a: "allocate stale_world ''n2'' sample_nodes_lab [] [] False = Inr (Some ''10.0.0.2'')" by code_simp
  have "own_record stale_world ''n2'' sample_lab_net (167772160, 29) [] \<and> node_registered stale_world ''n2'' sample_lab_net [] = ''10.0.0.2'' \<or>
      own_myip ''n2'' sample_nodes_lab = Inr ''10.0.0.2''"
    by (rule allocated_once [OF sample_facts(1,2) c i _ sample_facts(5) a]) simp
  then show ?thesis using sample_facts(4) by simp
qed

text \<open>A node the definition names with no settings at all (a null entry) has no address
  allocated: the attribute lookup on it raises.\<close>

theorem allocate_null_node:
  "allocate sample_world ''n3'' [(''common'', PDict sample_lab_net), (''nodes'', PDict [(''n3'', PNone)])] [] [] False
     = Inl (AttributeError ''get'')"
  by code_simp

end
