(* ===== verification/Py_Action.thy ===== *)
theory Py_Action
  imports Py_Base
begin

text \<open>
  Code that changes a state and may raise: an action takes the state to a result and the state
  it leaves, also when it raised. \<open>act_bind\<close> is sequencing, \<open>act_for\<close> a \<open>for\<close> loop whose body
  may raise. \<open>act_simps\<close> runs an action one call at a time.
\<close>

named_theorems act_simps

type_synonym ('s, 'a) act = "'s \<Rightarrow> 'a res \<times> 's"

definition act_ret :: "'a \<Rightarrow> ('s, 'a) act" where
  "act_ret x = (\<lambda>s. (Inr x, s))"

definition act_raise :: "exc \<Rightarrow> ('s, 'a) act" where
  "act_raise e = (\<lambda>s. (Inl e, s))"

definition act_bind :: "('s, 'a) act \<Rightarrow> ('a \<Rightarrow> ('s, 'b) act) \<Rightarrow> ('s, 'b) act" where
  "act_bind m f = (\<lambda>s. case m s of (Inl e, s') \<Rightarrow> (Inl e, s') | (Inr x, s') \<Rightarrow> f x s')"

definition act_then :: "('s, 'a) act \<Rightarrow> ('s, 'b) act \<Rightarrow> ('s, 'b) act" where
  "act_then m n = act_bind m (\<lambda>_. n)"

definition act_get :: "('s \<Rightarrow> 'a) \<Rightarrow> ('s, 'a) act" where
  "act_get f = (\<lambda>s. (Inr (f s), s))"

definition act_upd :: "('s \<Rightarrow> 's) \<Rightarrow> ('s, unit) act" where
  "act_upd g = (\<lambda>s. (Inr (), g s))"

definition act_res :: "'a res \<Rightarrow> ('s, 'a) act" where
  "act_res r = (\<lambda>s. (r, s))"

fun act_for :: "'a list \<Rightarrow> ('a \<Rightarrow> ('s, unit) act) \<Rightarrow> ('s, unit) act" where
  "act_for [] f = act_ret ()"
| "act_for (x # xs) f = act_then (f x) (act_for xs f)"

fun act_map :: "('a \<Rightarrow> ('s, 'b) act) \<Rightarrow> 'a list \<Rightarrow> ('s, 'b list) act" where
  "act_map f [] = act_ret []"
| "act_map f (x # xs) = act_bind (f x) (\<lambda>y. act_bind (act_map f xs) (\<lambda>ys. act_ret (y # ys)))"

lemma act_ret_app [act_simps]: "act_ret x s = (Inr x, s)" by (simp add: act_ret_def)

lemma act_raise_app [act_simps]: "act_raise e s = (Inl e, s)" by (simp add: act_raise_def)

lemma act_get_app [act_simps]: "act_get f s = (Inr (f s), s)" by (simp add: act_get_def)

lemma act_upd_app [act_simps]: "act_upd g s = (Inr (), g s)" by (simp add: act_upd_def)

lemma act_res_app [act_simps]: "act_res r s = (r, s)" by (simp add: act_res_def)

lemma act_bind_app [act_simps]:
  "act_bind m f s = (case m s of (Inl e, s') \<Rightarrow> (Inl e, s') | (Inr x, s') \<Rightarrow> f x s')"
  by (simp add: act_bind_def)

lemma act_then_app [act_simps]:
  "act_then m n s = (case m s of (Inl e, s') \<Rightarrow> (Inl e, s') | (Inr x, s') \<Rightarrow> n s')"
  by (simp add: act_then_def act_bind_def)

lemma act_bind_run: "m s = (Inr x, s') \<Longrightarrow> act_bind m f s = f x s'"
  by (simp add: act_bind_def)

lemma act_then_run: "m s = (Inr x, s') \<Longrightarrow> act_then m n s = n s'"
  by (simp add: act_then_def act_bind_def)

lemma act_bind_eq_Inr:
  "act_bind m f s = (Inr y, t) \<longleftrightarrow> (\<exists>x u. m s = (Inr x, u) \<and> f x u = (Inr y, t))"
  by (auto simp: act_bind_def split: prod.splits sum.splits)

lemma act_then_eq_Inr:
  "act_then m n s = (Inr y, t) \<longleftrightarrow> (\<exists>x u. m s = (Inr x, u) \<and> n u = (Inr y, t))"
  by (simp add: act_then_def act_bind_eq_Inr)

text \<open>What every step of a loop keeps, the loop keeps, also when a step raises.\<close>

lemma act_for_keeps:
  assumes "\<And>x s. x \<in> set xs \<Longrightarrow> P s \<Longrightarrow> P (snd (f x s))" and "P s"
  shows "P (snd (act_for xs f s))"
  using assms
proof (induction xs arbitrary: s)
  case (Cons x xs)
  obtain r u where u: "f x s = (r, u)" by fastforce
  have "P u" using Cons.prems(1) [of x s] Cons.prems(2) u by simp
  then show ?case using Cons.IH [of u] Cons.prems(1) u by (cases r) (auto simp: act_then_app)
qed (simp add: act_ret_app)

lemma act_bind_keeps:
  "P (snd (m s)) \<Longrightarrow> (\<And>x u. m s = (Inr x, u) \<Longrightarrow> P u \<Longrightarrow> P (snd (f x u))) \<Longrightarrow> P (snd (act_bind m f s))"
  by (cases "m s"; cases "fst (m s)") (auto simp: act_bind_def)

end
