(* ===== verification/Overlay_Net.thy ===== *)
theory Overlay_Net
  imports Py_Action Dns_Service Ip_Alloc
begin

text \<open>
  \<open>libs/overlay.py\<close>: the WireGuard overlay of sites and the registries the hub keeps of it.

  \<^item> \<open>net\<close> is every host's files, whether SSH reaches it, its WireGuard interface (up or not, and
    the live peers), its kernel routes out of wg0, and for an ordinary node the routes its
    unit's script has set and whether that unit is active.
  \<^item> \<open>ssh_run\<close> with \<open>check=True\<close> raises when the host is not reached; with \<open>check=False\<close> nothing
    happens there. \<open>ssh_output\<close> strips what the command printed.
  \<^item> Of WireGuard: setting a peer replaces its allowed IPs and takes them from every other peer;
    bringing the interface up loads the peers of its configuration file. Of systemd: starting an
    active unit does nothing, and a oneshot unit with RemainAfterExit stays active; stopping it
    runs no command. A key pair and the VM calls of a backend are parameters. Log lines are left
    out.
\<close>

section \<open>Hosts\<close>

record net =
  n_up :: "string \<Rightarrow> bool"
  n_files :: "string \<Rightarrow> files"
  n_wg :: "string \<Rightarrow> bool"
  n_peers :: "string \<Rightarrow> (string \<times> string list) list"
  n_wg_routes :: "string \<Rightarrow> string list"
  n_routes :: "string \<Rightarrow> (string \<times> string) list"
  n_unit :: "string \<Rightarrow> bool"
  n_keygen :: "string \<Rightarrow> string \<times> string"

definition files_upd :: "string \<Rightarrow> (files \<Rightarrow> files) \<Rightarrow> net \<Rightarrow> net" where
  "files_upd h g w = w\<lparr>n_files := (n_files w)(h := g (n_files w h))\<rparr>"

definition ssh :: "string \<Rightarrow> (net \<Rightarrow> net) \<Rightarrow> (net, unit) act" where
  "ssh h g = (\<lambda>w. if n_up w h then (Inr (), g w) else (Inl (RuntimeError h), w))"

definition ssh_nocheck :: "string \<Rightarrow> (net \<Rightarrow> net) \<Rightarrow> (net, unit) act" where
  "ssh_nocheck h g = (\<lambda>w. (Inr (), if n_up w h then g w else w))"

definition ssh_cat :: "string \<Rightarrow> string \<Rightarrow> (net, string) act" where
  "ssh_cat h p = (\<lambda>w. (if n_up w h \<and> n_files w h p \<noteq> None then Inr (str_strip (text_at (n_files w h) p))
                        else Inl (RuntimeError h), w))"

text \<open>\<open>test -f\<close> with \<open>check=False\<close>, \<open>mkdir -p ... && touch\<close>, \<open>cat > f\<close>, \<open>>> f\<close>.\<close>

definition ssh_test_f :: "string \<Rightarrow> string \<Rightarrow> (net, bool) act" where
  "ssh_test_f h p = act_get (\<lambda>w. n_up w h \<and> n_files w h p \<noteq> None)"

definition ssh_touch :: "string \<Rightarrow> string \<Rightarrow> (net, unit) act" where
  "ssh_touch h p = ssh h (files_upd h (\<lambda>f. f(p := Some (text_at f p))))"

definition ssh_write :: "string \<Rightarrow> string \<Rightarrow> string \<Rightarrow> (net, unit) act" where
  "ssh_write h p t = ssh h (files_upd h (\<lambda>f. f(p := Some t)))"

definition ssh_append :: "string \<Rightarrow> string \<Rightarrow> string \<Rightarrow> (net, unit) act" where
  "ssh_append h p t = ssh h (files_upd h (append_text p t))"

definition WG_PRIVKEY_PATH :: string where "WG_PRIVKEY_PATH = ''/etc/wireguard/wg0.key''"
definition WG_PUBKEY_PATH :: string where "WG_PUBKEY_PATH = ''/etc/wireguard/wg0.pub''"
definition WG_CONF_PATH :: string where "WG_CONF_PATH = ''/etc/wireguard/wg0.conf''"
definition ALLOC_PATH :: string where "ALLOC_PATH = ''/etc/wireguard/overlay_allocations''"
definition SITE_REGISTRY_PATH :: string where "SITE_REGISTRY_PATH = ''/etc/wireguard/overlay_sites''"
definition NODE_REGISTRY_PATH :: string where "NODE_REGISTRY_PATH = ''/etc/wireguard/overlay_nodes''"
definition DNS_REGISTRY_PATH :: string where "DNS_REGISTRY_PATH = ''/etc/wireguard/overlay_dns''"
definition ROUTES_SCRIPT_PATH :: string where "ROUTES_SCRIPT_PATH = ''/etc/lab-overlay-routes.sh''"
definition ROUTES_UNIT_PATH :: string where "ROUTES_UNIT_PATH = ''/etc/systemd/system/lab-overlay-routes.service''"

lemmas path_defs = WG_PRIVKEY_PATH_def WG_PUBKEY_PATH_def WG_CONF_PATH_def ALLOC_PATH_def SITE_REGISTRY_PATH_def
  NODE_REGISTRY_PATH_def DNS_REGISTRY_PATH_def ROUTES_SCRIPT_PATH_def ROUTES_UNIT_PATH_def

section \<open>Names and gateway VMs\<close>

definition site_name_for :: "string option \<Rightarrow> string option \<Rightarrow> string" where
  "site_name_for backend_name account =
     (case backend_name of
        None \<Rightarrow> ''home''
      | Some b \<Rightarrow> if b \<in> {''libvirt'', ''harvester'', []} then ''home''
                  else b @ ''-'' @ (case account of None \<Rightarrow> ''default'' | Some a \<Rightarrow> if a = [] then ''default'' else a))"

definition hub_vm_name :: "string \<Rightarrow> string option \<Rightarrow> string" where
  "hub_vm_name backend_name account =
     (if account \<in> {Some [], Some ''default'', None} then ''lab-overlay-gw-'' @ backend_name
      else ''lab-overlay-gw-'' @ backend_name @ ''-'' @ the account)"

definition gateway_vm_user_data :: "string \<Rightarrow> string" where
  "gateway_vm_user_data root_ssh_key =
     unlines [''#cloud-config'', ''package_update: true'', ''users:'', ''  - default'', ''  - name: root'',
       ''    lock_passwd: false'', ''    ssh_authorized_keys:'', ''      - '' @ str_strip root_ssh_key]"

text \<open>The calls of a backend object, on the hosts; \<open>vb_ready\<close> is the wait for cloud-init.\<close>

record vm_backend =
  vb_account :: string
  vb_exists :: "string \<Rightarrow> net \<Rightarrow> bool"
  vb_get_ip :: "string \<Rightarrow> net \<Rightarrow> string"
  vb_copy_image :: "string \<Rightarrow> string \<Rightarrow> (net, unit) act"
  vb_push_files :: "string \<Rightarrow> (net, unit) act"
  vb_create :: "string \<Rightarrow> string list \<Rightarrow> (net, string) act"
  vb_ready :: "string \<Rightarrow> net \<Rightarrow> bool"

text \<open>The user-data file is written on this host, which has the empty name.\<close>

definition create_gateway_vm ::
  "vm_backend \<Rightarrow> string \<Rightarrow> string \<Rightarrow> string \<Rightarrow> string \<Rightarrow> string \<Rightarrow> string list \<Rightarrow> (net, string) act" where
  "create_gateway_vm B backend_name vm_name iso_image lab_setup_path root_ssh_key open_ports =
     act_then (act_upd (files_upd [] (\<lambda>f. f(lab_setup_path @ ''/cloud-init/'' @ vm_name @ ''_user-data'' :=
                                             Some (gateway_vm_user_data root_ssh_key)))))
     (act_then (vb_copy_image B iso_image vm_name)
     (act_then (vb_push_files B vm_name)
     (act_bind (vb_create B vm_name open_ports) (\<lambda>ip.
      if ip = [] then act_raise (SystemExit (''gateway VM '' @ sq vm_name @ '' was created on backend '' @ sq backend_name @
                                             '' but create_vm() reported no IP''))
      else act_bind (act_get (vb_ready B ip)) (\<lambda>ready.
           if ready then act_ret ip
           else act_raise (SystemExit (''gateway VM '' @ sq vm_name @ '' ('' @ ip @ '') did not finish cloud-init within 600s '' @ emdash @
                                        '' check it manually (/var/log/cloud-init-output.log)'')))))))"

definition reuse_or_create ::
  "string \<Rightarrow> vm_backend \<Rightarrow> string \<Rightarrow> string \<Rightarrow> string \<Rightarrow> string \<Rightarrow> string list \<Rightarrow> (net, string) act" where
  "reuse_or_create what B backend_name iso_image lab_setup_path root_ssh_key open_ports =
     (let vm_name = hub_vm_name backend_name (Some (vb_account B)) in
      act_bind (act_get (\<lambda>w. (vb_exists B vm_name w, vb_get_ip B vm_name w))) (\<lambda>(exists, ip).
      if exists then
        (if ip = [] then act_raise (SystemExit (what @ '' VM '' @ sq vm_name @ '' exists on backend '' @ sq backend_name @
                                                '' but reported no IP '' @ emdash @
                                                '' check it manually before retrying''))
         else act_ret ip)
      else create_gateway_vm B backend_name vm_name iso_image lab_setup_path root_ssh_key open_ports))"

section \<open>Keys and configuration files\<close>

definition generate_wg_keypair :: "string \<Rightarrow> (net, string \<times> string) act" where
  "generate_wg_keypair host =
     act_bind (ssh_test_f host WG_PRIVKEY_PATH) (\<lambda>exists.
     act_then (if exists then act_ret ()
               else ssh host (\<lambda>w. case n_keygen w host of (priv, pub) \<Rightarrow>
                      files_upd host (\<lambda>f. f(WG_PRIVKEY_PATH := Some (priv @ NL), WG_PUBKEY_PATH := Some (pub @ NL))) w))
     (act_bind (ssh_cat host WG_PRIVKEY_PATH) (\<lambda>privkey.
      act_bind (ssh_cat host WG_PUBKEY_PATH) (\<lambda>pubkey. act_ret (privkey, pubkey)))))"

text \<open>\<open>ipaddress.ip_network(cidr)\<close>, which takes no address with host bits, and \<open>net[1]\<close>.\<close>

definition cidr_network :: "string \<Rightarrow> network res" where
  "cidr_network cidr =
     (case split_ch CHR ''/'' cidr of
        [a] \<Rightarrow> (case ip_address a of Some n \<Rightarrow> Inr (n, 32) | None \<Rightarrow> Inl (ValueError cidr))
      | [a, m] \<Rightarrow> (case (ip_address a, ip_network a m) of
                     (Some n, Some (b, p)) \<Rightarrow> if n = b then Inr (b, p) else Inl (ValueError cidr)
                   | _ \<Rightarrow> Inl (ValueError cidr))
      | _ \<Rightarrow> Inl (ValueError cidr))"

definition second_address :: "network \<Rightarrow> int res" where
  "second_address n = (if net_size n \<ge> 2 then Inr (fst n + 1) else Inl (IndexError ''address out of range''))"

definition render_hub_config :: "string \<Rightarrow> string \<Rightarrow> string \<Rightarrow> string \<Rightarrow> string res" where
  "render_hub_config private_key port hub_overlay_ip overlay_cidr =
     res_bind (cidr_network overlay_cidr) (\<lambda>n. Inr (unlines [''[Interface]'', ''PrivateKey = '' @ private_key,
       ''Address = '' @ hub_overlay_ip @ ''/'' @ nat_str (snd n), ''ListenPort = '' @ port]))"

definition render_spoke_config ::
  "string \<Rightarrow> string \<Rightarrow> string \<Rightarrow> string \<Rightarrow> string \<Rightarrow> string \<Rightarrow> string \<Rightarrow> string res" where
  "render_spoke_config private_key node_overlay_ip overlay_cidr allowed_ips_csv hub_pubkey hub_endpoint hub_port =
     res_bind (cidr_network overlay_cidr) (\<lambda>n. Inr (unlines [''[Interface]'', ''PrivateKey = '' @ private_key,
       ''Address = '' @ node_overlay_ip @ ''/'' @ nat_str (snd n), [], ''[Peer]'', ''PublicKey = '' @ hub_pubkey,
       ''Endpoint = '' @ hub_endpoint @ '':'' @ hub_port, ''AllowedIPs = '' @ allowed_ips_csv, ''PersistentKeepalive = 25'']))"

section \<open>The registries on the hub\<close>

text \<open>\<open>mkdir -p ... && touch f\<close>, then \<open>cat f\<close>: the lines of a registry.\<close>

definition read_lines :: "string \<Rightarrow> string \<Rightarrow> (net, string list) act" where
  "read_lines hub p = act_then (ssh_touch hub p) (act_bind (ssh_cat hub p) (\<lambda>t. act_ret (splitlines t)))"

definition recorded :: "string list \<Rightarrow> (string \<times> string) list" where
  "recorded ls = List.map_filter (\<lambda>l. case words l of [a, b] \<Rightarrow> Some (a, b) | _ \<Rightarrow> None) ls"

definition parse_address :: "string \<Rightarrow> int res" where
  "parse_address s = (case ip_address s of None \<Rightarrow> Inl (ValueError s) | Some a \<Rightarrow> Inr a)"

definition by_name :: "(string \<times> string) list \<Rightarrow> string \<Rightarrow> string option" where
  "by_name es name = map_of (rev es) name"

definition exhausted :: "string \<Rightarrow> string \<Rightarrow> string" where
  "exhausted overlay_cidr name =
     ''overlay CIDR '' @ sq overlay_cidr @ '' is exhausted '' @ emdash @ '' no free address left for '' @ sq name"

definition allocate_overlay_ip :: "string \<Rightarrow> string \<Rightarrow> string \<Rightarrow> (net, string) act" where
  "allocate_overlay_ip hub name overlay_cidr =
     act_bind (read_lines hub ALLOC_PATH) (\<lambda>ls.
     act_bind (act_res (cidr_network overlay_cidr)) (\<lambda>n.
     act_bind (act_res (second_address n)) (\<lambda>hub_ip.
     act_bind (act_res (res_map (\<lambda>e. parse_address (snd e)) (recorded ls))) (\<lambda>used.
     case by_name (recorded ls) name of
       Some ip \<Rightarrow> act_ret ip
     | None \<Rightarrow>
         (case find (\<lambda>c. c \<noteq> hub_ip \<and> c \<notin> set used) (hosts n) of
            Some c \<Rightarrow> act_then (ssh_append hub ALLOC_PATH (name @ '' '' @ ip_str c @ NL)) (act_ret (ip_str c))
          | None \<Rightarrow> act_raise (SystemExit (exhausted overlay_cidr name)))))))"

definition register_site :: "string \<Rightarrow> string \<Rightarrow> string \<Rightarrow> (net, unit) act" where
  "register_site hub site_name site_cidr =
     act_bind (read_lines hub SITE_REGISTRY_PATH) (\<lambda>ls.
     ssh_write hub SITE_REGISTRY_PATH
       (unlines (filter (\<lambda>l. take 1 (words l) \<noteq> [site_name]) ls @ [site_name @ '' '' @ site_cidr])))"

definition list_other_sites :: "string \<Rightarrow> string option \<Rightarrow> (net, (string \<times> string) list) act" where
  "list_other_sites hub exclude_site_name =
     act_bind (read_lines hub SITE_REGISTRY_PATH) (\<lambda>ls.
     act_ret (filter (\<lambda>e. Some (fst e) \<noteq> exclude_site_name) (recorded ls)))"

definition register_node :: "string \<Rightarrow> string \<Rightarrow> string \<Rightarrow> string \<Rightarrow> (net, unit) act" where
  "register_node hub site_name node_host gateway_lan_ip =
     act_bind (read_lines hub NODE_REGISTRY_PATH) (\<lambda>ls.
     ssh_write hub NODE_REGISTRY_PATH
       (unlines (filter (\<lambda>l. take 1 (drop 1 (words l)) \<noteq> [node_host] \<and> str_strip l \<noteq> []) ls @
                 [site_name @ '' '' @ node_host @ '' '' @ gateway_lan_ip])))"

definition list_nodes :: "string \<Rightarrow> string option \<Rightarrow> (net, (string \<times> string \<times> string) list) act" where
  "list_nodes hub site_name =
     act_bind (read_lines hub NODE_REGISTRY_PATH) (\<lambda>ls.
     act_ret (List.map_filter (\<lambda>l. case words l of
        [a, b, c] \<Rightarrow> if site_name = None \<or> site_name = Some a then Some (a, b, c) else None | _ \<Rightarrow> None) ls))"

text \<open>\<open>[[:space:]]host[[:space:]]\<close> anywhere in a line, with the dots of the host escaped.\<close>

definition blank_char :: "char \<Rightarrow> bool" where
  "blank_char c = (9 \<le> code c \<and> code c \<le> 13 \<or> code c = 32)"

fun spaced_in :: "string \<Rightarrow> string \<Rightarrow> bool" where
  "spaced_in h [] = False"
| "spaced_in h (c # cs) =
     (blank_char c \<and> prefix h cs \<and> drop (length h) cs \<noteq> [] \<and> blank_char (hd (drop (length h) cs)) \<or> spaced_in h cs)"

definition forget_node :: "string \<Rightarrow> string \<Rightarrow> (net, unit) act" where
  "forget_node hub node_host =
     ssh_nocheck hub (files_upd hub (sed_delete (spaced_in node_host) NODE_REGISTRY_PATH))"

definition register_dns_server :: "string \<Rightarrow> string \<Rightarrow> string \<Rightarrow> string \<Rightarrow> (net, unit) act" where
  "register_dns_server hub site_name dns_ip mydomain =
     act_bind (read_lines hub DNS_REGISTRY_PATH) (\<lambda>ls.
     ssh_write hub DNS_REGISTRY_PATH
       (unlines (filter (\<lambda>l. take 1 (words l) \<noteq> [site_name] \<and> str_strip l \<noteq> []) ls @
                 [join '' '' (filter (\<lambda>p. p \<noteq> []) [site_name, dns_ip, mydomain])])))"

definition dns_entry_of :: "string option \<Rightarrow> string \<Rightarrow> string \<Rightarrow> (string \<times> string) option" where
  "dns_entry_of exclude_site mydomain l =
     (case words l of
        site # dns_ip # rest \<Rightarrow>
          (if Some site = exclude_site then None
           else (let dom_name = (case rest of [] \<Rightarrow> [] | d # _ \<Rightarrow> d) in
                 if dom_name \<noteq> [] \<and> mydomain \<noteq> [] \<and> dom_name \<noteq> mydomain then None else Some (site, dns_ip)))
      | _ \<Rightarrow> None)"

definition list_dns_servers :: "string \<Rightarrow> string option \<Rightarrow> string \<Rightarrow> (net, (string \<times> string) list) act" where
  "list_dns_servers hub exclude_site mydomain =
     act_bind (read_lines hub DNS_REGISTRY_PATH) (\<lambda>ls.
     act_ret (List.map_filter (dns_entry_of exclude_site mydomain) ls))"

definition dns_servers :: "string \<Rightarrow> string \<Rightarrow> string \<Rightarrow> (net, (string \<times> string) list) act" where
  "dns_servers ip_output hub mydomain =
     act_bind (list_dns_servers hub None mydomain) (\<lambda>es.
     act_ret (filter (\<lambda>e. snd e \<notin> set (local_ips ip_output)) es))"

section \<open>Peers\<close>

definition peer_marker :: "string \<Rightarrow> string" where
  "peer_marker peer_name = ''# peer: '' @ peer_name"

definition peer_block :: "string \<Rightarrow> string \<Rightarrow> string \<Rightarrow> string" where
  "peer_block peer_name pubkey allowed_csv =
     unlines [[], peer_marker peer_name, ''[Peer]'', ''PublicKey = '' @ pubkey, ''AllowedIPs = '' @ allowed_csv]"

definition wg_set :: "string \<Rightarrow> string list \<Rightarrow> (string \<times> string list) list \<Rightarrow> (string \<times> string list) list" where
  "wg_set pubkey cidrs ps = AList.update pubkey cidrs (map (\<lambda>(k, v). (k, filter (\<lambda>c. c \<notin> set cidrs) v)) ps)"

definition ssh_wg :: "string \<Rightarrow> (net \<Rightarrow> net) \<Rightarrow> (net, unit) act" where
  "ssh_wg h g = (\<lambda>w. if n_up w h \<and> n_wg w h then (Inr (), g w) else (Inl (RuntimeError h), w))"

definition route_replace :: "string \<Rightarrow> string \<Rightarrow> net \<Rightarrow> net" where
  "route_replace h cidr w =
     (if cidr \<in> set (n_wg_routes w h) then w
      else w\<lparr>n_wg_routes := (n_wg_routes w)(h := n_wg_routes w h @ [cidr])\<rparr>)"

definition add_peer_to_hub :: "string \<Rightarrow> string \<Rightarrow> string \<Rightarrow> string list \<Rightarrow> (net, unit) act" where
  "add_peer_to_hub hub peer_name peer_pubkey allowed_cidrs =
     act_bind (act_get (\<lambda>w. n_up w hub \<and>
                 peer_marker peer_name \<in> set (fst (nl_lines (text_at (n_files w hub) WG_CONF_PATH))))) (\<lambda>already.
     act_then (if already then act_ret ()
               else ssh_append hub WG_CONF_PATH (peer_block peer_name peer_pubkey (join '','' allowed_cidrs)))
     (act_then (ssh_wg hub (\<lambda>w. w\<lparr>n_peers := (n_peers w)(hub := wg_set peer_pubkey allowed_cidrs (n_peers w hub))\<rparr>))
     (act_for allowed_cidrs (\<lambda>cidr. ssh_wg hub (route_replace hub cidr)))))"

text \<open>
  The script of \<open>remove_peer_from_hub\<close> on the lines of wg0.conf: \<open>ln\<close> is the marker's line, the
  key is the third field two lines below, and what is deleted runs to the next empty line, or
  to the last line that is ended (\<open>wc -l\<close> counts newlines), or is the marker alone where it comes after that.
\<close>

definition field3 :: "string \<Rightarrow> string" where
  "field3 l = (case words l of _ # _ # c # _ \<Rightarrow> c | _ \<Rightarrow> [])"

definition drop_block :: "string \<Rightarrow> string \<Rightarrow> string" where
  "drop_block m t =
     (let (ls, ended) = nl_lines t;
          before = takeWhile (\<lambda>l. l \<noteq> m) ls;
          after = drop 1 (dropWhile (\<lambda>l. l \<noteq> m) ls);
          rest = (if [] \<in> set after then drop 1 (dropWhile (\<lambda>l. l \<noteq> []) after)
                  else if ended then [] else drop (length after - 1) after);
          kept = before @ rest in
      if kept = [] then [] else join NL kept @ (if ended \<or> rest = [] then NL else []))"

definition block_pubkey :: "string \<Rightarrow> string list \<Rightarrow> string" where
  "block_pubkey m ls = (case drop 2 (dropWhile (\<lambda>x. x \<noteq> m) ls) of l # _ \<Rightarrow> field3 l | [] \<Rightarrow> [])"

definition remove_peer_from_hub :: "string \<Rightarrow> string \<Rightarrow> (net, unit) act" where
  "remove_peer_from_hub hub peer_name =
     ssh_nocheck hub (\<lambda>w.
       (let ls = fst (nl_lines (text_at (n_files w hub) WG_CONF_PATH)); m = peer_marker peer_name; pubkey = block_pubkey m ls in
        if m \<notin> set ls then w
        else files_upd hub (\<lambda>f. f(WG_CONF_PATH := Some (drop_block m (text_at f WG_CONF_PATH))))
               (if pubkey \<noteq> [] then w\<lparr>n_peers := (n_peers w)(hub := AList.delete pubkey (n_peers w hub))\<rparr> else w)))"

text \<open>The peers of a configuration file, as wg-quick loads them.\<close>

fun conf_line :: "string \<Rightarrow> (string \<times> string list) list \<Rightarrow> (string \<times> string list) list" where
  "conf_line l ps =
     (case words l of
        [a] \<Rightarrow> if a = ''[Peer]'' then ([], []) # ps else ps
      | [a, b, c] \<Rightarrow>
          (case ps of [] \<Rightarrow> []
           | (k, v) # rest \<Rightarrow> if a = ''PublicKey'' then (c, v) # rest
                              else if a = ''AllowedIPs'' then (k, split_ch CHR '','' c) # rest else ps)
      | _ \<Rightarrow> ps)"

definition conf_peers :: "string \<Rightarrow> (string \<times> string list) list" where
  "conf_peers t = rev (fold conf_line (fst (nl_lines t)) [])"

definition wg_up :: "string \<Rightarrow> net \<Rightarrow> net" where
  "wg_up h w =
     (let ps = conf_peers (text_at (n_files w h) WG_CONF_PATH) in
      w\<lparr>n_wg := (n_wg w)(h := True), n_peers := (n_peers w)(h := ps), n_wg_routes := (n_wg_routes w)(h := concat (map snd ps))\<rparr>)"

text \<open>\<open>systemctl enable --now wg-quick@wg0\<close> does nothing to an interface that is up.\<close>

definition wg_enable :: "string \<Rightarrow> net \<Rightarrow> net" where
  "wg_enable h w = (if n_wg w h then w else wg_up h w)"

section \<open>Routes of the nodes\<close>

definition route_script :: "string list \<Rightarrow> string \<Rightarrow> string" where
  "route_script cidrs gateway = unlines (''#!/bin/sh'' # map (\<lambda>c. ''ip route replace '' @ c @ '' via '' @ gateway) cidrs)"

definition route_unit :: string where
  "route_unit = unlines [''[Unit]'', ''Description=lab-in-a-box overlay routes'', ''After=network-online.target'',
     ''Wants=network-online.target'', [], ''[Service]'', ''Type=oneshot'', ''ExecStart='' @ ROUTES_SCRIPT_PATH,
     ''RemainAfterExit=yes'', [], ''[Install]'', ''WantedBy=multi-user.target'']"

fun run_line :: "string \<Rightarrow> (string \<times> string) list \<Rightarrow> (string \<times> string) list" where
  "run_line l rs =
     (case words l of
        [a, b, c, cidr, d, gw] \<Rightarrow>
          if [a, b, c, d] = [''ip'', ''route'', ''replace'', ''via''] then AList.update cidr gw rs else rs
      | _ \<Rightarrow> rs)"

definition run_script :: "string \<Rightarrow> (string \<times> string) list \<Rightarrow> (string \<times> string) list" where
  "run_script t rs = fold run_line (fst (nl_lines t)) rs"

text \<open>\<open>systemctl enable --now\<close> of the unit: the script runs only when the unit was not active.\<close>

definition unit_enable :: "string \<Rightarrow> net \<Rightarrow> net" where
  "unit_enable h w =
     (if n_unit w h then w
      else w\<lparr>n_unit := (n_unit w)(h := True),
             n_routes := (n_routes w)(h := run_script (text_at (n_files w h) ROUTES_SCRIPT_PATH) (n_routes w h))\<rparr>)"

definition ensure_route_via_site_gateway :: "string \<Rightarrow> string \<Rightarrow> string list \<Rightarrow> (net, unit) act" where
  "ensure_route_via_site_gateway node_host gateway_lan_ip remote_cidrs =
     (if remote_cidrs = [] then act_ret ()
      else act_then (ssh_write node_host ROUTES_SCRIPT_PATH (route_script remote_cidrs gateway_lan_ip))
          (act_then (ssh_write node_host ROUTES_UNIT_PATH route_unit)
                    (ssh node_host (unit_enable node_host))))"

definition drop_routes :: "string \<Rightarrow> (net, unit) act" where
  "drop_routes h = ssh_nocheck h (\<lambda>w. files_upd h (\<lambda>f. f(ROUTES_SCRIPT_PATH := None, ROUTES_UNIT_PATH := None))
                                        (w\<lparr>n_unit := (n_unit w)(h := False)\<rparr>))"

definition other_cidrs :: "(string \<times> string) list \<Rightarrow> string \<Rightarrow> string list" where
  "other_cidrs sites site = map snd (filter (\<lambda>e. fst e \<noteq> site) sites)"

fun refresh_nodes :: "(string \<times> string) list \<Rightarrow> (string \<times> string \<times> string) list \<Rightarrow> (net, nat \<times> nat) act" where
  "refresh_nodes sites [] = act_ret (0, 0)"
| "refresh_nodes sites ((site, node, gateway) # rest) =
     act_bind (act_get (\<lambda>w. n_up w node)) (\<lambda>up.
     if \<not> up then act_bind (refresh_nodes sites rest) (\<lambda>(r, u). act_ret (r, Suc u))
     else act_then (if other_cidrs sites site \<noteq> []
                    then ensure_route_via_site_gateway node gateway (other_cidrs sites site)
                    else drop_routes node)
          (act_bind (refresh_nodes sites rest) (\<lambda>(r, u). act_ret (Suc r, u))))"

text \<open>\<open>{name: cidr for name, cidr in ...}\<close>: a dict, in the order the names first appear.\<close>

definition site_dict :: "(string \<times> string) list \<Rightarrow> (string \<times> string) list" where
  "site_dict es = fold (\<lambda>(n, c) d. AList.update n c d) es []"

definition refresh_routes :: "string \<Rightarrow> string option \<Rightarrow> (net, nat \<times> nat) act" where
  "refresh_routes hub only_site =
     act_bind (list_nodes hub only_site) (\<lambda>nodes.
     if nodes = [] then act_ret (0, 0)
     else act_bind (list_other_sites hub None) (\<lambda>sites. refresh_nodes (site_dict sites) nodes))"

text \<open>
  \<open>sed -i "/^site /d"\<close>: the name goes into the expression as it is, where a dot takes any character. A name with
  one of the characters below would be another expression, or none.
\<close>

fun dot_match :: "string \<Rightarrow> string \<Rightarrow> bool" where
  "dot_match [] l = True"
| "dot_match (p # ps) [] = False"
| "dot_match (p # ps) (c # cs) = ((p = CHR ''.'' \<or> p = c) \<and> dot_match ps cs)"

definition site_line :: "string \<Rightarrow> string \<Rightarrow> bool" where
  "site_line site l = dot_match (site @ '' '') l"

definition sed_plain :: "string \<Rightarrow> bool" where
  "sed_plain site = list_all (\<lambda>c. c \<notin> {CHR ''*'', CHR ''['', CHR 0x5C, CHR ''/''}) site"

definition REGISTRIES :: "string list" where
  "REGISTRIES = [SITE_REGISTRY_PATH, ALLOC_PATH, NODE_REGISTRY_PATH, DNS_REGISTRY_PATH]"

definition clean_registries :: "string \<Rightarrow> string \<Rightarrow> (net, unit) act" where
  "clean_registries hub site_name =
     act_for REGISTRIES (\<lambda>p. ssh_nocheck hub (files_upd hub (sed_delete (site_line site_name) p)))"

definition del_hub_route :: "string \<Rightarrow> string \<Rightarrow> (net, unit) act" where
  "del_hub_route hub cidr =
     ssh_nocheck hub (\<lambda>w. w\<lparr>n_wg_routes := (n_wg_routes w)(hub := removeAll cidr (n_wg_routes w hub))\<rparr>)"

definition retire_site :: "string \<Rightarrow> string \<Rightarrow> (net, string) act" where
  "retire_site hub site_name =
     act_bind (list_other_sites hub None) (\<lambda>sites.
     case map_of (site_dict sites) site_name of
       None \<Rightarrow> act_ret []
     | Some site_cidr \<Rightarrow>
         if site_cidr = [] then act_ret []
         else act_then (remove_peer_from_hub hub site_name)
             (act_then (del_hub_route hub site_cidr)
             (act_then (clean_registries hub site_name)
             (act_then (refresh_routes hub None) (act_ret site_cidr)))))"

section \<open>Joining the overlay\<close>

definition SYSCTL_LINE :: string where "SYSCTL_LINE = ''net.ipv4.ip_forward=1''"
definition SYSCTL_PATH :: string where "SYSCTL_PATH = ''/etc/sysctl.conf''"

definition enable_forwarding :: "string \<Rightarrow> (net, unit) act" where
  "enable_forwarding h = ssh h (files_upd h (\<lambda>f.
     if f SYSCTL_PATH \<noteq> None \<and> SYSCTL_LINE \<in> set (fst (nl_lines (text_at f SYSCTL_PATH))) then f
     else append_text SYSCTL_PATH (SYSCTL_LINE @ NL) f))"

definition ensure_overlay_hub_ready ::
  "string \<Rightarrow> string \<Rightarrow> string \<Rightarrow> string \<Rightarrow> string \<Rightarrow> (net, string \<times> string) act" where
  "ensure_overlay_hub_ready hub wg_port overlay_cidr site_name site_cidr =
     act_then (ssh hub id)
     (act_bind (act_res (res_bind (cidr_network overlay_cidr) second_address)) (\<lambda>a.
      act_bind (ssh_test_f hub WG_CONF_PATH) (\<lambda>conf_exists.
      act_then (if conf_exists then
                  act_bind (act_get (\<lambda>w. n_up w hub \<and> n_wg w hub)) (\<lambda>already_up.
                  if already_up then act_ret () else ssh hub (wg_enable hub))
                else
                  act_bind (generate_wg_keypair hub) (\<lambda>(privkey, _).
                  act_bind (act_res (render_hub_config privkey wg_port (ip_str a) overlay_cidr)) (\<lambda>conf.
                  act_then (ssh_write hub WG_CONF_PATH conf)
                  (act_then (enable_forwarding hub) (ssh hub (wg_enable hub))))))
      (act_bind (ssh_cat hub WG_PUBKEY_PATH) (\<lambda>hub_pubkey.
       act_then (if site_name \<noteq> [] \<and> site_cidr \<noteq> [] then register_site hub site_name site_cidr else act_ret ())
                (act_ret (ip_str a, hub_pubkey)))))))"

definition ensure_overlay_hub ::
  "vm_backend \<Rightarrow> string \<Rightarrow> string \<Rightarrow> string \<Rightarrow> string \<Rightarrow> string \<Rightarrow> string \<Rightarrow> (net, string \<times> string \<times> string) act" where
  "ensure_overlay_hub B backend_name iso_image lab_setup_path root_ssh_key wg_port overlay_cidr =
     act_bind (reuse_or_create ''overlay hub'' B backend_name iso_image lab_setup_path root_ssh_key [wg_port @ ''/udp'']) (\<lambda>ip.
     act_bind (ensure_overlay_hub_ready ip wg_port overlay_cidr [] []) (\<lambda>(hub_ip, key). act_ret (ip, hub_ip, key)))"

definition ensure_site_gateway_vm ::
  "vm_backend \<Rightarrow> string \<Rightarrow> string \<Rightarrow> string \<Rightarrow> string \<Rightarrow> (net, string) act" where
  "ensure_site_gateway_vm B backend_name iso_image lab_setup_path root_ssh_key =
     reuse_or_create ''site gateway'' B backend_name iso_image lab_setup_path root_ssh_key []"

definition ensure_overlay_site_gateway ::
  "string \<Rightarrow> string \<Rightarrow> string \<Rightarrow> string \<Rightarrow> string \<Rightarrow> string \<Rightarrow> string \<Rightarrow> (net, string) act" where
  "ensure_overlay_site_gateway site_name gateway_host hub hub_pubkey hub_wg_port site_cidr overlay_cidr =
     act_then (ssh gateway_host id)
     (act_bind (generate_wg_keypair gateway_host) (\<lambda>(privkey, pubkey).
      act_bind (allocate_overlay_ip hub site_name overlay_cidr) (\<lambda>gateway_overlay_ip.
      act_then (register_site hub site_name site_cidr)
     (act_bind (list_other_sites hub (Some site_name)) (\<lambda>other_sites.
      act_bind (act_res (render_spoke_config privkey gateway_overlay_ip overlay_cidr
                  (join '','' (overlay_cidr # map snd other_sites)) hub_pubkey hub hub_wg_port)) (\<lambda>conf.
      act_then (ssh_write gateway_host WG_CONF_PATH conf)
     (act_then (ssh gateway_host (wg_up gateway_host))
     (act_then (enable_forwarding gateway_host)
     (act_then (add_peer_to_hub hub site_name pubkey [gateway_overlay_ip @ ''/32'', site_cidr])
               (act_ret gateway_overlay_ip))))))))))"

section \<open>Registry texts\<close>

text \<open>A registry as its rows of tokens, one line each.\<close>

definition row_ok :: "string list \<Rightarrow> bool" where
  "row_ok ws = (ws \<noteq> [] \<and> list_all token ws)"

definition row :: "string list \<Rightarrow> string" where
  "row ws = join '' '' ws"

definition reg_text :: "string list list \<Rightarrow> string" where
  "reg_text rows = concat (map (\<lambda>r. row r @ NL) rows)"

lemma row_words [text_simps]: "row_ok ws \<Longrightarrow> words (row ws) = ws"
  unfolding row_def by (rule words_join_blank) (simp add: row_ok_def list_all_iff)

lemma row_chars: "row_ok ws \<Longrightarrow> c \<in> set (row ws) \<Longrightarrow> c = CHR '' '' \<or> \<not> is_space c"
  using set_join [of "'' ''" ws] by (auto simp: row_def row_ok_def list_all_iff token_def)

lemma break_is_space: "is_break c \<Longrightarrow> is_space c \<and> c \<noteq> CHR '' ''"
  by (auto simp: is_break_def is_space_def code_def)

lemma row_line_ok: "row_ok ws \<Longrightarrow> line_ok (row ws)"
  unfolding line_ok_def list_all_iff using row_chars break_is_space by blast

lemma row_no_NL: "row_ok ws \<Longrightarrow> CHR 0x0A \<notin> set (row ws)"
  using row_line_ok [of ws] by (auto simp: line_ok_def list_all_iff)

lemma row_ends: "row_ok ws \<Longrightarrow> row ws \<noteq> [] \<and> \<not> is_space (hd (row ws)) \<and> \<not> is_space (last (row ws))"
proof (induction ws rule: induct_list012)
  case (3 x y zs)
  then show ?case by (auto simp: row_def row_ok_def token_def)
qed (auto simp: row_def row_ok_def token_def)

lemma row_strip: "row_ok ws \<Longrightarrow> str_strip (row ws) = row ws"
  unfolding row_def by (rule strip_join) (simp add: row_ok_def list_all_iff)

lemma str_strip_NL: 
  assumes "s \<noteq> []" and "\<not> is_space (hd s)" and "\<not> is_space (last s)"
  shows "str_strip (s @ NL) = s"
proof -
  have "dropWhile is_space (s @ NL) = s @ NL" using assms by (cases s) auto
  moreover have "dropWhile is_space (rev s) = rev s" using assms by (cases s rule: rev_cases) auto
  ultimately show ?thesis by (simp add: str_strip_def NL_def)
qed

lemma reg_text_join: "rows \<noteq> [] \<Longrightarrow> reg_text rows = unlines (map row rows)"
  unfolding unlines_def by (induction rows rule: induct_list012) (auto simp: reg_text_def)

lemma join_ends:
  assumes "ls \<noteq> []" and "\<And>l. l \<in> set ls \<Longrightarrow> l \<noteq> []"
  shows "join s ls \<noteq> [] \<and> hd (join s ls) = hd (hd ls) \<and> last (join s ls) = last (last ls)"
  using assms
proof (induction ls rule: induct_list012)
  case (3 x y zs)
  then have "join s (y # zs) \<noteq> []" "last (join s (y # zs)) = last (last (y # zs))" by auto
  with 3 show ?case by simp
qed auto

lemma splitlines_join:
  "(\<And>l. l \<in> set ls \<Longrightarrow> line_ok l \<and> l \<noteq> []) \<Longrightarrow> splitlines (join NL ls) = ls"
proof (induction ls rule: induct_list012)
  case (3 x y zs)
  then show ?case using splitlines_Cons_line [of x "join NL (y # zs)"] by simp
qed (auto simp: splitlines_line)

lemma splitlines_reg [text_simps]:
  assumes "list_all row_ok rows"
  shows "splitlines (str_strip (reg_text rows)) = map row rows"
proof (cases "rows = []")
  case True
  then show ?thesis by (simp add: reg_text_def str_strip_def)
next
  case False
  have ok: "row_ok r" if "r \<in> set rows" for r using assms that by (simp add: list_all_iff)
  have l: "line_ok l \<and> l \<noteq> []" if "l \<in> set (map row rows)" for l using that ok row_line_ok row_ends by auto
  have e: "hd (map row rows) = row (hd rows)" "last (map row rows) = row (last rows)" using False by (simp_all add: hd_map last_map)
  have "str_strip (join NL (map row rows) @ NL) = join NL (map row rows)"
  proof (rule str_strip_NL)
    show "join NL (map row rows) \<noteq> []" using join_ends [of "map row rows" NL] l False by auto
    show "\<not> is_space (hd (join NL (map row rows)))"
      using join_ends [of "map row rows" NL] l False row_ends [of "hd rows"] ok [of "hd rows"] e by auto
    show "\<not> is_space (last (join NL (map row rows)))"
      using join_ends [of "map row rows" NL] l False row_ends [of "last rows"] ok [of "last rows"] e by auto
  qed
  then have "str_strip (reg_text rows) = join NL (map row rows)" using False by (simp add: reg_text_join unlines_def)
  with splitlines_join [of "map row rows"] l show ?thesis by metis
qed

lemma split_ch_lines:
  "(\<And>l. l \<in> set ls \<Longrightarrow> CHR 0x0A \<notin> set l) \<Longrightarrow> split_ch CHR 0x0A (concat (map (\<lambda>l. l @ NL) ls)) = ls @ [[]]"
proof (induction ls)
  case (Cons l ls)
  then show ?case
    using split_ch_append [of "CHR 0x0A" l "concat (map (\<lambda>l. l @ NL) ls)"] by (simp add: NL_def split_ch_token)
qed simp

lemma nl_lines_concat:
  "(\<And>l. l \<in> set ls \<Longrightarrow> CHR 0x0A \<notin> set l) \<Longrightarrow> nl_lines (concat (map (\<lambda>l. l @ NL) ls)) = (ls, True)"
  by (simp add: nl_lines_def split_ch_lines)

lemma sed_keep_reg:
  assumes "list_all row_ok rows"
  shows "sed_keep P (reg_text rows) = reg_text (filter (\<lambda>r. P (row r)) rows)"
proof -
  have n: "CHR 0x0A \<notin> set l" if "l \<in> set (map row rows)" for l using that assms row_no_NL by (auto simp: list_all_iff)
  have nl: "nl_lines (reg_text rows) = (map row rows, True)"
    using nl_lines_concat [of "map row rows"] n by (simp add: reg_text_def o_def)
  show ?thesis
  proof (cases "filter P (map row rows) = []")
    case True
    then have "filter (\<lambda>r. P (row r)) rows = []" by (auto simp: filter_empty_conv)
    with True show ?thesis by (simp only: sed_keep_def nl) (simp add: reg_text_def)
  next
    case False
    then have "filter (\<lambda>r. P (row r)) rows \<noteq> []" by (auto simp: filter_empty_conv)
    with False show ?thesis
      by (simp only: sed_keep_def nl) (simp add: reg_text_join [of "filter _ rows"] unlines_def filter_map o_def)
  qed
qed

lemma reg_text_append: "reg_text (rows @ [r]) = reg_text rows @ row r @ NL"
  by (simp add: reg_text_def)


text \<open>A hub's registry file, with no row shorter than a name and a value.\<close>

definition registry :: "net \<Rightarrow> string \<Rightarrow> string \<Rightarrow> string list list \<Rightarrow> bool" where
  "registry w h p rows =
     (text_at (n_files w h) p = reg_text rows \<and> list_all row_ok rows \<and> list_all (\<lambda>r. 2 \<le> length r) rows)"

definition touched :: "string \<Rightarrow> string \<Rightarrow> net \<Rightarrow> net" where
  "touched h p w = files_upd h (\<lambda>f. f(p := Some (text_at f p))) w"

lemma files_upd_sel [simp]:
  "n_files (files_upd h g w) h = g (n_files w h)" "h' \<noteq> h \<Longrightarrow> n_files (files_upd h g w) h' = n_files w h'"
  "n_up (files_upd h g w) = n_up w" "n_wg (files_upd h g w) = n_wg w" "n_peers (files_upd h g w) = n_peers w"
  "n_wg_routes (files_upd h g w) = n_wg_routes w" "n_routes (files_upd h g w) = n_routes w"
  "n_unit (files_upd h g w) = n_unit w" "n_keygen (files_upd h g w) = n_keygen w"
  by (simp_all add: files_upd_def)

lemma text_at_upd [simp]: "text_at (f(p := Some t)) q = (if q = p then t else text_at f q)"
  "text_at (\<lambda>a. if a = p then Some t else f a) q = (if q = p then t else text_at f q)"
  by (simp_all add: text_at_def)

lemma touched_text [simp]: "text_at (n_files (touched h p w) h') q = text_at (n_files w h') q"
  by (cases "h' = h") (auto simp: touched_def)

lemma touched_sel [simp]: "n_up (touched h p w) = n_up w" "n_files (touched h p w) h p = Some (text_at (n_files w h) p)"
  "registry (touched h p w) h' q rows = registry w h' q rows"
  "n_peers (touched h p w) = n_peers w" "n_wg_routes (touched h p w) = n_wg_routes w"
  "n_routes (touched h p w) = n_routes w" "n_unit (touched h p w) = n_unit w"
  by (simp_all add: registry_def) (simp_all add: touched_def)

lemma read_lines_rows:
  assumes "n_up w hub" and "registry w hub p rows"
  shows "read_lines hub p w = (Inr (map row rows), touched hub p w)"
proof -
  have "ssh_touch hub p w = (Inr (), touched hub p w)" using assms(1) by (simp add: ssh_touch_def ssh_def touched_def)
  moreover have "ssh_cat hub p (touched hub p w) = (Inr (str_strip (reg_text rows)), touched hub p w)"
    using assms by (simp add: ssh_cat_def registry_def)
  ultimately show ?thesis
    using assms(2) by (simp add: read_lines_def act_simps registry_def splitlines_reg)
qed

text \<open>What a write of whole lines leaves.\<close>

lemma registry_write:
  assumes "list_all row_ok rows" and "list_all (\<lambda>r. 2 \<le> length r) rows" and "rows \<noteq> []"
  shows "registry (files_upd h (\<lambda>f. f(p := Some (unlines (map row rows)))) w) h p rows"
  using assms by (simp add: registry_def reg_text_join)

lemma registry_other:
  "q \<noteq> p \<Longrightarrow> registry (files_upd h (\<lambda>f. f(p := t f)) w) h q rows = registry w h q rows"
  by (simp add: registry_def text_at_def)

lemma registry_sed:
  assumes "registry w h p rows"
  shows "registry (files_upd h (sed_delete hit p) w) h p (filter (\<lambda>r. \<not> hit (row r)) rows)"
proof (cases "n_files w h p")
  case None
  then have "reg_text rows = []" using assms by (simp add: registry_def text_at_def)
  then have "rows = []" by (auto simp: reg_text_def NL_def)
  with assms None show ?thesis by (simp add: registry_def sed_delete_def text_at_def)
next
  case (Some t)
  with assms show ?thesis
    by (simp add: registry_def sed_delete_def text_at_def sed_keep_reg list_all_iff)
qed

section \<open>Upserts\<close>

text \<open>
  The contract of a registry whose lines are replaced by key: \<open>keep k\<close> is what a rewrite for the
  key \<open>k\<close> leaves in, \<open>parse\<close> is how a reader takes a line.
\<close>

definition upsert :: "(string \<Rightarrow> string list \<Rightarrow> bool) \<Rightarrow> string \<Rightarrow> string list \<Rightarrow> string list list \<Rightarrow> string list list" where
  "upsert keep k new rows = filter (keep k) rows @ [new]"

locale keyed_rows =
  fixes keep :: "string \<Rightarrow> string list \<Rightarrow> bool" and parse :: "string list \<Rightarrow> 'e option" and key :: "'e \<Rightarrow> string"
  assumes kept_iff: "parse ws = Some e \<Longrightarrow> keep k ws \<longleftrightarrow> key e \<noteq> k"
begin

lemma entries_filter:
  "List.map_filter parse (filter (keep k) rows) = filter (\<lambda>e. key e \<noteq> k) (List.map_filter parse rows)"
  by (induction rows) (auto simp: List.map_filter_simps kept_iff split: option.splits)

lemma entries_upsert:
  "parse new = Some e \<Longrightarrow>
   List.map_filter parse (upsert keep k new rows) = filter (\<lambda>x. key x \<noteq> k) (List.map_filter parse rows) @ [e]"
  by (simp add: upsert_def entries_filter [symmetric]) (simp add: List.map_filter_def)

lemma key_once:
  "parse new = Some e \<Longrightarrow> key e = k \<Longrightarrow>
   filter (\<lambda>x. key x = k) (List.map_filter parse (upsert keep k new rows)) = [e]"
  by (simp add: entries_upsert)

lemma others_kept:
  "parse new = Some e \<Longrightarrow> key e = k \<Longrightarrow> x \<in> set (List.map_filter parse (upsert keep k new rows)) \<Longrightarrow>
   x = e \<or> x \<in> set (List.map_filter parse rows) \<and> key x \<noteq> k"
  by (auto simp: entries_upsert)

lemma upsert_again:
  "parse new = Some e \<Longrightarrow> key e = k \<Longrightarrow>
   List.map_filter parse (upsert keep k new (upsert keep k new rows)) = List.map_filter parse (upsert keep k new rows)"
  by (simp add: entries_upsert)

end

fun pair_row :: "string list \<Rightarrow> (string \<times> string) option" where
  "pair_row [a, b] = Some (a, b)"
| "pair_row _ = None"

fun node_row :: "string list \<Rightarrow> (string \<times> string \<times> string) option" where
  "node_row [a, b, c] = Some (a, b, c)"
| "node_row _ = None"

fun dns_row :: "string list \<Rightarrow> (string \<times> string \<times> string) option" where
  "dns_row (a # b # rest) = Some (a, b, case rest of [] \<Rightarrow> [] | d # _ \<Rightarrow> d)"
| "dns_row _ = None"

definition first_kept :: "string \<Rightarrow> string list \<Rightarrow> bool" where
  "first_kept k ws = (take 1 ws \<noteq> [k])"

definition second_kept :: "string \<Rightarrow> string list \<Rightarrow> bool" where
  "second_kept k ws = (take 1 (drop 1 ws) \<noteq> [k])"

interpretation site_rows: keyed_rows first_kept pair_row fst
  by unfold_locales (auto simp: first_kept_def elim!: pair_row.elims)

interpretation node_rows: keyed_rows second_kept node_row "\<lambda>e. fst (snd e)"
  by unfold_locales (auto simp: second_kept_def elim!: node_row.elims)

interpretation dns_rows: keyed_rows first_kept dns_row fst
  by unfold_locales (auto simp: first_kept_def elim!: dns_row.elims)

section \<open>What the registries hold\<close>

lemma filter_rows:
  assumes "list_all row_ok rows" and "\<And>ws. row_ok ws \<Longrightarrow> P (row ws) = Q ws"
  shows "filter P (map row rows) = map row (filter Q rows)"
  using assms by (induction rows) auto

lemma map_filter_rows:
  assumes "list_all row_ok rows" and "\<And>ws. row_ok ws \<Longrightarrow> f (row ws) = g ws"
  shows "List.map_filter f (map row rows) = List.map_filter g rows"
  using assms by (induction rows) (auto simp: List.map_filter_simps split: option.splits)

definition rewritten :: "string \<Rightarrow> string \<Rightarrow> string list list \<Rightarrow> net \<Rightarrow> net" where
  "rewritten h p rows w = files_upd h (\<lambda>f. f(p := Some (unlines (map row rows)))) (touched h p w)"

lemma registry_rewritten:
  "list_all row_ok rows \<Longrightarrow> list_all (\<lambda>r. 2 \<le> length r) rows \<Longrightarrow> rows \<noteq> [] \<Longrightarrow> registry (rewritten h p rows w) h p rows"
  unfolding rewritten_def by (rule registry_write)

lemma rewritten_other: "q \<noteq> p \<Longrightarrow> registry (rewritten h p rows w) h q rs = registry w h q rs"
  by (simp add: rewritten_def registry_other)

lemma rewritten_sel [simp]: "n_up (rewritten h p rows w) = n_up w"
  by (simp add: rewritten_def)

lemma write_rows:
  "n_up w h \<Longrightarrow> ssh_write h p (unlines (map row rows)) (touched h p w) = (Inr (), rewritten h p rows w)"
  by (simp add: ssh_write_def ssh_def rewritten_def)

lemma register_site_rows:
  assumes "n_up w hub" and "registry w hub SITE_REGISTRY_PATH rows"
  shows "register_site hub s c w = (Inr (), rewritten hub SITE_REGISTRY_PATH (upsert first_kept s [s, c] rows) w)"
proof -
  have "filter (\<lambda>l. take 1 (words l) \<noteq> [s]) (map row rows) = map row (filter (first_kept s) rows)"
    by (rule filter_rows) (use assms(2) in \<open>auto simp: registry_def first_kept_def row_words\<close>)
  moreover have "s @ '' '' @ c = row [s, c]" by (simp add: row_def)
  ultimately show ?thesis
    using write_rows [OF assms(1), of SITE_REGISTRY_PATH "upsert first_kept s [s, c] rows"]
    by (simp add: register_site_def act_bind_app read_lines_rows [OF assms] upsert_def)
qed

lemma recorded_rows: "list_all row_ok rows \<Longrightarrow> recorded (map row rows) = List.map_filter pair_row rows"
  unfolding recorded_def
  by (rule map_filter_rows) (auto simp: row_words split: list.splits)

lemma list_other_sites_rows:
  assumes "n_up w hub" and "registry w hub SITE_REGISTRY_PATH rows"
  shows "list_other_sites hub ex w =
    (Inr (filter (\<lambda>e. Some (fst e) \<noteq> ex) (List.map_filter pair_row rows)), touched hub SITE_REGISTRY_PATH w)"
  using assms(2)
  by (simp add: list_other_sites_def act_bind_app act_ret_app read_lines_rows [OF assms] registry_def recorded_rows)

lemma register_node_rows:
  assumes "n_up w hub" and "registry w hub NODE_REGISTRY_PATH rows"
  shows "register_node hub s h g w = (Inr (), rewritten hub NODE_REGISTRY_PATH (upsert second_kept h [s, h, g] rows) w)"
proof -
  have "filter (\<lambda>l. take 1 (drop 1 (words l)) \<noteq> [h] \<and> str_strip l \<noteq> []) (map row rows) = map row (filter (second_kept h) rows)"
    by (rule filter_rows) (use assms(2) row_ends in \<open>auto simp: registry_def second_kept_def row_words row_strip\<close>)
  moreover have "s @ '' '' @ h @ '' '' @ g = row [s, h, g]" by (simp add: row_def)
  ultimately show ?thesis
    using write_rows [OF assms(1), of NODE_REGISTRY_PATH "upsert second_kept h [s, h, g] rows"]
    by (simp add: register_node_def act_bind_app read_lines_rows [OF assms] upsert_def)
qed

lemma list_nodes_rows:
  assumes "n_up w hub" and "registry w hub NODE_REGISTRY_PATH rows"
  shows "list_nodes hub only w =
    (Inr (filter (\<lambda>e. only = None \<or> only = Some (fst e)) (List.map_filter node_row rows)), touched hub NODE_REGISTRY_PATH w)"
proof -
  let ?f = "\<lambda>l. case words l of [a, b, c] \<Rightarrow> if only = None \<or> only = Some a then Some (a, b, c) else None | _ \<Rightarrow> None"
  let ?g = "\<lambda>ws. case node_row ws of None \<Rightarrow> None | Some e \<Rightarrow> if only = None \<or> only = Some (fst e) then Some e else None"
  have "List.map_filter ?f (map row rows) = List.map_filter ?g rows"
    by (rule map_filter_rows) (use assms(2) in \<open>auto simp: registry_def row_words split: list.splits\<close>)
  also have "\<dots> = filter (\<lambda>e. only = None \<or> only = Some (fst e)) (List.map_filter node_row rows)"
    by (induction rows) (auto simp: List.map_filter_simps split: option.splits)
  finally show ?thesis by (simp add: list_nodes_def act_bind_app act_ret_app read_lines_rows [OF assms])
qed

lemma register_dns_rows:
  assumes "n_up w hub" and "registry w hub DNS_REGISTRY_PATH rows" and "s \<noteq> []" and "ip \<noteq> []" and "d \<noteq> []"
  shows "register_dns_server hub s ip d w = (Inr (), rewritten hub DNS_REGISTRY_PATH (upsert first_kept s [s, ip, d] rows) w)"
proof -
  have "filter (\<lambda>l. take 1 (words l) \<noteq> [s] \<and> str_strip l \<noteq> []) (map row rows) = map row (filter (first_kept s) rows)"
    by (rule filter_rows) (use assms(2) row_ends in \<open>auto simp: registry_def first_kept_def row_words row_strip\<close>)
  moreover have "join '' '' (filter (\<lambda>p. p \<noteq> []) [s, ip, d]) = row [s, ip, d]" using assms(3-5) by (simp add: row_def)
  ultimately show ?thesis
    using write_rows [OF assms(1), of DNS_REGISTRY_PATH "upsert first_kept s [s, ip, d] rows"]
    by (simp only: register_dns_server_def act_bind_app read_lines_rows [OF assms(1,2)] upsert_def) simp
qed

definition dns_wanted :: "string option \<Rightarrow> string \<Rightarrow> string \<times> string \<times> string \<Rightarrow> bool" where
  "dns_wanted ex md e = (Some (fst e) \<noteq> ex \<and> (snd (snd e) = [] \<or> md = [] \<or> snd (snd e) = md))"

lemma list_dns_rows:
  assumes "n_up w hub" and "registry w hub DNS_REGISTRY_PATH rows"
  shows "list_dns_servers hub ex md w =
    (Inr (map (\<lambda>e. (fst e, fst (snd e))) (filter (dns_wanted ex md) (List.map_filter dns_row rows))), touched hub DNS_REGISTRY_PATH w)"
proof -
  let ?g = "\<lambda>ws. case dns_row ws of None \<Rightarrow> None | Some e \<Rightarrow> if dns_wanted ex md e then Some (fst e, fst (snd e)) else None"
  have "List.map_filter (dns_entry_of ex md) (map row rows) = List.map_filter ?g rows"
    by (rule map_filter_rows)
       (use assms(2) in \<open>auto simp: registry_def row_words dns_entry_of_def dns_wanted_def Let_def split: list.splits\<close>)
  also have "\<dots> = map (\<lambda>e. (fst e, fst (snd e))) (filter (dns_wanted ex md) (List.map_filter dns_row rows))"
    by (induction rows) (auto simp: List.map_filter_simps split: option.splits)
  finally show ?thesis by (simp add: list_dns_servers_def act_bind_app act_ret_app read_lines_rows [OF assms])
qed

lemma upsert_ok:
  "list_all row_ok rows \<Longrightarrow> list_all (\<lambda>r. 2 \<le> length r) rows \<Longrightarrow> row_ok new \<Longrightarrow> 2 \<le> length new \<Longrightarrow>
   list_all row_ok (upsert keep k new rows) \<and> list_all (\<lambda>r. 2 \<le> length r) (upsert keep k new rows) \<and> upsert keep k new rows \<noteq> []"
  by (auto simp: upsert_def list_all_iff)

lemma registry_upsert:
  assumes "registry w h p rows" and "row_ok new" and "2 \<le> length new"
  shows "registry (rewritten h p (upsert keep k new rows) w) h p (upsert keep k new rows)"
  using assms upsert_ok [of rows new keep k] by (intro registry_rewritten) (auto simp: registry_def)

text \<open>Registering a site: afterwards the hub lists it with its subnet exactly once, last, and every
  other site as before; the registry stays well formed.\<close>

theorem site_registered_once:
  assumes "n_up w hub" and "registry w hub SITE_REGISTRY_PATH rows" and "token s" and "token c"
    and "register_site hub s c w = (r, w')"
  shows "r = Inr () \<and> registry w' hub SITE_REGISTRY_PATH (upsert first_kept s [s, c] rows) \<and>
     (\<exists>es. fst (list_other_sites hub None w) = Inr es \<and>
           fst (list_other_sites hub None w') = Inr (filter (\<lambda>e. fst e \<noteq> s) es @ [(s, c)]))"
proof -
  have w': "r = Inr ()" "w' = rewritten hub SITE_REGISTRY_PATH (upsert first_kept s [s, c] rows) w"
    using assms(5) register_site_rows [OF assms(1,2)] by simp_all
  have reg: "registry w' hub SITE_REGISTRY_PATH (upsert first_kept s [s, c] rows)"
    unfolding w' by (rule registry_upsert [OF assms(2)]) (use assms(3,4) in \<open>auto simp: row_ok_def\<close>)
  have up: "n_up w' hub" using assms(1) by (simp add: w')
  show ?thesis
    using w'(1) reg list_other_sites_rows [OF assms(1,2), of None] list_other_sites_rows [OF up reg, of None]
      site_rows.entries_upsert [of "[s, c]" "(s, c)" s rows] by simp
qed

text \<open>A site's DNS server is handed to the labs of its own domain only: after a registration for a
  domain, a lab of that domain gets the server exactly once (unless it is the caller's own site), a
  lab of another domain does not, and the other sites' servers are handed out as before.\<close>

theorem dns_server_for_its_domain:
  assumes "n_up w hub" and "registry w hub DNS_REGISTRY_PATH rows" and "token s" and "token ip" and "token d"
    and "register_dns_server hub s ip d w = (r, w')"
  shows "\<exists>es es'. fst (list_dns_servers hub ex md w) = Inr es \<and> fst (list_dns_servers hub ex md w') = Inr es' \<and>
     filter (\<lambda>e. fst e = s) es' = (if Some s = ex \<or> md \<notin> {[], d} then [] else [(s, ip)]) \<and>
     filter (\<lambda>e. fst e \<noteq> s) es' = filter (\<lambda>e. fst e \<noteq> s) es"
proof -
  have ne: "s \<noteq> []" "ip \<noteq> []" "d \<noteq> []" using assms(3-5) by (auto simp: token_def)
  have w': "w' = rewritten hub DNS_REGISTRY_PATH (upsert first_kept s [s, ip, d] rows) w"
    using assms(6) register_dns_rows [OF assms(1,2) ne] by simp
  have reg: "registry w' hub DNS_REGISTRY_PATH (upsert first_kept s [s, ip, d] rows)"
    unfolding w' by (rule registry_upsert [OF assms(2)]) (use assms(3-5) in \<open>auto simp: row_ok_def\<close>)
  have up: "n_up w' hub" using assms(1) by (simp add: w')
  let ?old = "List.map_filter dns_row rows"
  have new: "List.map_filter dns_row (upsert first_kept s [s, ip, d] rows) = filter (\<lambda>x. fst x \<noteq> s) ?old @ [(s, ip, d)]"
    by (rule dns_rows.entries_upsert) simp
  let ?f = "\<lambda>e :: string \<times> string \<times> string. (fst e, fst (snd e))"
  let ?P = "dns_wanted ex md"
  have own: "filter (\<lambda>e. fst e = s) (map ?f (filter ?P (filter (\<lambda>x. fst x \<noteq> s) es))) = []" for es
    by (auto simp: filter_empty_conv)
  have rest: "filter (\<lambda>e. fst e \<noteq> s) (map ?f (filter ?P (filter (\<lambda>x. fst x \<noteq> s) es))) =
      filter (\<lambda>e. fst e \<noteq> s) (map ?f (filter ?P es))" for es
    by (induction es) auto
  have P: "?P (s, ip, d) \<longleftrightarrow> \<not> (Some s = ex \<or> md \<notin> {[], d})" using ne by (auto simp: dns_wanted_def)
  show ?thesis
  proof (intro exI conjI)
    show "fst (list_dns_servers hub ex md w) = Inr (map ?f (filter ?P ?old))" by (simp add: list_dns_rows [OF assms(1,2)])
    show "fst (list_dns_servers hub ex md w') = Inr (map ?f (filter ?P (filter (\<lambda>x. fst x \<noteq> s) ?old @ [(s, ip, d)])))"
      by (simp add: list_dns_rows [OF up reg] new)
  qed (unfold filter_append map_append own rest, use P in auto)
qed

section \<open>Overlay addresses\<close>

lemma nat_str_small:
  "n < 10 \<Longrightarrow> nat_str n = [char_of (n + 48)]"
  "10 \<le> n \<Longrightarrow> n < 100 \<Longrightarrow> nat_str n = [char_of (n div 10 + 48), char_of (n mod 10 + 48)]"
  "100 \<le> n \<Longrightarrow> n < 1000 \<Longrightarrow> nat_str n = [char_of (n div 100 + 48), char_of (n div 10 mod 10 + 48), char_of (n mod 10 + 48)]"
proof -
  show a: "n < 10 \<Longrightarrow> nat_str n = [char_of (n + 48)]" for n by (subst nat_str.simps) simp
  show b: "10 \<le> n \<Longrightarrow> n < 100 \<Longrightarrow> nat_str n = [char_of (n div 10 + 48), char_of (n mod 10 + 48)]" for n
    using a [of "n div 10"] by (subst nat_str.simps) auto
  show "100 \<le> n \<Longrightarrow> n < 1000 \<Longrightarrow> nat_str n = [char_of (n div 100 + 48), char_of (n div 10 mod 10 + 48), char_of (n mod 10 + 48)]"
    using b [of "n div 10"] by (subst nat_str.simps) (auto simp: div_mult2_eq [of n 10 10, simplified, symmetric])
qed

lemma digit_not_zero: "1 \<le> d \<Longrightarrow> d < 10 \<Longrightarrow> char_of (d + 48 :: nat) \<noteq> CHR ''0''"
proof
  assume d: "1 \<le> d" "d < 10" and "char_of (d + 48 :: nat) = CHR ''0''"
  then have "(of_char (char_of (d + 48 :: nat)) :: nat) = of_char CHR ''0''" by simp
  with d show False by simp
qed

lemma octet_nat_str:
  assumes "0 \<le> i" and "i \<le> 255"
  shows "octet (nat_str (nat i)) = Some i"
proof -
  define n where "n = nat i"
  have n: "n \<le> 255" "int n = i" using assms by (auto simp: n_def)
  have "length (nat_str n) \<le> 3 \<and> (length (nat_str n) = 1 \<or> hd (nat_str n) \<noteq> CHR ''0'')"
  proof (cases "n < 10")
    case True
    then show ?thesis by (simp add: nat_str_small)
  next
    case False
    then show ?thesis
      using n digit_not_zero [of "n div 10"] digit_not_zero [of "n div 100"] nat_str_small(2,3) [of n]
      by (cases "n < 100") simp_all
  qed
  moreover have "list_all is_digit (nat_str n)" using nat_str_digits [of _ n] by (simp add: list_all_iff)
  ultimately show ?thesis using n by (simp add: octet_def n_def [symmetric])
qed

lemma nat_str_no_dot: "CHR ''.'' \<notin> set (nat_str n)"
  using nat_str_digits [of "CHR ''.''" n] by (auto simp: is_digit_def code_def)

lemma ip_address_str:
  assumes "0 \<le> a" and "a < 2 ^ 32"
  shows "ip_address (ip_str a) = Some a"
proof -
  define x where "x = (\<lambda>i. nat_str (nat i))"
  have s: "split_ch CHR ''.'' (x i) = [x i]" for i unfolding x_def by (rule split_ch_token) (rule nat_str_no_dot)
  have p: "split_ch CHR ''.'' (x i @ CHR ''.'' # t) = x i # split_ch CHR ''.'' t" for i t
    using split_ch_append [of "CHR ''.''" "x i" t] s by simp
  have "split_ch CHR ''.'' (ip_str a) = [x (a div 16777216), x (a div 65536 mod 256), x (a div 256 mod 256), x (a mod 256)]"
    by (simp add: ip_str_def x_def [symmetric] p s)
  moreover have "octet (x (a div 16777216)) = Some (a div 16777216)"
    unfolding x_def by (rule octet_nat_str) (use assms in auto)
  moreover have "octet (x (b mod 256)) = Some (b mod 256)" for b
    unfolding x_def by (rule octet_nat_str) (use pos_mod_bound [of 256 b] in auto)
  moreover have "((a div 16777216 * 256 + a div 65536 mod 256) * 256 + a div 256 mod 256) * 256 + a mod 256 = a"
  proof -
    have "a div 65536 = a div 256 div 256" and "a div 16777216 = a div 256 div 256 div 256"
      by (simp_all add: zdiv_zmult2_eq [symmetric])
    then show ?thesis by (simp only: div_mult_mod_eq)
  qed
  ultimately show ?thesis unfolding ip_address_def by (simp only: list.map list.case option.case)
qed

lemma ip_str_token: "token (ip_str a)"
proof -
  have sp: "\<not> is_space c" if "is_digit c \<or> c = CHR ''.''" for c
    using that by (auto simp: is_digit_def is_space_def code_def)
  have "c \<in> set (ip_str a) \<Longrightarrow> is_digit c \<or> c = CHR ''.''" for c
    using nat_str_digits by (auto simp: ip_str_def)
  moreover have "ip_str a \<noteq> []" by (simp add: ip_str_def)
  ultimately show ?thesis using sp by (auto simp: token_def)
qed

lemma octet_range: "octet s = Some a \<Longrightarrow> 0 \<le> a \<and> a \<le> 255"
  by (auto simp: octet_def split: if_splits option.splits)

lemma ip_address_range:
  assumes "ip_address s = Some a"
  shows "0 \<le> a \<and> a < 2 ^ 32"
proof -
  from assms obtain p q r t where o4: "map octet (split_ch CHR ''.'' s) = [Some p, Some q, Some r, Some t]"
    and a: "a = ((p * 256 + q) * 256 + r) * 256 + t"
    by (auto simp: ip_address_def split: list.splits option.splits)
  have "\<forall>v \<in> set (map octet (split_ch CHR ''.'' s)). \<forall>x. v = Some x \<longrightarrow> 0 \<le> x \<and> x \<le> 255" using octet_range by auto
  then have "0 \<le> p \<and> p \<le> 255" "0 \<le> q \<and> q \<le> 255" "0 \<le> r \<and> r \<le> 255" "0 \<le> t \<and> t \<le> 255" unfolding o4 by auto
  with a show ?thesis by auto
qed

lemma mask_prefix_le: "mask_prefix s = Some p \<Longrightarrow> p \<le> 32"
  by (auto simp: mask_prefix_def prefix_of_mask_def find_Some_iff split: if_splits option.splits)

lemma network_end:
  assumes "0 \<le> (a::int)" and "a < 2 ^ 32" and "p \<le> 32"
  shows "0 \<le> a - a mod 2 ^ (32 - p) \<and> a - a mod 2 ^ (32 - p) + 2 ^ (32 - p) \<le> 2 ^ 32"
proof -
  define k where "k = (2 :: int) ^ (32 - p)"
  have k: "k > 0" "2 ^ 32 = k * 2 ^ p" using assms(3) by (auto simp: k_def power_add [symmetric])
  have m: "a - a mod k = k * (a div k)" by (simp add: minus_mod_eq_mult_div)
  have "k * (a div k) \<le> a" using k(1) by (simp add: m [symmetric])
  with assms(2) k have "k * (a div k) < k * 2 ^ p" by linarith
  then have "a div k < 2 ^ p" using k(1) by simp
  then have "k * (a div k + 1) \<le> k * 2 ^ p" using k(1) by (intro mult_left_mono) auto
  moreover have "0 \<le> k * (a div k)" using k(1) assms(1) by (simp add: pos_imp_zdiv_nonneg_iff)
  ultimately show ?thesis unfolding k_def [symmetric] m k(2) by (simp add: algebra_simps)
qed

lemma cidr_network_range:
  "cidr_network cidr = Inr n \<Longrightarrow> 0 \<le> fst n \<and> fst n + net_size n \<le> 2 ^ 32"
proof -
  assume c: "cidr_network cidr = Inr n"
  from c consider (one) a k where "ip_address a = Some k" "n = (k, 32)"
    | (two) a m k where "ip_address a = Some k" "ip_network a m = Some n"
    by (auto simp: cidr_network_def split: list.splits option.splits if_splits prod.splits)
  then show ?thesis
  proof cases
    case one
    then show ?thesis using ip_address_range [of a k] by (simp add: net_size_def)
  next
    case two
    then obtain p where p: "mask_prefix m = Some p" "n = (k - k mod 2 ^ (32 - p), p)"
      by (auto simp: ip_network_def split: option.splits)
    then show ?thesis
      using network_end [of k p] ip_address_range [OF two(1)] mask_prefix_le [OF p(1)] by (simp add: net_size_def)
  qed
qed

lemma host_range: "cidr_network cidr = Inr n \<Longrightarrow> a \<in> set (hosts n) \<Longrightarrow> 0 \<le> a \<and> a < 2 ^ 32"
  using cidr_network_range [of cidr n] in_hosts [of a n] by (auto simp: in_network_def)

definition alloc_rows :: "(string \<times> int) list \<Rightarrow> string list list" where
  "alloc_rows es = map (\<lambda>(nm, a). [nm, ip_str a]) es"

text \<open>
  A sound allocation file: every line gives a name one address of the overlay that is not the
  hub's, and no name and no address is in it twice.
\<close>

definition allocations :: "net \<Rightarrow> string \<Rightarrow> network \<Rightarrow> (string \<times> int) list \<Rightarrow> bool" where
  "allocations w hub n es =
     (registry w hub ALLOC_PATH (alloc_rows es) \<and> distinct (map fst es) \<and> distinct (map snd es) \<and>
      (\<forall>a \<in> snd ` set es. a \<in> set (hosts n) \<and> a \<noteq> fst n + 1))"

lemma alloc_recorded: "List.map_filter pair_row (alloc_rows es) = map (\<lambda>(nm, a). (nm, ip_str a)) es"
  by (induction es) (auto simp: alloc_rows_def List.map_filter_simps)

lemma alloc_used:
  assumes "\<And>a. a \<in> snd ` set es \<Longrightarrow> 0 \<le> a \<and> a < 2 ^ 32"
  shows "res_map (\<lambda>e. parse_address (snd e)) (map (\<lambda>(nm, a). (nm, ip_str a)) es) = Inr (map snd es)"
  using assms by (induction es) (auto simp: parse_address_def ip_address_str)

lemma alloc_by_name:
  "distinct (map fst es) \<Longrightarrow> by_name (map (\<lambda>(nm, a). (nm, ip_str a)) es) name = map_option ip_str (map_of es name)"
proof -
  assume d: "distinct (map fst es)"
  have "map_of (rev (map (\<lambda>(nm, a). (nm, ip_str a)) es)) = map_of (map (\<lambda>(nm, a). (nm, ip_str a)) es)"
    by (subst map_of_inject_set) (use d in \<open>simp_all add: o_def case_prod_unfold rev_map [symmetric]\<close>)
  then show ?thesis by (simp add: by_name_def map_of_map)
qed

text \<open>C8 An overlay address handed to a site is its own: asking again gives the same address and writes
  nothing; a new site gets a host of the overlay that is neither the hub's nor any other site's;
  the file stays sound, the other sites keep theirs, and the only failure is a network with no
  host left.\<close>

theorem overlay_address_allocated:
  assumes "n_up w hub" and "cidr_network cidr = Inr n" and "2 \<le> net_size n" and "allocations w hub n es"
    and "token name" and "allocate_overlay_ip hub name cidr w = (r, w')"
  shows "\<exists>es'. allocations w' hub n es' \<and>
     (case r of
        Inr ip \<Rightarrow> (\<exists>a. ip = ip_str a \<and> map_of es' name = Some a \<and> es' = (if name \<in> fst ` set es then es else es @ [(name, a)]))
      | Inl e \<Rightarrow> es' = es \<and> e = SystemExit (exhausted cidr name) \<and> (\<forall>a \<in> set (hosts n). a = fst n + 1 \<or> a \<in> snd ` set es))"
proof -
  let ?w1 = "touched hub ALLOC_PATH w"
  have reg: "registry w hub ALLOC_PATH (alloc_rows es)" and ok: "list_all row_ok (alloc_rows es)"
    and sz: "list_all (\<lambda>r. 2 \<le> length r) (alloc_rows es)"
    and d: "distinct (map fst es)" "distinct (map snd es)"
    and hs: "\<And>a. a \<in> snd ` set es \<Longrightarrow> a \<in> set (hosts n) \<and> a \<noteq> fst n + 1"
    using assms(4) by (auto simp: allocations_def registry_def)
  have rec: "recorded (map row (alloc_rows es)) = map (\<lambda>(nm, a). (nm, ip_str a)) es"
    using recorded_rows [OF ok] alloc_recorded by simp
  have used: "res_map (\<lambda>e. parse_address (snd e)) (map (\<lambda>(nm, a). (nm, ip_str a)) es) = Inr (map snd es)"
    by (rule alloc_used) (use hs host_range [OF assms(2)] in blast)
  let ?free = "find (\<lambda>c. c \<noteq> fst n + 1 \<and> c \<notin> set (map snd es)) (hosts n)"
  have run: "allocate_overlay_ip hub name cidr w =
     (case map_of es name of
        Some a \<Rightarrow> (Inr (ip_str a), ?w1)
      | None \<Rightarrow> (case ?free of
          Some c \<Rightarrow> act_then (ssh_append hub ALLOC_PATH (name @ '' '' @ ip_str c @ NL)) (act_ret (ip_str c)) ?w1
        | None \<Rightarrow> (Inl (SystemExit (exhausted cidr name)), ?w1)))"
    unfolding allocate_overlay_ip_def act_bind_app read_lines_rows [OF assms(1) reg] rec prod.case sum.case
      act_res_app assms(2) used alloc_by_name [OF d(1)]
    using assms(3) by (simp add: second_address_def act_simps split: option.split)
  have keep: "allocations ?w1 hub n es" using assms(4) by (simp add: allocations_def)
  show ?thesis
  proof (cases "map_of es name")
    case (Some a)
    then have "name \<in> fst ` set es" by (metis domI dom_map_of_conv_image_fst)
    with Some keep run assms(6) show ?thesis by auto
  next
    case none: None
    then have fresh: "name \<notin> fst ` set es" by (metis map_of_eq_None_iff)
    show ?thesis
    proof (cases ?free)
      case None
      then have "\<forall>a \<in> set (hosts n). a = fst n + 1 \<or> a \<in> snd ` set es" by (auto simp: find_None_iff)
      with keep none None run assms(6) show ?thesis by auto
    next
      case (Some c)
      then have c: "c \<in> set (hosts n)" "c \<noteq> fst n + 1" "c \<notin> snd ` set es" by (auto simp: find_Some_iff)
      let ?w2 = "files_upd hub (append_text ALLOC_PATH (row [name, ip_str c] @ NL)) ?w1"
      have r: "r = Inr (ip_str c)" "w' = ?w2"
        using run assms(1,6) none Some by (simp_all add: act_then_app act_ret_app ssh_append_def ssh_def row_def)
      have "reg_text (alloc_rows es) @ row [name, ip_str c] @ NL = reg_text (alloc_rows (es @ [(name, c)]))"
        using reg_text_append [of "alloc_rows es" "[name, ip_str c]"] by (simp add: alloc_rows_def)
      moreover have "row_ok [name, ip_str c]" using assms(5) ip_str_token by (simp add: row_ok_def)
      ultimately have "registry ?w2 hub ALLOC_PATH (alloc_rows (es @ [(name, c)]))"
        using reg ok sz by (simp add: registry_def append_text_def) (simp add: alloc_rows_def)
      then have "allocations w' hub n (es @ [(name, c)])"
        using d hs c fresh r(2) unfolding allocations_def by (auto simp: image_iff)
      moreover have "map_of (es @ [(name, c)]) name = Some c" using none by (simp add: map_add_def)
      ultimately show ?thesis using r(1) fresh by (intro exI [of _ "es @ [(name, c)]"]) auto
    qed
  qed
qed

section \<open>Retiring a site\<close>

lemma dot_match_prefix: "dot_match p (p @ l)"
  by (induction p) auto

lemma dot_match_plain: "CHR ''.'' \<notin> set p \<Longrightarrow> dot_match p l = starts_with l p"
  by (induction p l rule: dot_match.induct) auto

lemma site_line_row:
  assumes "row_ok r" and "2 \<le> length r"
  shows "hd r = s \<Longrightarrow> site_line s (row r)"
    and "CHR ''.'' \<notin> set s \<Longrightarrow> token s \<Longrightarrow> site_line s (row r) = (hd r = s)"
proof -
  obtain x y zs where r: "r = x # y # zs" using assms(2) by (cases r; cases "tl r") auto
  have e: "row r = x @ CHR '' '' # join '' '' (y # zs)" by (simp add: row_def r)
  show one: "site_line s (row r)" if "hd r = s"
    unfolding site_line_def e using that dot_match_prefix [of "s @ '' ''"] by (simp add: r)
  assume plain: "CHR ''.'' \<notin> set s" "token s"
  have "token x" using assms(1) r by (simp add: row_ok_def)
  then have no: "CHR '' '' \<notin> set x" "CHR '' '' \<notin> set s" using plain(2) by (auto simp: token_def)
  have "hd r = s" if "site_line s (row r)"
  proof -
    have "starts_with (row r) (s @ '' '')" using that plain(1) by (simp add: site_line_def dot_match_plain)
    then obtain u where "s @ CHR '' '' # u = x @ CHR '' '' # join '' '' (y # zs)"
      unfolding e prefix_def by auto
    then have "takeWhile (\<lambda>c. c \<noteq> CHR '' '') (s @ CHR '' '' # u) = takeWhile (\<lambda>c. c \<noteq> CHR '' '') (x @ CHR '' '' # join '' '' (y # zs))"
      by simp
    moreover have "takeWhile (\<lambda>c. c \<noteq> CHR '' '') (a @ CHR '' '' # b) = a" if "CHR '' '' \<notin> set a" for a b
      using that by (induction a) auto
    ultimately show "hd r = s" using no r by simp
  qed
  then show "site_line s (row r) = (hd r = s)" using one by blast
qed

definition without_site :: "string \<Rightarrow> string list list \<Rightarrow> string list list" where
  "without_site s rows = filter (\<lambda>r. hd r \<noteq> s) rows"

definition unmatched_rows :: "string \<Rightarrow> string list list \<Rightarrow> string list list" where
  "unmatched_rows s rows = filter (\<lambda>r. \<not> site_line s (row r)) rows"

lemma unmatched_rows_gone: "registry w h p rows \<Longrightarrow> r \<in> set (unmatched_rows s rows) \<Longrightarrow> hd r \<noteq> s"
  using site_line_row(1) by (auto simp: unmatched_rows_def registry_def list_all_iff)

lemma unmatched_rows_plain:
  assumes "registry w h p rows" and "CHR ''.'' \<notin> set s" and "token s"
  shows "unmatched_rows s rows = without_site s rows"
  unfolding without_site_def unmatched_rows_def
  by (rule filter_cong [OF refl]) (use assms site_line_row(2) in \<open>auto simp: registry_def list_all_iff\<close>)

lemma registry_retired:
  "registry w h p rows \<Longrightarrow> registry (files_upd h (sed_delete (site_line s) p) w) h p (unmatched_rows s rows)"
  unfolding unmatched_rows_def by (rule registry_sed)

lemma sed_other: "q \<noteq> p \<Longrightarrow> text_at (sed_delete hit p f) q = text_at f q"
  by (simp add: sed_delete_def text_at_def split: option.splits)

lemma registry_retired_other:
  "q \<noteq> p \<Longrightarrow> registry (files_upd h (sed_delete hit p) w) h q rows = registry w h q rows"
  by (simp add: registry_def sed_other)

lemma registries_differ: "distinct (WG_CONF_PATH # REGISTRIES)"
  unfolding REGISTRIES_def path_defs by code_simp

text \<open>The clean-up of the four files.\<close>

lemma sed_all:
  assumes "n_up w hub" and "distinct ps" and "\<And>p. p \<in> set ps \<Longrightarrow> registry w hub p (rows p)"
  shows "\<exists>w'. act_for ps (\<lambda>p. ssh_nocheck hub (files_upd hub (sed_delete (site_line s) p))) w = (Inr (), w') \<and>
     n_up w' = n_up w \<and> n_peers w' = n_peers w \<and> n_wg_routes w' = n_wg_routes w \<and>
     (\<forall>p \<in> set ps. registry w' hub p (unmatched_rows s (rows p))) \<and>
     (\<forall>p rs. p \<notin> set ps \<longrightarrow> registry w' hub p rs = registry w hub p rs)"
  using assms(1-3)
proof (induction ps arbitrary: w)
  case (Cons p ps)
  let ?w1 = "files_upd hub (sed_delete (site_line s) p) w"
  have "\<And>q. q \<in> set ps \<Longrightarrow> registry ?w1 hub q (rows q)"
    using Cons.prems(2,3) by (subst registry_retired_other) auto
  then obtain w' where w': "act_for ps (\<lambda>p. ssh_nocheck hub (files_upd hub (sed_delete (site_line s) p))) ?w1 = (Inr (), w')"
    and k: "n_up w' = n_up ?w1" "n_peers w' = n_peers ?w1" "n_wg_routes w' = n_wg_routes ?w1"
    and all: "\<forall>p \<in> set ps. registry w' hub p (unmatched_rows s (rows p))"
    and oth: "\<forall>p rs. p \<notin> set ps \<longrightarrow> registry w' hub p rs = registry ?w1 hub p rs"
    using Cons.IH [of ?w1] Cons.prems(1,2) by auto
  have "registry ?w1 hub p (unmatched_rows s (rows p))" using Cons.prems(3) by (intro registry_retired) auto
  then have "registry w' hub p (unmatched_rows s (rows p))" using oth Cons.prems(2) by auto
  moreover have "act_for (p # ps) (\<lambda>p. ssh_nocheck hub (files_upd hub (sed_delete (site_line s) p))) w = (Inr (), w')"
    using Cons.prems(1) w' by (simp add: act_then_app ssh_nocheck_def)
  ultimately show ?case using k all oth by (auto simp: registry_retired_other)
qed (simp add: act_ret_app)

text \<open>Pushing routes to the nodes leaves the hub as it is, unless the hub is itself registered as a node.\<close>

definition same_hub :: "string \<Rightarrow> net \<Rightarrow> net \<Rightarrow> bool" where
  "same_hub hub v w = (n_files v hub = n_files w hub \<and> n_up v = n_up w \<and> n_peers v hub = n_peers w hub \<and>
                       n_wg_routes v hub = n_wg_routes w hub)"

lemma same_hub_refl: "same_hub hub w w" by (simp add: same_hub_def)

lemma same_hub_trans: "same_hub hub u v \<Longrightarrow> same_hub hub v w \<Longrightarrow> same_hub hub u w" by (simp add: same_hub_def)

lemma ensure_route_keeps:
  "node \<noteq> hub \<Longrightarrow> same_hub hub (snd (ensure_route_via_site_gateway node g cs w)) w"
  by (simp add: ensure_route_via_site_gateway_def act_then_app act_ret_app ssh_write_def ssh_def unit_enable_def same_hub_def
      split: if_splits)

lemma drop_routes_keeps: "node \<noteq> hub \<Longrightarrow> same_hub hub (snd (drop_routes node w)) w"
  by (simp add: drop_routes_def ssh_nocheck_def same_hub_def files_upd_def)

lemma refresh_nodes_keeps:
  "(\<And>s n g. (s, n, g) \<in> set nodes \<Longrightarrow> n \<noteq> hub) \<Longrightarrow> same_hub hub (snd (refresh_nodes sites nodes w)) w"
proof (induction nodes arbitrary: w)
  case (Cons e nodes)
  obtain s n g where e: "e = (s, n, g)" by (cases e)
  have n: "n \<noteq> hub" using Cons.prems [of s n g] e by simp
  have IH: "same_hub hub (snd (refresh_nodes sites nodes v)) v" for v using Cons by auto
  let ?m = "if other_cidrs sites s \<noteq> [] then ensure_route_via_site_gateway n g (other_cidrs sites s) else drop_routes n"
  have m: "same_hub hub (snd (?m w)) w" using n by (simp add: ensure_route_keeps drop_routes_keeps)
  have b: "same_hub hub (snd (act_bind (refresh_nodes sites nodes) (\<lambda>(r, u). act_ret (f r u)) v)) v" for f v
    using IH [of v] by (auto simp: act_bind_app act_ret_app split: prod.splits sum.splits)
  show ?case
  proof (cases "n_up w n")
    case False
    then show ?thesis using b [of "\<lambda>r u. (r, Suc u)" w] by (simp add: e act_bind_app [of "act_get _"] act_get_app)
  next
    case True
    obtain r v where v: "?m w = (r, v)" by fastforce
    have "snd (refresh_nodes sites (e # nodes) w) =
        (case r of Inl x \<Rightarrow> v | Inr _ \<Rightarrow> snd (act_bind (refresh_nodes sites nodes) (\<lambda>(r, u). act_ret (Suc r, u)) v))"
      using True v by (simp add: e act_bind_app [of "act_get _"] act_get_app act_then_app split: sum.splits)
    then show ?thesis using m v b [of "\<lambda>r u. (Suc r, u)" v] same_hub_trans [of hub] by (cases r) auto
  qed
qed (simp add: act_ret_app same_hub_refl)

lemma refresh_routes_keeps:
  assumes "n_up w hub" and "registry w hub NODE_REGISTRY_PATH rows" and "registry w hub SITE_REGISTRY_PATH srows"
    and "\<forall>e \<in> set (List.map_filter node_row rows). fst (snd e) \<noteq> hub"
  shows "\<forall>p rs. registry (snd (refresh_routes hub None w)) hub p rs = registry w hub p rs"
    and "n_up (snd (refresh_routes hub None w)) = n_up w"
    and "n_peers (snd (refresh_routes hub None w)) hub = n_peers w hub"
    and "n_wg_routes (snd (refresh_routes hub None w)) hub = n_wg_routes w hub"
proof -
  let ?w1 = "touched hub NODE_REGISTRY_PATH w" and ?w2 = "touched hub SITE_REGISTRY_PATH (touched hub NODE_REGISTRY_PATH w)"
  let ?nodes = "List.map_filter node_row rows" and ?sites = "site_dict (List.map_filter pair_row srows)"
  have l: "list_nodes hub None w = (Inr ?nodes, ?w1)" by (simp add: list_nodes_rows [OF assms(1,2)])
  have s: "list_other_sites hub None ?w1 = (Inr (List.map_filter pair_row srows), ?w2)"
    using list_other_sites_rows [of ?w1 hub srows None] assms(1,3) by simp
  have r: "refresh_routes hub None w = (if ?nodes = [] then (Inr (0, 0), ?w1) else refresh_nodes ?sites ?nodes ?w2)"
    by (simp add: refresh_routes_def act_bind_app act_ret_app l s)
  have k: "same_hub hub (snd (refresh_nodes ?sites ?nodes ?w2)) ?w2" by (rule refresh_nodes_keeps) (use assms(4) in auto)
  have reg: "registry (snd (refresh_nodes ?sites ?nodes ?w2)) hub p rs = registry ?w2 hub p rs" for p rs
    using k by (simp add: same_hub_def registry_def)
  show "\<forall>p rs. registry (snd (refresh_routes hub None w)) hub p rs = registry w hub p rs"
    unfolding r using reg by simp
  show "n_up (snd (refresh_routes hub None w)) = n_up w" "n_peers (snd (refresh_routes hub None w)) hub = n_peers w hub"
    "n_wg_routes (snd (refresh_routes hub None w)) hub = n_wg_routes w hub"
    unfolding r using k by (simp_all add: same_hub_def)
qed

definition peer_key :: "string \<Rightarrow> string \<Rightarrow> net \<Rightarrow> string" where
  "peer_key hub s w = block_pubkey (peer_marker s) (fst (nl_lines (text_at (n_files w hub) WG_CONF_PATH)))"

definition has_peer :: "string \<Rightarrow> string \<Rightarrow> net \<Rightarrow> bool" where
  "has_peer hub s w = (peer_marker s \<in> set (fst (nl_lines (text_at (n_files w hub) WG_CONF_PATH))))"

lemma remove_peer_keeps:
  assumes "n_up w hub" and "remove_peer_from_hub hub s w = (r, w')"
  shows "r = Inr () \<and> n_up w' = n_up w \<and> n_wg_routes w' = n_wg_routes w \<and>
     (\<forall>p rs. p \<noteq> WG_CONF_PATH \<longrightarrow> registry w' hub p rs = registry w hub p rs) \<and>
     (has_peer hub s w \<longrightarrow> peer_key hub s w \<noteq> [] \<longrightarrow> peer_key hub s w \<notin> fst ` set (n_peers w' hub))"
  using assms
proof -
  define ls where "ls = fst (nl_lines (text_at (n_files w hub) WG_CONF_PATH))"
  define k where "k = block_pubkey (peer_marker s) ls"
  have w': "r = Inr ()" "w' = (if peer_marker s \<notin> set ls then w
      else files_upd hub (\<lambda>f. f(WG_CONF_PATH := Some (drop_block (peer_marker s) (text_at f WG_CONF_PATH))))
             (if k \<noteq> [] then w\<lparr>n_peers := (n_peers w)(hub := AList.delete k (n_peers w hub))\<rparr> else w))"
    using assms by (simp_all add: remove_peer_from_hub_def ssh_nocheck_def Let_def ls_def k_def split: if_splits)
  have "peer_marker s \<in> set ls \<longrightarrow> k \<noteq> [] \<longrightarrow> k \<notin> fst ` set (n_peers w' hub)"
  proof (intro impI)
    assume "peer_marker s \<in> set ls" "k \<noteq> []"
    then have e: "n_peers w' hub = AList.delete k (n_peers w hub)" by (simp add: w')
    show "k \<notin> fst ` set (n_peers w' hub)" unfolding e by (rule delete_notin_dom)
  qed
  moreover have "n_up w' = n_up w \<and> n_wg_routes w' = n_wg_routes w" by (simp add: w')
  moreover have "p \<noteq> WG_CONF_PATH \<Longrightarrow> registry w' hub p rs = registry w hub p rs" for p rs
    by (simp add: w' registry_def)
  ultimately show ?thesis using w'(1) unfolding has_peer_def peer_key_def ls_def k_def by blast
qed


section \<open>Routes of the nodes, and what is left behind\<close>

definition wanted_script :: "(string \<times> string) list \<Rightarrow> string \<Rightarrow> string \<Rightarrow> string option" where
  "wanted_script sites site gateway =
     (if other_cidrs sites site = [] then None else Some (route_script (other_cidrs sites site) gateway))"

lemma push_node:
  assumes "n_up w n"
  shows "\<exists>v. (if other_cidrs sites s \<noteq> [] then ensure_route_via_site_gateway n g (other_cidrs sites s) else drop_routes n) w = (Inr (), v) \<and>
     n_up v = n_up w \<and> n_files v n ROUTES_SCRIPT_PATH = wanted_script sites s g \<and> (\<forall>h. h \<noteq> n \<longrightarrow> n_files v h = n_files w h)"
proof -
  have "ROUTES_UNIT_PATH \<noteq> ROUTES_SCRIPT_PATH" unfolding path_defs by code_simp
  then show ?thesis
    using assms by (auto simp: ensure_route_via_site_gateway_def drop_routes_def act_then_app ssh_write_def ssh_def
        ssh_nocheck_def unit_enable_def wanted_script_def)
qed

lemma refresh_nodes_scripts:
  assumes "distinct (map (\<lambda>e. fst (snd e)) nodes)"
  shows "\<exists>r u v. refresh_nodes sites nodes w = (Inr (r, u), v) \<and> r + u = length nodes \<and>
     u = length (filter (\<lambda>e. \<not> n_up w (fst (snd e))) nodes) \<and> n_up v = n_up w \<and>
     (\<forall>(s, n, g) \<in> set nodes. n_up w n \<longrightarrow> n_files v n ROUTES_SCRIPT_PATH = wanted_script sites s g) \<and>
     (\<forall>h. h \<notin> (\<lambda>e. fst (snd e)) ` set nodes \<or> \<not> n_up w h \<longrightarrow> n_files v h = n_files w h)"
  using assms
proof (induction nodes arbitrary: w)
  case (Cons e nodes)
  obtain s n g where e: "e = (s, n, g)" by (cases e)
  have d: "distinct (map (\<lambda>e. fst (snd e)) nodes)" "n \<notin> (\<lambda>e. fst (snd e)) ` set nodes" using Cons.prems e by auto
  show ?case
  proof (cases "n_up w n")
    case False
    obtain r u v where IH: "refresh_nodes sites nodes w = (Inr (r, u), v)" "r + u = length nodes"
      "u = length (filter (\<lambda>e. \<not> n_up w (fst (snd e))) nodes)" "n_up v = n_up w"
      "\<forall>(s, n, g) \<in> set nodes. n_up w n \<longrightarrow> n_files v n ROUTES_SCRIPT_PATH = wanted_script sites s g"
      "\<forall>h. h \<notin> (\<lambda>e. fst (snd e)) ` set nodes \<or> \<not> n_up w h \<longrightarrow> n_files v h = n_files w h"
      using Cons.IH [OF d(1), of w] by blast
    have f1: "refresh_nodes sites (e # nodes) w = (Inr (r, Suc u), v)"
      using False IH(1) by (simp add: e act_bind_app act_get_app act_ret_app)
    have f2: "r + Suc u = length (e # nodes)" and f3: "Suc u = length (filter (\<lambda>e. \<not> n_up w (fst (snd e))) (e # nodes))"
      using IH(2,3) False e by simp_all
    have f4: "\<forall>(s, n, g) \<in> set (e # nodes). n_up w n \<longrightarrow> n_files v n ROUTES_SCRIPT_PATH = wanted_script sites s g"
      using IH(5) False e by auto
    have f5: "\<forall>h. h \<notin> (\<lambda>e. fst (snd e)) ` set (e # nodes) \<or> \<not> n_up w h \<longrightarrow> n_files v h = n_files w h" using IH(6) by auto
    show ?thesis by (intro exI conjI) (rule f1 f2 f3 f4 f5 IH(4))+
  next
    case True
    obtain x where x: "(if other_cidrs sites s \<noteq> [] then ensure_route_via_site_gateway n g (other_cidrs sites s) else drop_routes n) w = (Inr (), x)"
      "n_up x = n_up w" "n_files x n ROUTES_SCRIPT_PATH = wanted_script sites s g" "\<forall>h. h \<noteq> n \<longrightarrow> n_files x h = n_files w h"
      using push_node [OF True] by blast
    obtain r u v where IH: "refresh_nodes sites nodes x = (Inr (r, u), v)" "r + u = length nodes"
      "u = length (filter (\<lambda>e. \<not> n_up x (fst (snd e))) nodes)" "n_up v = n_up x"
      "\<forall>(s, n, g) \<in> set nodes. n_up x n \<longrightarrow> n_files v n ROUTES_SCRIPT_PATH = wanted_script sites s g"
      "\<forall>h. h \<notin> (\<lambda>e. fst (snd e)) ` set nodes \<or> \<not> n_up x h \<longrightarrow> n_files v h = n_files x h"
      using Cons.IH [OF d(1), of x] by blast
    have f1: "refresh_nodes sites (e # nodes) w = (Inr (Suc r, u), v)"
      using True x(1) IH(1) by (simp add: e act_bind_app act_get_app act_ret_app act_then_app)
    have f2: "Suc r + u = length (e # nodes)" and f3: "u = length (filter (\<lambda>e. \<not> n_up w (fst (snd e))) (e # nodes))"
      using IH(2,3) True x(2) e by simp_all
    have f4: "\<forall>(s, n, g) \<in> set (e # nodes). n_up w n \<longrightarrow> n_files v n ROUTES_SCRIPT_PATH = wanted_script sites s g"
      using IH(5,6) x(2,3) d(2) e by auto
    have f5: "\<forall>h. h \<notin> (\<lambda>e. fst (snd e)) ` set (e # nodes) \<or> \<not> n_up w h \<longrightarrow> n_files v h = n_files w h"
      using IH(6) x(2,4) True e by auto
    have f6: "n_up v = n_up w" using IH(4) x(2) by simp
    show ?thesis by (intro exI conjI) (rule f1 f2 f3 f4 f5 f6)+
  qed
qed (simp add: act_ret_app)

text \<open>Refreshing the routes: every registered node is counted once, as refreshed or unreachable; a node
  that is reached is left with a route script for exactly the subnets of the other sites, through
  its own gateway, or with none when no other site is left; no other host's files change but the
  hub's registries.\<close>

theorem refresh_writes_scripts:
  assumes "n_up w hub" and "registry w hub NODE_REGISTRY_PATH rows" and "registry w hub SITE_REGISTRY_PATH srows"
    and "distinct (map (\<lambda>e. fst (snd e)) (List.map_filter node_row rows))" and "(s, n, g) \<in> set (List.map_filter node_row rows)"
  shows "\<exists>r u v. refresh_routes hub None w = (Inr (r, u), v) \<and> r + u = length (List.map_filter node_row rows) \<and>
     (n_up w n \<longrightarrow> n_files v n ROUTES_SCRIPT_PATH = wanted_script (site_dict (List.map_filter pair_row srows)) s g) \<and>
     (\<forall>h. h \<noteq> hub \<and> h \<notin> (\<lambda>e. fst (snd e)) ` set (List.map_filter node_row rows) \<longrightarrow> n_files v h = n_files w h)"
proof -
  let ?w1 = "touched hub NODE_REGISTRY_PATH w" and ?w2 = "touched hub SITE_REGISTRY_PATH (touched hub NODE_REGISTRY_PATH w)"
  let ?nodes = "List.map_filter node_row rows" and ?sites = "site_dict (List.map_filter pair_row srows)"
  have l: "list_nodes hub None w = (Inr ?nodes, ?w1)" by (simp add: list_nodes_rows [OF assms(1,2)])
  have q: "list_other_sites hub None ?w1 = (Inr (List.map_filter pair_row srows), ?w2)"
    using list_other_sites_rows [of ?w1 hub srows None] assms(1,3) by simp
  have ne: "?nodes \<noteq> []" using assms(5) by auto
  have r: "refresh_routes hub None w = refresh_nodes ?sites ?nodes ?w2"
    using ne by (simp add: refresh_routes_def act_bind_app l q)
  have f: "n_files ?w2 h = n_files w h" if "h \<noteq> hub" for h using that by (simp add: touched_def)
  show ?thesis
    unfolding r using refresh_nodes_scripts [OF assms(4), of ?sites ?w2] assms(5) f by fastforce
qed

text \<open>
  The scripts are not run, though, on a node whose unit is already active, which is every node that
  was routed before: its routes stay what they were, also those to a site that is gone.
\<close>

theorem active_node_keeps_routes:
  assumes "n_unit w n"
  shows "n_routes (snd (ensure_route_via_site_gateway n g cs w)) = n_routes w"
    and "n_routes (snd (drop_routes n w)) = n_routes w"
  using assms
  by (simp_all add: ensure_route_via_site_gateway_def drop_routes_def act_then_app act_ret_app ssh_write_def ssh_def
      ssh_nocheck_def unit_enable_def)

text \<open>
  A gateway that joins again with a new key keeps its old block in the hub's configuration.
\<close>

theorem rejoined_peer_keeps_block:
  assumes "n_up w hub" and "n_wg w hub" and "has_peer hub s w"
  shows "n_files (snd (add_peer_to_hub hub s key cidrs w)) hub = n_files w hub"
proof -
  have loop: "n_files (snd (act_for cs (\<lambda>cidr. ssh_wg hub (route_replace hub cidr)) v)) hub = n_files v hub" for cs v
  proof (rule act_for_keeps [where P = "\<lambda>u. n_files u hub = n_files v hub"])
    show "n_files (snd (ssh_wg hub (route_replace hub x) u)) hub = n_files v hub" if "n_files u hub = n_files v hub" for x u
      using that by (simp add: ssh_wg_def route_replace_def)
  qed simp
  show ?thesis
    using assms loop by (simp add: add_peer_to_hub_def act_bind_app act_get_app act_then_app act_ret_app ssh_wg_def [of _ "\<lambda>w. _ w"] has_peer_def)
qed

section \<open>A small overlay\<close>

definition sample_rows :: "string \<Rightarrow> string list list" where
  "sample_rows p =
     (if p = SITE_REGISTRY_PATH then [[''home'', ''192.168.88.0/24''], [''aws-a'', ''10.1.0.0/16'']]
      else if p = ALLOC_PATH then [[''aws-a'', ''10.99.0.2'']]
      else if p = NODE_REGISTRY_PATH then [[''home'', ''n1.lab'', ''192.168.88.1''], [''aws-a'', ''n2.lab'', ''10.1.0.1'']]
      else if p = DNS_REGISTRY_PATH then [[''home'', ''192.168.88.1'', ''lab'']] else [])"

definition sample_net :: net where
  "sample_net = \<lparr>n_up = (\<lambda>h. h \<noteq> ''dead''),
     n_files = (\<lambda>h p. if h = ''hub'' \<and> p \<in> set REGISTRIES then Some (reg_text (sample_rows p))
                      else if h = ''hub'' \<and> p = WG_CONF_PATH then Some (unlines [''[Interface]'', ''PrivateKey = h''] @ peer_block ''aws-a'' ''K1'' ''10.99.0.2/32,10.1.0.0/16'')
                      else None),
     n_wg = (\<lambda>h. True), n_peers = (\<lambda>h. [(''K1'', [''10.99.0.2/32'', ''10.1.0.0/16''])]), n_wg_routes = (\<lambda>h. [''10.1.0.0/16'']),
     n_routes = (\<lambda>h. []), n_unit = (\<lambda>h. False), n_keygen = (\<lambda>h. (''priv'', ''pub''))\<rparr>"

lemma sample_registries: "\<forall>p \<in> set REGISTRIES. registry sample_net ''hub'' p (sample_rows p)"
  by code_simp

lemma sample_registry:
  "registry sample_net ''hub'' SITE_REGISTRY_PATH [[''home'', ''192.168.88.0/24''], [''aws-a'', ''10.1.0.0/16'']]"
  "registry sample_net ''hub'' NODE_REGISTRY_PATH [[''home'', ''n1.lab'', ''192.168.88.1''], [''aws-a'', ''n2.lab'', ''10.1.0.1'']]"
  "registry sample_net ''hub'' DNS_REGISTRY_PATH [[''home'', ''192.168.88.1'', ''lab'']]"
  "n_up sample_net ''hub''"
  by code_simp+

theorem site_registered_once_witness:
  "\<exists>es. fst (list_other_sites ''hub'' None (snd (register_site ''hub'' ''gcp'' ''10.2.0.0/16'' sample_net))) =
     Inr (filter (\<lambda>e. fst e \<noteq> ''gcp'') es @ [(''gcp'', ''10.2.0.0/16'')])"
  using site_registered_once [OF sample_registry(4,1), of "''gcp''" "''10.2.0.0/16''", OF _ _ prod.collapse [symmetric]]
  by (simp add: token_def is_space_def code_def) blast

theorem dns_server_for_its_domain_witness:
  "\<exists>es'. fst (list_dns_servers ''hub'' None ''lab'' (snd (register_dns_server ''hub'' ''gcp'' ''10.2.0.1'' ''other'' sample_net))) = Inr es' \<and>
     filter (\<lambda>e. fst e = ''gcp'') es' = []"
proof -
  have t: "token ''gcp''" "token ''10.2.0.1''" "token ''other''" by (simp_all add: token_def is_space_def code_def)
  show ?thesis
    using dns_server_for_its_domain [OF sample_registry(4,3) t prod.collapse [symmetric], of None "''lab''"] by auto
qed

theorem overlay_address_allocated_witness:
  "\<exists>es'. allocations (snd (allocate_overlay_ip ''hub'' ''gcp'' ''10.99.0.0/29'' sample_net)) ''hub'' (174260224, 29) es' \<and>
     fst (allocate_overlay_ip ''hub'' ''gcp'' ''10.99.0.0/29'' sample_net) = Inr ''10.99.0.3''"
proof -
  have c: "cidr_network ''10.99.0.0/29'' = Inr (174260224, 29)" "2 \<le> net_size (174260224, 29)" by code_simp+
  have a: "allocations sample_net ''hub'' (174260224, 29) [(''aws-a'', 174260226)]" by code_simp
  have t: "token ''gcp''" by (simp add: token_def is_space_def code_def)
  have r: "fst (allocate_overlay_ip ''hub'' ''gcp'' ''10.99.0.0/29'' sample_net) = Inr ''10.99.0.3''" by code_simp
  show ?thesis
    using overlay_address_allocated [OF sample_registry(4) c a t prod.collapse [symmetric]] r by blast
qed


text \<open>The dot of a site's name is not escaped, as it is for a node's: retiring the site takes another site's line with it.\<close>

lemma dotted_site_takes_others:
  "site_line ''gcp-lab.a'' ''gcp-lab.a 10.1.0.0/16''" "site_line ''gcp-lab.a'' ''gcp-lab-a 10.2.0.0/16''"
  by code_simp+

theorem refresh_writes_scripts_witness:
  "\<exists>v. snd (refresh_routes ''hub'' None sample_net) = v \<and>
     n_files v ''n1.lab'' ROUTES_SCRIPT_PATH = Some (route_script [''10.1.0.0/16''] ''192.168.88.1'')"
proof -
  have d: "distinct (map (\<lambda>e. fst (snd e)) (List.map_filter node_row [[''home'', ''n1.lab'', ''192.168.88.1''], [''aws-a'', ''n2.lab'', ''10.1.0.1'']]))"
    "(''home'', ''n1.lab'', ''192.168.88.1'') \<in> set (List.map_filter node_row [[''home'', ''n1.lab'', ''192.168.88.1''], [''aws-a'', ''n2.lab'', ''10.1.0.1'']])"
    by code_simp+
  have u: "n_up sample_net ''n1.lab''" by code_simp
  have s: "wanted_script (site_dict (List.map_filter pair_row [[''home'', ''192.168.88.0/24''], [''aws-a'', ''10.1.0.0/16'']])) ''home'' ''192.168.88.1''
      = Some (route_script [''10.1.0.0/16''] ''192.168.88.1'')" by code_simp
  obtain r c v where v: "refresh_routes ''hub'' None sample_net = (Inr (r, c), v)"
    "n_files v ''n1.lab'' ROUTES_SCRIPT_PATH =
       wanted_script (site_dict (List.map_filter pair_row [[''home'', ''192.168.88.0/24''], [''aws-a'', ''10.1.0.0/16'']])) ''home'' ''192.168.88.1''"
    using refresh_writes_scripts [OF sample_registry(4,2,1) d] u by blast
  show ?thesis unfolding v(1) snd_conv using v(2) unfolding s by blast
qed

text \<open>After a reboot of the hub, a gateway that came back with a new key is configured with its old one.\<close>

theorem rejoined_peer_lost:
  "map fst (n_peers (wg_up ''hub'' (snd (add_peer_to_hub ''hub'' ''aws-a'' ''K2'' [''10.99.0.2/32'', ''10.1.0.0/16''] sample_net))) ''hub'') = [''K1'']"
  by code_simp

end
