(* ===== verification/Schema_Check.thy ===== *)
theory Schema_Check
  imports Py_Regex
begin

text \<open>
  \<open>libs/schema_validate.py\<close>: a lab definition's values against the schema that declares them.

  A finding is its severity, the dotted path of the value and what is wrong with it. A field is a
  dict, as the schema file gives it; one whose bounds, pattern or enum are of the wrong kind makes
  the code raise, which is a branch here. \<open>field_ok\<close> is a field that does not.
\<close>

section \<open>One value\<close>

datatype finding = Finding (f_severity: string) (f_where: string) (f_message: string)

definition PLACEHOLDER_PREFIX :: string where "PLACEHOLDER_PREFIX = ''??''"
definition TRUE_TEXTS :: "string list" where "TRUE_TEXTS = [''1'', ''true'', ''yes'']"
definition FALSE_TEXTS :: "string list" where "FALSE_TEXTS = [''0'', ''false'', ''no'']"

fun absent :: "pval \<Rightarrow> bool" where
  "absent PNone = True"
| "absent (PStr s) = (str_strip s = [])"
| "absent (PList xs) = (xs = [])"
| "absent (PDict d) = (d = [])"
| "absent _ = False"

definition is_placeholder :: "pval \<Rightarrow> bool" where
  "is_placeholder v = (case v of PStr s \<Rightarrow> starts_with (str_strip s) PLACEHOLDER_PREFIX | _ \<Rightarrow> False)"

fun as_int :: "pval \<Rightarrow> int option" where
  "as_int (PInt i) = Some i"
| "as_int (PStr s) = py_int (str_strip s)"
| "as_int _ = None"

definition enum_values :: "dict \<Rightarrow> pval list res" where
  "enum_values field =
     res_bind (or_list (get field ''enum'')) (\<lambda>es.
     Inr (map (\<lambda>e. case e of PDict d \<Rightarrow> get d ''value'' | _ \<Rightarrow> e) es))"

definition in_enum :: "pval \<Rightarrow> pval list \<Rightarrow> bool" where
  "in_enum value values = (py_in value values \<or> py_str value \<in> py_str ` set values)"

definition enum_finding :: "dict \<Rightarrow> pval \<Rightarrow> string \<Rightarrow> finding option res" where
  "enum_finding field value wh =
     res_bind (enum_values field) (\<lambda>values.
     if values = [] \<or> in_enum value values then Inr None
     else Inr (Some (Finding ''error'' wh (sq (py_str value) @ '' is not one of '' @
                 join '', '' (filter (\<lambda>t. t \<noteq> []) (map py_str values))))))"

text \<open>A bound: \<open>field.get("min", 1 if kind == "port" else None)\<close>, compared with an int.\<close>

definition bound_of :: "dict \<Rightarrow> string \<Rightarrow> string \<Rightarrow> int \<Rightarrow> pval" where
  "bound_of field key kind port = get_dflt field key (if kind = ''port'' then PInt port else PNone)"

definition bound_val :: "pval \<Rightarrow> int option res" where
  "bound_val b = (case b of PNone \<Rightarrow> Inr None
     | _ \<Rightarrow> (case num_val b of Some i \<Rightarrow> Inr (Some i) | None \<Rightarrow> Inl (TypeError ''not ordered'')))"

definition number_finding :: "dict \<Rightarrow> pval \<Rightarrow> string \<Rightarrow> string \<Rightarrow> finding option res" where
  "number_finding field value wh kind =
     (case as_int value of
        None \<Rightarrow> Inr (Some (Finding ''error'' wh (sq (py_str value) @ '' is not '' @
                  (if kind = ''integer'' then ''a whole number'' else ''a port number''))))
      | Some n \<Rightarrow>
          (let low = bound_of field ''min'' kind 1; high = bound_of field ''max'' kind 65535 in
           res_bind (bound_val low) (\<lambda>lo.
           if (case lo of Some b \<Rightarrow> n < b | None \<Rightarrow> False) then
             Inr (Some (Finding ''error'' wh (int_str n @ '' is below the minimum '' @ py_str low)))
           else res_bind (bound_val high) (\<lambda>hi.
             if (case hi of Some b \<Rightarrow> n > b | None \<Rightarrow> False) then
               Inr (Some (Finding ''error'' wh (int_str n @ '' is above the maximum '' @ py_str high)))
             else Inr None))))"

definition bool_text :: "pval \<Rightarrow> string" where
  "bool_text value = str_lower (str_strip (py_str value))"

definition boolean_finding :: "pval \<Rightarrow> string \<Rightarrow> finding option" where
  "boolean_finding value wh =
     (case value of
        PBool _ \<Rightarrow> None
      | _ \<Rightarrow>
          if bool_text value \<in> set TRUE_TEXTS then
            Some (Finding ''warning'' wh (sq (py_str value) @ '' is a quoted boolean; write it unquoted as true''))
          else if bool_text value \<in> set FALSE_TEXTS then
            Some (Finding ''warning'' wh (sq (py_str value) @ '' is a quoted boolean and some fields read any non-empty value as '' @
                    ''true; write it unquoted as false, or leave it out''))
          else Some (Finding ''error'' wh (sq (py_str value) @ '' is not a boolean (true or false)'')))"

definition pattern_finding :: "dict \<Rightarrow> pval \<Rightarrow> string \<Rightarrow> finding option res" where
  "pattern_finding field value wh =
     (let pattern = get field ''pattern'' in
      if \<not> truthy pattern then Inr None
      else case pattern of
        PStr p \<Rightarrow>
          (case rx_parse p of
             None \<Rightarrow> Inl (RegexError p)
           | Some r \<Rightarrow>
               if rx_match r (py_str value) = None then
                 Inr (Some (Finding ''error'' wh (sq (py_str value) @ '' does not match the form this field takes ('' @ p @ '')'')))
               else Inr None)
      | _ \<Rightarrow> Inl (TypeError ''pattern''))"

definition field_kind :: "dict \<Rightarrow> pval" where
  "field_kind field = py_or (get field ''type'') (PStr ''string'')"

definition value_finding :: "dict \<Rightarrow> pval \<Rightarrow> string \<Rightarrow> finding option res" where
  "value_finding field value wh0 =
     (let wh = (if wh0 \<noteq> [] then wh0 else py_str (get_dflt field ''name'' (PStr []))); kind = field_kind field in
      if absent value \<or> is_placeholder value then Inr None
      else if kind = PStr ''integer'' \<or> kind = PStr ''port'' then number_finding field value wh (str_of kind)
      else if kind = PStr ''boolean'' then Inr (boolean_finding value wh)
      else if kind = PStr ''array'' then
        Inr (case value of PList _ \<Rightarrow> None | _ \<Rightarrow> Some (Finding ''error'' wh (sq (py_str value) @ '' is not a list'')))
      else if kind = PStr ''object'' then
        Inr (case value of PDict _ \<Rightarrow> None
             | _ \<Rightarrow> Some (Finding ''error'' wh (sq (py_str value) @ '' is not a mapping of name to value'')))
      else res_bind (enum_finding field value wh) (\<lambda>found.
        if found \<noteq> None then Inr found else pattern_finding field value wh))"

section \<open>Sections\<close>

text \<open>
  \<open>{f.get("name"): f ...}\<close> over the fields that have a name; a name that is no text is no key of
  the section, unless it cannot be hashed, which raises.
\<close>

fun named_fields :: "pval list \<Rightarrow> (string \<times> dict) list \<Rightarrow> (string \<times> dict) list res" where
  "named_fields [] acc = Inr acc"
| "named_fields (f # fs) acc =
     (case f of
        PDict d \<Rightarrow>
          (case get d ''name'' of
             PStr n \<Rightarrow> named_fields fs (if n \<noteq> [] then AList.update n d acc else acc)
           | v \<Rightarrow> if truthy v \<and> \<not> hashable v then Inl (TypeError ''unhashable type'') else named_fields fs acc)
      | _ \<Rightarrow> named_fields fs acc)"

definition path_of :: "string \<Rightarrow> string \<Rightarrow> string" where
  "path_of wh name = (if wh \<noteq> [] then wh @ ''.'' @ name else name)"

fun check_fields :: "(string \<times> dict) list \<Rightarrow> dict \<Rightarrow> string \<Rightarrow> string list \<Rightarrow> finding list res" where
  "check_fields [] cfg wh skip = Inr []"
| "check_fields ((name, field) # rest) cfg wh skip =
     (case map_of cfg name of
        None \<Rightarrow> check_fields rest cfg wh skip
      | Some v \<Rightarrow>
          if name \<in> set skip then check_fields rest cfg wh skip
          else res_bind (value_finding field v (path_of wh name)) (\<lambda>found.
               res_bind (check_fields rest cfg wh skip) (\<lambda>more.
               Inr ((case found of None \<Rightarrow> [] | Some f \<Rightarrow> [f]) @ more))))"

definition section_findings :: "pval list \<Rightarrow> dict \<Rightarrow> string \<Rightarrow> string list \<Rightarrow> finding list res" where
  "section_findings fields cfg wh skip =
     res_bind (named_fields fields []) (\<lambda>by_name. check_fields by_name cfg wh skip)"

text \<open>The fields of a section, nested in groups to any depth.\<close>

fun walk_fields :: "pval \<Rightarrow> pval list" where
  "walk_fields (PList xs) = concat (map walk_fields xs)"
| "walk_fields (PDict d) =
     (if is_str (get d ''name'') \<and> is_str (get d ''type'') then [PDict d]
      else concat (map (\<lambda>(k, v). walk_fields v) d))"
| "walk_fields _ = []"

definition section_fields :: "pval \<Rightarrow> pval list res" where
  "section_fields section = res_bind (or_dict section) (\<lambda>s. Inr (walk_fields (get s ''fields'')))"

fun entries_findings :: "pval list \<Rightarrow> string \<Rightarrow> string list \<Rightarrow> (string \<times> pval) list \<Rightarrow> finding list res" where
  "entries_findings fields name skip [] = Inr []"
| "entries_findings fields name skip ((key, cfg) # rest) =
     res_bind (case cfg of PDict d \<Rightarrow> section_findings fields d (name @ ''.'' @ key) skip | _ \<Rightarrow> Inr []) (\<lambda>here.
     res_bind (entries_findings fields name skip rest) (\<lambda>more. Inr (here @ more)))"

definition single_findings :: "dict \<Rightarrow> dict \<Rightarrow> string list \<Rightarrow> string \<Rightarrow> finding list res" where
  "single_findings defn sections skip name =
     (case get defn name of
        PDict cfg \<Rightarrow> res_bind (section_fields (get sections name)) (\<lambda>fields. section_findings fields cfg name skip)
      | _ \<Rightarrow> Inr [])"

definition group_findings :: "dict \<Rightarrow> dict \<Rightarrow> string list \<Rightarrow> string \<Rightarrow> finding list res" where
  "group_findings defn sections skip name =
     res_bind (section_fields (get sections name)) (\<lambda>fields.
     res_bind (or_dict (get defn name)) (\<lambda>entries. entries_findings fields name skip entries))"

definition definition_findings :: "dict \<Rightarrow> dict \<Rightarrow> string list \<Rightarrow> finding list res" where
  "definition_findings defn base_schema skip =
     res_bind (or_dict (get base_schema ''sections'')) (\<lambda>sections.
     res_bind (single_findings defn sections skip ''common'') (\<lambda>a.
     res_bind (single_findings defn sections skip ''pxe'') (\<lambda>b.
     res_bind (group_findings defn sections skip ''nodes'') (\<lambda>c.
     res_bind (group_findings defn sections skip ''kclusters'') (\<lambda>d.
     Inr (a @ b @ c @ d))))))"

definition entry_findings :: "string \<Rightarrow> pval list \<Rightarrow> string \<Rightarrow> pval \<Rightarrow> finding list res" where
  "entry_findings section fields node entry =
     (case entry of
        PDict e \<Rightarrow> (case get e section of
                      PDict cfg \<Rightarrow> section_findings fields cfg (''nodes.'' @ node @ ''.addons.'' @ section) []
                    | _ \<Rightarrow> Inr [])
      | _ \<Rightarrow> Inr [])"

definition addon_findings :: "dict \<Rightarrow> string \<Rightarrow> pval list \<Rightarrow> finding list res" where
  "addon_findings defn section fields =
     res_bind (case get defn section of PDict cfg \<Rightarrow> section_findings fields cfg section [] | _ \<Rightarrow> Inr []) (\<lambda>own.
     res_bind (or_dict (get defn ''nodes'')) (\<lambda>nodes.
     res_bind (res_map (\<lambda>(node, cfg). res_bind (or_dict cfg) (\<lambda>c. res_bind (or_list (get c ''addons'')) (\<lambda>es.
                 res_bind (res_map (entry_findings section fields node) es) (\<lambda>fs. Inr (concat fs))))) nodes) (\<lambda>more.
     Inr (own @ concat more))))"

section \<open>What a field accepts\<close>

text \<open>A field the checker can read: an enum that is a list, bounds that are numbers, a pattern that compiles.\<close>

definition field_ok :: "dict \<Rightarrow> bool" where
  "field_ok field =
     (is_ok (enum_values field) \<and>
      list_all (\<lambda>kind. is_ok (bound_val (bound_of field ''min'' kind 1)) \<and> is_ok (bound_val (bound_of field ''max'' kind 65535)))
        [''integer'', ''port''] \<and>
      (case get field ''pattern'' of PStr p \<Rightarrow> p = [] \<or> rx_parse p \<noteq> None | v \<Rightarrow> \<not> truthy v))"

definition within :: "pval \<Rightarrow> pval \<Rightarrow> int \<Rightarrow> bool" where
  "within low high n =
     ((case num_val low of Some b \<Rightarrow> b \<le> n | None \<Rightarrow> True) \<and> (case num_val high of Some b \<Rightarrow> n \<le> b | None \<Rightarrow> True))"

definition matches_form :: "dict \<Rightarrow> pval \<Rightarrow> bool" where
  "matches_form field v =
     (case get field ''pattern'' of
        PStr p \<Rightarrow> p = [] \<or> (case rx_parse p of Some r \<Rightarrow> rx_match r (py_str v) \<noteq> None | None \<Rightarrow> False)
      | _ \<Rightarrow> True)"

text \<open>What the schema declares a value of the field may be.\<close>

definition conforms :: "dict \<Rightarrow> pval \<Rightarrow> bool" where
  "conforms field v =
     (case str_of (field_kind field) of
        kind \<Rightarrow>
          if kind = ''integer'' \<or> kind = ''port'' then
            (case as_int v of Some n \<Rightarrow> within (bound_of field ''min'' kind 1) (bound_of field ''max'' kind 65535) n | None \<Rightarrow> False)
          else if kind = ''boolean'' then (case v of PBool _ \<Rightarrow> True | _ \<Rightarrow> False)
          else if kind = ''array'' then (case v of PList _ \<Rightarrow> True | _ \<Rightarrow> False)
          else if kind = ''object'' then is_dict v
          else (case enum_values field of Inr values \<Rightarrow> values = [] \<or> in_enum v values | Inl _ \<Rightarrow> False) \<and> matches_form field v)"

lemma bound_val_num: "is_ok (bound_val b) \<Longrightarrow> bound_val b = Inr (num_val b)"
  by (cases b) (auto simp: bound_val_def)

lemma number_exact:
  assumes "is_ok (bound_val (bound_of field ''min'' kind 1))" and "is_ok (bound_val (bound_of field ''max'' kind 65535))"
  shows "\<exists>r. number_finding field v wh kind = Inr r \<and> (\<forall>f. r = Some f \<longrightarrow> f_severity f = ''error'') \<and>
     (r = None \<longleftrightarrow> (case as_int v of Some n \<Rightarrow> within (bound_of field ''min'' kind 1) (bound_of field ''max'' kind 65535) n | None \<Rightarrow> False))"
  using bound_val_num [OF assms(1)] bound_val_num [OF assms(2)]
  by (auto simp: number_finding_def within_def Let_def split: option.splits)

lemma boolean_exact:
  "(boolean_finding v wh = None \<longleftrightarrow> (case v of PBool _ \<Rightarrow> True | _ \<Rightarrow> False)) \<and>
   (\<forall>f. boolean_finding v wh = Some f \<longrightarrow> (f_severity f = ''warning'' \<longleftrightarrow> bool_text v \<in> set TRUE_TEXTS \<union> set FALSE_TEXTS))"
  by (cases v) (simp_all add: boolean_finding_def)

lemma enum_exact:
  assumes "enum_values field = Inr vals"
  shows "\<exists>r. enum_finding field v wh = Inr r \<and> (r = None \<longleftrightarrow> vals = [] \<or> in_enum v vals) \<and>
     (\<forall>f. r = Some f \<longrightarrow> f_severity f = ''error'')"
  using assms by (auto simp: enum_finding_def)

lemma pattern_exact:
  assumes "case get field ''pattern'' of PStr p \<Rightarrow> p = [] \<or> rx_parse p \<noteq> None | v \<Rightarrow> \<not> truthy v"
  shows "\<exists>r. pattern_finding field v wh = Inr r \<and> (r = None \<longleftrightarrow> matches_form field v) \<and>
     (\<forall>f. r = Some f \<longrightarrow> f_severity f = ''error'')"
proof (cases "get field ''pattern''")
  case (PStr p)
  show ?thesis
  proof (cases "p = []")
    case False
    then obtain r where r: "rx_parse p = Some r" using assms PStr by auto
    with False show ?thesis by (cases "rx_match r (py_str v)") (simp_all add: pattern_finding_def matches_form_def PStr)
  qed (simp add: pattern_finding_def matches_form_def PStr)
qed (use assms in \<open>auto simp: pattern_finding_def matches_form_def\<close>)

text \<open>C14 The check of a value is exactly the schema's declaration: on a field the checker can read it
  never raises, it finds nothing just when the value conforms, and what it finds is an error except
  for a quoted boolean.\<close>

theorem value_finding_exact:
  assumes "field_ok field" and "is_str (field_kind field)" and "\<not> absent v" and "\<not> is_placeholder v"
  shows "\<exists>r. value_finding field v wh = Inr r \<and> (r = None \<longleftrightarrow> conforms field v) \<and>
     (\<forall>f. r = Some f \<longrightarrow> (f_severity f = ''warning'' \<longleftrightarrow>
        field_kind field = PStr ''boolean'' \<and> bool_text v \<in> set TRUE_TEXTS \<union> set FALSE_TEXTS))"
proof -
  obtain kind where k: "field_kind field = PStr kind" using assms(2) by (cases "field_kind field") auto
  let ?wh = "if wh \<noteq> [] then wh else py_str (get_dflt field ''name'' (PStr []))"
  obtain vals where vs: "enum_values field = Inr vals"
    using assms(1) by (cases "enum_values field") (auto simp: field_ok_def)
  have pat: "case get field ''pattern'' of PStr p \<Rightarrow> p = [] \<or> rx_parse p \<noteq> None | v \<Rightarrow> \<not> truthy v"
    using assms(1) by (simp add: field_ok_def)
  consider (num) "kind = ''integer'' \<or> kind = ''port''" | (bool) "kind = ''boolean''" | (arr) "kind = ''array''"
    | (obj) "kind = ''object''" | (other) "kind \<notin> {''integer'', ''port'', ''boolean'', ''array'', ''object''}" by auto
  then show ?thesis
  proof cases
    case num
    then have b: "is_ok (bound_val (bound_of field ''min'' kind 1))" "is_ok (bound_val (bound_of field ''max'' kind 65535))"
      using assms(1) by (auto simp: field_ok_def)
    have c: "conforms field v = (case as_int v of Some n \<Rightarrow> within (bound_of field ''min'' kind 1) (bound_of field ''max'' kind 65535) n | None \<Rightarrow> False)"
      using num unfolding conforms_def k str_of_def pval.case by simp
    have e: "value_finding field v wh = number_finding field v ?wh kind"
      using num assms(3,4) by (simp add: value_finding_def k str_of_def Let_def)
    have nb: "kind \<noteq> ''boolean''" using num by auto
    show ?thesis unfolding e c k using number_exact [OF b, of v ?wh] nb by auto
  next
    case bool
    then show ?thesis using assms(3,4) boolean_exact [of v ?wh] by (simp add: value_finding_def conforms_def k str_of_def Let_def)
  next
    case arr
    then show ?thesis using assms(3,4) by (cases v) (simp_all add: value_finding_def conforms_def k str_of_def Let_def)
  next
    case obj
    then show ?thesis using assms(3,4) by (cases v) (simp_all add: value_finding_def conforms_def k str_of_def Let_def)
  next
    case other
    then have c: "conforms field v \<longleftrightarrow> (vals = [] \<or> in_enum v vals) \<and> matches_form field v"
      by (simp add: conforms_def k str_of_def vs)
    have e: "value_finding field v wh =
        res_bind (enum_finding field v ?wh) (\<lambda>found. if found \<noteq> None then Inr found else pattern_finding field v ?wh)"
      using other assms(3,4) by (simp add: value_finding_def k Let_def)
    obtain r where r: "enum_finding field v ?wh = Inr r" "r = None \<longleftrightarrow> vals = [] \<or> in_enum v vals"
      "\<forall>f. r = Some f \<longrightarrow> f_severity f = ''error''" using enum_exact [OF vs, of v ?wh] by blast
    obtain q where q: "pattern_finding field v ?wh = Inr q" "q = None \<longleftrightarrow> matches_form field v"
      "\<forall>f. q = Some f \<longrightarrow> f_severity f = ''error''" using pattern_exact [OF pat, of v ?wh] by blast
    have nb: "kind \<noteq> ''boolean''" using other by auto
    show ?thesis unfolding e c k r(1) res_bind_Inr using r q nb by (cases r) auto
  qed
qed

section \<open>Every value of a lab is checked\<close>

lemma check_fields_mem:
  assumes "check_fields fs cfg wh skip = Inr out" and "(name, field) \<in> set fs" and "map_of cfg name = Some v" and "name \<notin> set skip"
    and "value_finding field v (path_of wh name) = Inr (Some f)"
  shows "f \<in> set out"
  using assms by (induction fs arbitrary: out) (auto simp: res_simps split: option.splits if_splits)

lemma section_findings_mem:
  assumes "section_findings fields cfg wh skip = Inr out" and "named_fields fields [] = Inr byn" and "map_of byn name = Some field"
    and "map_of cfg name = Some v" and "name \<notin> set skip" and "value_finding field v (path_of wh name) = Inr (Some f)"
  shows "f \<in> set out"
  using assms by (auto simp: section_findings_def dest!: map_of_SomeD [of byn] intro: check_fields_mem)

lemma entries_findings_mem:
  assumes "entries_findings fields name skip es = Inr out" and "(key, PDict d) \<in> set es"
    and "\<And>out. section_findings fields d (name @ ''.'' @ key) skip = Inr out \<Longrightarrow> f \<in> set out"
  shows "f \<in> set out"
  using assms(1,2)
proof (induction es arbitrary: out)
  case (Cons e es)
  obtain k c where e: "e = (k, c)" by (cases e)
  from Cons.prems(1) obtain here more where h: "(case c of PDict d \<Rightarrow> section_findings fields d (name @ ''.'' @ k) skip | _ \<Rightarrow> Inr []) = Inr here"
    "entries_findings fields name skip es = Inr more" "out = here @ more" by (auto simp: e res_simps)
  show ?case
  proof (cases "e = (key, PDict d)")
    case True
    then show ?thesis using h(1,3) assms(3) e by auto
  next
    case False
    then show ?thesis using Cons.IH [OF h(2)] Cons.prems(2) h(3) by auto
  qed
qed simp

text \<open>No value of a node escapes the check: if the check of a lab returns, then every declared field of
  every node that is set, not left to the caller, and does not conform has its finding among the
  results, under the path of that value.\<close>

theorem node_values_checked:
  assumes "definition_findings defn schema skip = Inr out"
    and "get schema ''sections'' = PDict sections" and "section_fields (get sections ''nodes'') = Inr fields"
    and "named_fields fields [] = Inr byn" and "map_of byn name = Some field"
    and "get defn ''nodes'' = PDict nodes" and "(node, PDict cfg) \<in> set nodes" and "map_of cfg name = Some v"
    and "name \<notin> set skip" and "field_ok field" and "is_str (field_kind field)" and "\<not> absent v" and "\<not> is_placeholder v"
    and "\<not> conforms field v"
  shows "\<exists>f \<in> set out. value_finding field v (''nodes.'' @ node @ ''.'' @ name) = Inr (Some f)"
proof -
  obtain f where f: "value_finding field v (''nodes.'' @ node @ ''.'' @ name) = Inr (Some f)"
    using value_finding_exact [OF assms(10-13), of "''nodes.'' @ node @ ''.'' @ name"] assms(14) by auto
  have "sections \<noteq> []" using assms(3-5) by (auto simp: section_fields_def get_def or_dict_def)
  then have s: "or_dict (get schema ''sections'') = Inr sections" by (simp add: assms(2) or_dict_def)
  have "nodes \<noteq> []" using assms(7) by auto
  then have n: "or_dict (get defn ''nodes'') = Inr nodes" by (simp add: assms(6) or_dict_def)
  from assms(1) obtain a b c d where c: "group_findings defn sections skip ''nodes'' = Inr c" "out = a @ b @ c @ d"
    unfolding definition_findings_def s res_bind_Inr by (auto simp: res_simps)
  have "f \<in> set c"
  proof (rule entries_findings_mem [of fields "''nodes''" skip nodes c node cfg f])
    show "entries_findings fields ''nodes'' skip nodes = Inr c" using c(1) by (simp add: group_findings_def assms(3) n)
    show "(node, PDict cfg) \<in> set nodes" by (rule assms(7))
    fix out' assume "section_findings fields cfg (''nodes'' @ ''.'' @ node) skip = Inr out'"
    then show "f \<in> set out'"
      by (rule section_findings_mem [OF _ assms(4,5,8,9)]) (use f in \<open>simp add: path_of_def\<close>)
  qed
  with f c(2) show ?thesis by auto
qed

definition sample_field :: dict where
  "sample_field = [(''name'', PStr ''VM_CPU''), (''type'', PStr ''integer''), (''min'', PInt 1), (''max'', PInt 64)]"

definition sample_method :: dict where
  "sample_method = [(''name'', PStr ''config_method''), (''type'', PStr ''string''),
     (''enum'', PList [PDict [(''value'', PStr []), (''label'', PStr ''Ignition'')], PStr ''cloud-init''])]"

definition sample_sections :: dict where
  "sample_sections = [(''nodes'', PDict [(''fields'', PList [PDict [(''group'', PList [PDict sample_field])], PDict sample_method])])]"

theorem value_finding_exact_witness:
  "\<exists>r. value_finding sample_field (PStr ''99'') ''nodes.n1.VM_CPU'' = Inr r \<and> r \<noteq> None"
proof -
  have f: "field_ok sample_field" "is_str (field_kind sample_field)" "\<not> absent (PStr ''99'')" "\<not> is_placeholder (PStr ''99'')"
    by code_simp+
  have "\<not> conforms sample_field (PStr ''99'')" by code_simp
  with value_finding_exact [OF f, of "''nodes.n1.VM_CPU''"] show ?thesis by blast
qed

definition sample_findings :: "finding list res" where
  "sample_findings = definition_findings [(''nodes'', PDict [(''n1'', PDict [(''VM_CPU'', PStr ''99''), (''config_method'', PStr ''x'')])])]
     [(''sections'', PDict sample_sections)] [''config_method'']"


theorem node_values_checked_witness:
  "\<exists>f \<in> {Finding ''error'' ''nodes.n1.VM_CPU'' ''99 is above the maximum 64''}.
     value_finding sample_field (PStr ''99'') ''nodes.n1.VM_CPU'' = Inr (Some f)"
proof -
  let ?d = "[(''nodes'', PDict [(''n1'', PDict [(''VM_CPU'', PStr ''99''), (''config_method'', PStr ''x'')])])]"
  let ?m = "Finding ''error'' ''nodes.n1.VM_CPU'' ''99 is above the maximum 64''"
  have o: "definition_findings ?d [(''sections'', PDict sample_sections)] [''config_method''] = Inr [?m]" by code_simp
  have g: "get [(''sections'', PDict sample_sections)] ''sections'' = PDict sample_sections"
    "section_fields (get sample_sections ''nodes'') = Inr [PDict sample_field, PDict sample_method]"
    "named_fields [PDict sample_field, PDict sample_method] [] = Inr [(''VM_CPU'', sample_field), (''config_method'', sample_method)]"
    "map_of [(''VM_CPU'', sample_field), (''config_method'', sample_method)] ''VM_CPU'' = Some sample_field"
    "get ?d ''nodes'' = PDict [(''n1'', PDict [(''VM_CPU'', PStr ''99''), (''config_method'', PStr ''x'')])]"
    by code_simp+
  have v: "(''n1'', PDict [(''VM_CPU'', PStr ''99''), (''config_method'', PStr ''x'')]) \<in>
      set [(''n1'', PDict [(''VM_CPU'', PStr ''99''), (''config_method'', PStr ''x'')])]"
    "map_of [(''VM_CPU'', PStr ''99''), (''config_method'', PStr ''x'')] ''VM_CPU'' = Some (PStr ''99'')"
    "''VM_CPU'' \<notin> set [''config_method'']" by simp_all
  have f: "field_ok sample_field" "is_str (field_kind sample_field)" "\<not> absent (PStr ''99'')" "\<not> is_placeholder (PStr ''99'')"
    "\<not> conforms sample_field (PStr ''99'')" by code_simp+
  have p: "''nodes.'' @ ''n1'' @ ''.'' @ ''VM_CPU'' = ''nodes.n1.VM_CPU''" by simp
  show ?thesis using node_values_checked [OF o g v f] unfolding p by simp
qed

end
