(* ===== verification/Schema_Record.thy ===== *)
theory Schema_Record
  imports Migration_Steps Py_Regex
begin

text \<open>
  \<open>libs/schema_versions.py\<close>: the snapshots of the schemas, the compatibility record of their
  versions and the maintainers' check of one against the other.

  The record is the \<open>compat\<close> that \<open>Migration_Steps\<close> reads; a snapshot is its schema's name, its
  version and the properties of its fields. The stored snapshots are a map from their path to what
  is in the file. The registered migrations are their names. The schemas the programs print, and
  the files under \<open>schemas/\<close>, are inputs.
\<close>

section \<open>Versions\<close>

text \<open>\<open>^\d+\.\d+$\<close>, which also takes one newline at the end.\<close>

definition digits :: "string \<Rightarrow> bool" where
  "digits s = (s \<noteq> [] \<and> list_all is_digit s)"

definition drop_NL :: "string \<Rightarrow> string" where
  "drop_NL s = (if ends_with s NL then butlast s else s)"

definition version_form :: "string \<Rightarrow> bool" where
  "version_form s = (case split_ch CHR ''.'' s of [a, b] \<Rightarrow> digits a \<and> digits (drop_NL b) | _ \<Rightarrow> False)"

definition parse_version :: "string \<Rightarrow> (int \<times> int) res" where
  "parse_version version =
     (if \<not> version_form version then
        Inl (ValueError (''schema version '' @ repr_str version @ '' is not MAJOR.MINOR''))
      else case split_ch CHR ''.'' version of
        [a, b] \<Rightarrow> (case (py_int a, py_int b) of (Some i, Some j) \<Rightarrow> Inr (i, j) | _ \<Rightarrow> Inl (ValueError version))
      | _ \<Rightarrow> Inl (ValueError version))"

section \<open>Snapshots\<close>

definition FIELD_KEYS :: "string list" where
  "FIELD_KEYS = [''type'', ''required'', ''default'', ''enum'', ''pattern'', ''min'', ''max'']"

type_synonym fields = "(string \<times> dict) list"

record snapshot =
  sn_schema :: string
  sn_version :: string
  sn_fields :: fields

definition field_props :: "dict \<Rightarrow> dict" where
  "field_props f = List.map_filter (\<lambda>k. map_option (\<lambda>v. (k, v)) (map_of f k)) FIELD_KEYS"

fun fields_of :: "pval list \<Rightarrow> string \<Rightarrow> fields \<Rightarrow> fields res" where
  "fields_of [] pre acc = Inr acc"
| "fields_of (f # fs) pre acc =
     (case f of
        PDict d \<Rightarrow>
          (case map_of d ''name'' of
             None \<Rightarrow> Inl (KeyError ''name'')
           | Some (PStr n) \<Rightarrow> fields_of fs pre (AList.update (pre @ n) (field_props d) acc)
           | Some _ \<Rightarrow> Inl (TypeError ''can only concatenate str''))
      | _ \<Rightarrow> Inl (TypeError ''indices''))"

fun sections_fields :: "dict \<Rightarrow> fields \<Rightarrow> fields res" where
  "sections_fields [] acc = Inr acc"
| "sections_fields ((sec, body) # rest) acc =
     (case body of
        PDict b \<Rightarrow>
          (case get_dflt b ''fields'' (PList []) of
             PList fs \<Rightarrow> res_bind (fields_of fs (sec @ ''.'') []) (\<lambda>new. sections_fields rest (fold (\<lambda>(k, v). AList.update k v) new acc))
           | _ \<Rightarrow> Inl (TypeError ''indices''))
      | _ \<Rightarrow> Inl (AttributeError ''get''))"

definition schema_snapshot :: "string \<Rightarrow> dict \<Rightarrow> snapshot res" where
  "schema_snapshot name schema =
     res_bind (case map_of schema ''sections'' of
                 Some (PDict s) \<Rightarrow> sections_fields s []
               | Some _ \<Rightarrow> Inl (AttributeError ''items'')
               | None \<Rightarrow> (case get_dflt schema ''fields'' (PList []) of
                           PList fs \<Rightarrow> fields_of fs [] [] | _ \<Rightarrow> Inl (TypeError ''indices''))) (\<lambda>fields.
     Inr \<lparr>sn_schema = name, sn_version = str_of (get_dflt schema ''schema_version'' (PStr [])), sn_fields = fields\<rparr>)"

text \<open>\<open>^#?([A-Za-z_][A-Za-z0-9_]*)(\[[^\]]*\])?=\<close> at the start of a line: the name, and the line breaks between the brackets.\<close>

definition name_char :: "bool \<Rightarrow> char \<Rightarrow> bool" where
  "name_char first c = (is_word c \<and> (first \<longrightarrow> \<not> is_digit c))"

definition assigned_name :: "string \<Rightarrow> (string \<times> nat) option" where
  "assigned_name l0 =
     (let l = (case l0 of c # cs \<Rightarrow> if c = CHR ''#'' then cs else l0 | [] \<Rightarrow> []);
          n = (case l of c # cs \<Rightarrow> if name_char True c then c # takeWhile (name_char False) cs else [] | [] \<Rightarrow> []);
          rest = drop (length n) l;
          inside = takeWhile (\<lambda>x. x \<noteq> CHR '']'') (drop 1 rest) in
      if n = [] then None
      else if starts_with rest ''='' then Some (n, 0)
      else if starts_with rest ''['' \<and> starts_with (drop (length inside + 1) rest) '']='' then Some (n, length (filter (\<lambda>c. c = CHR 0x0A) inside))
      else None)"

text \<open>\<open>finditer\<close>: the next match starts on a line after the one before.\<close>

function assigned_names :: "string list \<Rightarrow> string list" where
  "assigned_names [] = []"
| "assigned_names (l # ls) =
     (case assigned_name (join NL (l # ls)) of None \<Rightarrow> assigned_names ls | Some (n, k) \<Rightarrow> n # assigned_names (drop k ls))"
  by pat_completeness auto
termination by (relation "measure length") auto

text \<open>\<open>^# Schema version:\s*(\S+)\<close>, searched for in the whole text: the first word after it, which may be on a later line.\<close>

fun snapshot_version :: "string list \<Rightarrow> string" where
  "snapshot_version [] = []"
| "snapshot_version (l # ls) =
     (if starts_with l ''# Schema version:'' then
        (case words (join NL (drop (length ''# Schema version:'') l # ls)) of w # _ \<Rightarrow> w | [] \<Rightarrow> snapshot_version ls)
      else snapshot_version ls)"

definition shell_snapshot :: "string \<Rightarrow> string \<Rightarrow> snapshot" where
  "shell_snapshot name text =
     (let ls = split_ch CHR 0x0A text in
      \<lparr>sn_schema = name, sn_version = snapshot_version ls, sn_fields = fold (\<lambda>n. AList.update n []) (assigned_names ls) []\<rparr>)"

definition sub_keys :: "string \<Rightarrow> pval \<Rightarrow> string list" where
  "sub_keys key item =
     (case item of
        PDict d \<Rightarrow> map (\<lambda>kv. key @ ''[].'' @ fst kv) (filter (\<lambda>kv. \<not> starts_with (fst kv) ''_comment'') d)
      | _ \<Rightarrow> [])"

definition json_keys :: "dict \<Rightarrow> string list" where
  "json_keys data =
     concat (map (\<lambda>(key, v). key # (case v of PList items \<Rightarrow> concat (map (sub_keys key) items) | _ \<Rightarrow> []))
       (filter (\<lambda>(key, v). \<not> starts_with key ''_comment'' \<and> key \<noteq> ''schema_version'') data))"

definition json_snapshot :: "string \<Rightarrow> dict \<Rightarrow> snapshot" where
  "json_snapshot name data =
     \<lparr>sn_schema = name, sn_version = str_of (get_dflt data ''schema_version'' (PStr [])),
      sn_fields = fold (\<lambda>n. AList.update n []) (json_keys data) []\<rparr>"

text \<open>\<open>name.rpartition(":")\<close>\<close>

definition snapshot_path :: "string \<Rightarrow> string \<Rightarrow> string" where
  "snapshot_path name version =
     (let base = rev (takeWhile (\<lambda>c. c \<noteq> CHR '':'') (rev name)); kind = butlast (take (length name - length base) name) in
      ''schemas/snapshots/'' @ (if kind = [] then base else kind) @ ''/'' @ base @ ''-'' @ version @ ''.json'')"

type_synonym store = "string \<Rightarrow> snapshot option"

definition write_snapshot :: "snapshot \<Rightarrow> store \<Rightarrow> store" where
  "write_snapshot s st = st(snapshot_path (sn_schema s) (sn_version s) := Some s)"

definition read_snapshot :: "store \<Rightarrow> string \<Rightarrow> string \<Rightarrow> snapshot option" where
  "read_snapshot st name version = st (snapshot_path name version)"

section \<open>Changes between two snapshots\<close>

definition same_prop :: "string \<Rightarrow> dict \<Rightarrow> dict \<Rightarrow> bool" where
  "same_prop key a b = py_eq (get a key) (get b key)"

text \<open>\<open>", ".join(...)\<close> of enum values, which raises on one that is no text.\<close>

definition enum_part :: "string \<Rightarrow> string \<Rightarrow> pval list \<Rightarrow> string list res" where
  "enum_part field what vs =
     (if vs = [] then Inr [] else res_bind (join_vals '', '' vs) (\<lambda>t. Inr [field @ what @ t]))"

definition dropped_values :: "dict \<Rightarrow> dict \<Rightarrow> pval list res" where
  "dropped_values props now =
     res_bind (or_list (get props ''enum'')) (\<lambda>old.
     if truthy (get now ''enum'') then
       res_bind (res_map (\<lambda>v. res_bind (py_member v (get now ''enum'')) (\<lambda>b. Inr (v, b))) old) (\<lambda>vs.
       Inr (map fst (filter (\<lambda>(v, b). \<not> b) vs)))
     else Inr [])"

definition field_breaking :: "string \<Rightarrow> dict \<Rightarrow> dict option \<Rightarrow> string list res" where
  "field_breaking field props now =
     (case now of
        None \<Rightarrow> Inr [field @ '' removed'']
      | Some n \<Rightarrow>
          res_bind (dropped_values props n) (\<lambda>dropped. res_bind (enum_part field '' no longer accepts '' dropped) (\<lambda>e.
          Inr ((if \<not> same_prop ''type'' props n
                then [field @ '' type '' @ py_str (get props ''type'') @ '' -> '' @ py_str (get n ''type'')] else []) @
               (if truthy (get n ''required'') \<and> \<not> truthy (get props ''required'') then [field @ '' became required''] else []) @ e))))"

definition breaking_changes :: "snapshot \<Rightarrow> snapshot \<Rightarrow> string list res" where
  "breaking_changes old new =
     res_bind (res_map (\<lambda>(f, p). field_breaking f p (map_of (sn_fields new) f)) (sort_key fst (sn_fields old))) (\<lambda>xs.
     Inr (concat xs @ map (\<lambda>(f, p). f @ '' added as required'')
       (filter (\<lambda>(f, p). map_of (sn_fields old) f = None \<and> truthy (get p ''required'')) (sort_key fst (sn_fields new)))))"

definition prop_change :: "string \<Rightarrow> dict \<Rightarrow> dict \<Rightarrow> string \<Rightarrow> string list" where
  "prop_change field props now key =
     (if same_prop key props now then []
      else [field @ '' '' @ key @ '' '' @ py_repr (get props key) @ '' -> '' @ py_repr (get now key)])"

definition added_values :: "dict \<Rightarrow> dict \<Rightarrow> pval list res" where
  "added_values props now =
     res_bind (or_list (get now ''enum'')) (\<lambda>ns. res_bind (or_list (get props ''enum'')) (\<lambda>os.
     Inr (filter (\<lambda>v. \<not> py_in v os) ns)))"

definition field_other :: "string \<Rightarrow> dict \<Rightarrow> dict option \<Rightarrow> string list res" where
  "field_other field props now =
     (case now of
        None \<Rightarrow> Inr []
      | Some n \<Rightarrow>
          res_bind (added_values props n) (\<lambda>added.
          res_bind (if truthy (get props ''enum'') then enum_part field '' also accepts '' added else Inr []) (\<lambda>e.
          Inr (concat (map (prop_change field props n) [''default'', ''pattern'', ''min'', ''max'']) @ e @
               (if truthy (get props ''required'') \<and> \<not> truthy (get n ''required'') then [field @ '' became optional''] else [])))))"

definition other_changes :: "snapshot \<Rightarrow> snapshot \<Rightarrow> string list res" where
  "other_changes old new =
     res_bind (res_map (\<lambda>(f, p). field_other f p (map_of (sn_fields new) f)) (sort_key fst (sn_fields old))) (\<lambda>xs.
     Inr (map (\<lambda>(f, p). f @ '' added'')
       (filter (\<lambda>(f, p). map_of (sn_fields old) f = None \<and> \<not> truthy (get p ''required'')) (sort_key fst (sn_fields new))) @ concat xs))"

section \<open>The check of the record\<close>

definition major_bump :: "(int \<times> int) option \<Rightarrow> int \<times> int \<Rightarrow> bool" where
  "major_bump prev v = (case prev of None \<Rightarrow> False | Some p \<Rightarrow> fst v > fst p)"

definition entry_tag :: "string \<Rightarrow> string \<Rightarrow> string" where
  "entry_tag name ver = name @ '' '' @ ver @ '': ''"

definition step_of :: "version_entry \<Rightarrow> string" where
  "step_of e = (case ve_migration e of None \<Rightarrow> [] | Some s \<Rightarrow> s)"

text \<open>The problems that only the version numbers and the entry's own keys decide.\<close>

definition number_problems ::
  "string \<Rightarrow> version_entry \<Rightarrow> int \<times> int \<Rightarrow> (int \<times> int) option \<Rightarrow> string list \<Rightarrow> string list" where
  "number_problems name e v prev migrations =
     (let tag = entry_tag name (ve_version e); bump = major_bump prev v; step = step_of e in
      (if ve_changes e = [] then [tag @ ''entry has no changes text''] else []) @
      (case prev of
         Some p \<Rightarrow> (if \<not> bump \<and> v \<noteq> (fst p, snd p + 1) then [tag @ ''a compatible version raises MINOR by one''] else []) @
                   (if bump \<and> v \<noteq> (fst p + 1, 0) then [tag @ ''a breaking version is MAJOR+1.0''] else [])
       | None \<Rightarrow> []) @
      (if ve_breaking e \<noteq> bump then [tag @ dq ''breaking'' @ '' must be '' @ (if bump then ''true'' else ''false'') @ '' for this version number''] else []) @
      (if bump \<and> step = [] then [tag @ ''a breaking version needs a migration step in libs/migrations.py''] else []) @
      (if step \<noteq> [] \<and> step \<notin> set migrations then [tag @ ''migration '' @ step @ '' is not in libs/migrations.py MIGRATIONS''] else []) @
      (if step \<noteq> [] \<and> \<not> bump then [tag @ ''only a breaking version has a migration''] else []))"

definition entry_problems ::
  "store \<Rightarrow> string \<Rightarrow> version_entry \<Rightarrow> (int \<times> int) option \<Rightarrow> snapshot option \<Rightarrow> string list \<Rightarrow> string list res" where
  "entry_problems st name e prev prev_snap migrations =
     (let ver = ve_version e; tag = entry_tag name ver; stored = read_snapshot st name ver in
      res_bind (parse_version ver) (\<lambda>v.
      res_bind (case (stored, prev_snap) of
                  (Some s, Some p) \<Rightarrow> if major_bump prev v then Inr [] else breaking_changes p s
                | _ \<Rightarrow> Inr []) (\<lambda>broken.
      Inr ((if stored = None then [tag @ ''no snapshot at '' @ snapshot_path name ver] else []) @
           number_problems name e v prev migrations @
           map (\<lambda>c. tag @ ''breaking change in a compatible version: '' @ c) broken))))"

text \<open>
  A version that does not parse ends the loop with its message; any other exception goes on up.
\<close>

fun entries_problems ::
  "store \<Rightarrow> string \<Rightarrow> version_entry list \<Rightarrow> (int \<times> int) option \<Rightarrow> snapshot option \<Rightarrow> string list
   \<Rightarrow> (string list \<times> bool) res" where
  "entries_problems st name [] prev prev_snap migrations = Inr ([], True)"
| "entries_problems st name (e # es) prev prev_snap migrations =
     (case entry_problems st name e prev prev_snap migrations of
        Inl (ValueError m) \<Rightarrow> Inr ([name @ '': '' @ m], False)
      | Inl x \<Rightarrow> Inl x
      | Inr here \<Rightarrow>
          res_bind (parse_version (ve_version e)) (\<lambda>v.
          res_bind (entries_problems st name es (Some v) (read_snapshot st name (ve_version e)) migrations) (\<lambda>(more, fin).
          Inr (here @ more, fin))))"

definition same_fields :: "fields \<Rightarrow> fields \<Rightarrow> bool" where
  "same_fields a b =
     (length a = length b \<and> list_all (\<lambda>(k, p). case map_of b k of None \<Rightarrow> False | Some q \<Rightarrow> py_eq (PDict p) (PDict q)) a)"

definition schema_problems :: "store \<Rightarrow> string \<Rightarrow> snapshot \<Rightarrow> version_entry list \<Rightarrow> string list \<Rightarrow> string list res" where
  "schema_problems st name snap entries migrations =
     (if sn_version snap = [] then Inr [name @ '': declares no schema version'']
      else if entries = [] then Inr [name @ '': version '' @ sn_version snap @ '' is not in schemas/compatibility.json'']
      else res_bind (entries_problems st name entries None None migrations) (\<lambda>(out, finished).
        if \<not> finished then Inr out
        else (let lst = ve_version (last entries) in
          if lst \<noteq> sn_version snap then
            Inr (out @ [name @ '': declares version '' @ sn_version snap @ '' but the last recorded version is '' @ lst])
          else (case read_snapshot st name lst of
              None \<Rightarrow> Inr out
            | Some p \<Rightarrow>
                if same_fields (sn_fields p) (sn_fields snap) then Inr out
                else res_bind (breaking_changes p snap) (\<lambda>b. res_bind (other_changes p snap) (\<lambda>c.
                  (let txt = join ''; '' (take 5 (b @ c)) in
                   Inr (out @ [name @ '': schema changed since version '' @ lst @ '' was recorded ('' @
                               (if txt = [] then ''field properties changed'' else txt) @ ''); record a new version'']))))))))"

fun schemas_problems :: "store \<Rightarrow> (string \<times> snapshot) list \<Rightarrow> compat \<Rightarrow> string list \<Rightarrow> string list res" where
  "schemas_problems st [] rc migrations = Inr []"
| "schemas_problems st ((name, snap) # rest) rc migrations =
     res_bind (schema_problems st name snap (entries_of rc name) migrations) (\<lambda>here.
     res_bind (schemas_problems st rest rc migrations) (\<lambda>more. Inr (here @ more)))"

definition named_steps :: "compat \<Rightarrow> string list" where
  "named_steps rc = concat (map (\<lambda>(n, es). List.map_filter ve_migration es) rc)"

definition check_record :: "store \<Rightarrow> (string \<times> snapshot) list \<Rightarrow> compat \<Rightarrow> string list \<Rightarrow> string list res" where
  "check_record st current rc migrations =
     res_bind (schemas_problems st (sort_key fst current) rc migrations) (\<lambda>ps.
     Inr (map (\<lambda>n. n @ '': in schemas/compatibility.json but no such schema exists'')
            (sort (remdups (filter (\<lambda>n. n \<notin> fst ` set current) (map fst rc)))) @ ps @
          map (\<lambda>s. ''migration '' @ s @ '' in libs/migrations.py is not named by any version'')
            (sort (remdups (filter (\<lambda>s. s \<notin> set (named_steps rc)) migrations)))))"

section \<open>The text of the record\<close>

definition ABOUT :: string where
  "ABOUT = ''Every version of every schema lab-in-a-box reads, oldest first. A breaking version raises MAJOR and names '' @
     ''the libs/migrations.py step that migrate_config.py applies; see CONTRIBUTING.md, Schema versions.''"

definition dump_entries :: "string \<times> dict list \<Rightarrow> string" where
  "dump_entries ne =
     ''  '' @ json_str (fst ne) @ '': ['' @ NL @ join ('','' @ NL) (map (\<lambda>e. ''   '' @ json_val (PDict e)) (snd ne)) @ NL @ ''  ]''"

definition dump_record :: "(string \<times> dict list) list \<Rightarrow> string" where
  "dump_record rc =
     ''{'' @ NL @ '' '' @ dq ''about'' @ '': '' @ json_str ABOUT @ '','' @ NL @ '' '' @ dq ''schemas'' @ '': {'' @ NL @
     join ('','' @ NL) (map dump_entries (sort_key fst rc)) @ NL @ '' }'' @ NL @ ''}'' @ NL"

section \<open>What a record without problems is like\<close>

text \<open>How a version follows the one before it: a breaking one raises MAJOR and has a registered step, any other raises MINOR.\<close>

definition follows :: "string list \<Rightarrow> version_entry \<Rightarrow> int \<times> int \<Rightarrow> (int \<times> int) option \<Rightarrow> bool" where
  "follows migs e v prev =
     (case prev of
        None \<Rightarrow> \<not> ve_breaking e \<and> step_of e = []
      | Some p \<Rightarrow> if ve_breaking e then v = (fst p + 1, 0) \<and> step_of e \<noteq> [] \<and> step_of e \<in> set migs
                 else v = (fst p, snd p + 1) \<and> step_of e = [])"

text \<open>The versions of one schema, from \<open>prev\<close> (number and snapshot) on.\<close>

fun disciplined ::
  "store \<Rightarrow> string list \<Rightarrow> string \<Rightarrow> ((int \<times> int) \<times> snapshot) option \<Rightarrow> version_entry list \<Rightarrow> bool" where
  "disciplined st migs name prev [] = True"
| "disciplined st migs name prev (e # es) =
     (case (parse_version (ve_version e), read_snapshot st name (ve_version e)) of
        (Inr v, Some s) \<Rightarrow>
          ve_changes e \<noteq> [] \<and> follows migs e v (map_option fst prev) \<and>
          (\<not> ve_breaking e \<longrightarrow> (case prev of Some (_, p) \<Rightarrow> breaking_changes p s = Inr [] | None \<Rightarrow> True)) \<and>
          disciplined st migs name (Some (v, s)) es
      | _ \<Rightarrow> False)"

lemma number_problems_none:
  "number_problems name e v prev migs = [] \<Longrightarrow> ve_changes e \<noteq> [] \<and> follows migs e v prev \<and> ve_breaking e = major_bump prev v"
  by (cases prev) (auto simp: number_problems_def follows_def major_bump_def Let_def split: if_splits)

lemma entry_problems_none:
  assumes "entry_problems st name e prev ps migs = Inr []"
  shows "\<exists>v s. parse_version (ve_version e) = Inr v \<and> read_snapshot st name (ve_version e) = Some s \<and> ve_changes e \<noteq> [] \<and>
    follows migs e v prev \<and> (\<not> ve_breaking e \<longrightarrow> (case ps of Some p \<Rightarrow> breaking_changes p s = Inr [] | None \<Rightarrow> True))"
proof -
  obtain v broken where v: "parse_version (ve_version e) = Inr v"
    and b: "(case (read_snapshot st name (ve_version e), ps) of
              (Some s, Some p) \<Rightarrow> if major_bump prev v then Inr [] else breaking_changes p s | _ \<Rightarrow> Inr []) = Inr broken"
    and out: "read_snapshot st name (ve_version e) \<noteq> None" "number_problems name e v prev migs = []" "broken = []"
    using assms by (auto simp: entry_problems_def Let_def res_simps split: if_splits)
  obtain s where s: "read_snapshot st name (ve_version e) = Some s" using out(1) by auto
  show ?thesis using v s b out(3) number_problems_none [OF out(2)] by (cases ps) auto
qed

lemma entries_problems_none:
  "entries_problems st name es prev ps migs = Inr ([], True) \<Longrightarrow> prev = map_option fst q \<Longrightarrow> ps = map_option snd q \<Longrightarrow>
   disciplined st migs name q es"
proof (induction es arbitrary: prev ps q)
  case (Cons e es)
  obtain here where h: "entry_problems st name e prev ps migs = Inr here"
    using Cons.prems(1) by (cases "entry_problems st name e prev ps migs") (auto split: exc.splits)
  have "res_bind (parse_version (ve_version e)) (\<lambda>v.
      res_bind (entries_problems st name es (Some v) (read_snapshot st name (ve_version e)) migs) (\<lambda>(more, fin).
      Inr (here @ more, fin))) = Inr ([], True)"
    using Cons.prems(1) unfolding entries_problems.simps h by simp
  then obtain w more where r: "parse_version (ve_version e) = Inr w" "here @ more = []"
    "entries_problems st name es (Some w) (read_snapshot st name (ve_version e)) migs = Inr (more, True)"
    by (auto simp: res_bind_eq_Inr)
  have h': "entry_problems st name e prev ps migs = Inr []" using h r(2) by simp
  obtain v s where v: "parse_version (ve_version e) = Inr v" "read_snapshot st name (ve_version e) = Some s" "ve_changes e \<noteq> []"
    "follows migs e v prev" "\<not> ve_breaking e \<longrightarrow> (case ps of Some p \<Rightarrow> breaking_changes p s = Inr [] | None \<Rightarrow> True)"
    using entry_problems_none [OF h'] by blast
  have m: "more = []" "w = v" using r(1,2) v(1) by simp_all
  have "disciplined st migs name (Some (v, s)) es"
    by (rule Cons.IH [of "Some v" "Some s"]) (use r(3) v(2) m in simp_all)
  moreover have "\<not> ve_breaking e \<longrightarrow> (case q of Some (_, p) \<Rightarrow> breaking_changes p s = Inr [] | None \<Rightarrow> True)"
    using v(5) Cons.prems(3) by (cases q) (simp_all add: case_prod_beta)
  moreover have "follows migs e v (map_option fst q)" using v(4) Cons.prems(2) by simp
  ultimately show ?case using v(1-3) by (simp only: disciplined.simps prod.case sum.case option.case simp_thms)
qed simp

lemma entries_problems_unfinished:
  "entries_problems st name es prev ps migs = Inr (out, fin) \<Longrightarrow> out = [] \<Longrightarrow> fin"
  by (induction es arbitrary: prev ps out) (auto simp: res_simps split: sum.splits exc.splits prod.splits)

lemma schema_problems_none:
  assumes "schema_problems st name snap es migs = Inr []"
  shows "es \<noteq> [] \<and> ve_version (last es) = sn_version snap \<and> disciplined st migs name None es \<and>
    (\<forall>s. read_snapshot st name (sn_version snap) = Some s \<longrightarrow> same_fields (sn_fields s) (sn_fields snap))"
proof -
  have e: "sn_version snap \<noteq> []" "es \<noteq> []" using assms by (auto simp: schema_problems_def split: if_splits)
  obtain out fin where o: "entries_problems st name es None None migs = Inr (out, fin)"
    using assms e by (auto simp: schema_problems_def res_simps)
  have out: "out = []" and fin: fin
    using assms e o entries_problems_unfinished [OF o]
    by (auto simp: schema_problems_def res_simps Let_def split: if_splits option.splits)
  have d: "disciplined st migs name None es" by (rule entries_problems_none [of _ _ _ None None]) (use o out fin in simp_all)
  have l: "ve_version (last es) = sn_version snap"
    using assms e o fin by (auto simp: schema_problems_def Let_def split: if_splits)
  have "same_fields (sn_fields s) (sn_fields snap)" if "read_snapshot st name (sn_version snap) = Some s" for s
    using assms e o fin l that by (auto simp: schema_problems_def Let_def res_simps split: if_splits)
  with e d l show ?thesis by blast
qed

lemma schemas_problems_mem:
  "schemas_problems st cur rc migs = Inr [] \<Longrightarrow> (n, s) \<in> set cur \<Longrightarrow> schema_problems st n s (entries_of rc n) migs = Inr []"
  by (induction cur) (auto simp: res_simps)

text \<open>C31 What the maintainers' check guarantees of the record: without problems, every recorded schema
  exists and every existing schema is recorded up to its current version with the fields it has now;
  its first version is not a breaking one, each later one raises MINOR without a migration and
  without a breaking change of the snapshots, or is marked breaking, is MAJOR+1.0 and has a
  registered migration step; and every registered step is named by some version.\<close>

theorem checked_record_disciplined:
  assumes "check_record st current rc migs = Inr []"
  shows "fst ` set rc \<subseteq> fst ` set current \<and> set migs \<subseteq> set (named_steps rc) \<and>
     (\<forall>(n, snap) \<in> set current. entries_of rc n \<noteq> [] \<and> ve_version (last (entries_of rc n)) = sn_version snap \<and>
        disciplined st migs n None (entries_of rc n) \<and>
        (\<forall>s. read_snapshot st n (sn_version snap) = Some s \<longrightarrow> same_fields (sn_fields s) (sn_fields snap)))"
proof -
  have c: "sort (remdups (filter (\<lambda>n. n \<notin> fst ` set current) (map fst rc))) = []"
    "sort (remdups (filter (\<lambda>s. s \<notin> set (named_steps rc)) migs)) = []"
    "schemas_problems st (sort_key fst current) rc migs = Inr []"
    using assms by (auto simp: check_record_def res_simps)
  have "set (sort (remdups (filter (\<lambda>n. n \<notin> fst ` set current) (map fst rc)))) = {}"
    "set (sort (remdups (filter (\<lambda>s. s \<notin> set (named_steps rc)) migs))) = {}" unfolding c by simp_all
  then have "fst ` set rc \<subseteq> fst ` set current" "set migs \<subseteq> set (named_steps rc)" by auto
  moreover have "schema_problems st n s (entries_of rc n) migs = Inr []" if "(n, s) \<in> set current" for n s
    using schemas_problems_mem [OF c(3)] that by simp
  ultimately show ?thesis using schema_problems_none by fastforce
qed

section \<open>The migrations rest on it\<close>

lemma parse_version_key: "parse_version s = Inr (i, j) \<Longrightarrow> version_key (PStr s) = Inr [i, j]"
  by (auto simp: parse_version_def version_key_def split: if_splits list.splits option.splits)

lemma follows_less: "follows migs e v (Some p) \<Longrightarrow> [fst p, snd p] \<le> [fst v, snd v]"
  by (auto simp: follows_def split: if_splits)

lemma disciplined_last:
  "disciplined st migs n (Some (p, s)) es \<Longrightarrow> es \<noteq> [] \<Longrightarrow>
   \<exists>w. parse_version (ve_version (last es)) = Inr w \<and> [fst p, snd p] \<le> [fst w, snd w]"
proof (induction es arbitrary: p s)
  case (Cons e es)
  obtain v t where v: "parse_version (ve_version e) = Inr v" "follows migs e v (Some p)" "disciplined st migs n (Some (v, t)) es"
    using Cons.prems(1) by (auto split: sum.splits option.splits)
  show ?case
  proof (cases "es = []")
    case True
    then show ?thesis using v follows_less [OF v(2)] by auto
  next
    case False
    then show ?thesis using Cons.IH [OF v(3) False] follows_less [OF v(2)] order.trans by fastforce
  qed
qed simp

lemma disciplined_entries:
  assumes "disciplined st migs n q es" and "e \<in> set es"
  shows "\<exists>v w. parse_version (ve_version e) = Inr v \<and> parse_version (ve_version (last es)) = Inr w \<and> [fst v, snd v] \<le> [fst w, snd w]"
  using assms
proof (induction es arbitrary: q)
  case (Cons x xs)
  obtain v t where v: "parse_version (ve_version x) = Inr v" "disciplined st migs n (Some (v, t)) xs"
    using Cons.prems(1) by (auto split: sum.splits option.splits)
  show ?case
  proof (cases "xs = []")
    case True
    then show ?thesis using v Cons.prems(2) by auto
  next
    case False
    show ?thesis
    proof (cases "e = x")
      case True
      then show ?thesis using v(1) disciplined_last [OF v(2) False] False by simp
    next
      case False
      then show ?thesis using Cons.IH [OF v(2)] Cons.prems(2) \<open>xs \<noteq> []\<close> by simp
    qed
  qed
qed simp

lemma disciplined_ok: "disciplined st migs n None es \<Longrightarrow> entries_ok es"
proof -
  assume d: "disciplined st migs n None es"
  have "case (version_key (PStr (ve_version e)), version_key (PStr (ve_version (last es)))) of (Inr v, Inr w) \<Rightarrow> v \<le> w | _ \<Rightarrow> False"
    if "e \<in> set es" for e
  proof -
    from disciplined_entries [OF d that] obtain v w where
      "parse_version (ve_version e) = Inr v" "parse_version (ve_version (last es)) = Inr w" "[fst v, snd v] \<le> [fst w, snd w]"
      by blast
    then show ?thesis using parse_version_key [of "ve_version e" "fst v" "snd v"] parse_version_key [of "ve_version (last es)" "fst w" "snd w"] by simp
  qed
  then show ?thesis by (simp add: entries_ok_def list_all_iff)
qed

lemma checked_record_ok:
  assumes "check_record st current rc migs = Inr []" and "distinct (map fst rc)"
  shows "record_ok rc"
proof -
  have c: "sort (remdups (filter (\<lambda>n. n \<notin> fst ` set current) (map fst rc))) = []"
    "schemas_problems st (sort_key fst current) rc migs = Inr []"
    using assms(1) by (auto simp: check_record_def res_simps)
  have "entries_ok es" if m: "(n, es) \<in> set rc" for n es
  proof -
    have "set (sort (remdups (filter (\<lambda>n. n \<notin> fst ` set current) (map fst rc)))) = {}" unfolding c by simp
    then have "n \<in> fst ` set current" using image_eqI [OF _ m, of n fst] by auto
    then obtain s where "(n, s) \<in> set current" by auto
    then have "schema_problems st n s (entries_of rc n) migs = Inr []" using schemas_problems_mem [OF c(2)] by simp
    then have "disciplined st migs n None (entries_of rc n)" using schema_problems_none by blast
    moreover have "entries_of rc n = es" using m assms(2) by (simp add: entries_of_def)
    ultimately show ?thesis using disciplined_ok by simp
  qed
  then show ?thesis by (auto simp: record_ok_def list_all_iff)
qed

text \<open>The versions a lab definition records after it was stamped: of each schema it is written against the latest there is.\<close>

definition latest_of :: "compat \<Rightarrow> string \<Rightarrow> pval option" where
  "latest_of rc n = (if entries_of rc n = [] then None else Some (PStr (ve_version (last (entries_of rc n)))))"

text \<open>C7 The two modules fit together. Against a record the maintainers' check accepts, a lab definition that was migrated and then
  stamped records the latest version of every schema it is written against, and is otherwise as the migration left it; nothing is
  pending, \<open>require_current\<close> accepts it, and to migrate it again leaves it as it is. The migration itself did not touch the recorded
  versions, and where it reported nothing at all the definition is the one it was given.\<close>

theorem upgraded_lab_is_current:
  assumes "check_record st current rc migs = Inr []" and "distinct (map fst rc)"
    and "migrate ''lab'' (Doc d) rc = Inr (Doc d1, ch)" and "stamp ''lab'' (Doc d1) rc = Inr (Doc d2)"
  shows "(\<exists>names recorded. schemas_of ''lab'' (Doc d1) = Inr names \<and> get d2 LAB_VERSIONS_KEY = PDict recorded \<and>
      (\<forall>n. map_of recorded n = (if n \<in> set names then latest_of rc n else None))) \<and>
    (\<forall>k. k \<noteq> LAB_VERSIONS_KEY \<longrightarrow> get d2 k = get d1 k) \<and>
    pending ''lab'' (Doc d2) rc = Inr [] \<and> require_current rc d2 path = Inr () \<and> migrate ''lab'' (Doc d2) rc = Inr (Doc d2, []) \<and>
    get d1 LAB_VERSIONS_KEY = get d LAB_VERSIONS_KEY \<and> (ch = [] \<longrightarrow> d1 = d)"
proof -
  obtain names where n: "schemas_of ''lab'' (Doc d1) = Inr names"
    and d2: "d2 = AList.update LAB_VERSIONS_KEY (PDict (latest_versions rc names)) d1"
    using assms(4) by (auto simp: stamp_def res_simps)
  have p: "pending ''lab'' (Doc d2) rc = Inr []" by (rule pending_after_stamp [OF assms(4) checked_record_ok [OF assms(1,2)]])
  obtain ps where run: "run_steps ps (Doc d) = Inr (Doc d1, ch)" using assms(3) by (auto simp: migrate_def res_simps)
  have "get d1 LAB_VERSIONS_KEY = get d LAB_VERSIONS_KEY" using run_steps_versions [OF run] by simp
  moreover have "ch = [] \<longrightarrow> d1 = d" using run run_steps_silent by blast
  moreover have "\<forall>n. map_of (latest_versions rc names) n = (if n \<in> set names then latest_of rc n else None)"
    by (simp add: latest_versions_get latest_of_def)
  moreover have "migrate ''lab'' (Doc d2) rc = Inr (Doc d2, [])" by (simp add: migrate_def p)
  moreover from this have "require_current rc d2 path = Inr ()" by (simp add: require_current_def needed_changes_def)
  ultimately show ?thesis using n p by (simp add: d2)
qed

section \<open>A small record\<close>

definition sample_entries :: "version_entry list" where
  "sample_entries =
     [\<lparr>ve_version = ''1.0'', ve_breaking = False, ve_changes = ''first'', ve_migration = None\<rparr>,
      \<lparr>ve_version = ''1.1'', ve_breaking = False, ve_changes = ''a field'', ve_migration = None\<rparr>,
      \<lparr>ve_version = ''2.0'', ve_breaking = True, ve_changes = ''a field gone'', ve_migration = Some ''open_ports_2_0''\<rparr>]"

definition sample_snap :: "string \<Rightarrow> fields \<Rightarrow> snapshot" where
  "sample_snap v fs = \<lparr>sn_schema = ''lab'', sn_version = v, sn_fields = fs\<rparr>"

definition text_field :: dict where
  "text_field = [(''type'', PStr ''string'')]"

definition sample_store :: store where
  "sample_store = write_snapshot (sample_snap ''2.0'' [(''common.b'', text_field)])
     (write_snapshot (sample_snap ''1.1'' [(''common.a'', text_field), (''common.b'', text_field)])
     (write_snapshot (sample_snap ''1.0'' [(''common.a'', text_field)]) (\<lambda>_. None)))"

lemma sample_check:
  "check_record sample_store [(''lab'', sample_snap ''2.0'' [(''common.b'', text_field)])] [(''lab'', sample_entries)] [''open_ports_2_0''] = Inr []"
  by code_simp

theorem checked_record_disciplined_witness:
  "disciplined sample_store [''open_ports_2_0''] ''lab'' None (entries_of [(''lab'', sample_entries)] ''lab'')"
  using checked_record_disciplined [OF sample_check] by simp

definition old_lab :: dict where
  "old_lab = [(''common'', PDict [(''open_ports'', PStr ''443 80'')])]"

definition migrated_lab :: dict where
  "migrated_lab = [(''common'', PDict [(''open_ports'', PList [PStr ''443'', PStr ''80''])])]"

definition stamped_lab :: dict where
  "stamped_lab = migrated_lab @ [(''schema_versions'', PDict [(''lab'', PStr ''2.0'')])]"

theorem upgraded_lab_is_current_witness:
  "require_current [(''lab'', sample_entries)] stamped_lab ''lab.json'' = Inr () \<and>
   (\<exists>recorded. get stamped_lab LAB_VERSIONS_KEY = PDict recorded \<and> map_of recorded ''lab'' = Some (PStr ''2.0''))"
proof -
  have m: "migrate ''lab'' (Doc old_lab) [(''lab'', sample_entries)] =
      Inr (Doc migrated_lab, [''lab 2.0: common.open_ports: '' @ dq ''443 80'' @ '' -> '' @ json_val (PList [PStr ''443'', PStr ''80''])])"
    by code_simp
  have s: "stamp ''lab'' (Doc migrated_lab) [(''lab'', sample_entries)] = Inr (Doc stamped_lab)" by code_simp
  have d: "distinct (map fst [(''lab'', sample_entries)])" by simp
  have n: "schemas_of ''lab'' (Doc migrated_lab) = Inr [''lab'']" by code_simp
  have l: "latest_of [(''lab'', sample_entries)] ''lab'' = Some (PStr ''2.0'')" by code_simp
  note u = upgraded_lab_is_current [OF sample_check d m s, where path = "''lab.json''"]
  have "require_current [(''lab'', sample_entries)] stamped_lab ''lab.json'' = Inr ()"
    using u by (elim conjE)
  moreover have "\<exists>recorded. get stamped_lab LAB_VERSIONS_KEY = PDict recorded \<and> map_of recorded ''lab'' = Some (PStr ''2.0'')"
    using conjunct1 [OF u] unfolding n sum.inject by (elim exE conjE) (auto simp: l)
  ultimately show ?thesis by blast
qed

text \<open>
  Restricting a field that took any text to some values is reported neither as breaking nor as
  another change, so a compatible version may do it.
\<close>

theorem new_enum_unreported:
  "breaking_changes (sample_snap ''1.0'' [(''f'', text_field)])
     (sample_snap ''1.1'' [(''f'', text_field @ [(''enum'', PList [PStr ''a'', PStr ''b''])])]) = Inr [] \<and>
   other_changes (sample_snap ''1.0'' [(''f'', text_field)])
     (sample_snap ''1.1'' [(''f'', text_field @ [(''enum'', PList [PStr ''a'', PStr ''b''])])]) = Inr []"
  by code_simp

text \<open>An enum value with a label that is dropped, or whose label is reworded, makes the comparison raise.\<close>

theorem labelled_value_raises:
  "breaking_changes
     (sample_snap ''1.0'' [(''f'', [(''enum'', PList [PDict [(''value'', PStr []), (''label'', PStr ''x'')], PStr ''a''])])])
     (sample_snap ''1.1'' [(''f'', [(''enum'', PList [PDict [(''value'', PStr []), (''label'', PStr ''y'')], PStr ''a''])])])
   = Inl (TypeError ''expected str'')"
  by code_simp

end
