(* ===== verification/Lab_Defs.thy ===== *)
theory Lab_Defs
  imports Addon_Registry Py_Regex "HOL-Library.Word"
begin

unbundle bit_operations_syntax

text \<open>
  The helpers of \<open>libs/lab_creation.py\<close> that read a lab definition: defaults in the manner of jq,
  base images and where they come from, the commands of a node, the variables of a VM, the totals
  of a lab and the MAC addresses; with \<open>libs/source_utils.py\<close> and the product names of
  \<open>libs/cloud_images.py\<close>.

  What the host answers (resolver file, routes, host name, a local checksum file, the SSH runs, the
  digest and the random numbers) are parameters.
\<close>

section \<open>Values\<close>

definition jq_or :: "pval \<Rightarrow> pval \<Rightarrow> pval" where
  "jq_or value dflt = (if value = PNone \<or> value = PBool False then dflt else value)"

definition jq :: "pval \<Rightarrow> pval" where
  "jq value = jq_or value (PStr [])"

definition is_empty :: "pval \<Rightarrow> bool" where
  "is_empty value = (value = PNone \<or> value = PBool False \<or> value = PStr [])"

text \<open>\<open>(v or "").lower()\<close>.\<close>

definition lower_of :: "pval \<Rightarrow> string res" where
  "lower_of v = (if \<not> truthy v then Inr [] else case v of PStr s \<Rightarrow> Inr (str_lower s) | _ \<Rightarrow> Inl (AttributeError ''lower''))"

definition yaml_char :: "char \<Rightarrow> string" where
  "yaml_char c =
     (if code c = 92 then [c, c] else if code c = 34 then [char_of (92::nat), c]
      else if code c = 10 then [char_of (92::nat), CHR ''n''] else if code c = 13 then [char_of (92::nat), CHR ''r''] else [c])"

definition yaml_scalar :: "pval \<Rightarrow> string" where
  "yaml_scalar value =
     (case value of
        PBool b \<Rightarrow> if b then ''true'' else ''false''
      | PInt i \<Rightarrow> int_str i
      | _ \<Rightarrow> dq (concat (map yaml_char (py_str value))))"

section \<open>Where an image comes from (libs/source_utils.py)\<close>

text \<open>A text \<open>int(value, 16)\<close> takes: sign, 0x, digits with single underscores between.\<close>

definition is_hex :: "char \<Rightarrow> bool" where
  "is_hex c = (is_digit c \<or> 97 \<le> code (lower_char c) \<and> code (lower_char c) \<le> 102)"

fun hex_digits :: "bool \<Rightarrow> string \<Rightarrow> bool" where
  "hex_digits after [] = after"
| "hex_digits after (c # cs) = (if is_hex c then hex_digits True cs else c = CHR ''_'' \<and> after \<and> hex_digits False cs)"

definition hex_literal :: "string \<Rightarrow> bool" where
  "hex_literal s0 =
     (let s = (case s0 of c # cs \<Rightarrow> if c = CHR ''-'' \<or> c = CHR ''+'' then cs else s0 | [] \<Rightarrow> []);
          t = (if starts_with (str_lower s) ''0x'' then drop 2 s else s) in
      hex_digits False (if t \<noteq> s \<and> starts_with t ''_'' then tl t else t))"

definition PROTOCOLS :: "string list" where
  "PROTOCOLS = [''http://'', ''https://'', ''ftp://'', ''file://'', ''nfs://'']"

definition get_source_type :: "pval \<Rightarrow> string option res" where
  "get_source_type value =
     (if \<not> truthy value then Inr None
      else case value of
        PStr v0 \<Rightarrow>
          (let v = str_strip v0 in
           if list_ex (starts_with v) PROTOCOLS then Inr (Some ''url'')
           else if length v \<in> {32, 40, 64, 128} \<and> hex_literal v then Inr (Some ''checksum'')
           else Inr (Some ''local_file''))
      | _ \<Rightarrow> Inl (AttributeError ''strip''))"

definition is_url :: "pval \<Rightarrow> bool res" where
  "is_url value = res_bind (get_source_type value) (\<lambda>t. Inr (t = Some ''url''))"

section \<open>Base images\<close>

definition hd_or :: "string list \<Rightarrow> string" where
  "hd_or ws = (case ws of [] \<Rightarrow> [] | w # _ \<Rightarrow> w)"

definition image_file_name :: "string \<Rightarrow> string" where
  "image_file_name url =
     basename (rstrip_ch CHR ''/'' (takeWhile (\<lambda>c. c \<noteq> CHR ''#'') (takeWhile (\<lambda>c. c \<noteq> CHR ''?'') (hd_or (words url)))))"

definition image_name :: "dict \<Rightarrow> pval res" where
  "image_name cfg =
     (let img = py_or (jq (get cfg ''SOURCE_IMAGE'')) (jq (get cfg ''ISO_IMAGE'')) in
      res_bind (is_url img) (\<lambda>u. Inr (if u then PStr (image_file_name (str_of img)) else img)))"

text \<open>\<open>file\<close> is what reading a local file as text gives: an \<open>OSError\<close> where it cannot be read, and another error, a \<open>ValueError\<close>, where it is
  not UTF-8. The code catches the first alone.\<close>

definition source_checksum :: "(string \<Rightarrow> string res) \<Rightarrow> pval \<Rightarrow> (string \<times> string) res" where
  "source_checksum file value0 =
     (case py_or value0 (PStr []) of
        PStr v0 \<Rightarrow>
          (let v = str_strip v0 in
           res_bind (is_url (PStr v)) (\<lambda>u.
           if u then Inr ([], v)
           else if v \<noteq> [] \<and> \<not> list_all is_hex v then
             (case file v of
                Inl (OSError _) \<Rightarrow> Inr (v, [])
              | Inl e \<Rightarrow> Inl e
              | Inr t \<Rightarrow> Inr (str_lower (hd_or (words t)), []))
           else Inr (str_lower v, [])))
      | _ \<Rightarrow> Inl (AttributeError ''strip''))"

type_synonym source = "pval \<times> pval \<times> string \<times> pval"

definition image_source :: "(string \<Rightarrow> string res) \<Rightarrow> dict \<Rightarrow> source option res" where
  "image_source file cfg =
     (let src = jq (get cfg ''SOURCE_IMAGE'') in
      res_bind (is_url src) (\<lambda>u.
      (let url = (if u then src else jq (get cfg ''ISO_URL'')) in
       if \<not> truthy url then Inr None
       else res_bind (source_checksum file (py_or (jq (get cfg ''SOURCE_SHA256'')) (jq (get cfg ''ISO_SHA256'')))) (\<lambda>(sha, sha_url).
            res_bind (image_name cfg) (\<lambda>img.
            Inr (Some (img, url, sha, py_or (PStr sha_url) (jq (get cfg ''ISO_SHA256_URL'')))))))))"

text \<open>\<open>^[A-Za-z0-9][A-Za-z0-9._+-]*$\<close> and \<open>^[0-9a-f]{64}$\<close>; \<open>$\<close> also matches before a final newline.\<close>

definition is_alnum :: "char \<Rightarrow> bool" where
  "is_alnum c = (is_word c \<and> c \<noteq> CHR ''_'')"

definition chomp :: "string \<Rightarrow> string" where
  "chomp s = (if ends_with s NL then butlast s else s)"

definition plain_file_name :: "string \<Rightarrow> bool" where
  "plain_file_name s0 = (case chomp s0 of [] \<Rightarrow> False
     | c # cs \<Rightarrow> is_alnum c \<and> list_all (\<lambda>x. is_alnum x \<or> x \<in> set ''._+-'') cs)"

definition is_sha256 :: "string \<Rightarrow> bool" where
  "is_sha256 s = (length (chomp s) = 64 \<and> list_all (\<lambda>c. is_digit c \<or> 97 \<le> code c \<and> code c \<le> 102) (chomp s))"

definition download_url :: "string \<Rightarrow> bool" where
  "download_url u = list_ex (starts_with u) [''http://'', ''https://'', ''ftp://'', ''file://'']"

definition image_source_issues :: "string \<Rightarrow> string \<Rightarrow> string \<Rightarrow> string \<Rightarrow> string \<Rightarrow> string list" where
  "image_source_issues label img url sha256 sha256_url =
     (if img = [] \<or> \<not> plain_file_name img then
        [label @ '': a downloaded image (SOURCE_IMAGE URL or ISO_URL) needs a plain file name (got '' @ sq img @ '')''] else []) @
     (if words url = [] \<or> \<not> list_all download_url (words url) then
        [label @ '': each download URL (SOURCE_IMAGE or ISO_URL) must start with http://, https://, ftp:// or file://''] else []) @
     (if sha256 \<noteq> [] \<and> \<not> is_sha256 (str_lower sha256) then
        [label @ '': SOURCE_SHA256 (or ISO_SHA256) must be a 64-character hex sha256''] else []) @
     (if sha256 = [] \<and> \<not> starts_with sha256_url ''https://'' then
        [label @ '': a downloaded image needs SOURCE_SHA256: its sha256, or an https:// URL publishing it '' @
         ''(ISO_SHA256 / ISO_SHA256_URL for ISO_URL)''] else [])"

type_synonym request = "string \<times> source"

definition node_request :: "(string \<Rightarrow> string res) \<Rightarrow> dict \<Rightarrow> string \<times> pval \<Rightarrow> request list res" where
  "node_request file common = (\<lambda>(vm_name, node0).
     res_bind (or_dict node0) (\<lambda>node.
     (let backend = py_or (jq (get node ''backend'')) (jq (get common ''backend''));
          account = py_or (jq (get node ''cloud_account'')) (jq (get common ''cloud_account'')) in
      if truthy account \<or> truthy backend \<and> backend \<noteq> PStr ''libvirt'' then Inr []
      else res_bind (image_source file node) (\<lambda>own.
           res_bind (image_name node) (\<lambda>own_image.
           res_bind (if own = None \<and> is_empty own_image then image_source file common else Inr own) (\<lambda>source.
           case source of
             None \<Rightarrow> Inr []
           | Some (img, url, sha, sha_url) \<Rightarrow>
               res_bind (if truthy img then Inr img else image_name common) (\<lambda>img'.
               Inr [(vm_name, img', url, sha, sha_url)])))))))"

definition image_download_requests :: "(string \<Rightarrow> string res) \<Rightarrow> dict \<Rightarrow> request list res" where
  "image_download_requests file defn =
     res_bind (or_dict (get defn ''common'')) (\<lambda>common. res_bind (or_dict (get defn ''nodes'')) (\<lambda>nodes.
     res_bind (res_map (node_request file common) nodes) (\<lambda>xs. Inr (concat xs))))"

section \<open>Installers and configuration methods\<close>

definition resolve_install_type :: "pval \<Rightarrow> pval \<Rightarrow> pval res" where
  "resolve_install_type install_type iso_image =
     (if truthy install_type then Inr install_type
      else res_bind (lower_of iso_image) (\<lambda>iso.
        Inr (PStr (if list_ex (\<lambda>w. contains w iso) [''sles'', ''suse'', ''opensuse'', ''sl-micro'', ''sle-micro''] then ''autoyast''
             else if list_ex (\<lambda>w. contains w iso) [''rhel'', ''centos'', ''rocky'', ''almalinux'', ''fedora''] then ''kickstart''
             else if contains ''ubuntu'' iso then ''autoinstall''
             else if contains ''debian'' iso then ''preseed''
             else ''autoyast''))))"

definition product_names :: "string list" where
  "product_names = [''sles'', ''sles16'', ''sles15.7'', ''slmicro'', ''slmicro6.1'', ''leap'', ''sles16-byos'', ''sles15.7-byos'',
     ''slmicro6.1-byos'', ''ubuntu24.04'', ''debian13'', ''amazonlinux2023'', ''rhel9'', ''rhel10'', ''alma10'', ''rocky10'', ''centos7'']"

text \<open>\<open>^(ami|img|image|snap)-[0-9a-z]+$\<close>, ignoring case, of a stripped text.\<close>

definition provider_image_id :: "string \<Rightarrow> bool" where
  "provider_image_id v =
     list_ex (\<lambda>p. starts_with (str_lower v) p \<and> drop (length p) v \<noteq> [] \<and> list_all is_alnum (drop (length p) v))
       [''ami-'', ''img-'', ''image-'', ''snap-'']"

definition is_image_file_name :: "pval \<Rightarrow> bool" where
  "is_image_file_name iso_image =
     (let value = str_strip (py_str (py_or iso_image (PStr []))) in
      value \<noteq> [] \<and> \<not> provider_image_id value \<and> str_lower value \<notin> set product_names)"

definition IMAGE_CONFIG_METHOD_SUPPORT :: "(string \<times> string \<times> string list) list" where
  "IMAGE_CONFIG_METHOD_SUPPORT =
     [(''el6|rhel-?6|centos-?6'', ''RHEL/CentOS 6 (EOL '' @ emdash @ '' cloud-init not packaged upstream)'', [''virt_customize'']),
      (''el7|rhel-?7|centos-?7'', ''RHEL/CentOS 7'', [''virt_customize'']),
      (''sle?-?micro'', ''SLE Micro 5.x/6.x'', [[], ''virt_customize'']),
      (''minimal-vm.*kvm-and-xen'', ''SLES 15/16 or openSUSE Leap 15.x Minimal VM (KVM/Xen)'', [''virt_customize'']),
      (''debian.*nocloud|nocloud.*debian'', ''Debian 10+ (nocloud variant)'', [''virt_customize'']),
      (''debian'', ''Debian 10+ (generic cloud image)'', [''cloud-init'', ''virt_customize'']),
      (''fedora'', ''Fedora 28+ (Cloud Base image)'', [''cloud-init'', ''virt_customize'']),
      (''rocky'', ''Rocky Linux 8/9/10 (GenericCloud image)'', [''cloud-init'', ''virt_customize'']),
      (''alma'', ''AlmaLinux 8/9/10 (GenericCloud image)'', [''cloud-init'', ''virt_customize'']),
      (''rhel|centos'', ''RHEL/CentOS(-Stream) 8/9/10'', [''cloud-init'', ''virt_customize'']),
      (''ubuntu'', ''Ubuntu 18.04+ (cloud/server image)'', [''cloud-init'', ''install_iso'', ''virt_customize'']),
      (''aliyun|alinux|alibaba'', ''Alibaba Cloud Linux 2/3 (alibase image)'', [''cloud-init'', ''virt_customize''])]"

definition supported_config_methods :: "pval \<Rightarrow> (string \<times> string list) option res" where
  "supported_config_methods iso_image =
     (if \<not> is_image_file_name iso_image then Inr None
      else res_bind (lower_of iso_image) (\<lambda>iso.
        Inr (map_option snd (find (\<lambda>(p, _). case rx_parse p of Some r \<Rightarrow> rx_search r iso \<noteq> None | None \<Rightarrow> False)
                               IMAGE_CONFIG_METHOD_SUPPORT))))"

section \<open>The commands of a node\<close>

definition lab_node :: "dict \<Rightarrow> string \<Rightarrow> dict res" where
  "lab_node defn vm_name = res_bind (or_dict (get defn ''nodes'')) (\<lambda>nodes. or_dict (get nodes vm_name))"

definition lab_common :: "dict \<Rightarrow> dict res" where
  "lab_common defn = or_dict (get defn ''common'')"

definition iterate :: "pval \<Rightarrow> pval list res" where
  "iterate v =
     (case v of
        PList xs \<Rightarrow> Inr xs
      | PDict d \<Rightarrow> Inr (map (\<lambda>kv. PStr (fst kv)) d)
      | PStr s \<Rightarrow> Inr (map (\<lambda>c. PStr [c]) s)
      | _ \<Rightarrow> Inl (TypeError ''not iterable''))"

definition node_commands :: "dict \<Rightarrow> string \<Rightarrow> string \<Rightarrow> string list res" where
  "node_commands defn vm_name phase =
     (let key = phase @ ''_commands'' in
      res_bind (lab_node defn vm_name) (\<lambda>node.
      res_bind (case map_of node key of Some v \<Rightarrow> Inr v | None \<Rightarrow> res_bind (lab_common defn) (\<lambda>c. Inr (get c key))) (\<lambda>commands.
      if is_empty commands then Inr []
      else case commands of
        PStr s \<Rightarrow> Inr [s]
      | _ \<Rightarrow> res_bind (iterate commands) (\<lambda>cs. Inr (map py_str (filter (\<lambda>c. \<not> is_empty c) cs))))))"

text \<open>\<open>run target command\<close> is the message of the error the command raised, None when it succeeded.\<close>

definition run_node_commands :: "(string \<Rightarrow> string \<Rightarrow> string option) \<Rightarrow> dict \<Rightarrow> string \<Rightarrow> string \<Rightarrow> string list res" where
  "run_node_commands run defn vm_name phase =
     res_bind (node_commands defn vm_name phase) (\<lambda>commands.
     if commands = [] then Inr []
     else res_bind (lab_node defn vm_name) (\<lambda>node.
       (let target = py_str (py_or (get node ''myip'') (PStr vm_name)) in
        Inr (List.map_filter (\<lambda>c. map_option (\<lambda>e. phase @ ''_commands on '' @ sq vm_name @ '': '' @ sq c @ '' failed: '' @ e)
                                     (run target c)) commands))))"

section \<open>The variables of a VM\<close>

record host_view =
  hv_resolv :: "string option"
  hv_route :: string
  hv_addr :: "string \<Rightarrow> string"
  hv_fqdn :: string
  hv_hostname :: string

definition first_group :: "string \<Rightarrow> string \<Rightarrow> string option" where
  "first_group pat text = (case rx_parse pat of None \<Rightarrow> None
     | Some r \<Rightarrow> (case rx_search r text of None \<Rightarrow> None | Some m \<Rightarrow> group m 1))"

definition bsl :: "string \<Rightarrow> string" where
  "bsl s = char_of (92::nat) # s"

definition detect_dns :: "host_view \<Rightarrow> string" where
  "detect_dns h =
     (case hv_resolv h of
        None \<Rightarrow> []
      | Some t \<Rightarrow> (case List.map_filter (first_group (''^nameserver'' @ bsl ''s+(['' @ bsl ''d.]+)'')) (splitlines t) of
                    [] \<Rightarrow> [] | g # _ \<Rightarrow> g))"

definition or_nil :: "string option \<Rightarrow> string" where
  "or_nil o' = (case o' of None \<Rightarrow> [] | Some s \<Rightarrow> s)"

definition detect_gateway :: "host_view \<Rightarrow> string" where
  "detect_gateway h = or_nil (first_group (''via'' @ bsl ''s+(['' @ bsl ''d.]+)'') (hv_route h))"

definition detect_domain :: "host_view \<Rightarrow> string" where
  "detect_domain h =
     (let short = takeWhile (\<lambda>c. c \<noteq> CHR ''.'') (hv_hostname h) in
      if starts_with (hv_fqdn h) (short @ ''.'') then drop (length short + 1) (hv_fqdn h) else [])"

definition detect_netmask :: "host_view \<Rightarrow> string" where
  "detect_netmask h =
     (case first_group (bsl ''bdev'' @ bsl ''s+('' @ bsl ''S+)'') (hv_route h) of
        None \<Rightarrow> []
      | Some dev \<Rightarrow> or_nil (first_group (''inet'' @ bsl ''s+['' @ bsl ''d.]+/('' @ bsl ''d{1,2})'') (hv_addr h dev)))"

definition reverse_ip :: "pval \<Rightarrow> string res" where
  "reverse_ip ip =
     (case ip of
        PStr s \<Rightarrow> (let parts = split_ch CHR ''.'' s in Inr (if length parts = 4 then join ''.'' (rev (butlast parts)) else []))
      | _ \<Rightarrow> Inl (AttributeError ''split''))"

definition fill :: "string \<Rightarrow> string \<Rightarrow> dict \<Rightarrow> dict" where
  "fill key v d = (if truthy (get d key) then d else AList.update key (PStr v) d)"

definition node_vars :: "dict \<Rightarrow> dict \<Rightarrow> dict" where
  "node_vars node vars = fold (\<lambda>(k, v). AList.update (if k = ''kcluster'' then ''clu_name'' else k) v) node vars"

text \<open>\<open>update\<close> also takes an empty list or text; a list of pairs, which it would take as well, is not modelled.\<close>

definition update_arg :: "pval \<Rightarrow> dict res" where
  "update_arg v = (case v of PDict d \<Rightarrow> Inr d | PList [] \<Rightarrow> Inr [] | PStr [] \<Rightarrow> Inr [] | _ \<Rightarrow> Inl (TypeError ''update''))"

definition strict_dict :: "pval \<Rightarrow> dict res" where
  "strict_dict v = (case v of PDict d \<Rightarrow> Inr d | _ \<Rightarrow> Inl (AttributeError ''get''))"

definition load_vm_vars :: "host_view \<Rightarrow> dict \<Rightarrow> string \<Rightarrow> dict res" where
  "load_vm_vars h defn vm_name =
     res_bind (update_arg (get_dflt defn ''common'' (PDict []))) (\<lambda>common.
     res_bind (strict_dict (get_dflt defn ''nodes'' (PDict []))) (\<lambda>nodes.
     res_bind (strict_dict (get_dflt nodes vm_name (PDict []))) (\<lambda>node.
     (let v = fill ''mydomain'' (detect_domain h) (fill ''mygw'' (detect_gateway h) (fill ''mydns'' (detect_dns h)
                (node_vars node (update_all common [])))) in
      res_bind (if \<not> truthy (get v ''mynet_reverse'') \<and> truthy (get v ''myip'')
                then res_bind (reverse_ip (get v ''myip'')) (\<lambda>r. Inr (AList.update ''mynet_reverse'' (PStr r) v)) else Inr v) (\<lambda>v2.
      Inr (fill ''mymask'' (detect_netmask h) v2))))))"

section \<open>Totals\<close>

definition node_field :: "dict \<Rightarrow> dict \<Rightarrow> string \<Rightarrow> int res" where
  "node_field common node key = to_int (py_or (get_dflt node key (get_dflt common key (PInt 0))) (PInt 0))"

definition node_totals :: "dict \<Rightarrow> pval \<Rightarrow> int \<times> int \<times> int \<Rightarrow> (int \<times> int \<times> int) res" where
  "node_totals common node0 = (\<lambda>(cpu, mem, dsk).
     res_bind (or_dict node0) (\<lambda>node.
     res_bind (node_field common node ''VM_CPU'') (\<lambda>c.
     res_bind (node_field common node ''VM_MEM'') (\<lambda>m.
     res_bind (node_field common node ''VM_DSK'') (\<lambda>d.
     Inr (cpu + c, mem + m, dsk + d))))))"

definition total_lab_resources :: "dict \<Rightarrow> (int \<times> int \<times> int) res" where
  "total_lab_resources defn =
     res_bind (lab_common defn) (\<lambda>common. res_bind (or_dict (get defn ''nodes'')) (\<lambda>nodes.
     res_fold (node_totals common) (map snd nodes) (0, 0, 0)))"

section \<open>MAC addresses\<close>

definition hex2 :: "8 word \<Rightarrow> string" where
  "hex2 b = [hex_digit (unat b div 16), hex_digit (unat b mod 16)]"

definition admin_byte :: "8 word \<Rightarrow> 8 word" where
  "admin_byte b = (b AND 0xFC) OR 0x02"

definition mac_of :: "8 word list \<Rightarrow> string" where
  "mac_of bs = join '':'' (map hex2 (admin_byte (hd bs) # tl bs))"

text \<open>
  The addresses tried: those derived from the name (\<open>digest name attempt\<close>, six bytes), then drawn
  at random. The loop over the draws ends when one is unused; fuel bounds it.
\<close>

fun first_unused :: "string set \<Rightarrow> (nat \<Rightarrow> 8 word list) \<Rightarrow> nat \<Rightarrow> nat \<Rightarrow> string option" where
  "first_unused used draw i 0 = None"
| "first_unused used draw i (Suc n) =
     (if mac_of (draw i) \<notin> used then Some (mac_of (draw i)) else first_unused used draw (Suc i) n)"

definition generate_unused_mac ::
  "(string \<Rightarrow> nat \<Rightarrow> 8 word list) \<Rightarrow> (nat \<Rightarrow> 8 word list) \<Rightarrow> string set \<Rightarrow> string \<Rightarrow> nat \<Rightarrow> string option" where
  "generate_unused_mac digest random used vm_name fuel =
     (case (if vm_name = [] then None else first_unused used (digest vm_name) 0 256) of
        Some m \<Rightarrow> Some m
      | None \<Rightarrow> first_unused used random 0 fuel)"

subsection \<open>Addresses are unused, local and unicast\<close>

lemma admin_byte_bits: "bit (admin_byte b) (Suc 0)" "\<not> bit (admin_byte b) 0"
  by (simp_all add: admin_byte_def bit_simps)

lemma first_unused_Some:
  "first_unused used draw i n = Some m \<Longrightarrow> m \<notin> used \<and> (\<exists>j. i \<le> j \<and> j < i + n \<and> m = mac_of (draw j))"
proof (induction n arbitrary: i)
  case (Suc n)
  show ?case
  proof (cases "mac_of (draw i) \<in> used")
    case True
    then obtain j where "Suc i \<le> j" "j < Suc i + n" "m = mac_of (draw j)" "m \<notin> used"
      using Suc.IH [of "Suc i"] Suc.prems by auto
    then show ?thesis by (intro conjI exI [of _ j]) auto
  qed (use Suc.prems in auto)
qed simp

lemma first_unused_None: "first_unused used draw i n = None \<longleftrightarrow> (\<forall>j. i \<le> j \<and> j < i + n \<longrightarrow> mac_of (draw j) \<in> used)"
proof (induction n arbitrary: i)
  case (Suc n)
  have "i \<le> j \<and> j < i + Suc n \<longleftrightarrow> j = i \<or> Suc i \<le> j \<and> j < Suc i + n" for j by auto
  then show ?case using Suc.IH [of "Suc i"] by auto
qed auto

lemma first_unused_found:
  assumes "finite used" and "card used < n" and "inj_on (\<lambda>j. mac_of (draw j)) {..<n}"
  shows "\<exists>m. first_unused used draw 0 n = Some m"
proof (rule ccontr)
  assume "\<not> ?thesis"
  then have "first_unused used draw 0 n = None" by auto
  then have "(\<lambda>j. mac_of (draw j)) ` {..<n} \<subseteq> used" by (auto simp: first_unused_None)
  then have "card {..<n} \<le> card used" by (metis assms(1,3) card_image card_mono)
  with assms(2) show False by simp
qed

lemma two_macs:
  "mac_of [0, 0, 0, 0, 0, 0] = ''02:00:00:00:00:00''" "mac_of [0, 0, 0, 0, 0, 1] = ''02:00:00:00:00:01''"
  by code_simp+

text \<open>The MAC address a node without one gets is found, is none of those in use, and is a locally
  administered unicast address: whatever addresses are in use and wherever the name's own derived
  addresses collide with them, provided the draws that follow are different addresses and more than
  those in use.
\<close>

theorem unused_mac_found:
  assumes "finite used" and "card used < fuel" and "inj_on (\<lambda>j. mac_of (random j)) {..<fuel}"
    and "\<And>j. length (random j) = 6" and "\<And>j. length (digest vm_name j) = 6"
  shows "\<exists>b bs. generate_unused_mac digest random used vm_name fuel = Some (join '':'' (map hex2 (b # bs))) \<and>
    join '':'' (map hex2 (b # bs)) \<notin> used \<and> length bs = 5 \<and> bit b 1 \<and> \<not> bit b 0"
proof -
  have made: "\<exists>b bs. Some (mac_of d) = Some (join '':'' (map hex2 (b # bs))) \<and>
      join '':'' (map hex2 (b # bs)) \<notin> used \<and> length bs = 5 \<and> bit b 1 \<and> \<not> bit b 0"
    if "length d = 6" "mac_of d \<notin> used" for d
    by (rule exI [of _ "admin_byte (hd d)"], rule exI [of _ "tl d"])
      (use that in \<open>auto simp: mac_of_def admin_byte_bits simp del: list.map join.simps\<close>)
  obtain r where r: "first_unused used random 0 fuel = Some r" using first_unused_found [OF assms(1-3)] by auto
  show ?thesis
  proof (cases "if vm_name = [] then None else first_unused used (digest vm_name) 0 256")
    case None
    then have "generate_unused_mac digest random used vm_name fuel = Some r" by (simp add: generate_unused_mac_def r)
    then show ?thesis using first_unused_Some [OF r] made assms(4) by auto
  next
    case (Some m)
    then have m: "first_unused used (digest vm_name) 0 256 = Some m" by (simp split: if_splits)
    have "generate_unused_mac digest random used vm_name fuel = Some m" by (simp only: generate_unused_mac_def Some option.case)
    then show ?thesis using first_unused_Some [OF m] made assms(5) by auto
  qed
qed

theorem unused_mac_found_witness:
  "\<exists>b bs. generate_unused_mac (\<lambda>_ _. [0, 0, 0, 0, 0, 0]) (\<lambda>j. [0, 0, 0, 0, 0, of_nat j]) {''02:00:00:00:00:00''} ''n'' 2 =
      Some (join '':'' (map hex2 (b # bs))) \<and>
    join '':'' (map hex2 (b # bs)) \<notin> {''02:00:00:00:00:00''} \<and> length bs = 5 \<and> bit b 1 \<and> \<not> bit b 0"
proof (rule unused_mac_found)
  show "inj_on (\<lambda>j. mac_of [0, 0, 0, 0, 0, of_nat j]) {..<2}"
    by (simp add: lessThan_Suc numeral_2_eq_2 two_macs)
qed simp_all

end
