(* ===== verification/Lab_Types.thy ===== *)
theory Lab_Types
  imports Lab_Defs
begin

text \<open>
  The types of a lab definition: the sections are dicts with each key once, the fields that the helpers of \<open>Lab_Defs\<close> read
  have the types that \<open>libs/lab_schema_base.py\<close> declares for them, and any other field any value. On such
  a lab the helpers raise nothing but what reading a checksum file raises, and what each gives is pinned down.
\<close>

section \<open>The declared types\<close>

definition TEXT_FIELDS :: "string list" where
  "TEXT_FIELDS = [''SOURCE_IMAGE'', ''ISO_IMAGE'', ''ISO_URL'', ''SOURCE_SHA256'', ''ISO_SHA256'', ''ISO_SHA256_URL'', ''backend'',
     ''cloud_account'', ''myip'', ''mynet_reverse'', ''mydomain'', ''mygw'', ''mydns'', ''mymask'', ''kcluster'', ''clu_name'']"

definition SIZE_FIELDS :: "string list" where
  "SIZE_FIELDS = [''VM_CPU'', ''VM_MEM'', ''VM_DSK'']"

definition COMMAND_FIELDS :: "string list" where
  "COMMAND_FIELDS = [''pre_commands'', ''post_commands'']"

definition text_ok :: "pval \<Rightarrow> bool" where
  "text_ok v = (v = PNone \<or> v = PBool False \<or> is_str v)"

text \<open>A number, or a text that reads as one.\<close>

definition size_ok :: "pval \<Rightarrow> bool" where
  "size_ok v = (\<not> truthy v \<or> (case v of PInt _ \<Rightarrow> True | PStr s \<Rightarrow> py_int s \<noteq> None | _ \<Rightarrow> False))"

definition commands_ok :: "pval \<Rightarrow> bool" where
  "commands_ok v = (is_empty v \<or> (case v of PStr _ \<Rightarrow> True | PList _ \<Rightarrow> True | _ \<Rightarrow> False))"

definition has_type :: "string \<Rightarrow> pval \<Rightarrow> bool" where
  "has_type k v =
     (if k \<in> set TEXT_FIELDS then text_ok v else if k \<in> set SIZE_FIELDS then size_ok v
      else if k \<in> set COMMAND_FIELDS then commands_ok v else True)"

definition fields_typed :: "dict \<Rightarrow> bool" where
  "fields_typed d = list_all (\<lambda>(k, v). has_type k v) d"

definition section_typed :: "pval \<Rightarrow> bool" where
  "section_typed v = (case v of PDict d \<Rightarrow> fields_typed d \<and> distinct (map fst d) | _ \<Rightarrow> False)"

definition lab_typed :: "dict \<Rightarrow> bool" where
  "lab_typed defn =
     (section_typed (get_dflt defn ''common'' (PDict [])) \<and>
      (case get_dflt defn ''nodes'' (PDict []) of PDict nodes \<Rightarrow> list_all (section_typed \<circ> snd) nodes | _ \<Rightarrow> False))"

text \<open>A request whose image and address are texts, the address one there is.\<close>

definition request_typed :: "request \<Rightarrow> bool" where
  "request_typed = (\<lambda>(_, img, url, _, sha_url). is_str img \<and> is_str url \<and> truthy url \<and> is_str sha_url)"

section \<open>Reading typed fields\<close>

lemma text_fields [simp]:
  "has_type ''SOURCE_IMAGE'' v = text_ok v" "has_type ''ISO_IMAGE'' v = text_ok v" "has_type ''ISO_URL'' v = text_ok v"
  "has_type ''SOURCE_SHA256'' v = text_ok v" "has_type ''ISO_SHA256'' v = text_ok v" "has_type ''ISO_SHA256_URL'' v = text_ok v"
  "has_type ''myip'' v = text_ok v" "has_type ''mynet_reverse'' v = text_ok v"
  "has_type ''mydomain'' v = text_ok v" "has_type ''mygw'' v = text_ok v" "has_type ''mydns'' v = text_ok v" "has_type ''mymask'' v = text_ok v"
  "has_type ''kcluster'' v = text_ok v" "has_type ''clu_name'' v = text_ok v"
  "has_type ''VM_CPU'' v = size_ok v" "has_type ''VM_MEM'' v = size_ok v" "has_type ''VM_DSK'' v = size_ok v"
  "has_type ''pre_commands'' v = commands_ok v" "has_type ''post_commands'' v = commands_ok v"
  by (simp_all add: has_type_def TEXT_FIELDS_def SIZE_FIELDS_def COMMAND_FIELDS_def)

lemma text_ok_simps [simp]: "text_ok PNone" "text_ok (PStr s)" "size_ok PNone" "size_ok (PInt i)" "commands_ok PNone"
  by (simp_all add: text_ok_def size_ok_def commands_ok_def is_empty_def)

lemma has_type_None [simp]: "has_type k PNone"
  by (simp add: has_type_def)

lemma typed_entry: "fields_typed d \<Longrightarrow> map_of d k = Some v \<Longrightarrow> has_type k v"
  by (auto simp: fields_typed_def list_all_iff dest!: map_of_SomeD)

lemma typed_get: "fields_typed d \<Longrightarrow> has_type k (get d k)"
  by (simp add: get_def typed_entry split: option.split)

lemma typed_get_dflt: "fields_typed d \<Longrightarrow> has_type k dflt \<Longrightarrow> has_type k (get_dflt d k dflt)"
  by (simp add: get_dflt_def typed_entry split: option.split)

lemma jq_text: "text_ok v \<Longrightarrow> is_str (jq v)"
  by (auto simp: jq_def jq_or_def text_ok_def)

lemma py_or_text: "is_str a \<Longrightarrow> is_str b \<Longrightarrow> is_str (py_or a b)"
  by (simp add: py_or_def)

lemma typed_text:
  assumes "fields_typed d"
  shows "is_str (jq (get d ''SOURCE_IMAGE''))" "is_str (jq (get d ''ISO_IMAGE''))" "is_str (jq (get d ''ISO_URL''))"
    "is_str (jq (get d ''SOURCE_SHA256''))" "is_str (jq (get d ''ISO_SHA256''))" "is_str (jq (get d ''ISO_SHA256_URL''))"
  using typed_get [OF assms] jq_text text_fields(1-6) by metis+

lemma is_str_conv: "is_str v \<longleftrightarrow> (\<exists>s. v = PStr s)"
  by (cases v) auto

lemma get_source_type_str: "is_str v \<Longrightarrow> \<exists>t. get_source_type v = Inr t"
  by (auto simp: is_str_conv get_source_type_def Let_def)

lemma is_url_str: "is_str v \<Longrightarrow> \<exists>b. is_url v = Inr b"
  using get_source_type_str [of v] by (auto simp: is_url_def)

lemma url_truthy: "is_url v = Inr True \<Longrightarrow> truthy v"
  by (cases "truthy v") (auto simp: is_url_def get_source_type_def)

section \<open>The images\<close>

lemma image_name_typed:
  assumes "fields_typed d"
  shows "\<exists>v. image_name d = Inr v \<and> is_str v"
proof -
  let ?img = "py_or (jq (get d ''SOURCE_IMAGE'')) (jq (get d ''ISO_IMAGE''))"
  have s: "is_str ?img" by (intro py_or_text typed_text assms)
  then obtain b where "is_url ?img = Inr b" using is_url_str by blast
  then show ?thesis using s by (simp add: image_name_def Let_def)
qed

text \<open>A result that meets a condition, or an error that reading a file raised and the code does not catch.\<close>

definition uncaught :: "(string \<Rightarrow> string res) \<Rightarrow> exc \<Rightarrow> bool" where
  "uncaught file e \<longleftrightarrow> (\<exists>p. file p = Inl e) \<and> (\<forall>t. e \<noteq> OSError t)"

definition good :: "(string \<Rightarrow> string res) \<Rightarrow> ('a \<Rightarrow> bool) \<Rightarrow> 'a res \<Rightarrow> bool" where
  "good file P r = (case r of Inl e \<Rightarrow> uncaught file e | Inr x \<Rightarrow> P x)"

lemma good_simps [simp]: "good file P (Inr x) = P x" "good file P (Inl e) = uncaught file e"
  by (simp_all add: good_def)

lemma good_bind: "good file P m \<Longrightarrow> (\<And>x. P x \<Longrightarrow> good file Q (f x)) \<Longrightarrow> good file Q (res_bind m f)"
  by (cases m) simp_all

lemma good_map:
  assumes "\<And>x. x \<in> set xs \<Longrightarrow> good file (P x) (f x)"
  shows "good file (list_all2 P xs) (res_map f xs)"
  using assms
proof (induction xs)
  case (Cons x xs)
  have "good file (list_all2 P xs) (res_map f xs)" using Cons by simp
  moreover have "good file (P x) (f x)" using Cons.prems by simp
  ultimately show ?case by (auto intro!: good_bind [where P = "P x"] good_bind [where P = "list_all2 P xs"])
qed simp

lemma source_checksum_typed:
  assumes "is_str v"
  shows "good file (\<lambda>_. True) (source_checksum file v)"
proof -
  obtain s where s: "py_or v (PStr []) = PStr s" using py_or_text [OF assms, of "PStr []"] by (auto simp: is_str_conv)
  obtain b where b: "is_url (PStr (str_strip s)) = Inr b" using is_url_str [of "PStr (str_strip s)"] by auto
  have "good file (\<lambda>_. True) (case file t of Inl (OSError _) \<Rightarrow> Inr (t, []) | Inl e \<Rightarrow> Inl e | Inr u \<Rightarrow> Inr (str_lower (hd_or (words u)), []))" for t
  proof (cases "file t")
    case (Inl e)
    then show ?thesis by (cases e) (auto simp: uncaught_def)
  qed simp
  then show ?thesis by (auto simp: source_checksum_def s b Let_def)
qed

definition source_typed :: "source option \<Rightarrow> bool" where
  "source_typed r = (case r of None \<Rightarrow> True | Some (img, url, sha, sha_url) \<Rightarrow> is_str img \<and> is_str url \<and> truthy url \<and> is_str sha_url)"

lemma image_source_typed:
  assumes "fields_typed d"
  shows "good file source_typed (image_source file d)"
proof -
  obtain u where u: "is_url (jq (get d ''SOURCE_IMAGE'')) = Inr u" using is_url_str [OF typed_text(1) [OF assms]] by blast
  have c: "good file (\<lambda>_. True) (source_checksum file (py_or (jq (get d ''SOURCE_SHA256'')) (jq (get d ''ISO_SHA256''))))"
    by (rule source_checksum_typed [OF py_or_text [OF typed_text(4,5) [OF assms]]])
  obtain img where i: "image_name d = Inr img" "is_str img" using image_name_typed [OF assms] by blast
  let ?url = "if u then jq (get d ''SOURCE_IMAGE'') else jq (get d ''ISO_URL'')"
  have su: "is_str (py_or (PStr t) (jq (get d ''ISO_SHA256_URL'')))" for t by (intro py_or_text typed_text assms) simp
  have url: "is_str ?url" using typed_text(1,3) [OF assms] by simp
  show ?thesis
  proof (cases "truthy ?url")
    case False
    then show ?thesis using u by (simp add: image_source_def Let_def source_typed_def)
  next
    case True
    have "good file source_typed (res_bind (source_checksum file (py_or (jq (get d ''SOURCE_SHA256'')) (jq (get d ''ISO_SHA256'')))) (\<lambda>(sha, sha_url).
            res_bind (image_name d) (\<lambda>img. Inr (Some (img, ?url, sha, py_or (PStr sha_url) (jq (get d ''ISO_SHA256_URL'')))))))"
      by (rule good_bind [OF c]) (use i su url True in \<open>simp add: source_typed_def split: prod.split if_splits\<close>)
    then show ?thesis using u True by (simp add: image_source_def Let_def)
  qed
qed

lemma section_typed_dict: "section_typed v \<Longrightarrow> \<exists>d. v = PDict d \<and> fields_typed d \<and> distinct (map fst d) \<and> or_dict v = Inr d"
  by (cases v) (auto simp: section_typed_def or_dict_def)

text \<open>What a node asks for: nothing, or one image under its own name.\<close>

definition node_asks :: "string \<times> pval \<Rightarrow> request list \<Rightarrow> bool" where
  "node_asks nv rs \<longleftrightarrow> list_all request_typed rs \<and> map fst rs \<in> {[], [fst nv]}"

lemma node_request_typed:
  assumes "section_typed v" and "fields_typed common"
  shows "good file (node_asks (n, v)) (node_request file common (n, v))"
proof -
  obtain d where d: "or_dict v = Inr d" "fields_typed d" using section_typed_dict [OF assms(1)] by blast
  obtain i where i: "image_name d = Inr i" using image_name_typed [OF d(2)] by blast
  obtain ci where ci: "image_name common = Inr ci" "is_str ci" using image_name_typed [OF assms(2)] by blast
  have last_step: "good file (node_asks (n, v)) (case src of None \<Rightarrow> Inr [] | Some (img, url, sha, sha_url) \<Rightarrow>
      res_bind (if truthy img then Inr img else image_name common) (\<lambda>img'. Inr [(n, img', url, sha, sha_url)]))" if "source_typed src" for src
    using that ci by (auto simp: source_typed_def node_asks_def request_typed_def split: option.split prod.split)
  have "good file (node_asks (n, v)) (res_bind (image_source file d) (\<lambda>own. res_bind (image_name d) (\<lambda>own_image.
      res_bind (if own = None \<and> is_empty own_image then image_source file common else Inr own) (\<lambda>source. case source of
        None \<Rightarrow> Inr [] | Some (img, url, sha, sha_url) \<Rightarrow>
          res_bind (if truthy img then Inr img else image_name common) (\<lambda>img'. Inr [(n, img', url, sha, sha_url)])))))"
  proof (rule good_bind [OF image_source_typed [OF d(2)]], unfold i res_bind_Inr)
    fix own assume own: "source_typed own"
    have "good file source_typed (if own = None \<and> is_empty i then image_source file common else Inr own)"
      using image_source_typed [OF assms(2)] own by simp
    then show "good file (node_asks (n, v)) (res_bind (if own = None \<and> is_empty i then image_source file common else Inr own) (\<lambda>source.
        case source of None \<Rightarrow> Inr [] | Some (img, url, sha, sha_url) \<Rightarrow>
          res_bind (if truthy img then Inr img else image_name common) (\<lambda>img'. Inr [(n, img', url, sha, sha_url)])))"
      by (rule good_bind) (rule last_step)
  qed
  then show ?thesis by (simp add: node_request_def d(1) Let_def node_asks_def)
qed

section \<open>The other helpers\<close>

lemma lab_typed_sections:
  assumes "lab_typed defn"
  obtains common nodes where "get_dflt defn ''common'' (PDict []) = PDict common" "fields_typed common"
    "or_dict (get defn ''common'') = Inr common" "get_dflt defn ''nodes'' (PDict []) = PDict nodes"
    "or_dict (get defn ''nodes'') = Inr nodes" "list_all (section_typed \<circ> snd) nodes"
proof -
  obtain common where c: "get_dflt defn ''common'' (PDict []) = PDict common" "fields_typed common"
    using assms section_typed_dict unfolding lab_typed_def by blast
  obtain nodes where n: "get_dflt defn ''nodes'' (PDict []) = PDict nodes" "list_all (section_typed \<circ> snd) nodes"
    using assms by (auto simp: lab_typed_def split: pval.splits)
  have "or_dict (get defn k) = Inr d" if "get_dflt defn k (PDict []) = PDict d" for k d
    using that by (auto simp: get_def get_dflt_def or_dict_def split: option.splits)
  then show thesis using that c n by blast
qed

text \<open>The requests: typed, at most one for a node, in the order of the nodes.\<close>

definition requests_good :: "string list \<Rightarrow> request list \<Rightarrow> bool" where
  "requests_good names rs \<longleftrightarrow> list_all request_typed rs \<and> subseq (map fst rs) names"

lemma requests_concat: "list_all2 node_asks nodes yss \<Longrightarrow> requests_good (map fst nodes) (concat yss)"
proof (induction nodes yss rule: list_all2_induct)
  case (Cons x xs y ys)
  then have "map fst y = [] \<or> map fst y = [fst x]" by (auto simp: node_asks_def)
  then show ?case using Cons by (elim disjE) (auto simp: node_asks_def requests_good_def)
qed (simp add: requests_good_def)

lemma requests_typed:
  assumes "lab_typed defn" and "or_dict (get defn ''nodes'') = Inr nodes"
  shows "good file (requests_good (map fst nodes)) (image_download_requests file defn)"
proof -
  from lab_typed_sections [OF assms(1)] obtain common ns where
    c: "or_dict (get defn ''common'') = Inr common" "fields_typed common" and
    n: "or_dict (get defn ''nodes'') = Inr ns" "list_all (section_typed \<circ> snd) ns" by metis
  have ns: "ns = nodes" using n(1) assms(2) by simp
  have "good file (node_asks x) (node_request file common x)" if "x \<in> set nodes" for x
    using node_request_typed [OF _ c(2)] n(2) that by (cases x) (auto simp: ns list_all_iff)
  then have "good file (list_all2 node_asks nodes) (res_map (node_request file common) nodes)" by (rule good_map)
  then have "good file (requests_good (map fst nodes)) (res_bind (res_map (node_request file common) nodes) (\<lambda>xs. Inr (concat xs)))"
    by (rule good_bind) (simp add: requests_concat)
  then show ?thesis by (simp add: image_download_requests_def c(1) assms(2))
qed

lemma node_read_typed:
  assumes "list_all (section_typed \<circ> snd) nodes"
  shows "\<exists>d. or_dict (get nodes vm) = Inr d \<and> get_dflt nodes vm (PDict []) = PDict d \<and> fields_typed d \<and> distinct (map fst d)"
proof (cases "map_of nodes vm")
  case None
  then show ?thesis by (simp add: get_def get_dflt_def or_dict_def fields_typed_def)
next
  case (Some v)
  then have "section_typed v" using assms by (auto simp: list_all_iff dest!: map_of_SomeD)
  from section_typed_dict [OF this] show ?thesis using Some by (auto simp: get_def get_dflt_def)
qed

text \<open>The field a node has: its own, or common's.\<close>

definition own_or_common :: "dict \<Rightarrow> dict \<Rightarrow> string \<Rightarrow> pval" where
  "own_or_common node common key = (if has_key node key then get node key else get common key)"

definition command_list :: "pval \<Rightarrow> string list" where
  "command_list v =
     (case v of PStr t \<Rightarrow> if is_empty v then [] else [t] | PList cs \<Rightarrow> map py_str (filter (\<lambda>c. \<not> is_empty c) cs) | _ \<Rightarrow> [])"

lemma own_or_common_typed: "fields_typed node \<Longrightarrow> fields_typed common \<Longrightarrow> has_type k (own_or_common node common k)"
  by (simp add: own_or_common_def typed_get)

lemma commands_typed:
  assumes "lab_typed defn" and "phase \<in> {''pre'', ''post''}" and "lab_common defn = Inr common" and "lab_node defn vm = Inr node"
  shows "node_commands defn vm phase = Inr (command_list (own_or_common node common (phase @ ''_commands'')))"
proof -
  from lab_typed_sections [OF assms(1)] obtain com nodes where
    c: "or_dict (get defn ''common'') = Inr com" "fields_typed com" and
    n: "or_dict (get defn ''nodes'') = Inr nodes" "list_all (section_typed \<circ> snd) nodes" by metis
  have d: "com = common" "fields_typed node"
    using assms(3,4) c(1) n node_read_typed [OF n(2), of vm] by (auto simp: lab_common_def lab_node_def)
  let ?key = "phase @ ''_commands''" and ?v = "own_or_common node common (phase @ ''_commands'')"
  have "has_type ?key v = commands_ok v" for v using assms(2) by auto
  then have "commands_ok ?v" using own_or_common_typed [OF d(2), of common ?key] c(2) d(1) by simp
  moreover have "(case map_of node ?key of Some v \<Rightarrow> Inr v | None \<Rightarrow> res_bind (lab_common defn) (\<lambda>c. Inr (get c ?key))) = Inr ?v"
    using assms(3) by (simp add: own_or_common_def has_key_def get_def split: option.split)
  ultimately show ?thesis
    by (cases ?v) (auto simp: node_commands_def assms(4) Let_def commands_ok_def command_list_def iterate_def is_empty_def)
qed

text \<open>The number a size stands for.\<close>

definition size_value :: "pval \<Rightarrow> int" where
  "size_value v = (if truthy v then (case v of PInt i \<Rightarrow> i | PStr t \<Rightarrow> the (py_int t) | _ \<Rightarrow> 0) else 0)"

lemma to_int_size: "size_ok v \<Longrightarrow> to_int (py_or v (PInt 0)) = Inr (size_value v)"
  by (cases v) (auto simp: size_ok_def py_or_def to_int_def size_value_def split: option.splits)

definition node_size :: "dict \<Rightarrow> string \<Rightarrow> pval \<Rightarrow> int" where
  "node_size common key node = (case node of PDict d \<Rightarrow> size_value (own_or_common d common key) | _ \<Rightarrow> 0)"

lemma node_field_typed:
  assumes "fields_typed node" "fields_typed common" and "key \<in> {''VM_CPU'', ''VM_MEM'', ''VM_DSK''}"
  shows "node_field common node key = Inr (node_size common key (PDict node))"
proof -
  have k: "has_type key v = size_ok v" for v using assms(3) by auto
  have "size_value PNone = 0" "size_value (PInt 0) = 0" by (simp_all add: size_value_def)
  then have e: "size_value (get_dflt node key (get_dflt common key (PInt 0))) = size_value (own_or_common node common key)"
    by (simp add: get_dflt_def own_or_common_def has_key_def get_def split: option.split)
  have "size_ok (get_dflt node key (get_dflt common key (PInt 0)))"
    unfolding k [symmetric] by (intro typed_get_dflt assms(1,2)) (simp add: k)
  then show ?thesis by (simp add: node_field_def to_int_size node_size_def e)
qed

lemma node_totals_typed:
  assumes "section_typed v" and "fields_typed common"
  shows "node_totals common v (x, y, z) =
    Inr (x + node_size common ''VM_CPU'' v, y + node_size common ''VM_MEM'' v, z + node_size common ''VM_DSK'' v)"
proof -
  obtain d where d: "v = PDict d" "or_dict v = Inr d" "fields_typed d" using section_typed_dict [OF assms(1)] by blast
  note f = node_field_typed [OF d(3) assms(2)]
  show ?thesis using d(1,2) f [of "''VM_CPU''"] f [of "''VM_MEM''"] f [of "''VM_DSK''"] by (simp add: node_totals_def)
qed

definition total_size :: "dict \<Rightarrow> (string \<times> pval) list \<Rightarrow> string \<Rightarrow> int" where
  "total_size common nodes key = sum_list (map (node_size common key \<circ> snd) nodes)"

lemma totals_typed:
  assumes "lab_typed defn" and "lab_common defn = Inr common" and "or_dict (get defn ''nodes'') = Inr nodes"
  shows "total_lab_resources defn =
    Inr (total_size common nodes ''VM_CPU'', total_size common nodes ''VM_MEM'', total_size common nodes ''VM_DSK'')"
proof -
  from lab_typed_sections [OF assms(1)] obtain com ns where
    c: "or_dict (get defn ''common'') = Inr com" "fields_typed com" and
    n: "or_dict (get defn ''nodes'') = Inr ns" "list_all (section_typed \<circ> snd) ns" by metis
  have e: "com = common" "ns = nodes" using assms(2,3) c(1) n(1) by (simp_all add: lab_common_def)
  have "res_fold (node_totals common) (map snd ns) (x, y, z) =
      Inr (x + total_size common ns ''VM_CPU'', y + total_size common ns ''VM_MEM'', z + total_size common ns ''VM_DSK'')"
    if "list_all (section_typed \<circ> snd) ns" for ns x y z
    using that
  proof (induction ns arbitrary: x y z)
    case (Cons nv ns)
    have t: "node_totals common (snd nv) (x, y, z) = Inr (x + node_size common ''VM_CPU'' (snd nv),
        y + node_size common ''VM_MEM'' (snd nv), z + node_size common ''VM_DSK'' (snd nv))"
      by (rule node_totals_typed) (use Cons.prems c(2) e in auto)
    have "list_all (section_typed \<circ> snd) ns" using Cons.prems by (simp add: o_def)
    from Cons.IH [OF this] show ?case by (simp add: t total_size_def add.assoc)
  qed (simp add: total_size_def)
  from this [OF n(2), of 0 0 0] show ?thesis by (simp add: total_lab_resources_def assms(2,3) e)
qed

lemma update_typed: "fields_typed d \<Longrightarrow> has_type k v \<Longrightarrow> fields_typed (AList.update k v d)"
  by (induction d) (auto simp: fields_typed_def)

lemma fill_typed: "fields_typed d \<Longrightarrow> has_type k (PStr v) \<Longrightarrow> fields_typed (fill k v d)"
  by (simp add: fill_def update_typed)

lemma node_vars_typed:
  assumes "fields_typed node" and "fields_typed vars"
  shows "fields_typed (node_vars node vars)"
  using assms unfolding node_vars_def
proof (induction node arbitrary: vars)
  case (Cons kv node)
  obtain k v where kv: "kv = (k, v)" by (cases kv)
  have "has_type (if k = ''kcluster'' then ''clu_name'' else k) v" using Cons.prems(1) by (auto simp: kv fields_typed_def)
  then have "fields_typed (AList.update (if k = ''kcluster'' then ''clu_name'' else k) v vars)" by (rule update_typed [OF Cons.prems(2)])
  with Cons show ?case by (simp add: kv fields_typed_def)
qed simp

lemma update_all_typed: "fields_typed new \<Longrightarrow> fields_typed d \<Longrightarrow> fields_typed (update_all new d)"
proof (induction new arbitrary: d)
  case (Cons kv new)
  obtain k v where kv: "kv = (k, v)" by (cases kv)
  have "fields_typed new" "has_type k v" using Cons.prems(1) by (simp_all add: kv fields_typed_def)
  then show ?case using Cons.IH update_typed [OF Cons.prems(2)] by (simp add: kv update_all_def)
qed (simp add: update_all_def)

lemma has_key_Cons [simp]: "has_key ((k, v) # d) x \<longleftrightarrow> k = x \<or> has_key d x"
  by (simp add: has_key_def)

lemma get_Cons [simp]: "get ((k, v) # d) x = (if k = x then v else get d x)"
  by (simp add: get_def)

lemma has_key_fst: "has_key d k \<longleftrightarrow> k \<in> fst ` set d"
  by (auto simp: has_key_def map_of_eq_None_iff)

lemma update_all_get:
  "distinct (map fst new) \<Longrightarrow> get (update_all new d) k = (if has_key new k then get new k else get d k)"
proof (induction new arbitrary: d)
  case (Cons kv new)
  obtain a v where kv: "kv = (a, v)" by (cases kv)
  have "\<not> has_key new a" using Cons.prems by (simp add: kv has_key_fst)
  then show ?case using Cons.IH [of "AList.update a v d"] Cons.prems by (auto simp: kv update_all_def get_def update_conv')
qed (simp add: update_all_def has_key_def)

lemma node_vars_get:
  assumes "distinct (map fst node)" and "k \<notin> {''kcluster'', ''clu_name''}"
  shows "get (node_vars node vars) k = (if has_key node k then get node k else get vars k)"
  using assms(1) unfolding node_vars_def
proof (induction node arbitrary: vars)
  case (Cons kv node)
  obtain a v where kv: "kv = (a, v)" by (cases kv)
  have "\<not> has_key node a" using Cons.prems by (simp add: kv has_key_fst)
  then show ?case using Cons.IH Cons.prems assms(2) by (auto simp: kv get_def update_conv')
qed (simp add: has_key_def)

lemma fill_get: "truthy (get d k) \<Longrightarrow> get (fill key v d) k = get d k"
  by (auto simp: fill_def get_def update_conv')

lemma vars_typed:
  assumes "lab_typed defn" and "lab_common defn = Inr common" and "lab_node defn vm = Inr node"
  shows "\<exists>vars. load_vm_vars h defn vm = Inr vars \<and> fields_typed vars \<and>
    (\<forall>k. k \<notin> {''kcluster'', ''clu_name''} \<longrightarrow> truthy (own_or_common node common k) \<longrightarrow> get vars k = own_or_common node common k)"
proof -
  from lab_typed_sections [OF assms(1)] obtain com nodes where
    c: "get_dflt defn ''common'' (PDict []) = PDict com" "fields_typed com" "or_dict (get defn ''common'') = Inr com" and
    n: "get_dflt defn ''nodes'' (PDict []) = PDict nodes" "list_all (section_typed \<circ> snd) nodes" "or_dict (get defn ''nodes'') = Inr nodes"
    by metis
  have com: "com = common" using assms(2) c(3) by (simp add: lab_common_def)
  have dc: "distinct (map fst common)" using assms(1) c(1) unfolding lab_typed_def section_typed_def com by simp
  obtain d where d: "get_dflt nodes vm (PDict []) = PDict d" "fields_typed d" "or_dict (get nodes vm) = Inr d" "distinct (map fst d)"
    using node_read_typed [OF n(2)] by blast
  have node: "d = node" using assms(3) n(3) d(3) by (simp add: lab_node_def)
  let ?v = "fill ''mydomain'' (detect_domain h) (fill ''mygw'' (detect_gateway h) (fill ''mydns'' (detect_dns h)
                (node_vars d (update_all com []))))"
  have v: "fields_typed ?v"
    by (intro fill_typed node_vars_typed update_all_typed c(2) d(2)) (simp_all add: fields_typed_def)
  have own: "get ?v k = own_or_common node common k" if "k \<notin> {''kcluster'', ''clu_name''}" "truthy (own_or_common node common k)" for k
  proof -
    have "get (node_vars d (update_all com [])) k = own_or_common node common k"
      using node_vars_get [OF d(4) that(1), of "update_all com []"] update_all_get [of com "[]" k] dc com node
      by (auto simp: own_or_common_def has_key_def get_def split: option.splits)
    then show ?thesis using that(2) by (simp add: fill_get)
  qed
  have ip: "text_ok (get ?v ''myip'')" using typed_get [OF v, of "''myip''"] by simp
  have "\<exists>v2. (if \<not> truthy (get ?v ''mynet_reverse'') \<and> truthy (get ?v ''myip'')
                then res_bind (reverse_ip (get ?v ''myip'')) (\<lambda>r. Inr (AList.update ''mynet_reverse'' (PStr r) ?v)) else Inr ?v) = Inr v2 \<and>
      fields_typed v2 \<and> (\<forall>k. truthy (get ?v k) \<longrightarrow> get v2 k = get ?v k)"
  proof (cases "\<not> truthy (get ?v ''mynet_reverse'') \<and> truthy (get ?v ''myip'')")
    case True
    then obtain t where t: "get ?v ''myip'' = PStr t" using ip by (auto simp: text_ok_def is_str_conv)
    obtain r where r: "reverse_ip (PStr t) = Inr r" by (auto simp: reverse_ip_def Let_def)
    have "\<forall>k. truthy (get ?v k) \<longrightarrow> get (AList.update ''mynet_reverse'' (PStr r) ?v) k = get ?v k"
      using True by (auto simp: get_def update_conv')
    moreover have "fields_typed (AList.update ''mynet_reverse'' (PStr r) ?v)" by (rule update_typed [OF v]) simp
    ultimately show ?thesis using True t r by (intro exI [of _ "AList.update ''mynet_reverse'' (PStr r) ?v"]) (simp only: if_True if_False not_False_eq_True simp_thms res_bind_Inr)
  qed (use v in auto)
  then obtain v2 where v2: "(if \<not> truthy (get ?v ''mynet_reverse'') \<and> truthy (get ?v ''myip'')
                then res_bind (reverse_ip (get ?v ''myip'')) (\<lambda>r. Inr (AList.update ''mynet_reverse'' (PStr r) ?v)) else Inr ?v) = Inr v2" "fields_typed v2"
    "\<forall>k. truthy (get ?v k) \<longrightarrow> get v2 k = get ?v k"
    by blast
  have "load_vm_vars h defn vm = Inr (fill ''mymask'' (detect_netmask h) v2)"
    unfolding load_vm_vars_def c(1) update_arg_def n(1) strict_dict_def d(1) pval.case res_bind_Inr Let_def v2(1) ..
  moreover have "get (fill ''mymask'' (detect_netmask h) v2) k = own_or_common node common k"
    if "k \<notin> {''kcluster'', ''clu_name''}" "truthy (own_or_common node common k)" for k
    using own [OF that] v2(3) that(2) by (simp add: fill_get)
  ultimately show ?thesis using fill_typed [OF v2(2)] by simp
qed


definition typed_lab :: dict where
  "typed_lab =
     [(''common'', PDict [(''VM_MEM'', PStr ''4096''), (''VM_CPU'', PInt 2), (''VM_DSK'', PStr '' 40 ''), (''ISO_IMAGE'', PBool False),
         (''post_commands'', PList [PStr ''date'', PInt 7])]),
      (''nodes'', PDict [(''n1'', PDict [(''myip'', PStr ''10.0.0.1''), (''kcluster'', PStr ''c''),
         (''SOURCE_IMAGE'', PStr ''https://x/leap.qcow2''), (''SOURCE_SHA256'', PStr ''/srv/leap.sha256''), (''existing'', PInt 3)])])]"

definition silent_host :: host_view where
  "silent_host = \<lparr>hv_resolv = None, hv_route = [], hv_addr = \<lambda>_. [], hv_fqdn = [], hv_hostname = []\<rparr>"

definition no_file :: "string \<Rightarrow> string res" where
  "no_file p = Inl (OSError p)"


text \<open>A checksum file that is not UTF-8 stops the run: the error is not the one the code expects.\<close>

lemma undecodable_checksum_raises:
  "(case image_download_requests (\<lambda>_. Inl (ValueError ''utf-8'')) typed_lab of Inl e \<Rightarrow> e = ValueError ''utf-8'' | Inr _ \<Rightarrow> False)"
  "(case image_download_requests no_file typed_lab of Inl _ \<Rightarrow> False | Inr rs \<Rightarrow> map fst rs = [''n1''])"
  by code_simp+

end
