(* ===== verification/Kvm_Hosts.thy ===== *)
theory Kvm_Hosts
  imports Lab_Defs "HOL-Library.Product_Lexorder"
begin

text \<open>
  Which KVM host a VM is created on and where an existing one is found again, and the waits on a
  host: \<open>select_kvm_host\<close>, \<open>resolve_kvm_host\<close>, \<open>locate_kvm_host\<close>, \<open>check_ssh_conn\<close>,
  \<open>wait_for_ssh_command\<close>, \<open>ssh_reachable\<close> and the transactional reboot of \<open>libs/lab_creation.py\<close>.

  The resources a host reports, the domains it has, the outcome of every attempt and the clock are
  parameters. \<open>config\<close> is \<open>lab_creation.cfg\<close> as a dict.
\<close>

section \<open>Choosing a host\<close>

type_synonym resources = "int \<times> int \<times> int"

definition shortfall :: "pval \<Rightarrow> pval \<Rightarrow> pval \<Rightarrow> resources \<Rightarrow> string list res" where
  "shortfall vm_cpu vm_mem vm_dsk = (\<lambda>(free_cpu, free_mem, free_disk).
     res_bind (to_int vm_cpu) (\<lambda>cpu. res_bind (to_int vm_mem) (\<lambda>mem. res_bind (to_int vm_dsk) (\<lambda>dsk.
     Inr ((if free_cpu < cpu then [int_str free_cpu @ '' free vCPUs < '' @ py_str vm_cpu @ '' requested''] else []) @
          (if free_mem < mem then [int_str free_mem @ '' MiB free RAM < '' @ py_str vm_mem @ '' requested''] else []) @
          (if free_disk < dsk * 1024 then [int_str free_disk @ '' MiB free disk < '' @ py_str vm_dsk @ '' GiB requested''] else []))))))"

text \<open>A host is a candidate (\<open>Inl\<close>) or falls short (\<open>Inr\<close>).\<close>

definition unqueried :: "string \<Rightarrow> string \<Rightarrow> string" where
  "unqueried host e = host @ '': could not query resources ('' @ e @ '')''"

definition host_verdict ::
  "(string \<Rightarrow> resources res) \<Rightarrow> pval \<Rightarrow> pval \<Rightarrow> pval \<Rightarrow> string \<Rightarrow> ((int \<times> string) + string) res" where
  "host_verdict probe vm_cpu vm_mem vm_dsk host =
     (case probe host of
        Inl (RuntimeError e) \<Rightarrow> Inr (Inr (unqueried host e))
      | Inl (ValueError e) \<Rightarrow> Inr (Inr (unqueried host e))
      | Inl e \<Rightarrow> Inl e
      | Inr free \<Rightarrow>
          res_bind (shortfall vm_cpu vm_mem vm_dsk free) (\<lambda>missing.
          Inr (if missing \<noteq> [] then Inr (host @ '': '' @ join ''; '' missing) else Inl (fst (snd free), host))))"

definition candidates :: "('a + 'b) list \<Rightarrow> 'a list" where
  "candidates = List.map_filter (\<lambda>v. case v of Inl c \<Rightarrow> Some c | Inr _ \<Rightarrow> None)"

definition shortfalls :: "('a + 'b) list \<Rightarrow> 'b list" where
  "shortfalls = List.map_filter (\<lambda>v. case v of Inl _ \<Rightarrow> None | Inr t \<Rightarrow> Some t)"

definition no_host_message :: "string list \<Rightarrow> pval \<Rightarrow> pval \<Rightarrow> pval \<Rightarrow> string list \<Rightarrow> string" where
  "no_host_message hosts vm_cpu vm_mem vm_dsk reasons =
     ''No KVM host in ['' @ join '', '' hosts @ ''] has enough free resources for this VM ('' @ py_str vm_cpu @ '' vCPU, '' @
     py_str vm_mem @ '' MiB RAM, '' @ py_str vm_dsk @ '' GiB disk):'' @ NL @ ''  '' @ join (NL @ ''  '') reasons"

definition select_kvm_host :: "(string \<Rightarrow> resources res) \<Rightarrow> string list \<Rightarrow> pval \<Rightarrow> pval \<Rightarrow> pval \<Rightarrow> string res" where
  "select_kvm_host probe hosts vm_cpu vm_mem vm_dsk =
     res_bind (res_map (host_verdict probe vm_cpu vm_mem vm_dsk) hosts) (\<lambda>verdicts.
     case rev (sort (candidates verdicts)) of
       [] \<Rightarrow> Inl (SystemExit (no_host_message hosts vm_cpu vm_mem vm_dsk (shortfalls verdicts)))
     | c # _ \<Rightarrow> Inr (snd c))"

definition text_or_none :: "pval \<Rightarrow> string res" where
  "text_or_none v = (case v of PStr s \<Rightarrow> Inr s | _ \<Rightarrow> if truthy v then Inl (AttributeError ''split'') else Inr [])"

definition configured_hosts :: "dict \<Rightarrow> (string list \<times> pval) res" where
  "configured_hosts config =
     (let default_host = get_dflt config ''REMOTE_HOST'' (PStr []) in
      res_bind (text_or_none (py_or (get config ''KVM_HOSTS'') default_host)) (\<lambda>raw. Inr (words raw, default_host)))"

definition virt_srv_for_host :: "pval \<Rightarrow> pval \<Rightarrow> dict \<Rightarrow> pval" where
  "virt_srv_for_host host default_host config =
     (if py_eq host default_host \<and> truthy (get config ''VIRT_SRV'') then get config ''VIRT_SRV''
      else PStr (''qemu+ssh://root@'' @ py_str host @ ''/system?keyfile=.ssh/id_rsa''))"

definition image_source_hosts :: "dict \<Rightarrow> string \<Rightarrow> dict \<Rightarrow> pval list res" where
  "image_source_hosts defn vm_name config =
     res_bind (lab_node defn vm_name) (\<lambda>node.
     if truthy (get node ''kvm_host'') then Inr [get node ''kvm_host'']
     else res_bind (configured_hosts config) (\<lambda>(hosts, default_host).
       Inr (if hosts \<noteq> [] then map PStr hosts else if truthy default_host then [default_host] else [])))"

text \<open>\<open>definition.get("nodes", {}).get(vm_name, {}) or {}\<close> and the same for \<open>common\<close>.\<close>

definition strict_node :: "dict \<Rightarrow> string \<Rightarrow> dict res" where
  "strict_node defn vm_name =
     res_bind (strict_dict (get_dflt defn ''nodes'' (PDict []))) (\<lambda>nodes. or_dict (get nodes vm_name))"

definition own_host :: "string list \<Rightarrow> pval \<Rightarrow> pval" where
  "own_host hosts default_host = (case hosts of [] \<Rightarrow> default_host | h # _ \<Rightarrow> PStr h)"

definition field_of :: "dict \<Rightarrow> dict \<Rightarrow> string \<Rightarrow> pval" where
  "field_of node common key = get_dflt node key (get_dflt common key (PInt 0))"

definition resolve_kvm_host :: "(string \<Rightarrow> resources res) \<Rightarrow> dict \<Rightarrow> string \<Rightarrow> dict \<Rightarrow> (pval \<times> pval) res" where
  "resolve_kvm_host probe defn vm_name config =
     res_bind (strict_node defn vm_name) (\<lambda>node.
     res_bind (configured_hosts config) (\<lambda>(hosts, default_host).
     res_bind
       (if truthy (get node ''kvm_host'') then Inr (get node ''kvm_host'')
        else if length hosts \<le> 1 then Inr (own_host hosts default_host)
        else res_bind (lab_common defn) (\<lambda>common.
             res_bind (select_kvm_host probe hosts (field_of node common ''VM_CPU'') (field_of node common ''VM_MEM'')
                         (field_of node common ''VM_DSK'')) (\<lambda>h. Inr (PStr h)))) (\<lambda>host.
     Inr (host, virt_srv_for_host host default_host config))))"

text \<open>\<open>has_domain host virt_srv\<close>: \<open>virsh dominfo\<close> of this VM succeeds there, or the error reaching the host raised.\<close>

fun first_with_domain :: "(string \<Rightarrow> pval \<Rightarrow> bool res) \<Rightarrow> pval \<Rightarrow> dict \<Rightarrow> string list \<Rightarrow> (pval \<times> pval) option res" where
  "first_with_domain has_domain default_host config [] = Inr None"
| "first_with_domain has_domain default_host config (h # hs) =
     (let virt_srv = virt_srv_for_host (PStr h) default_host config in
      res_bind (has_domain h virt_srv) (\<lambda>b.
      if b then Inr (Some (PStr h, virt_srv)) else first_with_domain has_domain default_host config hs))"

definition locate_kvm_host :: "(string \<Rightarrow> pval \<Rightarrow> bool res) \<Rightarrow> dict \<Rightarrow> string \<Rightarrow> dict \<Rightarrow> (pval \<times> pval) res" where
  "locate_kvm_host has_domain defn vm_name config =
     res_bind (strict_node defn vm_name) (\<lambda>node.
     res_bind (configured_hosts config) (\<lambda>(hosts, default_host).
     if truthy (get node ''kvm_host'')
     then Inr (get node ''kvm_host'', virt_srv_for_host (get node ''kvm_host'') default_host config)
     else if length hosts \<le> 1
     then Inr (own_host hosts default_host, virt_srv_for_host (own_host hosts default_host) default_host config)
     else res_bind (first_with_domain has_domain default_host config hosts) (\<lambda>found.
          case found of
            Some hv \<Rightarrow> Inr hv
          | None \<Rightarrow> Inl (SystemExit (''VM '' @ sq vm_name @ '' not found on any configured KVM host: '' @ join '', '' hosts)))))"

section \<open>Waiting for a host\<close>

text \<open>\<open>up n\<close>: the n-th connection is accepted. The number of attempts made is returned.\<close>

definition boot_limit_message :: "string \<Rightarrow> nat \<Rightarrow> string" where
  "boot_limit_message vm_name retry_limit =
     ''retry limit ( '' @ nat_str retry_limit @ '' ) exceeded waiting for '' @ vm_name @ '' to boot.''"

function ssh_attempts :: "(nat \<Rightarrow> bool) \<Rightarrow> string \<Rightarrow> nat \<Rightarrow> nat \<Rightarrow> nat res" where
  "ssh_attempts up vm_name retry_limit count =
     (let n = count + 1 in
      if up n then Inr n
      else if n > retry_limit then Inl (SystemExit (boot_limit_message vm_name retry_limit))
      else ssh_attempts up vm_name retry_limit n)"
  by pat_completeness auto
termination
  by (relation "measure (\<lambda>(_, _, limit, count). limit - count)") auto

declare ssh_attempts.simps [simp del]

definition check_ssh_conn :: "(nat \<Rightarrow> bool) \<Rightarrow> string \<Rightarrow> nat \<Rightarrow> nat res" where
  "check_ssh_conn up vm_name retry_limit = ssh_attempts up vm_name retry_limit 0"

text \<open>
  \<open>ok n\<close>: the n-th run of the command exits 0; \<open>clock n\<close>: the time read after it. The loop has no
  bound of its own: that it ends is the clock's doing.
\<close>

partial_function (option) wait_loop :: "(nat \<Rightarrow> bool) \<Rightarrow> (nat \<Rightarrow> int) \<Rightarrow> int \<Rightarrow> int \<Rightarrow> nat \<Rightarrow> bool option" where
  "wait_loop ok clock deadline interval n =
     (if ok n then Some True
      else if clock n + interval > deadline then Some False
      else wait_loop ok clock deadline interval (Suc n))"

declare wait_loop.simps [code]

definition wait_for_ssh_command :: "(nat \<Rightarrow> bool) \<Rightarrow> (nat \<Rightarrow> int) \<Rightarrow> int \<Rightarrow> int \<Rightarrow> int \<Rightarrow> bool option" where
  "wait_for_ssh_command ok clock start timeout interval = wait_loop ok clock (start + timeout) interval 0"

definition SSH_NO_CONNECTION :: int where
  "SSH_NO_CONNECTION = 255"

fun reach_loop :: "(nat \<Rightarrow> int) \<Rightarrow> nat \<Rightarrow> nat \<Rightarrow> bool" where
  "reach_loop probe i 0 = False"
| "reach_loop probe i (Suc n) =
     (if probe i = 0 then True
      else if probe i \<noteq> SSH_NO_CONNECTION then False
      else reach_loop probe (Suc i) n)"

definition ssh_reachable :: "(nat \<Rightarrow> int) \<Rightarrow> nat \<Rightarrow> bool" where
  "ssh_reachable probe attempts = reach_loop probe 0 (max 1 attempts)"

text \<open>
  The reboot of a transactional host. \<open>pending\<close>: a snapshot is pending; \<open>old\<close> the boot ID read
  before, None when SSH or the read failed; \<open>ids n\<close> the boot ID at the n-th attempt, None while the
  host does not answer.
\<close>

definition boot_id :: "string option \<Rightarrow> string" where
  "boot_id r = (case r of Some t \<Rightarrow> str_strip t | None \<Rightarrow> [])"

definition wait_for_reboot :: "(nat \<Rightarrow> string option) \<Rightarrow> (nat \<Rightarrow> int) \<Rightarrow> int \<Rightarrow> string \<Rightarrow> int \<Rightarrow> bool option" where
  "wait_for_reboot ids clock start old_boot_id timeout =
     wait_for_ssh_command (\<lambda>n. case ids n of None \<Rightarrow> False | Some t \<Rightarrow> t \<noteq> old_boot_id) clock start timeout 5"

definition not_back_message :: "string \<Rightarrow> int \<Rightarrow> string" where
  "not_back_message host timeout =
     sq host @ '' did not come back within '' @ int_str timeout @ ''s after rebooting into its pending snapshot''"

definition reboot_into_pending_snapshot ::
  "string \<Rightarrow> bool \<Rightarrow> string option \<Rightarrow> (nat \<Rightarrow> string option) \<Rightarrow> (nat \<Rightarrow> int) \<Rightarrow> int \<Rightarrow> int \<Rightarrow> bool res option" where
  "reboot_into_pending_snapshot host pending old ids clock start timeout =
     (if \<not> pending then Some (Inr False)
      else map_option (\<lambda>back. if back then Inr True else Inl (SystemExit (not_back_message host timeout)))
             (wait_for_reboot ids clock start (boot_id old) timeout))"

definition lock_message :: "string \<Rightarrow> int \<Rightarrow> string" where
  "lock_message host timeout = ''transactional-update on '' @ sq host @ '' was still locked after '' @ int_str timeout @ ''s''"

definition wait_for_transactional_update_lock ::
  "string \<Rightarrow> (nat \<Rightarrow> bool) \<Rightarrow> (nat \<Rightarrow> int) \<Rightarrow> int \<Rightarrow> int \<Rightarrow> unit res option" where
  "wait_for_transactional_update_lock host free clock start timeout =
     map_option (\<lambda>ok. if ok then Inr () else Inl (SystemExit (lock_message host timeout)))
       (wait_for_ssh_command free clock start timeout 5)"

text \<open>\<open>detect_os\<close>: ID, version, ID_LIKE and the major version, from \<open>ID|VERSION_ID|ID_LIKE\<close>.\<close>

definition part :: "string list \<Rightarrow> nat \<Rightarrow> string" where
  "part ps i = (if i < length ps then ps ! i else [])"

definition detect_os :: "string \<Rightarrow> string \<times> string \<times> string \<times> string" where
  "detect_os raw =
     (let parts = split_ch CHR ''|'' raw; ver = part parts 1 in
      (part parts 0, ver, part parts 2, if ver \<noteq> [] then hd (split_ch CHR ''.'' ver) else []))"

section \<open>The selection\<close>

definition queryable :: "'a res \<Rightarrow> bool" where
  "queryable r = (case r of Inl (RuntimeError _) \<Rightarrow> True | Inl (ValueError _) \<Rightarrow> True | Inl _ \<Rightarrow> False | Inr _ \<Rightarrow> True)"

definition enough :: "int \<Rightarrow> int \<Rightarrow> int \<Rightarrow> resources \<Rightarrow> bool" where
  "enough cpu mem dsk = (\<lambda>(fc, fm, fd). cpu \<le> fc \<and> mem \<le> fm \<and> dsk * 1024 \<le> fd)"

text \<open>What the verdict on a host with numeric requests is; the texts of the shortfalls do not matter below.\<close>

lemma shortfall_ints:
  "\<exists>ms. shortfall (PInt cpu) (PInt mem) (PInt dsk) free = Inr ms \<and> (ms = [] \<longleftrightarrow> enough cpu mem dsk free)"
  by (cases free) (simp add: shortfall_def enough_def to_int_def not_less [symmetric])

lemma host_verdict_ints:
  assumes "queryable (probe h)"
  shows "\<exists>v. host_verdict probe (PInt cpu) (PInt mem) (PInt dsk) h = Inr v \<and>
    (case probe h of
       Inr free \<Rightarrow> if enough cpu mem dsk free then v = Inl (fst (snd free), h) else \<exists>t. v = Inr t
     | Inl _ \<Rightarrow> \<exists>t. v = Inr t)"
proof (cases "probe h")
  case (Inl e)
  then show ?thesis using assms by (cases e) (simp_all add: host_verdict_def queryable_def)
next
  case (Inr free)
  obtain ms where ms: "shortfall (PInt cpu) (PInt mem) (PInt dsk) free = Inr ms" "ms = [] \<longleftrightarrow> enough cpu mem dsk free"
    using shortfall_ints by blast
  show ?thesis by (simp add: host_verdict_def Inr ms(1)) (simp flip: ms(2))
qed

lemma candidates_simps [simp]:
  "candidates [] = []" "candidates (Inl c # vs) = c # candidates vs" "candidates (Inr t # vs) = candidates vs"
  by (simp_all add: candidates_def List.map_filter_simps)

lemma verdicts_ints:
  assumes "\<And>h. h \<in> set hosts \<Longrightarrow> queryable (probe h)"
  shows "\<exists>vs. res_map (host_verdict probe (PInt cpu) (PInt mem) (PInt dsk)) hosts = Inr vs \<and>
    set (candidates vs) = {(fst (snd free), h) | h free. h \<in> set hosts \<and> probe h = Inr free \<and> enough cpu mem dsk free}"
  using assms
proof (induction hosts)
  case (Cons h hosts)
  obtain vs where vs: "res_map (host_verdict probe (PInt cpu) (PInt mem) (PInt dsk)) hosts = Inr vs"
    "set (candidates vs) = {(fst (snd free), h) | h free. h \<in> set hosts \<and> probe h = Inr free \<and> enough cpu mem dsk free}"
    using Cons by auto
  obtain v where v: "host_verdict probe (PInt cpu) (PInt mem) (PInt dsk) h = Inr v"
    "case probe h of
       Inr free \<Rightarrow> if enough cpu mem dsk free then v = Inl (fst (snd free), h) else \<exists>t. v = Inr t
     | Inl _ \<Rightarrow> \<exists>t. v = Inr t"
    using host_verdict_ints [of probe h cpu mem dsk] Cons.prems by auto
  show ?case
    by (rule exI [of _ "v # vs"], rule conjI, simp add: v(1) vs(1))
      (use v(2) vs(2) in \<open>auto split: sum.splits if_splits\<close>)
qed simp

lemma rev_sort_Cons: "rev (sort xs) = c # cs \<Longrightarrow> c \<in> set xs \<and> (\<forall>d \<in> set xs. d \<le> c)"
proof -
  assume eq: "rev (sort xs) = c # cs"
  then have "sort xs = rev cs @ [c]" by (metis rev_rev_ident rev.simps(2))
  then have "sorted (rev cs @ [c])" "set xs = set (rev cs @ [c])" by (metis sorted_sort, metis set_sort)
  then show ?thesis by (auto simp: sorted_append)
qed

lemma select_kvm_host_cases:
  assumes "\<And>h. h \<in> set hosts \<Longrightarrow> queryable (probe h)"
  shows "(\<exists>h free. select_kvm_host probe hosts (PInt cpu) (PInt mem) (PInt dsk) = Inr h \<and> h \<in> set hosts \<and>
      probe h = Inr free \<and> enough cpu mem dsk free \<and>
      (\<forall>h' \<in> set hosts. \<forall>free'. probe h' = Inr free' \<and> enough cpu mem dsk free' \<longrightarrow> (fst (snd free'), h') \<le> (fst (snd free), h))) \<or>
    (\<exists>t. select_kvm_host probe hosts (PInt cpu) (PInt mem) (PInt dsk) = Inl (SystemExit t)) \<and>
      (\<forall>h \<in> set hosts. \<forall>free. probe h = Inr free \<longrightarrow> \<not> enough cpu mem dsk free)"
proof -
  obtain vs where vs: "res_map (host_verdict probe (PInt cpu) (PInt mem) (PInt dsk)) hosts = Inr vs"
    "set (candidates vs) = {(fst (snd free), h) | h free. h \<in> set hosts \<and> probe h = Inr free \<and> enough cpu mem dsk free}"
    using verdicts_ints [where hosts = hosts and probe = probe] assms by blast
  show ?thesis
  proof (cases "rev (sort (candidates vs))")
    case Nil
    then have "set (candidates vs) = {}" by (metis rev_is_Nil_conv set_empty set_sort)
    then show ?thesis using vs Nil by (auto simp: select_kvm_host_def)
  next
    case (Cons c cs)
    from rev_sort_Cons [OF this] obtain h free where c: "c = (fst (snd free), h)" "h \<in> set hosts" "probe h = Inr free"
      "enough cpu mem dsk free" "\<forall>d \<in> set (candidates vs). d \<le> c"
      using vs(2) by auto
    have "select_kvm_host probe hosts (PInt cpu) (PInt mem) (PInt dsk) = Inr h"
      by (simp add: select_kvm_host_def vs(1) Cons c(1))
    moreover have "(fst (snd free'), h') \<le> (fst (snd free), h)"
      if "h' \<in> set hosts" "probe h' = Inr free'" "enough cpu mem dsk free'" for h' free'
    proof -
      have "(fst (snd free'), h') \<in> set (candidates vs)" unfolding vs(2) using that by blast
      with c(1,5) show ?thesis by blast
    qed
    ultimately show ?thesis using c by blast
  qed
qed

section \<open>Locating\<close>

lemma host_verdict_host: "host_verdict probe c m d h = Inr (Inl x) \<Longrightarrow> snd x = h"
  by (auto simp: host_verdict_def res_simps split: sum.splits exc.splits if_splits)

lemma candidates_hosts:
  "res_map (host_verdict probe c m d) hosts = Inr vs \<Longrightarrow> x \<in> set (candidates vs) \<Longrightarrow> snd x \<in> set hosts"
proof (induction hosts arbitrary: vs)
  case (Cons h hosts)
  then obtain v ws where v: "vs = v # ws" "host_verdict probe c m d h = Inr v" "res_map (host_verdict probe c m d) hosts = Inr ws"
    by (auto simp: res_simps)
  show ?case using Cons.IH [OF v(3)] Cons.prems(2) v(1) host_verdict_host [of probe c m d h] v(2) by (cases v) auto
qed simp

lemma select_kvm_host_mem: "select_kvm_host probe hosts c m d = Inr h \<Longrightarrow> h \<in> set hosts"
proof -
  assume "select_kvm_host probe hosts c m d = Inr h"
  then obtain vs where vs: "res_map (host_verdict probe c m d) hosts = Inr vs"
    "(case rev (sort (candidates vs)) of [] \<Rightarrow> Inl (SystemExit (no_host_message hosts c m d (shortfalls vs)))
      | x # _ \<Rightarrow> Inr (snd x)) = Inr h"
    unfolding select_kvm_host_def res_bind_eq_Inr by blast
  show "h \<in> set hosts"
  proof (cases "rev (sort (candidates vs))")
    case (Cons x xs)
    then have "x \<in> set (candidates vs)" "h = snd x" using rev_sort_Cons [OF Cons] vs(2) by auto
    then show ?thesis using candidates_hosts [OF vs(1)] by blast
  qed (use vs(2) in simp)
qed

lemma first_with_domain_at:
  assumes "\<And>h' v'. has_domain h' v' = Inr (h' = h)" and "h \<in> set hosts"
  shows "first_with_domain has_domain default_host config hosts = Inr (Some (PStr h, virt_srv_for_host (PStr h) default_host config))"
  using assms(2) by (induction hosts) (auto simp: assms(1) Let_def)

section \<open>The waits\<close>

text \<open>The connection wait ends after at most one attempt more than its limit.\<close>

lemma ssh_attempts_spec:
  "count \<le> retry_limit \<Longrightarrow> ssh_attempts up vm_name retry_limit count =
     (case find up [Suc count..<Suc (Suc retry_limit)] of
        Some n \<Rightarrow> Inr n | None \<Rightarrow> Inl (SystemExit (boot_limit_message vm_name retry_limit)))"
proof (induction "retry_limit - count" arbitrary: count)
  case 0
  then show ?case by (simp add: ssh_attempts.simps [of _ _ _ count])
next
  case (Suc k)
  then have split: "[Suc count..<Suc (Suc retry_limit)] = Suc count # [Suc (Suc count)..<Suc (Suc retry_limit)]"
    by (simp add: upt_conv_Cons del: upt_Suc)
  have later: "ssh_attempts up vm_name retry_limit (Suc count) =
     (case find up [Suc (Suc count)..<Suc (Suc retry_limit)] of
        Some n \<Rightarrow> Inr n | None \<Rightarrow> Inl (SystemExit (boot_limit_message vm_name retry_limit)))"
    using Suc.hyps(1) [of "Suc count"] Suc.hyps(2) by (simp del: upt_Suc)
  have "\<not> count + 1 > retry_limit" using Suc.hyps(2) by simp
  then have "ssh_attempts up vm_name retry_limit count =
      (if up (Suc count) then Inr (Suc count) else ssh_attempts up vm_name retry_limit (Suc count))"
    by (subst ssh_attempts.simps) simp
  then show ?case by (simp add: split later del: upt_Suc)
qed

lemma check_ssh_conn_spec:
  "check_ssh_conn up vm_name retry_limit =
     (case find up [1..<retry_limit + 2] of
        Some n \<Rightarrow> Inr n | None \<Rightarrow> Inl (SystemExit (boot_limit_message vm_name retry_limit)))"
  using ssh_attempts_spec [of 0 retry_limit up vm_name] by (simp add: check_ssh_conn_def del: upt_Suc)

text \<open>A clock that advances by the interval ends the wait for a command, at the first success or at the deadline.\<close>

lemma clock_grows:
  assumes "\<And>n. clock n + interval \<le> clock (Suc n)" and "0 < (interval::int)"
  shows "clock m + int k * interval \<le> clock (m + k)"
proof (induction k)
  case (Suc k)
  have "clock m + int (Suc k) * interval = clock m + int k * interval + interval" by (simp add: algebra_simps)
  also have "\<dots> \<le> clock (m + k) + interval" using Suc by simp
  also have "\<dots> \<le> clock (m + Suc k)" using assms(1) [of "m + k"] by simp
  finally show ?case .
qed simp

lemma wait_loop_spec:
  assumes grows: "\<And>n. clock n + interval \<le> clock (Suc n)" and pos: "0 < interval"
  shows "wait_loop ok clock deadline interval n =
    Some (\<exists>k \<ge> n. ok k \<and> (\<forall>j. n \<le> j \<and> j < k \<longrightarrow> clock j + interval \<le> deadline))"
proof (induction "nat (deadline - clock n)" arbitrary: n rule: less_induct)
  case less
  show ?case
  proof (cases "ok n \<or> clock n + interval > deadline")
    case True
    show ?thesis
    proof (cases "ok n")
      case False
      have "\<not> (ok k \<and> (\<forall>j. n \<le> j \<and> j < k \<longrightarrow> clock j + interval \<le> deadline))" if "n \<le> k" for k
        using that True False by (cases "k = n") auto
      then show ?thesis using True False by (subst wait_loop.simps) auto
    qed (subst wait_loop.simps, auto)
  next
    case False
    have "nat (deadline - clock (Suc n)) < nat (deadline - clock n)" using False grows [of n] pos by linarith
    from less [OF this] have "wait_loop ok clock deadline interval n =
      Some (\<exists>k \<ge> Suc n. ok k \<and> (\<forall>j. Suc n \<le> j \<and> j < k \<longrightarrow> clock j + interval \<le> deadline))"
      using False by (subst wait_loop.simps) simp
    also have "(\<exists>k \<ge> Suc n. ok k \<and> (\<forall>j. Suc n \<le> j \<and> j < k \<longrightarrow> clock j + interval \<le> deadline)) \<longleftrightarrow>
        (\<exists>k \<ge> n. ok k \<and> (\<forall>j. n \<le> j \<and> j < k \<longrightarrow> clock j + interval \<le> deadline))" (is "?a \<longleftrightarrow> ?b")
    proof
      assume ?a
      then obtain k where k: "Suc n \<le> k" "ok k" "\<forall>j. Suc n \<le> j \<and> j < k \<longrightarrow> clock j + interval \<le> deadline" by blast
      have "clock j + interval \<le> deadline" if "n \<le> j" "j < k" for j using that k(3) False by (cases "j = n") auto
      then show ?b using k by (intro exI [of _ k]) auto
    next
      assume ?b
      then obtain k where k: "n \<le> k" "ok k" "\<forall>j. n \<le> j \<and> j < k \<longrightarrow> clock j + interval \<le> deadline" by blast
      then have "n \<noteq> k" using False by auto
      then show ?a using k by (intro exI [of _ k]) auto
    qed
    finally show ?thesis .
  qed
qed

lemma wait_for_ssh_command_spec:
  assumes "\<And>n. clock n + interval \<le> clock (Suc n)" and "0 < interval"
  shows "wait_for_ssh_command ok clock start timeout interval =
    Some (\<exists>k. ok k \<and> (\<forall>j < k. clock j + interval \<le> start + timeout))"
  unfolding wait_for_ssh_command_def wait_loop_spec [where clock = clock, OF assms] by simp

lemma ssh_reachable_spec:
  "ssh_reachable probe attempts \<longleftrightarrow> (\<exists>i < max 1 attempts. probe i = 0 \<and> (\<forall>j < i. probe j = SSH_NO_CONNECTION))"
proof -
  have loop: "reach_loop probe i n \<longleftrightarrow> (\<exists>k < n. probe (i + k) = 0 \<and> (\<forall>j < k. probe (i + j) = SSH_NO_CONNECTION))" for i n
  proof (induction n arbitrary: i)
    case (Suc n)
    show ?case unfolding Ex_less_Suc2 by (auto simp: Suc.IH [of "Suc i"] SSH_NO_CONNECTION_def All_less_Suc2)
  qed simp
  then show ?thesis by (simp add: ssh_reachable_def)
qed

section \<open>Properties\<close>

text \<open>C36 The host chosen for a VM has the requested vCPUs, memory and disk free, and none of the hosts that
  have them has more free memory; a host whose resources cannot be read does not stop the choice. The
  run ends only when no host has enough.
\<close>

theorem selected_host_is_best:
  assumes "\<And>h. h \<in> set hosts \<Longrightarrow> queryable (probe h)"
  shows "case select_kvm_host probe hosts (PInt cpu) (PInt mem) (PInt dsk) of
      Inr h \<Rightarrow> h \<in> set hosts \<and> (\<exists>fc fm fd. probe h = Inr (fc, fm, fd) \<and> cpu \<le> fc \<and> mem \<le> fm \<and> dsk * 1024 \<le> fd \<and>
        (\<forall>h' \<in> set hosts. \<forall>fc' fm' fd'. probe h' = Inr (fc', fm', fd') \<and> cpu \<le> fc' \<and> mem \<le> fm' \<and> dsk * 1024 \<le> fd' \<longrightarrow> fm' \<le> fm))
    | Inl e \<Rightarrow> (\<exists>t. e = SystemExit t) \<and>
        (\<forall>h \<in> set hosts. \<forall>fc fm fd. probe h = Inr (fc, fm, fd) \<longrightarrow> fc < cpu \<or> fm < mem \<or> fd < dsk * 1024)"
proof -
  consider (found) h free where "select_kvm_host probe hosts (PInt cpu) (PInt mem) (PInt dsk) = Inr h" "h \<in> set hosts"
      "probe h = Inr free" "enough cpu mem dsk free"
      "\<forall>h' \<in> set hosts. \<forall>free'. probe h' = Inr free' \<and> enough cpu mem dsk free' \<longrightarrow> (fst (snd free'), h') \<le> (fst (snd free), h)"
    | (none) t where "select_kvm_host probe hosts (PInt cpu) (PInt mem) (PInt dsk) = Inl (SystemExit t)"
      "\<forall>h \<in> set hosts. \<forall>free. probe h = Inr free \<longrightarrow> \<not> enough cpu mem dsk free"
    using select_kvm_host_cases [of hosts probe cpu mem dsk] assms by blast
  then show ?thesis
  proof cases
    case found
    have "fm' \<le> fst (snd free)" if "h' \<in> set hosts" "probe h' = Inr (fc', fm', fd')" "enough cpu mem dsk (fc', fm', fd')"
      for h' fc' fm' fd'
      using found(5) that by (fastforce simp: less_eq_prod_def)
    then show ?thesis using found(1-4) by (cases free) (auto simp: enough_def)
  next
    case none
    then show ?thesis by (force simp: enough_def not_le)
  qed
qed

theorem selected_host_is_best_witness:
  "select_kvm_host (\<lambda>h. if h = ''a'' then Inr (8, 4096, 90000) else if h = ''b'' then Inr (4, 8192, 90000) else Inl (RuntimeError ''down''))
     [''a'', ''b'', ''c''] (PInt 4) (PInt 2048) (PInt 20) = Inr ''b'' \<and>
   (case select_kvm_host (\<lambda>h. if h = ''a'' then Inr (8, 4096, 90000) else if h = ''b'' then Inr (4, 8192, 90000) else Inl (RuntimeError ''down''))
       [''a'', ''b'', ''c''] (PInt 4) (PInt 2048) (PInt 20) of
      Inr h \<Rightarrow> h \<in> set [''a'', ''b'', ''c''] \<and> (\<exists>fc fm fd. (if h = ''a'' then Inr (8, 4096, 90000) else if h = ''b'' then Inr (4, 8192, 90000)
          else Inl (RuntimeError ''down'')) = (Inr (fc, fm, fd) :: resources res) \<and> 4 \<le> fc \<and> 2048 \<le> fm \<and> 20 * 1024 \<le> fd \<and>
        (\<forall>h' \<in> set [''a'', ''b'', ''c'']. \<forall>fc' fm' fd'. (if h' = ''a'' then Inr (8, 4096, 90000) else if h' = ''b'' then Inr (4, 8192, 90000)
          else Inl (RuntimeError ''down'')) = (Inr (fc', fm', fd') :: resources res) \<and> 4 \<le> fc' \<and> 2048 \<le> fm' \<and> 20 * 1024 \<le> fd' \<longrightarrow> fm' \<le> fm))
    | Inl e \<Rightarrow> (\<exists>t. e = SystemExit t) \<and>
        (\<forall>h \<in> set [''a'', ''b'', ''c'']. \<forall>fc fm fd. (if h = ''a'' then Inr (8, 4096, 90000) else if h = ''b'' then Inr (4, 8192, 90000)
          else Inl (RuntimeError ''down'')) = (Inr (fc, fm, fd) :: resources res) \<longrightarrow> fc < 4 \<or> fm < 2048 \<or> fd < 20 * 1024))"
proof (rule conjI)
  show "select_kvm_host (\<lambda>h. if h = ''a'' then Inr (8, 4096, 90000) else if h = ''b'' then Inr (4, 8192, 90000) else Inl (RuntimeError ''down''))
     [''a'', ''b'', ''c''] (PInt 4) (PInt 2048) (PInt 20) = Inr ''b''"
    by code_simp
qed (rule selected_host_is_best, simp add: queryable_def)

text \<open>Where a VM was created is found again without having been recorded: once the VM exists on the host
  \<open>resolve_kvm_host\<close> chose and on no other, \<open>locate_kvm_host\<close> answers that host and the same libvirt
  URI, whatever resources the hosts have by then.
\<close>

theorem located_where_created:
  assumes "resolve_kvm_host probe defn vm_name config = Inr (PStr h, virt_srv)"
    and "\<And>h' v'. has_domain h' v' = Inr (h' = h)"
  shows "locate_kvm_host has_domain defn vm_name config = Inr (PStr h, virt_srv)"
proof -
  obtain node hosts default_host where n: "strict_node defn vm_name = Inr node" "configured_hosts config = Inr (hosts, default_host)"
    using assms(1) by (auto simp: resolve_kvm_host_def res_simps)
  show ?thesis
  proof (cases "truthy (get node ''kvm_host'') \<or> length hosts \<le> 1")
    case True
    then show ?thesis using assms(1) n by (auto simp: resolve_kvm_host_def locate_kvm_host_def)
  next
    case False
    then have h: "h \<in> set hosts" "virt_srv = virt_srv_for_host (PStr h) default_host config"
      using assms(1) n by (auto simp: resolve_kvm_host_def res_simps dest: select_kvm_host_mem)
    then show ?thesis using False n first_with_domain_at [of has_domain h hosts default_host config, OF assms(2)]
      by (simp add: locate_kvm_host_def)
  qed
qed

definition two_hosts :: dict where
  "two_hosts = [(''REMOTE_HOST'', PStr ''kvm1''), (''KVM_HOSTS'', PStr ''kvm1 kvm2''), (''VIRT_SRV'', PStr ''qemu+ssh://kvm1/system'')]"

theorem located_where_created_witness:
  "locate_kvm_host (\<lambda>h _. Inr (h = ''kvm2'')) [(''nodes'', PDict [(''n1'', PDict [])])] ''n1'' two_hosts =
    Inr (PStr ''kvm2'', PStr ''qemu+ssh://root@kvm2/system?keyfile=.ssh/id_rsa'')"
proof (rule located_where_created)
  show "resolve_kvm_host (\<lambda>h. Inr (if h = ''kvm1'' then (1, 1, 1) else (2, 2, 2))) [(''nodes'', PDict [(''n1'', PDict [])])] ''n1'' two_hosts =
    Inr (PStr ''kvm2'', PStr ''qemu+ssh://root@kvm2/system?keyfile=.ssh/id_rsa'')"
    by code_simp
qed simp



text \<open>When the boot ID could not be read, the wait ends on the host that has not gone down yet.\<close>

lemma unread_boot_id_ends_wait:
  assumes "ids 0 = Some t" and "t \<noteq> []"
  shows "reboot_into_pending_snapshot host True None ids clock start timeout = Some (Inr True)"
  using assms by (simp add: reboot_into_pending_snapshot_def wait_for_reboot_def wait_for_ssh_command_def boot_id_def
    wait_loop.simps [of _ _ _ _ 0])

end
