(* ===== verification/Image_Fetch.thy ===== *)
theory Image_Fetch
  imports Kvm_Hosts Py_Action
begin

text \<open>
  The download of a base image onto a KVM host: \<open>fetch_source_image\<close> of \<open>libs/lab_creation.py\<close> and
  the shell script it runs there, on the host's files as a map from paths to contents.

  Parameters: the digest of a content (\<open>sha256sum\<close>), what a URL publishes as checksums, what curl
  makes of a URL and the part already downloaded, and whether the host is reached. The script's file
  operations succeed, but for \<open>mkdir -p\<close> of an empty name and \<open>mv\<close> of a file that is not there.
\<close>

type_synonym files = "string \<Rightarrow> string option"
type_synonym fetcher = "string \<Rightarrow> string option \<Rightarrow> bool \<times> string option"

section \<open>The script\<close>

text \<open>The awk program that finds an image's digest in a checksum file.\<close>

definition awk_fields :: "string \<Rightarrow> string list" where
  "awk_fields l = filter (\<lambda>w. w \<noteq> []) (split_ch CHR '' '' (map (\<lambda>c. if c = CHR 0x09 then CHR '' '' else c) l))"

definition digest_line :: "string \<Rightarrow> string list \<Rightarrow> bool" where
  "digest_line img fs = (case fs of [_] \<Rightarrow> True | _ # f # _ \<Rightarrow> f = img \<or> f = ''*'' @ img | [] \<Rightarrow> False)"

definition published :: "string \<Rightarrow> string \<Rightarrow> string" where
  "published img page =
     (case find (digest_line img) (map awk_fields (split_ch CHR 0x0A page)) of
        Some (f # _) \<Rightarrow> str_lower f | _ \<Rightarrow> [])"

definition grep_sha256 :: "string \<Rightarrow> bool" where
  "grep_sha256 t =
     list_ex (\<lambda>l. length l = 64 \<and> list_all (\<lambda>c. is_digit c \<or> 97 \<le> code c \<and> code c \<le> 102) l) (split_ch CHR 0x0A t)"

definition wanted :: "(string \<Rightarrow> string option) \<Rightarrow> string \<Rightarrow> string \<Rightarrow> string \<Rightarrow> string" where
  "wanted publish img sha256 sha256_url =
     (if sha256 \<noteq> [] then str_lower sha256
      else case publish sha256_url of None \<Rightarrow> [] | Some page \<Rightarrow> published img page)"

fun download :: "fetcher \<Rightarrow> string list \<Rightarrow> string option \<Rightarrow> bool \<times> string option" where
  "download curl [] got = (False, got)"
| "download curl (u # us) got =
     (case curl u got of (ok, got') \<Rightarrow> if ok then (True, got') else download curl us got')"

definition dest_path :: "string \<Rightarrow> string \<Rightarrow> string" where
  "dest_path iso_loc img = rstrip_ch CHR ''/'' iso_loc @ ''/'' @ img"

definition marker_of :: "string \<Rightarrow> string" where
  "marker_of dest = dest @ ''.sha256-verified''"

definition part_of :: "string \<Rightarrow> string" where
  "part_of dest = dest @ ''.part''"

definition corrupt_of :: "string \<Rightarrow> string" where
  "corrupt_of dest = dest @ ''.corrupt''"

definition marker_text :: "string \<Rightarrow> string \<Rightarrow> string" where
  "marker_text want content = want @ '' '' @ nat_str (length content)"

text \<open>\<open>$(cat ...)\<close> of the marker equals the digest wanted and the size of the image.\<close>

definition marked :: "files \<Rightarrow> string \<Rightarrow> string \<Rightarrow> bool" where
  "marked fs dest want =
     (case fs dest of None \<Rightarrow> False
      | Some c \<Rightarrow> (case fs (marker_of dest) of None \<Rightarrow> False
                  | Some m \<Rightarrow> rstrip_ch CHR 0x0A m = marker_text want c))"

definition verify :: "(string \<Rightarrow> string) \<Rightarrow> string \<Rightarrow> string \<Rightarrow> files \<Rightarrow> (nat \<times> string) \<times> files" where
  "verify sha dest want fs =
     (case fs dest of
        None \<Rightarrow> ((1, []), fs)
      | Some c \<Rightarrow>
          if sha c \<noteq> want then ((4, []), fs(dest := None, corrupt_of dest := Some c))
          else ((0, ''downloaded''), fs(marker_of dest := Some (marker_text want c @ NL))))"

definition FETCH_IMAGE_SCRIPT ::
  "(string \<Rightarrow> string) \<Rightarrow> (string \<Rightarrow> string option) \<Rightarrow> fetcher \<Rightarrow> string \<Rightarrow> string \<Rightarrow> string list \<Rightarrow> string \<Rightarrow> string \<Rightarrow>
   files \<Rightarrow> (nat \<times> string) \<times> files" where
  "FETCH_IMAGE_SCRIPT sha publish curl iso_loc img urls sha256 sha256_url fs =
     (let dest = dest_path iso_loc img;
          want = wanted publish img sha256 sha256_url in
      if \<not> grep_sha256 want then ((3, []), fs)
      else if marked fs dest want then ((0, ''cached''), fs)
      else if rstrip_ch CHR ''/'' iso_loc = [] then ((1, []), fs)
      else if fs dest \<noteq> None then verify sha dest want fs
      else
        (case download curl urls (fs (part_of dest)) of (fetched, got) \<Rightarrow>
           let fs1 = fs(part_of dest := got) in
           if \<not> fetched then ((5, []), fs1)
           else case got of
             None \<Rightarrow> ((1, []), fs1)
           | Some c \<Rightarrow> verify sha dest want (fs1(part_of dest := None, dest := Some c))))"

section \<open>The call\<close>

definition label_of :: "string \<Rightarrow> string" where
  "label_of img = ''image '' @ sq img"

definition fetch_failed :: "string \<Rightarrow> string \<Rightarrow> string \<Rightarrow> nat \<Rightarrow> string" where
  "fetch_failed img host out rc =
     ''could not fetch base image '' @ sq img @ '' onto '' @ host @ '': '' @ (if out \<noteq> [] then out else ''exit '' @ nat_str rc)"

definition fetch_source_image ::
  "(string \<Rightarrow> string) \<Rightarrow> (string \<Rightarrow> string option) \<Rightarrow> fetcher \<Rightarrow> bool \<Rightarrow>
   string \<Rightarrow> string \<Rightarrow> string \<Rightarrow> string \<Rightarrow> string \<Rightarrow> string \<Rightarrow> (files, string) act" where
  "fetch_source_image sha publish curl reached host iso_loc img url sha256 sha256_url =
     (let issues = image_source_issues (label_of img) img url sha256 sha256_url in
      if issues \<noteq> [] then act_raise (SystemExit (join ''; '' issues))
      else (\<lambda>fs.
        case (if \<not> reached then ((SSH_NO_CONNECTION, []), fs)
              else case FETCH_IMAGE_SCRIPT sha publish curl iso_loc img (words url) sha256 sha256_url fs of
                     ((rc, out), fs') \<Rightarrow> ((int rc, out), fs')) of
          ((rc, out), fs') \<Rightarrow>
            if rc \<noteq> 0 then (Inl (SystemExit (fetch_failed img host (str_strip out) (nat rc))), fs')
            else (Inr (if str_strip out \<noteq> [] then last (splitlines (str_strip out)) else ''downloaded''), fs')))"

section \<open>What the script leaves\<close>

text \<open>A marker tells the truth when it matches the image's size only if the image has the digest it names.\<close>

definition truthful :: "(string \<Rightarrow> string) \<Rightarrow> string \<Rightarrow> files \<Rightarrow> bool" where
  "truthful sha dest fs = (\<forall>want c. fs dest = Some c \<and> marked fs dest want \<longrightarrow> sha c = want)"

lemma names_differ [simp]:
  "marker_of d \<noteq> d" "part_of d \<noteq> d" "corrupt_of d \<noteq> d" "marker_of d \<noteq> part_of d" "marker_of d \<noteq> corrupt_of d"
  "part_of d \<noteq> corrupt_of d" "d \<noteq> marker_of d" "d \<noteq> part_of d" "d \<noteq> corrupt_of d" "part_of d \<noteq> marker_of d"
  "corrupt_of d \<noteq> marker_of d" "corrupt_of d \<noteq> part_of d"
  by (simp_all add: marker_of_def part_of_def corrupt_of_def)

lemma marker_text_inj: "marker_text v c = marker_text w c \<Longrightarrow> v = w"
  by (simp add: marker_text_def)

lemma rstrip_marker: "rstrip_ch CHR 0x0A (marker_text w c @ NL) = marker_text w c"
proof -
  obtain x xs where x: "nat_str (length c) = xs @ [x]" by (metis nat_str_nonempty rev_exhaust)
  then have "is_digit x" using nat_str_digits [of x "length c"] by simp
  then have "x \<noteq> CHR 0x0A" by (auto simp: is_digit_def code_def)
  then show ?thesis by (simp add: rstrip_ch_def marker_text_def NL_def x)
qed

definition own_paths :: "string \<Rightarrow> string set" where
  "own_paths dest = {dest, marker_of dest, part_of dest, corrupt_of dest}"

lemma verify_spec:
  assumes "verify sha dest want fs = ((rc, out), fs')" and "fs dest \<noteq> None"
  shows "truthful sha dest fs' \<and> (\<forall>p. p \<notin> own_paths dest \<longrightarrow> fs' p = fs p) \<and>
    (rc = 0 \<longrightarrow> out = ''downloaded'' \<and> marked fs' dest want \<and> (\<exists>c. fs' dest = Some c \<and> sha c = want))"
proof -
  obtain c where c: "fs dest = Some c" using assms(2) by auto
  show ?thesis
  proof (cases "sha c = want")
    case True
    then have "fs' = fs(marker_of dest := Some (marker_text want c @ NL))" "out = ''downloaded''"
      using assms(1) c by (auto simp: verify_def)
    then show ?thesis using True c
      by (auto simp: truthful_def marked_def rstrip_marker own_paths_def dest: marker_text_inj)
  next
    case False
    then show ?thesis using assms(1) c by (auto simp: verify_def truthful_def own_paths_def)
  qed
qed

lemma script_spec:
  assumes "FETCH_IMAGE_SCRIPT sha publish curl iso_loc img urls sha256 sha256_url fs = ((rc, out), fs')"
    and "truthful sha (dest_path iso_loc img) fs"
  shows "truthful sha (dest_path iso_loc img) fs' \<and> (\<forall>p. p \<notin> own_paths (dest_path iso_loc img) \<longrightarrow> fs' p = fs p) \<and>
    (rc = 0 \<longrightarrow> (out = ''cached'' \<and> fs' = fs \<or> out = ''downloaded'') \<and>
       grep_sha256 (wanted publish img sha256 sha256_url) \<and> marked fs' (dest_path iso_loc img) (wanted publish img sha256 sha256_url) \<and>
       (\<exists>c. fs' (dest_path iso_loc img) = Some c \<and> sha c = wanted publish img sha256 sha256_url)) \<and>
    (rc \<noteq> 0 \<longrightarrow> out = [])"
proof -
  define d w where dw: "d = dest_path iso_loc img" "w = wanted publish img sha256 sha256_url"
  have failed: "out' = []" if "verify sha d w gs = ((rc', out'), fs'')" "rc' \<noteq> 0" for gs rc' out' fs''
    using that by (auto simp: verify_def split: option.splits if_splits)
  consider (bad) "\<not> grep_sha256 w" | (cached) "grep_sha256 w" "marked fs d w"
    | (nodir) "grep_sha256 w" "\<not> marked fs d w" "rstrip_ch CHR ''/'' iso_loc = []"
    | (there) "grep_sha256 w" "\<not> marked fs d w" "rstrip_ch CHR ''/'' iso_loc \<noteq> []" "fs d \<noteq> None"
    | (absent) "grep_sha256 w" "\<not> marked fs d w" "rstrip_ch CHR ''/'' iso_loc \<noteq> []" "fs d = None"
    by blast
  then show ?thesis
  proof cases
    case cached
    then obtain c where c: "fs d = Some c" by (auto simp: marked_def split: option.splits)
    then have "sha c = w" using assms(2) cached unfolding truthful_def dw by blast
    then show ?thesis using assms cached c by (auto simp: FETCH_IMAGE_SCRIPT_def dw [symmetric] Let_def)
  next
    case there
    then have v: "verify sha d w fs = ((rc, out), fs')" using assms(1) by (simp add: FETCH_IMAGE_SCRIPT_def dw [symmetric])
    show ?thesis using verify_spec [OF v there(4)] there failed [OF v] unfolding dw [symmetric] by blast
  next
    case absent
    obtain ok got where got: "download curl urls (fs (part_of d)) = (ok, got)" by fastforce
    show ?thesis
    proof (cases "ok \<and> got \<noteq> None")
      case True
      then obtain c where c: "got = Some c" by auto
      define gs where "gs = (fs(part_of d := got))(part_of d := None, d := Some c)"
      have v: "verify sha d w gs = ((rc, out), fs')"
        using assms(1) absent got True c by (simp add: FETCH_IMAGE_SCRIPT_def dw [symmetric] gs_def)
      have "gs d \<noteq> None" and "gs p = fs p" if "p \<notin> own_paths d" for p
        using that by (auto simp: gs_def own_paths_def)
      then show ?thesis using verify_spec [OF v] absent(1) failed [OF v] gs_def unfolding dw [symmetric]
        by (metis fun_upd_same option.distinct(1))
    next
      case False
      then have "fs' = fs(part_of d := got)" "rc \<noteq> 0" "out = []"
        using assms(1) absent got False by (auto simp: FETCH_IMAGE_SCRIPT_def dw [symmetric] Let_def split: if_splits)
      then show ?thesis using absent(4) assms(2) by (auto simp: dw [symmetric] truthful_def own_paths_def)
    qed
  qed (use assms in \<open>auto simp: FETCH_IMAGE_SCRIPT_def dw [symmetric] Let_def\<close>)
qed

lemma out_texts:
  "str_strip ''cached'' = ''cached''" "last (splitlines ''cached'') = ''cached''"
  "str_strip ''downloaded'' = ''downloaded''" "last (splitlines ''downloaded'') = ''downloaded''"
  "str_strip [] = []" "\<not> grep_sha256 []"
  by code_simp+

lemma fetch_run:
  assumes reached and "image_source_issues (label_of img) img url sha256 sha256_url = []"
    and "FETCH_IMAGE_SCRIPT sha publish curl iso_loc img (words url) sha256 sha256_url fs = ((rc, out), fs')"
  shows "fetch_source_image sha publish curl reached host iso_loc img url sha256 sha256_url fs =
    (if rc \<noteq> 0 then (Inl (SystemExit (fetch_failed img host (str_strip out) rc)), fs')
     else (Inr (if str_strip out \<noteq> [] then last (splitlines (str_strip out)) else ''downloaded''), fs'))"
  using assms by (simp add: fetch_source_image_def)

lemma fetch_refused:
  "image_source_issues (label_of img) img url sha256 sha256_url \<noteq> [] \<Longrightarrow>
   fetch_source_image sha publish curl reached host iso_loc img url sha256 sha256_url fs =
     (Inl (SystemExit (join ''; '' (image_source_issues (label_of img) img url sha256 sha256_url))), fs)"
  by (simp add: fetch_source_image_def act_raise_def)

lemma fetch_unreached:
  "image_source_issues (label_of img) img url sha256 sha256_url = [] \<Longrightarrow>
   fetch_source_image sha publish curl False host iso_loc img url sha256 sha256_url fs =
     (Inl (SystemExit (fetch_failed img host [] 255)), fs)"
  by (simp add: fetch_source_image_def SSH_NO_CONNECTION_def out_texts)

lemma fetch_failure:
  assumes "fetch_source_image sha publish curl reached host iso_loc img url sha256 sha256_url fs = (Inl e, fs')"
    and "truthful sha (dest_path iso_loc img) fs"
  shows "(\<exists>rc. e = SystemExit (fetch_failed img host [] rc)) \<or>
    image_source_issues (label_of img) img url sha256 sha256_url \<noteq> [] \<and>
      e = SystemExit (join ''; '' (image_source_issues (label_of img) img url sha256 sha256_url)) \<and> fs' = fs"
proof (cases "image_source_issues (label_of img) img url sha256 sha256_url = [] \<and> reached")
  case True
  obtain rc out gs where run: "FETCH_IMAGE_SCRIPT sha publish curl iso_loc img (words url) sha256 sha256_url fs = ((rc, out), gs)"
    by (metis surj_pair)
  have "rc \<noteq> 0 \<longrightarrow> out = []" using script_spec [OF run assms(2)] by blast
  then show ?thesis using assms(1) fetch_run [OF _ _ run] True by (auto simp: out_texts split: if_splits)
next
  case False
  show ?thesis
  proof (cases "image_source_issues (label_of img) img url sha256 sha256_url = []")
    case True
    with False fetch_unreached [OF True] show ?thesis using assms(1) by auto
  qed (use assms(1) fetch_refused in auto)
qed

text \<open>C6 A base image that was fetched is the one asked for: the file on the host has the digest given, or
  the one published for it, and fetching it again only finds it there. Whether the fetch succeeds or
  not, no other file than the image and its own marker, part and quarantined copy changes, and the
  marker never vouches for a file with another digest.\<close>

theorem fetched_image_verified:
  assumes "fetch_source_image sha publish curl reached host iso_loc img url sha256 sha256_url fs = (r, fs')"
    and "truthful sha (dest_path iso_loc img) fs"
  shows "truthful sha (dest_path iso_loc img) fs' \<and>
    (\<forall>p. p \<notin> own_paths (dest_path iso_loc img) \<longrightarrow> fs' p = fs p) \<and>
    (case r of
       Inr out \<Rightarrow>
         (\<exists>c. fs' (dest_path iso_loc img) = Some c \<and>
            (if sha256 \<noteq> [] then sha c = str_lower sha256
             else \<exists>page. publish sha256_url = Some page \<and> sha c = published img page)) \<and>
         fetch_source_image sha publish curl reached host iso_loc img url sha256 sha256_url fs' = (Inr ''cached'', fs')
     | Inl e \<Rightarrow> \<exists>t. e = SystemExit t)"
proof (cases "image_source_issues (label_of img) img url sha256 sha256_url = [] \<and> reached")
  case False
  have "fs' = fs \<and> (\<exists>t. r = Inl (SystemExit t))"
  proof (cases "image_source_issues (label_of img) img url sha256 sha256_url = []")
    case True
    with False fetch_unreached [OF True] show ?thesis using assms(1) by auto
  qed (use assms(1) fetch_refused in auto)
  then show ?thesis using assms(2) by auto
next
  case True
  then have ok: "image_source_issues (label_of img) img url sha256 sha256_url = []" and re: reached by simp_all
  obtain rc out gs where run: "FETCH_IMAGE_SCRIPT sha publish curl iso_loc img (words url) sha256 sha256_url fs = ((rc, out), gs)"
    by (metis surj_pair)
  note spec = script_spec [OF run assms(2)]
  note call = fetch_run [OF re ok run, of host]
  show ?thesis
  proof (cases "rc = 0")
    case False
    then have "r = Inl (SystemExit (fetch_failed img host (str_strip out) rc))" "fs' = gs" using assms(1) call by auto
    then show ?thesis using spec by simp
  next
    case True
    define w where "w = wanted publish img sha256 sha256_url"
    from True spec obtain c where c: "gs (dest_path iso_loc img) = Some c" "sha c = w" "grep_sha256 w" "marked gs (dest_path iso_loc img) w"
      by (auto simp: w_def)
    have r: "fs' = gs" "\<exists>t. r = Inr t" using assms(1) call True by (auto simp: out_texts)
    have "FETCH_IMAGE_SCRIPT sha publish curl iso_loc img (words url) sha256 sha256_url gs = ((0, ''cached''), gs)"
      using c by (simp add: FETCH_IMAGE_SCRIPT_def w_def)
    from fetch_run [OF re ok this, of host]
    have again: "fetch_source_image sha publish curl reached host iso_loc img url sha256 sha256_url gs = (Inr ''cached'', gs)"
      by (simp add: out_texts)
    have digest: "if sha256 \<noteq> [] then sha c = str_lower sha256 else \<exists>page. publish sha256_url = Some page \<and> sha c = published img page"
      using c out_texts by (auto simp: w_def wanted_def split: option.splits)
    from r obtain t where t: "r = Inr t" by blast
    have keeps: "truthful sha (dest_path iso_loc img) gs" "\<forall>p. p \<notin> own_paths (dest_path iso_loc img) \<longrightarrow> gs p = fs p"
      using spec by simp_all
    show ?thesis unfolding t r(1) sum.case using keeps again c(1) digest by blast
  qed
qed

definition DIGEST :: string where
  "DIGEST = replicate 64 CHR ''a''"

definition sums :: string where
  "sums = DIGEST @ '' *i.qcow2'' @ NL"

definition page_of :: "string \<Rightarrow> string option" where
  "page_of u = (if u = ''https://h/s'' then Some sums else None)"

definition disk_sum :: "string \<Rightarrow> string" where
  "disk_sum c = (if c = ''disk'' then DIGEST else [])"

definition mirror :: fetcher where
  "mirror u got = (u = ''http://m/i'', Some ''disk'')"

definition some_files :: files where
  "some_files p = (if p = ''/etc/hosts'' then Some ''x'' else None)"

lemma DIGEST_hex: "str_lower DIGEST = DIGEST" "grep_sha256 DIGEST"
proof -
  show "str_lower DIGEST = DIGEST" by (simp add: DIGEST_def str_lower_def lower_char_def code_def)
  have "split_ch CHR 0x0A DIGEST = [DIGEST]" by (rule split_ch_token) (simp add: DIGEST_def)
  then show "grep_sha256 DIGEST" by (simp add: grep_sha256_def) (simp add: DIGEST_def is_digit_def code_def list_all_iff)
qed

lemma page_fields: "map awk_fields (split_ch CHR 0x0A sums) = [[DIGEST, ''*i.qcow2''], []]"
  by code_simp

lemma fetch_example:
  "\<exists>fs'. fetch_source_image disk_sum page_of mirror True ''kvm'' ''/iso/'' ''i.qcow2'' ''http://h/i http://m/i'' [] ''https://h/s'' some_files =
     (Inr ''downloaded'', fs') \<and> fs' ''/iso/i.qcow2'' = Some ''disk''"
proof -
  have ok: "image_source_issues (label_of ''i.qcow2'') ''i.qcow2'' ''http://h/i http://m/i'' [] ''https://h/s'' = []"
    "words ''http://h/i http://m/i'' = [''http://h/i'', ''http://m/i'']"
    "dest_path ''/iso/'' ''i.qcow2'' = ''/iso/i.qcow2''" "rstrip_ch CHR ''/'' ''/iso/'' = ''/iso''"
    by code_simp+
  have w: "wanted page_of ''i.qcow2'' [] ''https://h/s'' = DIGEST"
    by (simp add: wanted_def page_of_def published_def page_fields digest_line_def DIGEST_hex)
  obtain fs' where run: "FETCH_IMAGE_SCRIPT disk_sum page_of mirror ''/iso/'' ''i.qcow2'' (words ''http://h/i http://m/i'') [] ''https://h/s'' some_files =
      ((0, ''downloaded''), fs')" "fs' ''/iso/i.qcow2'' = Some ''disk''"
    by (simp add: FETCH_IMAGE_SCRIPT_def ok w DIGEST_hex marked_def some_files_def mirror_def verify_def disk_sum_def Let_def)
  then show ?thesis using fetch_run [OF TrueI ok(1) run(1), of "''kvm''"] by (auto simp: out_texts)
qed

theorem fetched_image_verified_witness:
  "\<exists>fs'. fetch_source_image disk_sum page_of mirror True ''kvm'' ''/iso/'' ''i.qcow2'' ''http://h/i http://m/i'' [] ''https://h/s'' some_files =
      (Inr ''downloaded'', fs') \<and>
    fs' ''/iso/i.qcow2'' = Some ''disk'' \<and> fs' ''/etc/hosts'' = Some ''x'' \<and>
    fetch_source_image disk_sum page_of mirror True ''kvm'' ''/iso/'' ''i.qcow2'' ''http://h/i http://m/i'' [] ''https://h/s'' fs' =
      (Inr ''cached'', fs')"
proof -
  obtain fs' where f: "fetch_source_image disk_sum page_of mirror True ''kvm'' ''/iso/'' ''i.qcow2'' ''http://h/i http://m/i'' [] ''https://h/s'' some_files =
      (Inr ''downloaded'', fs')" "fs' ''/iso/i.qcow2'' = Some ''disk''"
    using fetch_example by blast
  have p: "dest_path ''/iso/'' ''i.qcow2'' = ''/iso/i.qcow2''" "''/etc/hosts'' \<notin> own_paths ''/iso/i.qcow2''"
    by code_simp+
  have "truthful disk_sum (dest_path ''/iso/'' ''i.qcow2'') some_files" by (simp add: p truthful_def some_files_def)
  from fetched_image_verified [OF f(1) this] f p show ?thesis by (simp add: some_files_def)
qed

text \<open>No failed run says why: the reasons the script prints go to stderr, which the message does not hold.\<close>

lemma failure_reason_lost:
  assumes "image_source_issues (label_of img) img url sha256 sha256_url = []"
    and "fetch_source_image sha publish curl reached host iso_loc img url sha256 sha256_url fs = (Inl e, fs')"
    and "truthful sha (dest_path iso_loc img) fs"
  shows "\<exists>rc. e = SystemExit (''could not fetch base image '' @ sq img @ '' onto '' @ host @ '': exit '' @ nat_str rc)"
  using fetch_failure [OF assms(2,3)] assms(1) by (auto simp: fetch_failed_def)

end
