(* ===== verification/Crypto_Store.thy ===== *)
theory Crypto_Store
  imports Py_Base
begin

text \<open>
  \<open>libs/crypto_store.py\<close>: a credential value as an envelope, encrypted by a cascade of two ciphers
  under a key derived from a passphrase, in base64.

  Bytes are text. The \<open>cryptography\<close> package (Argon2id, HKDF-SHA512, AES-256-GCM and
  ChaCha20-Poly1305) is the record \<open>crypto\<close>; a decryption that fails its authentication is None.
  The random salt and nonces are arguments. \<open>base64\<close>, of the standard library, is modelled.
\<close>

section \<open>Base64\<close>

definition b64_char :: "nat \<Rightarrow> char" where
  "b64_char n = char_of (if n < 26 then n + 65 else if n < 52 then n + 71 else if n < 62 then n - 4 else if n = 62 then 43 else (47::nat))"

definition b64_val :: "char \<Rightarrow> nat option" where
  "b64_val c =
     (let k = code c in
      if 65 \<le> k \<and> k \<le> 90 then Some (k - 65) else if 97 \<le> k \<and> k \<le> 122 then Some (k - 71)
      else if 48 \<le> k \<and> k \<le> 57 then Some (k + 4) else if k = 43 then Some 62 else if k = 47 then Some 63 else None)"

definition pad :: char where
  "pad = CHR ''=''"

fun b64 :: "string \<Rightarrow> string" where
  "b64 [] = []"
| "b64 [a] = [b64_char (code a div 4), b64_char (code a mod 4 * 16), pad, pad]"
| "b64 [a, b] = [b64_char (code a div 4), b64_char (code a mod 4 * 16 + code b div 16), b64_char (code b mod 16 * 4), pad]"
| "b64 (a # b # c # cs) =
     b64_char (code a div 4) # b64_char (code a mod 4 * 16 + code b div 16) #
     b64_char (code b mod 16 * 4 + code c div 64) # b64_char (code c mod 64) # b64 cs"

text \<open>
  Decoding, character by character: \<open>q\<close> characters of the current four were read, \<open>left\<close> are the bits
  not yet written, \<open>pads\<close> the padding seen. Other characters are skipped; None is a wrong padding.
\<close>

fun unb64_from :: "nat \<Rightarrow> nat \<Rightarrow> nat \<Rightarrow> string \<Rightarrow> string option" where
  "unb64_from q left pads [] = (if q = 0 then Some [] else None)"
| "unb64_from q left pads (c # cs) =
     (if c = pad then
        (if q \<ge> 2 then (if q + (pads + 1) \<ge> 4 then Some [] else unb64_from q left (pads + 1) cs)
         else unb64_from q left pads cs)
      else case b64_val c of
        None \<Rightarrow> unb64_from q left pads cs
      | Some v \<Rightarrow>
          if q = 0 then unb64_from 1 v 0 cs
          else if q = 1 then map_option ((#) (char_of (left * 4 + v div 16))) (unb64_from 2 (v mod 16) 0 cs)
          else if q = 2 then map_option ((#) (char_of (left * 16 + v div 4))) (unb64_from 3 (v mod 4) 0 cs)
          else map_option ((#) (char_of (left * 64 + v))) (unb64_from 0 0 0 cs))"

definition unb64 :: "string \<Rightarrow> string option" where
  "unb64 t = unb64_from 0 0 0 t"

lemma code_less: "code c < 256"
  by (simp add: code_def nat_of_char_less_256)

lemma char_of_code [simp]: "char_of (code c) = c"
  by (simp add: code_def)

lemma code_char_of: "n < 256 \<Longrightarrow> code (char_of n) = n"
  by (simp add: code_def)

lemma b64_val_char:
  assumes "n < 64" shows "b64_val (b64_char n) = Some n" and "b64_char n \<noteq> pad"
proof -
  consider "n < 26" | "26 \<le> n" "n < 52" | "52 \<le> n" "n < 62" | "n = 62" | "n = 63" using assms by linarith
  then show val: "b64_val (b64_char n) = Some n"
    by cases (auto simp: b64_char_def b64_val_def code_char_of Let_def)
  have "b64_val pad = None" by (simp add: pad_def b64_val_def code_def)
  then show "b64_char n \<noteq> pad" using val by auto
qed

lemma unb64_step:
  assumes "v < 64"
  shows "unb64_from 0 left pads (b64_char v # cs) = unb64_from 1 v 0 cs"
    and "unb64_from 1 left pads (b64_char v # cs) = map_option ((#) (char_of (left * 4 + v div 16))) (unb64_from 2 (v mod 16) 0 cs)"
    and "unb64_from 2 left pads (b64_char v # cs) = map_option ((#) (char_of (left * 16 + v div 4))) (unb64_from 3 (v mod 4) 0 cs)"
    and "unb64_from 3 left pads (b64_char v # cs) = map_option ((#) (char_of (left * 64 + v))) (unb64_from 0 0 0 cs)"
  using b64_val_char [OF assms] by simp_all

lemma unb64_pads: "unb64_from 2 left 0 [pad, pad] = Some []" "unb64_from 3 left 0 [pad] = Some []"
  by simp_all

lemma sextets:
  "code a div 4 < 64" "code a mod 4 * 16 < 64" "code a mod 4 * 16 + code b div 16 < 64" "code b mod 16 * 4 < 64"
  "code b mod 16 * 4 + code c div 64 < 64" "code c mod 64 < 64"
  using code_less [of a] code_less [of b] code_less [of c] by auto

lemma unb64_b64 [simp]: "unb64 (b64 s) = Some s"
  unfolding unb64_def
proof (induction s rule: b64.induct)
  case (2 a)
  have "code a div 4 * 4 + code a mod 4 * 16 div 16 = code a" by simp
  then show ?case by (simp only: b64.simps unb64_step sextets unb64_pads) simp
next
  case (3 a b)
  have "code a div 4 * 4 + (code a mod 4 * 16 + code b div 16) div 16 = code a"
    "(code a mod 4 * 16 + code b div 16) mod 16 * 16 + code b mod 16 * 4 div 4 = code b"
    using code_less [of b] by (auto simp: mod_add_eq [symmetric])
  then show ?case by (simp only: b64.simps unb64_step sextets unb64_pads) simp
next
  case (4 a b c cs)
  have "code a div 4 * 4 + (code a mod 4 * 16 + code b div 16) div 16 = code a"
    "(code a mod 4 * 16 + code b div 16) mod 16 * 16 + (code b mod 16 * 4 + code c div 64) div 4 = code b"
    "(code b mod 16 * 4 + code c div 64) mod 4 * 64 + code c mod 64 = code c"
    using code_less [of b] code_less [of c] by auto
  then show ?case using 4 by (simp only: b64.simps unb64_step sextets) simp
qed simp

section \<open>The envelope\<close>

record crypto =
  argon2 :: "string \<Rightarrow> string \<Rightarrow> int \<Rightarrow> int \<Rightarrow> int \<Rightarrow> string"
  hkdf :: "string \<Rightarrow> string \<Rightarrow> string \<Rightarrow> string"
  aes_enc :: "string \<Rightarrow> string \<Rightarrow> string \<Rightarrow> string"
  aes_dec :: "string \<Rightarrow> string \<Rightarrow> string \<Rightarrow> string option"
  chacha_enc :: "string \<Rightarrow> string \<Rightarrow> string \<Rightarrow> string"
  chacha_dec :: "string \<Rightarrow> string \<Rightarrow> string \<Rightarrow> string option"

definition ARGON2_TIME_COST :: int where "ARGON2_TIME_COST = 3"
definition ARGON2_MEMORY_COST_KIB :: int where "ARGON2_MEMORY_COST_KIB = 262144"
definition ARGON2_PARALLELISM :: int where "ARGON2_PARALLELISM = 4"
definition AES_INFO :: string where "AES_INFO = ''lab-in-a-box:credentials:aes-layer''"
definition CHACHA_INFO :: string where "CHACHA_INFO = ''lab-in-a-box:credentials:chacha-layer''"
definition CIPHER_ID :: string where "CIPHER_ID = ''aes-256-gcm+chacha20-poly1305''"
definition KDF_ID :: string where "KDF_ID = ''argon2id''"

definition split_keys :: "crypto \<Rightarrow> string \<Rightarrow> string \<Rightarrow> string \<times> string" where
  "split_keys lib master_key salt = (hkdf lib master_key AES_INFO salt, hkdf lib master_key CHACHA_INFO salt)"

definition encrypt_cascade :: "crypto \<Rightarrow> string \<Rightarrow> string \<Rightarrow> string \<Rightarrow> string \<Rightarrow> string \<Rightarrow> dict" where
  "encrypt_cascade lib passphrase plaintext salt nonce1 nonce2 =
     (let master_key = argon2 lib passphrase salt ARGON2_TIME_COST ARGON2_MEMORY_COST_KIB ARGON2_PARALLELISM;
          (aes_key, chacha_key) = split_keys lib master_key salt;
          intermediate = aes_enc lib aes_key nonce1 plaintext;
          ciphertext = chacha_enc lib chacha_key nonce2 intermediate in
      [(''encrypted'', PBool True), (''kdf'', PStr KDF_ID), (''kdf_time_cost'', PInt ARGON2_TIME_COST),
       (''kdf_memory_cost_kib'', PInt ARGON2_MEMORY_COST_KIB), (''kdf_parallelism'', PInt ARGON2_PARALLELISM),
       (''cipher'', PStr CIPHER_ID), (''salt'', PStr (b64 salt)), (''nonce1'', PStr (b64 nonce1)),
       (''nonce2'', PStr (b64 nonce2)), (''ciphertext'', PStr (b64 ciphertext))])"

text \<open>\<open>_unb64(envelope[key])\<close>, and the errors as the message that is made of them.\<close>

definition bytes_at :: "dict \<Rightarrow> string \<Rightarrow> string res" where
  "bytes_at envelope key =
     (case map_of envelope key of
        None \<Rightarrow> Inl (KeyError key)
      | Some (PStr t) \<Rightarrow> (case unb64 t of Some b \<Rightarrow> Inr b | None \<Rightarrow> Inl (ValueError ''Incorrect padding''))
      | Some _ \<Rightarrow> Inl (TypeError ''argument should be a bytes-like object or ASCII string''))"

definition exc_text :: "exc \<Rightarrow> string" where
  "exc_text e =
     (case e of
        KeyError k \<Rightarrow> sq k | SystemExit t \<Rightarrow> t | RuntimeError t \<Rightarrow> t | ValueError t \<Rightarrow> t | AttributeError t \<Rightarrow> t
      | TypeError t \<Rightarrow> t | IndexError t \<Rightarrow> t | OSError t \<Rightarrow> t | RegexError t \<Rightarrow> t)"

definition envelope_fields :: "dict \<Rightarrow> (string \<times> string \<times> string \<times> string \<times> int \<times> int \<times> int) res" where
  "envelope_fields envelope =
     res_bind (bytes_at envelope ''salt'') (\<lambda>salt. res_bind (bytes_at envelope ''nonce1'') (\<lambda>nonce1.
     res_bind (bytes_at envelope ''nonce2'') (\<lambda>nonce2. res_bind (bytes_at envelope ''ciphertext'') (\<lambda>ciphertext.
     res_bind (to_int (get_dflt envelope ''kdf_time_cost'' (PInt ARGON2_TIME_COST))) (\<lambda>time_cost.
     res_bind (to_int (get_dflt envelope ''kdf_memory_cost_kib'' (PInt ARGON2_MEMORY_COST_KIB))) (\<lambda>memory_cost.
     res_bind (to_int (get_dflt envelope ''kdf_parallelism'' (PInt ARGON2_PARALLELISM))) (\<lambda>parallelism.
     Inr (salt, nonce1, nonce2, ciphertext, time_cost, memory_cost, parallelism))))))))"

definition WRONG_PASSPHRASE :: string where
  "WRONG_PASSPHRASE = ''wrong passphrase, or the credential file is corrupt/tampered''"

definition unrecognised :: "pval \<Rightarrow> pval \<Rightarrow> string" where
  "unrecognised kdf cipher =
     ''unrecognised kdf/cipher in credential envelope: '' @ py_str kdf @ ''/'' @ py_str cipher @
     '' (expected '' @ KDF_ID @ ''/'' @ CIPHER_ID @ '')''"

text \<open>The text of the DecryptionError, or the plaintext.\<close>

definition decrypt_cascade :: "crypto \<Rightarrow> string \<Rightarrow> dict \<Rightarrow> string + string" where
  "decrypt_cascade lib passphrase envelope =
     (if get envelope ''kdf'' \<noteq> PStr KDF_ID \<or> get envelope ''cipher'' \<noteq> PStr CIPHER_ID
      then Inl (unrecognised (get envelope ''kdf'') (get envelope ''cipher''))
      else case envelope_fields envelope of
        Inl e \<Rightarrow> Inl (''malformed credential envelope: '' @ exc_text e)
      | Inr (salt, nonce1, nonce2, ciphertext, time_cost, memory_cost, parallelism) \<Rightarrow>
          (let (aes_key, chacha_key) = split_keys lib (argon2 lib passphrase salt time_cost memory_cost parallelism) salt in
           case chacha_dec lib chacha_key nonce2 ciphertext of
             None \<Rightarrow> Inl WRONG_PASSPHRASE
           | Some intermediate \<Rightarrow>
               (case aes_dec lib aes_key nonce1 intermediate of None \<Rightarrow> Inl WRONG_PASSPHRASE | Some t \<Rightarrow> Inr t)))"

section \<open>Round trip\<close>

text \<open>What the two ciphers promise: what one encrypted, it decrypts with the same key and nonce.\<close>

definition ciphers_invert :: "crypto \<Rightarrow> bool" where
  "ciphers_invert lib \<longleftrightarrow>
     (\<forall>k n t. aes_dec lib k n (aes_enc lib k n t) = Some t) \<and> (\<forall>k n t. chacha_dec lib k n (chacha_enc lib k n t) = Some t)"

lemma encrypt_fields:
  "envelope_fields (encrypt_cascade lib pw t salt n1 n2) =
     Inr (salt, n1, n2,
       chacha_enc lib (snd (split_keys lib (argon2 lib pw salt ARGON2_TIME_COST ARGON2_MEMORY_COST_KIB ARGON2_PARALLELISM) salt)) n2
         (aes_enc lib (fst (split_keys lib (argon2 lib pw salt ARGON2_TIME_COST ARGON2_MEMORY_COST_KIB ARGON2_PARALLELISM) salt)) n1 t),
       ARGON2_TIME_COST, ARGON2_MEMORY_COST_KIB, ARGON2_PARALLELISM)"
  by (simp add: envelope_fields_def encrypt_cascade_def bytes_at_def get_dflt_def to_int_def split_keys_def Let_def)

lemma encrypt_ids:
  "get (encrypt_cascade lib pw t salt n1 n2) ''kdf'' = PStr KDF_ID"
  "get (encrypt_cascade lib pw t salt n1 n2) ''cipher'' = PStr CIPHER_ID"
  "get (encrypt_cascade lib pw t salt n1 n2) ''encrypted'' = PBool True"
  by (simp_all add: encrypt_cascade_def get_def Let_def split_keys_def)

lemma decrypt_encrypt:
  "ciphers_invert lib \<Longrightarrow> decrypt_cascade lib pw (encrypt_cascade lib pw t salt n1 n2) = Inr t"
  by (simp add: decrypt_cascade_def encrypt_ids encrypt_fields ciphers_invert_def split_def)

end
