(* ===== verification/Shell_Config.thy ===== *)
theory Shell_Config
  imports Py_Base
begin

text \<open>
  The shell variable files, \<open>lab_creation.cfg\<close> and its like: \<open>_parse_shell_vars\<close> of
  \<open>libs/primary.py\<close>. The process environment is a parameter.
\<close>

definition is_name :: "string \<Rightarrow> bool" where
  "is_name k = (case k of [] \<Rightarrow> False | c # cs \<Rightarrow> is_word c \<and> \<not> is_digit c \<and> list_all is_word cs)"

text \<open>The text before the first occurrence of another, if there is one.\<close>

fun before :: "string \<Rightarrow> string \<Rightarrow> string option" where
  "before t [] = (if t = [] then Some [] else None)"
| "before t (c # cs) = (if prefix t (c # cs) then Some [] else map_option ((#) c) (before t cs))"

definition str_rstrip :: "string \<Rightarrow> string" where
  "str_rstrip s = rev (dropWhile is_space (rev s))"

text \<open>A quoted value ends at its closing quote, an unquoted one at a blank and a hash.\<close>

definition unquote :: "string \<Rightarrow> string" where
  "unquote raw =
     (case raw of
        [] \<Rightarrow> []
      | q # cs \<Rightarrow>
          if q = CHR 0x22 \<or> q = CHR 0x27 then (case before [q] cs of Some t \<Rightarrow> t | None \<Rightarrow> cs)
          else (case before '' #'' raw of Some t \<Rightarrow> str_rstrip t | None \<Rightarrow> raw))"

definition var_value :: "dict \<Rightarrow> (string \<Rightarrow> string option) \<Rightarrow> string \<Rightarrow> string \<Rightarrow> string" where
  "var_value result environ name written =
     (case map_of result name of
        Some v \<Rightarrow> str_of v
      | None \<Rightarrow> (case environ name of Some t \<Rightarrow> t | None \<Rightarrow> written))"

text \<open>\<open>$\<close>\<open>{name}\<close> and \<open>$name\<close>; what replaces them is not read again.\<close>

function expand :: "dict \<Rightarrow> (string \<Rightarrow> string option) \<Rightarrow> string \<Rightarrow> string" where
  "expand result environ [] = []"
| "expand result environ (c # cs) =
     (if c \<noteq> CHR ''$'' then c # expand result environ cs
      else if takeWhile is_word cs \<noteq> [] then
        var_value result environ (takeWhile is_word cs) (c # takeWhile is_word cs) @
        expand result environ (dropWhile is_word cs)
      else case cs of
        [] \<Rightarrow> [c]
      | d # ds \<Rightarrow>
          if d = CHR 0x7B \<and> takeWhile is_word ds \<noteq> [] \<and> take 1 (dropWhile is_word ds) = [CHR 0x7D] then
            var_value result environ (takeWhile is_word ds) (c # d # takeWhile is_word ds @ [CHR 0x7D]) @
            expand result environ (drop 1 (dropWhile is_word ds))
          else c # expand result environ cs)"
  by pat_completeness auto
termination
proof (relation "measure (\<lambda>(_, _, s). length s)", goal_cases)
  case (3 result environ c cs)
  then show ?case using length_dropWhile_le [of is_word cs] by simp
next
  case (4 result environ c cs d ds)
  then show ?case using length_dropWhile_le [of is_word ds] by simp
qed auto

declare expand.simps [simp del]

definition skipped_line :: "string \<Rightarrow> bool" where
  "skipped_line l =
     (l = [] \<or> starts_with l ''#'' \<or> CHR ''='' \<notin> set l \<or>
      list_ex (starts_with l) [''declare'', ''export declare'', ''typeset''])"

definition skipped_value :: "string \<Rightarrow> bool" where
  "skipped_value raw = (starts_with raw ''('' \<or> contains ''$('' raw \<or> CHR 0x60 \<in> set raw)"

definition shell_line :: "(string \<Rightarrow> string option) \<Rightarrow> string \<Rightarrow> dict \<Rightarrow> dict" where
  "shell_line environ line0 result =
     (let l = str_strip line0;
          key = takeWhile (\<lambda>c. c \<noteq> CHR ''='') l;
          raw = str_strip (drop (length key + 1) l) in
      if skipped_line l \<or> \<not> is_name key \<or> skipped_value raw then result
      else AList.update key (PStr (expand result environ (unquote raw))) result)"

definition parse_shell_vars :: "(string \<Rightarrow> string option) \<Rightarrow> string \<Rightarrow> dict" where
  "parse_shell_vars environ t = fold (shell_line environ) (splitlines t) []"

text \<open>The first of the paths that exists is read; \<open>files\<close> is the text of a path.\<close>

definition load_shell_vars_file :: "(string \<Rightarrow> string option) \<Rightarrow> (string \<Rightarrow> string option) \<Rightarrow> string list \<Rightarrow> string \<Rightarrow> dict res" where
  "load_shell_vars_file environ files search_paths name =
     (case List.map_filter files search_paths of
        t # _ \<Rightarrow> Inr (parse_shell_vars environ t)
      | [] \<Rightarrow> Inl (SystemExit (''Configuration file '' @ sq name @ '' not found in: '' @ join '', '' search_paths)))"

definition DEFAULT_CFG_PATHS :: "string list" where
  "DEFAULT_CFG_PATHS = [''/etc/lab_creation.cfg'', ''lab_creation.cfg'']"

definition DEFAULT_DEFAULTS_PATHS :: "string list" where
  "DEFAULT_DEFAULTS_PATHS = [''/etc/lab_creation.defaults'', ''lab_creation.defaults'']"

definition load_config :: "(string \<Rightarrow> string option) \<Rightarrow> (string \<Rightarrow> string option) \<Rightarrow> string list \<Rightarrow> dict res" where
  "load_config environ files paths =
     load_shell_vars_file environ files (if paths = [] then DEFAULT_CFG_PATHS else paths) ''lab_creation.cfg''"

definition load_defaults :: "(string \<Rightarrow> string option) \<Rightarrow> (string \<Rightarrow> string option) \<Rightarrow> string list \<Rightarrow> dict res" where
  "load_defaults environ files paths =
     load_shell_vars_file environ files (if paths = [] then DEFAULT_DEFAULTS_PATHS else paths) ''lab_creation.defaults''"

definition load_shell_vars :: "(string \<Rightarrow> string option) \<Rightarrow> (string \<Rightarrow> string option) \<Rightarrow> string \<Rightarrow> dict res" where
  "load_shell_vars environ files path =
     (case files path of
        None \<Rightarrow> Inl (SystemExit (''Configuration file '' @ sq path @ '' not found''))
      | Some t \<Rightarrow> Inr (parse_shell_vars environ t))"

section \<open>What a file says is what is read\<close>

text \<open>Values that need no quoting of their own: no quote, no line break, nothing to expand.\<close>

definition plain_value :: "string \<Rightarrow> bool" where
  "plain_value v = list_all (\<lambda>c. c \<noteq> CHR 0x22 \<and> c \<noteq> CHR ''$'' \<and> c \<noteq> CHR 0x60 \<and> \<not> is_break c) v"

lemma before_absent: "c \<notin> set v \<Longrightarrow> before [c] (v @ c # r) = Some v"
  by (induction v) auto

lemma expand_plain: "CHR ''$'' \<notin> set v \<Longrightarrow> expand result environ v = v"
  by (induction v) (auto simp: expand.simps)

lemma contains_char: "contains (c # s) t \<Longrightarrow> c \<in> set t"
  by (induction t) (auto simp: prefix_Cons)

lemma str_strip_ends:
  "\<not> is_space (hd s) \<Longrightarrow> \<not> is_space (last s) \<Longrightarrow> str_strip s = s"
proof (cases s)
  case (Cons c cs)
  assume ends: "\<not> is_space (hd s)" "\<not> is_space (last s)"
  then have "dropWhile is_space s = s" using Cons by simp
  moreover have "dropWhile is_space (rev s) = rev s" using ends(2) Cons
    by (metis dropWhile.simps(2) list.distinct(1) rev.simps(2) append_butlast_last_id rev_eq_Cons_iff rev_rev_ident)
  ultimately show ?thesis by (simp add: str_strip_def)
qed (simp add: str_strip_def)

lemma is_name_chars: "is_name k \<Longrightarrow> c \<in> set k \<Longrightarrow> is_word c"
  by (auto simp: is_name_def list_all_iff split: list.splits)

lemma is_word_not: "\<not> is_word CHR ''=''" "\<not> is_word CHR ''#''" "is_space c \<Longrightarrow> \<not> is_word c"
  by (auto simp: is_word_def is_digit_def is_space_def code_def)

lemma prefix_before: "c \<notin> set p \<Longrightarrow> prefix p (k @ c # r) \<Longrightarrow> prefix p k"
  by (auto simp: prefix_append prefix_Cons)

lemma shell_line_written:
  assumes "is_name k" and "plain_value v" and "\<not> list_ex (starts_with k) [''declare'', ''typeset'']"
  shows "shell_line environ (k @ ''='' @ dq v) result = AList.update k (PStr v) result"
proof -
  define l where "l = k @ ''='' @ dq v"
  have chars: "\<forall>c \<in> set k. is_word c" using is_name_chars [OF assms(1)] by blast
  have "k \<noteq> []" using assms(1) by (auto simp: is_name_def)
  with chars have k: "k \<noteq> []" "CHR ''='' \<notin> set k" "is_word (hd k)" "\<forall>c \<in> set k. is_word c"
    using is_word_not(1) by auto
  have q: "\<not> is_space CHR 0x22" by (simp add: is_space_def code_def)
  have "\<not> is_space (hd l)" "\<not> is_space (last l)"
    using k(1,3) is_word_not(3) q by (auto simp: l_def dq_def)
  then have strip: "str_strip l = l" by (rule str_strip_ends)
  have key: "takeWhile (\<lambda>c. c \<noteq> CHR ''='') l = k"
    unfolding l_def by (subst takeWhile_append2) (use k(2) in auto)
  have raw: "str_strip (drop (length k + 1) l) = dq v"
    using q by (simp add: l_def str_strip_ends dq_def)
  have v: "CHR 0x22 \<notin> set v" "CHR ''$'' \<notin> set v" "CHR 0x60 \<notin> set v"
    using assms(2) by (auto simp: plain_value_def list_all_iff)
  have l: "l = k @ CHR ''='' # dq v" by (simp add: l_def)
  have "\<not> prefix ''export declare'' l"
  proof
    assume "prefix ''export declare'' l"
    then have "prefix ''export declare'' k" unfolding l by (rule prefix_before [rotated]) simp
    then have "CHR '' '' \<in> set k" by (auto dest!: set_mono_prefix)
    then show False using k(4) is_word_not(3) [of "CHR '' ''"] by auto
  qed
  moreover have "\<not> prefix ''declare'' l" "\<not> prefix ''typeset'' l"
    using assms(3) prefix_before [of "CHR ''=''" _ k "dq v"] unfolding l by auto
  ultimately have lok: "\<not> skipped_line l"
    using k is_word_not(2) by (cases k) (auto simp: skipped_line_def l_def)
  have vok: "\<not> skipped_value (dq v)"
    using v by (auto simp: skipped_value_def dq_def dest!: contains_char)
  have u: "unquote (dq v) = v" using before_absent [OF v(1), of "[]"] by (simp add: unquote_def dq_def)
  show ?thesis
    unfolding l_def [symmetric] shell_line_def Let_def strip key raw u expand_plain [OF v(2)] using lok vok assms(1) by simp
qed

lemma update_new: "k \<notin> fst ` set d \<Longrightarrow> AList.update k v d = d @ [(k, v)]"
  by (induction d) auto

definition written_line :: "string \<times> string \<Rightarrow> string" where
  "written_line kv = fst kv @ ''='' @ dq (snd kv)"

definition writable :: "string \<times> string \<Rightarrow> bool" where
  "writable kv = (is_name (fst kv) \<and> plain_value (snd kv) \<and> \<not> list_ex (starts_with (fst kv)) [''declare'', ''typeset''])"

lemma written_lines_read:
  assumes "list_all writable kvs" and "distinct (map fst kvs)" and "fst ` set d \<inter> fst ` set kvs = {}"
  shows "fold (shell_line environ) (map written_line kvs) d = d @ map (\<lambda>(k, v). (k, PStr v)) kvs"
  using assms
proof (induction kvs arbitrary: d)
  case (Cons kv kvs)
  obtain k v where kv: "kv = (k, v)" by fastforce
  have "shell_line environ (written_line kv) d = d @ [(k, PStr v)]"
    using Cons.prems shell_line_written [of k v environ d] by (auto simp: kv written_line_def writable_def update_new)
  then show ?case using Cons.IH [of "d @ [(k, PStr v)]"] Cons.prems by (auto simp: kv)
qed simp

lemma written_line_ok: "writable kv \<Longrightarrow> line_ok (written_line kv)"
proof -
  assume w: "writable kv"
  have "\<not> is_break c" if "is_word c" for c
    using that by (auto simp: is_word_def is_digit_def is_break_def)
  moreover have "\<not> is_break CHR ''=''" "\<not> is_break CHR 0x22" by (simp_all add: is_break_def code_def)
  ultimately show ?thesis using w is_name_chars [of "fst kv"]
    by (auto simp: writable_def plain_value_def line_ok_def written_line_def dq_def list_all_iff)
qed

lemma parse_written:
  assumes "list_all writable kvs" and "distinct (map fst kvs)" and "kvs \<noteq> []"
  shows "parse_shell_vars environ (unlines (map written_line kvs)) = map (\<lambda>(k, v). (k, PStr v)) kvs"
proof -
  have "list_all line_ok (map written_line kvs)" using assms(1) written_line_ok by (auto simp: list_all_iff)
  then have "splitlines (unlines (map written_line kvs)) = map written_line kvs"
    using assms(3) by (subst splitlines_unlines) (auto simp: list_all_iff)
  then show ?thesis using written_lines_read [OF assms(1,2), of "[]"] by (simp add: parse_shell_vars_def)
qed

end
