(* ===== verification/Credentials.thy ===== *)
theory Credentials
  imports Addon_Registry Crypto_Store Shell_Config "HOL-Library.Countable"
begin

text \<open>
  Credential files: \<open>libs/primary.py\<close> (finding, listing, loading and decrypting them) and
  \<open>scripts/setup_credentials.py\<close> (writing them).

  The credentials directories are an association list from a directory to its files, name to text, in
  any order. Parameters: the JSON and YAML parsers and the YAML writer (\<open>formats\<close>), the cryptography
  package, the process environment, and the user at the prompt: \<open>answer n\<close> is what the n-th prompt
  of the run is answered. The passphrases of the run are the state.
\<close>

section \<open>Finding the files\<close>

type_synonym store = "(string \<times> (string \<times> string) list) list"

record formats =
  json_loads :: "string \<Rightarrow> string + pval"
  yaml_load :: "string \<Rightarrow> string + pval"
  yaml_dump :: "dict \<Rightarrow> string"
  environ :: "string \<Rightarrow> string option"

definition DEFAULT_CREDENTIALS_DIRS :: "string list" where
  "DEFAULT_CREDENTIALS_DIRS = [''/etc/lab_creation/credentials'', ''lab_creation-credentials'']"

definition CLOUD_ACCOUNT_EXTS :: "string list" where
  "CLOUD_ACCOUNT_EXTS = [''.yaml'', ''.yml'', ''.json'', ''.cfg'']"

definition credentials_dirs :: "dict \<Rightarrow> string list" where
  "credentials_dirs config =
     (if truthy (get config ''CREDENTIALS_PATH'') then [py_str (get config ''CREDENTIALS_PATH'')] else DEFAULT_CREDENTIALS_DIRS)"

definition files_in :: "store \<Rightarrow> string \<Rightarrow> (string \<times> string) list" where
  "files_in store d = (case map_of store d of Some fs \<Rightarrow> fs | None \<Rightarrow> [])"

definition path_in :: "string \<Rightarrow> string \<Rightarrow> string" where
  "path_in d f = rstrip_ch CHR ''/'' d @ ''/'' @ f"

text \<open>The path, the extension and the text of an account's file.\<close>

definition cloud_account_path :: "store \<Rightarrow> dict \<Rightarrow> string \<Rightarrow> (string \<times> string \<times> string) option" where
  "cloud_account_path store config name =
     (case List.map_filter (\<lambda>(d, ext). map_option (\<lambda>t. (path_in d (name @ ext), ext, t)) (map_of (files_in store d) (name @ ext)))
             (List.product (credentials_dirs config) CLOUD_ACCOUNT_EXTS) of
        [] \<Rightarrow> None | f # _ \<Rightarrow> Some f)"

definition parse_file :: "formats \<Rightarrow> string \<Rightarrow> string \<Rightarrow> string + pval" where
  "parse_file fmt ext t =
     (if ext = ''.json'' then json_loads fmt t
      else if ext = ''.yaml'' \<or> ext = ''.yml'' then yaml_load fmt t
      else Inr (PDict (parse_shell_vars (environ fmt) t)))"

section \<open>Listing\<close>

definition marker_text_of :: "pval \<Rightarrow> string" where
  "marker_text_of v = str_strip (py_str (py_or v (PStr [])))"

definition CLOUD_MARKERS :: "string list" where
  "CLOUD_MARKERS = [''cloudtype'', ''cloud_type'']"

definition SERVICE_MARKERS :: "string list" where
  "SERVICE_MARKERS = [''credential_kind'', ''kind'']"

definition first_marker :: "string list \<Rightarrow> dict \<Rightarrow> string" where
  "first_marker markers data =
     (case find (\<lambda>(k, _). str_lower k \<in> set markers) data of None \<Rightarrow> [] | Some (_, v) \<Rightarrow> marker_text_of v)"

definition list_file :: "formats \<Rightarrow> string list \<Rightarrow> string \<Rightarrow> string \<times> string \<Rightarrow> (string \<times> string) list \<Rightarrow> (string \<times> string) list" where
  "list_file fmt markers ext = (\<lambda>(f, t) accounts.
     (let name = take (length f - length ext) f in
      if name \<in> fst ` set accounts then accounts
      else case parse_file fmt ext t of
        Inr (PDict data) \<Rightarrow>
          (let ct = first_marker markers data in if ct \<noteq> [] then accounts @ [(name, ct)] else accounts)
      | _ \<Rightarrow> accounts))"

definition glob :: "store \<Rightarrow> string \<Rightarrow> string \<Rightarrow> (string \<times> string) list" where
  "glob store d ext = sort_key fst (filter (\<lambda>(f, _). ends_with f ext) (files_in store d))"

definition list_credentials :: "formats \<Rightarrow> string list \<Rightarrow> store \<Rightarrow> dict \<Rightarrow> (string \<times> string) list" where
  "list_credentials fmt markers store config =
     fold (\<lambda>(d, ext). fold (list_file fmt markers ext) (glob store d ext))
       (List.product (credentials_dirs config) CLOUD_ACCOUNT_EXTS) []"

definition list_cloud_accounts :: "formats \<Rightarrow> store \<Rightarrow> dict \<Rightarrow> (string \<times> string) list" where
  "list_cloud_accounts fmt = list_credentials fmt CLOUD_MARKERS"

definition list_service_credentials :: "formats \<Rightarrow> store \<Rightarrow> dict \<Rightarrow> (string \<times> string) list" where
  "list_service_credentials fmt = list_credentials fmt SERVICE_MARKERS"

definition only_match :: "string \<Rightarrow> (string \<times> string) list \<Rightarrow> string option \<times> string list" where
  "only_match kind accounts =
     (let matches = sort (map fst (filter (\<lambda>(_, ct). ct = kind) accounts)) in
      (case matches of [m] \<Rightarrow> Some m | _ \<Rightarrow> None, matches))"

definition find_cloud_account_for_cloudtype :: "formats \<Rightarrow> store \<Rightarrow> string \<Rightarrow> dict \<Rightarrow> string option \<times> string list" where
  "find_cloud_account_for_cloudtype fmt store cloudtype config = only_match cloudtype (list_cloud_accounts fmt store config)"

definition find_service_credential_for_kind :: "formats \<Rightarrow> store \<Rightarrow> string \<Rightarrow> dict \<Rightarrow> string option \<times> string list" where
  "find_service_credential_for_kind fmt store kind config = only_match kind (list_service_credentials fmt store config)"

section \<open>Passphrases\<close>

record run_state =
  passphrase_cache :: "(string \<times> string) list"
  asked :: nat

record user =
  env_passphrase :: "string option"
  can_ask :: bool
  answer :: "nat \<Rightarrow> string"

definition PASSPHRASE_ENV :: string where
  "PASSPHRASE_ENV = ''LAB_CREDENTIALS_PASSPHRASE''"

definition remember :: "string \<Rightarrow> string \<Rightarrow> run_state \<Rightarrow> run_state" where
  "remember key pw s = s\<lparr>passphrase_cache := AList.update key pw (passphrase_cache s)\<rparr>"

definition forget :: "string \<Rightarrow> run_state \<Rightarrow> run_state" where
  "forget key s = s\<lparr>passphrase_cache := AList.delete key (passphrase_cache s)\<rparr>"

text \<open>The result is the text of an error or the plaintext.\<close>

fun ask_passphrase :: "crypto \<Rightarrow> user \<Rightarrow> dict \<Rightarrow> string \<Rightarrow> string \<Rightarrow> nat \<Rightarrow> string \<Rightarrow> run_state \<Rightarrow> (string + string) \<times> run_state" where
  "ask_passphrase lib u envelope key label 0 last_err s = (Inl (label @ '': '' @ last_err), s)"
| "ask_passphrase lib u envelope key label (Suc n) last_err s =
     (let pw = answer u (asked s); s1 = s\<lparr>asked := asked s + 1\<rparr> in
      case decrypt_cascade lib pw envelope of
        Inl e \<Rightarrow> ask_passphrase lib u envelope key label n e s1
      | Inr plaintext \<Rightarrow> (Inr plaintext, remember key pw s1))"

definition no_terminal :: "string \<Rightarrow> string" where
  "no_terminal label =
     label @ '': it is encrypted and there is no terminal to ask for its passphrase '' @ emdash @ '' set $'' @ PASSPHRASE_ENV @ '' for this run''"

definition new_passphrase :: "crypto \<Rightarrow> user \<Rightarrow> dict \<Rightarrow> string \<Rightarrow> string \<Rightarrow> run_state \<Rightarrow> (string + string) \<times> run_state" where
  "new_passphrase lib u envelope key label s =
     (case env_passphrase u of
        Some pw \<Rightarrow>
          (case decrypt_cascade lib pw envelope of
             Inr plaintext \<Rightarrow> (Inr plaintext, remember key pw s)
           | Inl e \<Rightarrow>
               if \<not> can_ask u then (Inl (label @ '': '' @ e @ '' (from $'' @ PASSPHRASE_ENV @ '')''), s)
               else ask_passphrase lib u envelope key label 3 ''None'' s)
      | None \<Rightarrow>
          if \<not> can_ask u then (Inl (no_terminal label), s)
          else ask_passphrase lib u envelope key label 3 ''None'' s)"

definition decrypt_value :: "crypto \<Rightarrow> user \<Rightarrow> dict \<Rightarrow> string \<Rightarrow> string \<Rightarrow> run_state \<Rightarrow> (string + string) \<times> run_state" where
  "decrypt_value lib u envelope key label s =
     (case map_of (passphrase_cache s) key of
        Some pw \<Rightarrow>
          (case decrypt_cascade lib pw envelope of
             Inr plaintext \<Rightarrow> (Inr plaintext, s)
           | Inl _ \<Rightarrow> new_passphrase lib u envelope key label (forget key s))
      | None \<Rightarrow> new_passphrase lib u envelope key label s)"

section \<open>Loading\<close>

record loader =
  noun :: string
  markers :: "string list"
  no_marker :: string
  marker_key :: string

definition ellipsis :: string where
  "ellipsis = [CHR 0xE2, CHR 0x80, CHR 0xA6]"

definition cloud_loader :: loader where
  "cloud_loader = \<lparr>noun = ''cloud account'', markers = CLOUD_MARKERS,
     no_marker = sq ''cloudtype'' @ '' '' @ emdash @ '' set it to aws, gcp, hetzner, '' @ ellipsis, marker_key = ''CLOUDTYPE''\<rparr>"

definition service_loader :: loader where
  "service_loader = \<lparr>noun = ''credential'', markers = SERVICE_MARKERS,
     no_marker = sq ''credential_kind'' @ '' '' @ emdash @ '' set it to scc, appcollection, '' @ ellipsis, marker_key = ''CREDENTIAL_KIND''\<rparr>"

text \<open>Every key that names the marker is taken out; the last one counts.\<close>

definition pop_markers :: "string list \<Rightarrow> dict \<Rightarrow> string \<times> dict" where
  "pop_markers ms data =
     fold (\<lambda>(k, v) (ct, d). if str_lower k \<in> set ms then (marker_text_of v, AList.delete k d) else (ct, d)) data ([], data)"

definition is_envelope :: "pval \<Rightarrow> bool" where
  "is_envelope v = (case v of PDict d \<Rightarrow> get d ''encrypted'' = PBool True | _ \<Rightarrow> False)"

fun decrypt_fields :: "crypto \<Rightarrow> user \<Rightarrow> string \<Rightarrow> string \<Rightarrow> (string \<times> pval) list \<Rightarrow> run_state \<Rightarrow> (string + dict) \<times> run_state" where
  "decrypt_fields lib u path name [] s = (Inr [], s)"
| "decrypt_fields lib u path name ((key, v) # rest) s =
     (case (case v of
              PDict envelope \<Rightarrow>
                (if get envelope ''encrypted'' = PBool True then
                   (case decrypt_value lib u envelope (path @ ''::'' @ key) (key @ '' ('' @ name @ '')'') s of
                      (Inl e, s') \<Rightarrow> (Inl e, s') | (Inr t, s') \<Rightarrow> (Inr (PStr t), s'))
                 else (Inr v, s))
            | _ \<Rightarrow> (Inr v, s)) of
        (Inl e, s1) \<Rightarrow> (Inl e, s1)
      | (Inr v', s1) \<Rightarrow>
          (case decrypt_fields lib u path name rest s1 of
             (Inl e, s2) \<Rightarrow> (Inl e, s2) | (Inr d, s2) \<Rightarrow> (Inr ((key, v') # d), s2)))"

definition about_file :: "loader \<Rightarrow> string \<Rightarrow> string \<Rightarrow> string" where
  "about_file l name path = noun l @ '' '' @ sq name @ '' ('' @ path @ '')''"

definition not_found :: "loader \<Rightarrow> dict \<Rightarrow> string \<Rightarrow> string" where
  "not_found l config name =
     noun l @ '' '' @ sq name @ '' not found '' @ emdash @ '' looked for <name>.{'' @ join '','' (map tl CLOUD_ACCOUNT_EXTS) @
     ''} in: '' @ join '', '' (credentials_dirs config)"

definition file_content :: "formats \<Rightarrow> crypto \<Rightarrow> user \<Rightarrow> loader \<Rightarrow> string \<Rightarrow> string \<Rightarrow> dict \<Rightarrow> run_state \<Rightarrow> (string + dict) \<times> run_state" where
  "file_content fmt lib u l name path data s =
     (if get data ''encrypted'' = PBool True then
        (case decrypt_value lib u data path (noun l @ '' '' @ sq name) s of
           (Inl e, s') \<Rightarrow> (Inl e, s')
         | (Inr plaintext, s') \<Rightarrow>
             (case yaml_load fmt plaintext of
                Inl e \<Rightarrow> (Inl (about_file l name path @ '' decrypted, but the plaintext isn'' @ QUOTE @ ''t valid YAML: '' @ e), s')
              | Inr v \<Rightarrow>
                  (case py_or v (PDict []) of
                     PDict inner \<Rightarrow> (Inr inner, s')
                   | _ \<Rightarrow> (Inl (about_file l name path @ '' decrypted payload must be a mapping''), s'))))
      else decrypt_fields lib u path name data s)"

definition try_load ::
  "formats \<Rightarrow> crypto \<Rightarrow> user \<Rightarrow> loader \<Rightarrow> store \<Rightarrow> string \<Rightarrow> dict \<Rightarrow> run_state \<Rightarrow> (string + dict) \<times> run_state" where
  "try_load fmt lib u l store name config s =
     (case cloud_account_path store config name of
        None \<Rightarrow> (Inl (not_found l config name), s)
      | Some (path, ext, t) \<Rightarrow>
          (case parse_file fmt ext t of
             Inl e \<Rightarrow> (Inl (about_file l name path @ '' failed to parse as '' @ tl ext @ '': '' @ e), s)
           | Inr (PDict data) \<Rightarrow>
               (case pop_markers (markers l) data of (mark, data1) \<Rightarrow>
                  if mark = [] then (Inl (about_file l name path @ '' has no '' @ no_marker l), s)
                  else
                    (case file_content fmt lib u l name path (AList.delete ''schema_version'' (AList.delete ''unencrypted'' data1)) s of
                       (Inl e, s') \<Rightarrow> (Inl e, s')
                     | (Inr d, s') \<Rightarrow> (Inr (AList.update (marker_key l) (PStr mark) d), s')))
           | Inr _ \<Rightarrow> (Inl (about_file l name path @ '' must be a mapping of key: value''), s)))"

definition try_load_cloud_account ::
  "formats \<Rightarrow> crypto \<Rightarrow> user \<Rightarrow> store \<Rightarrow> string \<Rightarrow> dict \<Rightarrow> run_state \<Rightarrow> (string + dict) \<times> run_state" where
  "try_load_cloud_account fmt lib u = try_load fmt lib u cloud_loader"

definition try_load_service_credential ::
  "formats \<Rightarrow> crypto \<Rightarrow> user \<Rightarrow> store \<Rightarrow> string \<Rightarrow> dict \<Rightarrow> run_state \<Rightarrow> (string + dict) \<times> run_state" where
  "try_load_service_credential fmt lib u = try_load fmt lib u service_loader"

definition or_die :: "(string + 'a) \<times> run_state \<Rightarrow> 'a res \<times> run_state" where
  "or_die r = (case r of (Inl e, s) \<Rightarrow> (Inl (SystemExit e), s) | (Inr d, s) \<Rightarrow> (Inr d, s))"

definition load_cloud_account ::
  "formats \<Rightarrow> crypto \<Rightarrow> user \<Rightarrow> store \<Rightarrow> string \<Rightarrow> dict \<Rightarrow> run_state \<Rightarrow> dict res \<times> run_state" where
  "load_cloud_account fmt lib u store name config s = or_die (try_load_cloud_account fmt lib u store name config s)"

definition load_service_credential ::
  "formats \<Rightarrow> crypto \<Rightarrow> user \<Rightarrow> store \<Rightarrow> string \<Rightarrow> dict \<Rightarrow> run_state \<Rightarrow> dict res \<times> run_state" where
  "load_service_credential fmt lib u store name config s = or_die (try_load_service_credential fmt lib u store name config s)"

section \<open>Writing (scripts/setup_credentials.py)\<close>

definition CREDENTIALS_SCHEMA_VERSION :: string where
  "CREDENTIALS_SCHEMA_VERSION = ''1.0''"

type_synonym field_row = "string \<times> bool \<times> bool"

definition PROVIDER_FIELDS :: "(string \<times> field_row list) list" where
  "PROVIDER_FIELDS =
     [(''hetzner'', [(''HETZNER_TOKEN'', True, True), (''HETZNER_LOCATION'', False, False)]),
      (''aws'', [(''AWS_REGION'', True, False), (''AWS_PROFILE'', False, False), (''AWS_ACCESS_KEY_ID'', False, False),
        (''AWS_SECRET_ACCESS_KEY'', False, True), (''AWS_SESSION_TOKEN'', False, True), (''AWS_SUBNET_ID'', False, False),
        (''AWS_SECURITY_GROUP_ID'', False, False), (''AWS_KEY_NAME'', False, False)]),
      (''gcp'', [(''GCP_PROJECT'', True, False), (''GCP_ZONE'', True, False), (''GCP_SERVICE_ACCOUNT_KEY'', False, False),
        (''GCP_IMAGE_PROJECT'', False, False), (''GCP_NETWORK'', False, False), (''GCP_SUBNET'', False, False)]),
      (''alibaba'', [(''ALIBABA_ACCESS_KEY_ID'', True, False), (''ALIBABA_ACCESS_KEY_SECRET'', True, True), (''ALIBABA_REGION'', True, False),
        (''ALIBABA_SECURITY_GROUP_ID'', True, False), (''ALIBABA_VSWITCH_ID'', True, False)]),
      (''scaleway'', [(''SCALEWAY_SECRET_KEY'', True, True), (''SCALEWAY_PROJECT_ID'', True, False), (''SCALEWAY_ZONE'', True, False)]),
      (''upcloud'', [(''UPCLOUD_USERNAME'', True, False), (''UPCLOUD_PASSWORD'', True, True), (''UPCLOUD_ZONE'', True, False)]),
      (''ovhcloud'', [(''OVH_APPLICATION_KEY'', True, True), (''OVH_APPLICATION_SECRET'', True, True), (''OVH_CONSUMER_KEY'', True, True),
        (''OVH_SERVICE_NAME'', True, False), (''OVH_REGION'', True, False), (''OVH_ENDPOINT'', False, False)]),
      (''exoscale'', [(''EXOSCALE_API_KEY'', True, True), (''EXOSCALE_API_SECRET'', True, True), (''EXOSCALE_ZONE'', True, False)])]"

definition SERVICE_CREDENTIAL_FIELDS :: "(string \<times> field_row list) list" where
  "SERVICE_CREDENTIAL_FIELDS =
     [(''scc'', [(''scc_user'', True, False), (''scc_password'', True, True), (''scc_regcode'', False, True)]),
      (''appcollection'', [(''appcollection_user'', True, False), (''appcollection_password'', True, True)]),
      (''hermes'', [(''hermes_llm_api_key'', True, True), (''hermes_telegram_token'', False, True), (''hermes_dashboard_password'', False, True)]),
      (''ds389'', [(''ds389_dm_password'', False, True)]),
      (''vhm_aws'', [(''vhm_aws_access_key_id'', True, False), (''vhm_aws_secret_access_key'', True, True)])]"

definition SENSITIVE_HINTS :: "string list" where
  "SENSITIVE_HINTS = [''SECRET'', ''PASSWORD'', ''_TOKEN'', ''APPLICATION_KEY'', ''APPLICATION_SECRET'', ''CONSUMER_KEY'', ''ACCESS_KEY_SECRET'']"

definition looks_sensitive :: "string \<Rightarrow> bool" where
  "looks_sensitive key = list_ex (\<lambda>h. contains h (str_upper key)) SENSITIVE_HINTS"

definition payload :: "crypto \<Rightarrow> formats \<Rightarrow> string \<times> string \<Rightarrow> dict \<Rightarrow> bool \<Rightarrow> string \<Rightarrow> string \<times> string \<times> string \<Rightarrow> dict" where
  "payload lib fmt marker fs encrypt passphrase = (\<lambda>(salt, n1, n2).
     (let base = [(fst marker, PStr (snd marker)), (''schema_version'', PStr CREDENTIALS_SCHEMA_VERSION)] in
      if encrypt then update_all (encrypt_cascade lib passphrase (yaml_dump fmt fs) salt n1 n2) base
      else update_all fs (AList.update ''unencrypted'' (PBool True) base)))"

text \<open>What \<open>_write_file\<close> writes, to a directory of the store.\<close>

definition write_file ::
  "crypto \<Rightarrow> formats \<Rightarrow> string \<Rightarrow> string \<Rightarrow> string \<times> string \<Rightarrow> dict \<Rightarrow> bool \<Rightarrow> string \<Rightarrow> string \<times> string \<times> string \<Rightarrow> store \<Rightarrow> store" where
  "write_file lib fmt d f marker fs encrypt passphrase random store =
     AList.update d (AList.update f (yaml_dump fmt (payload lib fmt marker fs encrypt passphrase random)) (files_in store d)) store"

definition write_account_file ::
  "crypto \<Rightarrow> formats \<Rightarrow> string \<Rightarrow> string \<Rightarrow> string \<Rightarrow> dict \<Rightarrow> bool \<Rightarrow> string \<Rightarrow> string \<times> string \<times> string \<Rightarrow> store \<Rightarrow> store" where
  "write_account_file lib fmt d f provider = write_file lib fmt d f (''cloudtype'', provider)"

definition write_credential_file ::
  "crypto \<Rightarrow> formats \<Rightarrow> string \<Rightarrow> string \<Rightarrow> string \<Rightarrow> dict \<Rightarrow> bool \<Rightarrow> string \<Rightarrow> string \<times> string \<times> string \<Rightarrow> store \<Rightarrow> store" where
  "write_credential_file lib fmt d f kind = write_file lib fmt d f (''credential_kind'', kind)"

definition sensitive_plaintext_fields :: "dict \<Rightarrow> string list" where
  "sensitive_plaintext_fields data =
     map fst (filter (\<lambda>(k, v). is_str v \<and> k \<notin> {''cloudtype'', ''credential_kind''} \<and> looks_sensitive k) data)"

text \<open>\<open>random k\<close>: the salt and the nonces drawn for a key.\<close>

definition encrypt_fields_of :: "crypto \<Rightarrow> string \<Rightarrow> (string \<Rightarrow> string \<times> string \<times> string) \<Rightarrow> string list \<Rightarrow> dict \<Rightarrow> dict" where
  "encrypt_fields_of lib passphrase random keys data =
     fold (\<lambda>k d. AList.update k (PDict (case random k of (salt, n1, n2) \<Rightarrow> encrypt_cascade lib passphrase (str_of (get d k)) salt n1 n2)) d) keys data"

definition stem :: "string \<Rightarrow> string" where
  "stem f =
     (let ext = takeWhile (\<lambda>c. c \<noteq> CHR ''.'') (rev f); r = dropWhile (\<lambda>c. c \<noteq> CHR ''.'') (rev f) in
      if ext = [] \<or> r = [] \<or> tl r = [] then f else rev (tl r))"

definition write_encrypted_copy ::
  "crypto \<Rightarrow> formats \<Rightarrow> string \<Rightarrow> string \<Rightarrow> dict \<Rightarrow> string list \<Rightarrow> string \<Rightarrow> (string \<Rightarrow> string \<times> string \<times> string) \<Rightarrow> store \<Rightarrow> store" where
  "write_encrypted_copy lib fmt d f data keys passphrase random store =
     AList.update d (AList.update (stem f @ ''.encrypted.yaml'') (yaml_dump fmt (encrypt_fields_of lib passphrase random keys data)) (files_in store d)) store"

section \<open>Passphrases: how often, and what is remembered\<close>

lemma ask_passphrase_spec:
  assumes "ask_passphrase lib u envelope key label n last_err s = (r, s')" and "map_of (passphrase_cache s) key = None"
  shows "asked s' \<le> asked s + n \<and> (\<forall>k. k \<noteq> key \<longrightarrow> map_of (passphrase_cache s') k = map_of (passphrase_cache s) k) \<and>
    (case r of Inr t \<Rightarrow> \<exists>pw. map_of (passphrase_cache s') key = Some pw \<and> decrypt_cascade lib pw envelope = Inr t
             | Inl _ \<Rightarrow> map_of (passphrase_cache s') key = None)"
  using assms
proof (induction n arbitrary: last_err s)
  case (Suc n)
  define s1 where "s1 = s\<lparr>asked := asked s + 1\<rparr>"
  show ?case
  proof (cases "decrypt_cascade lib (answer u (asked s)) envelope")
    case (Inl e)
    then have run: "ask_passphrase lib u envelope key label n e s1 = (r, s')" using Suc.prems by (simp add: s1_def)
    have "map_of (passphrase_cache s1) key = None" using Suc.prems(2) by (simp add: s1_def)
    from Suc.IH [OF run this] show ?thesis by (auto simp: s1_def)
  next
    case (Inr t)
    then have "r = Inr t" "s' = remember key (answer u (asked s)) s1" using Suc.prems(1) by (auto simp: s1_def)
    then show ?thesis using Inr by (simp add: remember_def s1_def update_conv')
  qed
qed auto

lemma new_passphrase_spec:
  assumes "new_passphrase lib u envelope key label s = (r, s')" and "map_of (passphrase_cache s) key = None"
  shows "asked s' \<le> asked s + 3 \<and> (\<not> can_ask u \<longrightarrow> asked s' = asked s) \<and>
    (\<forall>k. k \<noteq> key \<longrightarrow> map_of (passphrase_cache s') k = map_of (passphrase_cache s) k) \<and>
    (case r of Inr t \<Rightarrow> \<exists>pw. map_of (passphrase_cache s') key = Some pw \<and> decrypt_cascade lib pw envelope = Inr t
             | Inl _ \<Rightarrow> map_of (passphrase_cache s') key = None)"
proof -
  consider (env) pw t where "env_passphrase u = Some pw" "decrypt_cascade lib pw envelope = Inr t"
    | (asks) "can_ask u" "ask_passphrase lib u envelope key label 3 ''None'' s = (r, s')"
    | (silent) e where "\<not> can_ask u" "r = Inl e" "s' = s"
    using assms(1) by (auto simp: new_passphrase_def simp del: ask_passphrase.simps split: option.splits sum.splits if_splits)
      metis+
  then show ?thesis
  proof cases
    case env
    then have "r = Inr t" "s' = remember key pw s" using assms(1) by (auto simp: new_passphrase_def)
    then show ?thesis using env by (simp add: remember_def update_conv')
  next
    case asks
    then show ?thesis using ask_passphrase_spec [OF asks(2) assms(2)] by auto
  next
    case silent
    then show ?thesis using assms(2) by simp
  qed
qed

text \<open>C38 Decrypting a value asks for its passphrase at most three times, and never without a terminal. What
  it returns is the plaintext under the passphrase it then remembers for that value, so that the next
  decryption asks nothing; after a failure no passphrase is remembered for it; the others' passphrases
  stay as they were.\<close>

theorem passphrase_remembered:
  assumes "decrypt_value lib u envelope key label s = (r, s')"
  shows "asked s' \<le> asked s + 3 \<and> (\<not> can_ask u \<longrightarrow> asked s' = asked s) \<and>
    (\<forall>k. k \<noteq> key \<longrightarrow> map_of (passphrase_cache s') k = map_of (passphrase_cache s) k) \<and>
    (case r of
       Inr t \<Rightarrow> (\<exists>pw. map_of (passphrase_cache s') key = Some pw \<and> decrypt_cascade lib pw envelope = Inr t) \<and>
         decrypt_value lib u envelope key label s' = (Inr t, s')
     | Inl _ \<Rightarrow> map_of (passphrase_cache s') key = None)"
proof -
  have again: "decrypt_value lib u envelope key label s' = (Inr t, s')"
    if "map_of (passphrase_cache s') key = Some pw" "decrypt_cascade lib pw envelope = Inr t" for pw t
    using that by (simp add: decrypt_value_def)
  have fresh: ?thesis if "new_passphrase lib u envelope key label s0 = (r, s')" "map_of (passphrase_cache s0) key = None"
    "asked s0 = asked s" "\<forall>k. k \<noteq> key \<longrightarrow> map_of (passphrase_cache s0) k = map_of (passphrase_cache s) k" for s0
    using new_passphrase_spec [OF that(1,2)] that(3,4) again by (cases r) fastforce+
  show ?thesis
  proof (cases "map_of (passphrase_cache s) key")
    case None
    then show ?thesis using fresh [of s] assms by (simp add: decrypt_value_def)
  next
    case (Some pw)
    show ?thesis
    proof (cases "decrypt_cascade lib pw envelope")
      case (Inl e)
      then show ?thesis using fresh [of "forget key s"] assms Some
        by (simp add: decrypt_value_def forget_def delete_conv')
    next
      case (Inr t)
      then have "r = Inr t" "s' = s" using assms Some by (auto simp: decrypt_value_def)
      then show ?thesis using Some Inr again by auto
    qed
  qed
qed

section \<open>A file that was written is read back\<close>

text \<open>The passphrase a decryption tries first.\<close>

definition first_try :: "user \<Rightarrow> run_state \<Rightarrow> string \<Rightarrow> string option" where
  "first_try u s key =
     (case map_of (passphrase_cache s) key of Some pw \<Rightarrow> Some pw
      | None \<Rightarrow> (case env_passphrase u of Some pw \<Rightarrow> Some pw | None \<Rightarrow> if can_ask u then Some (answer u (asked s)) else None))"

lemma decrypt_first_try:
  assumes "first_try u s key = Some pw" and "decrypt_cascade lib pw envelope = Inr t"
  shows "\<exists>s'. decrypt_value lib u envelope key label s = (Inr t, s')"
  using assms
  by (auto simp: first_try_def decrypt_value_def new_passphrase_def numeral_3_eq_3 Let_def split: option.splits if_splits)

definition reserved :: "string list" where
  "reserved = [''cloudtype'', ''cloud_type'', ''credential_kind'', ''kind'', ''encrypted'', ''unencrypted'', ''schema_version'']"

definition plain_fields :: "dict \<Rightarrow> bool" where
  "plain_fields fs = (distinct (map fst fs) \<and> list_all (\<lambda>(k, v). str_lower k \<notin> set reserved \<and> k \<notin> set reserved \<and> is_str v) fs)"

lemma update_all_new:
  "distinct (map fst fs) \<Longrightarrow> fst ` set fs \<inter> fst ` set d = {} \<Longrightarrow> update_all fs d = d @ fs"
proof (induction fs arbitrary: d)
  case (Cons kv fs)
  then show ?case by (cases kv) (auto simp: update_all_def update_new)
qed (simp add: update_all_def)

lemma delete_notin: "k \<notin> fst ` set d \<Longrightarrow> AList.delete k d = d"
  by (induction d) auto

lemma pop_markers_keep:
  "list_all (\<lambda>(k, _). str_lower k \<notin> set ms) xs \<Longrightarrow>
   fold (\<lambda>(k, v) (ct, d). if str_lower k \<in> set ms then (marker_text_of v, AList.delete k d) else (ct, d)) xs a = a"
  by (induction xs arbitrary: a) auto

lemma pop_markers_first:
  assumes "str_lower k \<in> set ms" and "list_all (\<lambda>(k, _). str_lower k \<notin> set ms) xs"
  shows "pop_markers ms ((k, v) # xs) = (marker_text_of v, xs)"
proof -
  have "k \<notin> fst ` set xs" using assms by (auto simp: list_all_iff)
  then show ?thesis using assms by (simp add: pop_markers_def pop_markers_keep delete_notin)
qed

lemma decrypt_fields_plain:
  "list_all (\<lambda>(k, v). is_str v) fs \<Longrightarrow> decrypt_fields lib u path name fs s = (Inr fs, s)"
proof (induction fs arbitrary: s)
  case (Cons kv fs)
  then show ?case by (cases kv; cases "snd kv") auto
qed simp

text \<open>The payload of a written file, as the loader takes it apart.\<close>

lemma plain_fields_keys:
  assumes "plain_fields fs"
  shows "distinct (map fst fs)" and "list_all (\<lambda>(k, v). is_str v) fs"
    and "list_all (\<lambda>(k, _). str_lower k \<notin> set CLOUD_MARKERS) fs"
    and "k \<in> set reserved \<Longrightarrow> k \<notin> fst ` set fs"
  using assms by (auto simp: plain_fields_def list_all_iff reserved_def CLOUD_MARKERS_def)

lemma encrypt_cascade_keys:
  "map fst (encrypt_cascade lib pw t salt n1 n2) =
     [''encrypted'', ''kdf'', ''kdf_time_cost'', ''kdf_memory_cost_kib'', ''kdf_parallelism'', ''cipher'', ''salt'', ''nonce1'',
      ''nonce2'', ''ciphertext'']"
  by (simp add: encrypt_cascade_def Let_def split_keys_def)

lemma marker_lower: "str_lower ''cloudtype'' \<in> set CLOUD_MARKERS" "str_lower ''schema_version'' \<notin> set CLOUD_MARKERS"
  "str_lower ''unencrypted'' \<notin> set CLOUD_MARKERS"
  by code_simp+

lemma envelope_lower:
  "list_all (\<lambda>k. str_lower k \<notin> set CLOUD_MARKERS)
     [''encrypted'', ''kdf'', ''kdf_time_cost'', ''kdf_memory_cost_kib'', ''kdf_parallelism'', ''cipher'', ''salt'', ''nonce1'',
      ''nonce2'', ''ciphertext'']"
  by code_simp

definition marked_payload :: "string \<Rightarrow> dict \<Rightarrow> dict" where
  "marked_payload provider rest = (''cloudtype'', PStr provider) # (''schema_version'', PStr CREDENTIALS_SCHEMA_VERSION) # rest"

lemma payload_encrypted:
  "payload lib fmt (''cloudtype'', provider) fs True pw (salt, n1, n2) =
     marked_payload provider (encrypt_cascade lib pw (yaml_dump fmt fs) salt n1 n2)"
proof -
  have k: "fst ` set (encrypt_cascade lib pw (yaml_dump fmt fs) salt n1 n2) =
      set (map fst (encrypt_cascade lib pw (yaml_dump fmt fs) salt n1 n2))" by simp
  show ?thesis unfolding payload_def marked_payload_def prod.case Let_def if_True fst_conv snd_conv
    by (subst update_all_new) (simp_all add: k encrypt_cascade_keys del: set_map)
qed

lemma payload_plain:
  assumes "plain_fields fs"
  shows "payload lib fmt (''cloudtype'', provider) fs False pw rnd = marked_payload provider ((''unencrypted'', PBool True) # fs)"
proof -
  have "fst ` set fs \<inter> fst ` set (marked_payload provider [(''unencrypted'', PBool True)]) = {}"
    using plain_fields_keys(4) [OF assms] by (auto simp: marked_payload_def reserved_def)
  then show ?thesis using plain_fields_keys(1) [OF assms]
    by (cases rnd) (simp add: payload_def marked_payload_def update_all_new Let_def)
qed

lemma payload_popped:
  assumes "list_all (\<lambda>(k, _). str_lower k \<notin> set CLOUD_MARKERS) rest" and "''schema_version'' \<notin> fst ` set rest"
    and "str_strip provider = provider"
  shows "pop_markers CLOUD_MARKERS (marked_payload provider rest) = (provider, (''schema_version'', PStr CREDENTIALS_SCHEMA_VERSION) # rest)"
proof -
  have "marker_text_of (PStr provider) = provider" using assms(3) by (cases provider) (simp_all add: marker_text_of_def py_or_def py_str_def)
  then show ?thesis unfolding marked_payload_def using assms(1) marker_lower by (subst pop_markers_first) auto
qed

lemma written_path:
  assumes "get config ''CREDENTIALS_PATH'' = PStr d" and "d \<noteq> []"
    and "map_of (files_in store d) (name @ ''.yaml'') = Some t"
  shows "cloud_account_path store config name = Some (path_in d (name @ ''.yaml''), ''.yaml'', t)"
  using assms by (simp add: cloud_account_path_def credentials_dirs_def CLOUD_ACCOUNT_EXTS_def py_str_def List.map_filter_simps)

lemma cloud_loader_simps: "markers cloud_loader = CLOUD_MARKERS" "marker_key cloud_loader = ''CLOUDTYPE''"
  by (simp_all add: cloud_loader_def)

text \<open>C5 A cloud account written by \<open>setup_credentials.py\<close>, encrypted or not, is loaded with the fields it was
  written with and the provider as CLOUDTYPE, when the first passphrase tried is the one it was
  encrypted with.\<close>

theorem written_account_loads:
  assumes yaml: "\<And>d. yaml_load fmt (yaml_dump fmt d) = Inr (PDict d)" and ciphers: "ciphers_invert lib"
    and config: "get config ''CREDENTIALS_PATH'' = PStr d" "d \<noteq> []"
    and provider: "provider \<noteq> []" "str_strip provider = provider" and fs: "plain_fields fs"
    and pw: "encrypted \<Longrightarrow> first_try u s (path_in d (name @ ''.yaml'')) = Some pw"
  shows "\<exists>s'. try_load_cloud_account fmt lib u
      (write_account_file lib fmt d (name @ ''.yaml'') provider fs encrypted pw rnd store) name config s =
    (Inr (AList.update ''CLOUDTYPE'' (PStr provider) fs), s')"
proof -
  let ?store = "write_account_file lib fmt d (name @ ''.yaml'') provider fs encrypted pw rnd store"
  let ?p = "payload lib fmt (''cloudtype'', provider) fs encrypted pw rnd"
  have path: "cloud_account_path ?store config name = Some (path_in d (name @ ''.yaml''), ''.yaml'', yaml_dump fmt ?p)"
    by (rule written_path [OF config]) (simp add: write_account_file_def write_file_def files_in_def update_conv')
  have parse: "parse_file fmt ''.yaml'' (yaml_dump fmt ?p) = Inr (PDict ?p)" by (simp add: parse_file_def yaml)
  obtain salt n1 n2 where r: "rnd = (salt, n1, n2)" by (cases rnd)
  show ?thesis
  proof (cases encrypted)
    case True
    let ?e = "encrypt_cascade lib pw (yaml_dump fmt fs) salt n1 n2"
    have p: "?p = marked_payload provider ?e" using True by (simp add: r payload_encrypted)
    have keys: "fst ` set ?e = set (map fst ?e)" by simp
    have "list_all (\<lambda>(k, _). str_lower k \<notin> set CLOUD_MARKERS) ?e"
      using envelope_lower unfolding encrypt_cascade_keys [of lib pw "yaml_dump fmt fs" salt n1 n2, symmetric]
      by (auto simp: list_all_iff)
    then have pop: "pop_markers CLOUD_MARKERS ?p = (provider, (''schema_version'', PStr CREDENTIALS_SCHEMA_VERSION) # ?e)"
      unfolding p by (intro payload_popped provider) (simp_all add: keys encrypt_cascade_keys del: set_map)
    have del: "AList.delete ''schema_version'' ?e = ?e" "AList.delete ''unencrypted'' ?e = ?e"
      by (rule delete_notin, simp add: keys encrypt_cascade_keys del: set_map)+
    obtain s' where "decrypt_value lib u ?e (path_in d (name @ ''.yaml'')) (noun cloud_loader @ '' '' @ sq name) s = (Inr (yaml_dump fmt fs), s')"
      using decrypt_first_try [OF pw [OF True] decrypt_encrypt [OF ciphers]] by blast
    then have "file_content fmt lib u cloud_loader name (path_in d (name @ ''.yaml'')) ?e s = (Inr fs, s')"
      by (cases fs) (simp_all add: file_content_def encrypt_ids yaml py_or_def)
    then show ?thesis using provider(1)
      by (simp add: try_load_cloud_account_def try_load_def path parse cloud_loader_simps pop del)
  next
    case False
    then have p: "?p = marked_payload provider ((''unencrypted'', PBool True) # fs)" by (simp add: payload_plain [OF fs])
    note f = plain_fields_keys [OF fs]
    have new: "''unencrypted'' \<notin> fst ` set fs" "''schema_version'' \<notin> fst ` set fs" "''encrypted'' \<notin> fst ` set fs"
      by (rule f(4), simp add: reserved_def)+
    have pop: "pop_markers CLOUD_MARKERS ?p = (provider, (''schema_version'', PStr CREDENTIALS_SCHEMA_VERSION) # (''unencrypted'', PBool True) # fs)"
      unfolding p by (intro payload_popped provider) (use f(3) marker_lower new in simp_all)
    have "get fs ''encrypted'' = PNone" using new(3) by (simp add: get_def map_of_eq_None_iff [THEN iffD2])
    then have "file_content fmt lib u cloud_loader name (path_in d (name @ ''.yaml'')) fs s = (Inr fs, s)"
      by (simp add: file_content_def decrypt_fields_plain [OF f(2)])
    then show ?thesis using provider(1) new
      by (simp add: try_load_cloud_account_def try_load_def path parse cloud_loader_simps pop delete_notin)
  qed
qed

section \<open>Instances\<close>

text \<open>A formats record and a cryptography that keep their promises, for the examples.\<close>

instance pval :: countable
  by countable_datatype

definition counted_formats :: formats where
  "counted_formats = \<lparr>json_loads = (\<lambda>t. Inl t), yaml_load = (\<lambda>t. Inr (PDict (from_nat (length t)))),
     yaml_dump = (\<lambda>d. replicate (to_nat d) CHR ''x''), environ = (\<lambda>_. None)\<rparr>"

definition keyed_crypto :: crypto where
  "keyed_crypto = \<lparr>argon2 = (\<lambda>pw _ _ _ _. pw), hkdf = (\<lambda>m _ _. m), aes_enc = (\<lambda>_ _ t. t), aes_dec = (\<lambda>_ _ t. Some t),
     chacha_enc = (\<lambda>k _ t. k @ t), chacha_dec = (\<lambda>k _ c. if prefix k c then Some (drop (length k) c) else None)\<rparr>"

lemma instances_hold:
  "yaml_load counted_formats (yaml_dump counted_formats d) = Inr (PDict d)" "ciphers_invert keyed_crypto"
  by (simp_all add: counted_formats_def ciphers_invert_def keyed_crypto_def)

definition knows :: "string \<Rightarrow> user" where
  "knows pw = \<lparr>env_passphrase = None, can_ask = True, answer = (\<lambda>_. pw)\<rparr>"

definition fresh_run :: run_state where
  "fresh_run = \<lparr>passphrase_cache = [], asked = 0\<rparr>"

lemma plain_fields_example: "plain_fields [(''AWS_REGION'', PStr ''eu''), (''AWS_SECRET_ACCESS_KEY'', PStr ''x'')]"
  by code_simp

theorem written_account_loads_witness:
  "\<exists>s'. try_load_cloud_account counted_formats keyed_crypto (knows ''pw'')
      (write_account_file keyed_crypto counted_formats ''/c'' (''acme'' @ ''.yaml'') ''aws''
         [(''AWS_REGION'', PStr ''eu''), (''AWS_SECRET_ACCESS_KEY'', PStr ''x'')] True ''pw'' (''s'', ''n'', ''m'') [])
      ''acme'' [(''CREDENTIALS_PATH'', PStr ''/c'')] fresh_run =
    (Inr (AList.update ''CLOUDTYPE'' (PStr ''aws'') [(''AWS_REGION'', PStr ''eu''), (''AWS_SECRET_ACCESS_KEY'', PStr ''x'')]), s')"
proof (rule written_account_loads)
  show "get [(''CREDENTIALS_PATH'', PStr ''/c'')] ''CREDENTIALS_PATH'' = PStr ''/c''" by (simp add: get_def)
  show "str_strip ''aws'' = ''aws''" by code_simp
  show "first_try (knows ''pw'') fresh_run (path_in ''/c'' (''acme'' @ ''.yaml'')) = Some ''pw''"
    by (simp add: first_try_def knows_def fresh_run_def)
qed (simp_all add: instances_hold plain_fields_example)

theorem passphrase_remembered_witness:
  "\<exists>s'. decrypt_value keyed_crypto (knows ''pw'') (encrypt_cascade keyed_crypto ''pw'' ''secret'' ''s'' ''n'' ''m'') ''k'' ''it'' fresh_run =
      (Inr ''secret'', s') \<and> asked s' \<le> 3 \<and>
    decrypt_value keyed_crypto (knows ''pw'') (encrypt_cascade keyed_crypto ''pw'' ''secret'' ''s'' ''n'' ''m'') ''k'' ''it'' s' =
      (Inr ''secret'', s')"
proof -
  have "first_try (knows ''pw'') fresh_run ''k'' = Some ''pw''" by (simp add: first_try_def knows_def fresh_run_def)
  from decrypt_first_try [OF this decrypt_encrypt [OF instances_hold(2)]] obtain s' where
    d: "decrypt_value keyed_crypto (knows ''pw'') (encrypt_cascade keyed_crypto ''pw'' ''secret'' ''s'' ''n'' ''m'') ''k'' ''it'' fresh_run =
      (Inr ''secret'', s')"
    by blast
  from passphrase_remembered [OF d] d show ?thesis by (auto simp: fresh_run_def)
qed

section \<open>Where the code parts from its documentation\<close>

text \<open>Fields the registries declare sensitive that encrypting an existing file leaves as they are.\<close>

definition left_plain :: "field_row list \<Rightarrow> string list" where
  "left_plain rows = map fst (filter (\<lambda>(k, _, sensitive). sensitive \<and> \<not> looks_sensitive k) rows)"

lemma provider_fields_left_plain: "left_plain (concat (map snd PROVIDER_FIELDS)) = [''EXOSCALE_API_KEY'']"
  by code_simp

lemma service_fields_left_plain: "left_plain (concat (map snd SERVICE_CREDENTIAL_FIELDS)) = [''scc_regcode'', ''hermes_llm_api_key'']"
  by code_simp

lemma registry_fields_left_plain:
  "left_plain (concat (map snd PROVIDER_FIELDS) @ concat (map snd SERVICE_CREDENTIAL_FIELDS)) =
   [''EXOSCALE_API_KEY'', ''scc_regcode'', ''hermes_llm_api_key'']"
  using provider_fields_left_plain service_fields_left_plain by (simp add: left_plain_def)

text \<open>The passphrase of a file with two encrypted fields is asked for once for each of them.\<close>

lemma asked_for_each_field:
  fixes e :: dict
  defines "e \<equiv> encrypt_cascade keyed_crypto ''pw'' ''secret'' ''s'' ''n'' ''m''"
  shows "\<exists>s'. decrypt_fields keyed_crypto (knows ''pw'') ''f'' ''a'' [(''A'', PDict e), (''B'', PDict e)] fresh_run =
      (Inr [(''A'', PStr ''secret''), (''B'', PStr ''secret'')], s') \<and> asked s' = 2"
proof -
  have d: "decrypt_cascade keyed_crypto ''pw'' e = Inr ''secret''" unfolding e_def by (rule decrypt_encrypt [OF instances_hold(2)])
  have enc: "get e ''encrypted'' = PBool True" unfolding e_def by (rule encrypt_ids)
  have v: "decrypt_value keyed_crypto (knows ''pw'') e key label s = (Inr ''secret'', remember key ''pw'' (s\<lparr>asked := asked s + 1\<rparr>))"
    if "map_of (passphrase_cache s) key = None" for key label s
    using that d by (simp add: decrypt_value_def new_passphrase_def knows_def numeral_3_eq_3)
  show ?thesis by (simp add: enc v fresh_run_def remember_def)
qed

end
