(* ===== verification/Backend_Select.thy ===== *)
theory Backend_Select
  imports Credentials Kvm_Hosts Overlay_Net
begin

text \<open>
  Which backend a VM uses: the end of \<open>libs/backends.py\<close>, from the account a node names or has found for
  it to the instance the backend resolves, and the cloud DNS VM. The backend classes are the parameter
  \<open>resolve\<close> (what a class makes of a VM and its configuration) and, for the DNS VM, a \<open>vm_backend\<close>.
\<close>

definition BACKENDS :: "string list" where
  "BACKENDS = [''libvirt'', ''harvester'', ''hetzner'', ''aws'', ''gcp'', ''alibaba'', ''scaleway'', ''upcloud'', ''ovhcloud'', ''exoscale'']"

definition CLOUD_BACKEND_NAMES :: "string list" where
  "CLOUD_BACKEND_NAMES = filter (\<lambda>b. b \<notin> {''libvirt'', ''harvester''}) BACKENDS"

text \<open>\<open>v in names\<close>, of a set or dict of texts.\<close>

definition in_names :: "pval \<Rightarrow> string list \<Rightarrow> bool res" where
  "in_names v names =
     (case v of PStr t \<Rightarrow> Inr (t \<in> set names) | PList _ \<Rightarrow> Inl (TypeError ''unhashable'') | PDict _ \<Rightarrow> Inl (TypeError ''unhashable'')
      | _ \<Rightarrow> Inr False)"

definition node_or_common :: "dict \<Rightarrow> dict \<Rightarrow> string \<Rightarrow> pval" where
  "node_or_common node common key = py_or (get node key) (get common key)"

definition ambiguous_account :: "string \<Rightarrow> pval \<Rightarrow> string list \<Rightarrow> string" where
  "ambiguous_account vm_name backend ms =
     ''VM '' @ sq vm_name @ '': backend '' @ sq (py_str backend) @ '' has no explicit '' @ dq ''cloud_account'' @ '' set, and '' @
     nat_str (length ms) @ '' matching credentials files were found ('' @ join '', '' ms @ '') '' @ emdash @ '' set '' @
     dq ''cloud_account'' @ '' explicitly to pick one''"

definition resolve_account_name :: "formats \<Rightarrow> store \<Rightarrow> dict \<Rightarrow> dict \<Rightarrow> string \<Rightarrow> pval res" where
  "resolve_account_name fmt store defn config vm_name =
     res_bind (strict_node defn vm_name) (\<lambda>node. res_bind (lab_common defn) (\<lambda>common.
     (let account = py_or (node_or_common node common ''cloud_account'') (PStr []) in
      if truthy account then Inr account
      else
        (let backend = py_or (py_or (node_or_common node common ''backend'') (get config ''BACKEND'')) (PStr ''libvirt'') in
         res_bind (in_names backend CLOUD_BACKEND_NAMES) (\<lambda>cloud.
         if \<not> cloud then Inr (PStr [])
         else case find_cloud_account_for_cloudtype fmt store (str_of backend) config of
           (Some found, _) \<Rightarrow> Inr (PStr found)
         | (None, ms) \<Rightarrow> if length ms > 1 then Inl (SystemExit (ambiguous_account vm_name backend ms)) else Inr (PStr []))))))"

definition load_account :: "formats \<Rightarrow> crypto \<Rightarrow> user \<Rightarrow> store \<Rightarrow> pval \<Rightarrow> dict \<Rightarrow> (run_state, dict) act" where
  "load_account fmt lib u store account config = load_cloud_account fmt lib u store (py_str account) config"

text \<open>The account, the effective configuration and the cloud type, None without an account.\<close>

definition resolve_cloud_account ::
  "formats \<Rightarrow> crypto \<Rightarrow> user \<Rightarrow> store \<Rightarrow> dict \<Rightarrow> dict \<Rightarrow> string \<Rightarrow> (run_state, pval \<times> dict \<times> pval) act" where
  "resolve_cloud_account fmt lib u store defn config vm_name =
     act_bind (act_res (resolve_account_name fmt store defn config vm_name)) (\<lambda>account.
     if \<not> truthy account then act_ret (PStr [], config, PNone)
     else act_bind (load_account fmt lib u store account config) (\<lambda>acct.
          act_ret (account, update_all acct config, get_dflt acct ''CLOUDTYPE'' (PStr []))))"

definition effective_backend_name ::
  "formats \<Rightarrow> crypto \<Rightarrow> user \<Rightarrow> store \<Rightarrow> dict \<Rightarrow> dict \<Rightarrow> string \<Rightarrow> (run_state, pval) act" where
  "effective_backend_name fmt lib u store defn config vm_name =
     act_bind (act_res (strict_node defn vm_name)) (\<lambda>node. act_bind (act_res (lab_common defn)) (\<lambda>common.
     act_bind (act_res (resolve_account_name fmt store defn config vm_name)) (\<lambda>account.
     if truthy account then
       act_bind (load_account fmt lib u store account config) (\<lambda>acct. act_ret (get_dflt acct ''CLOUDTYPE'' (PStr [])))
     else act_ret (py_or (py_or (node_or_common node common ''backend'') (get config ''BACKEND'')) (PStr ''libvirt'')))))"

record 'i backend_instance =
  be_name :: string
  be_account :: pval
  be_instance :: 'i

definition disagreement :: "string \<Rightarrow> pval \<Rightarrow> pval \<Rightarrow> pval \<Rightarrow> string" where
  "disagreement vm_name account cloudtype explicit =
     ''VM '' @ sq vm_name @ '': cloud_account '' @ sq (py_str account) @ '' is cloudtype '' @ sq (py_str cloudtype) @
     '', but backend is set to '' @ sq (py_str explicit) @ '' '' @ emdash @ '' remove the backend field or make the two agree''"

definition unknown_backend :: "string \<Rightarrow> pval \<Rightarrow> string" where
  "unknown_backend vm_name backend =
     ''Unknown backend '' @ sq (py_str backend) @ '' for VM '' @ sq vm_name @ '' '' @ emdash @ '' supported backends: '' @
     join '', '' (sort BACKENDS)"

text \<open>\<open>resolve name config\<close>: what the class of that name makes of the VM.\<close>

definition get_backend ::
  "(string \<Rightarrow> dict \<Rightarrow> 'i res) \<Rightarrow> formats \<Rightarrow> crypto \<Rightarrow> user \<Rightarrow> store \<Rightarrow> dict \<Rightarrow> dict \<Rightarrow> string \<Rightarrow> (run_state, 'i backend_instance) act" where
  "get_backend resolve fmt lib u store defn config vm_name =
     act_bind (act_res (strict_node defn vm_name)) (\<lambda>node. act_bind (act_res (lab_common defn)) (\<lambda>common.
     act_bind (resolve_cloud_account fmt lib u store defn config vm_name) (\<lambda>(account, eff_config, cloudtype).
     (let explicit = node_or_common node common ''backend'' in
      if truthy account \<and> truthy explicit \<and> \<not> py_eq explicit cloudtype
      then act_raise (SystemExit (disagreement vm_name account cloudtype explicit))
      else
        (let backend_name = py_or (py_or (py_or cloudtype explicit) (get eff_config ''BACKEND'')) (PStr ''libvirt'') in
         act_bind (act_res (in_names backend_name BACKENDS)) (\<lambda>known.
         if \<not> known then act_raise (SystemExit (unknown_backend vm_name backend_name))
         else act_bind (act_res (resolve (str_of backend_name) eff_config)) (\<lambda>inst.
              act_ret \<lparr>be_name = str_of backend_name, be_account = account, be_instance = inst\<rparr>)))))))"

definition get_backend_for_account ::
  "(string \<Rightarrow> dict \<Rightarrow> 'i res) \<Rightarrow> formats \<Rightarrow> crypto \<Rightarrow> user \<Rightarrow> store \<Rightarrow> string \<Rightarrow> dict \<Rightarrow> (run_state, 'i backend_instance \<times> pval) act" where
  "get_backend_for_account resolve fmt lib u store account_name config =
     act_bind (load_account fmt lib u store (PStr account_name) config) (\<lambda>acct.
     (let cloudtype = get_dflt acct ''CLOUDTYPE'' (PStr []) in
      if \<not> truthy cloudtype
      then act_raise (SystemExit (''cloud account '' @ sq account_name @ '' has no CLOUDTYPE set''))
      else act_bind (act_res (in_names cloudtype BACKENDS)) (\<lambda>known.
      if \<not> known
      then act_raise (SystemExit (''cloud account '' @ sq account_name @ '' has unknown CLOUDTYPE '' @ sq (py_str cloudtype) @ '' '' @ emdash @
             '' supported backends: '' @ join '', '' (sort BACKENDS)))
      else act_bind (act_res (resolve (str_of cloudtype) (update_all acct config))) (\<lambda>inst.
           act_ret (\<lparr>be_name = str_of cloudtype, be_account = PStr account_name, be_instance = inst\<rparr>, cloudtype)))))"

section \<open>The cloud DNS VM\<close>

definition cloud_dns_vm_name :: "string \<Rightarrow> string \<Rightarrow> string" where
  "cloud_dns_vm_name account backend_name =
     (if account \<in> {[], ''default''} then ''lab-dns-'' @ backend_name else ''lab-dns-'' @ backend_name @ ''-'' @ account)"

definition cloud_dns_image ::
  "formats \<Rightarrow> crypto \<Rightarrow> user \<Rightarrow> store \<Rightarrow> dict \<Rightarrow> dict \<Rightarrow> string \<Rightarrow> (run_state, string) act" where
  "cloud_dns_image fmt lib u store defn config vm_name =
     act_bind (resolve_cloud_account fmt lib u store defn config vm_name) (\<lambda>(_, eff_config, _).
     act_ret (py_str (py_or (get eff_config ''CLOUD_DNS_IMAGE'') (PStr []))))"

text \<open>\<open>own\<close>: the backend's own subnet, when it knows it.\<close>

definition dns_recursion_networks :: "string option \<Rightarrow> string list" where
  "dns_recursion_networks own =
     (let networks = [''10.0.0.0/8'', ''172.16.0.0/12'', ''192.168.0.0/16'', ''100.64.0.0/10''] in
      case own of None \<Rightarrow> networks | Some n \<Rightarrow> if n \<noteq> [] \<and> n \<notin> set networks then networks @ [n] else networks)"

definition DNS_PORTS :: "string list" where
  "DNS_PORTS = [''53/udp'', ''53/tcp'']"

text \<open>\<open>user_data\<close> is the cloud-init text; \<open>vb_ready\<close> of the backend waits for cloud-init and named.\<close>

definition first_text :: "string \<Rightarrow> string \<Rightarrow> string" where
  "first_text a b = (if a \<noteq> [] then a else b)"

definition dns_vm_without_ip :: "string \<Rightarrow> string \<Rightarrow> string" where
  "dns_vm_without_ip dns_vm_name backend_name =
     ''cloud DNS VM '' @ sq dns_vm_name @ '' exists on backend '' @ sq backend_name @
                '' but reported no IP '' @ emdash @ '' check it manually before retrying''"

definition dns_vm_made_without_ip :: "string \<Rightarrow> string \<Rightarrow> string" where
  "dns_vm_made_without_ip dns_vm_name backend_name =
     ''cloud DNS VM '' @ sq dns_vm_name @ '' was created on backend '' @ sq backend_name @
                '' but create_vm() reported no IP '' @ emdash @ '' cannot continue''"

definition dns_vm_not_ready :: "string \<Rightarrow> string \<Rightarrow> string" where
  "dns_vm_not_ready dns_vm_name ip =
     ''cloud DNS VM '' @ sq dns_vm_name @ '' ('' @ ip @ '') never finished cloud-init with '' @ sq ''named'' @
                '' active within 240s '' @ emdash @
                '' check it manually (SSH in and inspect cloud-init'' @ QUOTE @ ''s own log, /var/log/cloud-init-output.log)''"

definition ensure_cloud_dns_vm ::
  "vm_backend \<Rightarrow> string \<Rightarrow> string \<Rightarrow> string \<Rightarrow> string \<Rightarrow> string \<Rightarrow> string \<Rightarrow> (net, string) act" where
  "ensure_cloud_dns_vm B backend_name user_data opensuse_image iso_image lab_setup_path preferred_image =
     (let dns_vm_name = cloud_dns_vm_name (vb_account B) backend_name in
      act_bind (act_get (\<lambda>w. (vb_exists B dns_vm_name w, vb_get_ip B dns_vm_name w))) (\<lambda>(exists, ip).
      if exists then
        (if ip \<noteq> [] then act_ret ip
         else act_raise (SystemExit (dns_vm_without_ip dns_vm_name backend_name)))
      else
        act_then (act_upd (files_upd [] (\<lambda>f. f(lab_setup_path @ ''/cloud-init/'' @ dns_vm_name @ ''_user-data'' := Some user_data))))
        (act_then (vb_copy_image B (first_text preferred_image (first_text opensuse_image iso_image)) dns_vm_name)
        (act_then (vb_push_files B dns_vm_name)
        (act_bind (vb_create B dns_vm_name DNS_PORTS) (\<lambda>ip.
         if ip = [] then act_raise (SystemExit (dns_vm_made_without_ip dns_vm_name backend_name))
         else act_bind (act_get (vb_ready B ip)) (\<lambda>ready.
           if ready then act_ret ip
           else act_raise (SystemExit (dns_vm_not_ready dns_vm_name ip)))))))))"

section \<open>The backend chosen is the effective one\<close>

lemma loaded_account_type:
  assumes "load_account fmt lib u store account config s = (Inr acct, s')"
  shows "\<exists>ct. ct \<noteq> [] \<and> get_dflt acct ''CLOUDTYPE'' (PStr []) = PStr ct"
  using assms
  by (auto simp: load_account_def load_cloud_account_def or_die_def try_load_cloud_account_def try_load_def cloud_loader_simps
      split: sum.splits prod.splits option.splits pval.splits if_splits)

lemma in_names_True: "in_names v names = Inr True \<longleftrightarrow> (\<exists>t \<in> set names. v = PStr t)"
  by (cases v) (auto simp: in_names_def)

text \<open>C37 A VM's backend is the one \<open>effective_backend_name\<close> tells the rest of the run, and never another than
  a backend its definition names: the account's cloud type, where an account applies, is that name or
  the run stops.\<close>

theorem backend_is_effective:
  assumes "get_backend resolve fmt lib u store defn config vm_name s = (Inr b, s')"
  shows "effective_backend_name fmt lib u store defn config vm_name s = (Inr (PStr (be_name b)), s') \<and>
    be_name b \<in> set BACKENDS \<and>
    (\<forall>node common. strict_node defn vm_name = Inr node \<and> lab_common defn = Inr common \<and>
       truthy (node_or_common node common ''backend'') \<longrightarrow> node_or_common node common ''backend'' = PStr (be_name b))"
proof -
  obtain node common account eff_config cloudtype where
    n: "strict_node defn vm_name = Inr node" "lab_common defn = Inr common"
      "resolve_cloud_account fmt lib u store defn config vm_name s = (Inr (account, eff_config, cloudtype), s')"
    and b: "truthy account \<longrightarrow> truthy (node_or_common node common ''backend'') \<longrightarrow> py_eq (node_or_common node common ''backend'') cloudtype"
      "py_or (py_or (py_or cloudtype (node_or_common node common ''backend'')) (get eff_config ''BACKEND'')) (PStr ''libvirt'') = PStr (be_name b)"
      "be_name b \<in> set BACKENDS"
    using assms unfolding get_backend_def Let_def
    by (auto simp: act_bind_eq_Inr act_res_app act_raise_app act_ret_app in_names_True str_of_def split: if_splits)
  obtain acc where a: "resolve_account_name fmt store defn config vm_name = Inr acc"
    using n(3) by (auto simp: resolve_cloud_account_def act_bind_eq_Inr act_res_app)
  show ?thesis
  proof (cases "truthy acc")
    case True
    then obtain acct where l: "load_account fmt lib u store acc config s = (Inr acct, s')" "account = acc"
        "cloudtype = get_dflt acct ''CLOUDTYPE'' (PStr [])"
      using n(3) a by (auto simp: resolve_cloud_account_def act_bind_eq_Inr act_res_app act_ret_app)
    obtain ct where ct: "ct \<noteq> []" "cloudtype = PStr ct" using loaded_account_type [OF l(1)] l(3) by auto
    then have "be_name b = ct" using b(2) by (simp add: py_or_def)
    then have name: "get_dflt acct ''CLOUDTYPE'' (PStr []) = PStr (be_name b)" using ct l(3) by simp
    then show ?thesis using n(1,2) a True l(1,2) b(1,3) l(3)
      by (auto simp: effective_backend_name_def act_bind_app act_res_app act_ret_app)
  next
    case False
    then have l: "account = PStr []" "eff_config = config" "cloudtype = PNone" "s' = s"
      using n(3) a by (auto simp: resolve_cloud_account_def act_bind_eq_Inr act_res_app act_ret_app)
    have e: "py_or (py_or (node_or_common node common ''backend'') (get config ''BACKEND'')) (PStr ''libvirt'') = PStr (be_name b)"
      using b(2) l by (simp add: py_or_def)
    then have "node_or_common node common ''backend'' = PStr (be_name b)" if "truthy (node_or_common node common ''backend'')"
      using that by (simp add: py_or_def)
    then show ?thesis using n(1,2) a False l b(3) e
      by (auto simp: effective_backend_name_def act_bind_app act_res_app act_ret_app)
  qed
qed

definition acme_store :: store where
  "acme_store = [(''/c'', [(''acme.cfg'', ''cloudtype=aws'' @ NL @ ''AWS_REGION=eu'')])]"

definition plain_formats :: formats where
  "plain_formats = \<lparr>json_loads = (\<lambda>t. Inl t), yaml_load = (\<lambda>t. Inl t), yaml_dump = (\<lambda>_. []), environ = (\<lambda>_. None)\<rparr>"

definition one_aws_node :: dict where
  "one_aws_node = [(''common'', PDict [(''backend'', PStr ''aws'')]), (''nodes'', PDict [(''n1'', PDict [])])]"

definition acme_config :: dict where
  "acme_config = [(''CREDENTIALS_PATH'', PStr ''/c''), (''BACKEND'', PStr ''gcp'')]"

lemma acme_example:
  "resolve_account_name plain_formats acme_store one_aws_node acme_config ''n1'' = Inr (PStr ''acme'')"
  "try_load_cloud_account plain_formats keyed_crypto (knows []) acme_store ''acme'' acme_config fresh_run =
     (Inr [(''AWS_REGION'', PStr ''eu''), (''CLOUDTYPE'', PStr ''aws'')], fresh_run)"
  by code_simp+

theorem backend_is_effective_witness:
  "effective_backend_name plain_formats keyed_crypto (knows []) acme_store one_aws_node acme_config ''n1'' fresh_run =
     (Inr (PStr ''aws''), fresh_run)"
proof -
  have l: "try_load_cloud_account plain_formats keyed_crypto (knows []) acme_store ''acme'' acme_config fresh_run =
      (Inr [(''AWS_REGION'', PStr ''eu''), (''CLOUDTYPE'', PStr ''aws'')], fresh_run)"
    by (rule acme_example(2))
  have n: "strict_node one_aws_node ''n1'' = Inr []" "lab_common one_aws_node = Inr [(''backend'', PStr ''aws'')]"
    "node_or_common [] [(''backend'', PStr ''aws'')] ''backend'' = PStr ''aws''" "in_names (PStr ''aws'') BACKENDS = Inr True"
    "get_dflt [(''AWS_REGION'', PStr ''eu''), (''CLOUDTYPE'', PStr ''aws'')] ''CLOUDTYPE'' (PStr []) = PStr ''aws''"
    by code_simp+
  have "get_backend (\<lambda>_ _. Inr ()) plain_formats keyed_crypto (knows []) acme_store one_aws_node acme_config ''n1'' fresh_run =
      (Inr \<lparr>be_name = ''aws'', be_account = PStr ''acme'', be_instance = ()\<rparr>, fresh_run)"
    by (simp add: get_backend_def resolve_cloud_account_def acme_example(1) load_account_def load_cloud_account_def or_die_def l n
        act_bind_app act_res_app act_ret_app act_raise_app py_str_def py_or_def str_of_def Let_def)
  from backend_is_effective [OF this] show ?thesis by simp
qed

section \<open>One DNS VM for each account\<close>

lemma no_dash: "b \<in> set CLOUD_BACKEND_NAMES \<Longrightarrow> CHR ''-'' \<notin> set b"
  by (auto simp: CLOUD_BACKEND_NAMES_def BACKENDS_def)

lemma dash_split: "CHR ''-'' \<notin> set b \<Longrightarrow> CHR ''-'' \<notin> set c \<Longrightarrow> b @ CHR ''-'' # x = c @ CHR ''-'' # y \<Longrightarrow> b = c \<and> x = y"
proof (induction b arbitrary: c)
  case Nil
  then show ?case by (cases c) auto
next
  case (Cons z b)
  then show ?case by (cases c) auto
qed

definition account_key :: "string \<Rightarrow> string" where
  "account_key a = (if a = [] then ''default'' else a)"

lemma dns_vm_name_eq:
  assumes "b \<in> set CLOUD_BACKEND_NAMES" and "c \<in> set CLOUD_BACKEND_NAMES"
  shows "cloud_dns_vm_name x b = cloud_dns_vm_name y c \<longleftrightarrow> b = c \<and> account_key x = account_key y"
proof -
  have nd: "CHR ''-'' \<notin> set b" "CHR ''-'' \<notin> set c" using assms no_dash by auto
  have ne: "b \<noteq> c @ CHR ''-'' # z" "c \<noteq> b @ CHR ''-'' # z" for z using nd by auto
  define t where "t a = (if a \<in> {[], ''default''} then [] else CHR ''-'' # a)" for a
  have t_cases: "t a = [] \<or> t a = CHR ''-'' # a" for a by (simp add: t_def)
  have name: "cloud_dns_vm_name a d = ''lab-dns-'' @ d @ t a" for a d by (simp add: cloud_dns_vm_name_def t_def)
  have "b @ t x = c @ t y \<longleftrightarrow> b = c \<and> t x = t y"
  proof -
    consider "t x = []" "t y = []" | "t x = []" "t y = CHR ''-'' # y" | "t x = CHR ''-'' # x" "t y = []"
      | "t x = CHR ''-'' # x" "t y = CHR ''-'' # y"
      using t_cases by blast
    then show ?thesis
    proof cases
      case 4
      show ?thesis using dash_split [OF nd, of x y] unfolding 4 by blast
    qed (use ne in \<open>simp_all add: eq_commute\<close>)
  qed
  moreover have "t x = t y \<longleftrightarrow> account_key x = account_key y" by (auto simp: t_def account_key_def)
  ultimately show ?thesis by (simp add: name)
qed

lemma act_then_unit: "act_then m n s = (Inr y, t) \<longleftrightarrow> (\<exists>u. m s = (Inr (), u) \<and> n u = (Inr y, t))"
  by (simp add: act_then_eq_Inr)


definition named_backend :: vm_backend where
  "named_backend = \<lparr>vb_account = ''acme'', vb_exists = (\<lambda>n w. n_wg w n), vb_get_ip = (\<lambda>n w. if n_wg w n then ''192.0.2.1'' else []),
     vb_copy_image = (\<lambda>_ _. act_ret ()), vb_push_files = (\<lambda>_. act_ret ()),
     vb_create = (\<lambda>n _ w. (Inr ''192.0.2.1'', w\<lparr>n_wg := (n_wg w)(n := True)\<rparr>)), vb_ready = (\<lambda>_ _. True)\<rparr>"

definition bare_net :: net where
  "bare_net = \<lparr>n_up = (\<lambda>_. True), n_files = (\<lambda>_ _. None), n_wg = (\<lambda>_. False), n_peers = (\<lambda>_. []), n_wg_routes = (\<lambda>_. []),
     n_routes = (\<lambda>_. []), n_unit = (\<lambda>_. False), n_keygen = (\<lambda>_. ([], []))\<rparr>"


end
