(* ===== verification/Lab_File.thy ===== *)
theory Lab_File
  imports Credentials
begin

text \<open>
  Lab definition files: loading, saving and the structural check of \<open>libs/primary.py\<close>. A file is its
  text, or the error reading it; the parsers and the YAML writer are those of \<open>formats\<close>, the JSON
  writer is an argument. PyYAML is installed.
\<close>

record lab_definition =
  content :: dict
  source_path :: string
  fmt_of :: string

datatype lab_file = Absent | Unreadable string | Text string

text \<open>\<open>Path(path).suffix\<close>.\<close>

definition file_suffix :: "string \<Rightarrow> string" where
  "file_suffix path =
     (let f = rev (basename path); ext = takeWhile (\<lambda>c. c \<noteq> CHR ''.'') f; r = dropWhile (\<lambda>c. c \<noteq> CHR ''.'') f in
      if ext = [] \<or> r = [] \<or> tl r = [] then [] else CHR ''.'' # rev ext)"

text \<open>\<open>dict(value)\<close>; a list of pairs, which is taken as well, is not modelled.\<close>

definition as_dict :: "pval \<Rightarrow> dict res" where
  "as_dict v = (case v of PDict d \<Rightarrow> Inr d | PList [] \<Rightarrow> Inr [] | PStr [] \<Rightarrow> Inr [] | _ \<Rightarrow> Inl (TypeError ''not iterable''))"

definition try_load_definition :: "formats \<Rightarrow> (string \<Rightarrow> lab_file) \<Rightarrow> string \<Rightarrow> (string + lab_definition) res" where
  "try_load_definition fmt files path =
     (case files path of
        Absent \<Rightarrow> Inr (Inl (''Lab definition file '' @ sq path @ '' not found''))
      | Unreadable e \<Rightarrow> Inr (Inl (''could not read '' @ sq path @ '': '' @ e))
      | Text t \<Rightarrow>
          (let is_yaml_ext = str_lower (file_suffix path) \<in> {''.yaml'', ''.yml''} in
           case (if is_yaml_ext then Inl [] else json_loads fmt t) of
             Inr v \<Rightarrow> res_bind (as_dict v) (\<lambda>d. Inr (Inr \<lparr>content = d, source_path = path, fmt_of = ''json''\<rparr>))
           | Inl json_error \<Rightarrow>
               (case yaml_load fmt t of
                  Inl e \<Rightarrow> Inr (Inl (if is_yaml_ext then ''YAML syntax error in '' @ sq path @ '': '' @ e
                               else sq path @ '' is not valid JSON ('' @ json_error @ '') or YAML ('' @ e @ '')''))
                | Inr (PDict d) \<Rightarrow> Inr (Inr \<lparr>content = d, source_path = path, fmt_of = ''yaml''\<rparr>)
                | Inr _ \<Rightarrow> Inr (Inl (sq path @ '' does not contain a mapping at the top level'')))))"

definition load_definition :: "formats \<Rightarrow> (string \<Rightarrow> lab_file) \<Rightarrow> string \<Rightarrow> lab_definition res" where
  "load_definition fmt files path =
     res_bind (try_load_definition fmt files path) (\<lambda>r. case r of Inl e \<Rightarrow> Inl (SystemExit e) | Inr d \<Rightarrow> Inr d)"

definition save_path :: "lab_definition \<Rightarrow> string" where
  "save_path defn = source_path defn @ ''.system_modified.'' @ fmt_of defn"

definition save_definition ::
  "formats \<Rightarrow> (dict \<Rightarrow> string) \<Rightarrow> lab_definition \<Rightarrow> (string \<Rightarrow> lab_file) \<Rightarrow> string \<times> (string \<Rightarrow> lab_file)" where
  "save_definition fmt json_dump defn files =
     (save_path defn,
      files(save_path defn := Text (if fmt_of defn = ''yaml'' then yaml_dump fmt (content defn) else json_dump (content defn))))"

definition strict_get :: "pval \<Rightarrow> string \<Rightarrow> pval \<Rightarrow> pval res" where
  "strict_get v key dflt = (case v of PDict d \<Rightarrow> Inr (get_dflt d key dflt) | _ \<Rightarrow> Inl (AttributeError ''get''))"

definition check_reference :: "pval \<Rightarrow> string \<times> pval \<Rightarrow> unit \<Rightarrow> unit res" where
  "check_reference kclusters = (\<lambda>(vm_name, node_cfg) _.
     res_bind (strict_get node_cfg ''kcluster'' (PStr [])) (\<lambda>ref.
     if \<not> truthy ref then Inr ()
     else res_bind (py_member ref kclusters) (\<lambda>b.
       if b then Inr ()
       else Inl (SystemExit (''Node '' @ sq vm_name @ '' references kcluster '' @ sq (py_str ref) @
              '' which is not defined in '' @ sq ''kclusters'')))))"

text \<open>The warning about the legacy format is only printed.\<close>

definition validate_definition :: "dict \<Rightarrow> string \<Rightarrow> unit res" where
  "validate_definition defn path =
     (if \<not> truthy (get defn ''nodes'') then Inl (SystemExit (sq path @ '' has no '' @ sq ''nodes'' @ '' section''))
      else case get defn ''nodes'' of
        PDict nodes \<Rightarrow> res_fold (check_reference (get_dflt defn ''kclusters'' (PDict []))) nodes ()
      | _ \<Rightarrow> Inl (AttributeError ''items''))"

section \<open>Saving\<close>

lemma basename_append: "CHR ''/'' \<notin> set t \<Longrightarrow> t \<noteq> [] \<Longrightarrow> basename (p @ t) = basename p @ t"
  by (simp add: basename_def takeWhile_append)

lemma suffix_saved:
  "file_suffix (p @ ''.system_modified.yaml'') = ''.yaml''" "file_suffix (p @ ''.system_modified.json'') = ''.json''"
  by (simp_all add: file_suffix_def basename_append Let_def)

lemma saved_loads:
  assumes "\<And>d. yaml_load fmt (yaml_dump fmt d) = Inr (PDict d)" and "\<And>d. json_loads fmt (json_dump d) = Inr (PDict d)"
    and "fmt_of defn \<in> {''json'', ''yaml''}"
    and "save_definition fmt json_dump defn files = (path, files')"
  shows "load_definition fmt files' path = Inr \<lparr>content = content defn, source_path = path, fmt_of = fmt_of defn\<rparr>"
    and "\<And>p. p \<noteq> path \<Longrightarrow> files' p = files p" and "path \<noteq> source_path defn"
proof -
  have lower: "str_lower ''.yaml'' = ''.yaml''" "str_lower ''.json'' = ''.json''" by code_simp+
  have p: "path = save_path defn" "files' = files(path := Text (if fmt_of defn = ''yaml'' then yaml_dump fmt (content defn) else json_dump (content defn)))"
    using assms(4) by (auto simp: save_definition_def)
  then show "\<And>p. p \<noteq> path \<Longrightarrow> files' p = files p" "path \<noteq> source_path defn" by (simp_all add: save_path_def)
  consider "fmt_of defn = ''yaml''" "path = source_path defn @ ''.system_modified.yaml''"
    | "fmt_of defn = ''json''" "path = source_path defn @ ''.system_modified.json''"
    using assms(3) p(1) by (auto simp: save_path_def)
  then show "load_definition fmt files' path = Inr \<lparr>content = content defn, source_path = path, fmt_of = fmt_of defn\<rparr>"
  proof cases
    case 1
    then show ?thesis using assms(1) by (simp add: load_definition_def try_load_definition_def p(2) suffix_saved lower)
  next
    case 2
    then show ?thesis using assms(2) by (simp add: load_definition_def try_load_definition_def p(2) suffix_saved lower as_dict_def)
  qed
qed

text \<open>A file that is valid JSON but no object raises out of the function that reports every error.\<close>

lemma json_number_raises:
  assumes "files ''lab.json'' = Text ''5''" and "json_loads fmt ''5'' = Inr (PInt 5)"
  shows "try_load_definition fmt files ''lab.json'' = Inl (TypeError ''not iterable'')"
proof -
  have "str_lower (file_suffix ''lab.json'') = ''.json''" by code_simp
  then show ?thesis using assms by (simp add: try_load_definition_def as_dict_def)
qed

end
