(* ===== verification/Port_Forward.thy ===== *)
theory Port_Forward
  imports Lab_Defs Ip_Alloc Py_Action
begin

text \<open>
  Port forwarding on the hypervisor: \<open>libs/portforward.py\<close>, \<open>PortForwardService\<close> of \<open>libs/services.py\<close>
  and the firewall they write. The firewall is, for each table and chain, its list of rules as iptables
  is given them; \<open>iptables\<close> is the part of the command that is used: -L, -N, -C, -I, -A and -F. Which rules it
  takes is not the program's: \<open>fw_takes\<close> is a parameter, part of the state, and what the properties need of it is the
  named hypothesis \<open>documented_rules\<close>.
\<close>

section \<open>The firewall\<close>

record firewall =
  fw_up :: bool
  fw_takes :: "string list \<Rightarrow> bool"
  fw_chains :: "string \<times> string \<Rightarrow> string list list option"

definition table_of :: "string list \<Rightarrow> string \<times> string list" where
  "table_of args = (case args of t # n # rest \<Rightarrow> if t = ''-t'' then (n, rest) else (''filter'', args) | _ \<Rightarrow> (''filter'', args))"

definition set_chain :: "string \<times> string \<Rightarrow> string list list \<Rightarrow> firewall \<Rightarrow> firewall" where
  "set_chain c rules s = s\<lparr>fw_chains := (fw_chains s)(c := Some rules)\<rparr>"

definition iptables_cmd :: "string \<Rightarrow> string list \<Rightarrow> firewall \<Rightarrow> bool \<times> firewall" where
  "iptables_cmd t rest s =
     (case rest of
        cmd # c # rule \<Rightarrow>
          (case fw_chains s (t, c) of
             None \<Rightarrow> if cmd = ''-N'' then (True, set_chain (t, c) [] s) else (False, s)
           | Some rules \<Rightarrow>
               if cmd = ''-L'' then (True, s)
               else if cmd = ''-C'' then (rule \<in> set rules, s)
               else if cmd = ''-I'' \<and> fw_takes s rule then (True, set_chain (t, c) (rule # rules) s)
               else if cmd = ''-A'' \<and> fw_takes s rule then (True, set_chain (t, c) (rules @ [rule]) s)
               else if cmd = ''-F'' then (True, set_chain (t, c) [] s)
               else (False, s))
      | _ \<Rightarrow> (False, s))"

definition iptables :: "string list \<Rightarrow> firewall \<Rightarrow> bool \<times> firewall" where
  "iptables args s = (if \<not> fw_up s then (False, s) else case table_of args of (t, rest) \<Rightarrow> iptables_cmd t rest s)"

text \<open>The runner of \<open>_iptables_runner\<close>: whether the command returned 0. What it prints is not modelled, so
  the messages below end before the standard error the code appends to them.\<close>

definition run :: "string list \<Rightarrow> (firewall, bool) act" where
  "run args = (\<lambda>s. case iptables args s of (ok, s') \<Rightarrow> (Inr ok, s'))"

section \<open>The rules\<close>

definition CHAIN_DNAT :: string where "CHAIN_DNAT = ''LAB_PORTFWD''"
definition CHAIN_FWD :: string where "CHAIN_FWD = ''LAB_PORTFWD_FWD''"

definition PORT_SPEC :: string where
  "PORT_SPEC = ''^'' @ bsl ''s*('' @ bsl ''d{1,5}):('' @ bsl ''d{1,5})/(tcp|udp)'' @ bsl ''s*$''"

definition bad_spec :: "string \<Rightarrow> string" where
  "bad_spec spec =
     ''invalid forwarded-port entry '' @ sq spec @ '' '' @ emdash @ '' expected '' @ dq ''<external>:<internal>/<protocol>'' @
     '', e.g. '' @ dq ''8080:80/TCP''"

text \<open>The pattern ignores case; it has no upper-case letter of its own.\<close>

definition parse_port_spec :: "string \<Rightarrow> (int \<times> int \<times> string) res" where
  "parse_port_spec spec =
     (case Option.bind (rx_parse PORT_SPEC) (\<lambda>r. rx_match r (str_lower spec)) of
        None \<Rightarrow> Inl (SystemExit (bad_spec spec))
      | Some m \<Rightarrow>
          (case (Option.bind (group m 1) py_int, Option.bind (group m 2) py_int, group m 3) of
             (Some external, Some internal, Some proto) \<Rightarrow> Inr (external, internal, proto)
           | _ \<Rightarrow> Inl (SystemExit (bad_spec spec))))"

definition dnat_rule :: "string \<Rightarrow> int \<times> int \<times> string \<Rightarrow> string list" where
  "dnat_rule ip = (\<lambda>(external, internal, proto).
     [''-p'', proto, ''--dport'', int_str external, ''-j'', ''DNAT'', ''--to-destination'', ip @ '':'' @ int_str internal])"

definition fwd_rule :: "string \<Rightarrow> int \<times> int \<times> string \<Rightarrow> string list" where
  "fwd_rule ip = (\<lambda>(external, internal, proto). [''-p'', proto, ''-d'', ip, ''--dport'', int_str internal, ''-j'', ''ACCEPT''])"

definition dnat_cmd :: "string list \<Rightarrow> string list" where
  "dnat_cmd r = [''-t'', ''nat'', ''-A'', CHAIN_DNAT] @ r"

definition fwd_cmd :: "string list \<Rightarrow> string list" where
  "fwd_cmd r = [''-A'', CHAIN_FWD] @ r"

definition spec_rules :: "string \<Rightarrow> int \<times> int \<times> string \<Rightarrow> string list list" where
  "spec_rules ip p = [dnat_cmd (dnat_rule ip p), fwd_cmd (fwd_rule ip p)]"

text \<open>
  What iptables documents of the rules it takes: a jump to one of the two chains; a rule for one
  of the two protocols whose ports are from 1 to 65535 and whose address is a dotted quad. A port above 65535
  it refuses.
\<close>

definition port_ok :: "int \<Rightarrow> bool" where
  "port_ok p \<longleftrightarrow> 1 \<le> p \<and> p \<le> 65535"

definition rule_ok :: "string \<Rightarrow> int \<times> int \<times> string \<Rightarrow> bool" where
  "rule_ok ip = (\<lambda>(external, internal, proto).
     ip_address ip \<noteq> None \<and> port_ok external \<and> port_ok internal \<and> proto \<in> {''tcp'', ''udp''})"

definition documented_rules :: "firewall \<Rightarrow> bool" where
  "documented_rules s \<longleftrightarrow>
     (\<forall>c \<in> {CHAIN_DNAT, CHAIN_FWD}. fw_takes s [''-j'', c]) \<and>
     (\<forall>ip p. rule_ok ip p \<longrightarrow> fw_takes s (dnat_rule ip p) \<and> fw_takes s (fwd_rule ip p)) \<and>
     (\<forall>ip p. 65535 < fst p \<longrightarrow> \<not> fw_takes s (dnat_rule ip p))"

type_synonym port_map = "(string \<times> string list) list"

definition build_dnat_rules :: "port_map \<Rightarrow> string list list res" where
  "build_dnat_rules port_map =
     res_bind (res_map (\<lambda>(ip, specs). res_map (\<lambda>spec. res_bind (parse_port_spec spec) (\<lambda>p. Inr (spec_rules ip p))) specs) port_map)
       (\<lambda>rs. Inr (concat (concat rs)))"

section \<open>Applying them\<close>

definition chain_failed :: "string \<Rightarrow> string \<Rightarrow> string \<Rightarrow> string" where
  "chain_failed what t c = ''failed to '' @ what @ '' iptables chain '' @ t @ ''/'' @ c"

definition ensure_chain :: "string \<Rightarrow> string \<Rightarrow> string \<Rightarrow> (firewall, unit) act" where
  "ensure_chain t c hook_chain =
     act_bind (run [''-t'', t, ''-L'', c]) (\<lambda>exists.
     act_then (if exists then act_ret ()
               else act_bind (run [''-t'', t, ''-N'', c]) (\<lambda>ok. if ok then act_ret () else act_raise (SystemExit (chain_failed ''create'' t c))))
     (act_bind (run [''-t'', t, ''-C'', hook_chain, ''-j'', c]) (\<lambda>hooked.
      if hooked then act_ret ()
      else act_bind (run [''-t'', t, ''-I'', hook_chain, ''-j'', c]) (\<lambda>ok. if ok then act_ret () else act_raise (SystemExit (chain_failed ''hook'' t c))))))"

definition flush_chain :: "string \<times> string \<Rightarrow> (firewall, unit) act" where
  "flush_chain = (\<lambda>(t, c).
     act_bind (run [''-t'', t, ''-F'', c]) (\<lambda>ok. if ok then act_ret () else act_raise (SystemExit (chain_failed ''flush'' t c))))"

definition apply_rule :: "string list \<Rightarrow> (firewall, unit) act" where
  "apply_rule args =
     act_bind (run args) (\<lambda>ok. if ok then act_ret () else act_raise (SystemExit (''iptables '' @ join '' '' args @ '' failed'')))"

definition apply_forwarded_ports :: "port_map \<Rightarrow> (firewall, unit) act" where
  "apply_forwarded_ports port_map =
     act_then (ensure_chain ''nat'' CHAIN_DNAT ''PREROUTING'')
     (act_then (ensure_chain ''filter'' CHAIN_FWD ''FORWARD'')
     (act_then (act_for [(''nat'', CHAIN_DNAT), (''filter'', CHAIN_FWD)] flush_chain)
     (act_bind (act_res (build_dnat_rules port_map)) (\<lambda>rules. act_for rules apply_rule))))"

text \<open>\<open>PortForwardService.configure\<close>: the ports of the nodes that forward some and have an address.\<close>

definition node_ports :: "string \<times> pval \<Rightarrow> port_map \<Rightarrow> port_map res" where
  "node_ports = (\<lambda>(_, node_cfg) port_map.
     res_bind (or_dict node_cfg) (\<lambda>node.
     if \<not> truthy (get node ''forwarded_ports'') \<or> \<not> truthy (get node ''myip'') then Inr port_map
     else res_bind (iterate (get node ''forwarded_ports'')) (\<lambda>vs.
          res_bind (res_map as_str vs) (\<lambda>specs. res_bind (as_str (get node ''myip'')) (\<lambda>ip.
          Inr (AList.update ip specs port_map))))))"

definition port_map_of :: "dict \<Rightarrow> port_map res" where
  "port_map_of defn = res_bind (or_dict (get defn ''nodes'')) (\<lambda>nodes. res_fold node_ports nodes [])"

definition configure_ports :: "dict \<Rightarrow> (firewall, unit) act" where
  "configure_ports defn = act_bind (act_res (port_map_of defn)) apply_forwarded_ports"

text \<open>\<open>is_active\<close>: whether the service was configured and its chain is there.\<close>

definition ports_active :: "bool \<Rightarrow> (firewall, bool) act" where
  "ports_active configured = (if \<not> configured then act_ret False else run [''-t'', ''nat'', ''-L'', CHAIN_DNAT])"

section \<open>What the firewall does afterwards\<close>

text \<open>The rules two chains end with, and where a packet to a port of the hypervisor goes: the first DNAT rule wins.\<close>

definition specs_of :: "port_map \<Rightarrow> (string \<times> string) list" where
  "specs_of port_map = concat (map (\<lambda>(ip, specs). map (Pair ip) specs) port_map)"

definition parsed :: "port_map \<Rightarrow> (string \<times> int \<times> int \<times> string) list" where
  "parsed port_map = map (\<lambda>(ip, spec). (ip, case parse_port_spec spec of Inr p \<Rightarrow> p | Inl _ \<Rightarrow> (0, 0, []))) (specs_of port_map)"

definition well_formed :: "port_map \<Rightarrow> bool" where
  "well_formed port_map = list_all (\<lambda>(_, spec). is_ok (parse_port_spec spec)) (specs_of port_map)"

definition forwardable :: "port_map \<Rightarrow> bool" where
  "forwardable port_map \<longleftrightarrow> well_formed port_map \<and> list_all (\<lambda>(ip, p). rule_ok ip p) (parsed port_map)"

lemma build_rules_conv:
  assumes "well_formed port_map"
  shows "build_dnat_rules port_map = Inr (concat (map (\<lambda>(ip, p). spec_rules ip p) (parsed port_map)))"
proof -
  have one: "res_map (\<lambda>spec. res_bind (parse_port_spec spec) (\<lambda>p. Inr (spec_rules ip p))) specs =
      Inr (map (\<lambda>spec. spec_rules ip (case parse_port_spec spec of Inr p \<Rightarrow> p | Inl _ \<Rightarrow> (0, 0, []))) specs)"
    if "(ip, specs) \<in> set port_map" for ip specs
  proof (rule res_map_Inr_conv)
    fix spec assume "spec \<in> set specs"
    then have "(ip, spec) \<in> set (specs_of port_map)" using that by (auto simp: specs_of_def)
    then have "is_ok (parse_port_spec spec)" using assms unfolding well_formed_def list_all_iff by blast
    then show "res_bind (parse_port_spec spec) (\<lambda>p. Inr (spec_rules ip p)) =
        Inr (spec_rules ip (case parse_port_spec spec of Inr p \<Rightarrow> p | Inl _ \<Rightarrow> (0, 0, [])))"
      by (cases "parse_port_spec spec") simp_all
  qed
  have "res_map (\<lambda>(ip, specs). res_map (\<lambda>spec. res_bind (parse_port_spec spec) (\<lambda>p. Inr (spec_rules ip p))) specs) port_map =
      Inr (map (\<lambda>(ip, specs). map (\<lambda>spec. spec_rules ip (case parse_port_spec spec of Inr p \<Rightarrow> p | Inl _ \<Rightarrow> (0, 0, []))) specs) port_map)"
    using one by (intro res_map_Inr_conv) auto
  moreover have "concat (concat (map (\<lambda>(ip, specs). map (\<lambda>spec. f ip spec) specs) port_map)) = concat (map (\<lambda>(ip, spec). f ip spec) (specs_of port_map))"
    for f :: "string \<Rightarrow> string \<Rightarrow> string list list"
    by (induction port_map) (auto simp: specs_of_def o_def)
  ultimately show ?thesis by (simp add: build_dnat_rules_def parsed_def o_def split_def)
qed

definition dnat_rules :: "port_map \<Rightarrow> string list list" where
  "dnat_rules port_map = map (\<lambda>(ip, p). dnat_rule ip p) (parsed port_map)"

definition fwd_rules :: "port_map \<Rightarrow> string list list" where
  "fwd_rules port_map = map (\<lambda>(ip, p). fwd_rule ip p) (parsed port_map)"

definition with_ports :: "string list list \<Rightarrow> string list list \<Rightarrow> firewall \<Rightarrow> firewall" where
  "with_ports a b s = s\<lparr>fw_chains := (fw_chains s)((''nat'', CHAIN_DNAT) := Some a, (''filter'', CHAIN_FWD) := Some b)\<rparr>"

lemma with_ports_simps [simp]:
  "fw_up (with_ports a b s) = fw_up s" "fw_takes (with_ports a b s) = fw_takes s"
  "fw_chains (with_ports a b s) (''nat'', CHAIN_DNAT) = Some a" "fw_chains (with_ports a b s) (''filter'', CHAIN_FWD) = Some b"
  "set_chain (''nat'', CHAIN_DNAT) a' (with_ports a b s) = with_ports a' b s"
  "set_chain (''filter'', CHAIN_FWD) b' (with_ports a b s) = with_ports a b' s"
  "with_ports a' b' (with_ports a b s) = with_ports a' b' s"
  by (auto simp: with_ports_def set_chain_def fun_upd_twist)

lemma apply_dnat:
  "fw_up s \<Longrightarrow> fw_takes s r \<Longrightarrow> apply_rule (dnat_cmd r) (with_ports a b s) = (Inr (), with_ports (a @ [r]) b s)"
  by (simp add: dnat_cmd_def apply_rule_def run_def iptables_def table_of_def iptables_cmd_def act_simps)

lemma apply_fwd:
  "fw_up s \<Longrightarrow> fw_takes s r \<Longrightarrow> apply_rule (fwd_cmd r) (with_ports a b s) = (Inr (), with_ports a (b @ [r]) s)"
  by (cases r) (simp_all add: fwd_cmd_def apply_rule_def run_def iptables_def table_of_def iptables_cmd_def act_simps)

lemma apply_rules:
  assumes "fw_up s" and "documented_rules s" and "list_all (\<lambda>(ip, p). rule_ok ip p) ps"
  shows "act_for (concat (map (\<lambda>(ip, p). spec_rules ip p) ps)) apply_rule (with_ports a b s) =
     (Inr (), with_ports (a @ map (\<lambda>(ip, p). dnat_rule ip p) ps) (b @ map (\<lambda>(ip, p). fwd_rule ip p) ps) s)"
  using assms(3)
proof (induction ps arbitrary: a b)
  case (Cons q ps)
  obtain ip p where q: "q = (ip, p)" by (cases q)
  have "rule_ok ip p" "list_all (\<lambda>(ip, p). rule_ok ip p) ps" using Cons.prems by (simp_all add: q)
  then have "fw_takes s (dnat_rule ip p)" "fw_takes s (fwd_rule ip p)" using assms(2) unfolding documented_rules_def by blast+
  then show ?case using Cons.IH [OF \<open>list_all (\<lambda>(ip, p). rule_ok ip p) ps\<close>] apply_dnat [OF assms(1)] apply_fwd [OF assms(1)]
    by (simp add: q spec_rules_def act_then_app)
qed (simp add: act_simps)

text \<open>A chain that exists and is reached from its hook.\<close>

definition hook_rules :: "string \<Rightarrow> string list list \<Rightarrow> string list list" where
  "hook_rules c rules = (if [''-j'', c] \<in> set rules then rules else [''-j'', c] # rules)"

definition with_chain :: "string \<Rightarrow> string \<Rightarrow> string \<Rightarrow> firewall \<Rightarrow> firewall" where
  "with_chain t c h s = s\<lparr>fw_chains := (fw_chains s)((t, c) := Some (case fw_chains s (t, c) of None \<Rightarrow> [] | Some rs \<Rightarrow> rs),
     (t, h) := Some (hook_rules c (the (fw_chains s (t, h)))))\<rparr>"

lemma ensure_chain_run:
  assumes "fw_up s" and "fw_chains s (t, h) \<noteq> None" and "c \<noteq> h" and "fw_takes s [''-j'', c]"
  shows "ensure_chain t c h s = (Inr (), with_chain t c h s)"
proof -
  obtain hr where hr: "fw_chains s (t, h) = Some hr" using assms(2) by blast
  show ?thesis using assms(1,3,4) hr
    by (cases "fw_chains s (t, c)"; cases "[''-j'', c] \<in> set hr")
      (auto simp: ensure_chain_def run_def iptables_def table_of_def iptables_cmd_def act_simps with_chain_def set_chain_def
        hook_rules_def fun_upd_idem fun_upd_twist intro!: firewall.equality ext)
qed

text \<open>The state before the rules are added: both chains there, hooked and empty.\<close>

definition ready :: "firewall \<Rightarrow> firewall" where
  "ready s = with_ports [] [] (with_chain ''filter'' CHAIN_FWD ''FORWARD'' (with_chain ''nat'' CHAIN_DNAT ''PREROUTING'' s))"

lemma chain_names: "CHAIN_DNAT \<noteq> ''PREROUTING''" "CHAIN_FWD \<noteq> ''FORWARD''"
  by (simp_all add: CHAIN_DNAT_def CHAIN_FWD_def)

lemma with_chain_simps [simp]:
  "fw_up (with_chain t c h s) = fw_up s" "fw_takes (with_chain t c h s) = fw_takes s" "fw_chains (with_chain t c h s) (t, h) \<noteq> None"
  "c \<noteq> h \<Longrightarrow> fw_chains (with_chain t c h s) (t, c) \<noteq> None"
  "t' \<noteq> t \<Longrightarrow> fw_chains (with_chain t c h s) (t', c') = fw_chains s (t', c')"
  by (simp_all add: with_chain_def)

definition built_in :: "firewall \<Rightarrow> bool" where
  "built_in s \<longleftrightarrow> fw_up s \<and> documented_rules s \<and> fw_chains s (''nat'', ''PREROUTING'') \<noteq> None \<and> fw_chains s (''filter'', ''FORWARD'') \<noteq> None"

lemma flush_run:
  assumes "fw_up s" and "fw_chains s (''nat'', CHAIN_DNAT) \<noteq> None" and "fw_chains s (''filter'', CHAIN_FWD) \<noteq> None"
  shows "act_for [(''nat'', CHAIN_DNAT), (''filter'', CHAIN_FWD)] flush_chain s = (Inr (), with_ports [] [] s)"
proof -
  obtain a b where ab: "fw_chains s (''nat'', CHAIN_DNAT) = Some a" "fw_chains s (''filter'', CHAIN_FWD) = Some b"
    using assms(2,3) by blast
  then have s: "s = with_ports a b s" by (simp add: with_ports_def fun_upd_idem)
  have "flush_chain (''nat'', CHAIN_DNAT) (with_ports a b s) = (Inr (), with_ports [] b s)"
    "flush_chain (''filter'', CHAIN_FWD) (with_ports [] b s) = (Inr (), with_ports [] [] s)"
    using assms(1) by (simp_all add: flush_chain_def run_def iptables_def table_of_def iptables_cmd_def act_simps)
  then show ?thesis by (subst s) (simp add: act_simps)
qed

lemma apply_ready:
  assumes "built_in s"
  shows "apply_forwarded_ports port_map s = act_bind (act_res (build_dnat_rules port_map)) (\<lambda>rules. act_for rules apply_rule) (ready s)"
proof -
  let ?s1 = "with_chain ''nat'' CHAIN_DNAT ''PREROUTING'' s"
  let ?s2 = "with_chain ''filter'' CHAIN_FWD ''FORWARD'' ?s1"
  have e1: "ensure_chain ''nat'' CHAIN_DNAT ''PREROUTING'' s = (Inr (), ?s1)"
    using assms chain_names by (intro ensure_chain_run) (auto simp: built_in_def documented_rules_def)
  have e2: "ensure_chain ''filter'' CHAIN_FWD ''FORWARD'' ?s1 = (Inr (), ?s2)"
    using assms chain_names by (intro ensure_chain_run) (auto simp: built_in_def documented_rules_def)
  have "fw_chains ?s2 (''nat'', CHAIN_DNAT) \<noteq> None" "fw_chains ?s2 (''filter'', CHAIN_FWD) \<noteq> None" "fw_up ?s2"
    using assms chain_names by (auto simp: built_in_def)
  then have f: "act_for [(''nat'', CHAIN_DNAT), (''filter'', CHAIN_FWD)] flush_chain ?s2 = (Inr (), ready s)"
    unfolding ready_def by (intro flush_run)
  show ?thesis unfolding apply_forwarded_ports_def
    by (simp add: act_then_app e1 e2 f del: act_for.simps)
qed

lemma ready_simps [simp]: "fw_up (ready s) = fw_up s" "fw_takes (ready s) = fw_takes s" "with_ports [] [] (ready s) = ready s"
  by (simp_all add: ready_def)

lemma documented_ready [simp]: "documented_rules (ready s) = documented_rules s" "documented_rules (with_ports a b s) = documented_rules s"
  by (simp_all add: documented_rules_def)

lemma apply_forwardable:
  assumes "built_in s" and "forwardable port_map"
  shows "apply_forwarded_ports port_map s = (Inr (), with_ports (dnat_rules port_map) (fwd_rules port_map) (ready s))"
proof -
  have "well_formed port_map" "list_all (\<lambda>(ip, p). rule_ok ip p) (parsed port_map)" using assms(2) by (simp_all add: forwardable_def)
  then show ?thesis unfolding apply_ready [OF assms(1)] build_rules_conv [OF \<open>well_formed port_map\<close>]
    using apply_rules [of "ready s" "parsed port_map" "[]" "[]"] assms(1)
    by (simp add: act_bind_app act_res_app dnat_rules_def fwd_rules_def built_in_def)
qed

lemma ready_chains:
  assumes "built_in s"
  shows "fw_chains (ready s) (''nat'', ''PREROUTING'') = Some (hook_rules CHAIN_DNAT (the (fw_chains s (''nat'', ''PREROUTING''))))"
    and "fw_chains (ready s) (''filter'', ''FORWARD'') = Some (hook_rules CHAIN_FWD (the (fw_chains s (''filter'', ''FORWARD''))))"
    and "k \<notin> {(''nat'', CHAIN_DNAT), (''filter'', CHAIN_FWD), (''nat'', ''PREROUTING''), (''filter'', ''FORWARD'')} \<Longrightarrow>
      fw_chains (ready s) k = fw_chains s k"
  using chain_names by (auto simp: ready_def with_ports_def with_chain_def)

lemma hook_rules_idem [simp]: "hook_rules c (hook_rules c rs) = hook_rules c rs"
  by (simp add: hook_rules_def)

lemma ready_again: "built_in s \<Longrightarrow> ready (with_ports a b (ready s)) = ready s"
  using ready_chains [of s] chain_names
  by (auto simp: ready_def with_ports_def with_chain_def intro!: firewall.equality ext)

text \<open>C3 Where every entry is well formed, its ports are from 1 to 65535 and its node's address is a dotted quad, forwarding
  the ports of a lab completes and leaves exactly its rules in the two chains of the tool, in the order
  of the definition. A hook that jumps to its chain already is left as it is, any other gets the jump in front; every other chain
  and every other rule of the hooks stays, and applying the same ports again changes nothing. The firewall is up, has
  its two built-in chains, and takes such rules.\<close>

theorem forwarded_ports_applied:
  assumes "built_in s" and "forwardable port_map"
  shows "\<exists>s'. apply_forwarded_ports port_map s = (Inr (), s') \<and>
    fw_chains s' (''nat'', CHAIN_DNAT) = Some (map (\<lambda>(ip, p). dnat_rule ip p) (parsed port_map)) \<and>
    fw_chains s' (''filter'', CHAIN_FWD) = Some (map (\<lambda>(ip, p). fwd_rule ip p) (parsed port_map)) \<and>
    fw_chains s' (''nat'', ''PREROUTING'') = Some (hook_rules CHAIN_DNAT (the (fw_chains s (''nat'', ''PREROUTING'')))) \<and>
    fw_chains s' (''filter'', ''FORWARD'') = Some (hook_rules CHAIN_FWD (the (fw_chains s (''filter'', ''FORWARD'')))) \<and>
    (\<forall>k. k \<notin> {(''nat'', CHAIN_DNAT), (''filter'', CHAIN_FWD), (''nat'', ''PREROUTING''), (''filter'', ''FORWARD'')} \<longrightarrow>
       fw_chains s' k = fw_chains s k) \<and>
    apply_forwarded_ports port_map s' = (Inr (), s')"
proof -
  let ?s = "with_ports (dnat_rules port_map) (fwd_rules port_map) (ready s)"
  have other: "fw_chains ?s k = fw_chains (ready s) k" if "k \<noteq> (''nat'', CHAIN_DNAT)" "k \<noteq> (''filter'', CHAIN_FWD)" for k
    using that by (simp add: with_ports_def)
  have "built_in ?s" using assms(1) ready_chains(1,2) [OF assms(1)] other chain_names
    by (auto simp: built_in_def)
  from apply_forwardable [OF this assms(2)] have "apply_forwarded_ports port_map ?s = (Inr (), ?s)"
    by (simp add: ready_again [OF assms(1)])
  then show ?thesis using apply_forwardable [OF assms] ready_chains [OF assms(1)] other chain_names
    by (intro exI [of _ ?s]) (simp add: dnat_rules_def fwd_rules_def)
qed

text \<open>A firewall with its built-in chains empty that refuses a port above 65535, and two ports of one node.\<close>

fun ports_in_range :: "string list \<Rightarrow> bool" where
  "ports_in_range (flag # v # rest) \<longleftrightarrow>
     (flag = ''--dport'' \<longrightarrow> (case digits_val 0 v of Some p \<Rightarrow> p \<le> 65535 | None \<Rightarrow> False)) \<and> ports_in_range rest"
| "ports_in_range _ \<longleftrightarrow> True"

definition fresh_firewall :: firewall where
  "fresh_firewall = \<lparr>fw_up = True, fw_takes = ports_in_range, fw_chains = (\<lambda>k. if k \<in> {(''nat'', ''PREROUTING''), (''filter'', ''FORWARD'')} then Some [] else None)\<rparr>"

definition web_ports :: port_map where
  "web_ports = [(''10.0.0.5'', [''8080:80/TCP'', '' 53:53/udp''])]"

lemma web_specs: "parse_port_spec ''8080:80/TCP'' = Inr (8080, 80, ''tcp'')" "parse_port_spec '' 53:53/udp'' = Inr (53, 53, ''udp'')"
  by code_simp+

lemma digits_int_str: "0 \<le> i \<Longrightarrow> digits_val 0 (int_str i) = Some (nat i)"
  using uint_str_nat [of "nat i"] by (simp add: int_str_def)

lemma fresh_documented: "documented_rules fresh_firewall"
  by (auto simp: documented_rules_def fresh_firewall_def dnat_rule_def fwd_rule_def rule_ok_def port_ok_def digits_int_str nat_le_iff)

lemma fresh_built_in: "built_in fresh_firewall"
  using fresh_documented by (simp add: built_in_def fresh_firewall_def)

lemma web_forwardable: "forwardable web_ports"
proof -
  have "rule_ok ''10.0.0.5'' (8080, 80, ''tcp'')" "rule_ok ''10.0.0.5'' (53, 53, ''udp'')" by code_simp+
  then show ?thesis by (simp add: forwardable_def well_formed_def parsed_def specs_of_def web_ports_def web_specs)
qed

lemma forwarded_ports_applied_witness:
  "\<exists>s'. apply_forwarded_ports web_ports fresh_firewall = (Inr (), s') \<and>
     fw_chains s' (''nat'', CHAIN_DNAT) = Some [dnat_rule ''10.0.0.5'' (8080, 80, ''tcp''), dnat_rule ''10.0.0.5'' (53, 53, ''udp'')]"
proof -
  note fresh_built_in web_forwardable
  moreover have "map (\<lambda>(ip, p). dnat_rule ip p) (parsed web_ports) =
      [dnat_rule ''10.0.0.5'' (8080, 80, ''tcp''), dnat_rule ''10.0.0.5'' (53, 53, ''udp'')]"
    by (simp add: parsed_def specs_of_def web_ports_def web_specs)
  ultimately show ?thesis using forwarded_ports_applied [of fresh_firewall web_ports] by metis
qed

section \<open>Where a packet goes\<close>

text \<open>
  The abstract view of the firewall: for a protocol and a port of the hypervisor, the address and port a
  packet is sent on to, if any: by the first matching rule of the tool's DNAT chain, where PREROUTING
  reaches that chain, and let through by a rule of its filter chain, where FORWARD reaches it. What other rules
  of the two hooks do before is not looked at.
\<close>

definition dnat_target :: "string \<times> int \<Rightarrow> string list \<Rightarrow> string option" where
  "dnat_target pkt rule =
     (if take 3 rule = [''-p'', fst pkt, ''--dport''] \<and> take 4 (drop 3 rule) = [int_str (snd pkt), ''-j'', ''DNAT'', ''--to-destination'']
      then Some (hd (drop 7 rule)) else None)"

definition lets_through :: "string \<Rightarrow> string \<Rightarrow> string list \<Rightarrow> bool" where
  "lets_through proto dest rule =
     (take 3 rule = [''-p'', proto, ''-d''] \<and> take 1 (drop 4 rule) = [''--dport''] \<and> drop 6 rule = [''-j'', ''ACCEPT''] \<and>
      dest = rule ! 3 @ '':'' @ rule ! 5)"

definition hooked_chain :: "firewall \<Rightarrow> string \<Rightarrow> string \<Rightarrow> string \<Rightarrow> string list list" where
  "hooked_chain s t hook c =
     (case (fw_chains s (t, hook), fw_chains s (t, c)) of
        (Some hs, Some rules) \<Rightarrow> if [''-j'', c] \<in> set hs then rules else []
      | _ \<Rightarrow> [])"

definition sent_to :: "firewall \<Rightarrow> string \<times> int \<Rightarrow> string option" where
  "sent_to s pkt =
     (case List.map_filter (dnat_target pkt) (hooked_chain s ''nat'' ''PREROUTING'' CHAIN_DNAT) of
        [] \<Rightarrow> None
      | dest # _ \<Rightarrow> if list_ex (lets_through (fst pkt) dest) (hooked_chain s ''filter'' ''FORWARD'' CHAIN_FWD) then Some dest else None)"

text \<open>The table a definition declares: the first entry for the port, in the order of the nodes.\<close>

definition declared :: "port_map \<Rightarrow> string \<times> int \<Rightarrow> string option" where
  "declared port_map pkt =
     map_option (\<lambda>(ip, external, internal, proto). ip @ '':'' @ int_str internal)
       (find (\<lambda>(ip, external, internal, proto). (proto, external) = pkt) (parsed port_map))"

lemma int_str_inject: "int_str i = int_str j \<longleftrightarrow> i = j"
proof -
  have pos: "uint_str i = nat_str (nat i)" if "0 \<le> i" for i :: int using uint_str_nat [of "nat i"] that by simp
  have neq: "CHR ''-'' # cs \<noteq> nat_str n" for cs n
  proof
    assume "CHR ''-'' # cs = nat_str n"
    then have "CHR ''-'' \<in> set (nat_str n)" by (metis list.set_intros(1))
    from nat_str_digits [OF this] show False by (simp add: is_digit_def code_def)
  qed
  show ?thesis using neq neq [symmetric] by (auto simp: int_str_def pos nat_str_inject)
qed

lemma dnat_target_rule:
  "dnat_target pkt (dnat_rule ip (external, internal, proto)) =
     (if (proto, external) = pkt then Some (ip @ '':'' @ int_str internal) else None)"
  by (cases pkt) (auto simp: dnat_target_def dnat_rule_def int_str_inject)

lemma lets_through_rule:
  "lets_through proto (ip @ '':'' @ int_str internal) (fwd_rule ip (external, internal, proto))"
  by (simp add: lets_through_def fwd_rule_def)

lemma first_target:
  "List.map_filter (dnat_target pkt) (map (\<lambda>(ip, p). dnat_rule ip p) ps) =
     map (\<lambda>(ip, external, internal, proto). ip @ '':'' @ int_str internal) (filter (\<lambda>(ip, external, internal, proto). (proto, external) = pkt) ps)"
  by (induction ps) (auto simp: List.map_filter_def dnat_target_rule split: if_splits)

lemma find_filter: "find P xs = (case filter P xs of [] \<Rightarrow> None | x # _ \<Rightarrow> Some x)"
  by (induction xs) auto


definition ports_lab :: dict where
  "ports_lab = [(''nodes'', PDict [(''web'', PDict [(''myip'', PStr ''10.0.0.5''), (''forwarded_ports'', PList [PStr ''8080:80/TCP'', PStr '' 53:53/udp''])]),
     (''db'', PDict [(''forwarded_ports'', PList [PStr ''5432:5432/tcp''])])])]"


text \<open>
  A port above 65535 passes the pattern of an entry, and iptables refuses its rule: the code dies after the rules of the entries
  before it, and leaves the others out.
\<close>

lemma refused_port_cuts_rules:
  assumes "built_in s" and "well_formed port_map" and "parsed port_map = ps @ (ip, external, internal, proto) # qs"
    and "list_all (\<lambda>(ip, p). rule_ok ip p) ps" and "65535 < external"
  shows "\<exists>s' m. apply_forwarded_ports port_map s = (Inl (SystemExit m), s') \<and>
    fw_chains s' (''nat'', CHAIN_DNAT) = Some (map (\<lambda>(ip, p). dnat_rule ip p) ps) \<and>
    fw_chains s' (''filter'', CHAIN_FWD) = Some (map (\<lambda>(ip, p). fwd_rule ip p) ps)"
proof -
  let ?p = "(external, internal, proto)" and ?a = "map (\<lambda>(ip, p). dnat_rule ip p) ps" and ?b = "map (\<lambda>(ip, p). fwd_rule ip p) ps"
  have up: "fw_up (ready s)" and d: "documented_rules (ready s)" using assms(1) by (simp_all add: built_in_def)
  then have "\<not> fw_takes (ready s) (dnat_rule ip ?p)" using assms(5) unfolding documented_rules_def by auto
  then have dies: "apply_rule (dnat_cmd (dnat_rule ip ?p)) (with_ports ?a ?b (ready s)) =
      (Inl (SystemExit (''iptables '' @ join '' '' (dnat_cmd (dnat_rule ip ?p)) @ '' failed'')), with_ports ?a ?b (ready s))"
    using up by (simp add: dnat_cmd_def apply_rule_def run_def iptables_def table_of_def iptables_cmd_def act_simps)
  have app: "act_for (xs @ ys) f s0 = (case act_for xs f s0 of (Inl e, s1) \<Rightarrow> (Inl e, s1) | (Inr _, s1) \<Rightarrow> act_for ys f s1)"
    for xs ys :: "'c list" and f :: "'c \<Rightarrow> (firewall, unit) act" and s0
    by (induction xs arbitrary: s0) (auto simp: act_simps act_then_app split: prod.splits sum.splits)
  have "apply_forwarded_ports port_map s =
      act_for (concat (map (\<lambda>(ip, p). spec_rules ip p) ps) @ dnat_cmd (dnat_rule ip ?p) # fwd_cmd (fwd_rule ip ?p) #
        concat (map (\<lambda>(ip, p). spec_rules ip p) qs)) apply_rule (ready s)"
    unfolding apply_ready [OF assms(1)] build_rules_conv [OF assms(2)] assms(3)
    using spec_rules_def [of ip ?p] by (simp add: act_bind_app act_res_app)
  also have "\<dots> = (Inl (SystemExit (''iptables '' @ join '' '' (dnat_cmd (dnat_rule ip ?p)) @ '' failed'')), with_ports ?a ?b (ready s))"
    unfolding app using apply_rules [OF up d assms(4), of "[]" "[]"] by (simp add: act_then_app dies)
  finally show ?thesis by simp
qed

text \<open>A malformed entry is noticed only after both chains were flushed: the code dies and no port is
  forwarded any more.\<close>

lemma malformed_spec_drops_rules:
  assumes "built_in s" and "build_dnat_rules port_map = Inl e"
  shows "\<exists>s'. apply_forwarded_ports port_map s = (Inl e, s') \<and>
    fw_chains s' (''nat'', CHAIN_DNAT) = Some [] \<and> fw_chains s' (''filter'', CHAIN_FWD) = Some []"
  by (simp add: apply_ready [OF assms(1)] act_bind_app act_res_app assms(2)) (simp add: ready_def)

end
