(* ===== verification/Remote_Run.thy ===== *)
theory Remote_Run
  imports Py_Action Version_Matrix
begin

text \<open>
  Commands on other hosts: \<open>ssh_run\<close>, \<open>ssh_output\<close>, the waits and the reboots of \<open>libs/lab_creation.py\<close>, as
  actions on the log of everything that was run. What a host answers may depend on all that was run before: the
  world is a function of the log. Time is in the world too: \<open>w_tries\<close> is the number of attempts that
  fit into the time a wait allows, of which the code always makes at least one.
\<close>

datatype event =
    Ssh string string
  | Ssh_Input string string string
  | Rsync string string string
  | Local "string list" string

record world =
  w_answer :: "event \<Rightarrow> event list \<Rightarrow> int \<times> string"
  w_tries :: "event \<Rightarrow> event list \<Rightarrow> nat"

record site =
  st_log :: "event list"
  st_files :: "(string \<times> string) list"
  st_warnings :: "string list"

type_synonym 'a job = "(site, 'a) act"

definition happen :: "world \<Rightarrow> event \<Rightarrow> (int \<times> string) job" where
  "happen w e = (\<lambda>s. (Inr (w_answer w e (st_log s)), s\<lparr>st_log := st_log s @ [e]\<rparr>))"

definition warn :: "string \<Rightarrow> unit job" where
  "warn msg = act_upd (\<lambda>s. s\<lparr>st_warnings := st_warnings s @ [msg]\<rparr>)"

definition die :: "string \<Rightarrow> 'a job" where
  "die msg = act_raise (SystemExit msg)"

section \<open>SSH\<close>

definition ssh_failed :: "string \<Rightarrow> string \<Rightarrow> int \<Rightarrow> string" where
  "ssh_failed host cmd rc = ''SSH command failed (rc='' @ int_str rc @ '') on '' @ host @ '':'' @ NL @ ''  '' @ take 120 cmd"

definition checked :: "world \<Rightarrow> string \<Rightarrow> string \<Rightarrow> event \<Rightarrow> string job" where
  "checked w host cmd e =
     act_bind (happen w e) (\<lambda>(rc, out). if rc \<noteq> 0 then act_raise (RuntimeError (ssh_failed host cmd rc)) else act_ret out)"

definition ssh_run :: "world \<Rightarrow> string \<Rightarrow> string \<Rightarrow> unit job" where
  "ssh_run w host cmd = act_bind (checked w host cmd (Ssh host cmd)) (\<lambda>_. act_ret ())"

definition ssh_try :: "world \<Rightarrow> string \<Rightarrow> string \<Rightarrow> (int \<times> string) job" where
  "ssh_try w host cmd = happen w (Ssh host cmd)"

definition ssh_ok :: "world \<Rightarrow> string \<Rightarrow> string \<Rightarrow> bool job" where
  "ssh_ok w host cmd = act_bind (ssh_try w host cmd) (\<lambda>(rc, _). act_ret (rc = 0))"

definition ssh_output :: "world \<Rightarrow> string \<Rightarrow> string \<Rightarrow> string job" where
  "ssh_output w host cmd = act_bind (checked w host cmd (Ssh host cmd)) (\<lambda>out. act_ret (str_strip out))"

section \<open>Waiting\<close>

fun attempt :: "world \<Rightarrow> event \<Rightarrow> nat \<Rightarrow> bool job" where
  "attempt w e 0 = act_ret False"
| "attempt w e (Suc n) = act_bind (happen w e) (\<lambda>(rc, _). if rc = 0 then act_ret True else attempt w e n)"

definition wait_for_ssh_command :: "world \<Rightarrow> string \<Rightarrow> string \<Rightarrow> bool job" where
  "wait_for_ssh_command w host cmd = (\<lambda>s. attempt w (Ssh host cmd) (max 1 (w_tries w (Ssh host cmd) (st_log s))) s)"

section \<open>Transactional hosts\<close>

definition BOOT_ID_CMD :: string where
  "BOOT_ID_CMD = ''cat /proc/sys/kernel/random/boot_id''"

definition boot_id :: "world \<Rightarrow> string \<Rightarrow> string job" where
  "boot_id w host = act_bind (ssh_try w host BOOT_ID_CMD) (\<lambda>(rc, out). act_ret (if rc = 0 then str_strip out else []))"

definition wait_for_reboot :: "world \<Rightarrow> string \<Rightarrow> string \<Rightarrow> bool job" where
  "wait_for_reboot w host old_boot_id =
     wait_for_ssh_command w host (''test '' @ dq (''$('' @ BOOT_ID_CMD @ '')'') @ '' != '' @ shlex_quote old_boot_id)"

definition is_transactional :: "world \<Rightarrow> string \<Rightarrow> bool job" where
  "is_transactional w host = ssh_ok w host ''[ -x /usr/sbin/transactional-update ]''"

definition KERNEL_CMD :: string where
  "KERNEL_CMD = ''transactional-update -n pkg update '' @
     dq (''$(rpm -q --qf '' @ sq ''%{NAME}'' @ '' -f /usr/lib/modules/$(uname -r)/vmlinuz)'')"

text \<open>The warning's last part is the command's output; the world has one text for what a command prints.\<close>

definition last_chars :: "nat \<Rightarrow> string \<Rightarrow> string" where
  "last_chars n s = drop (length s - n) s"

definition update_kernel :: "world \<Rightarrow> string \<Rightarrow> unit job" where
  "update_kernel w host =
     act_bind (ssh_try w host KERNEL_CMD) (\<lambda>(rc, out).
     if rc \<noteq> 0 then warn (''could not update the kernel on '' @ sq host @ '': '' @ last_chars 300 (str_strip out)) else act_ret ())"

definition pending_snapshot :: "world \<Rightarrow> string \<Rightarrow> bool job" where
  "pending_snapshot w host =
     ssh_ok w host (''[ -x /usr/sbin/transactional-update ] && '' @
       ''snapper --csvout list --columns active,default | grep -qx '' @ sq ''no,yes'')"

definition lock_message :: "string \<Rightarrow> string" where
  "lock_message host = ''transactional-update on '' @ sq host @ '' was still locked after 600s''"

definition LOCK_CMD :: string where
  "LOCK_CMD = ''[ ! -e /run/transactional-update.pid ] || ! kill -0 '' @ dq ''$(head -1 /run/transactional-update.pid)'' @ '' 2>/dev/null''"

definition wait_for_transactional_update_lock :: "world \<Rightarrow> string \<Rightarrow> unit job" where
  "wait_for_transactional_update_lock w host =
     act_bind (wait_for_ssh_command w host LOCK_CMD) (\<lambda>ok. if ok then act_ret () else die (lock_message host))"

definition reboot_message :: "string \<Rightarrow> string" where
  "reboot_message host = sq host @ '' did not come back within 600s after rebooting into its pending snapshot''"

definition reboot_into_pending_snapshot :: "world \<Rightarrow> string \<Rightarrow> bool job" where
  "reboot_into_pending_snapshot w host =
     act_bind (pending_snapshot w host) (\<lambda>p.
     if \<not> p then act_ret False
     else act_bind (boot_id w host) (\<lambda>old.
          act_then (ssh_try w host ''systemctl reboot'')
          (act_bind (wait_for_reboot w host old) (\<lambda>back.
           if back then act_ret True else die (reboot_message host)))))"

section \<open>Lemmas\<close>

text \<open>Every action only adds to the log: what was run stays recorded, in order.\<close>

definition grows :: "'a job \<Rightarrow> bool" where
  "grows m = (\<forall>s. \<exists>es. st_log (snd (m s)) = st_log s @ es)"

named_theorems grows_intros

lemma grows_ret [grows_intros]: "grows (act_ret x)" by (simp add: grows_def act_simps)

lemma grows_raise [grows_intros]: "grows (act_raise e)" by (simp add: grows_def act_simps)

lemma grows_res [grows_intros]: "grows (act_res r)" by (simp add: grows_def act_simps)

lemma grows_die [grows_intros]: "grows (die m)" by (simp add: die_def grows_raise)

lemma grows_warn [grows_intros]: "grows (warn m)" by (simp add: warn_def grows_def act_simps)

lemma grows_happen [grows_intros]: "grows (happen w e)" by (simp add: grows_def happen_def)

lemma grows_bind [grows_intros]: "grows m \<Longrightarrow> (\<And>x. grows (f x)) \<Longrightarrow> grows (act_bind m f)"
  unfolding grows_def act_bind_def
  by (auto split: prod.splits sum.splits) (metis append_assoc snd_conv)+

lemma grows_then [grows_intros]: "grows m \<Longrightarrow> grows n \<Longrightarrow> grows (act_then m n)"
  by (simp add: act_then_def grows_bind)

lemma grows_if [grows_intros]: "grows m \<Longrightarrow> grows n \<Longrightarrow> grows (if b then m else n)" by simp

lemma grows_pair [grows_intros]: "(\<And>a b. grows (f a b)) \<Longrightarrow> grows (case p of (a, b) \<Rightarrow> f a b)" by (cases p) simp

lemma grows_for [grows_intros]: "(\<And>x. grows (f x)) \<Longrightarrow> grows (act_for xs f)"
  by (induction xs) (auto intro: grows_intros)

lemma grows_attempt [grows_intros]: "grows (attempt w e n)"
  by (induction n) (auto intro!: grows_intros)

lemma grows_ssh [grows_intros]:
  "grows (checked w h c e)" "grows (ssh_run w h c)" "grows (ssh_try w h c)" "grows (ssh_ok w h c)" "grows (ssh_output w h c)"
  by (auto simp: checked_def ssh_run_def ssh_try_def ssh_ok_def ssh_output_def intro!: grows_intros)

lemma grows_wait [grows_intros]: "grows (wait_for_ssh_command w h c)"
  using grows_attempt unfolding wait_for_ssh_command_def grows_def by blast

lemma grows_hosts [grows_intros]:
  "grows (boot_id w h)" "grows (wait_for_reboot w h i)" "grows (is_transactional w h)" "grows (update_kernel w h)"
  "grows (pending_snapshot w h)" "grows (wait_for_transactional_update_lock w h)" "grows (reboot_into_pending_snapshot w h)"
  by (auto simp: boot_id_def wait_for_reboot_def is_transactional_def update_kernel_def pending_snapshot_def
      wait_for_transactional_update_lock_def reboot_into_pending_snapshot_def intro!: grows_intros)

end
