(* ===== verification/K8s_Plan.thy ===== *)
theory K8s_Plan
  imports Addon_Registry Lab_Defs Remote_Run "HOL-Library.Sublist"
begin

text \<open>
  The kclusters of a lab: the first and the last part of \<open>libs/k8s.py\<close>. What each Kubernetes distribution
  brings, what supplies a cluster's ingress controller and storage class, and which nodes are a cluster's.

  \<open>plugin\<close> is what \<open>apps.load_plugin\<close> gives for an add-on's name.
\<close>

section \<open>Cluster metadata\<close>

definition list_kclusters :: "dict \<Rightarrow> string list res" where
  "list_kclusters defn = res_bind (strict_dict (get_dflt defn ''kclusters'' (PDict []))) (\<lambda>c. Inr (map fst c))"

definition get_vm_kcluster :: "dict \<Rightarrow> string \<Rightarrow> pval res" where
  "get_vm_kcluster defn vm_name =
     res_bind (strict_dict (get_dflt defn ''nodes'' (PDict []))) (\<lambda>nodes.
     res_bind (strict_dict (get_dflt nodes vm_name (PDict []))) (\<lambda>node. Inr (get_dflt node ''kcluster'' (PStr []))))"

fun is_scalar :: "pval \<Rightarrow> bool" where
  "is_scalar (PStr _) = True"
| "is_scalar (PInt _) = True"
| "is_scalar (PBool _) = True"
| "is_scalar _ = False"

definition load_kclu_vars :: "dict \<Rightarrow> string \<Rightarrow> dict res" where
  "load_kclu_vars defn clu_name =
     (if clu_name = [] then Inr []
      else res_bind (strict_dict (get_dflt defn ''kclusters'' (PDict []))) (\<lambda>kclusters.
        case map_of kclusters clu_name of
          None \<Rightarrow> Inl (SystemExit (''kcluster '' @ sq clu_name @ '' not found in definition''))
        | Some c \<Rightarrow> res_bind (strict_dict c) (\<lambda>d. Inr (filter (\<lambda>(_, v). is_scalar v) d))))"

section \<open>Distributions\<close>

definition CLUSTER_INGRESS :: string where "CLUSTER_INGRESS = ''ingress''"
definition CLUSTER_STORAGECLASS :: string where "CLUSTER_STORAGECLASS = ''storageclass''"

record distro =
  d_name :: string
  bundled :: "string list"
  bundled_choice :: "(string \<times> string) list"
  can_disable_bundled :: bool
  kubeconfig_path :: string
  token_path :: string
  kubectl_command :: string

definition k3s_distro :: distro where
  "k3s_distro = \<lparr>d_name = ''k3s'', bundled = [CLUSTER_INGRESS, CLUSTER_STORAGECLASS],
     bundled_choice = [(CLUSTER_INGRESS, ''traefik''), (CLUSTER_STORAGECLASS, ''local-path'')], can_disable_bundled = True,
     kubeconfig_path = ''/etc/rancher/k3s/k3s.yaml'', token_path = ''/var/lib/rancher/k3s/server/node-token'',
     kubectl_command = ''PATH=$PATH:/usr/local/bin:/opt/bin k3s kubectl''\<rparr>"

definition rke2_distro :: distro where
  "rke2_distro = \<lparr>d_name = ''rke2'', bundled = [CLUSTER_INGRESS], bundled_choice = [(CLUSTER_INGRESS, ''nginx'')],
     can_disable_bundled = True, kubeconfig_path = ''/etc/rancher/rke2/rke2.yaml'',
     token_path = ''/var/lib/rancher/rke2/server/node-token'',
     kubectl_command = ''/var/lib/rancher/rke2/bin/kubectl --kubeconfig /etc/rancher/rke2/rke2.yaml''\<rparr>"

definition kubeadm_distro :: distro where
  "kubeadm_distro = \<lparr>d_name = ''kubeadm'', bundled = [], bundled_choice = [], can_disable_bundled = True,
     kubeconfig_path = ''/etc/kubernetes/admin.conf'', token_path = [],
     kubectl_command = ''kubectl --kubeconfig /etc/kubernetes/admin.conf''\<rparr>"

text \<open>Harvester has no kubectl command of its own: \<open>K8sDistro\<close>'s raises.\<close>

definition harvester_distro :: distro where
  "harvester_distro = \<lparr>d_name = ''harvester'', bundled = [CLUSTER_INGRESS, CLUSTER_STORAGECLASS],
     bundled_choice = [(CLUSTER_INGRESS, ''nginx''), (CLUSTER_STORAGECLASS, ''longhorn'')], can_disable_bundled = False,
     kubeconfig_path = ''/etc/rancher/rke2/rke2.yaml'', token_path = ''/var/lib/rancher/rke2/server/node-token'',
     kubectl_command = []\<rparr>"

definition DISTROS :: "(string \<times> distro) list" where
  "DISTROS = [(''harvester'', harvester_distro), (''k3s'', k3s_distro), (''kubeadm'', kubeadm_distro), (''rke2'', rke2_distro)]"

text \<open>\<open>DISTROS.get(clu_type)\<close>: an unhashable value raises.\<close>

definition known_distro :: "pval \<Rightarrow> distro option res" where
  "known_distro clu_type =
     (case clu_type of PStr t \<Rightarrow> Inr (map_of DISTROS t)
      | PList _ \<Rightarrow> Inl (TypeError ''unhashable'') | PDict _ \<Rightarrow> Inl (TypeError ''unhashable'') | _ \<Rightarrow> Inr None)"

definition get_distro :: "pval \<Rightarrow> distro res" where
  "get_distro clu_type =
     res_bind (known_distro clu_type) (\<lambda>d. case d of
       Some x \<Rightarrow> Inr x
     | None \<Rightarrow> Inl (SystemExit (''Unknown Kubernetes distribution '' @ sq (py_str clu_type) @ '' '' @ emdash @ '' supported: '' @
         join '', '' (sort (map fst DISTROS)))))"

section \<open>The ingress controller and the storage class\<close>

definition INGRESS_ADDONS :: "(string \<times> string) list" where
  "INGRESS_ADDONS = [(''nginx'', ''nginx''), (''traefik'', ''traefik''), (''none'', [])]"
definition STORAGE_ADDONS :: "(string \<times> string) list" where
  "STORAGE_ADDONS = [(''longhorn'', ''longhorn''), (''local-path'', ''local_path''), (''none'', [])]"
definition DEFAULT_INGRESS :: string where "DEFAULT_INGRESS = ''nginx''"
definition DEFAULT_STORAGE :: string where "DEFAULT_STORAGE = ''longhorn''"

type_synonym choice = "string \<times> string \<times> (string \<times> string) list \<times> string"

definition CLUSTER_CHOICES :: "choice list" where
  "CLUSTER_CHOICES =
     [(CLUSTER_INGRESS, ''clu_ingress'', INGRESS_ADDONS, DEFAULT_INGRESS),
      (CLUSTER_STORAGECLASS, ''clu_storage'', STORAGE_ADDONS, DEFAULT_STORAGE)]"

text \<open>\<open>(definition.get("kclusters", {}) or {}).get(clu_name, {}) or {}\<close>.\<close>

definition clu_section :: "dict \<Rightarrow> string \<Rightarrow> dict res" where
  "clu_section defn clu_name =
     res_bind (or_dict (get_dflt defn ''kclusters'' (PDict []))) (\<lambda>kclusters. or_dict (get_dflt kclusters clu_name (PDict [])))"

definition own_choice :: "distro option \<Rightarrow> string \<Rightarrow> string option" where
  "own_choice dist need = (case dist of None \<Rightarrow> None | Some d \<Rightarrow> map_of (bundled_choice d) need)"

definition text_choice :: "pval \<Rightarrow> string" where
  "text_choice v = str_lower (str_strip (py_str v))"

definition unknown_choice :: "string \<Rightarrow> string \<Rightarrow> string \<Rightarrow> string list \<Rightarrow> string" where
  "unknown_choice clu_name field choice names =
     ''kclusters.'' @ clu_name @ '': '' @ field @ '' '' @ sq choice @ '' is unknown '' @ emdash @ '' use one of '' @ join '', '' (sort names)"

definition choice_of :: "dict \<Rightarrow> distro option \<Rightarrow> choice \<Rightarrow> string" where
  "choice_of clu_cfg dist = (\<lambda>(need, field, choices, dflt).
     text_choice (py_or (get clu_cfg field) (PStr (case own_choice dist need of Some own \<Rightarrow> own | None \<Rightarrow> dflt))))"

fun cluster_choice_from :: "string \<Rightarrow> dict \<Rightarrow> distro option \<Rightarrow> string \<Rightarrow> choice list \<Rightarrow> string res" where
  "cluster_choice_from clu_name clu_cfg dist need [] = Inr []"
| "cluster_choice_from clu_name clu_cfg dist need ((a_need, field, choices, dflt) # rest) =
     (if a_need \<noteq> need then cluster_choice_from clu_name clu_cfg dist need rest
      else
        (let choice = choice_of clu_cfg dist (a_need, field, choices, dflt) in
         if map_of choices choice = None then Inl (SystemExit (unknown_choice clu_name field choice (map fst choices)))
         else Inr choice))"

definition cluster_choice :: "dict \<Rightarrow> string \<Rightarrow> string \<Rightarrow> string res" where
  "cluster_choice defn clu_name need =
     res_bind (clu_section defn clu_name) (\<lambda>clu_cfg.
     res_bind (known_distro (get clu_cfg ''clu_type'')) (\<lambda>dist.
     cluster_choice_from clu_name clu_cfg dist need CLUSTER_CHOICES))"

text \<open>The names in an add-on list, and what a list of a plugin says for them. A name or a need that is no text,
  which the code would carry along, raises.\<close>

definition entry_names :: "dict \<Rightarrow> string list res" where
  "entry_names clu_cfg = res_bind (or_list (get clu_cfg ''addons'')) (\<lambda>es. res_map (\<lambda>e. res_bind (addon_entry_name e) as_str) es)"

definition plugin_needs :: "(string \<Rightarrow> dict) \<Rightarrow> string \<Rightarrow> string \<Rightarrow> string list res" where
  "plugin_needs plugin key name = res_bind (or_list (get (plugin name) key)) (res_map as_str)"

definition addon_needs :: "(string \<Rightarrow> dict) \<Rightarrow> string \<Rightarrow> dict \<Rightarrow> string list res" where
  "addon_needs plugin key clu_cfg =
     res_bind (entry_names clu_cfg) (\<lambda>names. res_bind (res_map (plugin_needs plugin key) names) (\<lambda>ns. Inr (concat ns)))"

definition cluster_needs :: "(string \<Rightarrow> dict) \<Rightarrow> dict \<Rightarrow> string \<Rightarrow> string list res" where
  "cluster_needs plugin defn clu_name = res_bind (clu_section defn clu_name) (addon_needs plugin ''requires_cluster'')"

definition not_replaceable :: "string \<Rightarrow> string \<Rightarrow> string \<Rightarrow> distro \<Rightarrow> string \<Rightarrow> string" where
  "not_replaceable clu_name field choice dist need =
     ''kclusters.'' @ clu_name @ '': '' @ field @ '' cannot be '' @ sq choice @ '' on a '' @ d_name dist @
     '' cluster, which brings its own '' @ sq (or_nil (map_of (bundled_choice dist) need))"

definition plan_step ::
  "string \<Rightarrow> dict \<Rightarrow> distro \<Rightarrow> string list \<Rightarrow> string list \<Rightarrow> choice \<Rightarrow> (string \<times> string) list \<Rightarrow> (string \<times> string) list res" where
  "plan_step clu_name clu_cfg dist listed required = (\<lambda>(need, field, choices, dflt) plan.
     (let asked = text_choice (py_or (get clu_cfg field) (PStr [])) in
      if asked = [] \<and> (need \<in> set (bundled dist) \<or> need \<notin> set required) then Inr plan
      else res_bind (cluster_choice_from clu_name clu_cfg (Some dist) need CLUSTER_CHOICES) (\<lambda>choice.
        if map_of (bundled_choice dist) need = Some choice then Inr plan
        else if need \<in> set (bundled dist) \<and> \<not> can_disable_bundled dist
             then Inl (SystemExit (not_replaceable clu_name field choice dist need))
        else (case map_of choices choice of
               None \<Rightarrow> Inl (KeyError choice)
             | Some addon \<Rightarrow> Inr (if addon \<noteq> [] \<and> addon \<notin> set listed then plan @ [(need, addon)] else plan)))))"

definition cluster_plan :: "(string \<Rightarrow> dict) \<Rightarrow> dict \<Rightarrow> string \<Rightarrow> (string \<times> string) list res" where
  "cluster_plan plugin defn clu_name =
     res_bind (clu_section defn clu_name) (\<lambda>clu_cfg.
     res_bind (known_distro (get clu_cfg ''clu_type'')) (\<lambda>known.
     case known of None \<Rightarrow> Inr []
     | Some dist \<Rightarrow>
         res_bind (entry_names clu_cfg) (\<lambda>listed.
         res_bind (cluster_needs plugin defn clu_name) (\<lambda>required.
         res_fold (plan_step clu_name clu_cfg dist listed required) CLUSTER_CHOICES []))))"

definition cluster_services :: "(string \<Rightarrow> dict) \<Rightarrow> dict \<Rightarrow> string \<Rightarrow> string list res" where
  "cluster_services plugin defn clu_name = res_bind (cluster_plan plugin defn clu_name) (\<lambda>plan. Inr (map snd plan))"

definition cluster_disabled :: "dict \<Rightarrow> distro \<Rightarrow> string list" where
  "cluster_disabled clu_ctx dist =
     List.map_filter (\<lambda>(need, field, _).
       case map_of (bundled_choice dist) need of
         None \<Rightarrow> None
       | Some own \<Rightarrow> if text_choice (py_or (get clu_ctx field) (PStr own)) \<noteq> own then Some need else None) CLUSTER_CHOICES"

definition cluster_provides :: "(string \<Rightarrow> dict) \<Rightarrow> dict \<Rightarrow> string \<Rightarrow> string list res" where
  "cluster_provides plugin defn clu_name =
     res_bind (clu_section defn clu_name) (\<lambda>clu_cfg.
     res_bind (known_distro (get clu_cfg ''clu_type'')) (\<lambda>dist.
     res_bind (cluster_plan plugin defn clu_name) (\<lambda>plan.
     res_bind (addon_needs plugin ''provides_cluster'' clu_cfg) (\<lambda>own.
     Inr ((case dist of None \<Rightarrow> [] | Some d \<Rightarrow> bundled d) @ map fst plan @ own)))))"

section \<open>Nodes of a cluster\<close>

text \<open>The nodes of the cluster with their settings, in the lab definition's order.\<close>

definition cluster_members :: "dict \<Rightarrow> string \<Rightarrow> (string \<times> dict) list res" where
  "cluster_members defn clu_name =
     res_bind (or_dict (get defn ''nodes'')) (\<lambda>nodes.
     res_bind (res_map (\<lambda>(n, cfg). res_bind (or_dict cfg) (\<lambda>c. Inr (n, c))) nodes) (\<lambda>ms.
     Inr (filter (\<lambda>(_, c). get c ''kcluster'' = PStr clu_name) ms)))"

definition kcluster_node_count :: "dict \<Rightarrow> string \<Rightarrow> nat res" where
  "kcluster_node_count defn clu_name = res_bind (cluster_members defn clu_name) (\<lambda>ms. Inr (length ms))"

definition kcluster_node :: "dict \<Rightarrow> string \<Rightarrow> string res" where
  "kcluster_node defn clu_name =
     res_bind (clu_section defn clu_name) (\<lambda>clu_cfg.
     (let named = str_strip (py_str (py_or (get clu_cfg ''mgm_node'') (PStr []))) in
      if named \<noteq> [] then Inr named
      else res_bind (cluster_members defn clu_name) (\<lambda>members.
        case filter (\<lambda>(_, cfg). py_or (py_or (get cfg ''KUBERNETES_NODE_TYPE'') (get cfg ''INSTALL_RKE2_TYPE'')) (PStr ''server'') = PStr ''server'') members of
          (n, _) # _ \<Rightarrow> Inr n
        | [] \<Rightarrow> Inr (case members of (n, _) # _ \<Rightarrow> n | [] \<Rightarrow> []))))"

text \<open>\<open>hint\<close> and \<open>clu_hint\<close> are the environment variables \<open>_vm_name\<close> and \<open>clu_name\<close>.\<close>

definition ssh_command :: "string \<Rightarrow> string \<Rightarrow> string" where
  "ssh_command options host = ''ssh -o StrictHostKeyChecking=accept-new '' @ options @ ''root@'' @ host"

fun first_server :: "(string \<times> pval) list \<Rightarrow> string option res" where
  "first_server [] = Inr None"
| "first_server ((n, cfg) # rest) =
     res_bind (strict_dict cfg) (\<lambda>c.
     if get_dflt c ''INSTALL_RKE2_TYPE'' (PStr []) \<in> {PStr ''server'', PStr []} then Inr (Some n) else first_server rest)"

definition first_server_node :: "string option \<Rightarrow> string option \<Rightarrow> dict \<Rightarrow> (string \<times> string) option job" where
  "first_server_node hint clu_hint defn =
     act_bind (act_res (strict_dict (get_dflt defn ''nodes'' (PDict [])))) (\<lambda>nodes.
     (let hinted = (if or_nil clu_hint \<noteq> [] then hint else None) in
      if or_nil hinted \<noteq> [] \<and> has_key nodes (or_nil hinted)
      then act_ret (Some (or_nil hinted, ssh_command ''-q '' (or_nil hinted)))
      else act_bind (act_res (first_server nodes)) (\<lambda>found. case found of
          Some n \<Rightarrow> act_ret (Some (n, ssh_command ''-q '' n))
        | None \<Rightarrow> act_then (warn ''No server node found in definition'') (act_ret None))))"

fun has_addon :: "string \<Rightarrow> pval list \<Rightarrow> bool res" where
  "has_addon addon [] = Inr False"
| "has_addon addon (e # es) = res_bind (addon_entry_name e) (\<lambda>name. if name = PStr addon then Inr True else has_addon addon es)"

definition addon_nodes :: "dict \<Rightarrow> string \<Rightarrow> string \<Rightarrow> (string \<times> string) list job" where
  "addon_nodes defn addon vm_name =
     (if vm_name \<noteq> [] then act_ret [(vm_name, ssh_command [] vm_name)]
      else
        act_bind (act_res (strict_dict (get_dflt defn ''nodes'' (PDict [])))) (\<lambda>nodes.
        act_bind (act_res (res_map (\<lambda>(n, cfg). res_bind (strict_dict cfg) (\<lambda>c.
          res_bind (or_list (get c ''addons'')) (\<lambda>es. res_bind (has_addon addon es) (\<lambda>has. Inr (n, has))))) nodes)) (\<lambda>all.
        (let results = map (\<lambda>(n, _). (n, ssh_command [] n)) (filter snd all) in
         if results = [] then act_then (warn (''No node with addon '' @ sq addon @ '' found in definition'')) (act_ret results)
         else act_ret results))))"

fun first_override :: "string \<Rightarrow> dict \<Rightarrow> pval list \<Rightarrow> dict res" where
  "first_override addon shared [] = Inr shared"
| "first_override addon shared (entry # rest) =
     res_bind (addon_entry_name entry) (\<lambda>name.
     if name \<noteq> PStr addon then first_override addon shared rest
     else res_bind (addon_entry_overrides entry) (\<lambda>ov.
       if truthy ov then res_bind (strict_dict ov) (\<lambda>d. Inr (update_all d shared)) else first_override addon shared rest))"

definition addon_node_config :: "dict \<Rightarrow> string \<Rightarrow> string \<Rightarrow> dict res" where
  "addon_node_config defn addon vm_name =
     res_bind (or_dict (get_dflt defn addon (PDict []))) (\<lambda>shared.
     res_bind (strict_dict (get_dflt defn ''nodes'' (PDict []))) (\<lambda>nodes.
     res_bind (or_dict (get_dflt nodes vm_name (PDict []))) (\<lambda>node_cfg.
     res_bind (or_list (get node_cfg ''addons'')) (first_override addon shared))))"

section \<open>What a cluster's add-ons need is there\<close>

text \<open>A bundled component that is not disabled, and what the lab's choice of a need comes down to.\<close>

definition kept :: "distro \<Rightarrow> dict \<Rightarrow> string \<Rightarrow> bool" where
  "kept dist clu_cfg need = (need \<in> set (bundled dist) \<and> need \<notin> set (cluster_disabled clu_cfg dist))"

definition sane_distro :: "distro \<Rightarrow> bool" where
  "sane_distro d = (fst ` set (bundled_choice d) = set (bundled d) \<and> distinct (map fst (bundled_choice d)) \<and>
     (\<forall>(n, c) \<in> set (bundled_choice d). text_choice (PStr c) = c \<and> c \<noteq> []))"

lemma distros_sane: "list_all (\<lambda>(_, d). sane_distro d) DISTROS"
  unfolding sane_distro_def by code_simp

lemma distro_sane: "known_distro t = Inr (Some d) \<Longrightarrow> sane_distro d"
proof -
  assume "known_distro t = Inr (Some d)"
  then obtain n where "map_of DISTROS n = Some d" by (cases t) (auto simp: known_distro_def)
  then have "(n, d) \<in> set DISTROS" by (rule map_of_SomeD)
  then show "sane_distro d" using distros_sane by (auto simp: list_all_iff)
qed

lemma disabled_iff:
  "need \<in> set (cluster_disabled clu_ctx dist) \<longleftrightarrow>
     (\<exists>field choices dflt own. (need, field, choices, dflt) \<in> set CLUSTER_CHOICES \<and> map_of (bundled_choice dist) need = Some own \<and>
        text_choice (py_or (get clu_ctx field) (PStr own)) \<noteq> own)"
  unfolding cluster_disabled_def List.map_filter_def
  by (auto split: option.splits if_splits) (force intro!: image_eqI)+

lemma choices_functional:
  "(need, f1, c1, d1) \<in> set CLUSTER_CHOICES \<Longrightarrow> (need, f2, c2, d2) \<in> set CLUSTER_CHOICES \<Longrightarrow> f1 = f2 \<and> c1 = c2 \<and> d1 = d2"
  by (auto simp: CLUSTER_CHOICES_def CLUSTER_INGRESS_def CLUSTER_STORAGECLASS_def)

lemma choice_from_all:
  assumes "(need, field, choices, dflt) \<in> set CLUSTER_CHOICES" and "cluster_choice_from c clu_cfg dist need CLUSTER_CHOICES = Inr choice"
  shows "choice = choice_of clu_cfg dist (need, field, choices, dflt) \<and> map_of choices choice \<noteq> None"
  using assms
  by (auto simp: CLUSTER_CHOICES_def CLUSTER_INGRESS_def CLUSTER_STORAGECLASS_def Let_def split: if_splits)

lemma supplier_text: "(need, field, choices, dflt) \<in> set CLUSTER_CHOICES \<Longrightarrow> text_choice (PStr dflt) = dflt \<and> dflt \<noteq> []"
  by (auto simp: CLUSTER_CHOICES_def DEFAULT_INGRESS_def DEFAULT_STORAGE_def text_choice_def) code_simp+

text \<open>What one need comes to, after its step of the plan.\<close>

definition supplied :: "dict \<Rightarrow> distro \<Rightarrow> string list \<Rightarrow> choice \<Rightarrow> bool" where
  "supplied clu_cfg dist listed = (\<lambda>(need, field, choices, dflt).
     kept dist clu_cfg need \<or>
     (case map_of choices (choice_of clu_cfg (Some dist) (need, field, choices, dflt)) of
        None \<Rightarrow> False | Some addon \<Rightarrow> addon = [] \<or> addon \<in> set listed))"

text \<open>A choice of blanks only, of a need the distribution brings itself.\<close>

definition blanked :: "distro \<Rightarrow> dict \<Rightarrow> choice \<Rightarrow> bool" where
  "blanked dist clu_cfg = (\<lambda>(need, field, choices, dflt).
     need \<in> set (bundled dist) \<and> truthy (get clu_cfg field) \<and> text_choice (get clu_cfg field) = [])"

lemma blanked_lost:
  assumes "ch \<in> set CLUSTER_CHOICES" and "sane_distro dist" and "blanked dist clu_cfg ch"
  shows "\<not> kept dist clu_cfg (fst ch)"
proof -
  obtain need field choices dflt where ch: "ch = (need, field, choices, dflt)" by (cases ch)
  have "need \<in> fst ` set (bundled_choice dist)" using assms(2,3) by (simp add: ch blanked_def sane_distro_def)
  then obtain own where o: "map_of (bundled_choice dist) need = Some own" by (metis domD dom_map_of_conv_image_fst)
  then have "own \<noteq> []" using assms(2) map_of_SomeD [OF o] by (auto simp: sane_distro_def)
  then show ?thesis using assms(1,3) o unfolding kept_def disabled_iff ch by (auto simp: blanked_def py_or_def)
qed

lemma plan_step_result:
  assumes "plan_step c clu_cfg dist listed required ch plan = Inr plan'" and "ch \<in> set CLUSTER_CHOICES" and "sane_distro dist"
  shows "(plan' = plan \<and> (fst ch \<in> set required \<longrightarrow> supplied clu_cfg dist listed ch \<or> blanked dist clu_cfg ch)) \<or>
    (\<exists>addon. plan' = plan @ [(fst ch, addon)] \<and> addon \<noteq> [] \<and> addon \<notin> set listed \<and> \<not> kept dist clu_cfg (fst ch) \<and>
       \<not> blanked dist clu_cfg ch)"
proof -
  obtain need field choices dflt where ch: "ch = (need, field, choices, dflt)" by (cases ch)
  have mem: "(need, field, choices, dflt) \<in> set CLUSTER_CHOICES" using assms(2) ch by simp
  let ?f = "get clu_cfg field"
  have own: "\<exists>own. map_of (bundled_choice dist) need = Some own \<and> text_choice (PStr own) = own" if "need \<in> set (bundled dist)"
  proof -
    have "need \<in> fst ` set (bundled_choice dist)" using that assms(3) by (simp add: sane_distro_def)
    then obtain own where "(need, own) \<in> set (bundled_choice dist)" by auto
    then show ?thesis using assms(3) by (auto simp: sane_distro_def)
  qed
  have unbundled: "map_of (bundled_choice dist) need = None" if "need \<notin> set (bundled dist)"
    using that assms(3) by (simp add: sane_distro_def map_of_eq_None_iff)
  have keep: "kept dist clu_cfg need" if "need \<in> set (bundled dist)" "map_of (bundled_choice dist) need = Some own"
      "text_choice (py_or ?f (PStr own)) = own" for own
    using that choices_functional [OF mem] by (auto simp: kept_def disabled_iff)
  have lose: "\<not> kept dist clu_cfg need" if "map_of (bundled_choice dist) need = Some own" "text_choice (py_or ?f (PStr own)) \<noteq> own" for own
    using that mem by (auto simp: kept_def disabled_iff)
  show ?thesis
  proof (cases "text_choice (py_or ?f (PStr [])) = [] \<and> (need \<in> set (bundled dist) \<or> need \<notin> set required)")
    case True
    have "need \<in> set required \<longrightarrow> supplied clu_cfg dist listed ch \<or> blanked dist clu_cfg ch"
    proof (cases "truthy ?f")
      case blank: True
      then show ?thesis using True by (auto simp: blanked_def ch py_or_def)
    next
      case unset: False
      then show ?thesis using True own keep by (fastforce simp: supplied_def ch py_or_def)
    qed
    then show ?thesis using True assms(1) by (simp add: plan_step_def ch)
  next
    case False
    then have set_choice: "\<not> blanked dist clu_cfg ch" by (auto simp: blanked_def ch py_or_def)
    from False obtain choice where cf: "cluster_choice_from c clu_cfg (Some dist) need CLUSTER_CHOICES = Inr choice"
      using assms(1) by (auto simp: plan_step_def ch res_simps Let_def)
    note choice = choice_from_all [OF mem cf]
    have lost: "\<not> kept dist clu_cfg need" if "map_of (bundled_choice dist) need \<noteq> Some choice"
    proof (cases "need \<in> set (bundled dist)")
      case True
      then obtain own where own': "map_of (bundled_choice dist) need = Some own" using own by blast
      then show ?thesis using that choice lose [OF own'] by (auto simp: choice_of_def own_choice_def)
    qed (simp add: kept_def)
    show ?thesis
    proof (cases "map_of (bundled_choice dist) need = Some choice")
      case True
      then have "need \<in> set (bundled dist)" using unbundled by fastforce
      moreover have "text_choice (py_or ?f (PStr choice)) = choice" using choice True by (simp add: choice_of_def own_choice_def)
      ultimately have "kept dist clu_cfg need" using keep True by blast
      then show ?thesis using True assms(1) cf False by (auto simp: plan_step_def ch Let_def supplied_def)
    next
      case other: False
      obtain addon where addon: "map_of choices choice = Some addon" using choice by blast
      have "plan' = (if addon \<noteq> [] \<and> addon \<notin> set listed then plan @ [(need, addon)] else plan)"
        using assms(1) cf False other addon by (auto simp: plan_step_def ch Let_def split: if_splits)
      moreover have "supplied clu_cfg dist listed ch" if "\<not> (addon \<noteq> [] \<and> addon \<notin> set listed)"
        using that addon choice by (auto simp: supplied_def ch)
      ultimately show ?thesis using lost [OF other] set_choice by (auto simp: ch)
    qed
  qed
qed

lemma plan_steps:
  assumes "res_fold (plan_step c clu_cfg dist listed required) chs plan = Inr plan'" and "set chs \<subseteq> set CLUSTER_CHOICES"
    and "sane_distro dist"
  shows "\<exists>d. plan' = plan @ d \<and> subseq (map fst d) (map fst chs) \<and>
    (\<forall>(need, addon) \<in> set d. addon \<noteq> [] \<and> addon \<notin> set listed \<and> \<not> kept dist clu_cfg need \<and>
       (\<exists>ch \<in> set chs. fst ch = need \<and> \<not> blanked dist clu_cfg ch)) \<and>
    (\<forall>ch \<in> set chs. fst ch \<in> set required \<longrightarrow> fst ch \<in> fst ` set d \<or> supplied clu_cfg dist listed ch \<or> blanked dist clu_cfg ch)"
  using assms(1,2)
proof (induction chs arbitrary: plan)
  case (Cons ch chs)
  obtain p1 where p1: "plan_step c clu_cfg dist listed required ch plan = Inr p1"
    "res_fold (plan_step c clu_cfg dist listed required) chs p1 = Inr plan'"
    using Cons.prems(1) by (auto simp: res_simps)
  obtain d where d: "plan' = p1 @ d" "subseq (map fst d) (map fst chs)"
    "\<forall>(need, addon) \<in> set d. addon \<noteq> [] \<and> addon \<notin> set listed \<and> \<not> kept dist clu_cfg need \<and>
       (\<exists>ch \<in> set chs. fst ch = need \<and> \<not> blanked dist clu_cfg ch)"
    "\<forall>ch \<in> set chs. fst ch \<in> set required \<longrightarrow> fst ch \<in> fst ` set d \<or> supplied clu_cfg dist listed ch \<or> blanked dist clu_cfg ch"
    using Cons.IH [OF p1(2)] Cons.prems(2) by auto
  have "ch \<in> set CLUSTER_CHOICES" using Cons.prems(2) by simp
  from plan_step_result [OF p1(1) this assms(3)]
  consider "p1 = plan" "fst ch \<in> set required \<longrightarrow> supplied clu_cfg dist listed ch \<or> blanked dist clu_cfg ch"
    | addon where "p1 = plan @ [(fst ch, addon)]" "addon \<noteq> []" "addon \<notin> set listed" "\<not> kept dist clu_cfg (fst ch)" "\<not> blanked dist clu_cfg ch"
    by blast
  then show ?case
  proof cases
    case 1
    then show ?thesis using d by (intro exI [of _ d]) auto
  next
    case 2
    then show ?thesis using d by (intro exI [of _ "(fst ch, addon) # d"]) auto
  qed
qed simp

text \<open>C13 What a cluster's add-ons need is there, with one exception: each of the two needs that an add-on requires is brought by the
  distribution and not disabled, or planned, or its add-on is on the list already, or the lab asked for none. The exception is a choice of blanks
  only for a need that the distribution brings itself: the bundled component is disabled and nothing is planned in its place. Nothing is planned
  beside a bundled component that stays, each need at most once, the ingress controller first.\<close>

theorem cluster_needs_covered:
  assumes "clu_section defn c = Inr clu_cfg" and "known_distro (get clu_cfg ''clu_type'') = Inr (Some dist)"
    and "cluster_plan plugin defn c = Inr plan" and "cluster_needs plugin defn c = Inr required" and "entry_names clu_cfg = Inr listed"
  shows "(\<forall>ch \<in> set CLUSTER_CHOICES. fst ch \<in> set required \<longrightarrow>
      fst ch \<in> fst ` set plan \<or> supplied clu_cfg dist listed ch \<or> blanked dist clu_cfg ch) \<and>
    (\<forall>ch \<in> set CLUSTER_CHOICES. blanked dist clu_cfg ch \<longrightarrow> \<not> kept dist clu_cfg (fst ch) \<and> fst ch \<notin> fst ` set plan) \<and>
    (\<forall>(need, addon) \<in> set plan. addon \<notin> set listed \<and> \<not> kept dist clu_cfg need) \<and>
    subseq (map fst plan) [CLUSTER_INGRESS, CLUSTER_STORAGECLASS]"
proof -
  have "res_fold (plan_step c clu_cfg dist listed required) CLUSTER_CHOICES [] = Inr plan"
    using assms(1-5) by (simp add: cluster_plan_def)
  from plan_steps [OF this subset_refl distro_sane [OF assms(2)]]
  have sub: "subseq (map fst plan) (map fst CLUSTER_CHOICES)" and
    planned: "\<forall>(need, addon) \<in> set plan. addon \<noteq> [] \<and> addon \<notin> set listed \<and> \<not> kept dist clu_cfg need \<and>
       (\<exists>ch \<in> set CLUSTER_CHOICES. fst ch = need \<and> \<not> blanked dist clu_cfg ch)" and
    covered: "\<forall>ch \<in> set CLUSTER_CHOICES. fst ch \<in> set required \<longrightarrow>
       fst ch \<in> fst ` set plan \<or> supplied clu_cfg dist listed ch \<or> blanked dist clu_cfg ch"
    by auto
  have "\<not> kept dist clu_cfg (fst ch) \<and> fst ch \<notin> fst ` set plan" if "ch \<in> set CLUSTER_CHOICES" "blanked dist clu_cfg ch" for ch
  proof
    show "\<not> kept dist clu_cfg (fst ch)" by (rule blanked_lost [OF that(1) distro_sane [OF assms(2)] that(2)])
    show "fst ch \<notin> fst ` set plan"
    proof
      assume "fst ch \<in> fst ` set plan"
      then obtain ch' where c': "ch' \<in> set CLUSTER_CHOICES" "fst ch' = fst ch" "\<not> blanked dist clu_cfg ch'" using planned by fastforce
      obtain n f1 c1 d1 f2 c2 d2 where e: "ch = (n, f1, c1, d1)" "ch' = (n, f2, c2, d2)" using c'(2) by (cases ch; cases ch') auto
      have "ch = ch'" using choices_functional [of n f1 c1 d1 f2 c2 d2] that(1) c'(1) unfolding e by blast
      then show False using c'(3) that(2) by simp
    qed
  qed
  then show ?thesis using sub planned covered by (auto simp: CLUSTER_CHOICES_def)
qed

definition shop_plugin :: "string \<Rightarrow> dict" where
  "shop_plugin name = (if name = ''shop'' then [(''requires_cluster'', PList [PStr ''storageclass'', PStr ''ingress''])] else [])"

definition shop_cluster :: "pval \<Rightarrow> dict \<Rightarrow> dict" where
  "shop_cluster clu_type extra = [(''kclusters'', PDict [(''c1'', PDict ([(''clu_type'', clu_type), (''addons'', PList [PStr ''shop''])] @ extra))])]"

lemma cluster_needs_covered_witness:
  "cluster_plan shop_plugin (shop_cluster (PStr ''kubeadm'') [(''clu_storage'', PStr ''Local-Path '')]) ''c1'' =
     Inr [(''ingress'', ''nginx''), (''storageclass'', ''local_path'')] \<and>
   \<not> kept kubeadm_distro [(''clu_type'', PStr ''kubeadm''), (''addons'', PList [PStr ''shop'']), (''clu_storage'', PStr ''Local-Path '')] ''storageclass''"
proof -
  let ?clu = "[(''clu_type'', PStr ''kubeadm''), (''addons'', PList [PStr ''shop'']), (''clu_storage'', PStr ''Local-Path '')]"
  let ?defn = "shop_cluster (PStr ''kubeadm'') [(''clu_storage'', PStr ''Local-Path '')]"
  have p: "cluster_plan shop_plugin ?defn ''c1'' = Inr [(''ingress'', ''nginx''), (''storageclass'', ''local_path'')]" by code_simp
  have d: "clu_section ?defn ''c1'' = Inr ?clu" "cluster_needs shop_plugin ?defn ''c1'' = Inr [''storageclass'', ''ingress'']"
    "entry_names ?clu = Inr [''shop'']" by code_simp+
  have k: "known_distro (get ?clu ''clu_type'') = Inr (Some kubeadm_distro)"
    by (simp add: known_distro_def DISTROS_def get_def)
  have "\<forall>(need, addon) \<in> set [(''ingress'', ''nginx''), (''storageclass'', ''local_path'')]. addon \<notin> set [''shop''] \<and> \<not> kept kubeadm_distro ?clu need"
    using cluster_needs_covered [OF d(1) k p d(2) d(3)] by blast
  then show ?thesis using p by simp
qed

text \<open>A disabled component still counts as provided: K3s installed without traefik, because the lab asked for no
  ingress controller, is told to provide one.\<close>

lemma disabled_still_provided:
  "cluster_disabled [(''clu_ingress'', PStr ''none'')] k3s_distro = [''ingress''] \<and>
   cluster_plan shop_plugin (shop_cluster (PStr ''k3s'') [(''clu_ingress'', PStr ''none'')]) ''c1'' = Inr [] \<and>
   cluster_provides shop_plugin (shop_cluster (PStr ''k3s'') [(''clu_ingress'', PStr ''none'')]) ''c1'' = Inr [''ingress'', ''storageclass'']"
  by code_simp

text \<open>A blank choice disables the bundled component and plans nothing in its place.\<close>

lemma blank_choice_disables:
  "cluster_disabled [(''clu_ingress'', PStr '' '')] k3s_distro = [''ingress''] \<and>
   cluster_plan shop_plugin (shop_cluster (PStr ''k3s'') [(''clu_ingress'', PStr '' '')]) ''c1'' = Inr []"
  by code_simp

end
