(* ===== verification/K8s_Install.thy ===== *)
theory K8s_Install
  imports K8s_Plan
begin

text \<open>
  Installing a kcluster: the distribution classes of \<open>libs/k8s.py\<close>, as the commands they run on the nodes. A
  \<open>clu_ctx\<close> is the dict \<open>load_kclu_vars\<close> returns. \<open>w\<close> is the world the commands run in (\<open>Remote_Run\<close>).
\<close>

section \<open>Every distribution\<close>

type_synonym 't installer = "string \<Rightarrow> 't option \<Rightarrow> string option \<Rightarrow> ('t option \<times> string option) job"

definition wait_nodes_ready_message :: "string \<Rightarrow> string \<Rightarrow> string \<Rightarrow> string" where
  "wait_nodes_ready_message clu_name name server =
     ''the nodes of '' @ sq clu_name @ '' were not all Ready after 1200s; check the '' @ name @ '' service on '' @ sq server"

definition ready_check :: "distro \<Rightarrow> nat \<Rightarrow> string" where
  "ready_check dist count =
     ''[ '' @ dq (''$('' @ kubectl_command dist @ '' get nodes --no-headers 2>/dev/null | awk '' @ sq ''$2 ~ /^Ready/'' @ '' | wc -l)'') @
     '' -ge '' @ nat_str count @ '' ]''"

definition wait_nodes_ready :: "world \<Rightarrow> distro \<Rightarrow> string \<Rightarrow> string \<Rightarrow> nat \<Rightarrow> unit job" where
  "wait_nodes_ready w dist server clu_name count =
     act_bind (wait_for_ssh_command w server (ready_check dist count)) (\<lambda>ok.
     if ok then act_ret () else act_raise (RuntimeError (wait_nodes_ready_message clu_name (d_name dist) server)))"

definition node_type :: "dict \<Rightarrow> pval" where
  "node_type cfg = py_or (get cfg ''KUBERNETES_NODE_TYPE'') (get_dflt cfg ''INSTALL_RKE2_TYPE'' (PStr ''server''))"

fun install_nodes ::
  "'t installer \<Rightarrow> 't installer \<Rightarrow> string \<Rightarrow> (string \<times> pval) list \<Rightarrow> 't option \<times> string option \<times> nat \<Rightarrow> ('t option \<times> string option \<times> nat) job" where
  "install_nodes server agent clu_name [] st = act_ret st"
| "install_nodes server agent clu_name ((vm_name, v) # nodes) (tok, rancher1_ip, count) =
     act_bind (act_res (strict_dict v)) (\<lambda>cfg.
     if get cfg ''kcluster'' \<noteq> PStr clu_name then install_nodes server agent clu_name nodes (tok, rancher1_ip, count)
     else act_bind ((if node_type cfg = PStr ''agent'' then agent else server) vm_name tok rancher1_ip) (\<lambda>(tok', ip').
          install_nodes server agent clu_name nodes (tok', ip', count + 1)))"

definition install_cluster :: "world \<Rightarrow> distro \<Rightarrow> 't installer \<Rightarrow> 't installer \<Rightarrow> dict \<Rightarrow> string \<Rightarrow> unit job" where
  "install_cluster w dist server agent defn clu_name =
     act_bind (act_res (or_dict (get defn ''nodes''))) (\<lambda>nodes.
     act_bind (install_nodes server agent clu_name nodes (None, None, 0)) (\<lambda>(_, ip, count).
     case ip of None \<Rightarrow> act_ret () | Some h \<Rightarrow> if h = [] then act_ret () else wait_nodes_ready w dist h clu_name count))"

definition before_installer :: "world \<Rightarrow> string \<Rightarrow> unit job" where
  "before_installer w host = act_then (reboot_into_pending_snapshot w host) (wait_for_transactional_update_lock w host)"

definition text_ctx :: "dict \<Rightarrow> string \<Rightarrow> string \<Rightarrow> string res" where
  "text_ctx clu_ctx key dflt = as_str (get_dflt clu_ctx key (PStr dflt))"

definition clu_rel_of :: "dict \<Rightarrow> string res" where
  "clu_rel_of clu_ctx = as_str (py_or (get clu_ctx ''clu_rel'') (PStr ''stable''))"

definition env_file :: "string \<Rightarrow> string \<Rightarrow> string" where
  "env_file dest path = ''echo '' @ sq (''export KUBECONFIG='' @ path) @ '' > '' @ dest @ ''; chmod 0644 '' @ dest"

section \<open>K3s\<close>

definition DISABLE_FLAG :: "(string \<times> string) list" where
  "DISABLE_FLAG = [(CLUSTER_INGRESS, ''traefik''), (CLUSTER_STORAGECLASS, ''local-storage'')]"

definition disable_flags :: "dict \<Rightarrow> string" where
  "disable_flags clu_ctx =
     concat (List.map_filter (\<lambda>need. map_option (\<lambda>f. '' --disable '' @ f) (map_of DISABLE_FLAG need)) (sort (cluster_disabled clu_ctx k3s_distro)))"

definition no_policy :: "string \<Rightarrow> string" where
  "no_policy host = sq host @ '': SELinux is enabled but the k3s-selinux policy is not installed''"

definition k3s_start :: "world \<Rightarrow> string \<Rightarrow> string \<Rightarrow> unit job" where
  "k3s_start w host service =
     act_then (reboot_into_pending_snapshot w host)
     (act_bind (ssh_ok w host ''selinuxenabled && [ ! -f /usr/share/selinux/packages/k3s.pp ]'') (\<lambda>missing.
      if missing then die (no_policy host) else ssh_run w host (''systemctl enable --now '' @ service)))"

definition k3s_server_cmd :: "string \<Rightarrow> string \<Rightarrow> string \<Rightarrow> string \<Rightarrow> string \<Rightarrow> string" where
  "k3s_server_cmd clu_rel clu_token clu_name mydomain disable =
     ''curl -sfL https://get.k3s.io | INSTALL_K3S_CHANNEL='' @ shlex_quote clu_rel @ '' '' @
     (if clu_token \<noteq> [] then ''K3S_TOKEN='' @ shlex_quote clu_token @ '' '' else []) @
     ''sh -s - server --tls-san '' @ shlex_quote clu_name @ ''.'' @ shlex_quote mydomain @ disable"

definition k3s_join_cmd :: "string \<Rightarrow> string \<Rightarrow> string \<Rightarrow> string" where
  "k3s_join_cmd clu_rel rancher1_ip tok =
     ''curl -sfL https://get.k3s.io | INSTALL_K3S_CHANNEL='' @ shlex_quote clu_rel @ '' K3S_URL=https://'' @ shlex_quote rancher1_ip @
     '':6443 K3S_TOKEN='' @ shlex_quote tok @ '' sh -''"

definition K3S_TOKEN_CMD :: string where "K3S_TOKEN_CMD = ''cat /var/lib/rancher/k3s/server/node-token''"

definition the_ip :: "string option \<Rightarrow> string res" where
  "the_ip ip = (case ip of Some h \<Rightarrow> Inr h | None \<Rightarrow> Inl (TypeError ''expected str''))"

definition k3s_install :: "world \<Rightarrow> string \<Rightarrow> dict \<Rightarrow> string installer" where
  "k3s_install w clu_name clu_ctx host tok rancher1_ip =
     act_bind (act_res (clu_rel_of clu_ctx)) (\<lambda>clu_rel.
     act_then (ssh_run w host ''mkdir -p /etc/rancher/k3s'')
     (act_then (before_installer w host)
     (case tok of
        None \<Rightarrow>
          act_bind (act_res (text_ctx clu_ctx ''mydomain'' [])) (\<lambda>mydomain.
          act_bind (act_res (as_str (py_or (get clu_ctx ''clu_token'') (PStr [])))) (\<lambda>clu_token.
          act_then (ssh_run w host (k3s_server_cmd clu_rel clu_token clu_name mydomain (disable_flags clu_ctx)))
          (act_then (k3s_start w host ''k3s'')
          (act_then (ssh_run w host (env_file ''/etc/profile.d/k3s.sh'' (kubeconfig_path k3s_distro)))
          (act_bind (ssh_output w host K3S_TOKEN_CMD) (\<lambda>t. act_ret (Some t, Some host)))))))
      | Some t \<Rightarrow>
          act_bind (act_res (the_ip rancher1_ip)) (\<lambda>ip.
          act_then (ssh_run w host (k3s_join_cmd clu_rel ip t))
          (act_then (k3s_start w host ''k3s-agent'') (act_ret (Some t, rancher1_ip)))))))"

section \<open>RKE2\<close>

definition RKE2_NM_CONF :: string where
  "RKE2_NM_CONF = ''W2tleWZpbGVdCnVubWFuYWdlZC1kZXZpY2VzPWludGVyZmFjZS1uYW1lOmNhbGkqO2ludGVyZmFjZS1uYW1lOmZsYW5uZWwq''"
definition RKE2_SYSCTL :: string where
  "RKE2_SYSCTL = ''bmV0LmlwdjQuY29uZi5hbGwuZm9yd2FyZGluZz0xCm5ldC5pcHY2LmNvbmYuYWxsLmZvcndhcmRpbmc9MQ==''"
definition RKE2_PATH :: string where
  "RKE2_PATH = ''ZXhwb3J0IFBBVEg9JFBBVEg6L29wdC9ya2UyL2JpbjovdmFyL2xpYi9yYW5jaGVyL3JrZTIvYmluLwpleHBvcnQgS1VCRUNPTkZJRz0vZXRjL3JhbmNoZXIvcmtlMi9ya2UyLnlhbWwKCg==''"

definition decode_to :: "string \<Rightarrow> string \<Rightarrow> string" where
  "decode_to blob path = ''echo '' @ sq blob @ '' | base64 -d > '' @ path @ ''; chmod 0420 '' @ path"

definition rke2_config :: "string \<Rightarrow> string \<Rightarrow> bool \<Rightarrow> string" where
  "rke2_config mydomain clu_name no_ingress =
     unlines ([''write-kubeconfig-mode: '' @ dq ''0600'', ''tls-san:'', ''  - '' @ dq mydomain, ''  - '' @ dq (clu_name @ ''.'' @ mydomain)] @
       (if no_ingress then [''disable:'', ''  - rke2-ingress-nginx''] else []))"

definition config_path :: "string \<Rightarrow> string \<Rightarrow> string" where
  "config_path clu_name kind = path_join clu_name (''config-'' @ kind @ ''.yaml'')"

definition write_once :: "string \<Rightarrow> string \<Rightarrow> unit job" where
  "write_once path content =
     act_upd (\<lambda>s. if map_of (st_files s) path = None then s\<lparr>st_files := AList.update path content (st_files s)\<rparr> else s)"

definition write_node_config :: "string \<Rightarrow> dict \<Rightarrow> unit job" where
  "write_node_config clu_name clu_ctx =
     (let content = rke2_config (py_str (get_dflt clu_ctx ''mydomain'' (PStr []))) clu_name
                      (CLUSTER_INGRESS \<in> set (cluster_disabled clu_ctx rke2_distro)) in
      act_for [''server'', ''agent''] (\<lambda>kind. write_once (config_path clu_name kind) content))"

text \<open>\<open>rsync\<close> under \<open>check=True\<close>: a file that is not there, or a copy that fails, raises CalledProcessError.\<close>

definition rsync :: "world \<Rightarrow> string \<Rightarrow> string \<Rightarrow> string \<Rightarrow> unit job" where
  "rsync w src host dest =
     act_bind (act_get (\<lambda>s. map_of (st_files s) src)) (\<lambda>content. case content of
       None \<Rightarrow> act_raise (RuntimeError ''rsync'')
     | Some t \<Rightarrow> act_bind (happen w (Rsync host dest t)) (\<lambda>(rc, _). if rc = 0 then act_ret () else act_raise (RuntimeError ''rsync'')))"

definition rke2_install_cmd :: "string \<Rightarrow> string \<Rightarrow> string \<Rightarrow> string" where
  "rke2_install_cmd role install_method clu_rel =
     ''curl -sfL https://get.rke2.io | INSTALL_RKE2_TYPE='' @ role @ '' INSTALL_RKE2_METHOD='' @ shlex_quote install_method @
     '' INSTALL_RKE2_CHANNEL='' @ shlex_quote clu_rel @ '' sh -''"

definition to_rke2_config :: "string \<Rightarrow> string" where
  "to_rke2_config t = ''echo '' @ t @ '' >> /etc/rancher/rke2/config.yaml''"

definition rke2_service :: "string \<Rightarrow> string" where
  "rke2_service role = ''systemctl enable --now rke2-'' @ role @ ''.service''"

definition RKE2_SELINUX_CMD :: string where
  "RKE2_SELINUX_CMD = ''if selinuxenabled && rpm -q --quiet rke2-selinux; then '' @ to_rke2_config (sq ''selinux: true'') @ ''; fi''"

definition RKE2_TOKEN_CMD :: string where "RKE2_TOKEN_CMD = ''cat /var/lib/rancher/rke2/server/node-token''"

definition rke2_method :: "world \<Rightarrow> string \<Rightarrow> dict \<Rightarrow> bool \<Rightarrow> pval job" where
  "rke2_method w host clu_ctx transactional =
     (let own = get_dflt clu_ctx ''install_method'' (PStr []) in
      if truthy own then act_ret own
      else if transactional then act_ret (PStr ''rpm'')
      else act_bind (ssh_ok w host ''command -v zypper'') (\<lambda>suse. act_ret (if suse then PStr ''rpm'' else own)))"

definition rke2_prepare :: "world \<Rightarrow> string \<Rightarrow> unit job" where
  "rke2_prepare w host =
     act_then (ssh_run w host (decode_to RKE2_NM_CONF ''/etc/NetworkManager/conf.d/rke2-canal.conf''))
     (act_then (ssh_run w host (decode_to RKE2_SYSCTL ''/etc/sysctl.d/90-rke2.conf''))
     (act_then (ssh_run w host (decode_to RKE2_PATH ''/etc/profile.d/rke2.sh''))
     (ssh_run w host ''mkdir -p /var/lib/rancher/rke2 /etc/rancher/rke2'')))"

definition rke2_install_packages :: "world \<Rightarrow> string \<Rightarrow> string \<Rightarrow> dict \<Rightarrow> string \<Rightarrow> unit job" where
  "rke2_install_packages w clu_name host clu_ctx role =
     act_bind (act_res (clu_rel_of clu_ctx)) (\<lambda>clu_rel.
     act_bind (is_transactional w host) (\<lambda>transactional.
     act_bind (rke2_method w host clu_ctx transactional) (\<lambda>m.
     act_then (rke2_prepare w host)
     (act_then (before_installer w host)
     (act_then (if m = PStr ''rpm'' \<and> transactional then act_then (update_kernel w host) (act_then (reboot_into_pending_snapshot w host) (act_ret ())) else act_ret ())
     (act_bind (act_res (as_str m)) (\<lambda>install_method.
      act_then (ssh_run w host (rke2_install_cmd role install_method clu_rel))
      (act_then (write_node_config clu_name clu_ctx)
      (act_then (rsync w (config_path clu_name role) host ''/etc/rancher/rke2/config.yaml'')
      (act_then (reboot_into_pending_snapshot w host)
      (ssh_run w host RKE2_SELINUX_CMD)))))))))))"

definition rke2_install :: "world \<Rightarrow> string \<Rightarrow> dict \<Rightarrow> string \<Rightarrow> string installer" where
  "rke2_install w clu_name clu_ctx role host tok rancher1_ip =
     act_then (rke2_install_packages w clu_name host clu_ctx role)
     (case tok of
        None \<Rightarrow>
          act_then (if truthy (get clu_ctx ''clu_token'')
                    then ssh_run w host (to_rke2_config (shlex_quote (''token: '' @ py_str (get clu_ctx ''clu_token'')))) else act_ret ())
          (act_then (ssh_run w host (rke2_service role))
          (act_bind (ssh_output w host RKE2_TOKEN_CMD) (\<lambda>t. act_ret (Some t, Some host))))
      | Some t \<Rightarrow>
          act_then (ssh_run w host (to_rke2_config (sq (''server: https://'' @ (case rancher1_ip of None \<Rightarrow> ''None'' | Some ip \<Rightarrow> ip) @ '':9345''))))
          (act_then (ssh_run w host (to_rke2_config (sq (''token: '' @ t))))
          (act_then (ssh_run w host (rke2_service role)) (act_ret (Some t, rancher1_ip)))))"

section \<open>kubeadm\<close>

definition CNI_MANIFESTS :: "(string \<times> string) list" where
  "CNI_MANIFESTS =
     [(''flannel'', ''https://github.com/flannel-io/flannel/releases/latest/download/kube-flannel.yml''),
      (''calico'', ''https://raw.githubusercontent.com/projectcalico/calico/v3.28.2/manifests/calico.yaml'')]"
definition CNI_POD_CIDRS :: "(string \<times> string) list" where
  "CNI_POD_CIDRS = [(''flannel'', ''10.244.0.0/16''), (''calico'', ''192.168.0.0/16'')]"
definition DEFAULT_CNI :: string where "DEFAULT_CNI = ''flannel''"

definition no_minor :: "pval \<Rightarrow> string" where
  "no_minor clu_rel = ''clu_type kubeadm needs clu_rel to name a Kubernetes minor, for example '' @ dq ''1.33'' @ '' '' @ emdash @ '' got '' @ py_repr clu_rel"

definition MINOR :: string where
  "MINOR = ''('' @ bsl ''d+)'' @ bsl ''.('' @ bsl ''d+)''"

definition minor :: "pval \<Rightarrow> string res" where
  "minor clu_rel =
     (case Option.bind (rx_parse MINOR) (\<lambda>r. rx_search r (py_str (py_or clu_rel (PStr [])))) of
        None \<Rightarrow> Inl (SystemExit (no_minor clu_rel))
      | Some m \<Rightarrow> Inr (''v'' @ or_nil (group m 1) @ ''.'' @ or_nil (group m 2)))"

definition bad_cni :: "string \<Rightarrow> string" where
  "bad_cni name = ''clu_cni '' @ sq name @ '' is invalid '' @ emdash @ '' use one of: '' @ join '', '' (sort (map fst CNI_MANIFESTS)) @ '', none''"

definition cni :: "dict \<Rightarrow> string res" where
  "cni clu_ctx =
     (let name = text_choice (py_or (get clu_ctx ''clu_cni'') (PStr DEFAULT_CNI)) in
      if name \<in> set (map fst CNI_MANIFESTS @ [''none'']) then Inr name else Inl (SystemExit (bad_cni name)))"

definition pod_cidr :: "dict \<Rightarrow> string res" where
  "pod_cidr clu_ctx =
     (if truthy (get clu_ctx ''clu_pod_cidr'') then as_str (get clu_ctx ''clu_pod_cidr'')
      else res_bind (cni clu_ctx) (\<lambda>n. Inr (case map_of CNI_POD_CIDRS n of Some c \<Rightarrow> c | None \<Rightarrow> ''10.244.0.0/16'')))"

text \<open>A backslash and an n, as the shell's printf reads it.\<close>

definition bn :: string where "bn = bsl ''n''"

definition SWAP_CMD :: string where
  "SWAP_CMD = ''swapoff -a; sed -i '' @ sq (''/'' @ bsl ''sswap'' @ bsl ''s/s/^/#/'') @ '' /etc/fstab''"
definition MODULES_CMD :: string where
  "MODULES_CMD = ''printf '' @ sq (''overlay'' @ bn @ ''br_netfilter'' @ bn) @ '' > /etc/modules-load.d/k8s.conf; modprobe overlay; modprobe br_netfilter''"
definition SYSCTL_CMD :: string where
  "SYSCTL_CMD = ''printf '' @ sq (''net.bridge.bridge-nf-call-iptables=1'' @ bn @ ''net.ipv4.ip_forward=1'' @ bn @
     ''net.bridge.bridge-nf-call-ip6tables=1'' @ bn) @ '' > /etc/sysctl.d/99-k8s.conf; sysctl --system >/dev/null''"
definition CONTAINERD_CMD :: string where
  "CONTAINERD_CMD = ''mkdir -p /etc/containerd && containerd config default > /etc/containerd/config.toml && sed -i '' @
     sq ''s/SystemdCgroup = false/SystemdCgroup = true/'' @ '' /etc/containerd/config.toml''"
definition MISSING_CMD :: string where
  "MISSING_CMD = ''for b in kubeadm kubelet kubectl; do command -v $b >/dev/null || echo $b; done''"

definition MANAGERS :: "(string \<times> string) list" where
  "MANAGERS = [(''zypper'', ''zypper --non-interactive install -y''), (''dnf'', ''dnf install -y''), (''apt-get'', ''apt-get install -y'')]"

fun first_manager :: "world \<Rightarrow> string \<Rightarrow> (string \<times> string) list \<Rightarrow> string option job" where
  "first_manager w host [] = act_ret None"
| "first_manager w host ((manager, install) # ms) =
     act_bind (ssh_ok w host (''command -v '' @ manager)) (\<lambda>ok. if ok then act_ret (Some install) else first_manager w host ms)"

definition no_manager :: "string \<Rightarrow> string" where
  "no_manager host = sq host @ '': none of zypper, dnf or apt-get is available, so the Kubernetes packages cannot be installed''"

definition apt_repository :: "world \<Rightarrow> string \<Rightarrow> string \<Rightarrow> unit job" where
  "apt_repository w host m =
     act_then (ssh_run w host ''apt-get update -qq && apt-get install -y apt-transport-https ca-certificates curl gpg && mkdir -p /etc/apt/keyrings'')
     (act_then (ssh_run w host (''curl -fsSL https://pkgs.k8s.io/core:/stable:/'' @ m @
        ''/deb/Release.key | gpg --dearmor --yes -o /etc/apt/keyrings/kubernetes-apt-keyring.gpg''))
     (ssh_run w host (''echo '' @ sq (''deb [signed-by=/etc/apt/keyrings/kubernetes-apt-keyring.gpg] https://pkgs.k8s.io/core:/stable:/'' @ m @ ''/deb/ /'') @
        '' > /etc/apt/sources.list.d/kubernetes.list && apt-get update -qq'')))"

definition repo_url :: "string \<Rightarrow> string" where
  "repo_url m = ''https://pkgs.k8s.io/core:/stable:/'' @ m @ ''/rpm/''"

definition repo_file :: "string \<Rightarrow> string" where
  "repo_file url = ''[kubernetes]'' @ bn @ ''name=Kubernetes'' @ bn @ ''baseurl='' @ url @ bn @ ''enabled=1'' @ bn @ ''autorefresh=1'' @ bn @
     ''type=rpm-md'' @ bn @ ''gpgcheck=1'' @ bn @ ''gpgkey='' @ url @ ''repodata/repomd.xml.key'' @ bn"

definition rpm_repository :: "world \<Rightarrow> string \<Rightarrow> string \<Rightarrow> unit job" where
  "rpm_repository w host m =
     (let url = repo_url m; repo = repo_file url in
      act_then (ssh_run w host (''curl -fsSL '' @ url @ ''repodata/repomd.xml.key -o /tmp/kubernetes-release.key && '' @
         ''rpm --import /tmp/kubernetes-release.key && rm -f /tmp/kubernetes-release.key''))
      (ssh_run w host (''printf '' @ sq repo @ '' > /etc/zypp/repos.d/kubernetes.repo 2>/dev/null || '' @
         ''printf '' @ sq repo @ '' > /etc/yum.repos.d/kubernetes.repo'')))"

definition install_failed :: "string \<Rightarrow> string \<Rightarrow> int \<Rightarrow> string" where
  "install_failed host packages rc = sq host @ '': installing '' @ packages @ '' failed (exit '' @ int_str rc @ '')''"

definition install_packages :: "world \<Rightarrow> string \<Rightarrow> string \<Rightarrow> string \<Rightarrow> unit job" where
  "install_packages w host pre packages =
     act_bind (ssh_try w host (pre @ '' '' @ packages)) (\<lambda>(rc, _).
     if rc \<noteq> 0 \<and> rc \<noteq> 106 then die (install_failed host packages rc) else act_ret ())"

definition packages_missing :: "string \<Rightarrow> string \<Rightarrow> string \<Rightarrow> string" where
  "packages_missing host out m = sq host @ '': '' @ join '', '' (words out) @ '' missing after the install '' @ emdash @ '' the Kubernetes '' @ m @
     '' repository at pkgs.k8s.io was not usable on this node''"

definition prepare_node :: "world \<Rightarrow> string \<Rightarrow> pval \<Rightarrow> unit job" where
  "prepare_node w host clu_rel =
     act_bind (act_res (minor clu_rel)) (\<lambda>m.
     act_then (ssh_try w host SWAP_CMD)
     (act_then (ssh_run w host MODULES_CMD)
     (act_then (ssh_run w host SYSCTL_CMD)
     (act_bind (is_transactional w host) (\<lambda>transactional.
      act_bind (if transactional then act_ret (Some ''transactional-update -n pkg install -y'') else first_manager w host MANAGERS) (\<lambda>found.
      case found of None \<Rightarrow> die (no_manager host)
      | Some pre \<Rightarrow>
          act_then (if contains ''apt-get'' pre then apt_repository w host m else rpm_repository w host m)
          (act_then (install_packages w host pre ''containerd'')
          (act_then (ssh_run w host CONTAINERD_CMD)
          (act_then (install_packages w host pre ''kubelet kubeadm kubectl'')
          (act_bind (ssh_try w host MISSING_CMD) (\<lambda>(_, out).
           if str_strip out \<noteq> [] then die (packages_missing host out m)
           else
             act_then (if transactional then act_then (reboot_into_pending_snapshot w host) (act_ret ()) else act_ret ())
             (ssh_run w host ''systemctl enable --now containerd && systemctl enable kubelet''))))))))))))"

definition write_root_kubeconfig :: "world \<Rightarrow> string \<Rightarrow> unit job" where
  "write_root_kubeconfig w host =
     ssh_run w host (''mkdir -p /root/.kube && cp -f '' @ kubeconfig_path kubeadm_distro @ '' /root/.kube/config && chmod 0600 /root/.kube/config'')"

type_synonym join_token = "string \<times> string"

definition kubeadm_init_cmd :: "string \<Rightarrow> string \<Rightarrow> string" where
  "kubeadm_init_cmd cidr endpoint =
     ''kubeadm init --pod-network-cidr '' @ shlex_quote cidr @ '' --control-plane-endpoint '' @ shlex_quote endpoint @
     '':6443 --upload-certs --ignore-preflight-errors=NumCPU''"

definition JOIN_CMD :: string where "JOIN_CMD = ''kubeadm token create --print-join-command''"
definition CERT_CMD :: string where "CERT_CMD = ''kubeadm init phase upload-certs --upload-certs 2>/dev/null | tail -1''"

definition apply_cni :: "world \<Rightarrow> string \<Rightarrow> dict \<Rightarrow> unit job" where
  "apply_cni w host clu_ctx =
     act_bind (act_res (cni clu_ctx)) (\<lambda>name.
     case map_of CNI_MANIFESTS name of
       None \<Rightarrow> act_ret ()
     | Some url \<Rightarrow> ssh_run w host (kubectl_command kubeadm_distro @ '' apply -f '' @ shlex_quote url))"

definition recorded_nodes :: "dict \<Rightarrow> int res" where
  "recorded_nodes clu_ctx = to_int (py_or (get clu_ctx ''_node_count'') (PInt 0))"

definition kubeadm_init :: "world \<Rightarrow> string \<Rightarrow> dict \<Rightarrow> string \<Rightarrow> (join_token option \<times> string option) job" where
  "kubeadm_init w clu_name clu_ctx host =
     (let mydomain = get_dflt clu_ctx ''mydomain'' (PStr []);
          endpoint = (if truthy mydomain then clu_name @ ''.'' @ py_str mydomain else host) in
      act_bind (act_res (pod_cidr clu_ctx)) (\<lambda>cidr.
      act_then (ssh_run w host (kubeadm_init_cmd cidr endpoint))
      (act_then (write_root_kubeconfig w host)
      (act_then (ssh_run w host (env_file ''/etc/profile.d/kubeadm.sh'' (kubeconfig_path kubeadm_distro)))
      (act_then (apply_cni w host clu_ctx)
      (act_bind (act_res (recorded_nodes clu_ctx)) (\<lambda>n.
       act_then (if n = 1 then act_then (ssh_try w host (kubectl_command kubeadm_distro @ '' taint nodes --all node-role.kubernetes.io/control-plane- '')) (act_ret ())
                 else act_ret ())
       (act_bind (ssh_output w host JOIN_CMD) (\<lambda>join.
        act_bind (ssh_output w host CERT_CMD) (\<lambda>key.
        act_ret (Some (join, key), Some host)))))))))))"

definition control_plane_cmd :: "join_token \<Rightarrow> string" where
  "control_plane_cmd = (\<lambda>(join, key). join @ '' --control-plane --certificate-key '' @ shlex_quote key)"

definition kubeadm_server :: "world \<Rightarrow> string \<Rightarrow> dict \<Rightarrow> join_token installer" where
  "kubeadm_server w clu_name clu_ctx host tok rancher1_ip =
     act_then (prepare_node w host (get clu_ctx ''clu_rel''))
     (case tok of
        None \<Rightarrow> kubeadm_init w clu_name clu_ctx host
      | Some t \<Rightarrow> act_then (ssh_run w host (control_plane_cmd t)) (act_then (write_root_kubeconfig w host) (act_ret (Some t, rancher1_ip))))"

text \<open>\<open>token["join"]\<close> of no token raises.\<close>

definition kubeadm_agent :: "world \<Rightarrow> dict \<Rightarrow> join_token installer" where
  "kubeadm_agent w clu_ctx host tok rancher1_ip =
     act_then (prepare_node w host (get clu_ctx ''clu_rel''))
     (case tok of
        None \<Rightarrow> act_raise (TypeError ''NoneType object is not subscriptable'')
      | Some t \<Rightarrow> act_then (ssh_run w host (fst t)) (act_ret (Some t, rancher1_ip)))"

definition counted_ctx :: "dict \<Rightarrow> string \<Rightarrow> dict \<Rightarrow> dict res" where
  "counted_ctx defn clu_name clu_ctx =
     res_bind (kcluster_node_count defn clu_name) (\<lambda>n. Inr (AList.update ''_node_count'' (PInt (int n)) clu_ctx))"

section \<open>The clusters\<close>

definition install_k3s :: "world \<Rightarrow> dict \<Rightarrow> string \<Rightarrow> dict \<Rightarrow> unit job" where
  "install_k3s w defn clu_name clu_ctx =
     install_cluster w k3s_distro (k3s_install w clu_name clu_ctx) (k3s_install w clu_name clu_ctx) defn clu_name"

definition install_rke2 :: "world \<Rightarrow> dict \<Rightarrow> string \<Rightarrow> dict \<Rightarrow> unit job" where
  "install_rke2 w defn clu_name clu_ctx =
     install_cluster w rke2_distro (rke2_install w clu_name clu_ctx ''server'') (rke2_install w clu_name clu_ctx ''agent'') defn clu_name"

definition install_kubeadm :: "world \<Rightarrow> dict \<Rightarrow> string \<Rightarrow> dict \<Rightarrow> unit job" where
  "install_kubeadm w defn clu_name clu_ctx =
     act_bind (act_res (counted_ctx defn clu_name clu_ctx)) (\<lambda>ctx.
     install_cluster w kubeadm_distro (kubeadm_server w clu_name ctx) (kubeadm_agent w ctx) defn clu_name)"

definition system_wait_cmd :: "distro \<Rightarrow> int \<Rightarrow> string" where
  "system_wait_cmd dist timeout = kubectl_command dist @ '' wait --for=condition=Ready pods --all -n kube-system --timeout='' @ int_str timeout @ ''s''"

definition not_settled :: "int \<Rightarrow> string" where
  "not_settled timeout = ''some kube-system pods were still not ready after '' @ int_str timeout @ ''s; the add-ons run anyway''"

definition wait_system_ready :: "world \<Rightarrow> distro \<Rightarrow> string \<Rightarrow> int \<Rightarrow> bool job" where
  "wait_system_ready w dist server timeout =
     act_bind (ssh_ok w server (system_wait_cmd dist timeout)) (\<lambda>ok.
     if ok then act_ret True else act_then (warn (not_settled timeout)) (act_ret False))"

section \<open>Every node joins the first one\<close>

text \<open>
  What the cluster installation asks of a distribution's two installers: they only run commands, the first node of a cluster
  makes a token and becomes the address to join, and a node given both keeps them and joins. \<open>joined\<close> and \<open>started\<close> read
  the log, of which a longer one says no less.
\<close>

locale joining =
  fixes inst :: "bool \<Rightarrow> 't installer"
    and joined :: "bool \<Rightarrow> string \<Rightarrow> 't \<Rightarrow> string \<Rightarrow> event list \<Rightarrow> bool"
    and started :: "string \<Rightarrow> 't \<Rightarrow> event list \<Rightarrow> bool"
  assumes runs: "grows (inst agent host tok ip)"
    and more: "joined agent host t h es \<Longrightarrow> joined agent host t h (es @ es')" "started host t es \<Longrightarrow> started host t (es @ es')"
    and first: "inst agent host None ip s = (Inr (tok, ip'), s') \<Longrightarrow> \<exists>t. tok = Some t \<and> ip' = Some host \<and> started host t (st_log s')"
    and join: "inst agent host (Some t) (Some h) s = (Inr (tok, ip'), s') \<Longrightarrow> tok = Some t \<and> ip' = Some h \<and> joined agent host t h (st_log s')"

definition members_of :: "string \<Rightarrow> (string \<times> pval) list \<Rightarrow> (string \<times> dict) list" where
  "members_of clu_name nodes =
     List.map_filter (\<lambda>(vm, v). case v of PDict cfg \<Rightarrow> if get cfg ''kcluster'' = PStr clu_name then Some (vm, cfg) else None | _ \<Rightarrow> None) nodes"

abbreviation is_agent :: "dict \<Rightarrow> bool" where
  "is_agent cfg \<equiv> node_type cfg = PStr ''agent''"

lemma members_Cons:
  "members_of clu ((vm, PDict cfg) # nodes) = (if get cfg ''kcluster'' = PStr clu then (vm, cfg) # members_of clu nodes else members_of clu nodes)"
  by (simp add: members_of_def List.map_filter_simps)

lemma strict_dict_Inr: "strict_dict v = Inr d \<longleftrightarrow> v = PDict d"
  by (cases v) (auto simp: strict_dict_def)

lemma install_nodes_step:
  assumes "install_nodes server agent clu ((vm, v) # nodes) (tok, ip, n) s = (Inr st, s')"
  shows "\<exists>cfg. v = PDict cfg \<and>
    (get cfg ''kcluster'' \<noteq> PStr clu \<and> install_nodes server agent clu nodes (tok, ip, n) s = (Inr st, s') \<or>
     get cfg ''kcluster'' = PStr clu \<and> (\<exists>tok' ip' u. (if is_agent cfg then agent else server) vm tok ip s = (Inr (tok', ip'), u) \<and>
       install_nodes server agent clu nodes (tok', ip', n + 1) u = (Inr st, s')))"
  using assms by (auto simp: act_bind_eq_Inr act_res_app strict_dict_Inr split: if_splits)

lemma install_nodes_grows:
  assumes "\<And>h t i. grows (server h t i)" and "\<And>h t i. grows (agent h t i)"
  shows "grows (install_nodes server agent clu nodes st)"
proof (induction nodes arbitrary: st)
  case Nil
  then show ?case by (cases st) (simp add: grows_ret)
next
  case (Cons nd nodes)
  obtain vm v where nd: "nd = (vm, v)" by (cases nd)
  obtain tok ip n where st: "st = (tok, ip, n)" by (cases st)
  show ?case unfolding nd st install_nodes.simps
    using Cons assms by (auto intro!: grows_intros)
qed

context joining
begin

lemma rest_join:
  assumes "install_nodes (inst False) (inst True) clu nodes (Some t, Some h, n) s = (Inr (tok, ip, m), s')"
  shows "tok = Some t \<and> ip = Some h \<and> m = n + length (members_of clu nodes) \<and>
    (\<forall>(vm, cfg) \<in> set (members_of clu nodes). joined (is_agent cfg) vm t h (st_log s'))"
  using assms
proof (induction nodes arbitrary: n s)
  case Nil
  then show ?case by (simp add: act_ret_app members_of_def List.map_filter_simps)
next
  case (Cons nd nodes)
  obtain vm v where nd: "nd = (vm, v)" by (cases nd)
  obtain cfg where v: "v = PDict cfg" and or: "get cfg ''kcluster'' \<noteq> PStr clu \<and> install_nodes (inst False) (inst True) clu nodes (Some t, Some h, n) s = (Inr (tok, ip, m), s') \<or>
     get cfg ''kcluster'' = PStr clu \<and> (\<exists>tok' ip' u. (if is_agent cfg then inst True else inst False) vm (Some t) (Some h) s = (Inr (tok', ip'), u) \<and>
       install_nodes (inst False) (inst True) clu nodes (tok', ip', n + 1) u = (Inr (tok, ip, m), s'))"
    using install_nodes_step [OF Cons.prems [unfolded nd]] by blast
  show ?case
  proof (cases "get cfg ''kcluster'' = PStr clu")
    case False
    then show ?thesis using Cons.IH or unfolding nd v members_Cons by auto
  next
    case True
    then obtain tok' ip' u where u: "inst (is_agent cfg) vm (Some t) (Some h) s = (Inr (tok', ip'), u)"
       "install_nodes (inst False) (inst True) clu nodes (tok', ip', n + 1) u = (Inr (tok, ip, m), s')" using or by (auto split: if_splits)
    have j: "tok' = Some t" "ip' = Some h" "joined (is_agent cfg) vm t h (st_log u)" using join [OF u(1)] by auto
    obtain es where "st_log s' = st_log u @ es"
      using install_nodes_grows [of "inst False" "inst True" clu nodes "(tok', ip', n + 1)"] runs u(2) unfolding grows_def by (metis snd_conv)
    then have "joined (is_agent cfg) vm t h (st_log s')" using more(1) [OF j(3)] by simp
    then show ?thesis using Cons.IH [OF u(2) [unfolded j(1,2)]] True unfolding nd v members_Cons by auto
  qed
qed

lemma all_join:
  assumes "install_nodes (inst False) (inst True) clu nodes (None, None, 0) s = (Inr (tok, ip, m), s')" and "members_of clu nodes = (vm0, cfg0) # rest"
  shows "\<exists>t. tok = Some t \<and> ip = Some vm0 \<and> m = length (members_of clu nodes) \<and> started vm0 t (st_log s') \<and>
    (\<forall>(vm, cfg) \<in> set rest. joined (is_agent cfg) vm t vm0 (st_log s'))"
  using assms
proof (induction nodes arbitrary: s)
  case Nil
  then show ?case by (simp add: members_of_def List.map_filter_simps)
next
  case (Cons nd nodes)
  obtain vm v where nd: "nd = (vm, v)" by (cases nd)
  obtain cfg where v: "v = PDict cfg" and or: "get cfg ''kcluster'' \<noteq> PStr clu \<and> install_nodes (inst False) (inst True) clu nodes (None, None, 0) s = (Inr (tok, ip, m), s') \<or>
     get cfg ''kcluster'' = PStr clu \<and> (\<exists>tok' ip' u. (if is_agent cfg then inst True else inst False) vm None None s = (Inr (tok', ip'), u) \<and>
       install_nodes (inst False) (inst True) clu nodes (tok', ip', 0 + 1) u = (Inr (tok, ip, m), s'))"
    using install_nodes_step [OF Cons.prems(1) [unfolded nd]] by blast
  show ?case
  proof (cases "get cfg ''kcluster'' = PStr clu")
    case False
    then show ?thesis using Cons.IH Cons.prems(2) or unfolding nd v members_Cons by auto
  next
    case True
    then obtain tok' ip' u where u: "inst (is_agent cfg) vm None None s = (Inr (tok', ip'), u)"
       "install_nodes (inst False) (inst True) clu nodes (tok', ip', 0 + 1) u = (Inr (tok, ip, m), s')" using or by (auto split: if_splits)
    obtain t where j: "tok' = Some t" "ip' = Some vm" "started vm t (st_log u)" using first [OF u(1)] by auto
    have vm0: "vm0 = vm" "rest = members_of clu nodes" using Cons.prems(2) True unfolding nd v members_Cons by auto
    obtain es where "st_log s' = st_log u @ es"
      using install_nodes_grows [of "inst False" "inst True" clu nodes "(tok', ip', 0 + 1)"] runs u(2) unfolding grows_def by (metis snd_conv)
    then have "started vm t (st_log s')" using more(2) [OF j(3)] by simp
    then show ?thesis using rest_join [OF u(2) [unfolded j(1,2)]] True vm0 unfolding nd v members_Cons by auto
  qed
qed

end

lemma grows_keeps: "grows m \<Longrightarrow> m s = (r, s') \<Longrightarrow> e \<in> set (st_log s) \<Longrightarrow> e \<in> set (st_log s')"
  unfolding grows_def by (metis Un_iff set_append snd_conv)

lemma checked_Inr: "checked w h c e s = (Inr out, s') \<Longrightarrow>
    s' = s\<lparr>st_log := st_log s @ [e]\<rparr> \<and> fst (w_answer w e (st_log s)) = 0 \<and> out = snd (w_answer w e (st_log s))"
  by (auto simp: checked_def happen_def act_simps split: prod.splits if_splits)

lemma ssh_run_Inr: "ssh_run w h c s = (Inr x, s') \<Longrightarrow> Ssh h c \<in> set (st_log s')"
  by (auto simp: ssh_run_def act_bind_eq_Inr act_ret_app dest!: checked_Inr)

text \<open>\<open>t\<close> is what \<open>cmd\<close> printed on the host, without the blanks around it.\<close>

definition printed :: "world \<Rightarrow> string \<Rightarrow> string \<Rightarrow> string \<Rightarrow> event list \<Rightarrow> bool" where
  "printed w host cmd t es =
     (\<exists>es1 es2. es = es1 @ [Ssh host cmd] @ es2 \<and> fst (w_answer w (Ssh host cmd) es1) = 0 \<and> t = str_strip (snd (w_answer w (Ssh host cmd) es1)))"

lemma printed_more: "printed w host cmd t es \<Longrightarrow> printed w host cmd t (es @ es')"
proof -
  assume "printed w host cmd t es"
  then obtain es1 es2 where "es = es1 @ [Ssh host cmd] @ es2" "fst (w_answer w (Ssh host cmd) es1) = 0"
    "t = str_strip (snd (w_answer w (Ssh host cmd) es1))" unfolding printed_def by blast
  then show ?thesis unfolding printed_def by (intro exI [of _ es1] exI [of _ "es2 @ es'"]) simp
qed

lemma ssh_output_Inr: "ssh_output w h c s = (Inr t, s') \<Longrightarrow> printed w h c t (st_log s')"
proof -
  assume "ssh_output w h c s = (Inr t, s')"
  then obtain out where "checked w h c (Ssh h c) s = (Inr out, s')" "t = str_strip out"
    by (auto simp: ssh_output_def act_bind_eq_Inr act_ret_app)
  then show ?thesis using checked_Inr [of w h c "Ssh h c" s out s'] unfolding printed_def
    by (intro exI [of _ "st_log s"] exI [of _ "[]"]) simp
qed

lemma grows_case_option [grows_intros]: "grows a \<Longrightarrow> (\<And>x. grows (b x)) \<Longrightarrow> grows (case v of None \<Rightarrow> a | Some x \<Rightarrow> b x)"
  by (cases v) auto

lemma grows_upd [grows_intros]: "(\<And>s. st_log (g s) = st_log s) \<Longrightarrow> grows (act_upd g)"
  by (simp add: grows_def act_simps)

lemma grows_get [grows_intros]: "grows (act_get g)"
  by (simp add: grows_def act_simps)

lemma grows_starts [grows_intros]: "grows (before_installer w h)" "grows (k3s_start w h svc)"
  by (auto simp: before_installer_def k3s_start_def intro!: grows_intros)

subsection \<open>K3s\<close>

definition k3s_joined :: "dict \<Rightarrow> bool \<Rightarrow> string \<Rightarrow> string \<Rightarrow> string \<Rightarrow> event list \<Rightarrow> bool" where
  "k3s_joined clu_ctx agent host t h es =
     ((\<exists>clu_rel. clu_rel_of clu_ctx = Inr clu_rel \<and> Ssh host (k3s_join_cmd clu_rel h t) \<in> set es) \<and>
      Ssh host ''systemctl enable --now k3s-agent'' \<in> set es)"

lemma k3s_install_grows [grows_intros]: "grows (k3s_install w clu ctx host tok ip)"
  unfolding k3s_install_def by (auto intro!: grows_intros)

lemma k3s_start_Inr: "k3s_start w h svc s = (Inr x, s') \<Longrightarrow> Ssh h (''systemctl enable --now '' @ svc) \<in> set (st_log s')"
  unfolding k3s_start_def by (auto simp: act_bind_eq_Inr act_then_eq_Inr die_def act_raise_app dest: ssh_run_Inr split: if_splits)

interpretation k3s: joining "\<lambda>_. k3s_install w clu ctx" "k3s_joined ctx" "\<lambda>host t. printed w host K3S_TOKEN_CMD t"
proof unfold_locales
  show "grows (k3s_install w clu ctx host tok ip)" for host tok ip by (rule k3s_install_grows)
next
  show "k3s_joined ctx agent host t h es \<Longrightarrow> k3s_joined ctx agent host t h (es @ es')" for agent host t h es es'
    by (auto simp: k3s_joined_def)
next
  show "printed w host K3S_TOKEN_CMD t es \<Longrightarrow> printed w host K3S_TOKEN_CMD t (es @ es')" for host t es es' by (rule printed_more)
next
  fix host ip s tok ip' s'
  assume "k3s_install w clu ctx host None ip s = (Inr (tok, ip'), s')"
  then show "\<exists>t. tok = Some t \<and> ip' = Some host \<and> printed w host K3S_TOKEN_CMD t (st_log s')"
    by (auto simp: k3s_install_def act_bind_eq_Inr act_then_eq_Inr act_ret_app dest: ssh_output_Inr)
next
  fix agent host t h s tok ip' s'
  assume "k3s_install w clu ctx host (Some t) (Some h) s = (Inr (tok, ip'), s')"
  then obtain rel u1 u2 where u: "clu_rel_of ctx = Inr rel" "ssh_run w host (k3s_join_cmd rel h t) u1 = (Inr (), u2)"
    "k3s_start w host ''k3s-agent'' u2 = (Inr (), s')" "tok = Some t" "ip' = Some h"
    by (auto simp: k3s_install_def the_ip_def act_bind_eq_Inr act_then_eq_Inr act_ret_app act_res_app)
  have "Ssh host (k3s_join_cmd rel h t) \<in> set (st_log s')"
    using grows_keeps [OF grows_starts(2) u(3)] ssh_run_Inr [OF u(2)] by blast
  then show "tok = Some t \<and> ip' = Some h \<and> k3s_joined ctx agent host t h (st_log s')"
    using u k3s_start_Inr [OF u(3)] by (auto simp: k3s_joined_def)
qed

subsection \<open>RKE2\<close>

definition rke2_joined :: "bool \<Rightarrow> string \<Rightarrow> string \<Rightarrow> string \<Rightarrow> event list \<Rightarrow> bool" where
  "rke2_joined agent host t h es =
     ({Ssh host (to_rke2_config (sq (''server: https://'' @ h @ '':9345''))), Ssh host (to_rke2_config (sq (''token: '' @ t))),
       Ssh host (rke2_service (if agent then ''agent'' else ''server''))} \<subseteq> set es)"

lemma rke2_packages_grows [grows_intros]: "grows (rke2_install_packages w clu host ctx role)"
  unfolding rke2_install_packages_def rke2_method_def rke2_prepare_def write_node_config_def write_once_def rsync_def Let_def
  by (auto intro!: grows_intros)

lemma rke2_install_grows [grows_intros]: "grows (rke2_install w clu ctx role host tok ip)"
  unfolding rke2_install_def by (auto intro!: grows_intros)

abbreviation rke2_role :: "bool \<Rightarrow> string" where
  "rke2_role agent \<equiv> (if agent then ''agent'' else ''server'')"

interpretation rke2: joining "\<lambda>agent. rke2_install w clu ctx (rke2_role agent)" rke2_joined "\<lambda>host t. printed w host RKE2_TOKEN_CMD t"
proof unfold_locales
  show "grows (rke2_install w clu ctx (rke2_role agent) host tok ip)" for agent host tok ip by (rule rke2_install_grows)
next
  show "rke2_joined agent host t h es \<Longrightarrow> rke2_joined agent host t h (es @ es')" for agent host t h es es'
    by (auto simp: rke2_joined_def)
next
  show "printed w host RKE2_TOKEN_CMD t es \<Longrightarrow> printed w host RKE2_TOKEN_CMD t (es @ es')" for host t es es' by (rule printed_more)
next
  fix agent host ip s tok ip' s'
  assume "rke2_install w clu ctx (rke2_role agent) host None ip s = (Inr (tok, ip'), s')"
  then show "\<exists>t. tok = Some t \<and> ip' = Some host \<and> printed w host RKE2_TOKEN_CMD t (st_log s')"
    by (auto simp: rke2_install_def act_bind_eq_Inr act_then_eq_Inr act_ret_app dest: ssh_output_Inr)
next
  fix agent host t h s tok ip' s'
  assume "rke2_install w clu ctx (rke2_role agent) host (Some t) (Some h) s = (Inr (tok, ip'), s')"
  then obtain u1 u2 u3 where u: "ssh_run w host (to_rke2_config (sq (''server: https://'' @ h @ '':9345''))) u1 = (Inr (), u2)"
    "ssh_run w host (to_rke2_config (sq (''token: '' @ t))) u2 = (Inr (), u3)"
    "ssh_run w host (rke2_service (rke2_role agent)) u3 = (Inr (), s')" "tok = Some t" "ip' = Some h"
    by (auto simp: rke2_install_def act_then_eq_Inr act_ret_app)
  then show "tok = Some t \<and> ip' = Some h \<and> rke2_joined agent host t h (st_log s')"
    using u(4,5) ssh_run_Inr [OF u(1)] ssh_run_Inr [OF u(2)] ssh_run_Inr [OF u(3)]
      grows_keeps [OF grows_ssh(2) u(2)] grows_keeps [OF grows_ssh(2) u(3)] unfolding rke2_joined_def by blast
qed

subsection \<open>kubeadm\<close>

definition kubeadm_joined :: "bool \<Rightarrow> string \<Rightarrow> join_token \<Rightarrow> string \<Rightarrow> event list \<Rightarrow> bool" where
  "kubeadm_joined agent host t h es = (Ssh host (if agent then fst t else control_plane_cmd t) \<in> set es)"

definition kubeadm_started :: "world \<Rightarrow> string \<Rightarrow> join_token \<Rightarrow> event list \<Rightarrow> bool" where
  "kubeadm_started w host t es = (printed w host JOIN_CMD (fst t) es \<and> printed w host CERT_CMD (snd t) es)"

definition kubeadm_inst :: "world \<Rightarrow> string \<Rightarrow> dict \<Rightarrow> bool \<Rightarrow> join_token installer" where
  "kubeadm_inst w clu ctx agent = (if agent then kubeadm_agent w ctx else kubeadm_server w clu ctx)"

lemma grows_managers [grows_intros]: "grows (first_manager w h ms)"
  by (induction ms) (auto intro!: grows_intros)

lemma prepare_node_grows [grows_intros]: "grows (prepare_node w h rel)"
  unfolding prepare_node_def apt_repository_def rpm_repository_def install_packages_def Let_def
  by (auto intro!: grows_intros)

lemma kubeadm_inst_grows: "grows (kubeadm_inst w clu ctx agent host tok ip)"
  unfolding kubeadm_inst_def kubeadm_agent_def kubeadm_server_def kubeadm_init_def apply_cni_def write_root_kubeconfig_def Let_def
  by (auto intro!: grows_intros)

interpretation kubeadm: joining "kubeadm_inst w clu ctx" kubeadm_joined "kubeadm_started w"
proof unfold_locales
  show "grows (kubeadm_inst w clu ctx agent host tok ip)" for agent host tok ip by (rule kubeadm_inst_grows)
next
  show "kubeadm_joined agent host t h es \<Longrightarrow> kubeadm_joined agent host t h (es @ es')" for agent host t h es es'
    by (auto simp: kubeadm_joined_def)
next
  show "kubeadm_started w host t es \<Longrightarrow> kubeadm_started w host t (es @ es')" for host t es es'
    by (simp add: kubeadm_started_def printed_more)
next
  fix agent host ip s tok ip' s'
  assume a: "kubeadm_inst w clu ctx agent host None ip s = (Inr (tok, ip'), s')"
  then have "\<not> agent" by (auto simp: kubeadm_inst_def kubeadm_agent_def act_then_eq_Inr act_raise_app)
  then obtain u0 u1 j k where u: "ssh_output w host JOIN_CMD u0 = (Inr j, u1)" "ssh_output w host CERT_CMD u1 = (Inr k, s')" "tok = Some (j, k)" "ip' = Some host"
    using a by (auto simp: kubeadm_inst_def kubeadm_server_def kubeadm_init_def act_bind_eq_Inr act_then_eq_Inr act_ret_app Let_def)
  obtain es where "st_log s' = st_log u1 @ es" using grows_ssh(5) [of w host CERT_CMD] u(2) unfolding grows_def by (metis snd_conv)
  then show "\<exists>t. tok = Some t \<and> ip' = Some host \<and> kubeadm_started w host t (st_log s')"
    using u ssh_output_Inr [OF u(2)] printed_more [OF ssh_output_Inr [OF u(1)]] by (simp add: kubeadm_started_def)
next
  fix agent host t h s tok ip' s'
  assume a: "kubeadm_inst w clu ctx agent host (Some t) (Some h) s = (Inr (tok, ip'), s')"
  show "tok = Some t \<and> ip' = Some h \<and> kubeadm_joined agent host t h (st_log s')"
  proof (cases agent)
    case True
    then obtain u0 where "ssh_run w host (fst t) u0 = (Inr (), s')" "tok = Some t" "ip' = Some h"
      using a by (auto simp: kubeadm_inst_def kubeadm_agent_def act_then_eq_Inr act_ret_app)
    then show ?thesis using ssh_run_Inr True by (auto simp: kubeadm_joined_def)
  next
    case False
    then obtain u0 u1 where u: "ssh_run w host (control_plane_cmd t) u0 = (Inr (), u1)" "write_root_kubeconfig w host u1 = (Inr (), s')" "tok = Some t" "ip' = Some h"
      using a by (auto simp: kubeadm_inst_def kubeadm_server_def act_then_eq_Inr act_ret_app)
    then show ?thesis using ssh_run_Inr [OF u(1)] grows_keeps [OF grows_ssh(2) u(2) [unfolded write_root_kubeconfig_def]] False
      by (auto simp: kubeadm_joined_def)
  qed
qed

section \<open>The cluster as a whole\<close>

lemma attempt_True: "attempt w e n s = (Inr True, s') \<Longrightarrow> \<exists>es. st_log s' = st_log s @ es @ [e] \<and> fst (w_answer w e (st_log s @ es)) = 0"
proof (induction n arbitrary: s)
  case (Suc n)
  obtain rc out where a: "w_answer w e (st_log s) = (rc, out)" by fastforce
  show ?case
  proof (cases "rc = 0")
    case True
    then show ?thesis using Suc.prems a by (intro exI [of _ "[]"]) (auto simp: act_bind_def happen_def act_ret_app)
  next
    case False
    then have "attempt w e n (s\<lparr>st_log := st_log s @ [e]\<rparr>) = (Inr True, s')"
      using Suc.prems a by (auto simp: act_bind_def happen_def)
    from Suc.IH [OF this] show ?thesis by (auto intro: exI [of _ "e # _"])
  qed
qed (simp add: act_ret_app)

text \<open>The command succeeded at the end of the log.\<close>

definition ended_with :: "world \<Rightarrow> event \<Rightarrow> event list \<Rightarrow> bool" where
  "ended_with w e es = (\<exists>es1. es = es1 @ [e] \<and> fst (w_answer w e es1) = 0)"

lemma wait_nodes_ready_Inr:
  assumes "wait_nodes_ready w dist server clu_name count s = (Inr (), s')"
  shows "ended_with w (Ssh server (ready_check dist count)) (st_log s') \<and> (\<exists>es. st_log s' = st_log s @ es)"
proof -
  obtain n where "attempt w (Ssh server (ready_check dist count)) n s = (Inr True, s')"
    using assms by (auto simp: wait_nodes_ready_def wait_for_ssh_command_def act_bind_eq_Inr act_ret_app act_raise_app split: if_splits)
  from attempt_True [OF this] show ?thesis unfolding ended_with_def by (metis append.assoc)
qed

lemma install_cluster_run:
  assumes "install_cluster w dist server agent defn clu s = (Inr (), s')" and "get defn ''nodes'' = PDict nodes"
  shows "\<exists>tok ip n u. install_nodes server agent clu nodes (None, None, 0) s = (Inr (tok, ip, n), u) \<and>
    (case ip of None \<Rightarrow> s' = u | Some h \<Rightarrow> if h = [] then s' = u else wait_nodes_ready w dist h clu n u = (Inr (), s'))"
proof -
  have "or_dict (get defn ''nodes'') = Inr nodes" using assms(2) by (cases nodes) (simp_all add: or_dict_def)
  then obtain st u where u: "install_nodes server agent clu nodes (None, None, 0) s = (Inr st, u)"
    "(case st of (_, ip, count) \<Rightarrow> case ip of None \<Rightarrow> act_ret () | Some h \<Rightarrow> if h = [] then act_ret () else wait_nodes_ready w dist h clu count) u = (Inr (), s')"
    using assms(1) by (auto simp: install_cluster_def act_bind_eq_Inr act_res_app)
  obtain tok ip n where st: "st = (tok, ip, n)" by (cases st)
  show ?thesis using u unfolding st by (cases ip) (auto simp: act_ret_app split: if_splits)
qed

context joining
begin

lemma cluster_done:
  assumes "install_cluster w dist (inst False) (inst True) defn clu s = (Inr (), s')" and "get defn ''nodes'' = PDict nodes"
    and "members_of clu nodes = (vm0, cfg0) # rest" and "vm0 \<noteq> []"
  shows "\<exists>t. started vm0 t (st_log s') \<and> (\<forall>(vm, cfg) \<in> set rest. joined (is_agent cfg) vm t vm0 (st_log s')) \<and>
    ended_with w (Ssh vm0 (ready_check dist (Suc (length rest)))) (st_log s')"
proof -
  obtain tok ip n u where u: "install_nodes (inst False) (inst True) clu nodes (None, None, 0) s = (Inr (tok, ip, n), u)"
    "case ip of None \<Rightarrow> s' = u | Some h \<Rightarrow> if h = [] then s' = u else wait_nodes_ready w dist h clu n u = (Inr (), s')"
    using install_cluster_run [OF assms(1,2)] by blast
  from all_join [OF u(1) assms(3)] obtain t where t: "ip = Some vm0" "n = Suc (length rest)" "started vm0 t (st_log u)"
    "\<forall>(vm, cfg) \<in> set rest. joined (is_agent cfg) vm t vm0 (st_log u)" using assms(3) by auto
  have "wait_nodes_ready w dist vm0 clu n u = (Inr (), s')" using u(2) t(1) assms(4) by simp
  from wait_nodes_ready_Inr [OF this] obtain es where e: "st_log s' = st_log u @ es"
    and l: "ended_with w (Ssh vm0 (ready_check dist n)) (st_log s')" by blast
  have "\<forall>(vm, cfg) \<in> set rest. joined (is_agent cfg) vm t vm0 (st_log s')" using t(4) more(1) unfolding e by fast
  then show ?thesis using l t(2) more(2) [OF t(3)] unfolding e by blast
qed

end

text \<open>C4 An installed cluster is one cluster: its first node, in the lab definition's order, prints the token every other node of
  it joins with, under that node's address; nobody else's, and the run ends only when that node lists as many
  Ready nodes as the cluster has.\<close>

theorem nodes_join_first_server:
  assumes "get defn ''nodes'' = PDict nodes" and "members_of clu nodes = (vm0, cfg0) # rest" and "vm0 \<noteq> []"
  shows "(install_k3s w defn clu ctx s = (Inr (), s') \<longrightarrow>
      (\<exists>t. printed w vm0 K3S_TOKEN_CMD t (st_log s') \<and> (\<forall>(vm, cfg) \<in> set rest. k3s_joined ctx (is_agent cfg) vm t vm0 (st_log s')) \<and>
        ended_with w (Ssh vm0 (ready_check k3s_distro (Suc (length rest)))) (st_log s'))) \<and>
    (install_rke2 w defn clu ctx s = (Inr (), s') \<longrightarrow>
      (\<exists>t. printed w vm0 RKE2_TOKEN_CMD t (st_log s') \<and> (\<forall>(vm, cfg) \<in> set rest. rke2_joined (is_agent cfg) vm t vm0 (st_log s')) \<and>
        ended_with w (Ssh vm0 (ready_check rke2_distro (Suc (length rest)))) (st_log s'))) \<and>
    (install_kubeadm w defn clu ctx s = (Inr (), s') \<longrightarrow>
      (\<exists>t. kubeadm_started w vm0 t (st_log s') \<and> (\<forall>(vm, cfg) \<in> set rest. kubeadm_joined (is_agent cfg) vm t vm0 (st_log s')) \<and>
        ended_with w (Ssh vm0 (ready_check kubeadm_distro (Suc (length rest)))) (st_log s')))"
proof (intro conjI impI)
  assume "install_k3s w defn clu ctx s = (Inr (), s')"
  then show "\<exists>t. printed w vm0 K3S_TOKEN_CMD t (st_log s') \<and> (\<forall>(vm, cfg) \<in> set rest. k3s_joined ctx (is_agent cfg) vm t vm0 (st_log s')) \<and>
        ended_with w (Ssh vm0 (ready_check k3s_distro (Suc (length rest)))) (st_log s')"
    unfolding install_k3s_def by (rule k3s.cluster_done [OF _ assms])
next
  assume "install_rke2 w defn clu ctx s = (Inr (), s')"
  then show "\<exists>t. printed w vm0 RKE2_TOKEN_CMD t (st_log s') \<and> (\<forall>(vm, cfg) \<in> set rest. rke2_joined (is_agent cfg) vm t vm0 (st_log s')) \<and>
        ended_with w (Ssh vm0 (ready_check rke2_distro (Suc (length rest)))) (st_log s')"
    unfolding install_rke2_def using rke2.cluster_done [OF _ assms, of w rke2_distro w clu ctx s s'] by simp
next
  assume "install_kubeadm w defn clu ctx s = (Inr (), s')"
  then obtain ctx' where "install_cluster w kubeadm_distro (kubeadm_server w clu ctx') (kubeadm_agent w ctx') defn clu s = (Inr (), s')"
    by (auto simp: install_kubeadm_def act_bind_eq_Inr act_res_app)
  then show "\<exists>t. kubeadm_started w vm0 t (st_log s') \<and> (\<forall>(vm, cfg) \<in> set rest. kubeadm_joined (is_agent cfg) vm t vm0 (st_log s')) \<and>
        ended_with w (Ssh vm0 (ready_check kubeadm_distro (Suc (length rest)))) (st_log s')"
    using kubeadm.cluster_done [OF _ assms, of w kubeadm_distro w clu ctx' s s'] by (simp add: kubeadm_inst_def)
qed

text \<open>Hosts whose every command succeeds, but for the question whether SELinux is enabled.\<close>

definition calm_world :: world where
  "calm_world = \<lparr>w_answer = (\<lambda>e _. case e of Ssh _ c \<Rightarrow> if take 2 c = ''se'' then (1, []) else (0, ''K10 '') | _ \<Rightarrow> (0, [])),
     w_tries = (\<lambda>_ _. 1)\<rparr>"

text \<open>An action that always returns the same.\<close>

definition gives :: "'a job \<Rightarrow> 'a \<Rightarrow> bool" where
  "gives m x = (\<forall>s. fst (m s) = Inr x)"

lemma gives_bind: "gives m x \<Longrightarrow> gives (f x) y \<Longrightarrow> gives (act_bind m f) y"
  unfolding gives_def act_bind_def by (auto split: prod.splits sum.splits) (metis fst_conv sum.inject(2) sum.distinct(1))+

lemma gives_then: "gives m x \<Longrightarrow> gives n y \<Longrightarrow> gives (act_then m n) y"
  by (simp add: act_then_def gives_bind)

lemma gives_ret: "gives (act_ret x) x" "gives (act_res (Inr x)) x"
  by (simp_all add: gives_def act_simps)

lemma bind_res: "act_bind (act_res (Inr x)) f = f x"
  by (simp add: act_bind_def act_res_def)

lemma gives_happen: "take 2 c \<noteq> ''se'' \<Longrightarrow> gives (happen calm_world (Ssh h c)) (0, ''K10 '')"
  by (simp add: gives_def happen_def calm_world_def)

lemma gives_ssh:
  assumes "take 2 c \<noteq> ''se''"
  shows "gives (ssh_run calm_world h c) ()" "gives (ssh_ok calm_world h c) True" "gives (ssh_output calm_world h c) ''K10''"
    "gives (ssh_try calm_world h c) (0, ''K10 '')" "gives (wait_for_ssh_command calm_world h c) True"
proof -
  note hp = gives_happen [OF assms, of h]
  have st: "str_strip ''K10 '' = ''K10''" by code_simp
  have ck: "gives (checked calm_world h c (Ssh h c)) ''K10 ''"
    unfolding checked_def by (rule gives_bind [OF hp]) (simp add: gives_ret)
  show "gives (ssh_run calm_world h c) ()" unfolding ssh_run_def by (rule gives_bind [OF ck gives_ret(1)])
  show "gives (ssh_try calm_world h c) (0, ''K10 '')" unfolding ssh_try_def by (rule hp)
  show "gives (ssh_ok calm_world h c) True" unfolding ssh_ok_def ssh_try_def by (rule gives_bind [OF hp]) (simp add: gives_ret)
  show "gives (ssh_output calm_world h c) ''K10''" unfolding ssh_output_def by (rule gives_bind [OF ck], subst st, rule gives_ret)
  have "gives (attempt calm_world (Ssh h c) (Suc 0)) True" unfolding attempt.simps by (rule gives_bind [OF hp]) (simp add: gives_ret)
  then show "gives (wait_for_ssh_command calm_world h c) True" by (simp add: gives_def wait_for_ssh_command_def calm_world_def)
qed

lemma gives_reboot: "gives (reboot_into_pending_snapshot calm_world h) True"
proof -
  have "str_strip ''K10 '' = ''K10''" by code_simp
  then have b: "gives (boot_id calm_world h) ''K10''" unfolding boot_id_def
    by (intro gives_bind [OF gives_ssh(4)]) (simp_all add: BOOT_ID_CMD_def gives_ret)
  have r: "gives (wait_for_reboot calm_world h i) True" for i
    unfolding wait_for_reboot_def by (rule gives_ssh(5)) simp
  have p: "gives (pending_snapshot calm_world h) True" unfolding pending_snapshot_def by (rule gives_ssh(2)) simp
  show ?thesis unfolding reboot_into_pending_snapshot_def
    by (rule gives_bind [OF p], simp, rule gives_bind [OF b], rule gives_then [OF gives_ssh(4)], simp, rule gives_bind [OF r], simp add: gives_ret)
qed

lemma gives_k3s_start: "gives (k3s_start calm_world h svc) ()"
proof -
  have "gives (ssh_ok calm_world h ''selinuxenabled && [ ! -f /usr/share/selinux/packages/k3s.pp ]'') False"
    by (simp add: gives_def ssh_ok_def ssh_try_def happen_def calm_world_def act_bind_def act_ret_def)
  then show ?thesis unfolding k3s_start_def
    by (intro gives_then [OF gives_reboot] gives_bind) (auto intro!: gives_ssh)
qed

lemma gives_before: "gives (before_installer calm_world h) ()"
  unfolding before_installer_def wait_for_transactional_update_lock_def LOCK_CMD_def
  by (rule gives_then [OF gives_reboot gives_bind [OF gives_ssh(5)]]) (auto intro: gives_ret)

lemma calm_k3s:
  "gives (k3s_install calm_world clu [] h None ip) (Some ''K10'', Some h)"
  "gives (k3s_install calm_world clu [] h (Some t) (Some i)) (Some t, Some i)"
proof -
  have rel: "clu_rel_of [] = Inr ''stable''" by (simp add: clu_rel_of_def get_def py_or_def as_str_def)
  have ctx: "text_ctx [] ''mydomain'' [] = Inr []" "as_str (py_or (get [] ''clu_token'') (PStr [])) = Inr []"
    by (simp_all add: text_ctx_def get_dflt_def get_def py_or_def as_str_def)
  note i = gives_then [where x = "()"] gives_before gives_k3s_start gives_ret gives_ssh(1)
  show "gives (k3s_install calm_world clu [] h None ip) (Some ''K10'', Some h)"
    unfolding k3s_install_def rel ctx option.case
    by (rule gives_bind [OF gives_ret(2)], intro i gives_bind [OF gives_ret(2)] gives_bind [OF gives_ssh(3)])
      (simp_all add: k3s_server_cmd_def env_file_def K3S_TOKEN_CMD_def)
  show "gives (k3s_install calm_world clu [] h (Some t) (Some i)) (Some t, Some i)"
    unfolding k3s_install_def rel ctx option.case the_ip_def
    by (rule gives_bind [OF gives_ret(2)], intro i gives_bind [OF gives_ret(2)]) (simp_all add: k3s_join_cmd_def)
qed

definition fresh_site :: site where
  "fresh_site = \<lparr>st_log = [], st_files = [], st_warnings = []\<rparr>"

definition two_nodes :: "(string \<times> pval) list" where
  "two_nodes = [(''db'', PDict []), (''s1'', PDict [(''kcluster'', PStr ''c1'')]),
     (''s2'', PDict [(''kcluster'', PStr ''c1''), (''KUBERNETES_NODE_TYPE'', PStr ''agent'')])]"

lemma nodes_join_first_server_witness:
  "\<exists>s'. install_k3s calm_world [(''nodes'', PDict two_nodes)] ''c1'' [] fresh_site = (Inr (), s') \<and>
     (\<exists>t. printed calm_world ''s1'' K3S_TOKEN_CMD t (st_log s') \<and> k3s_joined [] True ''s2'' t ''s1'' (st_log s'))"
proof -
  have r: "gives (wait_nodes_ready calm_world k3s_distro h ''c1'' n) ()" for h n
    unfolding wait_nodes_ready_def by (rule gives_bind [OF gives_ssh(5)]) (simp_all add: gives_ret ready_check_def)
  have "gives (install_nodes (k3s_install calm_world ''c1'' []) (k3s_install calm_world ''c1'' []) ''c1'' two_nodes (None, None, 0))
      (Some ''K10'', Some ''s1'', 2)"
    unfolding two_nodes_def install_nodes.simps
    by (simp add: strict_dict_def bind_res get_def, rule gives_bind [OF calm_k3s(1)])
      (simp add: bind_res, rule gives_bind [OF calm_k3s(2)], simp add: gives_ret numeral_2_eq_2)
  then have "gives (install_k3s calm_world [(''nodes'', PDict two_nodes)] ''c1'' []) ()"
    unfolding install_k3s_def install_cluster_def
    by (intro gives_bind [where x = two_nodes] gives_bind [where x = "(Some ''K10'', Some ''s1'', 2)"])
      (simp_all add: get_def or_dict_def two_nodes_def gives_ret r)
  then have f: "fst (install_k3s calm_world [(''nodes'', PDict two_nodes)] ''c1'' [] fresh_site) = Inr ()"
    unfolding gives_def by blast
  then obtain s' where s': "install_k3s calm_world [(''nodes'', PDict two_nodes)] ''c1'' [] fresh_site = (Inr (), s')"
    by (metis prod.collapse)
  have n: "get [(''nodes'', PDict two_nodes)] ''nodes'' = PDict two_nodes" by (simp add: get_def)
  have m: "members_of ''c1'' two_nodes = (''s1'', [(''kcluster'', PStr ''c1'')]) #
      [(''s2'', [(''kcluster'', PStr ''c1''), (''KUBERNETES_NODE_TYPE'', PStr ''agent'')])]" by code_simp
  have "is_agent [(''kcluster'', PStr ''c1''), (''KUBERNETES_NODE_TYPE'', PStr ''agent'')]" by code_simp
  then show ?thesis
    using nodes_join_first_server [OF n m, of calm_world "[]" fresh_site s'] s' by auto
qed

text \<open>Only the first node can be given no token, and the code lets it be an agent: with kubeadm an agent that comes before
  the first server raises after its node was prepared.\<close>

lemma kubeadm_agent_first_raises:
  assumes "prepare_node w host (get ctx ''clu_rel'') s = (Inr (), s')"
  shows "kubeadm_agent w ctx host None ip s = (Inl (TypeError ''NoneType object is not subscriptable''), s')"
  by (simp add: kubeadm_agent_def act_then_app act_raise_app assms)

end
