(* ===== verification/K8s_Services.thy ===== *)
theory K8s_Services
  imports K8s_Install
begin

text \<open>
  What the add-ons of a kcluster share: Traefik's extra TCP entrypoints on RKE2 and K3s, the basic-auth secret, Longhorn's
  over-provisioning and the CloudNativePG operator; the last part of \<open>libs/k8s.py\<close>.
\<close>

section \<open>Manifests\<close>

text \<open>\<open>ep.split(":", 1)\<close> into two names.\<close>

definition split_port :: "string \<Rightarrow> (string \<times> string) res" where
  "split_port ep =
     (if CHR '':'' \<in> set ep then Inr (takeWhile (\<lambda>c. c \<noteq> CHR '':'') ep, tl (dropWhile (\<lambda>c. c \<noteq> CHR '':'') ep))
      else Inl (ValueError ''not enough values to unpack (expected 2, got 1)''))"

definition rke2_entry :: "string \<times> string \<Rightarrow> string list" where
  "rke2_entry = (\<lambda>(name, port).
     [''      '' @ name @ '':'', ''        port: '' @ port, ''        exposedPort: '' @ port, ''        protocol: TCP'',
      ''        hostPort: '' @ port, ''        expose:'', ''          default: true''])"

definition k3s_entry :: "string \<times> string \<Rightarrow> string list" where
  "k3s_entry = (\<lambda>(name, port).
     [''      '' @ name @ '':'', ''        port: '' @ port, ''        exposedPort: '' @ port, ''        protocol: TCP'',
      ''        expose:'', ''          default: true''])"

definition RKE2_TRAEFIK :: "string list" where
  "RKE2_TRAEFIK = [''apiVersion: helm.cattle.io/v1'', ''kind: HelmChartConfig'', ''metadata:'', ''  name: rke2-traefik'', ''  namespace: kube-system'',
     ''spec:'', ''  valuesContent: |-'', ''    ingressClass:'', ''      isDefaultClass: true'', ''    ports:'']"

definition K3S_TRAEFIK :: "string list" where
  "K3S_TRAEFIK = [''apiVersion: helm.cattle.io/v1'', ''kind: HelmChartConfig'', ''metadata:'', ''  name: traefik'', ''  namespace: kube-system'',
     ''spec:'', ''  valuesContent: |-'', ''    ports:'']"

definition manifest :: "string list \<Rightarrow> (string \<times> string \<Rightarrow> string list) \<Rightarrow> string list \<Rightarrow> string res" where
  "manifest head entry extra_ports =
     res_bind (res_map (\<lambda>ep. res_bind (split_port ep) (\<lambda>p. Inr (entry p))) extra_ports) (\<lambda>es. Inr (join NL (head @ concat es) @ NL))"

section \<open>Traefik\<close>

definition traefik_path :: "string \<Rightarrow> string" where
  "traefik_path kind = ''cat > /var/lib/rancher/'' @ kind @ ''/server/manifests/lab-traefik-config.yaml''"

definition write_manifest :: "world \<Rightarrow> string \<Rightarrow> string \<Rightarrow> string \<Rightarrow> string \<Rightarrow> unit job" where
  "write_manifest w host kind content msg =
     act_bind (happen w (Ssh_Input host (traefik_path kind) content)) (\<lambda>(rc, _). if rc \<noteq> 0 then die msg else act_ret ())"

definition INGRESS_SCRIPT :: string where
  "INGRESS_SCRIPT =
     NL @ join NL
       [''grep -q '' @ sq ''^ingress-controller:'' @ '' /etc/rancher/rke2/config.yaml 2>/dev/null || '' @ bsl [],
        ''    echo '' @ sq ''ingress-controller: traefik'' @ '' >> /etc/rancher/rke2/config.yaml'',
        ''if grep -q '' @ sq ''disable:'' @ '' /etc/rancher/rke2/config.yaml 2>/dev/null; then'',
        ''    grep -q '' @ sq ''rke2-ingress-nginx'' @ '' /etc/rancher/rke2/config.yaml || '' @ bsl [],
        ''        sed -i '' @ sq (''/^disable:/a'' @ bsl (bsl ''  - rke2-ingress-nginx'')) @ '' /etc/rancher/rke2/config.yaml'',
        ''else'',
        ''    echo -e '' @ sq (''disable:'' @ bsl ''n  - rke2-ingress-nginx'') @ '' >> /etc/rancher/rke2/config.yaml'',
        ''fi'']"

definition TRAEFIK_DS :: string where "TRAEFIK_DS = ''kubectl get ds -n kube-system rke2-traefik''"
definition NGINX_DS :: string where "NGINX_DS = ''kubectl get ds -n kube-system rke2-ingress-nginx-controller''"
definition NOT_READY :: string where "NOT_READY = ''Traefik did not become ready '' @ emdash @ '' check: kubectl get pods -n kube-system''"

definition ignore :: "'a job \<Rightarrow> unit job" where
  "ignore m = act_then m (act_ret ())"

definition restart_rke2 :: "world \<Rightarrow> string \<Rightarrow> unit job" where
  "restart_rke2 w host =
     act_then (ignore (ssh_try w host (''rm -f /var/lib/rancher/rke2/server/manifests/rke2-ingress-nginx.yaml; '' @ ''systemctl restart rke2-server'')))
       (ignore (attempt w (Ssh host ''kubectl get nodes'') 30))"

definition setup_traefik_rke2 :: "world \<Rightarrow> string \<Rightarrow> string list \<Rightarrow> unit job" where
  "setup_traefik_rke2 w host extra_ports =
     act_bind (ssh_ok w host ''helm status traefik -n kube-system'') (\<lambda>old.
     act_then (if old then ignore (ssh_try w host ''helm uninstall traefik -n kube-system'') else act_ret ())
     (act_bind (act_res (manifest RKE2_TRAEFIK rke2_entry extra_ports)) (\<lambda>content.
      act_then (write_manifest w host ''rke2'' content ''Failed to write the rke2-traefik HelmChartConfig'')
      (act_then (ignore (ssh_try w host INGRESS_SCRIPT))
      (act_bind (ssh_ok w host TRAEFIK_DS) (\<lambda>there.
       act_bind (if \<not> there then act_ret True else ssh_ok w host NGINX_DS) (\<lambda>nginx_present.
       act_then (if \<not> there \<or> nginx_present then restart_rke2 w host else act_ret ())
       (act_then (ignore (attempt w (Ssh host TRAEFIK_DS) 30))
       (act_bind (ssh_ok w host ''kubectl rollout status ds/rke2-traefik -n kube-system --timeout=300s'') (\<lambda>ok.
        if ok then act_ret () else die NOT_READY))))))))))"

text \<open>The wait for the service to list the first extra port: the world's answer is what \<open>kubectl\<close> printed.\<close>

definition SVC_PORTS :: string where
  "SVC_PORTS = ''kubectl get svc traefik -n kube-system -o jsonpath='' @ sq ''{.spec.ports[*].port}'' @ '' 2>/dev/null''"

fun wait_port :: "world \<Rightarrow> string \<Rightarrow> string \<Rightarrow> nat \<Rightarrow> unit job" where
  "wait_port w host port 0 = act_ret ()"
| "wait_port w host port (Suc n) =
     act_bind (ssh_try w host SVC_PORTS) (\<lambda>(_, out). if port \<in> set (words out) then act_ret () else wait_port w host port n)"

definition setup_traefik_k3s :: "world \<Rightarrow> string \<Rightarrow> string list \<Rightarrow> unit job" where
  "setup_traefik_k3s w host extra_ports =
     act_bind (act_res (manifest K3S_TRAEFIK k3s_entry extra_ports)) (\<lambda>content.
     act_then (write_manifest w host ''k3s'' content ''Failed to write the traefik HelmChartConfig'')
     (act_then (case extra_ports of [] \<Rightarrow> act_ret ()
                | ep # _ \<Rightarrow> act_bind (act_res (split_port ep)) (\<lambda>(_, port). wait_port w host port 30))
     (act_bind (ssh_ok w host ''kubectl rollout status deploy/traefik -n kube-system --timeout=300s'') (\<lambda>ok.
      if ok then act_ret () else die NOT_READY))))"

section \<open>The others\<close>

definition secret_cmd :: "string \<Rightarrow> string \<Rightarrow> string \<Rightarrow> string \<Rightarrow> string" where
  "secret_cmd namespace name user password =
     ''kubectl create secret generic '' @ shlex_quote name @ '' -n '' @ shlex_quote namespace @ '' --from-literal=username='' @ shlex_quote user @
     '' --from-literal=password='' @ shlex_quote password @ '' --dry-run=client -o yaml | kubectl apply -f -''"

definition create_basic_auth_secret :: "world \<Rightarrow> string \<Rightarrow> string \<Rightarrow> string \<Rightarrow> string \<Rightarrow> string \<Rightarrow> unit job" where
  "create_basic_auth_secret w host namespace name user password = ssh_run w host (secret_cmd namespace name user password)"

definition longhorn_cmd :: "string \<Rightarrow> string" where
  "longhorn_cmd percentage =
     ''kubectl patch settings.longhorn.io storage-over-provisioning-percentage -n longhorn-system --type=merge -p '' @
     sq (''{'' @ dq ''value'' @ '':'' @ dq percentage @ ''}'')"

definition set_longhorn_overprovisioning :: "world \<Rightarrow> string \<Rightarrow> string \<Rightarrow> unit job" where
  "set_longhorn_overprovisioning w host percentage = ignore (ssh_try w host (longhorn_cmd percentage))"

definition cnpg_cmd :: "string \<Rightarrow> string" where
  "cnpg_cmd chart_version =
     ''helm repo add cnpg https://cloudnative-pg.github.io/charts >/dev/null; helm repo update >/dev/null; '' @
     ''helm upgrade --install cnpg cnpg/cloudnative-pg --namespace cnpg-system --create-namespace '' @
     (if chart_version \<noteq> [] then ''--version '' @ chart_version else [])"

definition setup_cnpg_operator :: "world \<Rightarrow> string \<Rightarrow> string \<Rightarrow> unit job" where
  "setup_cnpg_operator w host chart_version =
     act_bind (ssh_ok w host (cnpg_cmd chart_version)) (\<lambda>ok.
     if \<not> ok then die ''helm install failed for the CloudNativePG operator''
     else act_bind (ssh_ok w host ''kubectl rollout status deploy/cnpg-cloudnative-pg -n cnpg-system --timeout=300s'') (\<lambda>up.
       if up then act_ret () else die ''the CloudNativePG operator did not become ready''))"

end
