(* ===== verification/Py_Text.thy ===== *)
theory Py_Text
  imports Py_Base
begin

text \<open>
  \<open>str.replace\<close>: of all occurrences, and of the first one.
\<close>

function replace_text :: "string \<Rightarrow> string \<Rightarrow> string \<Rightarrow> string" where
  "replace_text old new s =
     (if old = [] then s
      else case s of [] \<Rightarrow> []
      | c # cs \<Rightarrow> if starts_with s old then new @ replace_text old new (drop (length old) s) else c # replace_text old new cs)"
  by pat_completeness auto
termination by (relation "measure (\<lambda>(_, _, s). length s)") (auto simp: neq_Nil_conv)

declare replace_text.simps [simp del]

fun replace_first :: "string \<Rightarrow> string \<Rightarrow> string \<Rightarrow> string" where
  "replace_first old new [] = []"
| "replace_first old new (c # cs) =
     (if starts_with (c # cs) old then new @ drop (length old) (c # cs) else c # replace_first old new cs)"

text \<open>A text without the first character of what is replaced stays as it is.\<close>

lemma replace_text_absent: "old \<noteq> [] \<Longrightarrow> hd old \<notin> set s \<Longrightarrow> replace_text old new s = s"
proof (induction s)
  case (Cons c s)
  have "\<not> starts_with (c # s) old" using Cons.prems by (cases old) auto
  then show ?case using Cons by (subst replace_text.simps) simp
qed (simp add: replace_text.simps)

end
