(* ===== verification/Harvester.thy ===== *)
theory Harvester
  imports Py_Text K8s_Install
begin

text \<open>
  Harvester clusters: \<open>libs/harvester.py\<close> and \<open>HarvesterDistro\<close> of \<open>libs/k8s.py\<close>. The configuration of a node is a
  value; what the cluster is then waited for and given is run in the world of \<open>Remote_Run\<close>.
\<close>

definition CLU_TYPE :: string where "CLU_TYPE = ''harvester''"
definition DEFAULT_MTU :: int where "DEFAULT_MTU = 1500"
definition DEFAULT_DEVICE :: string where "DEFAULT_DEVICE = ''/dev/nvme0n1p6''"
definition AWS_NTP :: string where "AWS_NTP = ''169.254.169.123''"
definition SSH_USER :: string where "SSH_USER = ''rancher''"
definition KUBECONFIG_DIR :: string where "KUBECONFIG_DIR = ''/etc/lab_creation''"

section \<open>The cluster in the lab definition\<close>

definition cluster_cfg :: "dict \<Rightarrow> string \<Rightarrow> dict res" where
  "cluster_cfg defn clu_name = res_bind (or_dict (get defn ''kclusters'')) (\<lambda>k. or_dict (get k clu_name))"

text \<open>A kcluster name that is no text, which the code would look up as it is, raises.\<close>

definition cluster_of :: "dict \<Rightarrow> string \<Rightarrow> string res" where
  "cluster_of defn vm_name =
     res_bind (lab_node defn vm_name) (\<lambda>node.
     res_bind (as_str (py_or (get node ''kcluster'') (PStr []))) (\<lambda>clu.
     if clu = [] then Inr []
     else res_bind (cluster_cfg defn clu) (\<lambda>c. Inr (if get c ''clu_type'' = PStr CLU_TYPE then clu else []))))"

definition cluster_nodes :: "dict \<Rightarrow> string \<Rightarrow> string list res" where
  "cluster_nodes defn clu_name =
     res_bind (or_dict (get defn ''nodes'')) (\<lambda>nodes.
     res_bind (res_map (\<lambda>(n, cfg). res_bind (or_dict cfg) (\<lambda>c. Inr (n, c))) nodes) (\<lambda>ms.
     Inr (map fst (filter (\<lambda>(_, c). get c ''kcluster'' = PStr clu_name) ms))))"

definition create_node :: "dict \<Rightarrow> string \<Rightarrow> string res" where
  "create_node defn clu_name = res_bind (cluster_nodes defn clu_name) (\<lambda>ns. Inr (case ns of [] \<Rightarrow> [] | n # _ \<Rightarrow> n))"

section \<open>The configuration of a node\<close>

text \<open>\<open>_merge\<close>: \<open>out\<close> is the dict built so far.\<close>

function (sequential) merge_into :: "dict \<Rightarrow> dict \<Rightarrow> dict" where
  "merge_into out [] = out"
| "merge_into out ((k, v) # extra) =
     merge_into (AList.update k (case (map_of out k, v) of (Some (PDict b), PDict e) \<Rightarrow> PDict (merge_into b e) | _ \<Rightarrow> v) out) extra"
  by pat_completeness auto
termination by (relation "measure (\<lambda>(_, e). size (PDict e))") auto

definition merge_cfg :: "dict \<Rightarrow> pval \<Rightarrow> dict res" where
  "merge_cfg base extra = res_bind (or_dict extra) (\<lambda>e. Inr (merge_into base e))"

definition no_token :: "string \<Rightarrow> string" where
  "no_token clu_name = ''Harvester cluster '' @ sq clu_name @ '' has no harvester_token''"

definition management_interface :: "int \<Rightarrow> dict" where
  "management_interface mtu =
     [(''interfaces'', PList [PDict [(''name'', PStr ''eth0'')]]), (''method'', PStr ''dhcp''),
      (''bond_options'', PDict [(''mode'', PStr ''active-backup''), (''miimon'', PInt 100)]),
      (''mtu'', PInt mtu), (''default_route'', PBool True)]"

definition install_section :: "dict \<Rightarrow> dict \<Rightarrow> bool \<Rightarrow> string \<Rightarrow> dict res" where
  "install_section clu node creating vip =
     res_bind (to_int (py_or (get clu ''harvester_mtu'') (PInt DEFAULT_MTU))) (\<lambda>mtu.
     (let install = [(''automatic'', PBool True), (''mode'', PStr (if creating then ''create'' else ''join'')),
            (''device'', py_or (get clu ''harvester_device'') (PStr DEFAULT_DEVICE)),
            (''management_interface'', PDict (management_interface mtu))] @
            (if truthy (get node ''harvester_role'') then [(''role'', get node ''harvester_role'')] else []) in
      if \<not> creating then Inr install
      else
        (let install = install @ [(''vip'', PStr vip), (''vip_mode'', PStr ''static'')]; count = get clu ''harvester_replica_count'' in
         if count = PNone \<or> count = PStr [] then Inr install
         else res_bind (to_int count) (\<lambda>n.
           Inr (install @ [(''harvester'', PDict [(''storage_class'', PDict [(''replica_count'', PInt n)])])])))))"

definition os_section :: "dict \<Rightarrow> string \<Rightarrow> string list \<Rightarrow> string \<Rightarrow> dict res" where
  "os_section clu vm_name ssh_keys password_hash =
     res_bind (iterate (py_or (get clu ''harvester_ntp_servers'') (PList [PStr AWS_NTP]))) (\<lambda>ntp.
     Inr ([(''hostname'', PStr vm_name), (''ssh_authorized_keys'', PList (map PStr ssh_keys)), (''ntp_servers'', PList ntp)] @
          (if password_hash \<noteq> [] then [(''password'', PStr password_hash)] else [])))"

definition node_config :: "dict \<Rightarrow> string \<Rightarrow> string \<Rightarrow> string \<Rightarrow> string list \<Rightarrow> string \<Rightarrow> dict res" where
  "node_config defn clu_name vm_name vip ssh_keys password_hash =
     res_bind (cluster_cfg defn clu_name) (\<lambda>clu. res_bind (lab_node defn vm_name) (\<lambda>node.
     if \<not> truthy (get clu ''harvester_token'') then Inl (SystemExit (no_token clu_name))
     else res_bind (create_node defn clu_name) (\<lambda>first.
       (let creating = (vm_name = first) in
        res_bind (install_section clu node creating vip) (\<lambda>install.
        res_bind (os_section clu vm_name ssh_keys password_hash) (\<lambda>os.
        merge_cfg ([(''scheme_version'', PInt 1), (''token'', get clu ''harvester_token'')] @
            (if creating then [] else [(''server_url'', PStr (''https://'' @ vip @ '':443''))]) @
            [(''os'', PDict os), (''install'', PDict install)])
          (get clu ''harvester_config'')))))))"

text \<open>\<open>json.dumps(v, indent=2)\<close>.\<close>

fun json_indent :: "string \<Rightarrow> pval \<Rightarrow> string" where
  "json_indent pad PNone = ''null''"
| "json_indent pad (PBool b) = (if b then ''true'' else ''false'')"
| "json_indent pad (PInt i) = int_str i"
| "json_indent pad (PStr s) = json_str s"
| "json_indent pad (PList xs) =
     (if xs = [] then ''[]'' else ''['' @ NL @ join ('','' @ NL) (map (\<lambda>x. pad @ ''  '' @ json_indent (pad @ ''  '') x) xs) @ NL @ pad @ '']'')"
| "json_indent pad (PDict d) =
     (if d = [] then ''{}''
      else ''{'' @ NL @ join ('','' @ NL) (map (\<lambda>(k, v). pad @ ''  '' @ json_str k @ '': '' @ json_indent (pad @ ''  '') v) d) @ NL @ pad @ ''}'')"

definition user_data :: "dict \<Rightarrow> string" where
  "user_data cfg = json_indent [] (PDict cfg) @ NL"

section \<open>What prevents a cluster\<close>

text \<open>\<open>backend_name_of\<close> may itself keep a state, such as the passphrases it was told.\<close>

definition nested_problem :: "string \<Rightarrow> string" where
  "nested_problem vm = ''Harvester node '' @ sq vm @ '' needs aws_nested_virtualization: '' @ dq ''true''"
definition backend_problem :: "string \<Rightarrow> string" where
  "backend_problem vm = ''Harvester node '' @ sq vm @ '' must use the aws backend''"
definition image_problem :: "string \<Rightarrow> string" where
  "image_problem vm = ''Harvester node '' @ sq vm @ '' needs its Harvester AMI ID as SOURCE_IMAGE''"
definition addons_problem :: "string \<Rightarrow> string" where
  "addons_problem clu_name = ''Harvester cluster '' @ sq clu_name @ '' lists add-ons; add-ons are not installed on a Harvester cluster yet''"
definition empty_problem :: "string \<Rightarrow> string" where
  "empty_problem clu_name = ''Harvester cluster '' @ sq clu_name @ '' has no node''"

definition harvester_image :: "dict \<Rightarrow> dict \<Rightarrow> pval" where
  "harvester_image cfg common =
     py_or (py_or (py_or (py_or (get cfg ''SOURCE_IMAGE'') (get cfg ''ISO_IMAGE'')) (get common ''SOURCE_IMAGE'')) (get common ''ISO_IMAGE'')) (PStr [])"

definition only_if :: "bool \<Rightarrow> 'a \<Rightarrow> 'a list" where
  "only_if b x = (if b then [x] else [])"

definition node_problems :: "(string \<Rightarrow> ('s, pval) act) \<Rightarrow> dict \<Rightarrow> dict \<Rightarrow> string \<Rightarrow> ('s, string list) act" where
  "node_problems backend_name_of common nodes vm =
     act_bind (act_res (or_dict (get nodes vm))) (\<lambda>cfg.
     act_bind (backend_name_of vm) (\<lambda>backend.
     (let nested = get_dflt cfg ''aws_nested_virtualization'' (get common ''aws_nested_virtualization'') in
      act_ret (only_if (backend \<noteq> PStr ''aws'') (backend_problem vm) @
               only_if (str_lower (py_str nested) \<noteq> ''true'') (nested_problem vm) @
               only_if (\<not> starts_with (py_str (harvester_image cfg common)) ''ami-'') (image_problem vm)))))"

definition cluster_problems :: "(string \<Rightarrow> ('s, pval) act) \<Rightarrow> dict \<Rightarrow> dict \<Rightarrow> string \<times> pval \<Rightarrow> ('s, string list) act" where
  "cluster_problems backend_name_of defn nodes = (\<lambda>(clu_name, v).
     act_bind (act_res (or_dict v)) (\<lambda>clu.
     if get clu ''clu_type'' \<noteq> PStr CLU_TYPE then act_ret []
     else
       act_bind (act_res (cluster_nodes defn clu_name)) (\<lambda>members.
       act_bind (act_res (if members = [] then Inr [] else lab_common defn)) (\<lambda>common.
       act_bind (act_map (node_problems backend_name_of common nodes) members) (\<lambda>ps.
       act_ret (only_if (members = []) (empty_problem clu_name) @
            only_if (\<not> truthy (get clu ''harvester_token'')) (no_token clu_name) @
            only_if (truthy (get clu ''addons'')) (addons_problem clu_name) @ concat ps))))))"

definition problems :: "(string \<Rightarrow> ('s, pval) act) \<Rightarrow> dict \<Rightarrow> ('s, string list) act" where
  "problems backend_name_of defn =
     act_bind (act_res (or_dict (get defn ''nodes''))) (\<lambda>nodes.
     act_bind (act_res (or_dict (get defn ''kclusters''))) (\<lambda>kclusters.
     act_bind (act_map (cluster_problems backend_name_of defn nodes) kclusters) (\<lambda>ps. act_ret (concat ps))))"

section \<open>Once its nodes boot\<close>

text \<open>\<open>s.replace(old, new)\<close>, of a non-empty text.\<close>

definition https_event :: "string \<Rightarrow> event" where
  "https_event host = Local [''https'', host] []"

definition no_https :: "string \<Rightarrow> int \<Rightarrow> string" where
  "no_https host timeout = ''Harvester on '' @ host @ '' did not answer on HTTPS within '' @ int_str timeout @ '' s''"

text \<open>Any HTTP status counts as an answer: the world's 0.\<close>

definition wait_https :: "world \<Rightarrow> string \<Rightarrow> int \<Rightarrow> unit job" where
  "wait_https w host timeout =
     act_bind (\<lambda>s. attempt w (https_event host) (max 1 (w_tries w (https_event host) (st_log s))) s) (\<lambda>ok.
     if ok then act_ret () else die (no_https host timeout))"

definition harvester_kubeconfig :: "string \<Rightarrow> string" where
  "harvester_kubeconfig clu_name = KUBECONFIG_DIR @ ''/harvester-'' @ clu_name @ ''.kubeconfig''"

definition server_line :: "string \<Rightarrow> string" where
  "server_line server = ''    server: '' @ server @ NL"

definition kubeconfig_text :: "string \<Rightarrow> string \<Rightarrow> string \<Rightarrow> string" where
  "kubeconfig_text text0 server tls_server_name =
     (let t = replace_text ''https://127.0.0.1:6443'' server text0 in
      if tls_server_name = [] then t
      else replace_text (server_line server) (server_line server @ ''    tls-server-name: '' @ tls_server_name @ NL) t)"

definition RKE2_YAML_CMD :: string where "RKE2_YAML_CMD = ''sudo cat /etc/rancher/rke2/rke2.yaml''"

definition fetch_kubeconfig :: "world \<Rightarrow> string \<Rightarrow> string \<Rightarrow> string \<Rightarrow> string \<Rightarrow> string job" where
  "fetch_kubeconfig w host dest server tls_server_name =
     act_bind (checked w host RKE2_YAML_CMD (Ssh (SSH_USER @ ''@'' @ host) RKE2_YAML_CMD)) (\<lambda>text0.
     act_then (act_upd (\<lambda>s. s\<lparr>st_files := AList.update dest (kubeconfig_text text0 server tls_server_name) (st_files s)\<rparr>))
     (act_ret dest))"

definition get_nodes_event :: "string \<Rightarrow> event" where
  "get_nodes_event kubeconfig = Local [''kubectl'', ''--kubeconfig'', kubeconfig, ''get'', ''nodes'', ''--no-headers''] []"

definition ready_count :: "string \<Rightarrow> nat" where
  "ready_count out = length (filter (\<lambda>l. length (words l) > 1 \<and> words l ! 1 = ''Ready'') (splitlines out))"

definition too_few_ready :: "nat \<Rightarrow> nat \<Rightarrow> int \<Rightarrow> string" where
  "too_few_ready ready count timeout =
     ''Harvester cluster has '' @ nat_str ready @ '' of '' @ nat_str count @ '' nodes Ready after '' @ int_str timeout @ '' s''"

fun poll_ready :: "world \<Rightarrow> string \<Rightarrow> nat \<Rightarrow> int \<Rightarrow> nat \<Rightarrow> nat \<Rightarrow> unit job" where
  "poll_ready w kubeconfig count timeout ready 0 = die (too_few_ready ready count timeout)"
| "poll_ready w kubeconfig count timeout _ (Suc n) =
     act_bind (happen w (get_nodes_event kubeconfig)) (\<lambda>(rc, out).
     if rc = 0 \<and> ready_count out \<ge> count then act_ret () else poll_ready w kubeconfig count timeout (ready_count out) n)"

definition wait_harvester_ready :: "world \<Rightarrow> string \<Rightarrow> nat \<Rightarrow> int \<Rightarrow> unit job" where
  "wait_harvester_ready w kubeconfig count timeout =
     (\<lambda>s. poll_ready w kubeconfig count timeout 0 (max 1 (w_tries w (get_nodes_event kubeconfig) (st_log s))) s)"

definition setting_manifest :: "string \<Rightarrow> pval \<Rightarrow> string" where
  "setting_manifest name v =
     unlines [''apiVersion: harvesterhci.io/v1beta1'', ''kind: Setting'', ''metadata:'', ''  name: '' @ name, ''value: '' @ yaml_scalar v]"

definition setting_failed :: "string \<Rightarrow> string" where
  "setting_failed name = ''failed to apply Harvester Setting '' @ sq name"

definition apply_settings :: "world \<Rightarrow> string \<Rightarrow> pval \<Rightarrow> unit job" where
  "apply_settings w kubeconfig settings =
     act_bind (act_res (or_dict settings)) (\<lambda>kvs.
     act_for kvs (\<lambda>(name, v).
       act_bind (happen w (Local [''kubectl'', ''--kubeconfig'', kubeconfig, ''apply'', ''-f'', ''-''] (setting_manifest name v))) (\<lambda>(rc, _).
       if rc \<noteq> 0 then die (setting_failed name) else act_ret ())))"

text \<open>\<open>resolve\<close> is \<open>socket.gethostbyname\<close>.\<close>

definition install_harvester :: "(string \<Rightarrow> string res) \<Rightarrow> world \<Rightarrow> dict \<Rightarrow> string \<Rightarrow> unit job" where
  "install_harvester resolve w defn clu_name =
     act_bind (act_res (cluster_nodes defn clu_name)) (\<lambda>nodes.
     act_bind (act_res (case nodes of [] \<Rightarrow> Inl (IndexError ''list index out of range'') | n # _ \<Rightarrow> resolve n)) (\<lambda>address.
     act_then (wait_https w address 2400)
     (act_bind (fetch_kubeconfig w address (harvester_kubeconfig clu_name) (''https://'' @ address @ '':6443'') ''localhost'') (\<lambda>kubeconfig.
      act_then (wait_harvester_ready w kubeconfig (length nodes) 3600)
      (act_bind (act_res (cluster_cfg defn clu_name)) (\<lambda>clu. apply_settings w kubeconfig (get clu ''harvester_settings'')))))))"

section \<open>One node creates the cluster, the others join it\<close>

lemma map_of_merge:
  "distinct (map fst e) \<Longrightarrow> map_of (merge_into b e) k =
     (case map_of e k of None \<Rightarrow> map_of b k
      | Some v \<Rightarrow> Some (case (map_of b k, v) of (Some (PDict x), PDict y) \<Rightarrow> PDict (merge_into x y) | _ \<Rightarrow> v))"
proof (induction e arbitrary: b)
  case (Cons kv e)
  obtain k' v where kv: "kv = (k', v)" by (cases kv)
  show ?case
  proof (cases "k = k'")
    case True
    then have "map_of e k = None" using Cons.prems kv by (auto simp: map_of_eq_None_iff)
    then show ?thesis using Cons True kv by (simp add: update_conv')
  next
    case False
    then show ?thesis using Cons kv by (cases "map_of e k") (simp_all add: update_conv')
  qed
qed simp

text \<open>What is merged in wins over a text, and over nothing.\<close>

lemma get_merge_plain:
  assumes "distinct (map fst e)" and "\<forall>x. map_of b k \<noteq> Some (PDict x)"
  shows "get (merge_into b e) k = get_dflt e k (get b k)"
  using assms by (cases "map_of b k") (auto simp: get_def get_dflt_def map_of_merge split: option.split pval.split)

lemma get_merge_dict:
  assumes "distinct (map fst e)" and "map_of b k = Some (PDict x)"
  shows "get (merge_into b e) k = (case get_dflt e k (PDict []) of PDict y \<Rightarrow> PDict (merge_into x y) | v \<Rightarrow> v)"
  using assms by (auto simp: get_def get_dflt_def map_of_merge split: option.split pval.split)

lemma install_mode:
  assumes "install_section clu node creating vip = Inr install"
  shows "map_of install ''mode'' = Some (PStr (if creating then ''create'' else ''join'')) \<and>
    map_of install ''vip'' = (if creating then Some (PStr vip) else None)"
  using assms by (auto simp: install_section_def res_simps Let_def split: if_splits)

lemma install_merged:
  assumes "install_section clu node creating vip = Inr install" and "distinct (map fst i)"
  shows "get (merge_into install i) ''mode'' = get_dflt i ''mode'' (PStr (if creating then ''create'' else ''join'')) \<and>
    get (merge_into install i) ''vip'' = get_dflt i ''vip'' (if creating then PStr vip else PNone)"
  using install_mode [OF assms(1)] by (simp add: get_merge_plain [OF assms(2)]) (simp add: get_def)

text \<open>C39 Of the nodes of a Harvester cluster exactly the first in the lab definition's order is told to create it, with the VIP, and
  every other to join it under that VIP, all with the cluster's one token; but what the lab's own \<open>harvester_config\<close> names of these
  settings is in every node's configuration as it says there, since it is merged in last.\<close>

theorem one_node_creates:
  assumes "cluster_cfg defn clu_name = Inr clu" and "cluster_nodes defn clu_name = Inr members" and "vm \<in> set members"
    and "node_config defn clu_name vm vip ssh_keys password_hash = Inr cfg" and "get clu ''harvester_token'' = PStr tok"
    and "or_dict (get clu ''harvester_config'') = Inr e" and "distinct (map fst e)"
    and "\<forall>i. get_dflt e ''install'' (PDict []) = PDict i \<longrightarrow> distinct (map fst i)"
  shows "tok \<noteq> [] \<and> get cfg ''token'' = get_dflt e ''token'' (PStr tok) \<and>
    get cfg ''server_url'' = get_dflt e ''server_url'' (if vm = hd members then PNone else PStr (''https://'' @ vip @ '':443'')) \<and>
    (case get_dflt e ''install'' (PDict []) of
       PDict i \<Rightarrow> \<exists>install. get cfg ''install'' = PDict install \<and>
         get install ''mode'' = get_dflt i ''mode'' (PStr (if vm = hd members then ''create'' else ''join'')) \<and>
         get install ''vip'' = get_dflt i ''vip'' (if vm = hd members then PStr vip else PNone)
     | v \<Rightarrow> get cfg ''install'' = v)"
proof -
  have first: "create_node defn clu_name = Inr (hd members)"
    using assms(2,3) by (cases members) (simp_all add: create_node_def)
  let ?c = "vm = hd members"
  define base where "base os install = [(''scheme_version'', PInt 1), (''token'', PStr tok)] @
      (if ?c then [] else [(''server_url'', PStr (''https://'' @ vip @ '':443''))]) @ [(''os'', PDict os), (''install'', PDict install)]"
    for os install
  obtain node install os where i: "install_section clu node ?c vip = Inr install" and cfg: "cfg = merge_into (base os install) e"
    and t: "truthy (PStr tok)"
    using assms(4) unfolding node_config_def merge_cfg_def base_def
    by (auto simp: assms(1,5,6) first Let_def res_bind_eq_Inr split: if_split_asm)
  have "get cfg ''token'' = get_dflt e ''token'' (PStr tok)"
    "get cfg ''server_url'' = get_dflt e ''server_url'' (if ?c then PNone else PStr (''https://'' @ vip @ '':443''))"
    unfolding cfg by (simp_all add: get_merge_plain [OF assms(7)] base_def) (simp_all add: get_def)
  moreover have "get cfg ''install'' = (case get_dflt e ''install'' (PDict []) of PDict y \<Rightarrow> PDict (merge_into install y) | v \<Rightarrow> v)"
    unfolding cfg by (rule get_merge_dict [OF assms(7)]) (simp add: base_def)
  ultimately show ?thesis using t install_merged [OF i] assms(8) by (auto split: pval.split)
qed

definition hv_lab :: dict where
  "hv_lab = [(''nodes'', PDict [(''h1'', PDict [(''kcluster'', PStr ''hv'')]), (''h2'', PDict [(''kcluster'', PStr ''hv'')])]),
     (''kclusters'', PDict [(''hv'', PDict [(''clu_type'', PStr ''harvester''), (''harvester_token'', PStr ''s3cret''),
        (''harvester_config'', PDict [(''os'', PDict [(''modules'', PList [PStr ''kvm''])])])])])]"

lemma one_node_creates_witness:
  "\<exists>cfg. node_config hv_lab ''hv'' ''h2'' ''10.0.0.9'' [] [] = Inr cfg \<and> get cfg ''server_url'' = PStr ''https://10.0.0.9:443'' \<and>
     get cfg ''token'' = PStr ''s3cret''"
proof -
  have r: "is_ok (node_config hv_lab ''hv'' ''h2'' ''10.0.0.9'' [] [])" by code_simp
  then obtain cfg where cfg: "node_config hv_lab ''hv'' ''h2'' ''10.0.0.9'' [] [] = Inr cfg" by (auto simp: is_ok_def split: sum.splits)
  let ?clu = "[(''clu_type'', PStr ''harvester''), (''harvester_token'', PStr ''s3cret''),
        (''harvester_config'', PDict [(''os'', PDict [(''modules'', PList [PStr ''kvm''])])])]"
  have c: "cluster_cfg hv_lab ''hv'' = Inr ?clu" "cluster_nodes hv_lab ''hv'' = Inr [''h1'', ''h2'']" by code_simp+
  let ?e = "[(''os'', PDict [(''modules'', PList [PStr ''kvm''])])]"
  have e: "or_dict (get ?clu ''harvester_config'') = Inr ?e" "distinct (map fst ?e)" by code_simp+
  have d: "get_dflt ?e ''install'' (PDict []) = PDict []" "get_dflt ?e ''token'' (PStr ''s3cret'') = PStr ''s3cret''" by code_simp+
  have n: "\<forall>i. get_dflt ?e ''install'' (PDict []) = PDict i \<longrightarrow> distinct (map fst i)" by (simp add: d)
  have u: "get_dflt ?e ''server_url'' (PStr ''https://10.0.0.9:443'') = PStr ''https://10.0.0.9:443''" by code_simp
  have m: "''h2'' \<in> set [''h1'', ''h2'']" "''h2'' \<noteq> hd [''h1'', ''h2'']" by simp_all
  have k: "get ?clu ''harvester_token'' = PStr ''s3cret''" by code_simp
  have "get cfg ''token'' = PStr ''s3cret''" "get cfg ''server_url'' = PStr ''https://10.0.0.9:443''"
    using one_node_creates [OF c m(1) cfg k e n] m(2) d u by simp_all
  then show ?thesis using cfg by blast
qed

section \<open>What modelling showed\<close>

text \<open>With \<open>install: {mode: create}\<close> in \<open>harvester_config\<close> every node of the cluster is told to create it.\<close>

definition two_creators :: dict where
  "two_creators = [(''nodes'', PDict [(''h1'', PDict [(''kcluster'', PStr ''hv'')]), (''h2'', PDict [(''kcluster'', PStr ''hv'')])]),
     (''kclusters'', PDict [(''hv'', PDict [(''clu_type'', PStr ''harvester''), (''harvester_token'', PStr ''s3cret''),
        (''harvester_config'', PDict [(''install'', PDict [(''mode'', PStr ''create'')])])])])]"

definition mode_of :: "dict \<Rightarrow> pval res" where
  "mode_of cfg = res_bind (or_dict (get cfg ''install'')) (\<lambda>install. Inr (get install ''mode''))"

lemma config_makes_all_create:
  "map (\<lambda>n. res_bind (node_config two_creators ''hv'' n ''10.0.0.9'' [] []) mode_of) [''h1'', ''h2''] =
   [Inr (PStr ''create''), Inr (PStr ''create'')]"
  by code_simp

end
