(* ===== verification/Preflight.thy ===== *)
theory Preflight
  imports Backend_Select Harvester Schema_Check
begin

text \<open>
  The preflight of a lab: \<open>validate_lab_definition\<close> of \<open>libs/lab_creation.py\<close>, section by section as the code
  has them. It collects issues and raises only where the code does. What it asks hosts, templates, add-on scripts
  and the network is the \<open>outside\<close>; a set that is iterated (the KVM hosts in use) is taken in the order of its nodes.
\<close>

record outside =
  o_formats :: formats
  o_crypto :: crypto
  o_user :: user
  o_store :: store
  o_ip :: ip_world
  o_file :: "string \<Rightarrow> string res"
  o_resources :: "string \<Rightarrow> resources res"
  o_reachable :: "string \<Rightarrow> bool"
  o_domain :: "pval \<Rightarrow> pval \<Rightarrow> string \<Rightarrow> bool res"
  o_ping :: "string \<Rightarrow> bool"
  o_installer :: "string \<Rightarrow> string option"
  o_plugin :: "string \<Rightarrow> dict"
  o_validate :: "string \<Rightarrow> bool \<times> string"
  o_hv_ssh :: "pval \<Rightarrow> bool \<times> string"
  o_hv_file :: "pval \<Rightarrow> string \<Rightarrow> bool"
  o_hv_images :: "pval \<Rightarrow> string list"
  o_virtual_size :: "pval \<Rightarrow> string \<Rightarrow> int option"
  o_template :: "string \<Rightarrow> bool option"
  o_schema :: dict

text \<open>What a run is called with.\<close>

record request_args =
  a_defn :: dict
  a_config :: dict
  a_iso_loc :: string
  a_setup_path :: string
  a_target :: "string option"
  a_host_checks :: bool

record preflight =
  p_issues :: "(bool \<times> string) list"
  p_ips :: "pval list"
  p_previewed :: "string list"
  p_macs :: "string list"
  p_types :: "(string \<times> pval) list"
  p_hosts :: "(string \<times> pval \<times> pval) list"
  p_ssh :: "(pval \<times> bool) list"
  p_nodes :: dict
  p_run :: run_state

type_synonym 'a check = "(preflight, 'a) act"

definition issue :: "bool \<Rightarrow> string \<Rightarrow> unit check" where
  "issue is_error msg = act_upd (\<lambda>s. s\<lparr>p_issues := p_issues s @ [(is_error, msg)]\<rparr>)"

abbreviation err :: "string \<Rightarrow> unit check" where "err \<equiv> issue True"
abbreviation note_warning :: "string \<Rightarrow> unit check" where "note_warning \<equiv> issue False"

definition err_if :: "bool \<Rightarrow> string \<Rightarrow> unit check" where
  "err_if b msg = (if b then err msg else act_ret ())"

definition warn_if :: "bool \<Rightarrow> string \<Rightarrow> unit check" where
  "warn_if b msg = (if b then note_warning msg else act_ret ())"

definition with_run :: "(run_state \<Rightarrow> 'a \<times> run_state) \<Rightarrow> 'a check" where
  "with_run m = (\<lambda>s. case m (p_run s) of (r, u) \<Rightarrow> (Inr r, s\<lparr>p_run := u\<rparr>))"

definition in_run :: "(run_state, 'a) act \<Rightarrow> 'a check" where
  "in_run m = act_bind (with_run m) act_res"

section \<open>1 and 2: the sections and the common fields\<close>

definition PREFLIGHT_OWN_FIELDS :: "string list" where
  "PREFLIGHT_OWN_FIELDS = [''backend'', ''cloud_account'', ''config_method'', ''install_type'']"

definition check_sections :: "dict \<Rightarrow> unit check" where
  "check_sections defn =
     act_then (err_if (\<not> has_key defn ''nodes'') (''Missing required section: '' @ sq ''nodes''))
       (err_if (\<not> has_key defn ''common'') (''Missing required section: '' @ sq ''common''))"

definition check_schema :: "outside \<Rightarrow> dict \<Rightarrow> unit check" where
  "check_schema w defn =
     act_bind (act_res (definition_findings defn (o_schema w) PREFLIGHT_OWN_FIELDS)) (\<lambda>fs.
     act_for fs (\<lambda>f. issue (f_severity f = ''error'') (f_where f @ '': '' @ f_message f)))"

definition missing_images :: "(string \<times> pval) list \<Rightarrow> string list res" where
  "missing_images nodes =
     res_bind (res_map (\<lambda>(n, v). res_bind (or_dict v) (\<lambda>c. res_bind (image_name c) (\<lambda>i. Inr (if is_empty i then [n] else [])))) nodes)
       (\<lambda>ns. Inr (concat ns))"

definition no_image :: "string list \<Rightarrow> string" where
  "no_image ns = ''common.SOURCE_IMAGE is required (or set SOURCE_IMAGE per-node) '' @ emdash @ '' missing for: '' @ join '', '' (sort ns)"

definition check_image_set :: "(string \<times> pval) list \<Rightarrow> pval \<Rightarrow> unit check" where
  "check_image_set nodes img =
     (if \<not> is_empty img then act_ret ()
      else act_bind (act_res (missing_images nodes)) (\<lambda>ns. err_if (ns \<noteq> []) (no_image ns)))"

definition bad_backend :: "string \<Rightarrow> pval \<Rightarrow> string" where
  "bad_backend what backend = what @ ''backend '' @ sq (py_str backend) @ '' is invalid '' @ emdash @ '' must be one of: '' @ join '', '' (sort BACKENDS)"

definition check_backend :: "string \<Rightarrow> pval \<Rightarrow> unit check" where
  "check_backend what backend =
     (if is_empty backend then act_ret ()
      else act_bind (act_res (in_names backend BACKENDS)) (\<lambda>known. err_if (\<not> known) (bad_backend what backend)))"

definition check_common :: "(string \<times> pval) list \<Rightarrow> dict \<Rightarrow> pval \<Rightarrow> unit check" where
  "check_common nodes common img =
     act_then (check_image_set nodes img)
     (act_then (act_for [''VM_MEM'', ''VM_DSK'', ''VM_CPU''] (\<lambda>req. err_if (is_empty (jq (get common req))) (''common.'' @ req @ '' is required'')))
     (check_backend ''common.'' (jq (get common ''backend''))))"

section \<open>3: the nodes\<close>

text \<open>\<open>resolved_host_for\<close>: no host where the choice died.\<close>

definition resolved_host_for :: "outside \<Rightarrow> dict \<Rightarrow> dict \<Rightarrow> string \<Rightarrow> (pval \<times> pval) check" where
  "resolved_host_for w defn config node =
     act_bind (act_get (\<lambda>s. map_of (p_hosts s) node)) (\<lambda>cached. case cached of
       Some hv \<Rightarrow> act_ret hv
     | None \<Rightarrow>
         act_bind (act_res (case resolve_kvm_host (o_resources w) defn node config of Inl (SystemExit _) \<Rightarrow> Inr (PNone, PNone) | r \<Rightarrow> r)) (\<lambda>hv.
         act_then (act_upd (\<lambda>s. s\<lparr>p_hosts := AList.update node hv (p_hosts s)\<rparr>)) (act_ret hv)))"

definition account_named :: "dict \<Rightarrow> dict \<Rightarrow> pval" where
  "account_named node common = py_or (jq (get node ''cloud_account'')) (jq (get common ''cloud_account''))"

definition try_account :: "outside \<Rightarrow> dict \<Rightarrow> pval \<Rightarrow> (string + dict) check" where
  "try_account w config account =
     with_run (try_load_cloud_account (o_formats w) (o_crypto w) (o_user w) (o_store w) (py_str account) config)"

definition bad_cloudtype :: "string \<Rightarrow> pval \<Rightarrow> pval \<Rightarrow> string" where
  "bad_cloudtype node account ct =
     ''nodes.'' @ node @ '': cloud_account '' @ sq (py_str account) @ '' has cloudtype '' @ sq (py_str ct) @ '' '' @ emdash @
     '' must be one of: '' @ join '', '' (sort CLOUD_BACKEND_NAMES)"

definition account_disagrees :: "string \<Rightarrow> pval \<Rightarrow> pval \<Rightarrow> pval \<Rightarrow> string" where
  "account_disagrees node account ct explicit =
     ''nodes.'' @ node @ '': cloud_account '' @ sq (py_str account) @ '' is cloudtype '' @ sq (py_str ct) @ '' but backend is set to '' @
     sq (py_str explicit) @ '' '' @ emdash @ '' remove the backend field or make them agree''"

definition remember_type :: "string \<Rightarrow> pval \<Rightarrow> unit check" where
  "remember_type node ct = act_upd (\<lambda>s. s\<lparr>p_types := AList.update node (py_or ct PNone) (p_types s)\<rparr>)"

text \<open>The cloud type of the node's account, None without a usable one.\<close>

definition check_account :: "outside \<Rightarrow> dict \<Rightarrow> dict \<Rightarrow> string \<Rightarrow> dict \<Rightarrow> pval check" where
  "check_account w config common node node_cfg =
     (let account = account_named node_cfg common in
      if is_empty account then act_ret PNone
      else act_bind (try_account w config account) (\<lambda>r. case r of
        Inl e \<Rightarrow> act_then (err (''nodes.'' @ node @ '': '' @ e)) (act_ret PNone)
      | Inr acct \<Rightarrow>
          (let ct = py_or (get acct ''CLOUDTYPE'') (PStr []); explicit = py_or (jq (get node_cfg ''backend'')) (jq (get common ''backend'')) in
           act_bind (act_res (in_names ct CLOUD_BACKEND_NAMES)) (\<lambda>known.
           act_then (err_if (\<not> known) (bad_cloudtype node account ct))
           (act_then (err_if (\<not> is_empty explicit \<and> \<not> py_eq explicit ct) (account_disagrees node account ct explicit))
           (act_ret ct))))))"

definition node_backend_eff :: "dict \<Rightarrow> dict \<Rightarrow> dict \<Rightarrow> pval \<Rightarrow> pval" where
  "node_backend_eff config common node_cfg ct =
     py_or (py_or (py_or (py_or ct (jq (get node_cfg ''backend''))) (jq (get common ''backend''))) (jq (get config ''BACKEND''))) (PStr ''libvirt'')"

definition will_allocate :: "string \<Rightarrow> string \<Rightarrow> network \<Rightarrow> string" where
  "will_allocate node ip net =
     ''nodes.'' @ node @ '': no '' @ sq ''myip'' @ '' '' @ emdash @ '' '' @ ip @ '' will be allocated from '' @ network_str net"

definition needs_myip :: "string \<Rightarrow> string" where
  "needs_myip node =
     ''nodes.'' @ node @ '': '' @ sq ''myip'' @ '' is required '' @ emdash @ '' the lab has no '' @ sq ''mygw'' @ '' and '' @ sq ''mymask'' @
     '' to allocate one from''"

definition check_missing_ip :: "outside \<Rightarrow> dict \<Rightarrow> dict \<Rightarrow> string \<Rightarrow> unit check" where
  "check_missing_ip w defn common node =
     (case lab_network common of
        None \<Rightarrow> err (needs_myip node)
      | Some net \<Rightarrow>
          act_bind (act_get p_previewed) (\<lambda>used.
          act_bind (act_res (allocate (o_ip w) node defn used (text_of (get common ''mydomain'')) False)) (\<lambda>r. case r of
            None \<Rightarrow> err (needs_myip node)
          | Some ip \<Rightarrow>
              if ip = [] then err (needs_myip node)
              else act_then (act_upd (\<lambda>s. s\<lparr>p_previewed := p_previewed s @ [ip]\<rparr>)) (note_warning (will_allocate node ip net)))))"

definition ip_taken :: "string \<Rightarrow> pval \<Rightarrow> string" where
  "ip_taken node ip = ''nodes.'' @ node @ '': IP '' @ py_str ip @ '' is already assigned to another node''"

definition check_ip :: "string \<Rightarrow> pval \<Rightarrow> unit check" where
  "check_ip node myip =
     (if is_empty myip then act_ret ()
      else if \<not> hashable myip then act_raise (TypeError ''unhashable'')
      else act_bind (act_get p_ips) (\<lambda>ips.
        if py_in myip ips then err (ip_taken node myip) else act_upd (\<lambda>s. s\<lparr>p_ips := myip # p_ips s\<rparr>)))"

definition mac_taken :: "string \<Rightarrow> pval \<Rightarrow> string" where
  "mac_taken node mac = ''nodes.'' @ node @ '': MAC '' @ py_str mac @ '' is duplicated within this JSON''"

definition check_mac :: "string \<Rightarrow> pval \<Rightarrow> unit check" where
  "check_mac node mymac =
     (if is_empty mymac then act_ret ()
      else act_bind (act_get p_macs) (\<lambda>macs.
        if str_lower (py_str mymac) \<in> set macs then err (mac_taken node mymac)
        else act_upd (\<lambda>s. s\<lparr>p_macs := str_lower (py_str mymac) # p_macs s\<rparr>)))"

definition unknown_kcluster :: "string \<Rightarrow> pval \<Rightarrow> string" where
  "unknown_kcluster node k = ''nodes.'' @ node @ '': references kcluster '' @ sq (py_str k) @ '' which is not defined in '' @ sq ''kclusters''"

definition check_kcluster :: "dict \<Rightarrow> string \<Rightarrow> pval \<Rightarrow> unit check" where
  "check_kcluster kclusters node k =
     (if is_empty k then act_ret ()
      else act_bind (act_res (in_names k (map fst kclusters))) (\<lambda>known. err_if (\<not> known) (unknown_kcluster node k)))"

definition CONFIG_METHODS :: "pval list" where
  "CONFIG_METHODS = [PStr ''cloud-init'', PStr ''virt_customize'', PStr ''install_iso'']"

definition eff_config_method :: "dict \<Rightarrow> dict \<Rightarrow> pval" where
  "eff_config_method node_cfg common = (case map_of node_cfg ''config_method'' of Some v \<Rightarrow> jq v | None \<Rightarrow> jq (get common ''config_method''))"

definition method_ok :: "pval \<Rightarrow> bool" where
  "method_ok m = (is_empty m \<or> py_in m CONFIG_METHODS)"

definition NO_METHOD :: string where "NO_METHOD = dq [] @ '' (Ignition+Combustion)''"

definition bad_method :: "string \<Rightarrow> pval \<Rightarrow> string" where
  "bad_method node m = ''nodes.'' @ node @ '': config_method '' @ sq (py_str m) @ '' is invalid '' @ emdash @ '' must be one of: '' @ NO_METHOD @
     '', cloud-init, virt_customize, install_iso''"

definition method_text :: "pval \<Rightarrow> string" where
  "method_text m = (if truthy m then py_str m else NO_METHOD)"

definition installer_medium :: "pval \<Rightarrow> bool" where
  "installer_medium img = (\<not> is_empty img \<and> ends_with (str_lower (py_str img)) ''.iso'')"

definition wrong_medium :: "pval \<Rightarrow> pval \<Rightarrow> bool" where
  "wrong_medium img m = (installer_medium img \<and> py_or m (PStr []) \<noteq> PStr ''install_iso'')"

definition medium_error :: "string \<Rightarrow> pval \<Rightarrow> pval \<Rightarrow> string" where
  "medium_error node img m =
     ''nodes.'' @ node @ '': ISO_IMAGE '' @ sq (py_str img) @ '' is an installer ISO but config_method is '' @ sq (method_text m) @ '' '' @ emdash @
     '' only config_method='' @ dq ''install_iso'' @ '' boots an ISO directly (--cdrom + a fresh disk); every other config_method copies/resizes it '' @
     ''as if it were an existing disk image and will fail.''"

definition unsupported_method :: "string \<Rightarrow> pval \<Rightarrow> pval \<Rightarrow> string \<Rightarrow> string list \<Rightarrow> string" where
  "unsupported_method node m img label supported =
     ''nodes.'' @ node @ '': config_method '' @ sq (method_text m) @ '' is likely unsupported on ISO_IMAGE '' @ sq (py_str img) @
     '' (detected as '' @ label @ '') '' @ emdash @ '' the vendor-documented/confirmed method(s) for this image family are: '' @
     join '', '' (sort (map (\<lambda>x. if x = [] then NO_METHOD else x) supported)) @
     ''. This is a best-effort filename heuristic, not a guarantee '' @ emdash @ '' some images may genuinely differ from their family'' @ QUOTE @ ''s norm.''"

definition check_method :: "string \<Rightarrow> pval \<Rightarrow> pval \<Rightarrow> unit check" where
  "check_method node m img =
     act_then (err_if (\<not> method_ok m) (bad_method node m))
     (act_then (err_if (wrong_medium img m) (medium_error node img m))
     (if method_ok m \<and> \<not> wrong_medium img m \<and> \<not> is_empty img
      then act_bind (act_res (supported_config_methods img)) (\<lambda>found. case found of
             None \<Rightarrow> act_ret ()
           | Some (label, supported) \<Rightarrow>
               (let norm = (if is_empty m then PStr [] else m) in
                warn_if (norm \<notin> PStr ` set supported) (unsupported_method node norm img label supported)))
      else act_ret ()))"

definition not_reachable :: "string \<Rightarrow> string" where
  "not_reachable node = ''nodes.'' @ node @ '': marked '' @ dq ''existing'' @ '' but not reachable via SSH''"

definition vm_exists :: "string \<Rightarrow> pval \<Rightarrow> string" where
  "vm_exists node host = ''nodes.'' @ node @ '': a VM with this name already exists on KVM host '' @ sq (py_str host) @ '' (will be destroyed and recreated)''"

definition ip_answers :: "string \<Rightarrow> pval \<Rightarrow> string" where
  "ip_answers node ip = ''nodes.'' @ node @ '': IP '' @ py_str ip @ '' is currently responding to ping '' @ emdash @ '' something may already be using it''"

definition check_on_host :: "outside \<Rightarrow> request_args \<Rightarrow> string \<Rightarrow> bool \<Rightarrow> unit check" where
  "check_on_host w a node is_cloud =
     (if is_cloud \<or> \<not> a_host_checks a then act_ret ()
      else act_bind (resolved_host_for w (a_defn a) (a_config a) node) (\<lambda>(host, virt_srv).
        if \<not> truthy virt_srv then act_ret ()
        else act_bind (act_res (o_domain w host virt_srv node)) (\<lambda>there. warn_if there (vm_exists node host))))"

definition check_node :: "outside \<Rightarrow> request_args \<Rightarrow> dict \<Rightarrow> dict \<Rightarrow> dict \<Rightarrow> pval \<Rightarrow> string \<Rightarrow> unit check" where
  "check_node w a common nodes kclusters img node =
     act_bind (act_res (or_dict (get nodes node))) (\<lambda>cfg.
     (let myip = jq (get cfg ''myip'') in
      act_bind (check_account w (a_config a) common node cfg) (\<lambda>ct.
      act_then (remember_type node ct)
      (act_bind (act_res (in_names (node_backend_eff (a_config a) common cfg ct) CLOUD_BACKEND_NAMES)) (\<lambda>is_cloud.
       act_then (if is_empty myip \<and> \<not> is_cloud then check_missing_ip w (a_defn a) common node else act_ret ())
       (act_then (check_ip node myip)
       (act_then (check_mac node (jq (get cfg ''mymac'')))
       (act_then (check_kcluster kclusters node (jq (get cfg ''kcluster'')))
       (act_then (check_backend (''nodes.'' @ node @ '': '') (jq (get cfg ''backend'')))
       (act_bind (act_res (image_name cfg)) (\<lambda>own.
        act_then (check_method node (eff_config_method cfg common) (if is_empty own then img else own))
        (act_bind (act_res (is_existing_node (PDict cfg))) (\<lambda>existing.
         if existing then err_if (a_host_checks a \<and> \<not> is_empty myip \<and> \<not> o_reachable w node) (not_reachable node)
         else
           act_then (check_on_host w a node is_cloud)
           (warn_if (a_host_checks a \<and> \<not> is_cloud \<and> \<not> is_empty myip \<and> o_ping w (py_str myip)) (ip_answers node myip)))))))))))))))"

section \<open>4: the kclusters and the add-ons\<close>

definition clu_required :: "string \<Rightarrow> string \<Rightarrow> string \<Rightarrow> string" where
  "clu_required clu field hint = ''kclusters.'' @ clu @ '': '' @ sq field @ '' is required'' @ hint"

definition no_script :: "string \<Rightarrow> string \<Rightarrow> string" where
  "no_script owner addon = owner @ '': addon '' @ sq addon @ '' '' @ emdash @ '' script '' @ sq (''install_'' @ addon) @ '' not found''"

definition addon_says :: "string \<Rightarrow> string \<Rightarrow> string \<Rightarrow> string" where
  "addon_says owner addon msg = owner @ '': addon '' @ sq addon @ '' '' @ msg"

text \<open>\<open>load_plugin\<close> of a name that cannot be a key raises.\<close>

definition plugin_of :: "outside \<Rightarrow> pval \<Rightarrow> dict res" where
  "plugin_of w addon = (if hashable addon then Inr (o_plugin w (py_str addon)) else Inl (TypeError ''unhashable''))"

definition os_variant_of :: "dict \<Rightarrow> pval \<Rightarrow> string \<Rightarrow> string list res" where
  "os_variant_of nodes common_os n =
     res_bind (or_dict (get nodes n)) (\<lambda>c. (let v = py_or (get c ''VM_OSVARIANT'') common_os in
     if truthy v then res_bind (as_str v) (\<lambda>t. Inr [t]) else Inr []))"

definition addon_version_issues :: "outside \<Rightarrow> dict \<Rightarrow> pval \<Rightarrow> string list \<Rightarrow> pval \<Rightarrow> pval \<Rightarrow> string list res" where
  "addon_version_issues w defn entry node_names clu_type clu_rel =
     res_bind (addon_entry_name entry) (\<lambda>addon.
     res_bind (plugin_of w addon) (\<lambda>plugin.
     (let matrix = get plugin ''versions'' in
      if \<not> truthy matrix then Inr []
      else
        res_bind (or_dict (get defn (py_str addon))) (\<lambda>shared.
        res_bind (addon_entry_overrides entry) (\<lambda>ov. res_bind (or_dict ov) (\<lambda>own.
        res_bind (lab_common defn) (\<lambda>common. res_bind (or_dict (get defn ''nodes'')) (\<lambda>nodes.
        res_bind (res_map (os_variant_of nodes (py_or (get common ''VM_OSVARIANT'') (PStr []))) node_names) (\<lambda>oss.
        issues matrix (PDict (update_all own shared)) (py_str (py_or clu_type (PStr []))) (py_or clu_rel (PStr [])) (concat oss)))))))))) "

definition cluster_addon :: "outside \<Rightarrow> dict \<Rightarrow> string \<Rightarrow> pval \<Rightarrow> pval \<Rightarrow> pval \<Rightarrow> unit check" where
  "cluster_addon w defn clu ctype crel entry =
     act_bind (act_res (addon_entry_name entry)) (\<lambda>addon.
     (let name = py_str addon; owner = ''kclusters.'' @ clu in
      if o_installer w name = None then err (no_script owner name)
      else
        act_bind (act_res (case cluster_provides (o_plugin w) defn clu of Inl (SystemExit _) \<Rightarrow> Inr None | Inl e \<Rightarrow> Inl e | Inr p \<Rightarrow> Inr (Some p))) (\<lambda>provides.
        act_bind (act_res (plugin_of w addon)) (\<lambda>plugin.
        act_bind (act_res (requirement_issue plugin TARGET_CONTAINER ctype provides)) (\<lambda>req.
        act_then (case req of None \<Rightarrow> act_ret () | Some m \<Rightarrow> err_if (m \<noteq> []) (addon_says owner name m))
        (act_bind (act_res (cluster_members defn clu)) (\<lambda>members.
         act_bind (act_res (addon_version_issues w defn entry (map fst members) ctype crel)) (\<lambda>ws.
         act_for ws (\<lambda>x. note_warning (addon_says owner name x)))))))))) "

definition check_cluster :: "outside \<Rightarrow> dict \<Rightarrow> dict \<Rightarrow> string \<Rightarrow> unit check" where
  "check_cluster w defn kclusters clu =
     act_bind (act_res (or_dict (get kclusters clu))) (\<lambda>cfg.
     (let ctype = jq (get cfg ''clu_type''); crel = jq (get cfg ''clu_rel'') in
      act_then (err_if (is_empty ctype) (clu_required clu ''clu_type'' '' (rke2, k3s or harvester)''))
      (act_then (err_if (is_empty crel) (clu_required clu ''clu_rel'' '' (e.g. stable)''))
      (act_then (err_if (is_empty (jq (get cfg ''mydomain''))) (clu_required clu ''mydomain'' []))
      (act_bind (act_res (or_list (get cfg ''addons''))) (\<lambda>entries.
       act_for entries (cluster_addon w defn clu ctype crel)))))))"

definition node_addon :: "outside \<Rightarrow> dict \<Rightarrow> string \<Rightarrow> pval \<Rightarrow> unit check" where
  "node_addon w defn node entry =
     act_bind (act_res (addon_entry_name entry)) (\<lambda>addon.
     (let name = py_str addon; owner = ''nodes.'' @ node in
      if o_installer w name = None then err (no_script owner name)
      else
        act_bind (act_res (plugin_of w addon)) (\<lambda>plugin.
        act_bind (act_res (node_kind defn node)) (\<lambda>kind.
        act_bind (act_res (requirement_issue plugin kind PNone None)) (\<lambda>req.
        act_then (case req of None \<Rightarrow> act_ret () | Some m \<Rightarrow> err_if (m \<noteq> []) (addon_says owner name m))
        (act_bind (act_res (addon_version_issues w defn entry [node] (PStr []) (PStr []))) (\<lambda>ws.
         act_for ws (\<lambda>x. note_warning (addon_says owner name x)))))))))"

definition check_node_addons :: "outside \<Rightarrow> dict \<Rightarrow> dict \<Rightarrow> string \<Rightarrow> unit check" where
  "check_node_addons w defn nodes node =
     act_bind (act_res (or_dict (get nodes node))) (\<lambda>cfg.
     act_bind (act_res (or_list (get cfg ''addons''))) (\<lambda>entries. act_for entries (node_addon w defn node)))"

definition target_kcluster :: "dict \<Rightarrow> string \<Rightarrow> pval res" where
  "target_kcluster nodes t = res_bind (or_dict (get nodes t)) (\<lambda>c. Inr (jq (get c ''kcluster'')))"

text \<open>A target's kcluster that is no text, which the code would look up as it is, raises.\<close>

definition clusters_to_check :: "dict \<Rightarrow> dict \<Rightarrow> string option \<Rightarrow> string list res" where
  "clusters_to_check nodes kclusters target =
     (case target of None \<Rightarrow> Inr (map fst kclusters)
      | Some t \<Rightarrow> res_bind (target_kcluster nodes t) (\<lambda>k. if is_empty k then Inr [] else res_bind (as_str k) (\<lambda>n. Inr [n])))"

definition check_harvester :: "outside \<Rightarrow> request_args \<Rightarrow> unit check" where
  "check_harvester w a =
     act_bind (in_run (problems (effective_backend_name (o_formats w) (o_crypto w) (o_user w) (o_store w) (a_defn a) (a_config a)) (a_defn a)))
       (\<lambda>ps. act_for ps err)"

section \<open>5: the add-ons' own validation, and the image downloads\<close>

definition addons_of :: "pval \<Rightarrow> pval list res" where
  "addons_of v = res_bind (or_dict v) (\<lambda>c. or_list (get c ''addons''))"

definition addons_to_check :: "dict \<Rightarrow> dict \<Rightarrow> string option \<Rightarrow> pval list res" where
  "addons_to_check nodes kclusters target =
     (case target of
        None \<Rightarrow> res_bind (res_map addons_of (map snd kclusters @ map snd nodes)) (\<lambda>xs. Inr (concat xs))
      | Some t \<Rightarrow>
          res_bind (target_kcluster nodes t) (\<lambda>k. res_bind (addons_of (get nodes t)) (\<lambda>own.
          if is_empty k then Inr own
          else res_bind (as_str k) (\<lambda>n. res_bind (addons_of (get kclusters n)) (\<lambda>more. Inr (own @ more))))))"

text \<open>\<open>re.sub(r"^\[ERROR\]\s*", "", line)\<close>.\<close>

definition strip_error :: "string \<Rightarrow> string" where
  "strip_error l = (if starts_with l ''[ERROR]'' then dropWhile is_space (drop 7 l) else l)"

definition run_validate :: "outside \<Rightarrow> pval \<Rightarrow> unit check" where
  "run_validate w addon =
     (let name = py_str addon in
      case o_installer w name of None \<Rightarrow> act_ret ()
      | Some exe \<Rightarrow>
          if exe = [] then act_ret ()
          else (case o_validate w exe of (ok, combined) \<Rightarrow>
            if ok then act_ret ()
            else act_for (filter (\<lambda>l. \<not> starts_with l ''[WARNING]'') (splitlines combined))
                   (\<lambda>l. err (''addon '' @ sq name @ '': '' @ strip_error l))))"

definition check_addons :: "outside \<Rightarrow> dict \<Rightarrow> dict \<Rightarrow> string option \<Rightarrow> unit check" where
  "check_addons w nodes kclusters target =
     act_bind (act_res (addons_to_check nodes kclusters target)) (\<lambda>entries.
     act_bind (act_res (res_map addon_entry_name entries)) (\<lambda>names.
     act_bind (act_res (sorted_set names)) (\<lambda>all. act_for all (run_validate w))))"

definition check_source :: "outside \<Rightarrow> pval \<Rightarrow> string \<times> dict \<Rightarrow> unit check" where
  "check_source w img = (\<lambda>(label, cfg).
     act_bind (act_res (image_source (o_file w) cfg)) (\<lambda>source. case source of
       None \<Rightarrow> act_ret ()
     | Some (own, url, sha, sha_url) \<Rightarrow>
         act_bind (act_res (as_str (py_or own img))) (\<lambda>name. act_bind (act_res (as_str url)) (\<lambda>u. act_bind (act_res (as_str sha_url)) (\<lambda>su.
         act_for (image_source_issues label name u sha su) err)))))"

definition check_sources :: "outside \<Rightarrow> dict \<Rightarrow> dict \<Rightarrow> pval \<Rightarrow> string list \<Rightarrow> unit check" where
  "check_sources w common nodes img names =
     act_bind (act_res (res_map (\<lambda>n. res_bind (or_dict (get nodes n)) (\<lambda>c. Inr (''nodes.'' @ n, c))) names)) (\<lambda>own.
     act_for ((''common'', common) # own) (check_source w img))"

section \<open>6: the images on the KVM hosts\<close>

definition hv_unreachable :: "pval \<Rightarrow> string \<Rightarrow> string" where
  "hv_unreachable host out =
     ''Cannot reach KVM host '' @ sq (py_str host) @ '' via SSH '' @ emdash @ '' image checks skipped ('' @ str_strip out @ '')''"

definition hv_reachable :: "outside \<Rightarrow> pval \<Rightarrow> bool check" where
  "hv_reachable w host =
     (if \<not> hashable host then act_raise (TypeError ''unhashable'')
      else act_bind (act_get (\<lambda>s. map_of (p_ssh s) host)) (\<lambda>cached. case cached of
        Some ok \<Rightarrow> act_ret ok
      | None \<Rightarrow> (case o_hv_ssh w host of (ok, out) \<Rightarrow>
          act_then (err_if (\<not> ok) (hv_unreachable host out))
          (act_then (act_upd (\<lambda>s. s\<lparr>p_ssh := AList.update host ok (p_ssh s)\<rparr>)) (act_ret ok)))))"

definition will_download :: "string \<Rightarrow> pval \<Rightarrow> pval \<Rightarrow> string \<Rightarrow> string" where
  "will_download label img host loc =
     label @ '': image '' @ sq (py_str img) @ '' not yet at '' @ py_str host @ '':'' @ loc @ ''/'' @ py_str img @ '' '' @ emdash @ '' setup_lab.py downloads it''"

definition image_missing :: "string \<Rightarrow> pval \<Rightarrow> pval \<Rightarrow> string \<Rightarrow> string list \<Rightarrow> string" where
  "image_missing label img host loc avail =
     label @ '': image '' @ sq (py_str img) @ '' not found at '' @ py_str host @ '':'' @ loc @ ''/'' @ py_str img @
     (if join ''  '' (take 10 avail) = [] then [] else '' '' @ emdash @ '' available: '' @ join ''  '' (take 10 avail))"

definition check_image_on_hv :: "outside \<Rightarrow> string \<Rightarrow> pval list \<Rightarrow> pval \<Rightarrow> string \<Rightarrow> pval \<Rightarrow> unit check" where
  "check_image_on_hv w loc downloadable img label host =
     (if is_empty img \<or> loc = [] \<or> \<not> truthy host then act_ret ()
      else act_bind (hv_reachable w host) (\<lambda>ok.
        if \<not> ok \<or> o_hv_file w host (loc @ ''/'' @ py_str img) then act_ret ()
        else if py_in img downloadable then note_warning (will_download label img host loc)
        else err (image_missing label img host loc (o_hv_images w host))))"

definition account_cloudtype_for :: "outside \<Rightarrow> dict \<Rightarrow> dict \<Rightarrow> dict \<Rightarrow> string \<Rightarrow> pval check" where
  "account_cloudtype_for w config common nodes node =
     act_bind (act_get (\<lambda>s. map_of (p_types s) node)) (\<lambda>cached. case cached of
       Some ct \<Rightarrow> act_ret ct
     | None \<Rightarrow>
         act_bind (act_res (or_dict (get nodes node))) (\<lambda>cfg.
         act_bind (if is_empty (account_named cfg common) then act_ret PNone
                   else act_bind (try_account w config (account_named cfg common)) (\<lambda>r. case r of
                     Inl _ \<Rightarrow> act_ret PNone
                   | Inr acct \<Rightarrow> act_ret (py_or (get acct ''CLOUDTYPE'') PNone))) (\<lambda>ct.
         act_then (remember_type node ct) (act_ret ct))))"

definition uses_libvirt :: "outside \<Rightarrow> dict \<Rightarrow> dict \<Rightarrow> dict \<Rightarrow> string \<Rightarrow> bool check" where
  "uses_libvirt w config common nodes node =
     act_bind (account_cloudtype_for w config common nodes node) (\<lambda>ct.
     if truthy ct then act_ret False
     else act_bind (act_res (or_dict (get nodes node))) (\<lambda>cfg.
       (let b = py_or (jq (get cfg ''backend'')) (jq (get common ''backend'')) in
        act_ret (is_empty b \<or> b = PStr ''libvirt''))))"

fun act_filter :: "('a \<Rightarrow> ('s, bool) act) \<Rightarrow> 'a list \<Rightarrow> ('s, 'a list) act" where
  "act_filter f [] = act_ret []"
| "act_filter f (x # xs) = act_bind (f x) (\<lambda>b. act_bind (act_filter f xs) (\<lambda>ys. act_ret (if b then x # ys else ys)))"

definition vm_disk_raised :: "string \<Rightarrow> int \<Rightarrow> pval \<Rightarrow> int \<Rightarrow> string" where
  "vm_disk_raised node want img gib =
     ''nodes.'' @ node @ ''.VM_DSK is '' @ int_str want @ '' GiB but its source image '' @ sq (py_str img) @ '' is '' @ int_str gib @ '' GiB '' @ emdash @
     '' raising VM_DSK to '' @ int_str gib @ '' GiB (a smaller disk would fail at qemu-img resize)''"

text \<open>\<open>math.ceil\<close> of the size in GiB.\<close>

definition gib_ceiling :: "int \<Rightarrow> int" where
  "gib_ceiling bytes = (bytes + 1073741823) div 1073741824"

definition wanted_disk :: "dict \<Rightarrow> dict \<Rightarrow> int option" where
  "wanted_disk cfg common = py_int (str_strip (py_str (py_or (get_dflt cfg ''VM_DSK'' (get_dflt common ''VM_DSK'' (PStr []))) (PStr []))))"

definition raise_disk :: "string \<Rightarrow> int \<Rightarrow> dict \<Rightarrow> dict" where
  "raise_disk node gib nodes =
     (case get nodes node of PDict c \<Rightarrow> AList.update node (PDict (AList.update ''VM_DSK'' (PStr (int_str gib)) c)) nodes | _ \<Rightarrow> nodes)"

definition check_min_disk :: "outside \<Rightarrow> request_args \<Rightarrow> dict \<Rightarrow> pval \<Rightarrow> string \<Rightarrow> unit check" where
  "check_min_disk w a common img node =
     act_bind (act_get p_nodes) (\<lambda>nodes. act_bind (act_res (or_dict (get nodes node))) (\<lambda>cfg.
     act_bind (act_res (image_name cfg)) (\<lambda>own.
     act_bind (resolved_host_for w (a_defn a) (a_config a) node) (\<lambda>(host, _).
     (let use = py_or own img in
      if is_empty use \<or> a_iso_loc a = [] \<or> \<not> truthy host then act_ret ()
      else act_bind (hv_reachable w host) (\<lambda>ok.
        if \<not> ok then act_ret ()
        else case (wanted_disk cfg common, o_virtual_size w host (a_iso_loc a @ ''/'' @ py_str use)) of
          (Some want, Some bytes) \<Rightarrow>
            if bytes \<le> 0 \<or> want \<ge> gib_ceiling bytes then act_ret ()
            else act_then (note_warning (vm_disk_raised node want use (gib_ceiling bytes)))
                   (act_upd (\<lambda>s. s\<lparr>p_nodes := raise_disk node (gib_ceiling bytes) (p_nodes s)\<rparr>))
        | _ \<Rightarrow> act_ret ()))))))"

definition NO_ISO_LOC :: string where
  "NO_ISO_LOC = ''ISO_LOC is not set '' @ emdash @ '' check /etc/lab_creation.defaults''"

definition not_existing :: "dict \<Rightarrow> string \<Rightarrow> bool res" where
  "not_existing nodes n = res_bind (is_existing_node (get nodes n)) (\<lambda>e. Inr (\<not> e))"

definition check_own_image :: "outside \<Rightarrow> request_args \<Rightarrow> dict \<Rightarrow> pval list \<Rightarrow> string \<Rightarrow> unit check" where
  "check_own_image w a nodes downloadable node =
     act_bind (resolved_host_for w (a_defn a) (a_config a) node) (\<lambda>(host, _).
     act_bind (act_res (or_dict (get nodes node))) (\<lambda>cfg. act_bind (act_res (image_name cfg)) (\<lambda>own.
     if is_empty own then act_ret ()
     else check_image_on_hv w (a_iso_loc a) downloadable own (''nodes.'' @ node @ ''.ISO_IMAGE'') host)))"

fun uniq_hosts :: "pval list \<Rightarrow> pval list" where
  "uniq_hosts [] = []"
| "uniq_hosts (h # hs) = (if h = PNone then uniq_hosts hs else h # uniq_hosts (filter (\<lambda>x. x \<noteq> h) hs))"

definition check_images :: "outside \<Rightarrow> request_args \<Rightarrow> dict \<Rightarrow> dict \<Rightarrow> pval \<Rightarrow> pval list \<Rightarrow> string list \<Rightarrow> unit check" where
  "check_images w a common nodes img downloadable names =
     (if \<not> a_host_checks a then act_ret ()
      else
        act_then (err_if (a_iso_loc a = []) NO_ISO_LOC)
        (act_bind (act_filter (\<lambda>n. act_res (not_existing nodes n)) names) (\<lambda>created.
         act_bind (act_filter (uses_libvirt w (a_config a) common nodes) created) (\<lambda>libvirt.
         if a_iso_loc a = [] then act_ret ()
         else
           act_bind (act_map (\<lambda>n. act_bind (resolved_host_for w (a_defn a) (a_config a) n) (\<lambda>(h, _). act_ret h)) libvirt) (\<lambda>hosts.
           act_then (act_for (uniq_hosts hosts) (check_image_on_hv w (a_iso_loc a) downloadable img ''common.ISO_IMAGE''))
           (act_then (act_for libvirt (check_own_image w a nodes downloadable))
           (act_for libvirt (check_min_disk w a common img))))))))"

section \<open>7: the templates, and the report\<close>

definition template_unread :: "string \<Rightarrow> string \<Rightarrow> string" where
  "template_unread kind path = kind @ '' template '' @ path @ '' is not readable by this user '' @ emdash @ '' not checked''"

definition check_template :: "outside \<Rightarrow> string \<times> string \<Rightarrow> unit check" where
  "check_template w = (\<lambda>(kind, path). case o_template w path of
       None \<Rightarrow> note_warning (template_unread kind path)
     | Some there \<Rightarrow> err_if (\<not> there) (kind @ '' template not found: '' @ path))"

definition template_method :: "dict \<Rightarrow> pval \<Rightarrow> pval res" where
  "template_method common v =
     res_bind (or_dict v) (\<lambda>c. (let m = jq (get c ''config_method'') in Inr (if is_empty m then jq (get common ''config_method'') else m)))"

definition no_files_method :: "pval \<Rightarrow> bool" where
  "no_files_method m = (m = PStr ''virt_customize'' \<or> m = PStr ''iso-cloud-init'')"

definition bad_install_type :: "pval \<Rightarrow> string" where
  "bad_install_type t =
     ''common.install_type '' @ sq (py_str t) @ '' is invalid '' @ emdash @ '' must be: autoyast, kickstart, preseed, or autoinstall''"

definition check_install_iso :: "outside \<Rightarrow> string \<Rightarrow> dict \<Rightarrow> pval \<Rightarrow> unit check" where
  "check_install_iso w setup_path common img =
     (let t = jq (get common ''install_type'') in
      act_then (err_if (\<not> is_empty t \<and> t \<notin> PStr ` set [''autoyast'', ''kickstart'', ''preseed'', ''autoinstall'']) (bad_install_type t))
      (act_bind (act_res (resolve_install_type (if is_empty t then PStr [] else t) img)) (\<lambda>eff.
       check_template w (''install_iso'', setup_path @ ''/install_iso/template_'' @ py_str eff))))"

definition check_templates :: "outside \<Rightarrow> string \<Rightarrow> dict \<Rightarrow> dict \<Rightarrow> pval \<Rightarrow> unit check" where
  "check_templates w setup_path common nodes img =
     act_bind (act_res (res_map (template_method common) (map snd nodes))) (\<lambda>ms.
     act_then (if list_ex (\<lambda>m. m \<noteq> PStr ''cloud-init'' \<and> m \<noteq> PStr ''install_iso'' \<and> \<not> no_files_method m) ms
               then act_for [(''Ignition'', setup_path @ ''/ignition/template''), (''Combustion'', setup_path @ ''/combustion/template'')] (check_template w)
               else act_ret ())
     (act_then (if PStr ''cloud-init'' \<in> set ms
                then act_for (map (\<lambda>t. (''cloud-init'', setup_path @ ''/cloud-init/template_'' @ t)) [''user-data'', ''network-config'', ''meta-data'']) (check_template w)
                else act_ret ())
     (if PStr ''install_iso'' \<in> set ms then check_install_iso w setup_path common img else act_ret ())))"

definition errors :: "preflight \<Rightarrow> string list" where
  "errors s = map snd (filter fst (p_issues s))"

definition validate_lab_definition :: "outside \<Rightarrow> request_args \<Rightarrow> bool check" where
  "validate_lab_definition w a =
     (let defn = a_defn a; target = a_target a in
      act_then (check_sections defn)
      (act_bind (act_res (or_dict (get defn ''common''))) (\<lambda>common. act_bind (act_res (or_dict (get defn ''nodes''))) (\<lambda>nodes.
       act_bind (act_res (or_dict (get defn ''kclusters''))) (\<lambda>kclusters.
       act_then (act_upd (\<lambda>s. s\<lparr>p_nodes := nodes\<rparr>))
       (act_then (check_schema w defn)
       (act_bind (act_res (image_name common)) (\<lambda>img.
        act_then (check_common nodes common img)
        (let names = (case target of None \<Rightarrow> map fst nodes | Some t \<Rightarrow> [t]) in
         act_then (act_for names (check_node w a common nodes kclusters img))
         (act_bind (act_res (clusters_to_check nodes kclusters target)) (\<lambda>clus.
          act_then (act_for clus (check_cluster w defn kclusters))
          (act_then (check_harvester w a)
          (act_then (act_for names (check_node_addons w defn nodes))
          (act_then (check_addons w nodes kclusters target)
          (act_then (check_sources w common nodes img names)
          (act_bind (act_res (image_download_requests (o_file w) defn)) (\<lambda>reqs.
           act_then (check_images w a common nodes img (map (fst \<circ> snd) reqs) names)
           (act_then (check_templates w (a_setup_path a) common nodes img)
           (act_get (\<lambda>s. errors s = []))))))))))))))))))))"

definition start :: "run_state \<Rightarrow> preflight" where
  "start u = \<lparr>p_issues = [], p_ips = [], p_previewed = [], p_macs = [], p_types = [], p_hosts = [], p_ssh = [], p_nodes = [], p_run = u\<rparr>"

end
