(* ===== verification/Preflight_Passed.thy ===== *)
theory Preflight_Passed
  imports Preflight
begin

text \<open>
  What a lab is that passes its preflight. Every check only adds issues and remembers more, so a run
  that ends without an error had none at any moment, and each check can be read where it stands.
\<close>

section \<open>Checks only add\<close>

definition later :: "preflight \<Rightarrow> preflight \<Rightarrow> bool" where
  "later s t = ((\<exists>l. p_issues t = p_issues s @ l) \<and> set (p_ips s) \<subseteq> set (p_ips t) \<and> set (p_macs s) \<subseteq> set (p_macs t))"

definition moves :: "'a check \<Rightarrow> bool" where
  "moves m = (\<forall>s. later s (snd (m s)))"

named_theorems moves_intros

lemma later_refl [simp]: "later s s" by (simp add: later_def)

lemma later_trans: "later s t \<Longrightarrow> later t u \<Longrightarrow> later s u" by (auto simp: later_def)

lemma later_clean: "later s t \<Longrightarrow> errors t = [] \<Longrightarrow> errors s = []" by (auto simp: later_def errors_def)

lemma moves_ret [moves_intros]: "moves (act_ret x)" by (simp add: moves_def act_simps)

lemma moves_raise [moves_intros]: "moves (act_raise e)" by (simp add: moves_def act_simps)

lemma moves_res [moves_intros]: "moves (act_res r)" by (simp add: moves_def act_simps)

lemma moves_get [moves_intros]: "moves (act_get f)" by (simp add: moves_def act_simps)

lemma moves_upd [moves_intros]: "(\<And>s. later s (g s)) \<Longrightarrow> moves (act_upd g)" by (simp add: moves_def act_simps)

lemma moves_bind [moves_intros]: "moves m \<Longrightarrow> (\<And>x. moves (f x)) \<Longrightarrow> moves (act_bind m f)"
  unfolding moves_def act_bind_def
  by (auto split: prod.splits sum.splits) (metis later_trans snd_conv)+

lemma moves_then [moves_intros]: "moves m \<Longrightarrow> moves n \<Longrightarrow> moves (act_then m n)"
  by (simp add: act_then_def moves_bind)

lemma moves_if [moves_intros]: "moves m \<Longrightarrow> moves n \<Longrightarrow> moves (if b then m else n)" by simp

lemma moves_pair [moves_intros]: "(\<And>a b. moves (f a b)) \<Longrightarrow> moves (case p of (a, b) \<Rightarrow> f a b)" by (cases p) simp

lemma moves_option [moves_intros]: "moves a \<Longrightarrow> (\<And>x. moves (b x)) \<Longrightarrow> moves (case v of None \<Rightarrow> a | Some x \<Rightarrow> b x)"
  by (cases v) auto

lemma moves_sum [moves_intros]: "(\<And>e. moves (a e)) \<Longrightarrow> (\<And>x. moves (b x)) \<Longrightarrow> moves (case v of Inl e \<Rightarrow> a e | Inr x \<Rightarrow> b x)"
  by (cases v) auto

lemma moves_for [moves_intros]: "(\<And>x. moves (f x)) \<Longrightarrow> moves (act_for xs f)"
  by (induction xs) (auto intro: moves_intros)

lemma moves_map [moves_intros]: "(\<And>x. moves (f x)) \<Longrightarrow> moves (act_map f xs)"
  by (induction xs) (auto intro!: moves_intros)

lemma moves_filter [moves_intros]: "(\<And>x. moves (f x)) \<Longrightarrow> moves (act_filter f xs)"
  by (induction xs) (auto intro!: moves_intros)

lemma moves_issue [moves_intros]: "moves (issue b m)" "moves (err_if b m)" "moves (warn_if b m)"
  by (auto simp: issue_def err_if_def warn_if_def later_def intro!: moves_intros)

lemma moves_with_run [moves_intros]: "moves (with_run m)"
  by (auto simp: moves_def with_run_def later_def split: prod.splits)

lemma moves_in_run [moves_intros]: "moves (in_run m)"
  by (auto simp: in_run_def intro!: moves_intros)

lemma moves_small [moves_intros]:
  "moves (check_sections d)" "moves (check_schema w d)" "moves (check_backend t b)" "moves (check_common ns c i)"
  "moves (resolved_host_for w d cf n)" "moves (remember_type n ct)" "moves (check_account w cf c n nc)" "moves (check_missing_ip w d c n)"
  "moves (check_ip n v)" "moves (check_mac n v)" "moves (check_kcluster ks n k)" "moves (check_method n m i)" "moves (check_on_host w a n cl)"
  "moves (check_template w tp)" "moves (hv_reachable w h)"
  by (auto simp: check_sections_def check_schema_def check_backend_def check_common_def check_image_set_def resolved_host_for_def
      remember_type_def check_account_def try_account_def check_missing_ip_def check_ip_def check_mac_def check_kcluster_def
      check_method_def check_on_host_def check_template_def hv_reachable_def Let_def later_def intro!: moves_intros)

lemma moves_node [moves_intros]: "moves (check_node w a c ns ks i n)"
  by (auto simp: check_node_def Let_def intro!: moves_intros)

lemma moves_addons [moves_intros]:
  "moves (cluster_addon w d k ct cr e)" "moves (check_cluster w d ks k)" "moves (node_addon w d n e)" "moves (check_node_addons w d ns n)"
  "moves (check_harvester w a)" "moves (run_validate w v)" "moves (check_addons w ns ks t)" "moves (check_source w i p)" "moves (check_sources w c ns i l)"
  by (auto simp: cluster_addon_def check_cluster_def node_addon_def check_node_addons_def check_harvester_def run_validate_def
      check_addons_def check_source_def check_sources_def Let_def intro!: moves_intros)

lemma moves_images [moves_intros]:
  "moves (check_image_on_hv w l ds i t h)" "moves (uses_libvirt w cf c ns n)" "moves (check_min_disk w a c i n)" "moves (check_own_image w a ns ds n)"
  "moves (check_images w a c ns i ds nds)" "moves (check_templates w p c ns i)"
  by (auto simp: check_image_on_hv_def uses_libvirt_def account_cloudtype_for_def try_account_def remember_type_def check_min_disk_def check_own_image_def check_images_def
      check_templates_def check_install_iso_def Let_def later_def intro!: moves_intros)

lemma later_nodes [moves_intros]: "later s (s\<lparr>p_nodes := ns\<rparr>)" by (simp add: later_def)

section \<open>Reading a run that passed\<close>

definition passes :: "'a check \<Rightarrow> preflight \<Rightarrow> 'a \<Rightarrow> preflight \<Rightarrow> bool" where
  "passes m s x t = (m s = (Inr x, t) \<and> errors t = [])"

lemma passes_later: "passes m s x t \<Longrightarrow> moves m \<Longrightarrow> later s t"
  unfolding passes_def moves_def by (metis snd_conv)

lemma passes_bind:
  assumes "passes (act_bind m f) s y t" and "\<And>x. moves (f x)"
  shows "\<exists>x u. passes m s x u \<and> passes (f x) u y t \<and> later u t"
proof -
  obtain x u where u: "m s = (Inr x, u)" "f x u = (Inr y, t)" using assms(1) by (auto simp: passes_def act_bind_eq_Inr)
  have "later u t" using assms(2) [of x] u(2) unfolding moves_def by (metis snd_conv)
  then show ?thesis using u assms(1) later_clean by (auto simp: passes_def)
qed

lemma passes_then:
  "passes (act_then m n) s y t \<Longrightarrow> moves n \<Longrightarrow> \<exists>x u. passes m s x u \<and> passes n u y t \<and> later u t"
  unfolding act_then_def by (rule passes_bind)

lemma passes_res: "passes (act_res r) s x t \<longleftrightarrow> r = Inr x \<and> s = t \<and> errors t = []"
  by (auto simp: passes_def act_res_app)

lemma passes_err_if: "passes (err_if b m) s x t \<Longrightarrow> \<not> b \<and> s = t"
  by (auto simp: passes_def err_if_def issue_def act_upd_app act_ret_app errors_def split: if_splits)

lemma passes_for:
  assumes "passes (act_for xs f) s u t" and "\<And>x. moves (f x)" and "x \<in> set xs"
  shows "\<exists>s1 s2. later s s1 \<and> passes (f x) s1 () s2 \<and> later s2 t"
  using assms(1,3)
proof (induction xs arbitrary: s)
  case (Cons y ys)
  have "passes (act_then (f y) (act_for ys f)) s u t" using Cons.prems(1) by simp
  from passes_then [OF this moves_for [OF assms(2)]]
  obtain s1 where s1: "passes (f y) s () s1" "passes (act_for ys f) s1 u t" "later s1 t" by auto
  show ?case
  proof (cases "x = y")
    case True
    then show ?thesis using s1 by (intro exI [of _ s] exI [of _ s1]) simp
  next
    case False
    then show ?thesis using Cons.IH [OF s1(2)] Cons.prems(2) passes_later [OF s1(1) assms(2)] later_trans by auto
  qed
qed simp

section \<open>What each check leaves\<close>

lemma or_dict_of [simp]: "or_dict (PDict d) = Inr d"
  by (cases d) (simp_all add: or_dict_def)

lemma in_names_Inr_True: "in_names v names = Inr True \<longleftrightarrow> (\<exists>t \<in> set names. v = PStr t)"
  by (cases v) (auto simp: in_names_def)

lemma passes_thenE:
  assumes "passes (act_then m n) s y t" and "\<And>x u. passes m s x u \<Longrightarrow> passes n u y t \<Longrightarrow> later u t \<Longrightarrow> A" and "moves n"
  shows A
  using passes_then [OF assms(1,3)] assms(2) by blast

lemma passes_bindE:
  assumes "passes (act_bind m f) s y t" and "\<And>x u. passes m s x u \<Longrightarrow> passes (f x) u y t \<Longrightarrow> later u t \<Longrightarrow> A" and "\<And>x. moves (f x)"
  shows A
  using passes_bind [OF assms(1,3)] assms(2) by blast

lemma passes_known:
  assumes "passes (act_bind (act_res (in_names v names)) (\<lambda>known. err_if (\<not> known) msg)) s x t"
  shows "\<exists>n \<in> set names. v = PStr n"
proof -
  obtain known u y where k: "in_names v names = Inr known" and e: "passes (err_if (\<not> known) msg) u y t"
    using passes_bind [OF assms moves_issue(2)] by (auto simp: passes_res)
  have known using passes_err_if [OF e] by simp
  then show ?thesis using k in_names_Inr_True [of v names] by simp
qed

lemma passes_backend: "passes (check_backend what b) s x t \<Longrightarrow> is_empty b \<or> (\<exists>n \<in> set BACKENDS. b = PStr n)"
  unfolding check_backend_def by (cases "is_empty b") (auto dest: passes_known)

lemma passes_kcluster: "passes (check_kcluster kclusters node k) s x t \<Longrightarrow> is_empty k \<or> (\<exists>n \<in> fst ` set kclusters. k = PStr n)"
  unfolding check_kcluster_def by (cases "is_empty k") (fastforce dest: passes_known)+

lemma passes_ip: "passes (check_ip node v) s x t \<Longrightarrow> is_empty v \<or> \<not> py_in v (p_ips s) \<and> v \<in> set (p_ips t)"
  by (auto simp: passes_def check_ip_def act_bind_app act_get_app act_upd_app act_raise_app issue_def errors_def split: if_splits)

lemma passes_mac: "passes (check_mac node v) s x t \<Longrightarrow>
    is_empty v \<or> str_lower (py_str v) \<notin> set (p_macs s) \<and> str_lower (py_str v) \<in> set (p_macs t)"
  by (auto simp: passes_def check_mac_def act_bind_app act_get_app act_upd_app issue_def errors_def split: if_splits)

lemma passes_method:
  assumes "passes (check_method node m img) s x t"
  shows "method_ok m \<and> \<not> wrong_medium img m"
  using assms unfolding check_method_def
proof (elim passes_thenE, goal_cases)
  case 1
  then show ?case using passes_err_if by blast
qed (auto simp: Let_def intro!: moves_intros)

definition node_passed :: "dict \<Rightarrow> dict \<Rightarrow> pval \<Rightarrow> dict \<Rightarrow> bool" where
  "node_passed common kclusters img cfg =
     ((is_empty (jq (get cfg ''kcluster'')) \<or> (\<exists>k \<in> fst ` set kclusters. jq (get cfg ''kcluster'') = PStr k)) \<and>
      (is_empty (jq (get cfg ''backend'')) \<or> (\<exists>b \<in> set BACKENDS. jq (get cfg ''backend'') = PStr b)) \<and>
      method_ok (eff_config_method cfg common) \<and>
      (\<forall>own. image_name cfg = Inr own \<longrightarrow> \<not> wrong_medium (if is_empty own then img else own) (eff_config_method cfg common)))"

lemma passes_node:
  assumes "passes (check_node w a common nodes kclusters img node) s x t" and "or_dict (get nodes node) = Inr cfg"
  shows "node_passed common kclusters img cfg \<and>
    (is_empty (jq (get cfg ''myip'')) \<or> \<not> py_in (jq (get cfg ''myip'')) (p_ips s) \<and> jq (get cfg ''myip'') \<in> set (p_ips t)) \<and>
    (is_empty (jq (get cfg ''mymac'')) \<or> str_lower (py_str (jq (get cfg ''mymac''))) \<notin> set (p_macs s) \<and>
       str_lower (py_str (jq (get cfg ''mymac''))) \<in> set (p_macs t))"
  using assms(1) unfolding check_node_def Let_def assms(2)
proof (elim passes_bindE passes_thenE, unfold passes_res, goal_cases)
  case (1 c0 s0 ct s1 x2 s2 is_cloud s3 x4 s4 x5 s5 x6 s6 x7 s7 x8 s8 own s9 x10 s10 x11 s11)
  have c: "c0 = cfg" "s0 = s" "s3 = s2" "image_name cfg = Inr own" "s9 = s8" using 1 by auto
  have l1: "later s s1" using passes_later [OF 1(3)] moves_small(7) c by blast
  have l2: "later s1 s2" using passes_later [OF 1(5)] moves_small(6) by blast
  have l3: "later s2 s4" using passes_later [OF 1(9)] moves_small(8) moves_ret c by (metis moves_if)
  have l5: "later s4 s5" using passes_later [OF 1(11)] moves_small(9) by blast
  have l: "later s s4" "later s s5" using l1 l2 l3 l5 later_trans by blast+
  have mono: "py_in v (p_ips s) \<Longrightarrow> py_in v (p_ips s4)" for v using l(1) by (auto simp: later_def py_in_def list_ex_iff)
  have ip: "is_empty (jq (get cfg ''myip'')) \<or> \<not> py_in (jq (get cfg ''myip'')) (p_ips s4) \<and> jq (get cfg ''myip'') \<in> set (p_ips s5)"
    using passes_ip [OF 1(11)] c by simp
  have mac: "is_empty (jq (get cfg ''mymac'')) \<or> str_lower (py_str (jq (get cfg ''mymac''))) \<notin> set (p_macs s5) \<and>
      str_lower (py_str (jq (get cfg ''mymac''))) \<in> set (p_macs s6)"
    using passes_mac [OF 1(13)] c by simp
  have ts: "set (p_ips s5) \<subseteq> set (p_ips t)" "set (p_macs s6) \<subseteq> set (p_macs t)" "set (p_macs s) \<subseteq> set (p_macs s5)"
    using 1(12) 1(14) l(2) by (auto simp: later_def)
  have "node_passed common kclusters img cfg" unfolding node_passed_def
    using passes_kcluster [OF 1(15)] passes_backend [OF 1(17)] passes_method [OF 1(21)] c by auto
  then show ?case using ip mac ts mono by blast
qed (intro moves_intros)+

lemma passes_cluster:
  assumes "passes (check_cluster w defn kclusters clu) s x t"
  shows "\<exists>cfg. or_dict (get kclusters clu) = Inr cfg \<and>
    (\<forall>field \<in> {''clu_type'', ''clu_rel'', ''mydomain''}. \<not> is_empty (jq (get cfg field)))"
  using assms unfolding check_cluster_def Let_def
proof (elim passes_bindE passes_thenE, unfold passes_res, goal_cases)
  case (1 cfg)
  then show ?case by (blast dest: passes_err_if)
qed (intro moves_intros)+

section \<open>A lab that passed\<close>

text \<open>Two nodes that share neither an address nor a MAC address.\<close>

definition node_value :: "dict \<Rightarrow> string \<Rightarrow> string \<Rightarrow> pval" where
  "node_value nodes n key = (case or_dict (get nodes n) of Inr cfg \<Rightarrow> jq (get cfg key) | Inl _ \<Rightarrow> PNone)"

definition apart :: "dict \<Rightarrow> string \<Rightarrow> string \<Rightarrow> bool" where
  "apart nodes m n =
     ((is_empty (node_value nodes m ''myip'') \<or> is_empty (node_value nodes n ''myip'') \<or>
         \<not> py_eq (node_value nodes n ''myip'') (node_value nodes m ''myip'')) \<and>
      (is_empty (node_value nodes m ''mymac'') \<or> is_empty (node_value nodes n ''mymac'') \<or>
         str_lower (py_str (node_value nodes n ''mymac'')) \<noteq> str_lower (py_str (node_value nodes m ''mymac''))))"

lemma node_read:
  assumes "passes (check_node w a common nodes kclusters img n) s x t"
  shows "\<exists>cfg. or_dict (get nodes n) = Inr cfg"
  using assms unfolding check_node_def by (auto simp: passes_def act_bind_eq_Inr act_res_app)

lemma nodes_apart:
  assumes "passes (act_for names (check_node w a common nodes kclusters img)) s x t"
  shows "sorted_wrt (apart nodes) names"
  using assms
proof (induction names arbitrary: s)
  case (Cons m names)
  have "passes (act_then (check_node w a common nodes kclusters img m) (act_for names (check_node w a common nodes kclusters img))) s x t"
    using Cons.prems by simp
  from passes_then [OF this moves_for [OF moves_node]] obtain y s1 where
    s1: "passes (check_node w a common nodes kclusters img m) s y s1" "passes (act_for names (check_node w a common nodes kclusters img)) s1 x t" by blast
  obtain cm where cm: "or_dict (get nodes m) = Inr cm" using node_read [OF s1(1)] by blast
  note pm = passes_node [OF s1(1) cm]
  have "apart nodes m n" if n: "n \<in> set names" for n
  proof -
    obtain s2 s3 where s2: "later s1 s2" "passes (check_node w a common nodes kclusters img n) s2 () s3"
      using passes_for [OF s1(2) moves_node n] by blast
    obtain cn where cn: "or_dict (get nodes n) = Inr cn" using node_read [OF s2(2)] by blast
    have "set (p_ips s1) \<subseteq> set (p_ips s2)" "set (p_macs s1) \<subseteq> set (p_macs s2)" using s2(1) by (auto simp: later_def)
    then show ?thesis using pm passes_node [OF s2(2) cn]
      unfolding apart_def node_value_def cm cn sum.case py_in_def list_ex_iff by (auto 0 3 dest: subsetD)
  qed
  then show ?case using Cons.IH [OF s1(2)] by simp
qed simp

definition cluster_passed :: "dict \<Rightarrow> string \<Rightarrow> bool" where
  "cluster_passed kclusters k =
     (\<exists>cfg. or_dict (get kclusters k) = Inr cfg \<and> (\<forall>field \<in> {''clu_type'', ''clu_rel'', ''mydomain''}. \<not> is_empty (jq (get cfg field))))"

lemma passes_validate:
  assumes "passes (validate_lab_definition w a) s True t" and "a_target a = None"
    and "or_dict (get (a_defn a) ''common'') = Inr common" and "or_dict (get (a_defn a) ''nodes'') = Inr nodes"
    and "or_dict (get (a_defn a) ''kclusters'') = Inr kclusters"
  shows "\<exists>img s1 s2 s3 s4 s5 s6. image_name common = Inr img \<and> passes (check_sections (a_defn a)) s () s1 \<and>
    passes (check_schema w (a_defn a)) s2 () s3 \<and>
    passes (act_for (map fst nodes) (check_node w a common nodes kclusters img)) s4 () s5 \<and>
    passes (act_for (map fst kclusters) (check_cluster w (a_defn a) kclusters)) s5 () s6"
  using assms(1) unfolding validate_lab_definition_def Let_def assms(2-5) option.case clusters_to_check_def
proof (elim passes_bindE passes_thenE, unfold passes_res, goal_cases)
  case 1
  then show ?case by clarsimp blast
qed (intro moves_intros)+

text \<open>The verdict is about the final list of issues: nothing comes after it.\<close>

lemma verdict:
  assumes "validate_lab_definition w a s = (Inr ok, t)"
  shows "ok = (errors t = [])"
  using assms unfolding validate_lab_definition_def Let_def
  by (auto simp: act_bind_eq_Inr act_then_eq_Inr act_get_app)

lemma schema_passed:
  assumes "passes (check_schema w defn) s x t"
  shows "\<exists>fs. definition_findings defn (o_schema w) PREFLIGHT_OWN_FIELDS = Inr fs \<and> (\<forall>f \<in> set fs. f_severity f \<noteq> ''error'')"
proof -
  let ?one = "\<lambda>f. issue (f_severity f = ''error'') (f_where f @ '': '' @ f_message f)"
  have "passes (act_bind (act_res (definition_findings defn (o_schema w) PREFLIGHT_OWN_FIELDS)) (\<lambda>fs. act_for fs ?one)) s x t"
    using assms by (simp add: check_schema_def)
  from passes_bind [OF this moves_for [OF moves_issue(1)]] obtain fs u y where
    f: "definition_findings defn (o_schema w) PREFLIGHT_OWN_FIELDS = Inr fs" "passes (act_for fs ?one) u y t" by (auto simp: passes_res)
  have "f_severity f \<noteq> ''error''" if "f \<in> set fs" for f
    using passes_for [OF f(2) moves_issue(1) that] by (auto simp: passes_def issue_def act_upd_app errors_def)
  then show ?thesis using f(1) by blast
qed

text \<open>C1 A preflight answers True exactly when it reported no error. Of a whole lab that passed: no two nodes are given the same address or,
  whatever its case, the same MAC address; every node's kcluster is defined, its own backend one there is, its effective
  configuration method one there is and install_iso where its image is an installer medium; every kcluster has its type, release and
  domain; and no declared field other than backend, cloud_account, config_method and install_type, which the schema check
  leaves out, has a value its schema calls an error. Nothing is said of install_type and cloud_account.\<close>

theorem preflight_passed:
  assumes "validate_lab_definition w a s = (Inr ok, t)" and "a_target a = None"
    and "or_dict (get (a_defn a) ''common'') = Inr common" and "or_dict (get (a_defn a) ''nodes'') = Inr nodes"
    and "or_dict (get (a_defn a) ''kclusters'') = Inr kclusters"
  shows "ok = (errors t = []) \<and>
    (ok \<longrightarrow> has_key (a_defn a) ''nodes'' \<and> has_key (a_defn a) ''common'' \<and>
       sorted_wrt (apart nodes) (map fst nodes) \<and>
       (\<exists>img. image_name common = Inr img \<and>
          (\<forall>n \<in> fst ` set nodes. \<exists>cfg. or_dict (get nodes n) = Inr cfg \<and> node_passed common kclusters img cfg)) \<and>
       (\<forall>k \<in> fst ` set kclusters. cluster_passed kclusters k) \<and>
       (\<exists>fs. definition_findings (a_defn a) (o_schema w) PREFLIGHT_OWN_FIELDS = Inr fs \<and> (\<forall>f \<in> set fs. f_severity f \<noteq> ''error'')))"
proof (intro conjI impI)
  show "ok = (errors t = [])" by (rule verdict [OF assms(1)])
next
  assume ok
  then have "passes (validate_lab_definition w a) s True t" using assms(1) verdict [OF assms(1)] by (simp add: passes_def)
  from passes_validate [OF this assms(2-5)] obtain img s1 s2 s3 s4 s5 s6 where
    img: "image_name common = Inr img" and sec: "passes (check_sections (a_defn a)) s () s1" and sch: "passes (check_schema w (a_defn a)) s2 () s3" and
    nds: "passes (act_for (map fst nodes) (check_node w a common nodes kclusters img)) s4 () s5" and
    cls: "passes (act_for (map fst kclusters) (check_cluster w (a_defn a) kclusters)) s5 () s6" by blast
  show "has_key (a_defn a) ''nodes''" "has_key (a_defn a) ''common''"
    using passes_then [OF sec [unfolded check_sections_def] moves_issue(2)] by (auto dest!: passes_err_if)
  show "sorted_wrt (apart nodes) (map fst nodes)" by (rule nodes_apart [OF nds])
  have all: "\<exists>cfg. or_dict (get nodes n) = Inr cfg \<and> node_passed common kclusters img cfg" if n: "n \<in> fst ` set nodes" for n
  proof -
    obtain u v where u: "passes (check_node w a common nodes kclusters img n) u () v" using passes_for [OF nds moves_node, of n] n by auto
    then show ?thesis using node_read [OF u] passes_node [OF u] by blast
  qed
  then show "\<exists>img. image_name common = Inr img \<and>
      (\<forall>n \<in> fst ` set nodes. \<exists>cfg. or_dict (get nodes n) = Inr cfg \<and> node_passed common kclusters img cfg)"
    using img by blast
  show "\<forall>k \<in> fst ` set kclusters. cluster_passed kclusters k"
  proof
    fix k assume "k \<in> fst ` set kclusters"
    then have k: "k \<in> set (map fst kclusters)" by simp
    show "cluster_passed kclusters k"
      using passes_for [OF cls moves_addons(2) k] passes_cluster unfolding cluster_passed_def by blast
  qed
  show "\<exists>fs. definition_findings (a_defn a) (o_schema w) PREFLIGHT_OWN_FIELDS = Inr fs \<and> (\<forall>f \<in> set fs. f_severity f \<noteq> ''error'')"
    by (rule schema_passed [OF sch])
qed

definition pf_lab :: dict where
  "pf_lab =
     [(''common'', PDict [(''SOURCE_IMAGE'', PStr ''leap.qcow2''), (''VM_MEM'', PInt 4096), (''VM_DSK'', PInt 40), (''VM_CPU'', PInt 2),
        (''config_method'', PStr ''cloud-init'')]),
      (''nodes'', PDict [(''n1'', PDict [(''myip'', PStr ''10.0.0.1''), (''mymac'', PStr ''52:54:00:00:00:aa''), (''kcluster'', PStr ''c'')]),
        (''n2'', PDict [(''myip'', PStr ''10.0.0.2''), (''mymac'', PStr ''52:54:00:00:00:AB'')])]),
      (''kclusters'', PDict [(''c'', PDict [(''clu_type'', PStr ''rke2''), (''clu_rel'', PStr ''v1''), (''mydomain'', PStr ''lab'')])])]"

definition pf_world :: outside where
  "pf_world = \<lparr>o_formats = \<lparr>json_loads = \<lambda>_. Inl [], yaml_load = \<lambda>_. Inl [], yaml_dump = \<lambda>_. [], environ = \<lambda>_. None\<rparr>,
     o_crypto = \<lparr>argon2 = \<lambda>_ _ _ _ _. [], hkdf = \<lambda>_ _ _. [], aes_enc = \<lambda>_ _ _. [], aes_dec = \<lambda>_ _ _. None, chacha_enc = \<lambda>_ _ _. [],
        chacha_dec = \<lambda>_ _ _. None\<rparr>,
     o_user = \<lparr>env_passphrase = None, can_ask = False, answer = \<lambda>_. []\<rparr>, o_store = [],
     o_ip = \<lparr>w_zone = \<lambda>_. None, w_resolver = \<lambda>_. None, w_addr_out = [], w_ping = \<lambda>_. False, w_digest = \<lambda>_. 0\<rparr>,
     o_file = \<lambda>p. Inl (OSError p), o_resources = \<lambda>_. Inr (8, 32768, 512000), o_reachable = \<lambda>_. False, o_domain = \<lambda>_ _ _. Inr False,
     o_ping = \<lambda>_. False, o_installer = \<lambda>_. None, o_plugin = \<lambda>_. [], o_validate = \<lambda>_. (True, []), o_hv_ssh = \<lambda>_. (True, []),
     o_hv_file = \<lambda>_ _. True, o_hv_images = \<lambda>_. [], o_virtual_size = \<lambda>_ _. None, o_template = \<lambda>_. Some True, o_schema = []\<rparr>"

definition pf_args :: request_args where
  "pf_args = \<lparr>a_defn = pf_lab, a_config = [], a_iso_loc = ''/iso'', a_setup_path = ''/etc/setup'', a_target = None, a_host_checks = False\<rparr>"

lemma pf_runs: "fst (validate_lab_definition pf_world pf_args (start \<lparr>passphrase_cache = [], asked = 0\<rparr>)) = Inr True"
  by code_simp

lemma preflight_passed_witness:
  "\<exists>t nodes. validate_lab_definition pf_world pf_args (start \<lparr>passphrase_cache = [], asked = 0\<rparr>) = (Inr True, t) \<and>
     errors t = [] \<and> or_dict (get pf_lab ''nodes'') = Inr nodes \<and> sorted_wrt (apart nodes) (map fst nodes) \<and> length nodes = 2"
proof -
  obtain t where t: "validate_lab_definition pf_world pf_args (start \<lparr>passphrase_cache = [], asked = 0\<rparr>) = (Inr True, t)"
    using pf_runs by (metis prod.collapse)
  let ?c = "[(''SOURCE_IMAGE'', PStr ''leap.qcow2''), (''VM_MEM'', PInt 4096), (''VM_DSK'', PInt 40), (''VM_CPU'', PInt 2),
        (''config_method'', PStr ''cloud-init'')]"
  let ?n = "[(''n1'', PDict [(''myip'', PStr ''10.0.0.1''), (''mymac'', PStr ''52:54:00:00:00:aa''), (''kcluster'', PStr ''c'')]),
        (''n2'', PDict [(''myip'', PStr ''10.0.0.2''), (''mymac'', PStr ''52:54:00:00:00:AB'')])]"
  let ?k = "[(''c'', PDict [(''clu_type'', PStr ''rke2''), (''clu_rel'', PStr ''v1''), (''mydomain'', PStr ''lab'')])]"
  have d: "a_target pf_args = None" "or_dict (get (a_defn pf_args) ''common'') = Inr ?c"
    "or_dict (get (a_defn pf_args) ''nodes'') = Inr ?n" "or_dict (get (a_defn pf_args) ''kclusters'') = Inr ?k"
    by (simp_all add: pf_args_def pf_lab_def get_def or_dict_def)
  have n: "or_dict (get pf_lab ''nodes'') = Inr ?n" using d(3) by (simp add: pf_args_def)
  note p = preflight_passed [OF t d]
  have "errors t = []" "sorted_wrt (apart ?n) (map fst ?n)" using p by blast+
  moreover have "length ?n = 2" by simp
  ultimately show ?thesis using t n by blast
qed

section \<open>What modelling showed\<close>

text \<open>The schema check leaves a node's install_type to the preflight, which looks at common's alone: a type the schema calls an error
  passes in a node.\<close>

definition bogus_lab :: dict where
  "bogus_lab =
     [(''common'', PDict [(''SOURCE_IMAGE'', PStr ''leap.qcow2''), (''VM_MEM'', PInt 4096), (''VM_DSK'', PInt 40), (''VM_CPU'', PInt 2),
        (''config_method'', PStr ''cloud-init'')]),
      (''nodes'', PDict [(''n1'', PDict [(''myip'', PStr ''10.0.0.1''), (''install_type'', PStr ''bogus'')])])]"

definition bogus_schema :: dict where
  "bogus_schema =
     [(''sections'', PDict [(''nodes'', PDict [(''fields'', PList [PDict [(''name'', PStr ''install_type''), (''required'', PBool False),
        (''type'', PStr ''string''), (''enum'', PList [PStr ''autoyast'', PStr ''kickstart'', PStr ''preseed'', PStr ''autoinstall''])]])])])]"

lemma node_install_type_unchecked:
  "fst (validate_lab_definition (pf_world\<lparr>o_schema := bogus_schema\<rparr>) (pf_args\<lparr>a_defn := bogus_lab\<rparr>)
     (start \<lparr>passphrase_cache = [], asked = 0\<rparr>)) = Inr True"
  "(case definition_findings bogus_lab bogus_schema [] of Inr fs \<Rightarrow> map f_severity fs | Inl _ \<Rightarrow> []) = [''error'']"
  by code_simp+

text \<open>A node's explicit empty config_method means Ignition and Combustion in the check of the node, and common's method in the
  check of the templates: the templates that node needs are not looked for.\<close>

lemma empty_method_checked_as_common:
  "eff_config_method [(''config_method'', PStr [])] [(''config_method'', PStr ''cloud-init'')] = PStr []"
  "template_method [(''config_method'', PStr ''cloud-init'')] (PDict [(''config_method'', PStr [])]) = Inr (PStr ''cloud-init'')"
  by code_simp+

text \<open>With BACKEND set to a cloud in lab_creation.cfg a node needs no address, as a cloud node, and its image is still looked for on
  a KVM host.\<close>

lemma global_backend_half_used:
  "node_backend_eff [(''BACKEND'', PStr ''aws'')] [] [] PNone = PStr ''aws''"
  "fst (uses_libvirt w [(''BACKEND'', PStr ''aws'')] [] [(''n'', PDict [])] ''n'' (start u)) = Inr True"
  by code_simp+

end
