(* ===== verification/Pxe_Service.thy ===== *)
theory Pxe_Service
  imports Lab_Defs Py_Action
begin

text \<open>
  The HTTP and PXE services of \<open>libs/services.py\<close>: the configuration of the dnsmasq container, the
  unit systemd runs it from, the boot files of the nodes, and the services by name.

  The machine is its files by path, whether podman and the container image are there, and the unit and
  configuration the running container was started with. Directories are left out: a file can be written
  wherever the code made its directory. What the build, the download and the start answer is part of
  the machine.
\<close>

section \<open>The configuration of dnsmasq\<close>

definition cfg_or :: "dict \<Rightarrow> string \<Rightarrow> string \<Rightarrow> pval" where
  "cfg_or cfg key dflt = py_or (get cfg key) (PStr dflt)"

text \<open>\<open>f.endswith(".0")\<close> and \<open>m.lower()\<close> of a value.\<close>

definition text_method :: "pval \<Rightarrow> string res" where
  "text_method v = (case v of PStr s \<Rightarrow> Inr s | _ \<Rightarrow> Inl (AttributeError ''str''))"

definition no_colons :: "string \<Rightarrow> string" where
  "no_colons s = filter (\<lambda>c. c \<noteq> CHR '':'') s"

definition HEAD_LINES :: "string \<Rightarrow> string list" where
  "HEAD_LINES bridge = [''port=0'', ''interface='' @ bridge, ''bind-interfaces'', ''enable-tftp'', ''tftp-root=/tftpboot'']"

definition pxelinux_lines :: "bool \<Rightarrow> pval \<Rightarrow> string list res" where
  "pxelinux_lines use_pxe_service boot_filename =
     (if use_pxe_service then
        res_bind (text_method boot_filename) (\<lambda>f.
        Inr [''pxe-service=x86PC,'' @ dq ''network boot'' @ '','' @ (if ends_with f ''.0'' then take (length f - 2) f else f)])
      else Inr [''dhcp-boot='' @ py_str boot_filename])"

text \<open>The two lines of a node that has an address and a script.\<close>

definition script_lines :: "bool \<Rightarrow> string \<Rightarrow> string \<Rightarrow> string \<Rightarrow> string list" where
  "script_lines use_pxe_service name mac url =
     (let tag = ''n'' @ no_colons mac in
      [''dhcp-host='' @ mac @ '',set:'' @ tag,
       if use_pxe_service then ''pxe-service=tag:'' @ tag @ '',tag:ipxe,x86-64_EFI,'' @ dq name @ '','' @ url
       else ''dhcp-boot=tag:'' @ tag @ '',tag:ipxe,'' @ url])"

definition node_lines :: "bool \<Rightarrow> string \<times> pval \<Rightarrow> string list res" where
  "node_lines use_pxe_service = (\<lambda>(name, v).
     res_bind (or_dict v) (\<lambda>node.
     (let mac = get node ''mymac''; url = get node ''pxe_ipxe_url'' in
      if \<not> truthy mac \<or> \<not> truthy url then Inr []
      else res_bind (text_method mac) (\<lambda>m. Inr (script_lines use_pxe_service name (str_lower m) (py_str url))))))"

definition ipxe_lines :: "bool \<Rightarrow> dict \<Rightarrow> string list res" where
  "ipxe_lines use_pxe_service nodes =
     res_bind (res_map (node_lines use_pxe_service) (sort_key fst nodes)) (\<lambda>ls.
     Inr ([''dhcp-userclass=set:ipxe,iPXE'',
           if use_pxe_service then ''pxe-service=tag:!ipxe,x86-64_EFI,'' @ dq ''PXE chainload to iPXE'' @ '',ipxe.efi''
           else ''dhcp-boot=tag:!ipxe,ipxe.efi''] @ concat ls))"

definition bad_pxe_mode :: "pval \<Rightarrow> string" where
  "bad_pxe_mode mode = ''pxe_mode '' @ sq (py_str mode) @ '' is invalid '' @ emdash @ '' must be one of: pxelinux, ipxe-uefi''"

definition boot_lines :: "bool \<Rightarrow> dict \<Rightarrow> dict \<Rightarrow> string list res" where
  "boot_lines use_pxe_service cfg nodes =
     (let mode = cfg_or cfg ''pxe_mode'' ''pxelinux'' in
      if mode = PStr ''pxelinux'' then pxelinux_lines use_pxe_service (cfg_or cfg ''pxe_boot_filename'' ''lpxelinux.0'')
      else if mode = PStr ''ipxe-uefi'' then ipxe_lines use_pxe_service nodes
      else Inl (SystemExit (bad_pxe_mode mode)))"

definition NO_RANGE :: string where
  "NO_RANGE = ''pxe_dhcp_mode is '' @ sq ''full'' @ '' but pxe_dhcp_range_start/pxe_dhcp_range_end are not both set''"

definition NO_SUBNET :: string where
  "NO_SUBNET = ''pxe_dhcp_mode is '' @ sq ''proxy'' @ '' but pxe_dhcp_proxy_subnet is not set '' @ emdash @ '' dnsmasq'' @ QUOTE @
     ''s proxy dhcp-range needs a network address on the target subnet (e.g. '' @ dq ''192.168.88.0'' @ ''), not an interface name''"

definition bad_dhcp_mode :: "pval \<Rightarrow> string" where
  "bad_dhcp_mode mode = ''pxe_dhcp_mode '' @ sq (py_str mode) @ '' is invalid '' @ emdash @ '' must be one of: off, proxy, full''"

definition dhcp_lines :: "dict \<Rightarrow> string list res" where
  "dhcp_lines cfg =
     (let mode = cfg_or cfg ''pxe_dhcp_mode'' ''off'' in
      if mode = PStr ''full'' then
        (let first = get cfg ''pxe_dhcp_range_start''; last_ip = get cfg ''pxe_dhcp_range_end'' in
         if \<not> truthy first \<or> \<not> truthy last_ip then Inl (SystemExit NO_RANGE)
         else Inr [''dhcp-range='' @ py_str first @ '','' @ py_str last_ip @ '','' @ py_str (cfg_or cfg ''pxe_dhcp_lease'' ''12h'')])
      else if mode = PStr ''proxy'' then
        (let subnet = get cfg ''pxe_dhcp_proxy_subnet'' in
         if \<not> truthy subnet then Inl (SystemExit NO_SUBNET) else Inr [''dhcp-range='' @ py_str subnet @ '',proxy''])
      else if mode = PStr ''off'' then Inr []
      else Inl (SystemExit (bad_dhcp_mode mode)))"

definition dnsmasq_lines :: "dict \<Rightarrow> dict \<Rightarrow> string list res" where
  "dnsmasq_lines cfg nodes =
     res_bind (boot_lines (cfg_or cfg ''pxe_dhcp_mode'' ''off'' = PStr ''proxy'') cfg nodes) (\<lambda>boot.
     res_bind (dhcp_lines cfg) (\<lambda>dhcp.
     Inr (HEAD_LINES (py_str (cfg_or cfg ''pxe_bridge'' ''br0'')) @ boot @ dhcp)))"

definition dnsmasq_conf :: "dict \<Rightarrow> dict \<Rightarrow> string res" where
  "dnsmasq_conf cfg nodes = res_bind (dnsmasq_lines cfg nodes) (\<lambda>ls. Inr (join NL ls @ NL))"

section \<open>The service\<close>

record pxe_host =
  ph_files :: "string \<Rightarrow> string option"
  ph_image :: bool
  ph_podman :: bool
  ph_builds :: bool
  ph_ipxe :: "string + string"
  ph_starts :: bool
  ph_running :: "(string option \<times> string option) option"
  ph_apache :: bool
  ph_warned :: "string list"

definition PXE_IMAGE :: string where "PXE_IMAGE = ''lab-pxe-dnsmasq''"
definition PXE_QUADLET_PATH :: string where "PXE_QUADLET_PATH = ''/etc/containers/systemd/lab-pxe.container''"
definition PXE_UNIT_NAME :: string where "PXE_UNIT_NAME = ''lab-pxe.service''"
definition IPXE_EFI_URL :: string where "IPXE_EFI_URL = ''https://boot.ipxe.org/x86_64-efi/ipxe.efi''"

definition pxe_quadlet_unit :: "string \<Rightarrow> string \<Rightarrow> string" where
  "pxe_quadlet_unit tftp_root config_path =
     unlines [''[Container]'', ''Image='' @ PXE_IMAGE, ''ContainerName=lab-pxe'', ''Network=host'', ''AddCapability=NET_ADMIN'',
       ''AddCapability=NET_RAW'', ''Volume='' @ tftp_root @ '':/tftpboot:ro'', ''Volume='' @ config_path @ '':/etc/dnsmasq.conf:ro'', [],
       ''[Service]'', ''Restart=always'', [], ''[Install]'', ''WantedBy=multi-user.target'']"

text \<open>The paths of an instance: a path with a part joined to it has no slash of its own at the end.\<close>

definition under :: "string \<Rightarrow> string \<Rightarrow> string" where
  "under path name = rstrip_ch CHR ''/'' path @ ''/'' @ name"

definition tftp_root :: "string \<Rightarrow> string" where "tftp_root lab_setup_path = under lab_setup_path ''pxe/tftpboot''"
definition config_path :: "string \<Rightarrow> string" where "config_path lab_setup_path = under lab_setup_path ''pxe/dnsmasq.conf''"

definition write_file :: "string \<Rightarrow> string \<Rightarrow> (pxe_host, unit) act" where
  "write_file path content = act_upd (\<lambda>s. s\<lparr>ph_files := (ph_files s)(path := Some content)\<rparr>)"

definition NO_PODMAN :: string where
  "NO_PODMAN = ''podman is required for the PXE service but is not installed''"

definition BUILD_FAILED :: string where
  "BUILD_FAILED = ''podman build failed for the PXE service image''"

text \<open>Starting a program that is not installed raises, before the code asks for it.\<close>

definition run_podman :: "(pxe_host \<Rightarrow> bool \<times> pxe_host) \<Rightarrow> (pxe_host, bool) act" where
  "run_podman step = (\<lambda>s. if \<not> ph_podman s then (Inl (OSError ''podman''), s) else case step s of (ok, s') \<Rightarrow> (Inr ok, s'))"

definition pxe_install :: "(pxe_host, unit) act" where
  "pxe_install =
     act_bind (run_podman (\<lambda>s. (ph_image s, s))) (\<lambda>there.
     if there then act_ret ()
     else act_bind (act_get ph_podman) (\<lambda>p.
       if \<not> p then act_raise (SystemExit NO_PODMAN)
       else act_bind (run_podman (\<lambda>s. (ph_builds s, s\<lparr>ph_image := ph_builds s\<rparr>))) (\<lambda>built.
         if built then act_ret () else act_raise (SystemExit BUILD_FAILED))))"

definition fetch_failed :: "string \<Rightarrow> string" where
  "fetch_failed e = ''failed to fetch ipxe.efi from '' @ IPXE_EFI_URL @ '': '' @ e"

definition fetch_ipxe_efi :: "string \<Rightarrow> (pxe_host, unit) act" where
  "fetch_ipxe_efi lsp =
     (let dest = under (tftp_root lsp) ''ipxe.efi'' in
      act_bind (act_get (\<lambda>s. ph_files s dest)) (\<lambda>old.
      if old \<noteq> None then act_ret ()
      else act_bind (act_get ph_ipxe) (\<lambda>answer. case answer of
        Inr content \<Rightarrow> write_file dest content
      | Inl e \<Rightarrow> act_raise (SystemExit (fetch_failed e)))))"

definition boot_file :: "string \<Rightarrow> string \<Rightarrow> string" where
  "boot_file lsp mac = under (under (tftp_root lsp) ''pxelinux.cfg'') (''01-'' @ map (\<lambda>c. if c = CHR '':'' then CHR ''-'' else c) (str_lower mac))"

definition boot_entry :: "pval \<Rightarrow> pval \<Rightarrow> pval \<Rightarrow> string" where
  "boot_entry kern initrd extra =
     ''DEFAULT pxe'' @ NL @ ''LABEL pxe'' @ NL @ ''  KERNEL '' @ py_str kern @ NL @
     (if truthy initrd then ''  INITRD '' @ py_str initrd @ NL else []) @
     (if truthy extra then ''  APPEND '' @ py_str extra @ NL else [])"

definition no_mac :: "string \<Rightarrow> string" where
  "no_mac node = ''PXE boot entry for '' @ sq node @ '' skipped '' @ emdash @ '' no mymac set''"

definition generate_boot_entry :: "string \<Rightarrow> dict \<Rightarrow> string \<Rightarrow> (pxe_host, unit) act" where
  "generate_boot_entry lsp defn node_name =
     act_bind (act_res (strict_dict (get_dflt defn ''nodes'' (PDict [])))) (\<lambda>nodes.
     act_bind (act_res (or_dict (get nodes node_name))) (\<lambda>node.
     (let kern = get node ''pxe_kernel''; mac = get node ''mymac'' in
      if \<not> truthy kern then act_ret ()
      else if \<not> truthy mac then act_upd (\<lambda>s. s\<lparr>ph_warned := ph_warned s @ [no_mac node_name]\<rparr>)
      else act_bind (act_res (text_method mac)) (\<lambda>m.
        write_file (boot_file lsp m)
          (boot_entry kern (get_dflt node ''pxe_initrd'' (PStr [])) (get_dflt node ''pxe_append'' (PStr [])))))))"

definition pxe_configure :: "string \<Rightarrow> dict \<Rightarrow> (pxe_host, unit) act" where
  "pxe_configure lsp defn =
     act_bind (act_res (or_dict (get defn ''pxe''))) (\<lambda>cfg.
     act_bind (act_res (or_dict (get defn ''nodes''))) (\<lambda>nodes.
     (let mode = cfg_or cfg ''pxe_mode'' ''pxelinux'' in
      act_then (if mode = PStr ''ipxe-uefi'' then fetch_ipxe_efi lsp else act_ret ())
      (act_bind (act_res (dnsmasq_conf cfg nodes)) (\<lambda>conf.
       act_then (write_file (config_path lsp) conf)
       (act_then (write_file PXE_QUADLET_PATH (pxe_quadlet_unit (tftp_root lsp) (config_path lsp)))
       (if mode = PStr ''pxelinux'' then act_for (map fst nodes) (generate_boot_entry lsp defn) else act_ret ())))))))"

definition start_failed :: string where
  "start_failed = ''failed to start '' @ PXE_UNIT_NAME"

text \<open>\<open>daemon-reload\<close> and \<open>restart\<close>: the container runs with the unit and the configuration there are now.\<close>

definition pxe_enable :: "string \<Rightarrow> (pxe_host, unit) act" where
  "pxe_enable lsp =
     act_bind (act_get ph_starts) (\<lambda>ok.
     if ok then act_upd (\<lambda>s. s\<lparr>ph_running := Some (ph_files s PXE_QUADLET_PATH, ph_files s (config_path lsp))\<rparr>)
     else act_then (act_upd (\<lambda>s. s\<lparr>ph_running := None\<rparr>)) (act_raise (SystemExit start_failed)))"

definition pxe_is_active :: "(pxe_host, bool) act" where
  "pxe_is_active = act_get (\<lambda>s. ph_running s \<noteq> None)"

section \<open>The services by name\<close>

text \<open>The HTTP server is set up elsewhere: only \<open>is_active\<close> does something.\<close>

definition http_install :: "(pxe_host, unit) act" where "http_install = act_ret ()"
definition http_configure :: "dict \<Rightarrow> (pxe_host, unit) act" where "http_configure defn = act_ret ()"
definition http_enable :: "(pxe_host, unit) act" where "http_enable = act_ret ()"
definition http_is_active :: "(pxe_host, bool) act" where "http_is_active = act_get ph_apache"

datatype service = DNSService | HTTPService | PXEService | PortForwardService

definition SERVICES :: "(string \<times> service) list" where
  "SERVICES = [(''dns'', DNSService), (''http'', HTTPService), (''pxe'', PXEService), (''portforward'', PortForwardService)]"

definition unknown_service :: "string \<Rightarrow> string" where
  "unknown_service name = ''Unknown service '' @ sq name @ '' '' @ emdash @ '' supported: '' @ join '', '' (sort (map fst SERVICES))"

definition get_service :: "string \<Rightarrow> service res" where
  "get_service name = (case map_of SERVICES name of Some c \<Rightarrow> Inr c | None \<Rightarrow> Inl (SystemExit (unknown_service name)))"

section \<open>What is served\<close>

text \<open>The boot file of a node: None without a kernel or an address.\<close>

definition boot_of :: "string \<Rightarrow> dict \<Rightarrow> (string \<times> string) option" where
  "boot_of lsp node =
     (case get node ''mymac'' of
        PStr m \<Rightarrow>
          if truthy (get node ''pxe_kernel'') \<and> m \<noteq> [] then
            Some (boot_file lsp m, boot_entry (get node ''pxe_kernel'') (get_dflt node ''pxe_initrd'' (PStr [])) (get_dflt node ''pxe_append'' (PStr [])))
          else None
      | _ \<Rightarrow> None)"

definition boots :: "string \<Rightarrow> dict \<Rightarrow> (string \<times> string) list" where
  "boots lsp nodes = List.map_filter (\<lambda>(n, v). case or_dict v of Inr node \<Rightarrow> boot_of lsp node | Inl _ \<Rightarrow> None) nodes"

lemma rstrip_keeps: "c \<noteq> d \<Longrightarrow> rstrip_ch c (s @ [d]) = s @ [d]"
  by (simp add: rstrip_ch_def)

lemma tftp_root_eq: "tftp_root lsp = rstrip_ch CHR ''/'' lsp @ ''/pxe/tftpboot''"
  by (simp add: tftp_root_def under_def)

lemma boot_file_eq:
  "boot_file lsp m = rstrip_ch CHR ''/'' lsp @ ''/pxe/tftpboot/pxelinux.cfg/01-'' @ map (\<lambda>c. if c = CHR '':'' then CHR ''-'' else c) (str_lower m)"
  using rstrip_keeps [of "CHR ''/''" "CHR ''t''" "rstrip_ch CHR ''/'' lsp @ ''/pxe/tftpboo''"]
    rstrip_keeps [of "CHR ''/''" "CHR ''g''" "rstrip_ch CHR ''/'' lsp @ ''/pxe/tftpboot/pxelinux.cf''"]
  by (simp add: boot_file_def under_def tftp_root_eq)

lemma ipxe_path_eq: "under (tftp_root lsp) ''ipxe.efi'' = rstrip_ch CHR ''/'' lsp @ ''/pxe/tftpboot/ipxe.efi''"
  using rstrip_keeps [of "CHR ''/''" "CHR ''t''" "rstrip_ch CHR ''/'' lsp @ ''/pxe/tftpboo''"] by (simp add: under_def tftp_root_eq)

lemma config_path_eq: "config_path lsp = rstrip_ch CHR ''/'' lsp @ ''/pxe/dnsmasq.conf''"
  by (simp add: config_path_def under_def)

lemma pxe_paths_differ:
  "boot_file lsp m \<noteq> config_path lsp" "boot_file lsp m \<noteq> PXE_QUADLET_PATH" "config_path lsp \<noteq> PXE_QUADLET_PATH"
  "under (tftp_root lsp) ''ipxe.efi'' \<noteq> config_path lsp"
proof -
  have q: "CHR ''f'' \<notin> set PXE_QUADLET_PATH" by (simp add: PXE_QUADLET_PATH_def)
  have "CHR ''f'' \<in> set (boot_file lsp m)" "CHR ''f'' \<in> set (config_path lsp)" by (simp_all add: boot_file_eq config_path_eq)
  then show "boot_file lsp m \<noteq> PXE_QUADLET_PATH" "config_path lsp \<noteq> PXE_QUADLET_PATH" using q by metis+
  show "boot_file lsp m \<noteq> config_path lsp" "under (tftp_root lsp) ''ipxe.efi'' \<noteq> config_path lsp"
    by (simp_all add: boot_file_eq config_path_eq ipxe_path_eq)
qed

lemma generate_run:
  assumes "generate_boot_entry lsp defn n s = (Inr (), t)" and "or_dict (get defn ''nodes'') = Inr nodes" and "or_dict (get nodes n) = Inr node"
  shows "ph_files t = (case boot_of lsp node of Some (p, e) \<Rightarrow> (ph_files s)(p := Some e) | None \<Rightarrow> ph_files s) \<and>
    ph_starts t = ph_starts s"
proof -
  obtain ns where ns: "strict_dict (get_dflt defn ''nodes'' (PDict [])) = Inr ns"
    using assms(1) by (auto simp: generate_boot_entry_def act_bind_eq_Inr act_res_app)
  then have "get_dflt defn ''nodes'' (PDict []) = PDict ns" by (simp add: strict_dict_def split: pval.splits)
  then have "ns = nodes" using assms(2) by (auto simp: get_dflt_def get_def or_dict_def split: option.splits if_splits)
  then show ?thesis using assms(1,3) ns
    by (cases "get node ''mymac''")
      (auto simp: generate_boot_entry_def act_simps Let_def boot_of_def text_method_def write_file_def split: if_splits)
qed

text \<open>Of the entries for one path the last one is there afterwards.\<close>

definition put_file :: "string \<times> string \<Rightarrow> (string \<Rightarrow> string option) \<Rightarrow> string \<Rightarrow> string option" where
  "put_file pe f = f(fst pe := Some (snd pe))"

lemma fold_put_other: "p \<notin> fst ` set ps \<Longrightarrow> fold put_file ps f p = f p"
  by (induction ps arbitrary: f) (auto simp: put_file_def)

lemma fold_put_last: "p \<notin> fst ` set qs \<Longrightarrow> fold put_file (ps @ (p, e) # qs) f p = Some e"
  by (simp add: fold_put_other) (simp add: put_file_def)

lemma boots_Nil: "boots lsp [] = []"
  by (simp add: boots_def List.map_filter_def)

lemma boots_Cons:
  "boots lsp ((n, v) # ns) = (case or_dict v of Inl _ \<Rightarrow> [] | Inr node \<Rightarrow> (case boot_of lsp node of None \<Rightarrow> [] | Some b \<Rightarrow> [b])) @ boots lsp ns"
  by (auto simp: boots_def List.map_filter_def split: sum.splits option.splits)

lemma generate_all:
  assumes "act_for (map fst ns) (generate_boot_entry lsp defn) s = (Inr (), t)" and "or_dict (get defn ''nodes'') = Inr nodes"
    and "\<And>n v. (n, v) \<in> set ns \<Longrightarrow> get nodes n = v \<and> (\<exists>node. or_dict v = Inr node)"
  shows "ph_files t = fold put_file (boots lsp ns) (ph_files s) \<and> ph_starts t = ph_starts s"
  using assms(1,3)
proof (induction ns arbitrary: s)
  case Nil
  then show ?case by (simp add: act_simps boots_Nil)
next
  case (Cons nv ns)
  obtain n v where nv: "nv = (n, v)" by (cases nv)
  obtain node where node: "get nodes n = v" "or_dict v = Inr node" using Cons.prems(2) [of n v] nv by force
  obtain u where u: "generate_boot_entry lsp defn n s = (Inr (), u)" "act_for (map fst ns) (generate_boot_entry lsp defn) u = (Inr (), t)"
    using Cons.prems(1) by (auto simp: nv act_then_eq_Inr)
  have "ph_files u = (case boot_of lsp node of Some b \<Rightarrow> put_file b (ph_files s) | None \<Rightarrow> ph_files s)" "ph_starts u = ph_starts s"
    using generate_run [OF u(1) assms(2)] node by (auto simp: put_file_def split: option.splits)
  moreover have "ph_files t = fold put_file (boots lsp ns) (ph_files u) \<and> ph_starts t = ph_starts u"
    by (rule Cons.IH [OF u(2)]) (use Cons.prems(2) in auto)
  ultimately show ?case by (auto simp: nv boots_Cons node split: option.splits)
qed

lemma generate_reads:
  assumes "act_for ns (generate_boot_entry lsp defn) s = (Inr (), t)" and "or_dict (get defn ''nodes'') = Inr nodes" and "n \<in> set ns"
  shows "\<exists>node. or_dict (get nodes n) = Inr node"
  using assms(1,3)
proof (induction ns arbitrary: s)
  case (Cons m ns)
  obtain u where u: "generate_boot_entry lsp defn m s = (Inr (), u)" "act_for ns (generate_boot_entry lsp defn) u = (Inr (), t)"
    using Cons.prems(1) by (auto simp: act_then_eq_Inr)
  show ?case
  proof (cases "n = m")
    case True
    obtain ms node where m: "strict_dict (get_dflt defn ''nodes'' (PDict [])) = Inr ms" "or_dict (get ms m) = Inr node"
      using u(1) by (auto simp: generate_boot_entry_def act_bind_eq_Inr act_res_app)
    then have "get_dflt defn ''nodes'' (PDict []) = PDict ms" by (simp add: strict_dict_def split: pval.splits)
    then have "ms = nodes" using assms(2) by (auto simp: get_dflt_def get_def or_dict_def split: option.splits if_splits)
    then show ?thesis using m(2) True by blast
  next
    case False
    then show ?thesis using Cons.IH [OF u(2)] Cons.prems(2) by simp
  qed
qed simp

lemma get_own: "distinct (map fst nodes) \<Longrightarrow> (n, v) \<in> set nodes \<Longrightarrow> get nodes n = v"
  by (simp add: get_def)

lemma boot_of_path: "boot_of lsp node = Some (p, e) \<Longrightarrow> \<exists>m. p = boot_file lsp m"
  by (cases "get node ''mymac''") (auto simp: boot_of_def split: if_splits)

lemma boots_paths: "(p, e) \<in> set (boots lsp ns) \<Longrightarrow> \<exists>m. p = boot_file lsp m"
  by (induction ns) (auto simp: boots_Nil boots_Cons dest: boot_of_path boot_of_path [OF sym] split: sum.splits option.splits)

lemma boots_append: "boots lsp (ms @ ns) = boots lsp ms @ boots lsp ns"
  by (induction ms) (auto simp: boots_Nil boots_Cons)

lemma ipxe_fetched:
  assumes "fetch_ipxe_efi lsp s = (Inr (), t)"
  shows "(\<forall>p. p \<noteq> under (tftp_root lsp) ''ipxe.efi'' \<longrightarrow> ph_files t p = ph_files s p) \<and> ph_files t (under (tftp_root lsp) ''ipxe.efi'') \<noteq> None"
  using assms by (auto simp: fetch_ipxe_efi_def Let_def act_simps write_file_def split: if_splits sum.splits)

lemma pxe_configured:
  assumes "pxe_configure lsp defn s = (Inr (), t)" and "or_dict (get defn ''pxe'') = Inr cfg" and "or_dict (get defn ''nodes'') = Inr nodes"
    and "distinct (map fst nodes)"
  shows "\<exists>conf u. dnsmasq_conf cfg nodes = Inr conf \<and>
    ph_files t = fold put_file (if cfg_or cfg ''pxe_mode'' ''pxelinux'' = PStr ''pxelinux'' then boots lsp nodes else [])
      ((ph_files u)(config_path lsp := Some conf, PXE_QUADLET_PATH := Some (pxe_quadlet_unit (tftp_root lsp) (config_path lsp)))) \<and>
    (if cfg_or cfg ''pxe_mode'' ''pxelinux'' = PStr ''ipxe-uefi'' then fetch_ipxe_efi lsp else act_ret ()) s = (Inr (), u)"
proof -
  let ?mode = "cfg_or cfg ''pxe_mode'' ''pxelinux''"
  let ?q = "pxe_quadlet_unit (tftp_root lsp) (config_path lsp)"
  obtain u conf v where u: "(if ?mode = PStr ''ipxe-uefi'' then fetch_ipxe_efi lsp else act_ret ()) s = (Inr (), u)"
    and conf: "dnsmasq_conf cfg nodes = Inr conf"
    and v: "v = u\<lparr>ph_files := (ph_files u)(config_path lsp := Some conf, PXE_QUADLET_PATH := Some ?q)\<rparr>"
    and t: "(if ?mode = PStr ''pxelinux'' then act_for (map fst nodes) (generate_boot_entry lsp defn) else act_ret ()) v = (Inr (), t)"
    using assms(1-3) unfolding pxe_configure_def Let_def
    by (auto simp: act_bind_eq_Inr act_then_eq_Inr act_res_app write_file_def act_upd_app)
  have "ph_files t = fold put_file (if ?mode = PStr ''pxelinux'' then boots lsp nodes else []) (ph_files v)"
  proof (cases "?mode = PStr ''pxelinux''")
    case True
    then have a: "act_for (map fst nodes) (generate_boot_entry lsp defn) v = (Inr (), t)" using t by simp
    have "get nodes n = w \<and> (\<exists>node. or_dict w = Inr node)" if "(n, w) \<in> set nodes" for n w
    proof -
      have "n \<in> set (map fst nodes)" using that by force
      then show ?thesis using get_own [OF assms(4) that] generate_reads [OF a assms(3)] by metis
    qed
    from generate_all [OF a assms(3) this] show ?thesis by (simp add: True)
  next
    case False
    then show ?thesis using t by (simp add: act_simps)
  qed
  then show ?thesis using u conf by (auto simp: v)
qed

text \<open>A configuration is written in one of the two modes only.\<close>

lemma conf_mode:
  "dnsmasq_conf cfg nodes = Inr conf \<Longrightarrow> cfg_or cfg ''pxe_mode'' ''pxelinux'' \<noteq> PStr ''pxelinux'' \<Longrightarrow>
   cfg_or cfg ''pxe_mode'' ''pxelinux'' = PStr ''ipxe-uefi''"
  by (auto simp: dnsmasq_conf_def dnsmasq_lines_def boot_lines_def Let_def res_bind_eq_Inr split: if_splits)

text \<open>C26 Once the PXE service of a lab was configured and enabled, in either of its modes, the container runs with the unit and the
  configuration of the lab. In pxelinux mode a node with a kernel and an address has its entry in the boot file of its address,
  unless a later node of the lab has the same boot file, whose entry is there instead; in ipxe-uefi mode no boot file is written, and
  iPXE's firmware is there. No other file changed.\<close>

theorem pxe_serves_lab:
  assumes "pxe_configure lsp defn s = (Inr (), t)" and "pxe_enable lsp t = (Inr (), u)"
    and "or_dict (get defn ''pxe'') = Inr cfg" and "or_dict (get defn ''nodes'') = Inr nodes" and "distinct (map fst nodes)"
  shows "\<exists>conf. dnsmasq_conf cfg nodes = Inr conf \<and>
    ph_running u = Some (Some (pxe_quadlet_unit (tftp_root lsp) (config_path lsp)), Some conf) \<and>
    (if cfg_or cfg ''pxe_mode'' ''pxelinux'' = PStr ''pxelinux'' then
       (\<forall>before n v after node mac. nodes = before @ (n, v) # after \<longrightarrow> or_dict v = Inr node \<longrightarrow> get node ''mymac'' = PStr mac \<longrightarrow> mac \<noteq> [] \<longrightarrow>
          truthy (get node ''pxe_kernel'') \<longrightarrow> boot_file lsp mac \<notin> fst ` set (boots lsp after) \<longrightarrow>
          ph_files u (boot_file lsp mac) =
            Some (boot_entry (get node ''pxe_kernel'') (get_dflt node ''pxe_initrd'' (PStr [])) (get_dflt node ''pxe_append'' (PStr [])))) \<and>
       (\<forall>p. p \<notin> {config_path lsp, PXE_QUADLET_PATH} \<union> fst ` set (boots lsp nodes) \<longrightarrow> ph_files u p = ph_files s p)
     else ph_files u (under (tftp_root lsp) ''ipxe.efi'') \<noteq> None \<and>
       (\<forall>p. p \<notin> {config_path lsp, PXE_QUADLET_PATH, under (tftp_root lsp) ''ipxe.efi''} \<longrightarrow> ph_files u p = ph_files s p))"
proof -
  let ?q = "pxe_quadlet_unit (tftp_root lsp) (config_path lsp)"
  let ?efi = "under (tftp_root lsp) ''ipxe.efi''"
  have u: "ph_files u = ph_files t" "ph_running u = Some (ph_files t PXE_QUADLET_PATH, ph_files t (config_path lsp))"
    using assms(2) by (auto simp: pxe_enable_def act_simps split: if_splits)
  from pxe_configured [OF assms(1,3-5)] obtain conf v where conf: "dnsmasq_conf cfg nodes = Inr conf"
    and t: "ph_files t = fold put_file (if cfg_or cfg ''pxe_mode'' ''pxelinux'' = PStr ''pxelinux'' then boots lsp nodes else [])
      ((ph_files v)(config_path lsp := Some conf, PXE_QUADLET_PATH := Some ?q))"
    and v: "(if cfg_or cfg ''pxe_mode'' ''pxelinux'' = PStr ''ipxe-uefi'' then fetch_ipxe_efi lsp else act_ret ()) s = (Inr (), v)" by blast
  show ?thesis
  proof (cases "cfg_or cfg ''pxe_mode'' ''pxelinux'' = PStr ''pxelinux''")
    case True
    then have vs: "v = s" using v by (simp add: act_simps)
    have t: "ph_files t = fold put_file (boots lsp nodes) ((ph_files s)(config_path lsp := Some conf, PXE_QUADLET_PATH := Some ?q))"
      using t by (simp add: True vs)
    have no: "p \<notin> fst ` set (boots lsp nodes)" if "p = config_path lsp \<or> p = PXE_QUADLET_PATH" for p
      using that pxe_paths_differ [of lsp] by (auto dest!: boots_paths)
    have "ph_files t (config_path lsp) = Some conf" "ph_files t PXE_QUADLET_PATH = Some ?q"
      using no pxe_paths_differ(3) by (simp_all add: t fold_put_other)
    moreover have "ph_files t (boot_file lsp mac) =
        Some (boot_entry (get node ''pxe_kernel'') (get_dflt node ''pxe_initrd'' (PStr [])) (get_dflt node ''pxe_append'' (PStr [])))"
      if "nodes = before @ (n, v) # after" "or_dict v = Inr node" "get node ''mymac'' = PStr mac" "mac \<noteq> []" "truthy (get node ''pxe_kernel'')"
        "boot_file lsp mac \<notin> fst ` set (boots lsp after)" for before n v after node mac
      using that fold_put_last by (simp add: t boots_append boots_Cons boot_of_def)
    moreover have "ph_files t p = ph_files s p" if "p \<notin> {config_path lsp, PXE_QUADLET_PATH} \<union> fst ` set (boots lsp nodes)" for p
      using that by (simp add: t fold_put_other)
    ultimately show ?thesis using conf unfolding u True by (simp del: Un_insert_left Un_iff insert_iff)
  next
    case False
    have "fetch_ipxe_efi lsp s = (Inr (), v)" using v by (simp add: conf_mode [OF conf False])
    note f = ipxe_fetched [OF this]
    have t: "ph_files t = (ph_files v)(config_path lsp := Some conf, PXE_QUADLET_PATH := Some ?q)" using t by (simp add: False)
    have "ph_files t (config_path lsp) = Some conf" "ph_files t PXE_QUADLET_PATH = Some ?q" using pxe_paths_differ(3) by (simp_all add: t)
    moreover have "ph_files t ?efi \<noteq> None" using f by (simp add: t)
    moreover have "ph_files t p = ph_files s p" if "p \<notin> {config_path lsp, PXE_QUADLET_PATH, ?efi}" for p using that f by (simp add: t)
    ultimately show ?thesis using conf False unfolding u by (simp del: insert_iff)
  qed
qed

definition pxe_node :: dict where
  "pxe_node = [(''mymac'', PStr ''52:54:00:AA:00:01''), (''pxe_kernel'', PStr ''linux''), (''pxe_append'', PStr ''quiet'')]"

definition pxe_nodes :: dict where
  "pxe_nodes = [(''n1'', PDict pxe_node), (''n2'', PDict [])]"

definition pxe_lab :: dict where
  "pxe_lab =
     [(''pxe'', PDict [(''pxe_dhcp_mode'', PStr ''proxy''), (''pxe_dhcp_proxy_subnet'', PStr ''10.0.0.0'')]), (''nodes'', PDict pxe_nodes)]"

definition pxe_sample :: pxe_host where
  "pxe_sample = \<lparr>ph_files = (\<lambda>_. None), ph_image = True, ph_podman = True, ph_builds = True, ph_ipxe = Inr ''x'', ph_starts = True,
     ph_running = None, ph_apache = True, ph_warned = []\<rparr>"

lemma pxe_serves_lab_witness:
  "\<exists>t u. pxe_configure ''/srv/lab/'' pxe_lab pxe_sample = (Inr (), t) \<and> pxe_enable ''/srv/lab/'' t = (Inr (), u) \<and>
     ph_files u (boot_file ''/srv/lab/'' ''52:54:00:AA:00:01'') = Some (boot_entry (PStr ''linux'') (PStr []) (PStr ''quiet''))"
proof -
  have "fst (pxe_configure ''/srv/lab/'' pxe_lab pxe_sample) = Inr ()" by code_simp
  then obtain t where t: "pxe_configure ''/srv/lab/'' pxe_lab pxe_sample = (Inr (), t)" by (metis prod.collapse)
  have "ph_starts (snd (pxe_configure ''/srv/lab/'' pxe_lab pxe_sample)) = True" by code_simp
  then obtain u where u: "pxe_enable ''/srv/lab/'' t = (Inr (), u)" by (simp add: t pxe_enable_def act_simps)
  let ?cfg = "[(''pxe_dhcp_mode'', PStr ''proxy''), (''pxe_dhcp_proxy_subnet'', PStr ''10.0.0.0'')]"
  let ?mac = "''52:54:00:AA:00:01''"
  have d: "or_dict (get pxe_lab ''pxe'') = Inr ?cfg" "or_dict (get pxe_lab ''nodes'') = Inr pxe_nodes" "distinct (map fst pxe_nodes)"
    by code_simp+
  have m: "cfg_or ?cfg ''pxe_mode'' ''pxelinux'' = PStr ''pxelinux''" by code_simp
  have at: "pxe_nodes = [] @ (''n1'', PDict pxe_node) # [(''n2'', PDict [])]" by (simp add: pxe_nodes_def)
  have n: "or_dict (PDict pxe_node) = Inr pxe_node" "get pxe_node ''mymac'' = PStr ?mac" "?mac \<noteq> []" "truthy (get pxe_node ''pxe_kernel'')"
    "boot_file ''/srv/lab/'' ?mac \<notin> fst ` set (boots ''/srv/lab/'' [(''n2'', PDict [])])"
    by code_simp+
  have g: "get pxe_node ''pxe_kernel'' = PStr ''linux''" "get_dflt pxe_node ''pxe_initrd'' (PStr []) = PStr []"
    "get_dflt pxe_node ''pxe_append'' (PStr []) = PStr ''quiet''"
    by code_simp+
  have "ph_files u (boot_file ''/srv/lab/'' ?mac) =
      Some (boot_entry (get pxe_node ''pxe_kernel'') (get_dflt pxe_node ''pxe_initrd'' (PStr [])) (get_dflt pxe_node ''pxe_append'' (PStr [])))"
    using pxe_serves_lab [OF t u d] n at unfolding m simp_thms if_True by (elim exE conjE) blast
  then have "ph_files u (boot_file ''/srv/lab/'' ?mac) = Some (boot_entry (PStr ''linux'') (PStr []) (PStr ''quiet''))" unfolding g .
  then show ?thesis using t u by blast
qed

section \<open>What modelling showed\<close>

text \<open>Without podman \<open>install\<close> ends in the error of starting it, not in the message the code has for that case.\<close>

lemma podman_check_too_late: "\<not> ph_podman s \<Longrightarrow> pxe_install s = (Inl (OSError ''podman''), s)"
  by (simp add: pxe_install_def run_podman_def act_simps)

text \<open>A node that no longer boots from the network keeps its boot file: it is never removed.\<close>

lemma boot_file_stays:
  "ph_files (snd (generate_boot_entry lsp [(''nodes'', PDict [(''n'', PDict [(''mymac'', PStr m)])])] ''n'' s)) = ph_files s"
  by (simp add: generate_boot_entry_def act_simps Let_def get_dflt_def get_def strict_dict_def or_dict_def)

end
