(* ===== verification/Virt_Customize.thy ===== *)
theory Virt_Customize
  imports Lab_Defs Crypto_Store
begin

text \<open>
  The script \<open>prepare_virt_customize\<close> of \<open>libs/lab_creation.py\<close> sends to the hypervisor: what it finds out
  about a guest's network from the image, and the virt-customize call it makes of that.

  The image is what \<open>virt-ls\<close> lists of its directories and what \<open>virt-cat\<close> prints of its files, None where they
  fail. A plan is the temporary files and the arguments of virt-customize, in order; an upload names the
  temporary file, whose text is the one it has when virt-customize is run.
\<close>

section \<open>The image and the plan\<close>

record guest =
  gi_dir :: "string \<Rightarrow> string list option"
  gi_file :: "string \<Rightarrow> string option"

record vc_values =
  vc_vmname :: string
  vc_ip :: string
  vc_prefix :: string
  vc_gw :: string
  vc_dns :: string
  vc_domain :: string
  vc_mac :: string
  vc_plain :: bool
  vc_pass_b64 :: string
  vc_pk_b64 :: string

datatype vc_arg =
    Hostname string
  | Upload string string
  | Run_Command string
  | Chmod string string
  | Ssh_Inject string
  | Selinux_Relabel

type_synonym plan = "(string \<times> string) list \<times> vc_arg list"

definition vls :: "guest \<Rightarrow> string \<Rightarrow> string list" where
  "vls g path = (case gi_dir g path of Some fs \<Rightarrow> fs | None \<Rightarrow> [])"

definition vcat :: "guest \<Rightarrow> string \<Rightarrow> string" where
  "vcat g path = (case gi_file g path of Some t \<Rightarrow> t | None \<Rightarrow> [])"

definition virt_exists :: "guest \<Rightarrow> string \<Rightarrow> bool" where
  "virt_exists g path = (gi_file g path \<noteq> None)"

definition strip_ch :: "char \<Rightarrow> string \<Rightarrow> string" where
  "strip_ch c s = rstrip_ch c (dropWhile (\<lambda>x. x = c) s)"

section \<open>What configures the network\<close>

definition yaml_files :: "guest \<Rightarrow> string list" where
  "yaml_files g = filter (\<lambda>f. ends_with f ''.yaml'' \<or> ends_with f ''.yml'') (vls g ''/etc/netplan'')"

definition ifcfg_files :: "guest \<Rightarrow> string \<Rightarrow> string list" where
  "ifcfg_files g path = filter (\<lambda>f. starts_with f ''ifcfg-'' \<and> f \<noteq> ''ifcfg-lo'') (vls g path)"

definition wicked_enabled :: "guest \<Rightarrow> bool" where
  "wicked_enabled g =
     list_ex (\<lambda>f. contains ''wicked'' (str_lower f))
       (vls g ''/etc/systemd/system/network.target.wants'' @ vls g ''/etc/systemd/system/multi-user.target.wants'')"

definition detect_net :: "guest \<Rightarrow> string" where
  "detect_net g =
     (if yaml_files g \<noteq> [] \<and> (virt_exists g ''/usr/sbin/netplan'' \<or> virt_exists g ''/usr/bin/netplan'') then ''netplan''
      else if ifcfg_files g ''/etc/sysconfig/network-scripts'' \<noteq> [] then ''network-scripts''
      else if virt_exists g ''/usr/sbin/wicked'' \<and> wicked_enabled g then ''wicked''
      else if gi_dir g ''/etc/NetworkManager'' \<noteq> None then
        (if virt_exists g ''/usr/bin/cloud-init'' \<or> virt_exists g ''/usr/sbin/cloud-init'' then ''cloud-init'' else ''nm-keyfile'')
      else if virt_exists g ''/usr/sbin/wicked'' then ''wicked''
      else if ''interfaces'' \<in> set (vls g ''/etc/network'') then ''ifupdown''
      else if list_ex (\<lambda>f. ends_with f ''.network'') (vls g ''/etc/systemd/network'') then ''systemd-networkd''
      else ''unknown'')"

text \<open>\<open>part.split("=", 1)[1]\<close> of a text that has one.\<close>

definition after_eq :: "string \<Rightarrow> string" where
  "after_eq s = drop 1 (dropWhile (\<lambda>c. c \<noteq> CHR ''='') s)"

definition udev_name :: "string \<Rightarrow> string \<Rightarrow> string option" where
  "udev_name ml line =
     (if contains ml (str_lower line) \<and> contains ''NAME='' line then
        map_option (\<lambda>p. strip_ch (CHR 0x27) (strip_ch (CHR 0x22) (str_strip (after_eq p))))
          (find (\<lambda>p. starts_with p ''NAME='') (map str_strip (split_ch CHR '','' line)))
      else None)"

definition first_some :: "('a \<Rightarrow> 'b option) \<Rightarrow> 'a list \<Rightarrow> 'b option" where
  "first_some f xs = (case List.map_filter f xs of [] \<Rightarrow> None | x # _ \<Rightarrow> Some x)"

definition iface_from_udev :: "guest \<Rightarrow> string \<Rightarrow> string option" where
  "iface_from_udev g mac =
     (let ml = str_lower mac in
      if ml = [] then None
      else first_some (\<lambda>rdir. first_some (\<lambda>rf. first_some (udev_name ml) (splitlines (vcat g (rdir @ ''/'' @ rf))))
             (filter (\<lambda>rf. ends_with rf ''.rules'') (vls g rdir)))
             [''/etc/udev/rules.d'', ''/lib/udev/rules.d'', ''/usr/lib/udev/rules.d''])"

definition udev_or_eth0 :: "guest \<Rightarrow> string \<Rightarrow> string" where
  "udev_or_eth0 g mac = (case iface_from_udev g mac of Some n \<Rightarrow> if n = [] then ''eth0'' else n | None \<Rightarrow> ''eth0'')"

definition ifcfg_iface :: "guest \<Rightarrow> string \<Rightarrow> (string \<Rightarrow> bool) \<Rightarrow> string \<Rightarrow> string" where
  "ifcfg_iface g path mine mac =
     (let fs = ifcfg_files g path in
      case (if mac = [] then None else find (\<lambda>f. mine (vcat g (path @ ''/'' @ f))) fs) of
        Some f \<Rightarrow> drop 6 f
      | None \<Rightarrow> (case fs of f # _ \<Rightarrow> drop 6 f | [] \<Rightarrow> udev_or_eth0 g mac))"

definition nm_iface :: "guest \<Rightarrow> string" where
  "nm_iface g =
     (case filter (\<lambda>f. \<not> starts_with f ''.'') (vls g ''/etc/NetworkManager/system-connections'') of
        [] \<Rightarrow> ''eth0''
      | c # _ \<Rightarrow> if ends_with c ''.nmconnection'' then take (length c - 13) c else c)"

definition ifupdown_name :: "string \<Rightarrow> string option" where
  "ifupdown_name line = (case words line of w # n # _ \<Rightarrow> if w = ''iface'' \<and> n \<noteq> ''lo'' then Some n else None | _ \<Rightarrow> None)"

definition or_eth0 :: "string option \<Rightarrow> string" where
  "or_eth0 n = (case n of Some s \<Rightarrow> s | None \<Rightarrow> ''eth0'')"

definition networkd_iface :: "guest \<Rightarrow> string" where
  "networkd_iface g =
     (case filter (\<lambda>f. ends_with f ''.network'') (vls g ''/etc/systemd/network'') of
        [] \<Rightarrow> ''eth0''
      | n # _ \<Rightarrow> or_eth0 (first_some (\<lambda>ln. if starts_with ln ''Name='' then Some (str_strip (after_eq ln)) else None)
                          (splitlines (vcat g (''/etc/systemd/network/'' @ n)))))"

fun netplan_name :: "bool \<Rightarrow> string list \<Rightarrow> string option" where
  "netplan_name in_e [] = None"
| "netplan_name in_e (ln # lns) =
     (if contains ''ethernets:'' ln then netplan_name True lns
      else if in_e \<and> starts_with ln ''    '' \<and> \<not> starts_with ln ''     '' then Some (rstrip_ch CHR '':'' (str_strip ln))
      else netplan_name in_e lns)"

definition netplan_iface :: "guest \<Rightarrow> string" where
  "netplan_iface g =
     (case yaml_files g of [] \<Rightarrow> ''eth0'' | y # _ \<Rightarrow> or_eth0 (netplan_name False (splitlines (vcat g (''/etc/netplan/'' @ y)))))"

definition detect_iface :: "guest \<Rightarrow> string \<Rightarrow> string \<Rightarrow> string" where
  "detect_iface g mac nt =
     (if nt = ''wicked'' then
        ifcfg_iface g ''/etc/sysconfig/network'' (\<lambda>c. contains ''LLADDR'' (str_upper c) \<and> contains (str_lower mac) (str_lower c)) mac
      else if nt = ''network-scripts'' then
        ifcfg_iface g ''/etc/sysconfig/network-scripts'' (\<lambda>c. contains ''HWADDR'' (str_upper c) \<and> contains (str_upper mac) (str_upper c)) mac
      else if nt = ''nm-keyfile'' \<or> nt = ''cloud-init'' then nm_iface g
      else if nt = ''ifupdown'' then or_eth0 (first_some ifupdown_name (splitlines (vcat g ''/etc/network/interfaces'')))
      else if nt = ''systemd-networkd'' then networkd_iface g
      else if nt = ''netplan'' then netplan_iface g
      else ''eth0'')"

section \<open>The network configuration\<close>

definition opt :: "string \<Rightarrow> string \<Rightarrow> string list" where
  "opt v line = (if v = [] then [] else [line])"

definition cidr :: "vc_values \<Rightarrow> string" where
  "cidr v = vc_ip v @ ''/'' @ vc_prefix v"

definition wicked_lines :: "vc_values \<Rightarrow> string list" where
  "wicked_lines v =
     [''STARTMODE='' @ sq ''auto'', ''BOOTPROTO='' @ sq ''static'', ''IPADDR='' @ sq (cidr v)] @
     opt (vc_mac v) (''LLADDR='' @ sq (vc_mac v)) @ opt (vc_domain v) (''DOMAIN='' @ sq (vc_domain v))"

definition scripts_lines :: "vc_values \<Rightarrow> string \<Rightarrow> string list" where
  "scripts_lines v iface =
     [''DEVICE='' @ iface, ''TYPE=Ethernet'', ''BOOTPROTO=none'', ''ONBOOT=yes''] @ opt (vc_mac v) (''HWADDR='' @ vc_mac v) @
     [''IPADDR='' @ vc_ip v, ''PREFIX='' @ vc_prefix v] @ opt (vc_gw v) (''GATEWAY='' @ vc_gw v) @
     opt (vc_dns v) (''DNS1='' @ vc_dns v) @ opt (vc_domain v) (''DOMAIN='' @ vc_domain v)"

definition keyfile_lines :: "vc_values \<Rightarrow> string list" where
  "keyfile_lines v =
     [''[connection]'', ''id=lab-static'', ''type=ethernet'', ''autoconnect=true'', [], ''[ethernet]''] @
     opt (vc_mac v) (''mac-address='' @ vc_mac v) @ [[], ''[ipv4]'', ''method=manual'', ''addresses='' @ cidr v] @
     opt (vc_gw v) (''gateway='' @ vc_gw v) @ opt (vc_dns v) (''dns='' @ vc_dns v @ '';'') @
     opt (vc_domain v) (''dns-search='' @ vc_domain v @ '';'') @ [[], ''[ipv6]'', ''method=disabled'', []]"

definition ifupdown_lines :: "vc_values \<Rightarrow> string \<Rightarrow> string list" where
  "ifupdown_lines v iface =
     [''auto lo'', ''iface lo inet loopback'', [], ''auto '' @ iface, ''iface '' @ iface @ '' inet static'', ''    address '' @ cidr v] @
     opt (vc_gw v) (''    gateway '' @ vc_gw v) @ opt (vc_dns v) (''    dns-nameservers '' @ vc_dns v) @
     opt (vc_domain v) (''    dns-search '' @ vc_domain v)"

definition networkd_lines :: "vc_values \<Rightarrow> string \<Rightarrow> string list" where
  "networkd_lines v iface =
     [''[Match]'', if vc_mac v \<noteq> [] then ''MACAddress='' @ vc_mac v else ''Name='' @ iface, [], ''[Network]'', ''Address='' @ cidr v] @
     opt (vc_gw v) (''Gateway='' @ vc_gw v) @ opt (vc_dns v) (''DNS='' @ vc_dns v) @ opt (vc_domain v) (''Domains='' @ vc_domain v)"

definition netplan_lines :: "vc_values \<Rightarrow> string \<Rightarrow> string list" where
  "netplan_lines v iface =
     [''network:'', ''  version: 2'', ''  ethernets:'', ''    '' @ iface @ '':'', ''      dhcp4: no'', ''      addresses:'', ''        - '' @ cidr v] @
     opt (vc_gw v) (''      gateway4: '' @ vc_gw v) @ [''      nameservers:''] @
     opt (vc_dns v) (''        addresses: ['' @ vc_dns v @ '']'') @ opt (vc_domain v) (''        search: ['' @ vc_domain v @ '']'')"

text \<open>The file, its text and mode, and the files beside it; None where this function writes none.\<close>

definition net_config :: "guest \<Rightarrow> vc_values \<Rightarrow> string \<Rightarrow> string \<Rightarrow> (string \<times> string \<times> string option) option \<times> (string \<times> string) list" where
  "net_config g v nt iface =
     (if nt = ''wicked'' then
        (Some (''/etc/sysconfig/network/ifcfg-'' @ iface, unlines (wicked_lines v), None),
         if vc_gw v \<noteq> [] then [(''/etc/sysconfig/network/routes'', ''default '' @ vc_gw v @ '' - -'' @ NL)] else [])
      else if nt = ''network-scripts'' then
        (Some (''/etc/sysconfig/network-scripts/ifcfg-'' @ iface, unlines (scripts_lines v iface), None), [])
      else if nt = ''nm-keyfile'' then
        (Some (''/etc/NetworkManager/system-connections/lab-static.nmconnection'', join NL (keyfile_lines v), Some ''0600''), [])
      else if nt = ''ifupdown'' then (Some (''/etc/network/interfaces'', unlines (ifupdown_lines v iface), None), [])
      else if nt = ''systemd-networkd'' then
        (Some (''/etc/systemd/network/10-'' @ iface @ ''.network'', unlines (networkd_lines v iface), None), [])
      else if nt = ''netplan'' then
        (Some (''/etc/netplan/'' @ (case yaml_files g of y # _ \<Rightarrow> y | [] \<Rightarrow> ''50-lab.yaml''), unlines (netplan_lines v iface), None), [])
      else (None, []))"

section \<open>The call of virt-customize\<close>

definition send :: "string \<Rightarrow> string \<Rightarrow> string \<Rightarrow> plan \<Rightarrow> plan" where
  "send name content dest = (\<lambda>(tmp, args). (AList.update name content tmp, args @ [Upload name dest]))"

definition runs :: "string list \<Rightarrow> plan \<Rightarrow> plan" where
  "runs cmds = (\<lambda>(tmp, args). (tmp, args @ map Run_Command cmds))"

definition adds :: "vc_arg list \<Rightarrow> plan \<Rightarrow> plan" where
  "adds as = (\<lambda>(tmp, args). (tmp, args @ as))"

definition RC :: string where "RC = ''/tmp/.vc_rc''"

definition PLAIN_CMD :: string where
  "PLAIN_CMD = ''printf '' @ dq (''root:%s'' @ bsl ''n'') @ '' '' @ dq (''$(cat '' @ RC @ '')'') @ '' | chpasswd; rm -f '' @ RC"

definition CRYPTED_CMD :: string where
  "CRYPTED_CMD =
     ''awk '' @ sq (''BEGIN{FS=OFS='' @ dq '':'' @ ''; getline h < '' @ dq RC @ ''; close('' @ dq RC @ '')} /^root:/{$2=h}1'') @
     '' /etc/shadow > /tmp/.vc_sh && cat /tmp/.vc_sh > /etc/shadow && rm -f /tmp/.vc_sh '' @ RC @ '' && awk '' @
     sq (''BEGIN{FS=OFS='' @ dq '':'' @ ''} /^root:/ && $2!='' @ dq ''x'' @ '' && $2!='' @ dq [] @ ''{$2='' @ dq ''x'' @ ''}1'') @
     '' /etc/passwd > /tmp/.vc_pw && cat /tmp/.vc_pw > /etc/passwd && rm -f /tmp/.vc_pw''"

definition LINK_TEXT :: "string \<Rightarrow> string \<Rightarrow> string" where
  "LINK_TEXT mac iface = unlines [''[Match]'', ''MACAddress='' @ str_lower mac, [], ''[Link]'', ''Name='' @ iface]"

definition DHCP_PAT :: string where
  "DHCP_PAT = ''bootproto'' @ bsl ''s*='' @ bsl ''s*'' @ bsl ''S*(dhcp|auto)''"

text \<open>The pattern ignores case: it is searched in the text in lower case.\<close>

definition uses_dhcp :: "string \<Rightarrow> bool" where
  "uses_dhcp t = (case rx_parse DHCP_PAT of Some r \<Rightarrow> rx_search r (str_lower t) \<noteq> None | None \<Rightarrow> False)"

definition dhcp_files :: "guest \<Rightarrow> string list" where
  "dhcp_files g = filter (\<lambda>f. uses_dhcp (vcat g (''/etc/sysconfig/network/'' @ f))) (ifcfg_files g ''/etc/sysconfig/network'')"

definition seed_lines :: "vc_values \<Rightarrow> string list" where
  "seed_lines v =
     [''version: 2'', ''ethernets:'', ''  id0:''] @
     (if vc_mac v \<noteq> [] then [''    match:'', ''      macaddress: '' @ dq (str_lower (vc_mac v))] else []) @
     [''    dhcp4: false'', ''    addresses:'', ''      - '' @ cidr v] @
     (if vc_gw v \<noteq> [] then [''    routes:'', ''      - to: 0.0.0.0/0'', ''        via: '' @ vc_gw v] else []) @
     (if vc_dns v \<noteq> [] \<or> vc_domain v \<noteq> [] then
        [''    nameservers:''] @ opt (vc_dns v) (''      addresses: ['' @ vc_dns v @ '']'') @ opt (vc_domain v) (''      search: ['' @ vc_domain v @ '']'')
      else [])"

definition SEED :: string where "SEED = ''/var/lib/cloud/seed/nocloud''"

definition CI_CFG :: string where
  "CI_CFG = unlines [''datasource_list: ['' @ sq ''NoCloud'' @ '', '' @ sq ''None'' @ '']'', ''system_info:'', ''  network:'',
     ''    renderers: ['' @ sq ''network-manager'' @ '']'']"

text \<open>What \<open>b64decode\<close> gives: the text was encoded by the caller.\<close>

definition decoded :: "string \<Rightarrow> string" where
  "decoded t = (case unb64 t of Some s \<Rightarrow> s | None \<Rightarrow> [])"

definition inject_key :: "vc_values \<Rightarrow> plan \<Rightarrow> plan" where
  "inject_key v =
     (if vc_pk_b64 v = [] then id
      else (\<lambda>(tmp, args). (AList.update ''authorized_keys'' (decoded (vc_pk_b64 v)) tmp, args @ [Ssh_Inject ''authorized_keys''])))"

definition credentials :: "vc_values \<Rightarrow> plan \<Rightarrow> plan" where
  "credentials v =
     (\<lambda>p. inject_key v
       (runs [''echo '' @ vc_vmname v @ '' > /etc/hostname'', if vc_plain v then PLAIN_CMD else CRYPTED_CMD]
         (send ''root_cred'' (decoded (vc_pass_b64 v)) RC (adds [Hostname (vc_vmname v)] p))))"

definition pin_iface :: "vc_values \<Rightarrow> string \<Rightarrow> string \<Rightarrow> plan \<Rightarrow> plan" where
  "pin_iface v nt iface =
     (if (nt = ''wicked'' \<or> nt = ''network-scripts'') \<and> vc_mac v \<noteq> [] then
        (\<lambda>p. send ''10-lab.link'' (LINK_TEXT (vc_mac v) iface) ''/etc/systemd/network/10-lab.link'' (runs [''mkdir -p /etc/systemd/network''] p))
      else id)"

definition drop_dhcp :: "guest \<Rightarrow> string \<Rightarrow> plan \<Rightarrow> plan" where
  "drop_dhcp g nt = (if nt = ''wicked'' then runs (map (\<lambda>f. ''rm -f /etc/sysconfig/network/'' @ f) (dhcp_files g)) else id)"

definition nm_only :: "guest \<Rightarrow> string \<Rightarrow> plan \<Rightarrow> plan" where
  "nm_only g nt =
     (if nt = ''nm-keyfile'' \<or> nt = ''cloud-init'' then
        (\<lambda>p. runs (map (\<lambda>f. ''rm -f '' @ sq (''/etc/NetworkManager/system-connections/'' @ f))
                 (filter (\<lambda>f. \<not> starts_with f ''.'') (vls g ''/etc/NetworkManager/system-connections'')))
           (send ''nm_no_auto'' (unlines [''[main]'', ''no-auto-default=*'']) ''/etc/NetworkManager/conf.d/99-no-auto-default.conf''
             (runs [''mkdir -p /etc/NetworkManager/conf.d /etc/NetworkManager/system-connections''] p)))
      else id)"

definition cloud_seed :: "guest \<Rightarrow> vc_values \<Rightarrow> string \<Rightarrow> plan \<Rightarrow> plan" where
  "cloud_seed g v nt =
     (if nt = ''cloud-init'' then
        (\<lambda>p. send ''ci-lab-cfg'' CI_CFG ''/etc/cloud/cloud.cfg.d/99-lab.cfg''
          (runs [''mkdir -p /etc/cloud/cloud.cfg.d'']
          (send ''ci-user-data'' (unlines [''#cloud-config'']) (SEED @ ''/user-data'')
          (send ''ci-meta-data'' (unlines [''instance-id: lab-'' @ vc_vmname v, ''local-hostname: '' @ vc_vmname v]) (SEED @ ''/meta-data'')
          (send ''ci-network-config'' (unlines (seed_lines v)) (SEED @ ''/network-config'')
          (runs (map (\<lambda>f. ''rm -f '' @ sq (''/etc/netplan/'' @ f)) (yaml_files g) @
             [''rm -f /etc/sysconfig/network/routes /etc/sysconfig/network/ifroute-* 2>/dev/null; true'', ''mkdir -p '' @ SEED]) p))))))
      else id)"

text \<open>\<open>os.path.dirname\<close> of an absolute path.\<close>

definition dirname :: "string \<Rightarrow> string" where
  "dirname path = rstrip_ch CHR ''/'' (rev (dropWhile (\<lambda>c. c \<noteq> CHR ''/'') (rev path)))"

definition write_network :: "(string \<times> string \<times> string option) option \<Rightarrow> plan \<Rightarrow> plan" where
  "write_network conf =
     (case conf of None \<Rightarrow> id
      | Some (dest, content, mode) \<Rightarrow>
          (\<lambda>p. adds (case mode of Some m \<Rightarrow> [Chmod m dest] | None \<Rightarrow> [])
                 (send ''net'' content dest (runs [''mkdir -p '' @ dirname dest] p))))"

definition write_extras :: "(string \<times> string) list \<Rightarrow> plan \<Rightarrow> plan" where
  "write_extras extras = fold (\<lambda>(dest, content). send (basename dest) content dest) extras"

definition NETCONFIG_CMD :: string where
  "NETCONFIG_CMD =
     ''awk '' @ sq (''BEGIN{FS=OFS='' @ dq ''='' @ ''} /^NETCONFIG_DNS_STATIC_SERVERS=/ || /^NETCONFIG_DNS_STATIC_SEARCHLIST=/ {next} 1'') @
     '' /etc/sysconfig/network/config > /tmp/.vc_cfg && cat /tmp/.vc_ncdns >> /tmp/.vc_cfg && cat /tmp/.vc_cfg > /etc/sysconfig/network/config'' @
     '' && rm -f /tmp/.vc_cfg /tmp/.vc_ncdns''"

definition write_dns :: "vc_values \<Rightarrow> string \<Rightarrow> plan \<Rightarrow> plan" where
  "write_dns v nt =
     (if nt = ''wicked'' \<and> (vc_dns v \<noteq> [] \<or> vc_domain v \<noteq> []) then
        (\<lambda>p. runs [NETCONFIG_CMD, ''netconfig update -f 2>/dev/null || true'']
          (send ''netconfig_dns'' (unlines (opt (vc_dns v) (''NETCONFIG_DNS_STATIC_SERVERS='' @ sq (vc_dns v)) @
                                         opt (vc_domain v) (''NETCONFIG_DNS_STATIC_SEARCHLIST='' @ sq (vc_domain v)))) ''/tmp/.vc_ncdns'' p))
      else id)"

definition hosts_cmd :: "vc_values \<Rightarrow> string" where
  "hosts_cmd v =
     (let fqdn = (if vc_domain v \<noteq> [] then vc_vmname v @ ''.'' @ vc_domain v else vc_vmname v) in
      ''grep -qF '' @ sq ('' '' @ vc_vmname v) @ '' /etc/hosts || echo '' @ sq (vc_ip v @ '' '' @ vc_vmname v @ '' '' @ fqdn) @ '' >> /etc/hosts'')"

definition SSHD_CMD :: string where
  "SSHD_CMD =
     ''mkdir -p /etc/ssh/sshd_config.d && printf '' @ sq (unlines [''PermitRootLogin yes'', ''PasswordAuthentication yes'']) @
     '' > /etc/ssh/sshd_config.d/99-lab.conf ; sed -i -E -e '' @
     sq (''s/^#?'' @ bsl ''s*PermitRootLogin'' @ bsl ''s+.*/PermitRootLogin yes/'') @ '' -e '' @
     sq (''s/^#?'' @ bsl ''s*PasswordAuthentication'' @ bsl ''s+.*/PasswordAuthentication yes/'') @ '' /etc/ssh/sshd_config 2>/dev/null; true''"

definition no_cloud_init :: "string \<Rightarrow> plan \<Rightarrow> plan" where
  "no_cloud_init nt =
     (if nt \<noteq> ''cloud-init'' then (\<lambda>p. send ''ci_disabled'' [] ''/etc/cloud/cloud-init.disabled'' (runs [''mkdir -p /etc/cloud''] p)) else id)"

definition finish :: "guest \<Rightarrow> plan \<Rightarrow> plan" where
  "finish g =
     (\<lambda>p. adds (if ''config'' \<in> set (vls g ''/etc/selinux'') then [Selinux_Relabel] else [])
       (runs [''systemctl disable jeos-firstboot.service jeos-firstboot-snapshot.service 2>/dev/null || true''] p))"

definition customize_plan :: "guest \<Rightarrow> vc_values \<Rightarrow> plan" where
  "customize_plan g v =
     (let nt = detect_net g; iface = detect_iface g (vc_mac v) nt; (conf, extras) = net_config g v nt iface in
      finish g
        (no_cloud_init nt
        (runs [hosts_cmd v, ''systemctl enable sshd 2>/dev/null || systemctl enable ssh 2>/dev/null || true'', SSHD_CMD]
        (write_dns v nt
        (write_extras extras
        (write_network conf
        (cloud_seed g v nt
        (nm_only g nt
        (drop_dhcp g nt
        (pin_iface v nt iface
        (credentials v ([], []))))))))))))"

text \<open>\<open>prepare_virt_customize\<close>: the values reach the script as they are, the password and the key in base64.\<close>

definition script_values ::
  "string \<Rightarrow> string \<Rightarrow> string \<Rightarrow> string \<Rightarrow> string \<Rightarrow> string \<Rightarrow> string \<Rightarrow> bool \<Rightarrow> string \<Rightarrow> string option \<Rightarrow> vc_values" where
  "script_values vm_name ip pfx gw dns domain mac plain pass_val pubkey =
     \<lparr>vc_vmname = vm_name, vc_ip = ip, vc_prefix = pfx, vc_gw = gw, vc_dns = dns, vc_domain = domain, vc_mac = mac,
      vc_plain = plain, vc_pass_b64 = b64 pass_val,
      vc_pk_b64 = (case pubkey of Some k \<Rightarrow> if k = [] then [] else b64 k | None \<Rightarrow> [])\<rparr>"

definition customize_failed :: "string \<Rightarrow> string" where
  "customize_failed vm_name = ''virt-customize failed for '' @ sq vm_name"

definition prepare_virt_customize :: "(plan \<Rightarrow> bool) \<Rightarrow> guest \<Rightarrow> vc_values \<Rightarrow> plan res" where
  "prepare_virt_customize succeeds g v =
     (if succeeds (customize_plan g v) then Inr (customize_plan g v) else Inl (SystemExit (customize_failed (vc_vmname v))))"

section \<open>What is sent\<close>

fun sent_of :: "(string \<times> string) list \<Rightarrow> vc_arg list \<Rightarrow> (string \<times> string) list" where
  "sent_of tmp [] = []"
| "sent_of tmp (a # args) =
     (case a of Upload n dest \<Rightarrow> (case map_of tmp n of Some t \<Rightarrow> [(dest, t)] | None \<Rightarrow> []) | _ \<Rightarrow> []) @ sent_of tmp args"

definition sent :: "plan \<Rightarrow> (string \<times> string) list" where
  "sent p = sent_of (fst p) (snd p)"

definition names :: "plan \<Rightarrow> string set" where
  "names p = fst ` set (fst p)"

text \<open>Every upload is of a temporary file there is.\<close>

definition backed :: "plan \<Rightarrow> bool" where
  "backed p = (\<forall>n dest. Upload n dest \<in> set (snd p) \<longrightarrow> n \<in> names p)"

lemma sent_of_append: "sent_of tmp (xs @ ys) = sent_of tmp xs @ sent_of tmp ys"
  by (induction xs) auto

lemma sent_of_none: "(\<And>n d. Upload n d \<notin> set as) \<Longrightarrow> sent_of tmp as = []"
  by (induction as) (auto split: vc_arg.splits)

lemma sent_of_update: "(\<And>d. Upload n d \<notin> set args) \<Longrightarrow> sent_of (AList.update n c tmp) args = sent_of tmp args"
proof (induction args)
  case (Cons a args)
  have "map_of (AList.update n c tmp) m = map_of tmp m" if "a = Upload m d" for m d
    using Cons.prems [of d] that by (auto simp: AList.update_conv)
  then show ?case using Cons by (auto split: vc_arg.splits)
qed simp

lemma sent_adds:
  assumes "\<And>n d. Upload n d \<notin> set as"
  shows "sent (adds as p) = sent p" "names (adds as p) = names p" "backed p \<Longrightarrow> backed (adds as p)"
proof -
  obtain tmp args where p: "p = (tmp, args)" by (cases p)
  show "sent (adds as p) = sent p" by (simp add: p adds_def sent_def sent_of_append sent_of_none [OF assms])
  show n: "names (adds as p) = names p" by (simp add: p adds_def names_def)
  show "backed p \<Longrightarrow> backed (adds as p)" using assms unfolding backed_def n by (auto simp: p adds_def)
qed

lemma runs_adds: "runs cmds = adds (map Run_Command cmds)"
  by (auto simp: runs_def adds_def)

lemma sent_runs: "sent (runs cmds p) = sent p" "names (runs cmds p) = names p" "backed p \<Longrightarrow> backed (runs cmds p)"
  using sent_adds [of "map Run_Command cmds" p] by (simp_all add: runs_adds image_iff)

lemma sent_send:
  assumes "backed p" and "n \<notin> names p"
  shows "sent (send n c d p) = sent p @ [(d, c)]" "names (send n c d p) = insert n (names p)" "backed (send n c d p)"
proof -
  obtain tmp args where p: "p = (tmp, args)" by (cases p)
  have "Upload n d \<notin> set args" for d using assms by (auto simp: p backed_def)
  then show "sent (send n c d p) = sent p @ [(d, c)]"
    by (simp add: sent_def send_def p sent_of_append sent_of_update AList.update_conv)
  show "names (send n c d p) = insert n (names p)" by (simp add: names_def send_def p dom_update)
  then show "backed (send n c d p)" using assms(1) by (auto simp: backed_def send_def p)
qed

lemma sent_start: "sent ([], []) = []" "names ([], []) = {}" "backed ([], [])"
  by (simp_all add: sent_def names_def backed_def)

text \<open>A part of the plan that sends \<open>xs\<close>, with temporary files of its own named in \<open>ns\<close>.\<close>

definition sends :: "(plan \<Rightarrow> plan) \<Rightarrow> (string \<times> string) list \<Rightarrow> string set \<Rightarrow> bool" where
  "sends f xs ns = (\<forall>p. backed p \<and> names p \<inter> ns = {} \<longrightarrow> sent (f p) = sent p @ xs \<and> backed (f p) \<and> names (f p) \<subseteq> names p \<union> ns)"

named_theorems sends_intros

lemma sends_id: "sends id [] {}" "sends (\<lambda>p. p) [] {}"
  by (simp_all add: sends_def)

lemma sends_none: "sends id [] ns"
  by (auto simp: sends_def)

lemma sends_adds: "(\<And>n d. Upload n d \<notin> set as) \<Longrightarrow> sends (adds as) [] {}"
  by (simp add: sends_def sent_adds)

lemma sends_runs: "sends (runs cmds) [] {}"
  by (simp add: sends_def sent_runs)

lemma sends_send: "sends (send n c d) [(d, c)] {n}"
  by (auto simp: sends_def sent_send)

lemma sends_comp:
  assumes "sends f xs ns" and "sends g ys ms" and "ns \<inter> ms = {}"
  shows "sends (\<lambda>p. g (f p)) (xs @ ys) (ns \<union> ms)"
  unfolding sends_def
proof (intro allI impI)
  fix p assume p: "backed p \<and> names p \<inter> (ns \<union> ms) = {}"
  then have f: "sent (f p) = sent p @ xs" "backed (f p)" "names (f p) \<subseteq> names p \<union> ns" using assms(1) unfolding sends_def by blast+
  then have "names (f p) \<inter> ms = {}" using p assms(3) by blast
  then have "sent (g (f p)) = sent (f p) @ ys \<and> backed (g (f p)) \<and> names (g (f p)) \<subseteq> names (f p) \<union> ms"
    using assms(2) f(2) unfolding sends_def by blast
  then show "sent (g (f p)) = sent p @ (xs @ ys) \<and> backed (g (f p)) \<and> names (g (f p)) \<subseteq> names p \<union> (ns \<union> ms)" using f by auto
qed

lemma sends_more: "sends f xs ns \<Longrightarrow> ns \<subseteq> ms \<Longrightarrow> sends f xs ms"
  unfolding sends_def by blast

lemma sends_if: "(b \<Longrightarrow> sends f xs ns) \<Longrightarrow> sends (if b then f else id) (if b then xs else []) ns"
  by (simp add: sends_def)

text \<open>What each part sends.\<close>

lemma sends_same: "sends f xs ns \<Longrightarrow> xs = ys \<Longrightarrow> ns = ms \<Longrightarrow> sends f ys ms"
  by simp

lemma sends_inject: "sends (inject_key v) [] {''authorized_keys''}"
proof (cases "vc_pk_b64 v = []")
  case True
  then show ?thesis by (simp add: inject_key_def sends_none)
next
  case False
  show ?thesis unfolding sends_def
  proof (intro allI impI)
    fix p assume p: "backed p \<and> names p \<inter> {''authorized_keys''} = {}"
    obtain tmp args where q: "p = (tmp, args)" by (cases p)
    have u: "Upload ''authorized_keys'' d \<notin> set args" for d using p by (auto simp: q backed_def)
    have n: "names (inject_key v p) = insert ''authorized_keys'' (names p)" using False by (simp add: inject_key_def q names_def dom_update)
    have "sent (inject_key v p) = sent p" using False by (simp add: inject_key_def q sent_def sent_of_append sent_of_update [OF u])
    moreover have "backed (inject_key v p)" unfolding backed_def n using p False by (auto simp: inject_key_def q backed_def)
    ultimately show "sent (inject_key v p) = sent p @ [] \<and> backed (inject_key v p) \<and> names (inject_key v p) \<subseteq> names p \<union> {''authorized_keys''}"
      using n by auto
  qed
qed

lemma sends_credentials: "sends (credentials v) [(RC, decoded (vc_pass_b64 v))] {''root_cred'', ''authorized_keys''}"
proof -
  have h: "sends (adds [Hostname (vc_vmname v)]) [] {}" by (rule sends_adds) simp
  show ?thesis unfolding credentials_def
    by (rule sends_same [OF sends_comp [OF sends_comp [OF sends_comp [OF h sends_send] sends_runs] sends_inject]]) auto
qed

lemma sends_pin:
  "\<exists>xs. sends (pin_iface v nt iface) xs {''10-lab.link''} \<and> set xs \<subseteq> {''/etc/systemd/network/10-lab.link''} \<times> UNIV"
proof (cases "(nt = ''wicked'' \<or> nt = ''network-scripts'') \<and> vc_mac v \<noteq> []")
  case True
  have "sends (pin_iface v nt iface) [(''/etc/systemd/network/10-lab.link'', LINK_TEXT (vc_mac v) iface)] {''10-lab.link''}"
    unfolding pin_iface_def if_P [OF True] by (rule sends_same [OF sends_comp [OF sends_runs sends_send]]) auto
  then show ?thesis by (intro exI) auto
qed (auto simp: pin_iface_def sends_def)

lemma sends_drop: "sends (drop_dhcp g nt) [] {}"
  by (simp add: drop_dhcp_def sends_runs sends_id)

definition NM_CONF :: string where "NM_CONF = ''/etc/NetworkManager/conf.d/99-no-auto-default.conf''"

lemma sends_nm: "\<exists>xs. sends (nm_only g nt) xs {''nm_no_auto''} \<and> set xs \<subseteq> {NM_CONF} \<times> UNIV"
proof (cases "nt = ''nm-keyfile'' \<or> nt = ''cloud-init''")
  case True
  have "sends (nm_only g nt) [(NM_CONF, unlines [''[main]'', ''no-auto-default=*''])] {''nm_no_auto''}"
    unfolding nm_only_def if_P [OF True] by (rule sends_same [OF sends_comp [OF sends_comp [OF sends_runs sends_send] sends_runs]]) (auto simp: NM_CONF_def)
  then show ?thesis by (intro exI) auto
qed (auto simp: nm_only_def sends_def)

definition SEED_NAMES :: "string set" where
  "SEED_NAMES = {''ci-network-config'', ''ci-meta-data'', ''ci-user-data'', ''ci-lab-cfg''}"

lemma sends_seed:
  "sends (cloud_seed g v ''cloud-init'')
     [(SEED @ ''/network-config'', unlines (seed_lines v)),
      (SEED @ ''/meta-data'', unlines [''instance-id: lab-'' @ vc_vmname v, ''local-hostname: '' @ vc_vmname v]),
      (SEED @ ''/user-data'', unlines [''#cloud-config'']), (''/etc/cloud/cloud.cfg.d/99-lab.cfg'', CI_CFG)] SEED_NAMES"
  "nt \<noteq> ''cloud-init'' \<Longrightarrow> sends (cloud_seed g v nt) [] SEED_NAMES"
proof -
  show "sends (cloud_seed g v ''cloud-init'')
     [(SEED @ ''/network-config'', unlines (seed_lines v)),
      (SEED @ ''/meta-data'', unlines [''instance-id: lab-'' @ vc_vmname v, ''local-hostname: '' @ vc_vmname v]),
      (SEED @ ''/user-data'', unlines [''#cloud-config'']), (''/etc/cloud/cloud.cfg.d/99-lab.cfg'', CI_CFG)] SEED_NAMES"
    unfolding cloud_seed_def if_P [OF refl]
    by (rule sends_same [OF sends_comp [OF sends_comp [OF sends_comp [OF sends_comp [OF sends_comp [OF sends_runs sends_send] sends_send] sends_send] sends_runs] sends_send]])
      (auto simp: SEED_NAMES_def)
qed (auto simp: cloud_seed_def sends_def)

lemma sends_network:
  "sends (write_network conf) (case conf of None \<Rightarrow> [] | Some (dest, content, _) \<Rightarrow> [(dest, content)]) {''net''}"
proof (cases conf)
  case None
  then show ?thesis by (simp add: write_network_def sends_none)
next
  case (Some c)
  obtain dest content mode where c: "c = (dest, content, mode)" by (cases c)
  have m: "sends (adds (case mode of Some m \<Rightarrow> [Chmod m dest] | None \<Rightarrow> [])) [] {}" by (rule sends_adds) (auto split: option.splits)
  show ?thesis unfolding Some c write_network_def option.case prod.case
    by (rule sends_same [OF sends_comp [OF sends_comp [OF sends_runs sends_send] m]]) auto
qed

lemma sends_extras: "sends (write_extras []) [] {''routes''}" "sends (write_extras [(dest, t)]) [(dest, t)] {basename dest}"
  by (auto simp: write_extras_def sends_def sent_send)

lemma sends_dns: "\<exists>xs. sends (write_dns v nt) xs {''netconfig_dns''} \<and> set xs \<subseteq> {''/tmp/.vc_ncdns''} \<times> UNIV"
proof (cases "nt = ''wicked'' \<and> (vc_dns v \<noteq> [] \<or> vc_domain v \<noteq> [])")
  case True
  have "\<exists>t. sends (write_dns v nt) [(''/tmp/.vc_ncdns'', t)] {''netconfig_dns''}"
    unfolding write_dns_def if_P [OF True] by (rule exI, rule sends_same [OF sends_comp [OF sends_send sends_runs]]) auto
  then show ?thesis by fastforce
qed (auto simp: write_dns_def sends_def)

lemma sends_no_ci:
  "sends (no_cloud_init nt) (if nt \<noteq> ''cloud-init'' then [(''/etc/cloud/cloud-init.disabled'', [])] else []) {''ci_disabled''}"
proof (cases "nt = ''cloud-init''")
  case False
  show ?thesis unfolding no_cloud_init_def using False
    by simp (rule sends_same [OF sends_comp [OF sends_runs sends_send]], auto)
qed (simp add: no_cloud_init_def sends_none)

lemma sends_finish: "sends (finish g) [] {}"
proof -
  have "sends (adds (if ''config'' \<in> set (vls g ''/etc/selinux'') then [Selinux_Relabel] else [])) [] {}" by (rule sends_adds) auto
  then show ?thesis unfolding finish_def by (intro sends_same [OF sends_comp [OF sends_runs]]) auto
qed

section \<open>What the guest gets\<close>

text \<open>The line that gives the guest its address, and its gateway, for what configures its network.\<close>

definition address_line :: "string \<Rightarrow> vc_values \<Rightarrow> string" where
  "address_line nt v =
     (if nt = ''wicked'' then ''IPADDR='' @ sq (cidr v) else if nt = ''network-scripts'' then ''IPADDR='' @ vc_ip v
      else if nt = ''nm-keyfile'' then ''addresses='' @ cidr v else if nt = ''ifupdown'' then ''    address '' @ cidr v
      else if nt = ''systemd-networkd'' then ''Address='' @ cidr v else if nt = ''netplan'' then ''        - '' @ cidr v
      else ''      - '' @ cidr v)"

definition gateway_line :: "string \<Rightarrow> vc_values \<Rightarrow> string" where
  "gateway_line nt v =
     (if nt = ''wicked'' then ''default '' @ vc_gw v @ '' - -'' else if nt = ''network-scripts'' then ''GATEWAY='' @ vc_gw v
      else if nt = ''nm-keyfile'' then ''gateway='' @ vc_gw v else if nt = ''ifupdown'' then ''    gateway '' @ vc_gw v
      else if nt = ''systemd-networkd'' then ''Gateway='' @ vc_gw v else if nt = ''netplan'' then ''      gateway4: '' @ vc_gw v
      else ''        via: '' @ vc_gw v)"

definition KINDS :: "string list" where
  "KINDS = [''netplan'', ''network-scripts'', ''wicked'', ''cloud-init'', ''nm-keyfile'', ''ifupdown'', ''systemd-networkd'']"

lemma detect_net_kinds: "detect_net g \<in> insert ''unknown'' (set KINDS)"
  by (auto simp: detect_net_def KINDS_def)

text \<open>Of what is sent some file has the line.\<close>

definition has_line :: "string \<Rightarrow> (string \<times> string) list \<Rightarrow> bool" where
  "has_line line xs = (\<exists>dest ls. line \<in> set ls \<and> ((dest, unlines ls) \<in> set xs \<or> (dest, join NL ls) \<in> set xs))"

lemma has_line_mono: "has_line l xs \<Longrightarrow> set xs \<subseteq> set ys \<Longrightarrow> has_line l ys"
  unfolding has_line_def by blast

lemma has_line_unlines: "l \<in> set ls \<Longrightarrow> (dest, unlines ls) \<in> set xs \<Longrightarrow> has_line l xs"
  unfolding has_line_def by blast

lemma has_line_join: "l \<in> set ls \<Longrightarrow> (dest, join NL ls) \<in> set xs \<Longrightarrow> has_line l xs"
  unfolding has_line_def by blast

definition net_files :: "guest \<Rightarrow> vc_values \<Rightarrow> (string \<times> string) list" where
  "net_files g v =
     (let nt = detect_net g; iface = detect_iface g (vc_mac v) nt; (conf, extras) = net_config g v nt iface in
      (if nt = ''cloud-init'' then [(SEED @ ''/network-config'', unlines (seed_lines v))] else []) @
      (case conf of None \<Rightarrow> [] | Some (dest, content, _) \<Rightarrow> [(dest, content)]) @ extras)"

lemma lines_have:
  "address_line ''netplan'' v \<in> set (netplan_lines v i)" "vc_gw v \<noteq> [] \<Longrightarrow> gateway_line ''netplan'' v \<in> set (netplan_lines v i)"
  "address_line ''network-scripts'' v \<in> set (scripts_lines v i)" "vc_gw v \<noteq> [] \<Longrightarrow> gateway_line ''network-scripts'' v \<in> set (scripts_lines v i)"
  "address_line ''wicked'' v \<in> set (wicked_lines v)"
  "address_line ''cloud-init'' v \<in> set (seed_lines v)" "vc_gw v \<noteq> [] \<Longrightarrow> gateway_line ''cloud-init'' v \<in> set (seed_lines v)"
  "address_line ''nm-keyfile'' v \<in> set (keyfile_lines v)" "vc_gw v \<noteq> [] \<Longrightarrow> gateway_line ''nm-keyfile'' v \<in> set (keyfile_lines v)"
  "address_line ''ifupdown'' v \<in> set (ifupdown_lines v i)" "vc_gw v \<noteq> [] \<Longrightarrow> gateway_line ''ifupdown'' v \<in> set (ifupdown_lines v i)"
  "address_line ''systemd-networkd'' v \<in> set (networkd_lines v i)" "vc_gw v \<noteq> [] \<Longrightarrow> gateway_line ''systemd-networkd'' v \<in> set (networkd_lines v i)"
  by (simp_all add: address_line_def gateway_line_def netplan_lines_def scripts_lines_def wicked_lines_def seed_lines_def keyfile_lines_def
      ifupdown_lines_def networkd_lines_def opt_def)

lemma routes_line: "gateway_line ''wicked'' v \<in> set [gateway_line ''wicked'' v]" "unlines [gateway_line ''wicked'' v] = ''default '' @ vc_gw v @ '' - -'' @ NL"
  by (simp_all add: gateway_line_def unlines_def)

lemma net_files_netplan: "detect_net g = ''netplan'' \<Longrightarrow> \<exists>d i. (d, unlines (netplan_lines v i)) \<in> set (net_files g v)"
  by (simp add: net_files_def Let_def net_config_def, blast)

lemma net_files_scripts: "detect_net g = ''network-scripts'' \<Longrightarrow> \<exists>d i. (d, unlines (scripts_lines v i)) \<in> set (net_files g v)"
  by (simp add: net_files_def Let_def net_config_def, blast)

lemma net_files_wicked: "detect_net g = ''wicked'' \<Longrightarrow> \<exists>d. (d, unlines (wicked_lines v)) \<in> set (net_files g v)"
  by (simp add: net_files_def Let_def net_config_def, blast)

lemma net_files_routes:
  "detect_net g = ''wicked'' \<Longrightarrow> vc_gw v \<noteq> [] \<Longrightarrow> (''/etc/sysconfig/network/routes'', unlines [gateway_line ''wicked'' v]) \<in> set (net_files g v)"
  unfolding routes_line(2) by (simp add: net_files_def Let_def net_config_def)

lemma net_files_seed: "detect_net g = ''cloud-init'' \<Longrightarrow> (SEED @ ''/network-config'', unlines (seed_lines v)) \<in> set (net_files g v)"
  by (simp add: net_files_def Let_def net_config_def)

lemma net_files_keyfile:
  "detect_net g = ''nm-keyfile'' \<Longrightarrow>
    (''/etc/NetworkManager/system-connections/lab-static.nmconnection'', join NL (keyfile_lines v)) \<in> set (net_files g v)"
  by (simp add: net_files_def Let_def net_config_def)

lemma net_files_ifupdown: "detect_net g = ''ifupdown'' \<Longrightarrow> \<exists>i. (''/etc/network/interfaces'', unlines (ifupdown_lines v i)) \<in> set (net_files g v)"
  by (simp add: net_files_def Let_def net_config_def, blast)

lemma net_files_networkd: "detect_net g = ''systemd-networkd'' \<Longrightarrow> \<exists>d i. (d, unlines (networkd_lines v i)) \<in> set (net_files g v)"
  by (simp add: net_files_def Let_def net_config_def, blast)

lemma net_files_lines:
  assumes "detect_net g \<noteq> ''unknown''"
  shows "has_line (address_line (detect_net g) v) (net_files g v)" "vc_gw v \<noteq> [] \<Longrightarrow> has_line (gateway_line (detect_net g) v) (net_files g v)"
proof -
  note intro = has_line_unlines has_line_join
  consider "detect_net g = ''netplan''" | "detect_net g = ''network-scripts''" | "detect_net g = ''wicked''" | "detect_net g = ''cloud-init''"
    | "detect_net g = ''nm-keyfile''" | "detect_net g = ''ifupdown''" | "detect_net g = ''systemd-networkd''"
    using detect_net_kinds [of g] assms by (auto simp: KINDS_def)
  then have "has_line (address_line (detect_net g) v) (net_files g v) \<and> (vc_gw v \<noteq> [] \<longrightarrow> has_line (gateway_line (detect_net g) v) (net_files g v))"
  proof cases
    case 1 then show ?thesis using net_files_netplan [of g v] lines_have(1,2) [of v] by (metis intro)
  next
    case 2 then show ?thesis using net_files_scripts [of g v] lines_have(3,4) [of v] by (metis intro)
  next
    case 3 then show ?thesis using net_files_wicked [of g v] net_files_routes [of g v] lines_have(5) [of v] routes_line(1) [of v] by (metis intro)
  next
    case 4 then show ?thesis using net_files_seed [of g v] lines_have(6,7) [of v] by (metis intro)
  next
    case 5 then show ?thesis using net_files_keyfile [of g v] lines_have(8,9) [of v] by (metis intro)
  next
    case 6 then show ?thesis using net_files_ifupdown [of g v] lines_have(10,11) [of v] by (metis intro)
  next
    case 7 then show ?thesis using net_files_networkd [of g v] lines_have(12,13) [of v] by (metis intro)
  qed
  then show "has_line (address_line (detect_net g) v) (net_files g v)" "vc_gw v \<noteq> [] \<Longrightarrow> has_line (gateway_line (detect_net g) v) (net_files g v)"
    by blast+
qed

lemma sends_net_extras: "sends (write_extras (snd (net_config g v nt i))) (snd (net_config g v nt i)) {''routes''}"
proof -
  have b: "basename ''/etc/sysconfig/network/routes'' = ''routes''" by code_simp
  have "snd (net_config g v nt i) = [] \<or> (\<exists>t. snd (net_config g v nt i) = [(''/etc/sysconfig/network/routes'', t)])"
    by (simp add: net_config_def)
  then show ?thesis using sends_extras(1) sends_extras(2) [of "''/etc/sysconfig/network/routes''"] b by fastforce
qed

definition own_files :: "guest \<Rightarrow> vc_values \<Rightarrow> string \<Rightarrow> (string \<times> string) list" where
  "own_files g v nt =
     (if nt = ''cloud-init'' then
       [(SEED @ ''/network-config'', unlines (seed_lines v)),
        (SEED @ ''/meta-data'', unlines [''instance-id: lab-'' @ vc_vmname v, ''local-hostname: '' @ vc_vmname v]),
        (SEED @ ''/user-data'', unlines [''#cloud-config'']), (''/etc/cloud/cloud.cfg.d/99-lab.cfg'', CI_CFG)] else [])"

lemma sends_own: "sends (cloud_seed g v nt) (own_files g v nt) SEED_NAMES"
  using sends_seed by (cases "nt = ''cloud-init''") (simp_all add: own_files_def)

lemma plan_sends:
  fixes g v
  defines "nt \<equiv> detect_net g" and "i \<equiv> detect_iface g (vc_mac v) (detect_net g)"
  shows "\<exists>xs ys zs. set xs \<subseteq> {''/etc/systemd/network/10-lab.link''} \<times> UNIV \<and> set ys \<subseteq> {NM_CONF} \<times> UNIV \<and> set zs \<subseteq> {''/tmp/.vc_ncdns''} \<times> UNIV \<and>
    backed (customize_plan g v) \<and>
    sent (customize_plan g v) =
      [(RC, decoded (vc_pass_b64 v))] @ xs @ ys @ own_files g v nt @
      (case fst (net_config g v nt i) of None \<Rightarrow> [] | Some (dest, content, _) \<Rightarrow> [(dest, content)]) @ snd (net_config g v nt i) @ zs @
      (if nt \<noteq> ''cloud-init'' then [(''/etc/cloud/cloud-init.disabled'', [])] else [])"
proof -
  obtain conf extras where n: "net_config g v nt i = (conf, extras)" by (cases "net_config g v nt i")
  obtain xs where xs: "sends (pin_iface v nt i) xs {''10-lab.link''}" "set xs \<subseteq> {''/etc/systemd/network/10-lab.link''} \<times> UNIV" using sends_pin by blast
  obtain ys where ys: "sends (nm_only g nt) ys {''nm_no_auto''}" "set ys \<subseteq> {NM_CONF} \<times> UNIV" using sends_nm by blast
  obtain zs where zs: "sends (write_dns v nt) zs {''netconfig_dns''}" "set zs \<subseteq> {''/tmp/.vc_ncdns''} \<times> UNIV" using sends_dns by blast
  have ex: "sends (write_extras extras) extras {''routes''}" using sends_net_extras [of g v nt i] by (simp add: n)
  note s1 = sends_comp [OF sends_comp [OF sends_comp [OF sends_credentials xs(1)] sends_drop] ys(1)]
  note s2 = sends_comp [OF sends_comp [OF sends_comp [OF sends_comp [OF s1 sends_own] sends_network] ex] zs(1)]
  note s3 = sends_comp [OF sends_comp [OF sends_comp [OF s2 sends_runs] sends_no_ci] sends_finish]
  let ?sent = "[(RC, decoded (vc_pass_b64 v))] @ xs @ ys @ own_files g v nt @
      (case conf of None \<Rightarrow> [] | Some (dest, content, _) \<Rightarrow> [(dest, content)]) @ extras @ zs @
      (if nt \<noteq> ''cloud-init'' then [(''/etc/cloud/cloud-init.disabled'', [])] else [])"
  have all: "\<exists>ns. sends (\<lambda>p. finish g (no_cloud_init nt
        (runs [hosts_cmd v, ''systemctl enable sshd 2>/dev/null || systemctl enable ssh 2>/dev/null || true'', SSHD_CMD]
        (write_dns v nt (write_extras extras (write_network conf (cloud_seed g v nt (nm_only g nt (drop_dhcp g nt
        (pin_iface v nt i (credentials v p))))))))))) ?sent ns"
    by (rule exI, rule sends_same [OF s3 _ refl]) (simp_all only: append.simps append_assoc append_Nil2, simp_all add: SEED_NAMES_def)
  have eq: "customize_plan g v = finish g (no_cloud_init nt
        (runs [hosts_cmd v, ''systemctl enable sshd 2>/dev/null || systemctl enable ssh 2>/dev/null || true'', SSHD_CMD]
        (write_dns v nt (write_extras extras (write_network conf (cloud_seed g v nt (nm_only g nt (drop_dhcp g nt
        (pin_iface v nt i (credentials v ([], [])))))))))))"
    unfolding customize_plan_def Let_def n [unfolded nt_def i_def] nt_def i_def prod.case ..
  have "backed (customize_plan g v) \<and> sent (customize_plan g v) = ?sent"
    unfolding eq using all sent_start unfolding sends_def by (metis append_Nil inf_bot_left)
  then show ?thesis unfolding n fst_conv snd_conv using xs(2) ys(2) zs(2) by blast
qed

text \<open>C25 The customized image: whatever is found to configure the guest's network, unless nothing is, some file sent to it has the line
  that gives it its address, and its gateway when there is one; the password sent is the one given; cloud-init is disabled except
  where it is what configures the network; and every upload is of a file that was written.\<close>

theorem customized_guest:
  assumes "v = script_values vm_name ip pfx gw dns domain mac plain pass pubkey" and "prepare_virt_customize succeeds g v = Inr p"
  shows "backed p \<and> (RC, pass) \<in> set (sent p) \<and>
    (detect_net g \<noteq> ''unknown'' \<longrightarrow> has_line (address_line (detect_net g) v) (sent p) \<and>
       (gw \<noteq> [] \<longrightarrow> has_line (gateway_line (detect_net g) v) (sent p))) \<and>
    ((''/etc/cloud/cloud-init.disabled'', []) \<in> set (sent p) \<longleftrightarrow> detect_net g \<noteq> ''cloud-init'')"
proof -
  let ?i = "detect_iface g (vc_mac v) (detect_net g)"
  have p: "p = customize_plan g v" using assms(2) by (simp add: prepare_virt_customize_def split: if_splits)
  have pass: "decoded (vc_pass_b64 v) = pass" by (simp add: assms(1) script_values_def decoded_def unb64_b64)
  obtain conf extras where n: "net_config g v (detect_net g) ?i = (conf, extras)" by (cases "net_config g v (detect_net g) ?i")
  from plan_sends [of g v] obtain xs ys zs where b: "backed p" and x: "set xs \<subseteq> {''/etc/systemd/network/10-lab.link''} \<times> UNIV"
    "set ys \<subseteq> {NM_CONF} \<times> UNIV" "set zs \<subseteq> {''/tmp/.vc_ncdns''} \<times> UNIV"
    and s: "sent p = [(RC, pass)] @ xs @ ys @ own_files g v (detect_net g) @
      (case conf of None \<Rightarrow> [] | Some (dest, content, _) \<Rightarrow> [(dest, content)]) @ extras @ zs @
      (if detect_net g \<noteq> ''cloud-init'' then [(''/etc/cloud/cloud-init.disabled'', [])] else [])"
    by (auto simp: p n pass)
  have sub: "set (net_files g v) \<subseteq> set (sent p)" unfolding s net_files_def Let_def n own_files_def by (auto split: if_splits option.splits)
  have "vc_gw v = gw" by (simp add: assms(1) script_values_def)
  then have lines: "detect_net g \<noteq> ''unknown'' \<longrightarrow> has_line (address_line (detect_net g) v) (sent p) \<and>
       (gw \<noteq> [] \<longrightarrow> has_line (gateway_line (detect_net g) v) (sent p))"
    using net_files_lines [of g v] has_line_mono [OF _ sub] by blast
  have "(''/etc/cloud/cloud-init.disabled'', []) \<notin> set (sent p)" if c: "detect_net g = ''cloud-init''"
  proof -
    have "conf = None" "extras = []" using n by (simp_all add: c net_config_def)
    then show ?thesis using x unfolding s by (auto simp: c RC_def own_files_def SEED_def NM_CONF_def)
  qed
  then show ?thesis using b lines by (auto simp: s)
qed

definition leap_guest :: guest where
  "leap_guest = \<lparr>gi_dir = (\<lambda>p. if p = ''/etc/NetworkManager'' then Some [] else None), gi_file = (\<lambda>_. None)\<rparr>"

lemma customized_guest_witness:
  "\<exists>p. prepare_virt_customize (\<lambda>_. True) leap_guest (script_values ''n1'' ''10.0.0.5'' ''24'' ''10.0.0.1'' [] [] [] True ''linux'' None) = Inr p \<and>
     (RC, ''linux'') \<in> set (sent p) \<and> detect_net leap_guest = ''nm-keyfile'' \<and> has_line ''addresses=10.0.0.5/24'' (sent p) \<and> has_line ''gateway=10.0.0.1'' (sent p)"
proof -
  let ?v = "script_values ''n1'' ''10.0.0.5'' ''24'' ''10.0.0.1'' [] [] [] True ''linux'' None"
  have d: "detect_net leap_guest = ''nm-keyfile''" by code_simp
  have l: "address_line ''nm-keyfile'' ?v = ''addresses=10.0.0.5/24''" "gateway_line ''nm-keyfile'' ?v = ''gateway=10.0.0.1''" by code_simp+
  have p: "prepare_virt_customize (\<lambda>_. True) leap_guest ?v = Inr (customize_plan leap_guest ?v)" by (simp add: prepare_virt_customize_def)
  show ?thesis using customized_guest [OF refl p] d l p by auto
qed

section \<open>What modelling showed\<close>

text \<open>In an image whose network nothing known configures, no file with the node's address is written, and the customization
  succeeds all the same.\<close>

lemma unknown_network_skipped:
  "detect_net \<lparr>gi_dir = (\<lambda>_. None), gi_file = (\<lambda>_. None)\<rparr> = ''unknown''" "net_config g v ''unknown'' iface = (None, [])"
  by code_simp (simp add: net_config_def)

text \<open>The entry in /etc/hosts is left out where the name is the beginning of another one there.\<close>

lemma hosts_entry_skipped: "contains ('' '' @ ''n1'') ''10.0.0.2 n10 n10.lab''"
  by code_simp

end
