(* ===== verification/Provision_Files.thy ===== *)
theory Provision_Files
  imports Py_Text Remote_Run Virt_Customize
begin

text \<open>
  The provisioning files of a VM in \<open>libs/lab_creation.py\<close>: Ignition and Combustion, cloud-init, the answer
  files of the installers, the values of virt-customize, the roster and states of Salt, and Helm.

  The files of the automation node are \<open>st_files\<close> of the site, directories left out. Rendering a template is
  bash's own expansion, a parameter: from the template's text and the environment the text, or what bash
  printed as its error.
\<close>

type_synonym renderer = "string option \<Rightarrow> (string \<times> string) list \<Rightarrow> string + string"

definition file_at :: "string \<Rightarrow> string option job" where
  "file_at path = act_get (\<lambda>s. map_of (st_files s) path)"

definition read_text :: "string \<Rightarrow> string job" where
  "read_text path = act_bind (file_at path) (\<lambda>t. case t of Some x \<Rightarrow> act_ret x | None \<Rightarrow> act_raise (OSError path))"

definition write_text :: "string \<Rightarrow> string \<Rightarrow> unit job" where
  "write_text path content = act_upd (\<lambda>s. s\<lparr>st_files := AList.update path content (st_files s)\<rparr>)"

section \<open>Templates\<close>

definition template_failed :: "string \<Rightarrow> string \<Rightarrow> string" where
  "template_failed path e = ''process_template failed on '' @ sq path @ '': '' @ str_strip e"

definition env_of :: "dict \<Rightarrow> (string \<times> string) list" where
  "env_of variables = map (\<lambda>(k, v). (k, if v = PNone then [] else py_str v)) variables"

definition process_template :: "renderer \<Rightarrow> string \<Rightarrow> dict \<Rightarrow> string job" where
  "process_template render path variables =
     act_bind (file_at path) (\<lambda>t. case render t (env_of variables) of
       Inl e \<Rightarrow> die (template_failed path e)
     | Inr out \<Rightarrow> act_ret out)"

section \<open>Ignition and Combustion\<close>

definition ROOT_PUB :: string where "ROOT_PUB = ''/root/.ssh/id_rsa.pub''"

definition ignition_text :: "string \<Rightarrow> string \<Rightarrow> string \<Rightarrow> string \<Rightarrow> string" where
  "ignition_text vm_name pwd_hash pub t =
     replace_text ''ROOT_SSH_KEY'' pub (replace_text ''ROOT_PWD_HASH'' pwd_hash (replace_text ''TEMPLATE_HN'' vm_name t))"

definition local_vars :: "(string \<times> string) list \<Rightarrow> string" where
  "local_vars vs = concat (map (\<lambda>(k, v). k @ ''='' @ v @ NL) vs)"

definition combustion_text :: "(string \<times> string) list \<Rightarrow> string \<Rightarrow> string \<Rightarrow> string" where
  "combustion_text vs ssh_key t =
     replace_text ''ROOT_SSH_KEY'' ssh_key (replace_first ''#local vars'' (''#local vars'' @ NL @ local_vars vs) t)"

record node_net =
  nn_mysource :: string
  nn_sourcepath :: string
  nn_mydns :: string
  nn_myip :: string
  nn_mymask :: string
  nn_mygw :: string
  nn_email :: string
  nn_regcode :: string
  nn_url :: string

definition net_vars :: "node_net \<Rightarrow> (string \<times> string) list" where
  "net_vars n =
     [(''mysource'', nn_mysource n), (''sourcepath'', nn_sourcepath n), (''mydns'', nn_mydns n), (''myip'', nn_myip n), (''mymask'', nn_mymask n),
      (''mygw'', nn_mygw n), (''SUSE_email'', nn_email n), (''SUSE_regcode'', nn_regcode n), (''SUSE_url'', nn_url n)]"

definition prepare_ignition_combustion :: "string \<Rightarrow> string \<Rightarrow> string \<Rightarrow> string \<Rightarrow> node_net \<Rightarrow> unit job" where
  "prepare_ignition_combustion vm_name lab_setup_path pwd_hash ssh_key n =
     act_bind (read_text ROOT_PUB) (\<lambda>pub.
     act_bind (read_text (path_join lab_setup_path ''ignition/template'')) (\<lambda>ign.
     act_then (write_text (path_join lab_setup_path (''ignition/'' @ vm_name @ ''.ign'')) (ignition_text vm_name pwd_hash (str_strip pub) ign))
     (act_bind (read_text (path_join lab_setup_path ''combustion/template'')) (\<lambda>cmb.
      write_text (path_join lab_setup_path (''combustion/'' @ vm_name)) (combustion_text (net_vars n) ssh_key cmb)))))"

section \<open>cloud-init\<close>

text \<open>\<open>not (v or "").strip()\<close>.\<close>

definition blank :: "pval \<Rightarrow> bool res" where
  "blank v = (if \<not> truthy v then Inr True else case v of PStr s \<Rightarrow> Inr (str_strip s = []) | _ \<Rightarrow> Inl (AttributeError ''strip''))"

definition cloud_vars :: "string \<Rightarrow> string \<Rightarrow> dict \<Rightarrow> dict" where
  "cloud_vars vm_name pub variables =
     (let a = AList.update ''ROOT_SSH_KEY'' (PStr pub) (AList.update ''_vm_name'' (PStr vm_name) variables);
          b = AList.update ''network_renderer'' (py_or (get a ''network_renderer'') (PStr ''NetworkManager'')) a in
      AList.update ''ISO_IMAGE'' (py_or (py_or (get b ''ISO_IMAGE'') (get b ''SOURCE_IMAGE'')) (PStr [])) b)"

definition network_template :: "bool \<Rightarrow> bool \<Rightarrow> string" where
  "network_template dhcp no_mac =
     (if dhcp then (if no_mac then ''network-config-dhcp-nomac'' else ''network-config-dhcp'') else ''network-config'')"

definition cloud_file :: "string \<Rightarrow> string \<Rightarrow> string \<Rightarrow> string" where
  "cloud_file base vm_name kind = path_join base (vm_name @ ''_'' @ kind)"

definition cloud_template :: "string \<Rightarrow> bool \<Rightarrow> bool \<Rightarrow> string \<Rightarrow> string" where
  "cloud_template base dhcp no_mac kind =
     path_join base (''template_'' @ (if kind = ''network-config'' then network_template dhcp no_mac else kind))"

definition CLOUD_KINDS :: "string list" where
  "CLOUD_KINDS = [''user-data'', ''network-config'', ''meta-data'']"

definition prepare_cloud_init :: "renderer \<Rightarrow> string \<Rightarrow> string \<Rightarrow> dict \<Rightarrow> unit job" where
  "prepare_cloud_init render vm_name lab_setup_path variables =
     (let base = path_join lab_setup_path ''cloud-init'' in
      act_bind (read_text ROOT_PUB) (\<lambda>pub.
      (let vs = cloud_vars vm_name (str_strip pub) variables in
       act_bind (act_res (blank (get vs ''myip''))) (\<lambda>dhcp. act_bind (act_res (blank (get vs ''mymac''))) (\<lambda>no_mac.
       act_for CLOUD_KINDS (\<lambda>kind.
         act_bind (process_template render (cloud_template base dhcp no_mac kind) vs) (write_text (cloud_file base vm_name kind))))))))"

section \<open>virt-customize\<close>

text \<open>The public key of a private key's path, when the file is there, else the user's own.\<close>

definition public_key :: "string \<Rightarrow> string \<Rightarrow> string option job" where
  "public_key home key_path =
     act_bind (if key_path = [] then act_ret None else file_at (key_path @ ''.pub'')) (\<lambda>own. case own of
       Some k \<Rightarrow> act_ret (Some (str_strip k))
     | None \<Rightarrow> act_bind (file_at (path_join home ''.ssh/id_rsa.pub'')) (\<lambda>k. act_ret (map_option str_strip k)))"

definition or_text :: "string \<Rightarrow> string \<Rightarrow> string" where
  "or_text a b = (if a = [] then b else a)"

definition DEFAULT_PASSWORD_WARNING :: string where
  "DEFAULT_PASSWORD_WARNING = ''WARNING: neither VM_ROOT_PASS nor ROOT_PWD_HASH is set '' @ emdash @ '' using default password '' @ sq ''linux''"

type_synonym net_value = string

definition prepare_virt_customize_for_vm ::
  "(plan \<Rightarrow> bool) \<Rightarrow> guest \<Rightarrow> string \<Rightarrow> string \<Rightarrow> net_value \<Rightarrow> net_value \<Rightarrow> net_value \<Rightarrow> net_value \<Rightarrow> net_value \<Rightarrow> net_value \<Rightarrow>
   string \<Rightarrow> string \<Rightarrow> string \<Rightarrow> plan job" where
  "prepare_virt_customize_for_vm succeeds g home vm_name myip mymask mygw mydns mydomain mymac vm_root_pass root_pwd_hash root_ssh_key_path =
     (let (plain, pass) = (if vm_root_pass \<noteq> [] then (True, vm_root_pass) else if root_pwd_hash \<noteq> [] then (False, root_pwd_hash) else (True, ''linux'')) in
      act_then (if vm_root_pass = [] \<and> root_pwd_hash = [] then warn DEFAULT_PASSWORD_WARNING else act_ret ())
      (act_bind (public_key home root_ssh_key_path) (\<lambda>pubkey.
       act_res (prepare_virt_customize succeeds g
         (script_values vm_name myip (or_text mymask ''24'') mygw mydns mydomain mymac plain pass pubkey)))))"

section \<open>Installers\<close>

definition scalar :: "string \<Rightarrow> string" where
  "scalar s = yaml_scalar (PStr s)"

record install_net =
  in_mac :: string
  in_ip :: string
  in_mask :: string
  in_gw :: string
  in_dns :: string
  in_domain :: string

definition autoinstall_lines :: "string \<Rightarrow> install_net \<Rightarrow> string \<Rightarrow> string \<Rightarrow> string list" where
  "autoinstall_lines vm_name n pwd_hash pub =
     [''#cloud-config'', ''autoinstall:'', ''  version: 1'', ''  locale: en_US.UTF-8'', ''  keyboard:'', ''    layout: us'', ''  network:'', ''    network:'',
      ''      version: 2'', ''      ethernets:'', ''        id0:'', ''          match:'', ''            macaddress: '' @ scalar (in_mac n),
      ''          set-name: eth0'', ''          dhcp4: no'', ''          addresses:'', ''            - '' @ scalar (in_ip n @ ''/'' @ in_mask n),
      ''          gateway4: '' @ scalar (in_gw n), ''          nameservers:'', ''            addresses: ['' @ scalar (in_dns n) @ '']'',
      ''            search: ['' @ scalar (in_domain n) @ '']'', ''  storage:'', ''    layout:'', ''      name: lvm'', ''  user-data:'', ''    disable_root: false'',
      ''    ssh_pwauth: true'', ''    users:'', ''      - name: root'', ''        lock_passwd: false'', ''        hashed_passwd: '' @ scalar pwd_hash,
      ''        ssh_authorized_keys:'', ''          - '' @ scalar pub, ''  ssh:'', ''    install-server: true'', ''    allow-pw: true'', ''  late-commands:'',
      ''    - mkdir -p /target/etc/ssh/sshd_config.d'',
      ''    - printf '' @ sq (''PermitRootLogin yes'' @ bsl ''nPasswordAuthentication yes'' @ bsl ''n'') @ '' > /target/etc/ssh/sshd_config.d/99-lab.conf'',
      ''    - echo '' @ dq vm_name @ '' > /target/etc/hostname'']"

definition meta_lines :: "string \<Rightarrow> string list" where
  "meta_lines vm_name = [''instance-id: '' @ vm_name, ''local-hostname: '' @ vm_name]"

definition ANSWER_EXT :: "(string \<times> string) list" where
  "ANSWER_EXT = [(''autoyast'', ''xml''), (''kickstart'', ''ks''), (''preseed'', ''preseed'')]"

definition no_answer_template :: "string \<Rightarrow> string" where
  "no_answer_template path = ''install_iso template not found: '' @ path"

definition answer_vars :: "string \<Rightarrow> install_net \<Rightarrow> string \<Rightarrow> string \<Rightarrow> string \<Rightarrow> dict" where
  "answer_vars vm_name n pwd_hash ssh_key pub =
     [(''ROOT_PWD_HASH'', PStr pwd_hash), (''ROOT_SSH_KEY'', PStr ssh_key), (''ROOT_SSH_PUBKEY'', PStr pub), (''_vm_name'', PStr vm_name),
      (''myip'', PStr (in_ip n)), (''mymask'', PStr (in_mask n)), (''mygw'', PStr (in_gw n)), (''mydns'', PStr (in_dns n)),
      (''mydomain'', PStr (in_domain n)), (''mymac'', PStr (in_mac n))]"

definition prepare_install_iso ::
  "renderer \<Rightarrow> string \<Rightarrow> string \<Rightarrow> string \<Rightarrow> pval \<Rightarrow> pval \<Rightarrow> install_net \<Rightarrow> string \<Rightarrow> string \<Rightarrow> unit job" where
  "prepare_install_iso render home vm_name lab_setup_path install_type iso_image n pwd_hash ssh_key =
     act_bind (act_res (resolve_install_type install_type iso_image)) (\<lambda>t.
     act_bind (public_key home ssh_key) (\<lambda>key.
     (let itype = py_str t; pub = (case key of Some k \<Rightarrow> k | None \<Rightarrow> []) in
      if itype = ''autoinstall'' then
        act_then (write_text (path_join lab_setup_path (''install_iso/'' @ vm_name @ ''/user-data'')) (unlines (autoinstall_lines vm_name n pwd_hash pub)))
          (write_text (path_join lab_setup_path (''install_iso/'' @ vm_name @ ''/meta-data'')) (unlines (meta_lines vm_name)))
      else
        (let tpl = path_join lab_setup_path (''install_iso/template_'' @ itype);
             ext = (case map_of ANSWER_EXT itype of Some e \<Rightarrow> e | None \<Rightarrow> ''None'') in
         act_bind (file_at tpl) (\<lambda>there.
         if there = None then die (no_answer_template tpl)
         else act_bind (process_template render tpl (answer_vars vm_name n pwd_hash ssh_key pub))
                (write_text (path_join lab_setup_path (''install_iso/'' @ vm_name @ ''.'' @ ext))))))))"

section \<open>Salt and Helm\<close>

definition roster :: "string \<Rightarrow> string \<Rightarrow> string" where
  "roster home vm_name =
     unlines [''managed:'', ''  host: '' @ vm_name, ''  user: root'', ''  sudo: False'', ''  priv: '' @ home @ ''/.ssh/id_rsa'']"

definition setup_salt :: "renderer \<Rightarrow> string \<Rightarrow> string \<Rightarrow> string \<Rightarrow> string \<Rightarrow> unit job" where
  "setup_salt render home vm_name salt_states lab_setup_path =
     act_then (write_text (path_join home ''salt-ssh/roster'') (roster home vm_name))
     (act_for (words salt_states) (\<lambda>state.
        act_bind (process_template render (path_join lab_setup_path (''salt-ssh/'' @ state)) [(''_vm_name'', PStr vm_name)])
          (write_text (path_join home (''salt-ssh/states/'' @ state)))))"

definition GET_HELM :: string where
  "GET_HELM = ''curl -#L https://raw.githubusercontent.com/helm/helm/main/scripts/get-helm-3 | bash''"

definition helm_cmd :: "dict \<Rightarrow> string \<Rightarrow> string res" where
  "helm_cmd config automation_host =
     res_bind (let v = get_dflt config ''PROVISIONING_BASE_URL'' (PStr []) in if \<not> truthy v then Inr [] else as_str v) (\<lambda>override.
     (let base = base_url automation_host override;
          tls = curl_tls_option base (tls_verify (get_dflt config ''PROVISIONING_TLS_VERIFY'' (PStr [])));
          fetch = join '' '' (filter (\<lambda>x. x \<noteq> []) [''curl'', tls, shlex_quote base @ ''/helm/install_helm.sh'']) in
      Inr (fetch @ '' | LAB_PROVISIONING_URL='' @ shlex_quote base @ '' LAB_CURL_TLS='' @ shlex_quote tls @ '' bash -'')))"

definition setup_helm :: "world \<Rightarrow> dict \<Rightarrow> string \<Rightarrow> bool \<Rightarrow> string \<Rightarrow> unit job" where
  "setup_helm w config hostname online automation_host =
     (if online then ssh_run w hostname GET_HELM
      else act_bind (act_res (helm_cmd config automation_host)) (\<lambda>cmd. ssh_run w hostname cmd))"

definition helm_repo_add :: "world \<Rightarrow> string \<Rightarrow> string \<Rightarrow> string \<Rightarrow> unit job" where
  "helm_repo_add w hostname repo_name repo_url =
     act_then (ssh_run w hostname (''helm repo add '' @ repo_name @ '' '' @ repo_url)) (ssh_run w hostname ''helm repo update'')"

section \<open>What is written\<close>

lemma read_text_run: "read_text path s = (case map_of (st_files s) path of Some t \<Rightarrow> (Inr t, s) | None \<Rightarrow> (Inl (OSError path), s))"
  by (simp add: read_text_def file_at_def act_simps split: option.split)

lemma code_iff: "n < 256 \<Longrightarrow> code c = n \<longleftrightarrow> c = char_of n"
  using char_of_code [of c] code_char_of [of n] by metis

lemma special_chars:
  "char_of (92::nat) = CHR 0x5C" "char_of (34::nat) = CHR 0x22" "char_of (10::nat) = CHR 0x0A" "char_of (13::nat) = CHR 0x0D"
  by code_simp+

lemma yaml_char_cases:
  "yaml_char c =
     (if c = CHR 0x5C then [CHR 0x5C, CHR 0x5C] else if c = CHR 0x22 then [CHR 0x5C, CHR 0x22]
      else if c = CHR 0x0A then [CHR 0x5C, CHR ''n''] else if c = CHR 0x0D then [CHR 0x5C, CHR ''r''] else [c])"
  by (simp add: yaml_char_def code_iff special_chars)

lemma yaml_char_no_NL: "CHR 0x0A \<notin> set (yaml_char c)"
  by (simp add: yaml_char_cases)

lemma scalar_no_NL: "CHR 0x0A \<notin> set (scalar v)"
  using yaml_char_no_NL by (auto simp: scalar_def yaml_scalar_def dq_def py_str_def)

text \<open>Reading a quoted scalar back: the text up to the first quote that is not escaped.\<close>

fun unquote :: "string \<Rightarrow> string \<times> string" where
  "unquote [] = ([], [])"
| "unquote [c] = (if c = CHR 0x22 then ([], []) else ([c], []))"
| "unquote (c # d # cs) =
     (if c = CHR 0x22 then ([], d # cs)
      else if c = CHR 0x5C then
        (let (t, rest) = unquote cs in ((if d = CHR ''n'' then CHR 0x0A else if d = CHR ''r'' then CHR 0x0D else d) # t, rest))
      else (let (t, rest) = unquote (d # cs) in (c # t, rest)))"

lemma unquote_char:
  assumes "unquote (r @ rest) = (t, u)" and "r \<noteq> []"
  shows "unquote (yaml_char c @ r @ rest) = (c # t, u)"
proof -
  obtain x xs where x: "r @ rest = x # xs" using assms(2) by (cases r) auto
  consider "c = CHR 0x5C" | "c = CHR 0x22" | "c = CHR 0x0A" | "c = CHR 0x0D" | "c \<notin> {CHR 0x5C, CHR 0x22, CHR 0x0A, CHR 0x0D}" by auto
  then show ?thesis
  proof cases
    case 5
    then show ?thesis using assms(1) by (simp add: yaml_char_cases x)
  qed (use assms(1) in \<open>simp_all add: yaml_char_cases x\<close>)
qed

lemma unquote_scalar: "unquote (tl (scalar v) @ rest) = (v, rest)"
proof -
  have "unquote (concat (map yaml_char v) @ CHR 0x22 # rest) = (v, rest)"
  proof (induction v)
    case Nil
    then show ?case by (cases rest) auto
  next
    case (Cons c v)
    have "unquote ((concat (map yaml_char v) @ [CHR 0x22]) @ rest) = (v, rest)" using Cons by simp
    from unquote_char [OF this, of c] show ?case by simp
  qed
  then show ?thesis by (simp add: scalar_def yaml_scalar_def dq_def py_str_def)
qed

lemma scalar_Cons: "scalar v = CHR 0x22 # tl (scalar v)"
  by (simp add: scalar_def yaml_scalar_def dq_def)

lemma split_unlines_last:
  assumes "\<And>l. l \<in> set ls \<Longrightarrow> CHR 0x0A \<notin> set l"
  shows "split_ch (CHR 0x0A) (unlines (ls @ [k])) = ls @ split_ch (CHR 0x0A) k @ [[]]"
  using assms
proof (induction ls)
  case Nil
  then show ?case using split_ch_append [of "CHR 0x0A" k "[]"] by (simp add: unlines_def NL_def)
next
  case (Cons l ls)
  have u: "unlines (l # ls @ [k]) = l @ CHR 0x0A # unlines (ls @ [k])" by (cases ls) (simp_all add: unlines_def NL_def)
  have "split_ch (CHR 0x0A) l = [l]" using Cons.prems by (intro split_ch_token) simp
  moreover have "split_ch (CHR 0x0A) (unlines (ls @ [k])) = ls @ split_ch (CHR 0x0A) k @ [[]]" by (rule Cons.IH) (use Cons.prems in simp)
  ultimately show ?case unfolding append_Cons u split_ch_append by simp
qed

text \<open>The lines of the document, and the last of them, with the name in it.\<close>

definition fixed_lines :: "install_net \<Rightarrow> string \<Rightarrow> string \<Rightarrow> string list" where
  "fixed_lines n pwd_hash pub = butlast (autoinstall_lines [] n pwd_hash pub)"

definition name_line :: "string \<Rightarrow> string" where
  "name_line vm_name = ''    - echo '' @ dq vm_name @ '' > /target/etc/hostname''"

lemma autoinstall_split: "autoinstall_lines vm_name n pwd_hash pub = fixed_lines n pwd_hash pub @ [name_line vm_name]"
  by (simp add: fixed_lines_def autoinstall_lines_def name_line_def)

lemma fixed_no_NL: "l \<in> set (fixed_lines n pwd_hash pub) \<Longrightarrow> CHR 0x0A \<notin> set l"
proof -
  have "list_all (\<lambda>l. CHR 0x0A \<notin> set l) (fixed_lines n pwd_hash pub)"
    by (simp add: fixed_lines_def autoinstall_lines_def scalar_no_NL sq_def dq_def QUOTE_def bsl_def special_chars)
  then show "l \<in> set (fixed_lines n pwd_hash pub) \<Longrightarrow> CHR 0x0A \<notin> set l" by (simp add: list_all_iff)
qed

text \<open>The lines with a value in them: where they are, what comes before the value and after it.\<close>

definition value_lines :: "install_net \<Rightarrow> string \<Rightarrow> string \<Rightarrow> (nat \<times> string \<times> string \<times> string) list" where
  "value_lines n pwd_hash pub =
     [(12, ''            macaddress: '', in_mac n, []), (16, ''            - '', in_ip n @ ''/'' @ in_mask n, []), (17, ''          gateway4: '', in_gw n, []),
      (19, ''            addresses: ['', in_dns n, '']''), (20, ''            search: ['', in_domain n, '']''),
      (30, ''        hashed_passwd: '', pwd_hash, []), (32, ''          - '', pub, [])]"

lemma value_line_at:
  assumes "(i, before, v, after) \<in> set (value_lines n pwd_hash pub)"
  shows "fixed_lines n pwd_hash pub ! i = before @ scalar v @ after"
  using assms by (auto simp: value_lines_def fixed_lines_def autoinstall_lines_def)

lemma path_join_neq: "f \<noteq> g \<Longrightarrow> \<not> starts_with f ''/'' \<Longrightarrow> \<not> starts_with g ''/'' \<Longrightarrow> path_join d f \<noteq> path_join d g"
  by (simp add: path_join_def)

lemma value_reads_back:
  assumes "(i, before, v, after) \<in> set (value_lines n pwd_hash pub)"
  shows "\<exists>q. fixed_lines n pwd_hash pub ! i = before @ CHR 0x22 # q \<and> unquote q = (v, after)"
  using value_line_at [OF assms] scalar_Cons [of v] unquote_scalar [of v after] by (metis append_Cons)

text \<open>The other lines are the same for every VM.\<close>

definition no_net :: install_net where
  "no_net = \<lparr>in_mac = [], in_ip = [], in_mask = [], in_gw = [], in_dns = [], in_domain = []\<rparr>"

lemma fixed_line_same:
  assumes "i < 39" and "i \<notin> {12, 16, 17, 19, 20, 30, 32}"
  shows "fixed_lines n pwd_hash pub ! i = fixed_lines m pwd_hash' pub' ! i"
proof -
  have "list_all (\<lambda>i. i \<in> {12, 16, 17, 19, 20, 30, 32} \<or> fixed_lines n pwd_hash pub ! i = fixed_lines m pwd_hash' pub' ! i) [0..<39]"
    by (simp add: upt_rec fixed_lines_def autoinstall_lines_def)
  moreover have "i \<in> set [0..<39]" using assms(1) by simp
  ultimately show ?thesis using assms(2) unfolding list_all_iff by blast
qed

text \<open>The public key there is: beside the key that was named, else the user's own, else none.\<close>

definition key_there :: "site \<Rightarrow> string \<Rightarrow> string \<Rightarrow> string" where
  "key_there s home ssh_key =
     (let own = map_of (st_files s) (path_join home ''.ssh/id_rsa.pub'');
          named = (if ssh_key = [] then None else map_of (st_files s) (ssh_key @ ''.pub'')) in
      case named of Some k \<Rightarrow> str_strip k | None \<Rightarrow> (case own of Some k \<Rightarrow> str_strip k | None \<Rightarrow> []))"

lemma public_key_there:
  "public_key home ssh_key s = (Inr key, s1) \<Longrightarrow> (case key of Some k \<Rightarrow> k | None \<Rightarrow> []) = key_there s home ssh_key \<and> s1 = s"
  by (auto simp: public_key_def key_there_def file_at_def act_simps Let_def split: if_splits option.splits)

text \<open>C27 The document an Ubuntu installation is answered with has the same 39 lines whatever the values, and then the line with the
  VM's name, the one thing written as it is: only a line break in the name adds a line. The address and its length, the gateway,
  the name server, the domain, the MAC address, the password hash and the public key there is (beside the named key, else the
  user's own) each read back from their line as they were given, and no other line depends on them.\<close>

theorem autoinstall_keeps_shape:
  assumes "prepare_install_iso render home vm_name lab_setup_path install_type iso_image n pwd_hash ssh_key s = (Inr (), t)"
    and "resolve_install_type install_type iso_image = Inr (PStr ''autoinstall'')"
  shows "\<exists>text ls. map_of (st_files t) (path_join lab_setup_path (''install_iso/'' @ vm_name @ ''/user-data'')) = Some text \<and>
    split_ch (CHR 0x0A) text = ls @ split_ch (CHR 0x0A) (name_line vm_name) @ [[]] \<and> length ls = 39 \<and>
    (\<forall>(i, before, v, after) \<in> set (value_lines n pwd_hash (key_there s home ssh_key)).
       \<exists>q. ls ! i = before @ CHR 0x22 # q \<and> unquote q = (v, after)) \<and>
    (\<forall>i < 39. i \<notin> {12, 16, 17, 19, 20, 30, 32} \<longrightarrow> ls ! i = fixed_lines no_net [] [] ! i)"
proof -
  obtain key s1 where k: "public_key home ssh_key s = (Inr key, s1)"
    using assms(1,2) by (auto simp: prepare_install_iso_def act_bind_eq_Inr act_res_app)
  define pub where "pub = key_there s home ssh_key"
  have key: "(case key of Some k \<Rightarrow> k | None \<Rightarrow> []) = pub" "s1 = s" using public_key_there [OF k] by (simp_all add: pub_def)
  let ?ud = "path_join lab_setup_path (''install_iso/'' @ vm_name @ ''/user-data'')"
  let ?md = "path_join lab_setup_path (''install_iso/'' @ vm_name @ ''/meta-data'')"
  let ?al = "autoinstall_lines vm_name n pwd_hash pub"
  let ?ls = "fixed_lines n pwd_hash pub"
  have "?ud \<noteq> ?md" by (rule path_join_neq) simp_all
  moreover have "t = s\<lparr>st_files := AList.update ?md (unlines (meta_lines vm_name)) (AList.update ?ud (unlines ?al) (st_files s))\<rparr>"
    using assms(1,2) k key
    by (auto simp: prepare_install_iso_def act_bind_app act_then_app act_res_app Let_def py_str_def write_text_def act_upd_app)
  ultimately have "map_of (st_files t) ?ud = Some (unlines ?al)" by (simp add: AList.update_conv)
  moreover have "split_ch (CHR 0x0A) (unlines ?al) = ?ls @ split_ch (CHR 0x0A) (name_line vm_name) @ [[]]"
    unfolding autoinstall_split by (rule split_unlines_last) (rule fixed_no_NL)
  moreover have "length ?ls = 39" by (simp add: fixed_lines_def autoinstall_lines_def)
  moreover have "\<forall>(i, before, v, after) \<in> set (value_lines n pwd_hash pub). \<exists>q. ?ls ! i = before @ CHR 0x22 # q \<and> unquote q = (v, after)"
    using value_reads_back by blast
  moreover have "\<forall>i < 39. i \<notin> {12, 16, 17, 19, 20, 30, 32} \<longrightarrow> ?ls ! i = fixed_lines no_net [] [] ! i" using fixed_line_same by blast
  ultimately show ?thesis unfolding pub_def by (intro exI conjI)
qed

definition ubuntu_net :: install_net where
  "ubuntu_net = \<lparr>in_mac = ''52:54:00:00:00:01'', in_ip = ''10.0.0.5'', in_mask = ''24'', in_gw = ''10.0.0.1'', in_dns = ''10.0.0.1'', in_domain = ''lab''\<rparr>"

definition empty_site :: site where
  "empty_site = \<lparr>st_log = [], st_files = [], st_warnings = []\<rparr>"

lemma autoinstall_keeps_shape_witness:
  "\<exists>t text ls. prepare_install_iso (\<lambda>_ _. Inr []) ''/root'' ''n1'' ''/srv'' (PStr ''autoinstall'') PNone ubuntu_net ''$6$h'' [] empty_site = (Inr (), t) \<and>
     map_of (st_files t) ''/srv/install_iso/n1/user-data'' = Some text \<and> split_ch (CHR 0x0A) text = ls @ [name_line ''n1'', []] \<and>
     (\<exists>q. ls ! 30 = ''        hashed_passwd: '' @ CHR 0x22 # q \<and> unquote q = (''$6$h'', []))"
proof -
  have r: "resolve_install_type (PStr ''autoinstall'') PNone = Inr (PStr ''autoinstall'')" by code_simp
  have p: "path_join ''/srv'' (''install_iso/'' @ ''n1'' @ ''/user-data'') = ''/srv/install_iso/n1/user-data''" by code_simp
  have "\<exists>t. prepare_install_iso (\<lambda>_ _. Inr []) ''/root'' ''n1'' ''/srv'' (PStr ''autoinstall'') PNone ubuntu_net ''$6$h'' [] empty_site = (Inr (), t)"
    by (simp add: prepare_install_iso_def r act_simps public_key_def file_at_def empty_site_def Let_def py_str_def write_text_def)
  then obtain t where t: "prepare_install_iso (\<lambda>_ _. Inr []) ''/root'' ''n1'' ''/srv'' (PStr ''autoinstall'') PNone ubuntu_net ''$6$h'' [] empty_site = (Inr (), t)"
    by blast
  have n: "split_ch (CHR 0x0A) (name_line ''n1'') = [name_line ''n1'']" by code_simp
  obtain doc ls where x: "map_of (st_files t) ''/srv/install_iso/n1/user-data'' = Some doc" "split_ch (CHR 0x0A) doc = ls @ [name_line ''n1'', []]"
    and v: "\<forall>(i, before, v, after) \<in> set (value_lines ubuntu_net ''$6$h'' (key_there empty_site ''/root'' [])).
      \<exists>q. ls ! i = before @ CHR 0x22 # q \<and> unquote q = (v, after)"
    using autoinstall_keeps_shape [OF t r] unfolding p unfolding n append_Cons append_Nil by (elim exE conjE) (rule that, assumption+)
  have "\<exists>q. ls ! 30 = ''        hashed_passwd: '' @ CHR 0x22 # q \<and> unquote q = (''$6$h'', [])"
    using bspec [OF v, of "(30, ''        hashed_passwd: '', ''$6$h'', [])"] by (simp add: value_lines_def)
  then show ?thesis using t x by blast
qed

section \<open>What modelling showed\<close>

text \<open>The values of the combustion script are shell assignments without quotes: what follows a blank is a command.\<close>

lemma combustion_value_unquoted: "local_vars [(''SUSE_regcode'', ''X reboot'')] = ''SUSE_regcode=X reboot'' @ NL"
  by code_simp

text \<open>A template without the line for them gets none of them, and nothing says so.\<close>

lemma combustion_vars_dropped: "combustion_text vs key [] = []"
  by (simp add: combustion_text_def replace_text.simps)

end
