(* ===== verification/Vm_Addresses.thy ===== *)
theory Vm_Addresses
  imports Lab_File Lab_Defs Ip_Alloc Remote_Run
begin

text \<open>
  What every backend of \<open>libs/backends.py\<close> shares: the MAC and the IP address a VM gets when the lab does
  not give one or gives one that is taken, the wait for a provider's address, and the readers of sizing
  tables, port lists and resource names.

  The lab definition is in memory and may be changed; its copies are files. The colour codes in messages
  are left out. The random MAC addresses, the hash, the answer on the terminal and what the allocator
  learns from outside are arguments. The locks that make a choice and its record one step have no
  counterpart: an action is one step.
\<close>

record lab_run =
  lr_defn :: lab_definition
  lr_files :: "string \<Rightarrow> lab_file"

type_synonym 'a run = "(lab_run, 'a) act"

section \<open>The definition in memory\<close>

text \<open>\<open>definition["nodes"][vm_name][key] = v\<close>, then \<open>primary.save_definition\<close>.\<close>

definition set_node_field :: "dict \<Rightarrow> string \<Rightarrow> string \<Rightarrow> pval \<Rightarrow> dict res" where
  "set_node_field defn vm_name key v =
     (case map_of defn ''nodes'' of
        None \<Rightarrow> Inl (KeyError ''nodes'')
      | Some (PDict nodes) \<Rightarrow>
          (case map_of nodes vm_name of
             None \<Rightarrow> Inl (KeyError vm_name)
           | Some (PDict c) \<Rightarrow> Inr (AList.update ''nodes'' (PDict (AList.update vm_name (PDict (AList.update key v c)) nodes)) defn)
           | Some _ \<Rightarrow> Inl (TypeError ''item assignment''))
      | Some _ \<Rightarrow> Inl (TypeError ''item''))"

definition record_field :: "string \<Rightarrow> string \<Rightarrow> pval \<Rightarrow> unit run" where
  "record_field vm_name key v =
     (\<lambda>s. case set_node_field (content (lr_defn s)) vm_name key v of
            Inl e \<Rightarrow> (Inl e, s)
          | Inr d \<Rightarrow> (Inr (), s\<lparr>lr_defn := (lr_defn s)\<lparr>content := d\<rparr>\<rparr>))"

definition save_run :: "formats \<Rightarrow> (dict \<Rightarrow> string) \<Rightarrow> unit run" where
  "save_run fmt json_dump = act_upd (\<lambda>s. s\<lparr>lr_files := snd (save_definition fmt json_dump (lr_defn s) (lr_files s))\<rparr>)"

section \<open>Addresses\<close>

definition no_address :: "string \<Rightarrow> string" where
  "no_address vm_name =
     ''No address could be allocated for '' @ dq vm_name @ '': set '' @ sq ''myip'' @ '' on it, or give the lab a '' @ sq ''mygw'' @
     '' and '' @ sq ''mymask'' @ '' with a free address in that network''"

definition check_or_generate_ip ::
  "formats \<Rightarrow> (dict \<Rightarrow> string) \<Rightarrow> ip_world \<Rightarrow> string list \<Rightarrow> string \<Rightarrow> pval \<Rightarrow> pval run" where
  "check_or_generate_ip fmt json_dump iw used_ips vm_name myip =
     (if \<not> is_empty myip then act_ret myip
      else act_bind (act_get (\<lambda>s. content (lr_defn s))) (\<lambda>defn.
        act_bind (act_res (allocate iw vm_name defn used_ips [] True)) (\<lambda>allocated.
        case allocated of
          None \<Rightarrow> act_raise (SystemExit (no_address vm_name))
        | Some ip \<Rightarrow>
            if ip = [] then act_raise (SystemExit (no_address vm_name))
            else act_then (record_field vm_name ''myip'' (PStr ip))
                 (act_then (save_run fmt json_dump) (act_ret (PStr ip))))))"

definition mac_conflict :: "string \<Rightarrow> string \<Rightarrow> string \<Rightarrow> string" where
  "mac_conflict vm_name old_mac owner =
     ''MAC conflict on '' @ dq vm_name @ '' ('' @ old_mac @ '' owned by '' @ sq owner @ '') '' @ emdash @ '' aborting''"

text \<open>
  \<open>mac_draws\<close>: the hashes a name gives, the random bytes, and how many draws are looked at. A loop
  that would go on after them is an error here; \<open>unused_mac_found\<close> says when it does not.
\<close>

record mac_draws =
  md_digest :: "string \<Rightarrow> nat \<Rightarrow> 8 word list"
  md_random :: "nat \<Rightarrow> 8 word list"
  md_fuel :: nat

definition new_mac :: "mac_draws \<Rightarrow> string set \<Rightarrow> string \<Rightarrow> string run" where
  "new_mac m used vm_name =
     (case generate_unused_mac (md_digest m) (md_random m) used vm_name (md_fuel m) of
        Some mac \<Rightarrow> act_ret mac
      | None \<Rightarrow> act_raise (RuntimeError ''drawing on''))"

definition network_arg :: "string \<Rightarrow> string \<Rightarrow> string \<Rightarrow> string" where
  "network_arg bridge mac vm_net_model =
     ''bridge='' @ bridge @ '',mac.address='' @ mac @ '',model='' @ (if vm_net_model \<noteq> [] then vm_net_model else ''virtio'')"

text \<open>\<open>re.match("^[Yy]$", answer)\<close>\<close>

definition says_yes :: "string \<Rightarrow> bool" where
  "says_yes reply = (chomp reply = ''y'' \<or> chomp reply = ''Y'')"

definition owner_of :: "(string \<times> string) list \<Rightarrow> string \<Rightarrow> string option" where
  "owner_of macs mac = map_option fst (find (\<lambda>(d, m). m = mac) macs)"

definition resolved_mac ::
  "formats \<Rightarrow> (dict \<Rightarrow> string) \<Rightarrow> mac_draws \<Rightarrow> string \<Rightarrow> (string \<times> string) list \<Rightarrow> string \<Rightarrow> pval \<Rightarrow> string run" where
  "resolved_mac fmt json_dump m reply macs vm_name mymac =
     (if is_empty mymac then new_mac m (snd ` set macs) vm_name
      else case mymac of
        PStr mac \<Rightarrow>
          (case owner_of macs (str_lower mac) of
             Some d \<Rightarrow>
               if d = [] \<or> d = vm_name then act_ret mac
               else if says_yes reply then
                 act_bind (new_mac m (snd ` set macs) []) (\<lambda>fresh.
                 act_then (record_field vm_name ''mymac'' (PStr fresh))
                 (act_then (save_run fmt json_dump) (act_ret fresh)))
               else act_raise (SystemExit (mac_conflict vm_name mac d))
           | None \<Rightarrow> act_ret mac)
      | _ \<Rightarrow> act_raise (AttributeError ''lower''))"

definition check_or_generate_mac ::
  "formats \<Rightarrow> (dict \<Rightarrow> string) \<Rightarrow> mac_draws \<Rightarrow> string \<Rightarrow> (string \<times> string) list \<Rightarrow> string \<Rightarrow> pval \<Rightarrow> string \<Rightarrow> string \<Rightarrow>
   (string \<times> string) run" where
  "check_or_generate_mac fmt json_dump m reply macs vm_name mymac bridge vm_net_model =
     act_bind (resolved_mac fmt json_dump m reply macs vm_name mymac) (\<lambda>mac.
     act_ret (mac, network_arg bridge mac vm_net_model))"

text \<open>A cloud assigns both itself.\<close>

definition cloud_no_mac :: "pval \<Rightarrow> pval \<times> string option" where
  "cloud_no_mac mymac = (py_or mymac (PStr []), None)"

definition cloud_no_ip :: "pval \<Rightarrow> pval" where
  "cloud_no_ip myip = py_or myip (PStr [])"

section \<open>Waiting for a provider's address\<close>

definition POLL_TIMEOUT :: nat where "POLL_TIMEOUT = 180"

definition POLL_INTERVAL :: nat where "POLL_INTERVAL = 5"

definition poll_timed_out :: "string \<Rightarrow> string" where
  "poll_timed_out vm_name =
     ''timed out after '' @ nat_str POLL_TIMEOUT @ ''s waiting for '' @ sq vm_name @ '' to be assigned a real IP address''"

function poll :: "('s, string option) act \<Rightarrow> string \<Rightarrow> nat \<Rightarrow> ('s, string) act" where
  "poll fetch vm_name waited =
     (if waited < POLL_TIMEOUT then
        act_bind fetch (\<lambda>ip. case ip of
            Some a \<Rightarrow> if a \<noteq> [] then act_ret a else poll fetch vm_name (waited + POLL_INTERVAL)
          | None \<Rightarrow> poll fetch vm_name (waited + POLL_INTERVAL))
      else act_raise (SystemExit (poll_timed_out vm_name)))"
  by pat_completeness auto
termination by (relation "measure (\<lambda>(_, _, waited). POLL_TIMEOUT - waited)") (auto simp: POLL_INTERVAL_def)

declare poll.simps [simp del]

definition poll_for_ip :: "('s, string option) act \<Rightarrow> string \<Rightarrow> ('s, string) act" where
  "poll_for_ip fetch vm_name = poll fetch vm_name 0"

section \<open>Sizing tables, ports and names\<close>

text \<open>\<open>'f\<close> are the floating-point numbers, \<open>to_float\<close> Python's reading of one.\<close>

type_synonym 'f sku = "string \<times> int \<times> 'f"

definition sku_form :: string where
  "sku_form = '' '' @ emdash @ '' expected '' @ dq ''name:cores:mem_gb'' @ '' (e.g. '' @ dq ''t3.medium:2:4'' @ '')''"

definition sku_invalid :: "string \<Rightarrow> string \<Rightarrow> string" where
  "sku_invalid config_key entry = config_key @ '' entry '' @ sq entry @ '' is invalid'' @ sku_form"

definition sku_not_numeric :: "string \<Rightarrow> string \<Rightarrow> string" where
  "sku_not_numeric config_key entry = config_key @ '' entry '' @ sq entry @ '' has a non-numeric cores/mem_gb field'' @ sku_form"

definition sku_entry :: "(string \<Rightarrow> 'f option) \<Rightarrow> string \<Rightarrow> string \<Rightarrow> 'f sku res" where
  "sku_entry to_float config_key entry =
     (case split_ch CHR '':'' entry of
        [name, cores_s, mem_s] \<Rightarrow>
          (case (py_int cores_s, to_float mem_s) of
             (Some cores, Some mem_gb) \<Rightarrow> Inr (name, cores, mem_gb)
           | _ \<Rightarrow> Inl (SystemExit (sku_not_numeric config_key entry)))
      | _ \<Rightarrow> Inl (SystemExit (sku_invalid config_key entry)))"

definition parse_sku_table :: "(string \<Rightarrow> 'f option) \<Rightarrow> pval \<Rightarrow> string \<Rightarrow> 'f sku list option res" where
  "parse_sku_table to_float raw config_key =
     (if \<not> truthy raw then Inr None
      else case raw of
        PStr s \<Rightarrow>
          res_bind (res_map (sku_entry to_float config_key) (filter (\<lambda>e. e \<noteq> []) (map str_strip (split_ch CHR '','' s)))) (\<lambda>table.
          if table = [] then Inl (SystemExit (config_key @ '' is set but contains no valid entries'')) else Inr (Some table))
      | _ \<Rightarrow> Inl (AttributeError ''split''))"

definition open_port :: "pval \<Rightarrow> (int \<times> string) res" where
  "open_port entry =
     (let s = py_str entry; port_s = takeWhile (\<lambda>c. c \<noteq> CHR ''/'') s; proto = drop 1 (dropWhile (\<lambda>c. c \<noteq> CHR ''/'') s) in
      case py_int port_s of
        None \<Rightarrow> Inl (ValueError port_s)
      | Some port \<Rightarrow> Inr (port, str_lower (if proto \<noteq> [] then proto else ''tcp'')))"

definition parse_open_ports :: "pval \<Rightarrow> (int \<times> string) list res" where
  "parse_open_ports ports = res_bind (or_list ports) (res_map open_port)"

text \<open>\<open>re.sub(r"[^a-z0-9-]+", "-", text.lower()).strip("-")\<close> and the rest of \<open>_gce_name\<close>.\<close>

definition gce_char :: "char \<Rightarrow> bool" where
  "gce_char c = (is_digit c \<or> 97 \<le> code c \<and> code c \<le> 122 \<or> c = CHR ''-'')"

fun dash_runs :: "bool \<Rightarrow> string \<Rightarrow> string" where
  "dash_runs inside [] = []"
| "dash_runs inside (c # cs) =
     (if gce_char c then c # dash_runs False cs else if inside then dash_runs True cs else CHR ''-'' # dash_runs True cs)"

definition gce_name :: "string \<Rightarrow> string" where
  "gce_name s =
     rstrip_ch CHR ''-'' (take 63 (''lab-'' @
       rstrip_ch CHR ''-'' (dropWhile (\<lambda>c. c = CHR ''-'') (dash_runs False (str_lower s)))))"

section \<open>Lemmas\<close>

lemma owner_of_None: "owner_of macs mac = None \<longleftrightarrow> mac \<notin> snd ` set macs"
  by (force simp: owner_of_def find_None_iff)

lemma owner_of_Some: "owner_of macs mac = Some d \<Longrightarrow> (d, mac) \<in> set macs"
  by (auto simp: owner_of_def find_Some_iff) (metis nth_mem)

lemma new_mac_run: "new_mac m used vm_name s = (Inr mac, s') \<Longrightarrow> s' = s \<and> mac \<notin> used"
  by (auto simp: new_mac_def generate_unused_mac_def act_simps dest: first_unused_Some split: option.splits if_splits)

lemma set_node_field_Inr:
  assumes "set_node_field defn vm_name key v = Inr d"
  shows "\<exists>nodes c. map_of defn ''nodes'' = Some (PDict nodes) \<and> map_of nodes vm_name = Some (PDict c) \<and>
    d = AList.update ''nodes'' (PDict (AList.update vm_name (PDict (AList.update key v c)) nodes)) defn"
  using assms by (auto simp: set_node_field_def split: option.splits pval.splits)

text \<open>Only the one field of the one node differs.\<close>

definition node_of :: "dict \<Rightarrow> string \<Rightarrow> dict option" where
  "node_of defn n = (case map_of defn ''nodes'' of
     Some (PDict nodes) \<Rightarrow> (case map_of nodes n of Some (PDict c) \<Rightarrow> Some c | _ \<Rightarrow> None) | _ \<Rightarrow> None)"

definition only_field :: "string \<Rightarrow> string \<Rightarrow> pval \<Rightarrow> dict \<Rightarrow> dict \<Rightarrow> bool" where
  "only_field vm_name key v old new =
     ((\<exists>c. node_of old vm_name = Some c \<and> node_of new vm_name = Some (AList.update key v c)) \<and>
      (\<forall>n. n \<noteq> vm_name \<longrightarrow> node_of new n = node_of old n) \<and> (\<forall>k. k \<noteq> ''nodes'' \<longrightarrow> map_of new k = map_of old k))"

lemma set_node_field_only: "set_node_field defn vm_name key v = Inr d \<Longrightarrow> only_field vm_name key v defn d"
  by (drule set_node_field_Inr) (auto simp: only_field_def node_of_def update_conv')

text \<open>The run's copy of the lab is written next to its source, which stays as it is.\<close>

definition recorded :: "formats \<Rightarrow> (dict \<Rightarrow> string) \<Rightarrow> string \<Rightarrow> string \<Rightarrow> pval \<Rightarrow> lab_run \<Rightarrow> lab_run \<Rightarrow> bool" where
  "recorded fmt json_dump vm_name key v s s' =
     (only_field vm_name key v (content (lr_defn s)) (content (lr_defn s')) \<and>
      source_path (lr_defn s') = source_path (lr_defn s) \<and>
      lr_files s' = snd (save_definition fmt json_dump (lr_defn s') (lr_files s)) \<and>
      lr_files s' (source_path (lr_defn s)) = lr_files s (source_path (lr_defn s)))"

lemma record_save:
  assumes "act_then (record_field vm_name key v) (act_then (save_run fmt json_dump) (act_ret x)) s = (Inr y, s')"
  shows "y = x \<and> recorded fmt json_dump vm_name key v s s'"
proof -
  obtain d where d: "set_node_field (content (lr_defn s)) vm_name key v = Inr d"
    and s': "y = x" "s' = s\<lparr>lr_defn := (lr_defn s)\<lparr>content := d\<rparr>,
      lr_files := snd (save_definition fmt json_dump ((lr_defn s)\<lparr>content := d\<rparr>) (lr_files s))\<rparr>"
    using assms by (auto simp: record_field_def save_run_def act_simps split: sum.splits)
  have "save_path ((lr_defn s)\<lparr>content := d\<rparr>) \<noteq> source_path (lr_defn s)" by (simp add: save_path_def)
  then show ?thesis using s' set_node_field_only [OF d] by (auto simp: recorded_def save_definition_def)
qed

lemma poll_step:
  "waited < POLL_TIMEOUT \<Longrightarrow> fetch s = (Inr r, s') \<Longrightarrow> r \<in> {None, Some []} \<Longrightarrow>
   poll fetch vm_name waited s = poll fetch vm_name (waited + POLL_INTERVAL) s'"
  by (subst poll.simps) (auto simp: act_bind_app)

lemma poll_found:
  "waited < POLL_TIMEOUT \<Longrightarrow> fetch s = (Inr (Some a), s') \<Longrightarrow> a \<noteq> [] \<Longrightarrow> poll fetch vm_name waited s = (Inr a, s')"
  by (subst poll.simps) (auto simp: act_simps)

lemma poll_over: "\<not> waited < POLL_TIMEOUT \<Longrightarrow> poll fetch vm_name waited s = (Inl (SystemExit (poll_timed_out vm_name)), s)"
  by (subst poll.simps) (auto simp: act_simps)

text \<open>A provider seen through its answers: the state counts the calls.\<close>

definition answers :: "(nat \<Rightarrow> string option) \<Rightarrow> (nat, string option) act" where
  "answers f = (\<lambda>n. (Inr (f n), Suc n))"

definition pending :: "string option \<Rightarrow> bool" where
  "pending r = (r = None \<or> r = Some [])"

lemma poll_answers:
  assumes "\<forall>j. i \<le> j \<and> j < k \<longrightarrow> pending (f j)" and "i \<le> k" "5 * k < 180" "f k = Some a" "a \<noteq> []"
  shows "poll (answers f) vm_name (5 * i) i = (Inr a, Suc k)"
  using assms
proof (induction "k - i" arbitrary: i)
  case 0
  then show ?case by (intro poll_found) (auto simp: POLL_TIMEOUT_def answers_def)
next
  case (Suc d)
  have "poll (answers f) vm_name (5 * i) i = poll (answers f) vm_name (5 * i + POLL_INTERVAL) (Suc i)"
    using Suc.prems Suc.hyps(2) by (intro poll_step) (auto simp: POLL_TIMEOUT_def answers_def pending_def)
  also have "\<dots> = poll (answers f) vm_name (5 * Suc i) (Suc i)" by (simp add: POLL_INTERVAL_def add.commute)
  also have "\<dots> = (Inr a, Suc k)" using Suc by (intro Suc.hyps(1)) auto
  finally show ?case .
qed

lemma poll_pending:
  assumes "\<forall>j. i \<le> j \<and> j < 36 \<longrightarrow> pending (f j)" and "i \<le> 36"
  shows "poll (answers f) vm_name (5 * i) i = (Inl (SystemExit (poll_timed_out vm_name)), 36)"
  using assms
proof (induction "36 - i" arbitrary: i)
  case 0
  then show ?case by (auto simp: poll_over POLL_TIMEOUT_def)
next
  case (Suc d)
  have "poll (answers f) vm_name (5 * i) i = poll (answers f) vm_name (5 * i + POLL_INTERVAL) (Suc i)"
    using Suc.prems Suc.hyps(2) by (intro poll_step) (auto simp: POLL_TIMEOUT_def answers_def pending_def)
  also have "\<dots> = poll (answers f) vm_name (5 * Suc i) (Suc i)" by (simp add: POLL_INTERVAL_def add.commute)
  also have "\<dots> = (Inl (SystemExit (poll_timed_out vm_name)), 36)" using Suc by (intro Suc.hyps(1)) auto
  finally show ?case .
qed

lemma gce_dash_runs: "list_all gce_char (dash_runs b s)"
  by (induction b s rule: dash_runs.induct) (auto simp: gce_char_def)

lemma set_rstrip: "set (rstrip_ch c s) \<subseteq> set s"
  by (auto simp: rstrip_ch_def dest: set_dropWhileD)

lemma rstrip_last: "rstrip_ch c s \<noteq> [] \<Longrightarrow> last (rstrip_ch c s) \<noteq> c"
  using hd_dropWhile [of "\<lambda>x. x = c" "rev s"] by (simp add: rstrip_ch_def last_rev)

lemma rstrip_after:
  assumes "\<forall>c \<in> set p. c \<noteq> d"
  shows "rstrip_ch d (p @ s) = p @ rstrip_ch d s"
proof -
  have "dropWhile (\<lambda>x. x = d) (rev p) = rev p" using assms by (cases p rule: rev_cases) auto
  moreover have "dropWhile (\<lambda>x. x = d) (rev s) = []" if "\<forall>x \<in> set s. x = d" using that by (simp add: dropWhile_eq_Nil_conv)
  ultimately show ?thesis by (auto simp: rstrip_ch_def dropWhile_append)
qed

section \<open>Properties\<close>

text \<open>C18 A VM is given a MAC that no VM of the hypervisor has, or keeps the one it was given when the
  hypervisor's first VM with that MAC is the VM itself; the network argument names the same MAC. The lab
  in memory and the run's copy of it change only when a conflict was resolved, and then only in this
  VM's mymac; the lab's source is never written.\<close>

theorem mac_settled:
  assumes "check_or_generate_mac fmt json_dump m reply macs vm_name mymac bridge model s = (Inr (mac, net), s')"
    and "[] \<notin> fst ` set macs"
  shows "net = network_arg bridge mac model \<and>
    (mac \<notin> snd ` set macs \<or> mymac = PStr mac \<and> owner_of macs (str_lower mac) \<in> {None, Some vm_name}) \<and>
    (s' = s \<or> recorded fmt json_dump vm_name ''mymac'' (PStr mac) s s' \<and>
      (\<exists>old d. mymac = PStr old \<and> owner_of macs (str_lower old) = Some d \<and> d \<noteq> vm_name \<and> says_yes reply))"
proof -
  obtain r: "resolved_mac fmt json_dump m reply macs vm_name mymac s = (Inr mac, s')" and n: "net = network_arg bridge mac model"
    using assms(1) by (auto simp: check_or_generate_mac_def act_bind_eq_Inr act_ret_app)
  have *: "(mac \<notin> snd ` set macs \<or> mymac = PStr mac \<and> owner_of macs (str_lower mac) \<in> {None, Some vm_name}) \<and>
    (s' = s \<or> recorded fmt json_dump vm_name ''mymac'' (PStr mac) s s' \<and>
      (\<exists>old d. mymac = PStr old \<and> owner_of macs (str_lower old) = Some d \<and> d \<noteq> vm_name \<and> says_yes reply))"
  proof (cases "is_empty mymac")
    case True
    then show ?thesis using r by (auto simp: resolved_mac_def dest: new_mac_run)
  next
    case False
    then obtain old where old: "mymac = PStr old" using r by (cases mymac) (auto simp: resolved_mac_def act_simps)
    show ?thesis
    proof (cases "owner_of macs (str_lower old)")
      case None
      then show ?thesis using r False old by (auto simp: resolved_mac_def act_simps)
    next
      case (Some d)
      then have "d \<noteq> []" using assms(2) by (force dest: owner_of_Some)
      with Some r False old show ?thesis
        by (auto simp: resolved_mac_def act_bind_eq_Inr act_ret_app act_raise_app dest!: new_mac_run record_save split: if_splits)
    qed
  qed
  with n show ?thesis by blast
qed

text \<open>C40 The wait for a provider's address ends: it asks at most 36 times, gives the first address that is
  not empty, and dies with the time-out's message when none of the 36 answers has one.\<close>

theorem poll_bounded:
  "poll_for_ip (answers f) vm_name 0 =
     (case find (\<lambda>k. \<not> pending (f k)) [0..<36] of
        Some k \<Rightarrow> (Inr (the (f k)), Suc k)
      | None \<Rightarrow> (Inl (SystemExit (poll_timed_out vm_name)), 36))"
proof (cases "find (\<lambda>k. \<not> pending (f k)) [0..<36]")
  case None
  then have "\<forall>j. 0 \<le> j \<and> j < 36 \<longrightarrow> pending (f j)" by (auto simp: find_None_iff)
  from poll_pending [OF this, of vm_name] None show ?thesis by (simp add: poll_for_ip_def)
next
  case (Some k)
  then have k: "k < 36" "\<not> pending (f k)" "\<forall>j. 0 \<le> j \<and> j < k \<longrightarrow> pending (f j)" by (auto simp: find_Some_iff)
  then obtain a where a: "f k = Some a" "a \<noteq> []" by (cases "f k") (auto simp: pending_def)
  from poll_answers [OF k(3) _ _ a, of vm_name] k(1) Some a show ?thesis by (simp add: poll_for_ip_def)
qed

text \<open>A name made for Google Compute Engine is one: at most 63 characters, each a lower-case letter, a
  digit or a dash, a letter first and no dash last, whatever the text it is made of.\<close>

theorem gce_name_valid:
  "length (gce_name s) \<le> 63 \<and> list_all gce_char (gce_name s) \<and> prefix ''lab'' (gce_name s) \<and> last (gce_name s) \<noteq> CHR ''-''"
proof -
  define b where "b = rstrip_ch CHR ''-'' (dropWhile (\<lambda>c. c = CHR ''-'') (dash_runs False (str_lower s)))"
  have g: "gce_name s = rstrip_ch CHR ''-'' (''lab'' @ take 60 (CHR ''-'' # b))" by (simp add: gce_name_def b_def)
  also have "\<dots> = ''lab'' @ rstrip_ch CHR ''-'' (take 60 (CHR ''-'' # b))" by (rule rstrip_after) simp
  finally have l: "gce_name s = ''lab'' @ rstrip_ch CHR ''-'' (take 60 (CHR ''-'' # b))" .
  have "length (rstrip_ch c t) \<le> length t" for c t using length_dropWhile_le [of _ "rev t"] by (simp add: rstrip_ch_def)
  from this [of "CHR ''-''" "take 60 (CHR ''-'' # b)"] have len: "length (gce_name s) \<le> 63" by (simp add: l)
  have "set b \<subseteq> set (dash_runs False (str_lower s))" unfolding b_def using set_rstrip by (fastforce dest: set_dropWhileD)
  then have "list_all gce_char b" using gce_dash_runs [of False "str_lower s"] by (auto simp: list_all_iff)
  then have "list_all gce_char (''lab'' @ take 60 (CHR ''-'' # b))"
    by (auto simp: list_all_iff gce_char_def code_def dest: in_set_takeD)
  then have chars: "list_all gce_char (gce_name s)" unfolding g using set_rstrip by (fastforce simp: list_all_iff)
  have "last (gce_name s) \<noteq> CHR ''-''" unfolding g
  proof (rule rstrip_last)
    show "rstrip_ch CHR ''-'' (''lab'' @ take 60 (CHR ''-'' # b)) \<noteq> []" unfolding g [symmetric] l by simp
  qed
  with len chars show ?thesis by (simp add: l)
qed

section \<open>A conflict\<close>

definition plain_dump :: formats where
  "plain_dump = \<lparr>json_loads = (\<lambda>_. Inl []), yaml_load = (\<lambda>_. Inl []), yaml_dump = (\<lambda>_. []), environ = (\<lambda>_. None)\<rparr>"

definition zero_draws :: mac_draws where
  "zero_draws = \<lparr>md_digest = (\<lambda>_ _. [0, 0, 0, 0, 0, 0]), md_random = (\<lambda>_. [0, 0, 0, 0, 0, 1]), md_fuel = 1\<rparr>"

definition shared_mac_run :: lab_run where
  "shared_mac_run = \<lparr>lr_defn = \<lparr>content = [(''nodes'', PDict [(''n1'', PDict [(''mymac'', PStr ''52:54:00:00:00:01'')]), (''n2'', PDict [])])],
     source_path = ''/lab.json'', fmt_of = ''json''\<rparr>, lr_files = (\<lambda>_. Absent)\<rparr>"

lemma mac_settled_witness:
  "\<exists>s'. recorded plain_dump (\<lambda>_. ''{}'') ''n1'' ''mymac'' (PStr ''02:00:00:00:00:01'') shared_mac_run s' \<and>
     ''02:00:00:00:00:01'' \<notin> snd ` set [(''old'', ''52:54:00:00:00:01'')]"
proof -
  let ?m = "check_or_generate_mac plain_dump (\<lambda>_. ''{}'') zero_draws ''y'' [(''old'', ''52:54:00:00:00:01'')] ''n1''
      (PStr ''52:54:00:00:00:01'') ''br0'' [] shared_mac_run"
  define s' where "s' = snd ?m"
  have f: "fst ?m = Inr (''02:00:00:00:00:01'', network_arg ''br0'' ''02:00:00:00:00:01'' [])" by code_simp
  have m: "?m = (Inr (''02:00:00:00:00:01'', network_arg ''br0'' ''02:00:00:00:00:01'' []), s')"
    by (rule prod_eqI) (simp_all only: f s'_def fst_conv snd_conv)
  have "get (content (lr_defn (snd ?m))) ''nodes'' \<noteq> get (content (lr_defn shared_mac_run)) ''nodes''" by code_simp
  then have "s' \<noteq> shared_mac_run" unfolding s'_def by metis
  then show ?thesis using mac_settled [OF m] by auto
qed

section \<open>Findings\<close>

text \<open>Only the first VM that has the MAC is looked at: the MAC is taken as the VM's own although another VM has it too.\<close>

lemma second_owner_unseen:
  assumes "str_lower mac = mac" and "mac \<noteq> []"
  shows "check_or_generate_mac fmt json_dump m reply [(''n1'', mac), (''n2'', mac)] ''n1'' (PStr mac) bridge model s =
    (Inr (mac, network_arg bridge mac model), s)"
  using assms by (simp add: check_or_generate_mac_def resolved_mac_def is_empty_def owner_of_def act_simps)

end
