(* ===== verification/Libvirt_Backend.thy ===== *)
theory Libvirt_Backend
  imports Kvm_Hosts Vm_Addresses Provision_Files
begin

text \<open>
  The KVM backend: \<open>LibvirtBackend\<close> of \<open>libs/backends.py\<close>, \<open>run_libvirt_tool\<close> and
  \<open>ensure_iso_install_tree\<close> of \<open>libs/lab_creation.py\<close>, as jobs on the log of everything run.

  A text that may be None is the empty text where the code only asks whether it is set. A local command is
  \<open>Local\<close> with its arguments. What Python itself looks up (the programs installed, an address by name, an open
  port, the name of a temporary file) is \<open>outlook\<close>; a lookup may depend on all that was run before. Sleeps, log
  lines and the removal of the local seed image are left out.
\<close>

record libvirt_backend =
  lb_virt_srv :: string
  lb_remote_host :: string
  lb_iso_loc :: string
  lb_vm_img_loc :: string
  lb_lab_setup_path :: string
  lb_graphics :: "string option"

record outlook =
  ol_program :: "string \<Rightarrow> bool"
  ol_address :: "string \<Rightarrow> event list \<Rightarrow> string option"
  ol_ssh_port :: "string \<Rightarrow> event list \<Rightarrow> bool"
  ol_temp :: "string \<Rightarrow> string \<Rightarrow> string"

section \<open>The tools\<close>

definition no_tool :: "string \<Rightarrow> string" where
  "no_tool binary = ''no local '' @ binary @ '' and no remote_host to reach it via SSH''"

definition tool_event :: "outlook \<Rightarrow> libvirt_backend \<Rightarrow> string \<Rightarrow> string list \<Rightarrow> event" where
  "tool_event ol b binary args =
     (if ol_program ol binary then Local ([binary, ''--connect'', lb_virt_srv b] @ args) []
      else Ssh (lb_remote_host b) (binary @ '' --connect qemu:///system '' @ join '' '' (map shlex_quote args)))"

definition run_libvirt_tool :: "world \<Rightarrow> outlook \<Rightarrow> libvirt_backend \<Rightarrow> string \<Rightarrow> string list \<Rightarrow> (int \<times> string) job" where
  "run_libvirt_tool w ol b binary args =
     (if \<not> ol_program ol binary \<and> lb_remote_host b = [] then act_raise (RuntimeError (no_tool binary))
      else happen w (tool_event ol b binary args))"

definition virsh :: "world \<Rightarrow> outlook \<Rightarrow> libvirt_backend \<Rightarrow> string list \<Rightarrow> (int \<times> string) job" where
  "virsh w ol b args = run_libvirt_tool w ol b ''virsh'' args"

definition virt_install :: "world \<Rightarrow> outlook \<Rightarrow> libvirt_backend \<Rightarrow> string list \<Rightarrow> (int \<times> string) job" where
  "virt_install w ol b args = run_libvirt_tool w ol b ''virt-install'' args"

definition virt_xml :: "world \<Rightarrow> outlook \<Rightarrow> libvirt_backend \<Rightarrow> string list \<Rightarrow> (int \<times> string) job" where
  "virt_xml w ol b args = run_libvirt_tool w ol b ''virt-xml'' args"

definition no_spice :: "int \<Rightarrow> string \<Rightarrow> bool" where
  "no_spice rc out = (rc = 0 \<and> contains (''<graphics supported='' @ sq ''yes'' @ ''>'') out \<and> \<not> contains ''<value>spice</value>'' out)"

definition graphics :: "world \<Rightarrow> outlook \<Rightarrow> libvirt_backend \<Rightarrow> string job" where
  "graphics w ol b =
     (case lb_graphics b of
        Some v \<Rightarrow> act_ret v
      | None \<Rightarrow> act_bind (virsh w ol b [''domcapabilities'']) (\<lambda>(rc, out).
                 act_ret ((if no_spice rc out then ''vnc'' else ''spice'') @ '',listen=0.0.0.0'')))"

definition libvirt_resolve ::
  "(string \<Rightarrow> resources res) \<Rightarrow> (string \<Rightarrow> pval \<Rightarrow> bool res) \<Rightarrow> dict \<Rightarrow> string \<Rightarrow> dict \<Rightarrow> bool \<Rightarrow> string \<Rightarrow> string \<Rightarrow> string \<Rightarrow>
   libvirt_backend res" where
  "libvirt_resolve probe has_domain defn vm_name config for_existing vm_img_loc iso_loc lab_setup_path =
     res_bind (if for_existing then locate_kvm_host has_domain defn vm_name config else resolve_kvm_host probe defn vm_name config)
       (\<lambda>(remote_host, virt_srv).
     Inr \<lparr>lb_virt_srv = str_of virt_srv, lb_remote_host = str_of remote_host, lb_iso_loc = iso_loc, lb_vm_img_loc = vm_img_loc,
          lb_lab_setup_path = lab_setup_path, lb_graphics = None\<rparr>)"

section \<open>What is on the hypervisor\<close>

definition lower_hex :: "char \<Rightarrow> bool" where
  "lower_hex c = (is_digit c \<or> 97 \<le> code c \<and> code c \<le> 102)"

definition mac_text :: "string \<Rightarrow> bool" where
  "mac_text s = (let ps = split_ch CHR '':'' s in length ps = 6 \<and> list_all (\<lambda>p. length p = 2 \<and> list_all lower_hex p) ps)"

definition if_line :: "string \<Rightarrow> string option" where
  "if_line l =
     (let fs = words l in
      case l of [] \<Rightarrow> None
      | c # _ \<Rightarrow> if is_space c \<and> 5 \<le> length fs \<and> mac_text (str_lower (fs ! 4)) then Some (str_lower (fs ! 4)) else None)"

fun domain_macs :: "world \<Rightarrow> outlook \<Rightarrow> libvirt_backend \<Rightarrow> string list \<Rightarrow> (string \<times> string) list \<Rightarrow> (string \<times> string) list job" where
  "domain_macs w ol b [] macs = act_ret macs"
| "domain_macs w ol b (d # ds) macs =
     act_bind (virsh w ol b [''domiflist'', d]) (\<lambda>(_, out).
     domain_macs w ol b ds (case first_some if_line (splitlines out) of None \<Rightarrow> macs | Some m \<Rightarrow> AList.update d m macs))"

definition list_used_macs :: "world \<Rightarrow> outlook \<Rightarrow> libvirt_backend \<Rightarrow> (string list \<times> (string \<times> string) list) job" where
  "list_used_macs w ol b =
     act_bind (virsh w ol b [''list'', ''--all'', ''--name'']) (\<lambda>(_, out).
     (let domains = filter (\<lambda>d. d \<noteq> []) (map str_strip (splitlines out)) in
      act_bind (domain_macs w ol b domains []) (\<lambda>macs. act_ret (domains, macs))))"

definition vm_exists :: "world \<Rightarrow> outlook \<Rightarrow> libvirt_backend \<Rightarrow> string \<Rightarrow> bool job" where
  "vm_exists w ol b vm_name = act_bind (virsh w ol b [''dominfo'', vm_name]) (\<lambda>(rc, _). act_ret (rc = 0))"

fun network_leases :: "world \<Rightarrow> outlook \<Rightarrow> libvirt_backend \<Rightarrow> string list \<Rightarrow> string list job" where
  "network_leases w ol b [] = act_ret []"
| "network_leases w ol b (n # ns) =
     act_bind (virsh w ol b [''net-dhcp-leases'', n]) (\<lambda>(_, out).
     act_bind (network_leases w ol b ns) (\<lambda>more_ips. act_ret (rx_findall IPV4 out @ more_ips)))"

definition neighbours :: "world \<Rightarrow> libvirt_backend \<Rightarrow> (int \<times> string) job" where
  "neighbours w b =
     (if lb_remote_host b \<noteq> [] then ssh_try w (lb_remote_host b) ''ip -4 neigh show''
      else happen w (Local [''ip'', ''-4'', ''neigh'', ''show''] []))"

definition list_used_ips :: "world \<Rightarrow> outlook \<Rightarrow> libvirt_backend \<Rightarrow> string list job" where
  "list_used_ips w ol b =
     act_bind (virsh w ol b [''net-list'', ''--name'']) (\<lambda>(_, nets).
     act_bind (network_leases w ol b (words nets)) (\<lambda>leased.
     act_bind (neighbours w b) (\<lambda>(_, out). act_ret (leased @ rx_findall IPV4 out))))"

text \<open>A choice of address sees the hypervisor and the lab: the state of both.\<close>

definition on_site :: "'a job \<Rightarrow> (site \<times> lab_run, 'a) act" where
  "on_site m = (\<lambda>(s, r). case m s of (x, s') \<Rightarrow> (x, (s', r)))"

definition on_run :: "'a run \<Rightarrow> (site \<times> lab_run, 'a) act" where
  "on_run m = (\<lambda>(s, r). case m r of (x, r') \<Rightarrow> (x, (s, r')))"

definition libvirt_mac ::
  "world \<Rightarrow> outlook \<Rightarrow> libvirt_backend \<Rightarrow> formats \<Rightarrow> (dict \<Rightarrow> string) \<Rightarrow> mac_draws \<Rightarrow> string \<Rightarrow> string \<Rightarrow> pval \<Rightarrow> string \<Rightarrow> string \<Rightarrow>
   (site \<times> lab_run, string \<times> string) act" where
  "libvirt_mac w ol b fmt json_dump m reply vm_name mymac bridge vm_net_model =
     act_bind (on_site (list_used_macs w ol b)) (\<lambda>(_, macs).
     on_run (check_or_generate_mac fmt json_dump m reply macs vm_name mymac bridge vm_net_model))"

definition libvirt_ip ::
  "world \<Rightarrow> outlook \<Rightarrow> libvirt_backend \<Rightarrow> formats \<Rightarrow> (dict \<Rightarrow> string) \<Rightarrow> ip_world \<Rightarrow> string \<Rightarrow> pval \<Rightarrow> (site \<times> lab_run, pval) act" where
  "libvirt_ip w ol b fmt json_dump iw vm_name myip =
     act_bind (on_site (list_used_ips w ol b)) (\<lambda>used. on_run (check_or_generate_ip fmt json_dump iw used vm_name myip))"

section \<open>Keeping, rebooting, deleting\<close>

definition reachable_for_keep :: "world \<Rightarrow> outlook \<Rightarrow> string \<Rightarrow> string \<Rightarrow> bool job" where
  "reachable_for_keep w ol vm_name myip =
     act_bind (act_get (\<lambda>s. ol_address ol vm_name (st_log s))) (\<lambda>resolved_ip.
     if resolved_ip \<noteq> Some myip then act_ret False else ssh_ok w vm_name ''exit 0'')"

definition vm_is_reusable :: "world \<Rightarrow> outlook \<Rightarrow> libvirt_backend \<Rightarrow> string \<Rightarrow> string \<Rightarrow> string \<Rightarrow> bool job" where
  "vm_is_reusable w ol b vm_name mymac myip =
     act_bind (virsh w ol b [''domstate'', vm_name]) (\<lambda>(_, out).
     if str_strip out \<noteq> ''running'' then act_ret False
     else if mymac = [] then reachable_for_keep w ol vm_name myip
     else act_bind (list_used_macs w ol b) (\<lambda>(_, macs).
          if str_lower mymac \<noteq> (case map_of macs vm_name of Some m \<Rightarrow> m | None \<Rightarrow> ''NOT_FOUND'') then act_ret False
          else reachable_for_keep w ol vm_name myip))"

definition lifecycle :: "string \<Rightarrow> string list" where
  "lifecycle vm_name = [''event'', vm_name, ''--event'', ''lifecycle'', ''--timeout'', ''120'']"

definition reboot_vm :: "world \<Rightarrow> outlook \<Rightarrow> libvirt_backend \<Rightarrow> string \<Rightarrow> unit job" where
  "reboot_vm w ol b vm_name =
     act_bind (act_get (\<lambda>s. ol_ssh_port ol vm_name (st_log s))) (\<lambda>reachable.
     if reachable then act_then (ssh_try w vm_name ''sync && reboot'') (act_ret ())
     else act_then (virsh w ol b [''reboot'', vm_name])
         (act_bind (virsh w ol b (lifecycle vm_name)) (\<lambda>(rebooted, _).
          if rebooted = 0 then act_ret ()
          else act_then (virsh w ol b [''shutdown'', vm_name])
              (act_bind (virsh w ol b (lifecycle vm_name)) (\<lambda>(stopped, _).
               act_bind (virsh w ol b [''domstate'', vm_name]) (\<lambda>(_, state).
               act_then (virsh w ol b [if stopped = 0 \<or> contains ''shut off'' state then ''start'' else ''reset'', vm_name])
                 (act_ret ())))))))"

definition delete_vm :: "world \<Rightarrow> outlook \<Rightarrow> libvirt_backend \<Rightarrow> string \<Rightarrow> unit job" where
  "delete_vm w ol b vm_name =
     act_then (virsh w ol b [''destroy'', vm_name])
     (act_then (virsh w ol b [''undefine'', vm_name, ''--nvram'', ''--remove-all-storage'']) (act_ret ()))"

section \<open>What was run\<close>

text \<open>
  \<open>succeeded w e s s'\<close>: between the two states the command \<open>e\<close> was run and exited 0. \<open>does P m\<close>: \<open>m\<close> runs only commands
  of which \<open>P\<close> holds.
\<close>

definition succeeded :: "world \<Rightarrow> event \<Rightarrow> site \<Rightarrow> site \<Rightarrow> bool" where
  "succeeded w e s s' = (\<exists>before after. st_log s' = st_log s @ before @ e # after \<and> fst (w_answer w e (st_log s @ before)) = 0)"

definition does :: "(event \<Rightarrow> bool) \<Rightarrow> 'a job \<Rightarrow> bool" where
  "does P m = (\<forall>s. \<exists>es. st_log (snd (m s)) = st_log s @ es \<and> list_all P es)"

named_theorems does_intros

lemma does_ret [does_intros]: "does P (act_ret x)" by (simp add: does_def act_simps)

lemma does_raise [does_intros]: "does P (act_raise e)" by (simp add: does_def act_simps)

lemma does_get [does_intros]: "does P (act_get f)" by (simp add: does_def act_simps)

lemma does_res [does_intros]: "does P (act_res r)" by (simp add: does_def act_simps)

lemma does_happen [does_intros]: "P e \<Longrightarrow> does P (happen w e)" by (simp add: does_def happen_def)

lemma does_bind [does_intros]:
  assumes "does P m" and "\<And>x. does P (f x)"
  shows "does P (act_bind m f)"
  unfolding does_def
proof
  fix s
  obtain r u where u: "m s = (r, u)" by fastforce
  obtain es where es: "st_log u = st_log s @ es" "list_all P es" using assms(1) u unfolding does_def by (metis snd_conv)
  show "\<exists>es. st_log (snd (act_bind m f s)) = st_log s @ es \<and> list_all P es"
  proof (cases r)
    case (Inr x)
    obtain es' where "st_log (snd (f x u)) = st_log u @ es'" "list_all P es'" using assms(2) unfolding does_def by metis
    then show ?thesis using u Inr es by (intro exI [of _ "es @ es'"]) (simp add: act_bind_app)
  qed (use u es in \<open>auto simp: act_bind_app\<close>)
qed

lemma does_then [does_intros]: "does P m \<Longrightarrow> does P n \<Longrightarrow> does P (act_then m n)"
  by (simp add: act_then_def does_bind)

lemma does_pair [does_intros]: "(\<And>x y. does P (f x y)) \<Longrightarrow> does P (case p of (x, y) \<Rightarrow> f x y)" by (cases p) simp

lemma grows_does: "does P m \<Longrightarrow> grows m"
  unfolding does_def grows_def by blast

lemma does_ssh [does_intros]: "P (Ssh h c) \<Longrightarrow> does P (ssh_ok w h c)" "P (Ssh h c) \<Longrightarrow> does P (ssh_try w h c)"
  by (auto simp: ssh_ok_def ssh_try_def intro!: does_intros)

lemma does_tool [does_intros]: "P (tool_event ol b binary args) \<Longrightarrow> does P (run_libvirt_tool w ol b binary args)"
  by (simp add: run_libvirt_tool_def does_intros)

lemma grows_of_get [grows_intros]: "grows (act_get f)" by (simp add: grows_def act_simps)

lemma grows_map [grows_intros]: "(\<And>x. grows (f x)) \<Longrightarrow> grows (act_map f xs)"
  by (induction xs) (auto intro!: grows_intros)

lemma grows_tool [grows_intros]:
  "grows (run_libvirt_tool w ol b binary args)" "grows (virsh w ol b args)" "grows (virt_install w ol b args)"
  "grows (virt_xml w ol b args)"
  by (auto simp: run_libvirt_tool_def virsh_def virt_install_def virt_xml_def intro!: grows_intros)

lemma succeeded_now: "happen w e s = (Inr (0, out), u) \<Longrightarrow> succeeded w e s u"
  by (auto simp: happen_def succeeded_def intro!: exI [of _ "[]"])

lemma succeeded_after: "grows m \<Longrightarrow> m u = (r, t) \<Longrightarrow> succeeded w e s u \<Longrightarrow> succeeded w e s t"
  unfolding grows_def succeeded_def by (metis append_Cons append_assoc snd_conv)

lemma succeeded_before: "grows m \<Longrightarrow> m s = (r, u) \<Longrightarrow> succeeded w e u t \<Longrightarrow> succeeded w e s t"
  unfolding grows_def succeeded_def by (metis append_assoc snd_conv)

lemma ssh_ok_succeeded: "ssh_ok w h c s = (Inr True, u) \<Longrightarrow> succeeded w (Ssh h c) s u"
  by (auto simp: ssh_ok_def ssh_try_def act_bind_eq_Inr act_ret_app intro: succeeded_now)

lemma tool_Inr: "run_libvirt_tool w ol b binary args s = (Inr x, u) \<Longrightarrow> happen w (tool_event ol b binary args) s = (Inr x, u)"
  by (simp add: run_libvirt_tool_def act_raise_app split: if_splits)

section \<open>Keeping a VM\<close>

definition looks :: "outlook \<Rightarrow> libvirt_backend \<Rightarrow> string \<Rightarrow> event \<Rightarrow> bool" where
  "looks ol b vm_name e =
     ((\<exists>verb args. verb \<in> {''domstate'', ''list'', ''domiflist''} \<and> e = tool_event ol b ''virsh'' (verb # args)) \<or>
      e = Ssh vm_name ''exit 0'')"

lemma does_virsh [does_intros]:
  "verb \<in> {''domstate'', ''list'', ''domiflist''} \<Longrightarrow> does (looks ol b vm_name) (virsh w ol b (verb # args))"
  unfolding virsh_def by (rule does_tool) (auto simp: looks_def)

lemma does_domain_macs [does_intros]: "does (looks ol b vm_name) (domain_macs w ol b ds macs)"
  by (induction ds arbitrary: macs) (auto intro!: does_intros)

lemma does_list_used_macs [does_intros]: "does (looks ol b vm_name) (list_used_macs w ol b)"
  unfolding list_used_macs_def Let_def by (intro does_intros) simp_all

lemma does_reachable [does_intros]: "does (looks ol b vm_name) (reachable_for_keep w ol vm_name myip)"
  unfolding reachable_for_keep_def by (auto intro!: does_intros simp: looks_def)

lemma does_reusable: "does (looks ol b vm_name) (vm_is_reusable w ol b vm_name mymac myip)"
  unfolding vm_is_reusable_def by (auto intro!: does_intros)

lemma lower_not_marker: "str_lower s \<noteq> ''NOT_FOUND''"
proof
  assume "str_lower s = ''NOT_FOUND''"
  then obtain c where "lower_char c = CHR ''N''" by (auto simp: str_lower_def map_eq_Cons_conv)
  then have "code (lower_char c) = 78" by (simp add: code_def)
  then show False by (auto simp: lower_char_def code_def split: if_splits)
qed

lemma reachable_True:
  assumes "reachable_for_keep w ol vm_name myip s = (Inr True, s')"
  shows "ol_address ol vm_name (st_log s) = Some myip \<and> succeeded w (Ssh vm_name ''exit 0'') s s'"
  using assms by (auto simp: reachable_for_keep_def act_bind_app act_get_app act_ret_app split: if_splits intro: ssh_ok_succeeded)

text \<open>What the hypervisor said of the VM's interfaces when it was asked, some time between two states.\<close>

definition between :: "site \<Rightarrow> site \<Rightarrow> event list \<Rightarrow> bool" where
  "between s s' log = (prefix (st_log s) log \<and> prefix log (st_log s'))"

lemma between_grows:
  assumes "grows m" "m s = (r, u)" "grows n" "n u = (q, t)"
  shows "between s t (st_log u)"
  using assms unfolding grows_def between_def prefix_def by (metis snd_conv)

definition has_mac :: "world \<Rightarrow> outlook \<Rightarrow> libvirt_backend \<Rightarrow> string \<Rightarrow> string \<Rightarrow> site \<Rightarrow> site \<Rightarrow> bool" where
  "has_mac w ol b vm_name mac s s' =
     (\<exists>u t domains macs. between s s' (st_log u) \<and> list_used_macs w ol b u = (Inr (domains, macs), t) \<and> map_of macs vm_name = Some mac)"

lemma grows_reachable: "grows (reachable_for_keep w ol vm_name myip)"
  unfolding reachable_for_keep_def by (intro grows_intros)

lemma grows_used_macs: "grows (list_used_macs w ol b)"
  using does_list_used_macs by (rule grows_does)

definition running_at :: "world \<Rightarrow> outlook \<Rightarrow> libvirt_backend \<Rightarrow> string \<Rightarrow> event list \<Rightarrow> bool" where
  "running_at w ol b vm_name log = (str_strip (snd (w_answer w (tool_event ol b ''virsh'' [''domstate'', vm_name]) log)) = ''running'')"

definition mac_checked :: "world \<Rightarrow> outlook \<Rightarrow> libvirt_backend \<Rightarrow> string \<Rightarrow> string \<Rightarrow> string \<Rightarrow> bool job" where
  "mac_checked w ol b vm_name mymac myip =
     (if mymac = [] then reachable_for_keep w ol vm_name myip
      else act_bind (list_used_macs w ol b) (\<lambda>(_, macs).
        if str_lower mymac \<noteq> (case map_of macs vm_name of Some m \<Rightarrow> m | None \<Rightarrow> ''NOT_FOUND'') then act_ret False
        else reachable_for_keep w ol vm_name myip))"

lemma grows_mac_checked: "grows (mac_checked w ol b vm_name mymac myip)"
  unfolding mac_checked_def by (auto intro!: grows_intros grows_used_macs grows_reachable)

lemma mac_checked_True:
  assumes "mac_checked w ol b vm_name mymac myip u = (Inr True, s')"
  shows "(mymac \<noteq> [] \<longrightarrow> has_mac w ol b vm_name (str_lower mymac) u s') \<and>
    (\<exists>log. between u s' log \<and> ol_address ol vm_name log = Some myip) \<and> succeeded w (Ssh vm_name ''exit 0'') u s'"
proof (cases "mymac = []")
  case True
  then have r: "reachable_for_keep w ol vm_name myip u = (Inr True, s')" using assms by (simp add: mac_checked_def)
  have "between u s' (st_log u)" using grows_reachable r unfolding between_def grows_def prefix_def by (metis append_Nil2 snd_conv)
  then show ?thesis using True reachable_True [OF r] by blast
next
  case False
  then obtain domains macs t where l: "list_used_macs w ol b u = (Inr (domains, macs), t)"
      and m: "str_lower mymac = (case map_of macs vm_name of Some m \<Rightarrow> m | None \<Rightarrow> ''NOT_FOUND'')"
      and r: "reachable_for_keep w ol vm_name myip t = (Inr True, s')"
    using assms by (auto simp: mac_checked_def act_bind_eq_Inr act_ret_app split: if_splits)
  have b: "between u s' (st_log t)" by (rule between_grows [OF grows_used_macs l grows_reachable r])
  then have "between u s' (st_log u)" unfolding between_def by auto
  moreover have "map_of macs vm_name = Some (str_lower mymac)" using m lower_not_marker [of mymac] by (auto split: option.splits)
  ultimately have "has_mac w ol b vm_name (str_lower mymac) u s'" using l unfolding has_mac_def by blast
  then show ?thesis using b reachable_True [OF r] succeeded_before [OF grows_used_macs l] by blast
qed

text \<open>C19 A VM is kept only if it ran on the hypervisor when asked, had the MAC the lab names (when it names one),
  its name resolved to the lab's address and it let root in over SSH; and finding that out changes nothing: the
  only commands are three that read, and \<open>exit 0\<close>.\<close>

theorem kept_vm_verified:
  assumes "vm_is_reusable w ol b vm_name mymac myip s = (Inr True, s')"
  shows "running_at w ol b vm_name (st_log s) \<and>
    (mymac = [] \<or> has_mac w ol b vm_name (str_lower mymac) s s') \<and>
    (\<exists>log. between s s' log \<and> ol_address ol vm_name log = Some myip) \<and>
    succeeded w (Ssh vm_name ''exit 0'') s s' \<and>
    (\<exists>es. st_log s' = st_log s @ es \<and> list_all (looks ol b vm_name) es)"
proof -
  obtain rc out u where d: "happen w (tool_event ol b ''virsh'' [''domstate'', vm_name]) s = (Inr (rc, out), u)"
      and run: "str_strip out = ''running''" and rest: "mac_checked w ol b vm_name mymac myip u = (Inr True, s')"
    using assms unfolding vm_is_reusable_def virsh_def mac_checked_def [symmetric]
    by (auto simp: act_bind_eq_Inr act_ret_app dest!: tool_Inr split: if_splits)
  have ran: "running_at w ol b vm_name (st_log s)" using d run by (auto simp: happen_def running_at_def)
  have "between s s' log" if "between u s' log" for log
    using that d unfolding between_def happen_def by (auto simp: prefix_def)
  then have rest: "(mymac = [] \<or> has_mac w ol b vm_name (str_lower mymac) s s') \<and>
    (\<exists>log. between s s' log \<and> ol_address ol vm_name log = Some myip) \<and> succeeded w (Ssh vm_name ''exit 0'') s s'"
    using mac_checked_True [OF rest] succeeded_before [OF grows_happen d] unfolding has_mac_def by blast
  have "\<exists>es. st_log s' = st_log s @ es \<and> list_all (looks ol b vm_name) es"
    using does_reusable [of ol b vm_name w mymac myip] assms unfolding does_def by (metis snd_conv)
  with ran rest show ?thesis by blast
qed

text \<open>A power-off comes before the definition goes, and only these two are run.\<close>

lemma delete_vm_order:
  assumes "ol_program ol ''virsh'' \<or> lb_remote_host b \<noteq> []"
  shows "delete_vm w ol b vm_name s = (Inr (), s\<lparr>st_log := st_log s @
    [tool_event ol b ''virsh'' [''destroy'', vm_name],
     tool_event ol b ''virsh'' [''undefine'', vm_name, ''--nvram'', ''--remove-all-storage'']]\<rparr>)"
  using assms by (auto simp: delete_vm_def virsh_def run_libvirt_tool_def happen_def act_simps)

section \<open>A hypervisor with one VM\<close>

definition one_kvm :: libvirt_backend where
  "one_kvm = \<lparr>lb_virt_srv = ''qemu+ssh://root@kvm1/system'', lb_remote_host = ''kvm1'', lb_iso_loc = ''/iso'', lb_vm_img_loc = ''/img'',
     lb_lab_setup_path = ''/lab'', lb_graphics = None\<rparr>"

definition no_programs :: outlook where
  "no_programs = \<lparr>ol_program = (\<lambda>_. False), ol_address = (\<lambda>n _. if n = ''n1'' then Some ''10.0.0.5'' else None),
     ol_ssh_port = (\<lambda>_ _. False), ol_temp = (\<lambda>pre suf. ''/tmp/'' @ pre @ suf)\<rparr>"

definition one_vm_world :: world where
  "one_vm_world = \<lparr>w_answer = (\<lambda>e _. case e of
       Ssh h c \<Rightarrow> (0, if ends_with c ''domstate n1'' then ''running'' @ NL else if ends_with c ''list --all --name'' then ''n1'' @ NL
                     else if ends_with c ''domiflist n1'' then '' vnet0   bridge   br0   virtio   52:54:00:AB:00:01'' @ NL else [])
     | _ \<Rightarrow> (1, [])), w_tries = (\<lambda>_ _. 1)\<rparr>"

lemma kept_vm_verified_witness:
  "\<exists>s'. running_at one_vm_world no_programs one_kvm ''n1'' (st_log empty_site) \<and>
     has_mac one_vm_world no_programs one_kvm ''n1'' ''52:54:00:ab:00:01'' empty_site s' \<and>
     succeeded one_vm_world (Ssh ''n1'' ''exit 0'') empty_site s'"
proof -
  define s' where "s' = snd (vm_is_reusable one_vm_world no_programs one_kvm ''n1'' ''52:54:00:ab:00:01'' ''10.0.0.5'' empty_site)"
  have "fst (vm_is_reusable one_vm_world no_programs one_kvm ''n1'' ''52:54:00:ab:00:01'' ''10.0.0.5'' empty_site) = Inr True"
    by code_simp
  then have run: "vm_is_reusable one_vm_world no_programs one_kvm ''n1'' ''52:54:00:ab:00:01'' ''10.0.0.5'' empty_site = (Inr True, s')"
    by (simp add: s'_def prod_eq_iff)
  have "str_lower ''52:54:00:ab:00:01'' = ''52:54:00:ab:00:01''" by code_simp
  then show ?thesis using kept_vm_verified [OF run] by auto
qed

end
