(* ===== verification/Libvirt_Create.thy ===== *)
theory Libvirt_Create
  imports Libvirt_Backend
begin

text \<open>
  Creating a VM on a KVM hypervisor: \<open>copy_vm_image\<close>, \<open>create_vm\<close> with its branch for each way to configure a
  VM, \<open>push_provisioning_files\<close> and \<open>host_resources\<close> of \<open>LibvirtBackend\<close>, and \<open>ensure_iso_install_tree\<close>.

  \<open>fetch\<close> is \<open>fetch_source_image\<close>, whose script \<open>Image_Fetch\<close> models on the files of the host, and \<open>local_file\<close> what
  reading a local file gives.
\<close>

section \<open>The disk\<close>

definition disk_ext :: "string \<Rightarrow> string" where
  "disk_ext disk_format = (if disk_format = ''raw'' then ''raw'' else ''qcow2'')"

definition disk_path :: "libvirt_backend \<Rightarrow> string \<Rightarrow> string \<Rightarrow> string" where
  "disk_path b vm_name ext = lb_vm_img_loc b @ ''/'' @ vm_name @ ''.'' @ ext"

definition try_or_die :: "world \<Rightarrow> string \<Rightarrow> string \<Rightarrow> string \<Rightarrow> unit job" where
  "try_or_die w host cmd msg = act_bind (ssh_ok w host cmd) (\<lambda>ok. if ok then act_ret () else die msg)"

type_synonym fetch_job = "string \<Rightarrow> string \<Rightarrow> string \<Rightarrow> string \<Rightarrow> string \<Rightarrow> string \<Rightarrow> unit job"

definition source_path_on_host ::
  "fetch_job \<Rightarrow> (string \<Rightarrow> string res) \<Rightarrow> libvirt_backend \<Rightarrow> string \<Rightarrow> string \<Rightarrow> string job" where
  "source_path_on_host fetch local_file b iso_image source_sha256 =
     act_bind (act_res (is_url (PStr iso_image))) (\<lambda>url.
     if url then
       act_bind (act_res (source_checksum local_file (PStr source_sha256))) (\<lambda>(sha256, sha256_url).
       act_then (fetch (lb_remote_host b) (lb_iso_loc b) (image_file_name iso_image) iso_image sha256 sha256_url)
       (act_ret (lb_iso_loc b @ ''/'' @ image_file_name iso_image)))
     else if contains ''/'' iso_image \<or> contains (bsl []) iso_image then act_ret iso_image
     else act_ret (lb_iso_loc b @ ''/'' @ iso_image))"

definition copy_cmd :: "string \<Rightarrow> string \<Rightarrow> string \<Rightarrow> string" where
  "copy_cmd disk_format src dest =
     (if disk_format = ''raw'' then ''qemu-img convert -O raw '' else ''cp '') @ shlex_quote src @ '' '' @ shlex_quote dest"

definition resize_cmd :: "string \<Rightarrow> string \<Rightarrow> string \<Rightarrow> string" where
  "resize_cmd disk_format dest gb =
     ''qemu-img resize -f '' @ disk_ext disk_format @ '' '' @ shlex_quote dest @ '' '' @ shlex_quote (gb @ ''G'')"

definition copy_failed :: "string \<Rightarrow> string \<Rightarrow> string" where
  "copy_failed disk_format vm_name =
     (if disk_format = ''raw'' then ''Failed to convert image for vm '' @ dq vm_name @ '' to raw''
      else ''Failed to copy image for vm  '' @ dq vm_name)"

definition copy_vm_image ::
  "world \<Rightarrow> fetch_job \<Rightarrow> (string \<Rightarrow> string res) \<Rightarrow> libvirt_backend \<Rightarrow> string \<Rightarrow> string \<Rightarrow> string \<Rightarrow> string \<Rightarrow> string \<Rightarrow> string \<Rightarrow>
   unit job" where
  "copy_vm_image w fetch local_file b iso_image vm_name vm_dsk_gb config_method disk_format source_sha256 =
     (let host = lb_remote_host b; dest = disk_path b vm_name (disk_ext disk_format) in
      if config_method = ''install_iso'' then act_ret ()
      else act_bind (source_path_on_host fetch local_file b iso_image source_sha256) (\<lambda>src.
        act_then (try_or_die w host (copy_cmd disk_format src dest) (copy_failed disk_format vm_name))
        (act_then (try_or_die w host (resize_cmd disk_format dest vm_dsk_gb)
                     (''Failed to resize VM image '' @ dq vm_name @ '' to '' @ dq (vm_dsk_gb @ ''G'')))
        (if disk_format = ''raw''
         then try_or_die w host (''sgdisk -e '' @ shlex_quote dest)
                (''Failed to repair GPT backup header on '' @ dq vm_name @ '' after resize'')
         else act_ret ()))))"

section \<open>An installation tree over HTTP\<close>

definition INSTALL_ISO_HTTP_PORT :: nat where "INSTALL_ISO_HTTP_PORT = 8890"

definition iso_unit :: "string \<Rightarrow> string" where
  "iso_unit serve_root =
     unlines [''[Unit]'',
       ''Description=Install-tree HTTP server for lab-in-a-box install_iso (kickstart/autoyast/preseed) '' @ emdash @
         '' shared across every mounted ISO'',
       ''After=network-online.target'', ''Wants=network-online.target'', [], ''[Service]'', ''WorkingDirectory='' @ serve_root,
       ''ExecStart=/usr/bin/python3 -m http.server '' @ nat_str INSTALL_ISO_HTTP_PORT, ''Restart=always'', [], ''[Install]'',
       ''WantedBy=multi-user.target'']"

definition mount_failed :: "string \<Rightarrow> string \<Rightarrow> string \<Rightarrow> string" where
  "mount_failed iso_image host out = ''could not loop-mount ISO '' @ sq iso_image @ '' on '' @ sq host @ '': '' @ str_strip out"

definition mount_iso :: "world \<Rightarrow> string \<Rightarrow> string \<Rightarrow> string \<Rightarrow> string \<Rightarrow> unit job" where
  "mount_iso w host iso_image iso_path mount_dir =
     act_bind (ssh_ok w host (''mountpoint -q '' @ shlex_quote mount_dir)) (\<lambda>mounted.
     if mounted then act_ret ()
     else act_then (ssh_run w host (''mkdir -p '' @ shlex_quote mount_dir))
       (act_bind (ssh_try w host (''mount -o loop,ro '' @ shlex_quote iso_path @ '' '' @ shlex_quote mount_dir)) (\<lambda>(rc, out).
        if rc \<noteq> 0 then die (mount_failed iso_image host out) else act_ret ())))"

definition ensure_iso_install_tree :: "world \<Rightarrow> string \<Rightarrow> string \<Rightarrow> string \<Rightarrow> string job" where
  "ensure_iso_install_tree w host iso_loc iso_image =
     (let mount_dir = iso_loc @ ''/.mounted-isos/'' @ iso_image; iso_path = iso_loc @ ''/'' @ iso_image;
          fstab_line = iso_path @ '' '' @ mount_dir @ '' iso9660 loop,ro,nofail 0 0'' in
      act_then (mount_iso w host iso_image iso_path mount_dir)
      (act_then (ssh_run w host (''grep -qxF '' @ shlex_quote fstab_line @ '' /etc/fstab || echo '' @ shlex_quote fstab_line @
                                 '' >> /etc/fstab''))
      (act_bind (ssh_ok w host ''systemctl is-active install-iso-server.service'') (\<lambda>active.
       act_then (if active then act_ret ()
         else act_then (ssh_run w host (''cat > /etc/systemd/system/install-iso-server.service <<'' @ sq ''EOF'' @ NL @
                          iso_unit (iso_loc @ ''/.mounted-isos'') @ ''EOF''))
              (ssh_run w host ''systemctl daemon-reload && systemctl enable --now install-iso-server.service''))
       (act_ret (''http://'' @ host @ '':'' @ nat_str INSTALL_ISO_HTTP_PORT @ ''/'' @ iso_image @ ''/''))))))"

section \<open>The VM\<close>

record vm_spec =
  vs_name :: string
  vs_cpu :: string
  vs_mem :: string
  vs_dsk_gb :: string
  vs_network :: string
  vs_os_variant :: string
  vs_boot :: string
  vs_config_method :: string
  vs_extra_disks :: "string list"
  vs_extra_filesystems :: "string list"
  vs_dsk_bus :: string
  vs_ign_file :: string
  vs_com_file :: string
  vs_salt_states :: string
  vs_install_type :: string
  vs_iso_image :: string
  vs_iso_loc :: string
  vs_mydns :: string
  vs_disk_format :: string
  vs_machine :: string
  vs_base_url :: string
  vs_tls_verify :: string

definition boot_flag :: "string \<Rightarrow> string" where
  "boot_flag boot = (if boot \<in> {''uefi=off'', ''bios'', ''legacy''} then ''firmware=bios'' else boot)"

text \<open>\<open>re.search(r",bus=([a-z]+)", dsk)\<close>, the empty text when there is none.\<close>

definition lower_run :: "string \<Rightarrow> string" where
  "lower_run s = takeWhile (\<lambda>c. 97 \<le> code c \<and> code c \<le> 122) s"

fun bus_of :: "string \<Rightarrow> string" where
  "bus_of [] = []"
| "bus_of (c # cs) =
     (if starts_with (c # cs) '',bus='' \<and> lower_run (drop 5 (c # cs)) \<noteq> [] then lower_run (drop 5 (c # cs)) else bus_of cs)"

definition bus_or_default :: "string \<Rightarrow> string" where
  "bus_or_default bus = or_text bus ''virtio''"

definition extra_disk :: "world \<Rightarrow> libvirt_backend \<Rightarrow> vm_spec \<Rightarrow> string \<Rightarrow> string list job" where
  "extra_disk w b v dsk =
     (let path = takeWhile (\<lambda>c. c \<noteq> CHR '','') dsk in
      act_bind
        (if contains ''UUID'' path then
           act_bind (ssh_try w (lb_remote_host b)
             (''lsblk -o UUID,PATH | grep '' @ replace_text ''UUID='' [] path @ '' | cut -d'' @ sq '' '' @ '' -f2''))
             (\<lambda>(_, out). act_ret (str_strip out))
         else act_ret path) (\<lambda>path.
      act_ret [''--disk'', ''path='' @ path @ '',bus='' @ or_text (bus_of dsk) (bus_or_default (vs_dsk_bus v))]))"

definition extra_disk_args :: "world \<Rightarrow> libvirt_backend \<Rightarrow> vm_spec \<Rightarrow> string list job" where
  "extra_disk_args w b v = act_bind (act_map (extra_disk w b v) (vs_extra_disks v)) (\<lambda>xs. act_ret (concat xs))"

definition extra_fs_args :: "vm_spec \<Rightarrow> string list" where
  "extra_fs_args v = concat (map (\<lambda>fs. [''--filesystem'', fs]) (vs_extra_filesystems v))"

definition main_disk :: "libvirt_backend \<Rightarrow> vm_spec \<Rightarrow> string" where
  "main_disk b v =
     ''size='' @ vs_dsk_gb v @ '',path='' @ disk_path b (vs_name v) (disk_ext (vs_disk_format v)) @ '',sparse=no,bus='' @
     bus_or_default (vs_dsk_bus v) @ '',boot.order=1'' @ (if vs_disk_format v = ''raw'' then '',driver.type=raw'' else [])"

definition base_front :: "vm_spec \<Rightarrow> string list" where
  "base_front v =
     [''--autostart'', ''--boot'', boot_flag (vs_boot v), ''--vcpus'', vs_cpu v, ''--memory'', vs_mem v,
      ''--os-variant'', vs_os_variant v, ''--import'']"

definition base_back :: "vm_spec \<Rightarrow> string \<Rightarrow> string list" where
  "base_back v gfx =
     [''--graphics'', gfx, ''--network'', vs_network v, ''--noautoconsole''] @
     (if vs_machine v \<noteq> [] then [''--machine'', vs_machine v] else [])"

definition base_args :: "libvirt_backend \<Rightarrow> vm_spec \<Rightarrow> string \<Rightarrow> string list" where
  "base_args b v gfx = [''--name'', vs_name v] @ base_front v @ [''--disk'', main_disk b v] @ base_back v gfx"

definition install_or_die :: "world \<Rightarrow> outlook \<Rightarrow> libvirt_backend \<Rightarrow> string list \<Rightarrow> string \<Rightarrow> unit job" where
  "install_or_die w ol b args msg =
     act_bind (virt_install w ol b args) (\<lambda>(rc, _). if rc \<noteq> 0 then die msg else act_ret ())"

definition local_or_die :: "world \<Rightarrow> string list \<Rightarrow> string \<Rightarrow> unit job" where
  "local_or_die w argv msg = act_bind (happen w (Local argv [])) (\<lambda>(rc, _). if rc \<noteq> 0 then die msg else act_ret ())"

definition install_failed :: "string \<Rightarrow> string \<Rightarrow> string" where
  "install_failed kind vm_name = ''virt-install'' @ kind @ '' failed for '' @ sq vm_name"

definition fw_cfg :: "libvirt_backend \<Rightarrow> vm_spec \<Rightarrow> string" where
  "fw_cfg b v =
     ''--qemu-commandline=-fw_cfg name=opt/com.coreos/config,file='' @ lb_lab_setup_path b @ ''/ignition/'' @
     or_text (vs_ign_file v) (vs_name v) @
     '' -fw_cfg name=opt/org.opensuse.combustion/script,file='' @ lb_lab_setup_path b @ ''/combustion/'' @
     or_text (vs_com_file v) (vs_name v)"

subsection \<open>Installers\<close>

definition node_disk :: "libvirt_backend \<Rightarrow> vm_spec \<Rightarrow> string" where
  "node_disk b v =
     ''size='' @ vs_dsk_gb v @ '',path='' @ disk_path b (vs_name v) ''qcow2'' @ '',sparse=no,bus='' @ bus_or_default (vs_dsk_bus v)"

definition console_args :: "vm_spec \<Rightarrow> string list \<Rightarrow> string \<Rightarrow> string list" where
  "console_args v disks gfx =
     disks @ [''--graphics'', gfx, ''--network'', vs_network v, ''--noautoconsole'', ''--wait'', ''-1'']"

definition seed_remote :: "libvirt_backend \<Rightarrow> vm_spec \<Rightarrow> string" where
  "seed_remote b v = lb_vm_img_loc b @ ''/seed_'' @ vs_name v @ ''.iso''"

definition vmlinuz_remote :: "libvirt_backend \<Rightarrow> vm_spec \<Rightarrow> string" where
  "vmlinuz_remote b v = lb_vm_img_loc b @ ''/'' @ vs_name v @ ''_vmlinuz''"

definition initrd_remote :: "libvirt_backend \<Rightarrow> vm_spec \<Rightarrow> string" where
  "initrd_remote b v = lb_vm_img_loc b @ ''/'' @ vs_name v @ ''_initrd''"

definition iso_of :: "vm_spec \<Rightarrow> string" where
  "iso_of v = vs_iso_loc v @ ''/'' @ vs_iso_image v"

definition mkisofs_seed :: "libvirt_backend \<Rightarrow> vm_spec \<Rightarrow> string \<Rightarrow> string list" where
  "mkisofs_seed b v seed_local =
     [''mkisofs'', ''-J'', ''-l'', ''-R'', ''-V'', ''cidata'', ''-iso-level'', ''3'', ''-o'', seed_local,
      lb_lab_setup_path b @ ''/install_iso/'' @ vs_name v @ ''/user-data'',
      lb_lab_setup_path b @ ''/install_iso/'' @ vs_name v @ ''/meta-data'']"

definition scp_seed :: "libvirt_backend \<Rightarrow> vm_spec \<Rightarrow> string \<Rightarrow> string list" where
  "scp_seed b v seed_local =
     [''scp'', ''-o'', ''StrictHostKeyChecking=accept-new'', seed_local, ''root@'' @ lb_remote_host b @ '':'' @ seed_remote b v]"

definition extract_cmd :: "libvirt_backend \<Rightarrow> vm_spec \<Rightarrow> string" where
  "extract_cmd b v =
     ''rm -f '' @ sq (vmlinuz_remote b v) @ '' '' @ sq (initrd_remote b v) @ '' && xorriso -osirrox on -indev '' @ sq (iso_of v) @
     '' -extract /casper/vmlinuz '' @ sq (vmlinuz_remote b v) @ '' -extract /casper/initrd '' @ sq (initrd_remote b v)"

definition autoinstall_front :: "libvirt_backend \<Rightarrow> vm_spec \<Rightarrow> string list" where
  "autoinstall_front b v =
     [''--vcpus'', vs_cpu v, ''--memory'', vs_mem v, ''--os-variant'', or_text (vs_os_variant v) ''ubuntu24.04'',
      ''--boot'', ''kernel='' @ vmlinuz_remote b v @ '',initrd='' @ initrd_remote b v @ '',cmdline=autoinstall'',
      ''--cdrom'', iso_of v]"

definition autoinstall_args :: "libvirt_backend \<Rightarrow> vm_spec \<Rightarrow> string list \<Rightarrow> string \<Rightarrow> string list" where
  "autoinstall_args b v disks gfx =
     [''--name'', vs_name v] @ autoinstall_front b v @ [''--disk'', node_disk b v] @
     ([''--disk'', ''path='' @ seed_remote b v @ '',device=cdrom,readonly=on''] @ console_args v disks gfx)"

definition disk_boot :: "world \<Rightarrow> outlook \<Rightarrow> libvirt_backend \<Rightarrow> vm_spec \<Rightarrow> unit job" where
  "disk_boot w ol b v =
     act_then (virsh w ol b [''destroy'', vs_name v])
     (act_bind (virt_xml w ol b [vs_name v, ''--edit'', ''--boot'', ''kernel=,initrd=,cmdline=,hd'']) (\<lambda>(rc, _).
      if rc \<noteq> 0 then die (''failed to reset '' @ sq (vs_name v) @ '' to disk boot after autoinstall'')
      else act_then (virt_xml w ol b [vs_name v, ''--remove-device'', ''--disk'', ''path='' @ seed_remote b v])
          (act_then (virsh w ol b [''autostart'', vs_name v])
          (act_then (virsh w ol b [''start'', vs_name v]) (act_ret ())))))"

definition autoinstall :: "world \<Rightarrow> outlook \<Rightarrow> libvirt_backend \<Rightarrow> vm_spec \<Rightarrow> string list \<Rightarrow> string \<Rightarrow> unit job" where
  "autoinstall w ol b v disks gfx =
     (let host = lb_remote_host b; seed_local = ol_temp ol (''seed_'' @ vs_name v @ ''_'') ''.iso'' in
      act_then (local_or_die w (mkisofs_seed b v seed_local) (''mkisofs seed failed for '' @ sq (vs_name v)))
      (act_then (local_or_die w (scp_seed b v seed_local) (''scp seed failed for '' @ sq (vs_name v)))
      (act_then (try_or_die w host (extract_cmd b v)
         (''failed to extract installer kernel/initrd from '' @ sq (vs_iso_image v) @ '' for '' @ sq (vs_name v)))
      (act_bind (virt_install w ol b (autoinstall_args b v disks gfx)) (\<lambda>(rc, _).
       act_then (ssh_try w host (''rm -f '' @ sq (seed_remote b v) @ '' '' @ sq (vmlinuz_remote b v) @ '' '' @ sq (initrd_remote b v)))
       (if rc \<noteq> 0 then die (install_failed '' (autoinstall)'' (vs_name v)) else disk_boot w ol b v))))))"

definition location_front :: "vm_spec \<Rightarrow> string \<Rightarrow> string \<Rightarrow> string list" where
  "location_front v location extra =
     [''--vcpus'', vs_cpu v, ''--memory'', vs_mem v, ''--os-variant'', vs_os_variant v,
      ''--boot'', boot_flag (vs_boot v), ''--location'', location, ''--extra-args'', extra @ '' console=ttyS0,115200n8'']"

definition location_args :: "libvirt_backend \<Rightarrow> vm_spec \<Rightarrow> string \<Rightarrow> string \<Rightarrow> string list \<Rightarrow> string \<Rightarrow> string list" where
  "location_args b v location extra disks gfx =
     [''--name'', vs_name v] @ location_front v location extra @ [''--disk'', node_disk b v @ '',boot.order=1''] @
     console_args v disks gfx"

definition answer_url :: "vm_spec \<Rightarrow> string \<Rightarrow> string res" where
  "answer_url v itype =
     (case map_of ANSWER_EXT itype of
        None \<Rightarrow> Inl (KeyError itype)
      | Some ext \<Rightarrow> Inr (base_url (vs_mydns v) (vs_base_url v) @ ''/lab_creation/install_iso/'' @ vs_name v @ ''.'' @ ext))"

definition install_from_location ::
  "world \<Rightarrow> outlook \<Rightarrow> libvirt_backend \<Rightarrow> vm_spec \<Rightarrow> string \<Rightarrow> string list \<Rightarrow> string \<Rightarrow> unit job" where
  "install_from_location w ol b v itype disks gfx =
     act_bind (ensure_iso_install_tree w (lb_remote_host b) (vs_iso_loc v) (vs_iso_image v)) (\<lambda>location.
     act_bind (act_res (answer_url v itype)) (\<lambda>url.
     act_bind (act_res (installer_args itype url (tls_verify (PStr (vs_tls_verify v))))) (\<lambda>extra.
     act_then (install_or_die w ol b (location_args b v location extra disks gfx) (install_failed '' (install_iso)'' (vs_name v)))
     (act_then (virsh w ol b [''autostart'', vs_name v])
     (act_then (virsh w ol b [''start'', vs_name v]) (act_ret ()))))))"

subsection \<open>Cloud-init\<close>

definition ci_iso :: "libvirt_backend \<Rightarrow> string \<Rightarrow> string" where
  "ci_iso b vm_name = lb_vm_img_loc b @ ''/'' @ vm_name @ ''_ci.iso''"

definition salt_apply :: "world \<Rightarrow> renderer \<Rightarrow> string \<Rightarrow> libvirt_backend \<Rightarrow> vm_spec \<Rightarrow> unit job" where
  "salt_apply w render home b v =
     (if vs_salt_states v = [] then act_ret ()
      else act_then (setup_salt render home (vs_name v) (vs_salt_states v) (lb_lab_setup_path b))
        (act_for (words (vs_salt_states v)) (\<lambda>state.
           act_then (happen w (Local [''salt-ssh'', ''-i'', ''-v'', ''--update-roster'', vs_name v, ''state.apply'', state] []))
             (act_ret ()))))"

definition after_cloud_init :: "world \<Rightarrow> outlook \<Rightarrow> renderer \<Rightarrow> string \<Rightarrow> libvirt_backend \<Rightarrow> vm_spec \<Rightarrow> unit job" where
  "after_cloud_init w ol render home b v =
     act_then (salt_apply w render home b v)
     (act_then (virsh w ol b [''change-media'', vs_name v, ''--eject'', ci_iso b (vs_name v)])
     (act_then (virsh w ol b [''reboot'', vs_name v]) (act_ret ())))"

subsection \<open>All ways\<close>

definition install_iso :: "world \<Rightarrow> outlook \<Rightarrow> libvirt_backend \<Rightarrow> vm_spec \<Rightarrow> string list \<Rightarrow> string \<Rightarrow> unit job" where
  "install_iso w ol b v disks gfx =
     act_bind (act_res (resolve_install_type (PStr (vs_install_type v)) (PStr (vs_iso_image v)))) (\<lambda>itype.
     if itype = PStr ''autoinstall'' then autoinstall w ol b v disks gfx
     else install_from_location w ol b v (str_of itype) disks gfx)"

definition create_by_method ::
  "world \<Rightarrow> outlook \<Rightarrow> renderer \<Rightarrow> string \<Rightarrow> libvirt_backend \<Rightarrow> vm_spec \<Rightarrow> string list \<Rightarrow> string \<Rightarrow> unit job" where
  "create_by_method w ol render home b v disks gfx =
     (let args = base_args b v gfx @ extra_fs_args v @ disks; failed = install_failed [] (vs_name v) in
      if vs_config_method v = [] then install_or_die w ol b (args @ [fw_cfg b v]) failed
      else if vs_config_method v = ''install_iso'' then install_iso w ol b v disks gfx
      else if vs_config_method v = ''iso-cloud-init'' then act_ret ()
      else if vs_config_method v = ''virt_customize'' then install_or_die w ol b args failed
      else if vs_config_method v = ''cloud-init'' then
        act_then (install_or_die w ol b (args @ [''--disk'', ci_iso b (vs_name v) @ '',device=cdrom''])
                   (install_failed '' for cloud-init'' (vs_name v)))
          (after_cloud_init w ol render home b v)
      else act_ret ())"

text \<open>The backend keeps the kind of graphics it found out.\<close>

definition create_vm :: "world \<Rightarrow> outlook \<Rightarrow> renderer \<Rightarrow> string \<Rightarrow> libvirt_backend \<Rightarrow> vm_spec \<Rightarrow> libvirt_backend job" where
  "create_vm w ol render home b v =
     act_bind (extra_disk_args w b v) (\<lambda>disks.
     act_bind (graphics w ol b) (\<lambda>gfx.
     act_then (create_by_method w ol render home b v disks gfx) (act_ret (b\<lparr>lb_graphics := Some gfx\<rparr>))))"

section \<open>Provisioning files\<close>

text \<open>\<open>sorted(Path(lab_setup_path, config_method).glob(vm_name + "*"))\<close>, for a name without glob characters.\<close>

definition files_for :: "(string \<times> string) list \<Rightarrow> string \<Rightarrow> string \<Rightarrow> string list" where
  "files_for fs d vm_name = sort (filter (\<lambda>p. dirname p = d \<and> starts_with (basename p) vm_name) (remdups (map fst fs)))"

definition cidata_cmd :: "string \<Rightarrow> string \<Rightarrow> string \<Rightarrow> string \<Rightarrow> string" where
  "cidata_cmd lab_setup_path config_method vm_name vm_img_loc =
     (let iso_q = shlex_quote (vm_img_loc @ ''/'' @ vm_name @ ''_ci.iso''); tmp_q = shlex_quote (''/tmp/ci_'' @ vm_name @ ''.iso'') in
      ''cd '' @ shlex_quote (lab_setup_path @ ''/'' @ config_method @ ''/'') @ ''; for i in '' @ vm_name @ ''*; do cp '' @
      dq ''${i}'' @ '' '' @ dq (''/tmp/${i/'' @ vm_name @ ''_/}'') @ ''; done ; rm -f '' @ iso_q @
      ''; mkisofs -J -l -R -V cidata -iso-level 3 -o '' @ tmp_q @ '' /tmp/user-data /tmp/meta-data /tmp/network-config && mv '' @
      tmp_q @ '' '' @ iso_q)"

definition rsync_or_die :: "world \<Rightarrow> libvirt_backend \<Rightarrow> string list \<Rightarrow> string \<Rightarrow> string \<Rightarrow> unit job" where
  "rsync_or_die w b sources d msg =
     local_or_die w ([''rsync'', ''-aqv''] @ sources @ [''root@'' @ lb_remote_host b @ '':'' @ lb_lab_setup_path b @ ''/'' @ d @ ''/'']) msg"

definition push_ignition :: "world \<Rightarrow> libvirt_backend \<Rightarrow> string \<Rightarrow> unit job" where
  "push_ignition w b vm_name =
     (let host = lb_remote_host b; lsp = lb_lab_setup_path b in
      act_then (try_or_die w host (''mkdir -p '' @ lsp @ ''/{combustion,ignition}'') (''failed creating combustion/ignition folders on '' @ host))
      (act_then (rsync_or_die w b [lsp @ ''/combustion/'' @ vm_name] ''combustion'' (''failed to rsync combustion file for '' @ sq vm_name))
      (act_then (rsync_or_die w b [lsp @ ''/ignition/'' @ vm_name @ ''.ign''] ''ignition'' (''failed to rsync ignition file for '' @ sq vm_name))
      (try_or_die w host (''chmod 0644 '' @ lsp @ ''/ignition/* '' @ lsp @ ''/combustion/*'')
         (''failed to chmod ignition/combustion files on '' @ host)))))"

definition no_files :: "string \<Rightarrow> string \<Rightarrow> string \<Rightarrow> string" where
  "no_files config_method vm_name lsp =
     ''no '' @ sq config_method @ '' files found for '' @ sq vm_name @ '' in '' @ lsp @ ''/'' @ config_method"

definition push_cidata :: "world \<Rightarrow> libvirt_backend \<Rightarrow> string \<Rightarrow> string \<Rightarrow> string \<Rightarrow> unit job" where
  "push_cidata w b vm_name config_method vm_img_loc =
     (let host = lb_remote_host b; lsp = lb_lab_setup_path b in
      act_then (try_or_die w host (''mkdir -p '' @ lsp @ ''/'' @ config_method)
                  (''failed creating '' @ sq config_method @ '' folder on '' @ host))
      (act_bind (act_get (\<lambda>s. files_for (st_files s) (path_join lsp config_method) vm_name)) (\<lambda>sources.
       if sources = [] then die (no_files config_method vm_name lsp)
       else act_then (rsync_or_die w b sources config_method (''failed to rsync '' @ sq config_method @ '' files for '' @ sq vm_name))
           (try_or_die w host (cidata_cmd lsp config_method vm_name vm_img_loc) (''failed to build cidata ISO for '' @ sq vm_name)))))"

definition push_provisioning_files :: "world \<Rightarrow> libvirt_backend \<Rightarrow> string \<Rightarrow> string \<Rightarrow> string \<Rightarrow> unit job" where
  "push_provisioning_files w b vm_name config_method vm_img_loc =
     (let lsp = lb_lab_setup_path b in
      act_then (try_or_die w (lb_remote_host b) (''[[ -d '' @ lsp @ ''/ ]] || mkdir -p '' @ lsp @ ''/'') (''failed creating new folder '' @ lsp))
      (if config_method \<in> {''virt_customize'', ''install_iso''} then act_ret ()
       else if config_method = [] then push_ignition w b vm_name
       else push_cidata w b vm_name config_method (or_text vm_img_loc (lb_vm_img_loc b))))"

section \<open>What a host has free\<close>

definition int_output :: "world \<Rightarrow> string \<Rightarrow> string \<Rightarrow> int job" where
  "int_output w host cmd = act_bind (ssh_output w host cmd) (\<lambda>out. act_res (to_int (PStr out)))"

fun vcpus_of :: "world \<Rightarrow> string \<Rightarrow> string list \<Rightarrow> int \<Rightarrow> int job" where
  "vcpus_of w host [] used = act_ret used"
| "vcpus_of w host (d # ds) used =
     act_bind (int_output w host (''virsh --connect qemu:///system vcpucount --current '' @ str_strip d)) (\<lambda>n.
     vcpus_of w host ds (used + n))"

definition host_resources :: "world \<Rightarrow> libvirt_backend \<Rightarrow> (int \<times> int \<times> int) job" where
  "host_resources w b =
     (let host = lb_remote_host b in
      act_bind (int_output w host ''nproc'') (\<lambda>total_cpus.
      act_bind (ssh_output w host ''virsh --connect qemu:///system list --name'') (\<lambda>running.
      act_bind (vcpus_of w host (filter (\<lambda>d. str_strip d \<noteq> []) (splitlines running)) 0) (\<lambda>used_cpus.
      act_bind (int_output w host (''free -m | awk '' @ sq ''/^Mem:/{print $7}'')) (\<lambda>free_mem.
      act_bind (ssh_output w host (''df -BM --output=avail '' @ lb_vm_img_loc b @ '' | tail -1'')) (\<lambda>df.
      act_bind (act_res (to_int (PStr (filter is_digit df)))) (\<lambda>free_disk.
      act_ret (max (total_cpus - used_cpus) 0, free_mem, free_disk))))))))"

section \<open>Lemmas\<close>

lemma grows_or_die [grows_intros]:
  "grows (try_or_die w h c m)" "grows (install_or_die w ol b args m)" "grows (local_or_die w argv m)" "grows (rsync_or_die w b ss d m)"
  by (auto simp: try_or_die_def install_or_die_def local_or_die_def rsync_or_die_def intro!: grows_intros)

lemma grows_write [grows_intros]: "grows (read_text p)" "grows (write_text p t)" "grows (process_template render p v)"
  by (auto simp: read_text_def write_text_def process_template_def file_at_def die_def grows_def act_simps split: option.splits sum.splits)

lemma grows_salt [grows_intros]: "grows (setup_salt render home n states lsp)" "grows (salt_apply w render home b v)"
  by (auto simp: setup_salt_def salt_apply_def intro!: grows_intros)

lemma grows_tree [grows_intros]: "grows (mount_iso w h i p d)" "grows (ensure_iso_install_tree w h l i)"
  unfolding mount_iso_def ensure_iso_install_tree_def Let_def by (intro grows_intros)+

lemma grows_create [grows_intros]:
  "grows (disk_boot w ol b v)" "grows (autoinstall w ol b v disks gfx)" "grows (install_from_location w ol b v itype disks gfx)"
  "grows (install_iso w ol b v disks gfx)" "grows (after_cloud_init w ol render home b v)" "grows (extra_disk_args w b v)"
  "grows (graphics w ol b)"
        apply (unfold disk_boot_def autoinstall_def install_from_location_def install_iso_def after_cloud_init_def
      extra_disk_args_def extra_disk_def graphics_def Let_def)
        apply (auto intro!: grows_intros split: option.splits)
  done

lemma try_or_die_Inr: "try_or_die w h c m s = (Inr x, u) \<Longrightarrow> succeeded w (Ssh h c) s u"
  by (auto simp: try_or_die_def act_bind_eq_Inr die_def act_raise_app act_ret_app split: if_splits dest: ssh_ok_succeeded)

lemma install_or_die_Inr: "install_or_die w ol b args m s = (Inr x, u) \<Longrightarrow> succeeded w (tool_event ol b ''virt-install'' args) s u"
  by (auto simp: install_or_die_def virt_install_def act_bind_eq_Inr die_def act_raise_app act_ret_app split: if_splits
      dest!: tool_Inr intro: succeeded_now)

lemma succeeded_first: "act_then m n s = (Inr y, t) \<Longrightarrow> (\<And>x u. m s = (Inr x, u) \<Longrightarrow> succeeded w e s u) \<Longrightarrow> grows n \<Longrightarrow> succeeded w e s t"
  unfolding act_then_eq_Inr using succeeded_after by blast

lemma succeeded_second: "act_bind m f s = (Inr y, t) \<Longrightarrow> grows m \<Longrightarrow> (\<And>x u. f x u = (Inr y, t) \<Longrightarrow> succeeded w e u t) \<Longrightarrow> succeeded w e s t"
  unfolding act_bind_eq_Inr using succeeded_before by blast

text \<open>What virt-install is told: the name of the VM, and the disk it gets.\<close>

definition installs :: "world \<Rightarrow> outlook \<Rightarrow> libvirt_backend \<Rightarrow> string \<Rightarrow> string \<Rightarrow> site \<Rightarrow> site \<Rightarrow> bool" where
  "installs w ol b vm_name disk s t =
     (\<exists>args front back. args = [''--name'', vm_name] @ front @ [''--disk'', disk] @ back \<and>
        succeeded w (tool_event ol b ''virt-install'' args) s t)"

lemma installsI:
  "succeeded w (tool_event ol b ''virt-install'' args) s t \<Longrightarrow> args = [''--name'', vm_name] @ front @ [''--disk'', disk] @ back \<Longrightarrow>
   installs w ol b vm_name disk s t"
  unfolding installs_def by blast

lemma installs_before: "grows m \<Longrightarrow> m s = (r, u) \<Longrightarrow> installs w ol b n d u t \<Longrightarrow> installs w ol b n d s t"
  unfolding installs_def by (elim exE conjE) (intro exI conjI, assumption, rule succeeded_before)

lemma autoinstall_installs:
  assumes "autoinstall w ol b v disks gfx s = (Inr x, t)"
  shows "installs w ol b (vs_name v) (node_disk b v) s t"
proof -
  have "succeeded w (tool_event ol b ''virt-install'' (autoinstall_args b v disks gfx)) s t"
    using assms unfolding autoinstall_def Let_def act_then_def
  proof (elim succeeded_second [OF _ grows_or_die(3)] succeeded_second [OF _ grows_or_die(1)])
    fix u
    assume "act_bind (virt_install w ol b (autoinstall_args b v disks gfx)) (\<lambda>(rc, _).
       act_bind (ssh_try w (lb_remote_host b) (''rm -f '' @ sq (seed_remote b v) @ '' '' @ sq (vmlinuz_remote b v) @ '' '' @ sq (initrd_remote b v)))
       (\<lambda>_. if rc \<noteq> 0 then die (install_failed '' (autoinstall)'' (vs_name v)) else disk_boot w ol b v)) u = (Inr x, t)"
    then obtain rc out u' where v: "happen w (tool_event ol b ''virt-install'' (autoinstall_args b v disks gfx)) u = (Inr (rc, out), u')"
      and r: "act_bind (ssh_try w (lb_remote_host b) (''rm -f '' @ sq (seed_remote b v) @ '' '' @ sq (vmlinuz_remote b v) @ '' '' @ sq (initrd_remote b v)))
       (\<lambda>_. if rc \<noteq> 0 then die (install_failed '' (autoinstall)'' (vs_name v)) else disk_boot w ol b v) u' = (Inr x, t)"
      by (auto simp: act_bind_eq_Inr virt_install_def dest!: tool_Inr)
    then have rc: "rc = 0" by (auto simp: act_bind_eq_Inr die_def act_raise_app split: if_splits)
    have g: "grows (act_bind (ssh_try w (lb_remote_host b) (''rm -f '' @ sq (seed_remote b v) @ '' '' @ sq (vmlinuz_remote b v) @ '' '' @ sq (initrd_remote b v)))
       (\<lambda>_. if rc \<noteq> 0 then die (install_failed '' (autoinstall)'' (vs_name v)) else disk_boot w ol b v))"
      by (intro grows_intros)
    from succeeded_after [OF g r succeeded_now] v rc
    show "succeeded w (tool_event ol b ''virt-install'' (autoinstall_args b v disks gfx)) u t" by blast
  qed
  then show ?thesis by (rule installsI [OF _ autoinstall_args_def])
qed

lemma location_installs:
  assumes "install_from_location w ol b v itype disks gfx s = (Inr x, t)"
  shows "installs w ol b (vs_name v) (node_disk b v @ '',boot.order=1'') s t"
proof -
  obtain location url extra u where u: "ensure_iso_install_tree w (lb_remote_host b) (vs_iso_loc v) (vs_iso_image v) s = (Inr location, u)"
    and r: "act_then (install_or_die w ol b (location_args b v location extra disks gfx) (install_failed '' (install_iso)'' (vs_name v)))
     (act_then (virsh w ol b [''autostart'', vs_name v]) (act_then (virsh w ol b [''start'', vs_name v]) (act_ret ()))) u = (Inr x, t)"
    using assms by (auto simp: install_from_location_def act_bind_eq_Inr act_res_app)
  have g: "grows (act_then (virsh w ol b [''autostart'', vs_name v]) (act_then (virsh w ol b [''start'', vs_name v]) (act_ret ())))"
    by (intro grows_intros)
  have "succeeded w (tool_event ol b ''virt-install'' (location_args b v location extra disks gfx)) u t"
    using r install_or_die_Inr g by (rule succeeded_first)
  then have "installs w ol b (vs_name v) (node_disk b v @ '',boot.order=1'') u t"
    by (rule installsI [OF _ location_args_def])
  then show ?thesis by (rule installs_before [OF grows_tree(2) u])
qed

text \<open>Every way to configure a VM that creates one ends with an installation that was not refused.\<close>

definition METHODS :: "string list" where
  "METHODS = [[], ''install_iso'', ''virt_customize'', ''cloud-init'']"

definition vm_disks :: "libvirt_backend \<Rightarrow> vm_spec \<Rightarrow> string set" where
  "vm_disks b v =
     (if vs_config_method v = ''install_iso'' then {node_disk b v, node_disk b v @ '',boot.order=1''} else {main_disk b v})"

lemma create_by_method_cases:
  "vs_config_method v = [] \<Longrightarrow> create_by_method w ol render home b v disks gfx =
     install_or_die w ol b ((base_args b v gfx @ extra_fs_args v @ disks) @ [fw_cfg b v]) (install_failed [] (vs_name v))"
  "vs_config_method v = ''install_iso'' \<Longrightarrow> create_by_method w ol render home b v disks gfx = install_iso w ol b v disks gfx"
  "vs_config_method v = ''virt_customize'' \<Longrightarrow> create_by_method w ol render home b v disks gfx =
     install_or_die w ol b ((base_args b v gfx @ extra_fs_args v @ disks) @ []) (install_failed [] (vs_name v))"
  "vs_config_method v = ''cloud-init'' \<Longrightarrow> create_by_method w ol render home b v disks gfx =
     act_then (install_or_die w ol b ((base_args b v gfx @ extra_fs_args v @ disks) @ [''--disk'', ci_iso b (vs_name v) @ '',device=cdrom''])
        (install_failed '' for cloud-init'' (vs_name v))) (after_cloud_init w ol render home b v)"
  by (simp_all add: create_by_method_def)

lemma import_installs:
  assumes "install_or_die w ol b ((base_args b v gfx @ more_args) @ rest) m s = (Inr y, u)"
  shows "installs w ol b (vs_name v) (main_disk b v) s u"
  using install_or_die_Inr [OF assms] by (rule installsI) (simp only: base_args_def append_assoc)

lemma install_iso_installs:
  assumes "install_iso w ol b v disks gfx s = (Inr x, t)"
  shows "\<exists>disk \<in> {node_disk b v, node_disk b v @ '',boot.order=1''}. installs w ol b (vs_name v) disk s t"
proof -
  obtain itype where "(if itype = PStr ''autoinstall'' then autoinstall w ol b v disks gfx
      else install_from_location w ol b v (str_of itype) disks gfx) s = (Inr x, t)"
    using assms by (auto simp: install_iso_def act_bind_eq_Inr act_res_app)
  then have "autoinstall w ol b v disks gfx s = (Inr x, t) \<or> install_from_location w ol b v (str_of itype) disks gfx s = (Inr x, t)"
    by (cases "itype = PStr ''autoinstall''") (simp_all only: if_True if_False simp_thms)
  then show ?thesis using autoinstall_installs location_installs by blast
qed

lemma by_method_installs:
  assumes "create_by_method w ol render home b v disks gfx s = (Inr x, t)" and "vs_config_method v \<in> set METHODS"
  shows "\<exists>disk \<in> vm_disks b v. installs w ol b (vs_name v) disk s t"
proof -
  consider "vs_config_method v = []" | "vs_config_method v = ''install_iso''" | "vs_config_method v = ''virt_customize''"
    | "vs_config_method v = ''cloud-init''" using assms(2) by (auto simp: METHODS_def)
  then show ?thesis
  proof cases
    case 1
    then show ?thesis using import_installs [OF assms(1) [unfolded create_by_method_cases(1) [OF 1]]] by (simp add: vm_disks_def)
  next
    case 2
    then show ?thesis using install_iso_installs [OF assms(1) [unfolded create_by_method_cases(2) [OF 2]]] by (simp add: vm_disks_def)
  next
    case 3
    then show ?thesis using import_installs [OF assms(1) [unfolded create_by_method_cases(3) [OF 3]]] by (simp add: vm_disks_def)
  next
    case 4
    obtain y u where i: "install_or_die w ol b ((base_args b v gfx @ extra_fs_args v @ disks) @ [''--disk'', ci_iso b (vs_name v) @ '',device=cdrom''])
        (install_failed '' for cloud-init'' (vs_name v)) s = (Inr y, u)" and a: "after_cloud_init w ol render home b v u = (Inr x, t)"
      using assms(1) [unfolded create_by_method_cases(4) [OF 4]] unfolding act_then_eq_Inr by blast
    have "installs w ol b (vs_name v) (main_disk b v) s t"
      using import_installs [OF i] succeeded_after [OF grows_create(5) a] unfolding installs_def by metis
    then show ?thesis using 4 by (simp add: vm_disks_def)
  qed
qed

lemma created_installs:
  assumes "create_vm w ol render home b v s = (Inr b', t)" and "vs_config_method v \<in> set METHODS"
  shows "\<exists>disk \<in> vm_disks b v. installs w ol b (vs_name v) disk s t"
proof -
  obtain disks gfx u u' where d: "extra_disk_args w b v s = (Inr disks, u)" and g: "graphics w ol b u = (Inr gfx, u')"
    and c: "create_by_method w ol render home b v disks gfx u' = (Inr (), t)"
    using assms(1) by (auto simp: create_vm_def act_bind_eq_Inr act_then_eq_Inr act_ret_app)
  from by_method_installs [OF c assms(2)] show ?thesis
    using installs_before [OF grows_create(6) d] installs_before [OF grows_create(7) g] by blast
qed

section \<open>Properties\<close>

text \<open>Where the source of a disk is on the hypervisor: the file a URL is downloaded under, a path as it is, or a file of the image directory.\<close>

definition source_of :: "libvirt_backend \<Rightarrow> string \<Rightarrow> string" where
  "source_of b iso_image =
     (if is_url (PStr iso_image) = Inr True then lb_iso_loc b @ ''/'' @ image_file_name iso_image
      else if CHR ''/'' \<in> set iso_image \<or> char_of (92::nat) \<in> set iso_image then iso_image
      else lb_iso_loc b @ ''/'' @ iso_image)"

text \<open>That a URL was fetched first, on that hypervisor and with the checksum the lab gives; anything else needs nothing.\<close>

definition source_there :: "fetch_job \<Rightarrow> (string \<Rightarrow> string res) \<Rightarrow> libvirt_backend \<Rightarrow> string \<Rightarrow> string \<Rightarrow> site \<Rightarrow> site \<Rightarrow> bool" where
  "source_there fetch local_file b iso_image csum s s0 \<longleftrightarrow>
     (if is_url (PStr iso_image) = Inr True
      then \<exists>sha sha_url. source_checksum local_file (PStr csum) = Inr (sha, sha_url) \<and>
        fetch (lb_remote_host b) (lb_iso_loc b) (image_file_name iso_image) iso_image sha sha_url s = (Inr (), s0)
      else s0 = s)"

lemma contains_one: "contains [c] t \<longleftrightarrow> c \<in> set t"
  by (induction t) auto

lemma source_found:
  assumes "source_path_on_host fetch local_file b iso_image csum s = (Inr src, s0)"
  shows "src = source_of b iso_image \<and> source_there fetch local_file b iso_image csum s s0"
proof -
  obtain u where u: "is_url (PStr iso_image) = Inr u"
    by (cases "is_url (PStr iso_image)") (auto simp: is_url_def get_source_type_def Let_def split: if_splits)
  have one: "contains ''/'' t \<longleftrightarrow> CHR ''/'' \<in> set t" "contains (bsl []) t \<longleftrightarrow> char_of (92::nat) \<in> set t" for t
    by (simp_all add: contains_one bsl_def)
  show ?thesis
  proof (cases u)
    case True
    then show ?thesis using assms u
      by (auto simp: source_path_on_host_def source_of_def source_there_def act_bind_eq_Inr act_then_eq_Inr act_res_app act_ret_app)
  next
    case False
    then show ?thesis using assms u
      by (auto simp: source_path_on_host_def source_of_def source_there_def act_bind_app act_res_app act_ret_app one split: if_splits)
  qed
qed

text \<open>C17 A VM boots the disk that was made for it: when the image was copied and the VM then created, the source the lab names (a URL fetched
  before with the lab's checksum, a path, or a file of the image directory) was
  copied to the VM's own path on the hypervisor, that file was then resized to the size the lab gives, and virt-install
  was run after both, with the VM's name and a disk at that path and of that size; none of them was refused.\<close>

theorem vm_boots_copied_disk:
  assumes "copy_vm_image w fetch local_file b iso_image (vs_name v) (vs_dsk_gb v) (vs_config_method v) (vs_disk_format v) csum s = (Inr (), s1)"
    and "create_vm w ol render home b v s1 = (Inr b', t)"
    and "vs_config_method v \<in> {[], ''virt_customize'', ''cloud-init''}"
    and "\<And>host loc img url sha sha_url. grows (fetch host loc img url sha sha_url)"
  shows "(\<exists>s0 u. source_there fetch local_file b iso_image csum s s0 \<and>
    succeeded w (Ssh (lb_remote_host b) (copy_cmd (vs_disk_format v) (source_of b iso_image) (disk_path b (vs_name v) (disk_ext (vs_disk_format v))))) s0 u \<and>
    succeeded w (Ssh (lb_remote_host b) (resize_cmd (vs_disk_format v) (disk_path b (vs_name v) (disk_ext (vs_disk_format v))) (vs_dsk_gb v))) u s1 \<and>
    installs w ol b (vs_name v) (main_disk b v) s1 t) \<and>
    prefix (''size='' @ vs_dsk_gb v @ '',path='' @ disk_path b (vs_name v) (disk_ext (vs_disk_format v)) @ '','') (main_disk b v)"
proof -
  let ?host = "lb_remote_host b" and ?fmt = "vs_disk_format v"
  let ?dest = "disk_path b (vs_name v) (disk_ext ?fmt)"
  define src_job where "src_job = source_path_on_host fetch local_file b iso_image csum"
  define repair where "repair = (if ?fmt = ''raw'' then try_or_die w ?host (''sgdisk -e '' @ shlex_quote ?dest)
      (''Failed to repair GPT backup header on '' @ dq (vs_name v) @ '' after resize'') else act_ret ())"
  have grows: "grows src_job" "grows repair"
    unfolding src_job_def source_path_on_host_def repair_def by (auto intro!: grows_intros assms(4))
  obtain src s0 u u' where src: "src_job s = (Inr src, s0)"
    and copy: "try_or_die w ?host (copy_cmd ?fmt src ?dest) (copy_failed ?fmt (vs_name v)) s0 = (Inr (), u)"
    and resize: "try_or_die w ?host (resize_cmd ?fmt ?dest (vs_dsk_gb v))
        (''Failed to resize VM image '' @ dq (vs_name v) @ '' to '' @ dq (vs_dsk_gb v @ ''G'')) u = (Inr (), u')"
    and repair: "repair u' = (Inr (), s1)"
    using assms(1,3) unfolding copy_vm_image_def Let_def src_job_def [symmetric] repair_def [symmetric]
    by (auto simp: act_bind_eq_Inr act_then_eq_Inr)
  have "src = source_of b iso_image" and there: "source_there fetch local_file b iso_image csum s s0"
    using source_found src unfolding src_job_def by blast+
  then have "succeeded w (Ssh ?host (copy_cmd ?fmt (source_of b iso_image) ?dest)) s0 u"
    using try_or_die_Inr [OF copy] by simp
  moreover note there
  moreover have "succeeded w (Ssh ?host (resize_cmd ?fmt ?dest (vs_dsk_gb v))) u s1"
    using succeeded_after [OF grows(2) repair try_or_die_Inr [OF resize]] .
  moreover have "installs w ol b (vs_name v) (main_disk b v) s1 t"
    using created_installs [OF assms(2)] assms(3) by (auto simp: METHODS_def vm_disks_def)
  moreover have "prefix (''size='' @ vs_dsk_gb v @ '',path='' @ ?dest @ '','') (main_disk b v)" by (simp add: main_disk_def prefix_def)
  ultimately show ?thesis by blast
qed

section \<open>One VM\<close>

definition plain_spec :: vm_spec where
  "plain_spec = \<lparr>vs_name = ''n1'', vs_cpu = ''2'', vs_mem = ''4096'', vs_dsk_gb = ''40'', vs_network = ''bridge=br0'', vs_os_variant = ''slem5.4'',
     vs_boot = ''uefi'', vs_config_method = ''virt_customize'', vs_extra_disks = [], vs_extra_filesystems = [], vs_dsk_bus = [],
     vs_ign_file = [], vs_com_file = [], vs_salt_states = [], vs_install_type = [], vs_iso_image = ''leap.qcow2'', vs_iso_loc = ''/iso'',
     vs_mydns = [], vs_disk_format = ''raw'', vs_machine = [], vs_base_url = [], vs_tls_verify = []\<rparr>"

definition willing_world :: world where
  "willing_world = \<lparr>w_answer = (\<lambda>_ _. (0, [])), w_tries = (\<lambda>_ _. 1)\<rparr>"

lemma vm_boots_copied_disk_witness:
  "\<exists>s1 t u. succeeded willing_world (Ssh (lb_remote_host one_kvm) (copy_cmd ''raw'' ''/iso/leap.qcow2'' ''/img/n1.raw'')) empty_site u \<and>
     installs willing_world no_programs one_kvm ''n1'' (main_disk one_kvm plain_spec) s1 t \<and>
     prefix (''size=40,path=/img/n1.raw,'') (main_disk one_kvm plain_spec)"
proof -
  let ?c = "copy_vm_image willing_world (\<lambda>_ _ _ _ _ _. act_ret ()) (\<lambda>p. Inl (OSError p)) one_kvm ''leap.qcow2'' (vs_name plain_spec) (vs_dsk_gb plain_spec)
      (vs_config_method plain_spec) (vs_disk_format plain_spec) [] empty_site"
  define s1 where "s1 = snd ?c"
  let ?m = "create_vm willing_world no_programs (\<lambda>_ _. Inl []) [] one_kvm plain_spec s1"
  define t where "t = snd ?m"
  have c: "?c = (Inr (), s1)"
  proof (rule prod_eqI)
    show "fst ?c = fst (Inr (), s1)" by code_simp
  qed (simp add: s1_def)
  have "fst (create_vm willing_world no_programs (\<lambda>_ _. Inl []) [] one_kvm plain_spec (snd ?c)) =
      Inr (one_kvm\<lparr>lb_graphics := Some ''spice,listen=0.0.0.0''\<rparr>)" by code_simp
  then have m: "?m = (Inr (one_kvm\<lparr>lb_graphics := Some ''spice,listen=0.0.0.0''\<rparr>), t)"
    by (intro prod_eqI) (simp_all add: t_def s1_def)
  have plain: "vs_config_method plain_spec \<in> {[], ''virt_customize'', ''cloud-init''}" by code_simp
  have g: "grows ((\<lambda>_ _ _ _ _ _. act_ret ()) host loc img url sha sha_url)" for host loc img url sha sha_url :: string
    by (rule grows_ret)
  note holds = vm_boots_copied_disk [OF c m plain, OF g]
  have n: "vs_name plain_spec = ''n1''" "vs_disk_format plain_spec = ''raw''" by (simp_all add: plain_spec_def)
  have p: "source_of one_kvm ''leap.qcow2'' = ''/iso/leap.qcow2''" "disk_path one_kvm ''n1'' (disk_ext ''raw'') = ''/img/n1.raw''" by code_simp+
  have url: "is_url (PStr ''leap.qcow2'') \<noteq> Inr True" by code_simp
  obtain s0 u where "source_there (\<lambda>_ _ _ _ _ _. act_ret ()) (\<lambda>p. Inl (OSError p)) one_kvm ''leap.qcow2'' [] empty_site s0"
    and cp: "succeeded willing_world (Ssh (lb_remote_host one_kvm) (copy_cmd ''raw'' ''/iso/leap.qcow2'' ''/img/n1.raw'')) s0 u"
    and "installs willing_world no_programs one_kvm ''n1'' (main_disk one_kvm plain_spec) s1 t"
    using holds unfolding n p by blast
  moreover from this have "s0 = empty_site" using url by (simp add: source_there_def)
  moreover have "prefix (''size=40,path=/img/n1.raw,'') (main_disk one_kvm plain_spec)" by code_simp
  ultimately show ?thesis by blast
qed

section \<open>Findings\<close>

text \<open>A way to configure a VM that the code does not know creates no VM and reports nothing.\<close>

lemma unknown_method_creates_nothing:
  assumes "vs_config_method v \<notin> set METHODS"
  shows "create_by_method w ol render home b v disks gfx s = (Inr (), s)"
proof -
  have "vs_config_method v \<noteq> []" "vs_config_method v \<noteq> ''install_iso''" "vs_config_method v \<noteq> ''virt_customize''"
    "vs_config_method v \<noteq> ''cloud-init''" using assms by (auto simp: METHODS_def)
  then show ?thesis by (simp add: create_by_method_def Let_def act_ret_app)
qed

text \<open>A disk named by a UUID that the hypervisor does not have is attached with an empty path.\<close>

lemma unknown_disk_empty_path:
  "fst (extra_disk willing_world one_kvm plain_spec ''UUID=12ab'' empty_site) = Inr [''--disk'', ''path=,bus=virtio'']"
  by code_simp

text \<open>The files pushed for a node are those whose name begins with the node's: another node's, too.\<close>

lemma neighbour_files_pushed:
  "files_for [(''/lab/cloud-init/n1_user-data'', a), (''/lab/cloud-init/n10_user-data'', b)] ''/lab/cloud-init'' ''n1'' =
     [''/lab/cloud-init/n10_user-data'', ''/lab/cloud-init/n1_user-data'']"
  unfolding files_for_def list.map fst_conv by code_simp

end
