(* ===== verification/Cloud_Api.thy ===== *)
theory Cloud_Api
  imports Vm_Addresses Crypto_Store
begin

text \<open>
  What the cloud backends of \<open>libs/backends.py\<close> have in common. A provider is seen through its requests and
  answers: a request over HTTP has a method, a path below the API's base and a JSON body; a request through the
  provider's command-line tool has the tool's name and the arguments the caller gives it (what the code adds to each, as
  the project, the region and the keys, is left out). The answer may depend on all requests made before.

  \<open>Refused\<close> is an error status, or a non-zero exit (whose code is not used), with its text, which the code turns into a \<open>RuntimeError\<close>;
  \<open>Broken\<close> is any other failure (no connection, an answer that is no JSON), which the code lets through. Numbers in
  an answer are integers. A backend that keeps the user data of a VM between two calls keeps it in \<open>cl_user_data\<close>.
\<close>

datatype request =
    Http string string "pval option"
  | Put_Text string string
  | Cli "string list"
  | Login string

datatype outcome = Refused string string | Broken exc | Answered pval

record cloud =
  cl_log :: "request list"
  cl_files :: "(string \<times> string) list"
  cl_user_data :: "(string \<times> string) list"
  cl_warnings :: "string list"

record cloud_world =
  cw_answer :: "request \<Rightarrow> request list \<Rightarrow> outcome"
  cw_address :: "string \<Rightarrow> request list \<Rightarrow> string option"

type_synonym 'a step = "(cloud, 'a) act"

definition send_request :: "cloud_world \<Rightarrow> request \<Rightarrow> outcome step" where
  "send_request w q = (\<lambda>s. (Inr (cw_answer w q (cl_log s)), s\<lparr>cl_log := cl_log s @ [q]\<rparr>))"

text \<open>\<open>_api\<close> and the runners of the command-line tools: \<open>failed\<close> is the message of the exception.\<close>

definition ask :: "cloud_world \<Rightarrow> (string \<Rightarrow> string \<Rightarrow> string) \<Rightarrow> request \<Rightarrow> pval step" where
  "ask w failed q =
     act_bind (send_request w q) (\<lambda>r. case r of
       Answered v \<Rightarrow> act_ret v | Refused c t \<Rightarrow> act_raise (RuntimeError (failed c t)) | Broken e \<Rightarrow> act_raise e)"

text \<open>\<open>try: m except RuntimeError as e: die(str(e))\<close>\<close>

definition or_die :: "'a step \<Rightarrow> 'a step" where
  "or_die m = (\<lambda>s. case m s of (Inl (RuntimeError t), s') \<Rightarrow> (Inl (SystemExit t), s') | r \<Rightarrow> r)"

definition quit :: "string \<Rightarrow> 'a step" where
  "quit msg = act_raise (SystemExit msg)"

definition caution :: "string \<Rightarrow> unit step" where
  "caution msg = act_upd (\<lambda>s. s\<lparr>cl_warnings := cl_warnings s @ [msg]\<rparr>)"

section \<open>Reading answers\<close>

text \<open>\<open>(v or {}).get(k)\<close>, \<open>v.get(k)\<close>, \<open>v[k]\<close> and \<open>vs[0] if vs else None\<close>.\<close>

definition field :: "pval \<Rightarrow> string \<Rightarrow> pval res" where
  "field v k = res_bind (or_dict v) (\<lambda>d. Inr (get d k))"

definition own_field :: "pval \<Rightarrow> string \<Rightarrow> pval res" where
  "own_field v k = (case v of PDict d \<Rightarrow> Inr (get d k) | _ \<Rightarrow> Inl (AttributeError ''get''))"

definition item :: "pval \<Rightarrow> string \<Rightarrow> pval res" where
  "item v k = (case v of
      PDict d \<Rightarrow> (case map_of d k of Some x \<Rightarrow> Inr x | None \<Rightarrow> Inl (KeyError k))
    | _ \<Rightarrow> Inl (TypeError ''indices''))"

definition first_item :: "pval \<Rightarrow> pval option res" where
  "first_item v =
     (if \<not> truthy v then Inr None else case v of
        PList (x # _) \<Rightarrow> Inr (if x = PNone then None else Some x) | _ \<Rightarrow> Inl (TypeError ''indices''))"

text \<open>\<open>(v or {}).get(k, dflt)\<close> and \<open>v.get(k, dflt)\<close>.\<close>

definition field_or :: "pval \<Rightarrow> string \<Rightarrow> pval \<Rightarrow> pval res" where
  "field_or v k dflt = res_bind (or_dict v) (\<lambda>d. Inr (get_dflt d k dflt))"

definition own_field_or :: "pval \<Rightarrow> string \<Rightarrow> pval \<Rightarrow> pval res" where
  "own_field_or v k dflt = (case v of PDict d \<Rightarrow> Inr (get_dflt d k dflt) | _ \<Rightarrow> Inl (AttributeError ''get''))"

text \<open>\<open>next((x for x in xs if x.get(k) == name), None)\<close>\<close>

fun first_named :: "string \<Rightarrow> string \<Rightarrow> pval list \<Rightarrow> pval option res" where
  "first_named k vm_name [] = Inr None"
| "first_named k vm_name (x # xs) =
     res_bind (own_field x k) (\<lambda>v. if v = PStr vm_name then Inr (Some x) else first_named k vm_name xs)"

text \<open>A value that is used as a text or as nothing: \<open>v or None\<close>.\<close>

definition text_or_none :: "pval \<Rightarrow> string option" where
  "text_or_none v = (if truthy v then Some (py_str v) else None)"

section \<open>What every cloud backend does\<close>

definition only_cloud_init :: "string \<Rightarrow> string \<Rightarrow> string \<Rightarrow> string" where
  "only_cloud_init backend config_method vm_name =
     backend @ '' only supports config_method='' @ dq ''cloud-init'' @ '' (got '' @ sq (if config_method \<noteq> [] then config_method else ''<empty>'') @
     '') for VM '' @ sq vm_name"

definition require_cloud_init :: "string \<Rightarrow> string \<Rightarrow> string \<Rightarrow> unit step" where
  "require_cloud_init backend config_method vm_name =
     (if config_method \<noteq> ''cloud-init'' then quit (only_cloud_init backend config_method vm_name) else act_ret ())"

definition missing_config :: "dict \<Rightarrow> string list \<Rightarrow> string list" where
  "missing_config config keys = filter (\<lambda>k. \<not> truthy (get config k)) keys"

definition config_missing :: "string \<Rightarrow> string list \<Rightarrow> string \<Rightarrow> string" where
  "config_missing backend missing vm_name =
     ''backend '' @ sq backend @ '' requires '' @ join '', '' missing @ '' to be set in /etc/lab_creation.cfg (VM '' @ sq vm_name @ '')''"

text \<open>
  A sizing table has the name, the cores and the memory in GiB of each type; the memory asked for is in MiB. \<open>'f\<close> are
  Python's floating-point numbers: their reader, the number of an integer, and \<open>mem_gb >= int(mem_mb) / 1024.0\<close>.
\<close>

record 'f floats =
  fl_parse :: "string \<Rightarrow> 'f option"
  fl_of_int :: "int \<Rightarrow> 'f"
  fl_covers :: "'f \<Rightarrow> int \<Rightarrow> bool"

definition built_in :: "'f floats \<Rightarrow> (string \<times> int \<times> int) list \<Rightarrow> 'f sku list" where
  "built_in fl t = map (\<lambda>(name, cores, mem_gb). (name, cores, fl_of_int fl mem_gb)) t"

definition big_enough :: "'f floats \<Rightarrow> int \<Rightarrow> int \<Rightarrow> 'f sku \<Rightarrow> bool" where
  "big_enough fl cpu mem_mb = (\<lambda>(_, cores, mem_gb). cpu \<le> cores \<and> fl_covers fl mem_gb mem_mb)"

definition table_or :: "'f sku list option \<Rightarrow> 'f sku list \<Rightarrow> 'f sku list" where
  "table_or override dflt = (case override of Some t \<Rightarrow> if t \<noteq> [] then t else dflt | None \<Rightarrow> dflt)"

definition pick_type :: "'f floats \<Rightarrow> 'f sku list \<Rightarrow> (string \<Rightarrow> string \<Rightarrow> string) \<Rightarrow> pval \<Rightarrow> pval \<Rightarrow> string step" where
  "pick_type fl table too_big vm_cpu vm_mem_mb =
     act_bind (act_res (to_int vm_mem_mb)) (\<lambda>mem. act_bind (act_res (if table = [] then Inr 0 else to_int vm_cpu)) (\<lambda>cpu.
     case find (big_enough fl cpu mem) table of
       Some (name, _) \<Rightarrow> act_ret name
     | None \<Rightarrow> quit (too_big (py_str vm_cpu) (py_str vm_mem_mb))))"

definition too_small :: "string \<Rightarrow> string \<Rightarrow> string \<Rightarrow> string \<Rightarrow> string \<Rightarrow> string \<Rightarrow> string" where
  "too_small vm_name cls kind built config_key shape =
     cls @ '' has no known '' @ kind @ '' big enough for VM '' @ sq vm_name @ '' ('' @ shape @ '') '' @ emdash @ '' extend '' @ built @
     '' or set '' @ config_key @ '' in /etc/lab_creation.cfg''"

definition shape_text :: "string \<Rightarrow> string \<Rightarrow> string" where
  "shape_text cpu mem = cpu @ '' vCPU / '' @ mem @ '' MiB''"

definition not_there :: "string \<Rightarrow> string \<Rightarrow> string \<Rightarrow> string" where
  "not_there what vm_name action = what @ '' '' @ sq vm_name @ '' not found '' @ emdash @ '' cannot '' @ action"

definition type_or_pick :: "string \<Rightarrow> string step \<Rightarrow> string step" where
  "type_or_pick cloud_instance_type pick = (if cloud_instance_type \<noteq> [] then act_ret cloud_instance_type else pick)"

text \<open>\<open>Path(lab_setup_path) / "cloud-init" / (vm_name + "_user-data")\<close>\<close>

definition user_data_path :: "string \<Rightarrow> string \<Rightarrow> string" where
  "user_data_path lab_setup_path vm_name = path_join (path_join lab_setup_path ''cloud-init'') (vm_name @ ''_user-data'')"

definition no_user_data :: "string \<Rightarrow> string \<Rightarrow> string" where
  "no_user_data vm_name path = ''cloud-init user-data not found for '' @ sq vm_name @ '' at '' @ path"

definition user_data_file :: "string \<Rightarrow> string \<Rightarrow> string step" where
  "user_data_file lab_setup_path vm_name =
     act_bind (act_get (\<lambda>s. map_of (cl_files s) (user_data_path lab_setup_path vm_name))) (\<lambda>f.
     case f of None \<Rightarrow> quit (no_user_data vm_name (user_data_path lab_setup_path vm_name)) | Some t \<Rightarrow> act_ret t)"

definition keep_user_data :: "string \<Rightarrow> string \<Rightarrow> unit step" where
  "keep_user_data vm_name t = act_upd (\<lambda>s. s\<lparr>cl_user_data := AList.update vm_name t (cl_user_data s)\<rparr>)"

definition kept_user_data :: "string \<Rightarrow> string step" where
  "kept_user_data vm_name = act_get (\<lambda>s. case map_of (cl_user_data s) vm_name of Some t \<Rightarrow> t | None \<Rightarrow> [])"

text \<open>\<open>push_provisioning_files\<close> of the backends that send the text of the file at creation.\<close>

definition push_user_data :: "string \<Rightarrow> string \<Rightarrow> string \<Rightarrow> string \<Rightarrow> unit step" where
  "push_user_data backend lab_setup_path vm_name config_method =
     act_then (require_cloud_init backend config_method vm_name)
     (act_bind (user_data_file lab_setup_path vm_name) (keep_user_data vm_name))"

definition image_required :: "string \<Rightarrow> string \<Rightarrow> string \<Rightarrow> string" where
  "image_required vm_name backend what =
     ''ISO_IMAGE is required for VM '' @ sq vm_name @ '' on the '' @ sq backend @ '' backend '' @ emdash @ '' set it to '' @ what"

definition check_image :: "string \<Rightarrow> string \<Rightarrow> string \<Rightarrow> string \<Rightarrow> string \<Rightarrow> string \<Rightarrow> unit step" where
  "check_image cls backend what iso_image vm_name config_method =
     act_then (require_cloud_init cls config_method vm_name)
     (if iso_image = [] then quit (image_required vm_name backend what) else act_ret ())"

definition reachable_for_keep :: "cloud_world \<Rightarrow> string \<Rightarrow> string \<Rightarrow> bool step" where
  "reachable_for_keep w vm_name myip =
     act_bind (act_get (\<lambda>s. cw_address w vm_name (cl_log s))) (\<lambda>resolved_ip.
     if resolved_ip \<noteq> Some myip then act_ret False
     else act_bind (send_request w (Login vm_name)) (\<lambda>r. act_ret (case r of Answered _ \<Rightarrow> True | _ \<Rightarrow> False)))"

text \<open>The rest is in terms of a backend's lookup.\<close>

type_synonym lookup = "string \<Rightarrow> pval option step"

definition vm_exists :: "lookup \<Rightarrow> string \<Rightarrow> bool step" where
  "vm_exists look vm_name = act_bind (look vm_name) (\<lambda>r. act_ret (r \<noteq> None))"

definition vm_is_reusable :: "cloud_world \<Rightarrow> lookup \<Rightarrow> string \<Rightarrow> string \<Rightarrow> string \<Rightarrow> string \<Rightarrow> bool step" where
  "vm_is_reusable w look key running vm_name myip =
     act_bind (look vm_name) (\<lambda>r. case r of
       None \<Rightarrow> act_ret False
     | Some server \<Rightarrow> act_bind (act_res (field server key)) (\<lambda>status.
         if \<not> truthy server \<or> status \<noteq> PStr running then act_ret False else reachable_for_keep w vm_name myip))"

definition vm_state :: "lookup \<Rightarrow> string \<Rightarrow> string \<Rightarrow> pval step" where
  "vm_state look key vm_name =
     act_bind (look vm_name) (\<lambda>r. case r of
       None \<Rightarrow> act_ret (PStr ''not found'')
     | Some server \<Rightarrow>
         if truthy server then act_res (res_bind (or_dict server) (\<lambda>d. Inr (get_dflt d key (PStr ''unknown'')))) else act_ret (PStr ''not found''))"

text \<open>An action on a server that must be there, and the deletion of one that may not be.\<close>

definition act_on :: "cloud_world \<Rightarrow> lookup \<Rightarrow> string \<Rightarrow> string \<Rightarrow> string \<Rightarrow> (string \<Rightarrow> request) \<Rightarrow> (request \<Rightarrow> string \<Rightarrow> string \<Rightarrow> string) \<Rightarrow> unit step" where
  "act_on w look id_key vm_name msg request_for failed =
     act_bind (look vm_name) (\<lambda>r. case r of
       None \<Rightarrow> quit msg
     | Some server \<Rightarrow>
         if \<not> truthy server then quit msg
         else act_bind (act_res (item server id_key)) (\<lambda>i.
              act_then (or_die (ask w (failed (request_for (py_str i))) (request_for (py_str i)))) (act_ret ())))"

definition delete_found :: "cloud_world \<Rightarrow> lookup \<Rightarrow> string \<Rightarrow> string \<Rightarrow> (string \<Rightarrow> request) \<Rightarrow> (request \<Rightarrow> string \<Rightarrow> string \<Rightarrow> string) \<Rightarrow> unit step" where
  "delete_found w look id_key vm_name request_for failed =
     act_bind (look vm_name) (\<lambda>r. case r of
       None \<Rightarrow> act_ret ()
     | Some server \<Rightarrow>
         if \<not> truthy server then act_ret ()
         else act_bind (act_res (item server id_key)) (\<lambda>i.
              act_then (or_die (ask w (failed (request_for (py_str i))) (request_for (py_str i)))) (act_ret ())))"

text \<open>\<open>host_resources\<close> of a cloud: as good as unlimited.\<close>

definition UNLIMITED :: "int \<times> int \<times> int" where
  "UNLIMITED = (9999, 999999, 999999)"

section \<open>What was asked\<close>

text \<open>
  \<open>asks P m\<close>: \<open>m\<close> makes only requests of which \<open>P\<close> holds. \<open>others looks s s'\<close>: the requests made between two states
  that do more than look.
\<close>

definition asks :: "(request \<Rightarrow> bool) \<Rightarrow> 'a step \<Rightarrow> bool" where
  "asks P m = (\<forall>s. \<exists>qs. cl_log (snd (m s)) = cl_log s @ qs \<and> list_all P qs)"

named_theorems asks_intros

lemma asks_ret [asks_intros]: "asks P (act_ret x)" by (simp add: asks_def act_simps)

lemma asks_raise [asks_intros]: "asks P (act_raise e)" "asks P (quit msg)" by (simp_all add: asks_def quit_def act_simps)

lemma asks_get [asks_intros]: "asks P (act_get f)" by (simp add: asks_def act_simps)

lemma asks_res [asks_intros]: "asks P (act_res r)" by (simp add: asks_def act_simps)

lemma asks_upd [asks_intros]: "asks P (caution msg)" "asks P (keep_user_data n t)" "asks P (kept_user_data n)"
  by (simp_all add: asks_def caution_def keep_user_data_def kept_user_data_def act_simps)

lemma asks_send [asks_intros]: "P q \<Longrightarrow> asks P (send_request w q)" by (simp add: asks_def send_request_def)

lemma asks_bind [asks_intros]:
  assumes "asks P m" and "\<And>x. asks P (f x)"
  shows "asks P (act_bind m f)"
  unfolding asks_def
proof
  fix s
  obtain r u where u: "m s = (r, u)" by fastforce
  obtain qs where qs: "cl_log u = cl_log s @ qs" "list_all P qs" using assms(1) u unfolding asks_def by (metis snd_conv)
  show "\<exists>qs. cl_log (snd (act_bind m f s)) = cl_log s @ qs \<and> list_all P qs"
  proof (cases r)
    case (Inr x)
    obtain ps where "cl_log (snd (f x u)) = cl_log u @ ps" "list_all P ps" using assms(2) unfolding asks_def by metis
    then show ?thesis using u Inr qs by (intro exI [of _ "qs @ ps"]) (simp add: act_bind_app)
  qed (use u qs in \<open>auto simp: act_bind_app\<close>)
qed

lemma asks_then [asks_intros]: "asks P m \<Longrightarrow> asks P n \<Longrightarrow> asks P (act_then m n)"
  by (simp add: act_then_def asks_bind)

lemma asks_if [asks_intros]: "asks P m \<Longrightarrow> asks P n \<Longrightarrow> asks P (if b then m else n)" by simp

lemma asks_option [asks_intros]: "asks P m \<Longrightarrow> (\<And>x. asks P (f x)) \<Longrightarrow> asks P (case r of None \<Rightarrow> m | Some x \<Rightarrow> f x)"
  by (cases r) simp_all

lemma asks_outcome [asks_intros]:
  "(\<And>c t. asks P (f c t)) \<Longrightarrow> (\<And>e. asks P (g e)) \<Longrightarrow> (\<And>v. asks P (h v)) \<Longrightarrow>
   asks P (case r of Refused c t \<Rightarrow> f c t | Broken e \<Rightarrow> g e | Answered v \<Rightarrow> h v)"
  by (cases r) simp_all

lemma asks_pair [asks_intros]: "(\<And>x y. asks P (f x y)) \<Longrightarrow> asks P (case p of (x, y) \<Rightarrow> f x y)"
  by (cases p) simp

lemma asks_ask [asks_intros]: "P q \<Longrightarrow> asks P (ask w failed q)"
  unfolding ask_def by (intro asks_intros)

lemma or_die_state: "snd (or_die m s) = snd (m s)"
  by (auto simp: or_die_def split: prod.splits sum.splits exc.splits)

lemma asks_or_die [asks_intros]: "asks P m \<Longrightarrow> asks P (or_die m)"
  by (simp add: asks_def or_die_state)

lemma or_die_Inr: "or_die m s = (Inr x, s') \<longleftrightarrow> m s = (Inr x, s')"
  by (auto simp: or_die_def split: prod.splits sum.splits exc.splits)

text \<open>What the provider refuses ends with the text of the refusal, not with a traceback.\<close>

lemma or_die_no_traceback: "fst (or_die m s) \<noteq> Inl (RuntimeError t)"
  by (auto simp: or_die_def split: prod.splits sum.splits exc.splits)

lemma asks_poll [asks_intros]: "asks P fetch \<Longrightarrow> asks P (poll fetch vm_name waited)"
proof (induction fetch vm_name waited rule: poll.induct)
  case (1 fetch vm_name waited)
  have "asks P (if waited < POLL_TIMEOUT then act_bind fetch (\<lambda>ip. case ip of
            Some a \<Rightarrow> if a \<noteq> [] then act_ret a else poll fetch vm_name (waited + POLL_INTERVAL)
          | None \<Rightarrow> poll fetch vm_name (waited + POLL_INTERVAL))
      else act_raise (SystemExit (poll_timed_out vm_name)))"
    using 1 by (auto intro!: asks_bind asks_ret asks_raise split: option.split)
  then show ?case by (subst poll.simps)
qed

lemma asks_poll_for_ip [asks_intros]: "asks P fetch \<Longrightarrow> asks P (poll_for_ip fetch vm_name)"
  by (simp add: poll_for_ip_def asks_poll)

lemma poll_Inr_nonempty: "poll fetch vm_name waited s = (Inr ip, s') \<Longrightarrow> ip \<noteq> []"
proof (induction fetch vm_name waited arbitrary: s rule: poll.induct)
  case (1 fetch vm_name waited)
  then have w: "waited < POLL_TIMEOUT" by (subst (asm) (2) poll.simps) (auto simp: act_raise_app split: if_splits)
  with 1(3) obtain r u where r: "fetch s = (Inr r, u)" and
    rest: "(case r of Some a \<Rightarrow> if a \<noteq> [] then act_ret a else poll fetch vm_name (waited + POLL_INTERVAL)
      | None \<Rightarrow> poll fetch vm_name (waited + POLL_INTERVAL)) u = (Inr ip, s')"
    by (subst (asm) poll.simps) (auto simp: act_bind_eq_Inr)
  then show ?case using 1(1) [OF w] 1(2) [OF w] by (auto simp: act_ret_app split: option.splits if_splits)
qed

definition others :: "(request \<Rightarrow> bool) \<Rightarrow> cloud \<Rightarrow> cloud \<Rightarrow> request list" where
  "others looks s s' = filter (\<lambda>q. \<not> looks q) (drop (length (cl_log s)) (cl_log s'))"

lemma others_quiet:
  assumes "asks looks m" and "m s = (r, u)"
  shows "others looks s u = []" and "prefix (cl_log s) (cl_log u)"
proof -
  obtain qs where "cl_log u = cl_log s @ qs" "list_all looks qs" using assms unfolding asks_def by (metis snd_conv)
  then show "others looks s u = []" "prefix (cl_log s) (cl_log u)"
    by (auto simp: others_def list_all_iff filter_empty_conv)
qed

lemma others_trans:
  "prefix (cl_log s) (cl_log u) \<Longrightarrow> prefix (cl_log u) (cl_log t) \<Longrightarrow> others looks s t = others looks s u @ others looks u t"
  by (auto simp: others_def prefix_def)

lemma asks_grows: "asks P m \<Longrightarrow> m s = (r, u) \<Longrightarrow> prefix (cl_log s) (cl_log u)"
  unfolding asks_def prefix_def by (metis snd_conv)

lemma ask_Inr: "ask w failed q s = (Inr v, u) \<Longrightarrow> u = s\<lparr>cl_log := cl_log s @ [q]\<rparr> \<and> cw_answer w q (cl_log s) = Answered v"
  by (auto simp: ask_def act_bind_eq_Inr send_request_def act_raise_app act_ret_app split: outcome.splits)

lemma others_ask: "ask w failed q s = (Inr v, u) \<Longrightarrow> \<not> looks q \<Longrightarrow> others looks s u = [q]"
  by (auto dest!: ask_Inr simp: others_def)

text \<open>Around one request that changes something: what looks before and after does not add to it.\<close>

lemma others_around:
  assumes "asks looks m" "m s = (r, s1)" and "ask w failed q s1 = (Inr v, s2)" "\<not> looks q" and "asks looks n" "n s2 = (r', t)"
  shows "others looks s t = [q]"
proof -
  have p: "prefix (cl_log s) (cl_log s1)" "prefix (cl_log s1) (cl_log s2)" "prefix (cl_log s2) (cl_log t)"
    using asks_grows [OF assms(1,2)] ask_Inr [OF assms(3)] asks_grows [OF assms(5,6)] by auto
  have "others looks s t = others looks s s1 @ others looks s1 s2 @ others looks s2 t"
    using others_trans [OF p(1) prefix_order.trans [OF p(2,3)]] others_trans [OF p(2,3)] by simp
  moreover have "others looks s1 s2 = [q]" using assms(3,4) by (rule others_ask)
  ultimately show ?thesis using others_quiet(1) [OF assms(1,2)] others_quiet(1) [OF assms(5,6)] by simp
qed

lemma others_log: "cl_log s = cl_log s' \<Longrightarrow> others looks s t = others looks s' t"
  by (simp add: others_def)

text \<open>Two steps one after the other.\<close>

lemma others_after:
  assumes "others looks s u = qs" "prefix (cl_log s) (cl_log u)" and "asks P n" "n u = (r, t)"
  shows "others looks s t = qs @ others looks u t"
  using others_trans [OF assms(2) asks_grows [OF assms(3,4)], of looks] assms(1) by simp

lemma require_cloud_init_Inr: "require_cloud_init backend cm n s = (Inr (), u) \<longleftrightarrow> cm = ''cloud-init'' \<and> u = s"
  by (auto simp: require_cloud_init_def quit_def act_ret_app act_raise_app)

lemma type_or_pick_Inr:
  assumes "type_or_pick ty (pick_type fl table too_big cpu mem) s = (Inr x, u)"
  shows "u = s \<and> (if ty \<noteq> [] then x = ty
    else \<exists>c m. to_int mem = Inr m \<and> (table \<noteq> [] \<longrightarrow> to_int cpu = Inr c) \<and>
      (\<exists>size. find (big_enough fl c m) table = Some (x, size)))"
  using assms
  by (auto simp: type_or_pick_def pick_type_def quit_def act_bind_eq_Inr act_res_app act_ret_app act_raise_app split: if_splits option.splits)

lemma user_data_file_Inr:
  "user_data_file p n s = (Inr x, u) \<longleftrightarrow> u = s \<and> map_of (cl_files s) (user_data_path p n) = Some x"
  by (auto simp: user_data_file_def quit_def act_bind_eq_Inr act_get_app act_ret_app act_raise_app split: option.splits)

lemma push_user_data_Inr:
  assumes "push_user_data backend p n cm s = (Inr (), u)"
  shows "\<exists>x. map_of (cl_files s) (user_data_path p n) = Some x \<and> u = s\<lparr>cl_user_data := AList.update n x (cl_user_data s)\<rparr>"
  using assms
  by (auto simp: push_user_data_def act_then_eq_Inr act_bind_eq_Inr user_data_file_Inr keep_user_data_def act_upd_app require_cloud_init_Inr)

lemma required_then:
  "act_then (require_cloud_init backend cm n) m s = (Inr y, t) \<longleftrightarrow> cm = ''cloud-init'' \<and> m s = (Inr y, t)"
  by (auto simp: act_then_eq_Inr require_cloud_init_Inr)

lemma res_then: "act_bind (act_res r) f s = (Inr y, t) \<longleftrightarrow> (\<exists>x. r = Inr x \<and> f x s = (Inr y, t))"
  by (auto simp: act_bind_eq_Inr act_res_app)

lemma kept_then:
  "act_bind (kept_user_data n) f s = (Inr y, t) \<longleftrightarrow>
    f (case map_of (cl_user_data s) n of Some x \<Rightarrow> x | None \<Rightarrow> []) s = (Inr y, t)"
  by (simp add: kept_user_data_def act_bind_app act_get_app)

lemma kept_user_data_app: "kept_user_data n s = (Inr (case map_of (cl_user_data s) n of Some x \<Rightarrow> x | None \<Rightarrow> []), s)"
  by (simp add: kept_user_data_def act_get_app)

section \<open>The contract of a backend's lookup\<close>

text \<open>
  The lookup of a VM only looks. From this alone: the questions about a VM change nothing, and a deletion makes at most
  one request that is more than a look, for the id of what was found.
\<close>

locale vm_lookup =
  fixes look :: lookup and looks :: "request \<Rightarrow> bool"
  assumes look_asks: "asks looks (look vm_name)"
begin

lemma exists_asks: "asks looks (vm_exists look vm_name)"
  unfolding vm_exists_def by (intro asks_intros look_asks)

lemma state_asks: "asks looks (vm_state look key vm_name)"
  unfolding vm_state_def by (intro asks_intros look_asks)

lemma reusable_asks: "looks (Login vm_name) \<Longrightarrow> asks looks (vm_is_reusable w look key running vm_name myip)"
  unfolding vm_is_reusable_def reachable_for_keep_def by (intro asks_intros look_asks)

lemma delete_missing: "look vm_name s = (Inr None, s') \<Longrightarrow> delete_found w look id_key vm_name q failed s = (Inr (), s')"
  by (simp add: delete_found_def act_bind_app act_ret_app)

lemma deleted:
  assumes "delete_found w look id_key vm_name q failed s = (Inr (), t)" and "\<And>i. \<not> looks (q i)"
  shows "\<exists>r u. look vm_name s = (Inr r, u) \<and>
    (case r of None \<Rightarrow> others looks s t = []
     | Some server \<Rightarrow> others looks s t = (if truthy server then (case item server id_key of Inr i \<Rightarrow> [q (py_str i)] | Inl _ \<Rightarrow> []) else []))"
proof -
  obtain r u where l: "look vm_name s = (Inr r, u)" using assms(1) by (auto simp: delete_found_def act_bind_eq_Inr)
  have quiet: "others looks s u = []" by (rule others_quiet(1) [OF look_asks l])
  show ?thesis
  proof (cases "\<exists>server. r = Some server \<and> truthy server")
    case False
    then have "t = u" using assms(1) l by (cases r) (auto simp: delete_found_def act_bind_app act_ret_app)
    then show ?thesis using l quiet False by (cases r) auto
  next
    case True
    then obtain server where s: "r = Some server" "truthy server" by blast
    then obtain i v u' where i: "item server id_key = Inr i" and a: "ask w (failed (q (py_str i))) (q (py_str i)) u = (Inr v, t)"
      using assms(1) l by (auto simp: delete_found_def act_bind_app act_then_app or_die_Inr act_res_app act_ret_app split: sum.splits prod.splits)
    have n: "asks looks (act_ret ())" by (rule asks_ret)
    have "others looks s t = [q (py_str i)]"
      by (rule others_around [OF look_asks l a assms(2) n]) (simp add: act_ret_app)
    then show ?thesis using l s i by auto
  qed
qed

end

text \<open>A lookup that compares names: what it finds has the name. Then a deletion is of a server of that name.\<close>

locale named_lookup = vm_lookup +
  fixes name_key :: string
  assumes look_named: "look n s = (Inr (Some server), u) \<Longrightarrow> own_field server name_key = Inr (PStr n)"
begin

lemma deleted_named:
  assumes "delete_found w look id_key n q failed s = (Inr (), t)" and "\<And>i. \<not> looks (q i)"
  shows "others looks s t = [] \<or>
    (\<exists>server i. own_field server name_key = Inr (PStr n) \<and> item server id_key = Inr i \<and> others looks s t = [q (py_str i)])"
proof -
  obtain r u where l: "look n s = (Inr r, u)" and
    d: "case r of None \<Rightarrow> others looks s t = []
     | Some server \<Rightarrow> others looks s t = (if truthy server then (case item server id_key of Inr i \<Rightarrow> [q (py_str i)] | Inl _ \<Rightarrow> []) else [])"
    using deleted [OF assms] by blast
  show ?thesis
  proof (cases r)
    case None
    then show ?thesis using d by simp
  next
    case (Some server)
    then have "own_field server name_key = Inr (PStr n)" using l by (auto intro: look_named)
    then show ?thesis using d Some by (cases "item server id_key") (auto split: if_splits)
  qed
qed

end

lemma first_named_Some: "first_named k n xs = Inr (Some x) \<Longrightarrow> x \<in> set xs \<and> own_field x k = Inr (PStr n)"
  by (induction xs) (auto simp: res_bind_eq_Inr split: if_splits)

lemma first_named_None: "first_named k n xs = Inr None \<Longrightarrow> x \<in> set xs \<Longrightarrow> own_field x k \<noteq> Inr (PStr n)"
  by (induction xs) (auto simp: res_bind_eq_Inr split: if_splits)

section \<open>A state before any request\<close>

definition whole_floats :: "int floats" where
  "whole_floats = \<lparr>fl_parse = py_int, fl_of_int = (\<lambda>n. n), fl_covers = (\<lambda>gb mb. mb \<le> gb * 1024)\<rparr>"

definition no_requests :: cloud where
  "no_requests = \<lparr>cl_log = [], cl_files = [(''/lab/cloud-init/n1_user-data'', ''#cloud-config'')], cl_user_data = [], cl_warnings = []\<rparr>"

end
