(* ===== verification/Cloud_Rest.thy ===== *)
theory Cloud_Rest
  imports Cloud_Api Lab_Defs "HOL-Library.Product_Lexorder"
begin

text \<open>
  The backends of \<open>libs/backends.py\<close> that talk to their provider over HTTP: Hetzner, Scaleway, UpCloud and OVHcloud.
  The authentication headers of a request are left out, but for OVHcloud's signature, which has its own definition.
\<close>

definition http_failed :: "string \<Rightarrow> request \<Rightarrow> string \<Rightarrow> string \<Rightarrow> string" where
  "http_failed provider q status detail =
     (case q of Http m path _ \<Rightarrow> provider @ '' API '' @ m @ '' '' @ path @ '' failed ('' @ status @ ''): '' @ detail | _ \<Rightarrow> detail)"

definition call :: "cloud_world \<Rightarrow> string \<Rightarrow> request \<Rightarrow> pval step" where
  "call w provider q = ask w (http_failed provider q) q"

definition is_get :: "request \<Rightarrow> bool" where
  "is_get q = (case q of Http m _ _ \<Rightarrow> m = ''GET'' | Login _ \<Rightarrow> True | _ \<Rightarrow> False)"

section \<open>Hetzner\<close>

record 'f hetzner =
  hz_location :: string
  hz_types :: "'f sku list option"
  hz_lab_setup_path :: string

definition HETZNER_TYPES :: "(string \<times> int \<times> int) list" where
  "HETZNER_TYPES = [(''cx22'', 2, 4), (''cx32'', 4, 8), (''cx42'', 8, 16), (''cx52'', 16, 32)]"

definition hetzner_resolve :: "'f floats \<Rightarrow> dict \<Rightarrow> string \<Rightarrow> string \<Rightarrow> 'f hetzner res" where
  "hetzner_resolve fl config vm_name lab_setup_path =
     (if \<not> truthy (get config ''HETZNER_TOKEN'') then Inl (SystemExit (config_missing ''hetzner'' [''HETZNER_TOKEN''] vm_name))
      else res_bind (parse_sku_table (fl_parse fl) (get config ''HETZNER_SERVER_TYPES'') ''HETZNER_SERVER_TYPES'') (\<lambda>types.
        Inr \<lparr>hz_location = (if truthy (get config ''HETZNER_LOCATION'') then py_str (get config ''HETZNER_LOCATION'') else []),
             hz_types = types, hz_lab_setup_path = lab_setup_path\<rparr>))"

definition hetzner_find :: "cloud_world \<Rightarrow> lookup" where
  "hetzner_find w vm_name =
     act_bind (call w ''Hetzner'' (Http ''GET'' (''/servers?name='' @ vm_name) None)) (\<lambda>result.
     act_res (res_bind (field_or result ''servers'' (PList [])) first_item))"

definition hetzner_pick :: "'f floats \<Rightarrow> 'f hetzner \<Rightarrow> pval \<Rightarrow> pval \<Rightarrow> string \<Rightarrow> string step" where
  "hetzner_pick fl b vm_cpu vm_mem_mb vm_name =
     pick_type fl (table_or (hz_types b) (built_in fl HETZNER_TYPES))
       (\<lambda>cpu mem. too_small vm_name ''HetznerBackend'' ''server_type'' ''HetznerBackend.SERVER_TYPES'' ''HETZNER_SERVER_TYPES''
          (shape_text cpu mem)) vm_cpu vm_mem_mb"

definition hetzner_ip :: "pval \<Rightarrow> string option res" where
  "hetzner_ip server =
     res_bind (own_field server ''public_net'') (\<lambda>net. res_bind (field net ''ipv4'') (\<lambda>v4. res_bind (field v4 ''ip'') (\<lambda>ip.
     Inr (text_or_none ip))))"

definition hetzner_get_ip :: "cloud_world \<Rightarrow> string \<Rightarrow> string option step" where
  "hetzner_get_ip w vm_name =
     act_bind (hetzner_find w vm_name) (\<lambda>r. case r of
       None \<Rightarrow> act_ret None | Some server \<Rightarrow> if truthy server then act_res (hetzner_ip server) else act_ret None)"

definition hetzner_reusable :: "cloud_world \<Rightarrow> string \<Rightarrow> string \<Rightarrow> bool step" where
  "hetzner_reusable w vm_name myip = vm_is_reusable w (hetzner_find w) ''status'' ''running'' vm_name myip"

definition hetzner_action_path :: "string \<Rightarrow> string \<Rightarrow> request" where
  "hetzner_action_path action i = Http ''POST'' (''/servers/'' @ i @ ''/actions/'' @ action) None"

definition hetzner_action :: "cloud_world \<Rightarrow> string \<Rightarrow> string \<Rightarrow> unit step" where
  "hetzner_action w vm_name action =
     act_on w (hetzner_find w) ''id'' vm_name (not_there ''Hetzner server'' vm_name action) (hetzner_action_path action) (http_failed ''Hetzner'')"

definition hetzner_reboot :: "cloud_world \<Rightarrow> string \<Rightarrow> unit step" where
  "hetzner_reboot w vm_name = hetzner_action w vm_name ''reboot''"

definition hetzner_start :: "cloud_world \<Rightarrow> string \<Rightarrow> unit step" where
  "hetzner_start w vm_name = hetzner_action w vm_name ''poweron''"

definition hetzner_stop :: "cloud_world \<Rightarrow> string \<Rightarrow> unit step" where
  "hetzner_stop w vm_name = hetzner_action w vm_name ''shutdown''"

definition hetzner_delete_request :: "string \<Rightarrow> request" where
  "hetzner_delete_request i = Http ''DELETE'' (''/servers/'' @ i) None"

definition hetzner_delete :: "cloud_world \<Rightarrow> string \<Rightarrow> unit step" where
  "hetzner_delete w vm_name = delete_found w (hetzner_find w) ''id'' vm_name hetzner_delete_request (http_failed ''Hetzner'')"

definition hetzner_copy_image :: "string \<Rightarrow> string \<Rightarrow> string \<Rightarrow> unit step" where
  "hetzner_copy_image iso_image vm_name config_method =
     check_image ''HetznerBackend'' ''hetzner'' (''a real Hetzner system-image name (e.g. '' @ dq ''ubuntu-24.04'' @ '') or your own snapshot ID'')
       iso_image vm_name config_method"

definition hetzner_push :: "'f hetzner \<Rightarrow> string \<Rightarrow> string \<Rightarrow> unit step" where
  "hetzner_push b vm_name config_method = push_user_data ''HetznerBackend'' (hz_lab_setup_path b) vm_name config_method"

definition hetzner_body :: "'f hetzner \<Rightarrow> string \<Rightarrow> string \<Rightarrow> string \<Rightarrow> string \<Rightarrow> pval" where
  "hetzner_body b vm_name server_type iso_image user_data =
     PDict ([(''name'', PStr vm_name), (''server_type'', PStr server_type), (''image'', PStr iso_image), (''user_data'', PStr user_data)] @
            (if hz_location b \<noteq> [] then [(''location'', PStr (hz_location b))] else []))"

definition disk_warning :: "string \<Rightarrow> string \<Rightarrow> string \<Rightarrow> string" where
  "disk_warning gb server_type disk_gb =
     ''requested '' @ gb @ ''G disk but server_type '' @ sq server_type @ '' only includes '' @ disk_gb @ ''G '' @ emdash @
     '' HetznerBackend does not attach extra Volumes to make up the difference''"

definition hetzner_check_disk :: "pval \<Rightarrow> string \<Rightarrow> pval \<Rightarrow> unit step" where
  "hetzner_check_disk server server_type vm_dsk_gb =
     act_bind (act_res (res_bind (own_field_or server ''server_type'' (PDict [])) (\<lambda>t. own_field t ''disk''))) (\<lambda>disk_gb.
     if \<not> truthy disk_gb then act_ret ()
     else act_bind (act_res (to_int vm_dsk_gb)) (\<lambda>wanted. act_bind (act_res (to_int disk_gb)) (\<lambda>has.
          if wanted > has then caution (disk_warning (py_str vm_dsk_gb) server_type (py_str disk_gb)) else act_ret ())))"

definition hetzner_created :: "cloud_world \<Rightarrow> string \<Rightarrow> string \<Rightarrow> pval \<Rightarrow> pval \<Rightarrow> string step" where
  "hetzner_created w vm_name server_type vm_dsk_gb result =
     act_bind (act_res (field_or result ''server'' (PDict []))) (\<lambda>server.
     act_then (hetzner_check_disk server server_type vm_dsk_gb)
     (act_bind (act_res (hetzner_ip server)) (\<lambda>ip. case ip of
        Some a \<Rightarrow> act_ret a
      | None \<Rightarrow> poll_for_ip (hetzner_get_ip w vm_name) vm_name)))"

definition hetzner_create_request :: "'f hetzner \<Rightarrow> string \<Rightarrow> string \<Rightarrow> string \<Rightarrow> string \<Rightarrow> request" where
  "hetzner_create_request b vm_name server_type iso_image user_data =
     Http ''POST'' ''/servers'' (Some (hetzner_body b vm_name server_type iso_image user_data))"

definition hetzner_create ::
  "cloud_world \<Rightarrow> 'f floats \<Rightarrow> 'f hetzner \<Rightarrow> string \<Rightarrow> pval \<Rightarrow> pval \<Rightarrow> pval \<Rightarrow> string \<Rightarrow> string \<Rightarrow> string \<Rightarrow> string step" where
  "hetzner_create w fl b vm_name vm_cpu vm_mem vm_dsk_gb config_method iso_image cloud_instance_type =
     act_then (require_cloud_init ''HetznerBackend'' config_method vm_name)
     (act_bind (type_or_pick cloud_instance_type (hetzner_pick fl b vm_cpu vm_mem vm_name)) (\<lambda>server_type.
      act_bind (kept_user_data vm_name) (\<lambda>user_data.
      act_bind (or_die (call w ''Hetzner'' (hetzner_create_request b vm_name server_type iso_image user_data)))
        (hetzner_created w vm_name server_type vm_dsk_gb))))"

section \<open>Scaleway\<close>

record 'f scaleway =
  sw_project :: string
  sw_zone :: string
  sw_types :: "'f sku list option"
  sw_lab_setup_path :: string

definition SCALEWAY_TYPES :: "(string \<times> int \<times> int) list" where
  "SCALEWAY_TYPES = [(''DEV1-S'', 2, 2), (''DEV1-M'', 3, 4), (''DEV1-L'', 4, 8), (''GP1-S'', 8, 32)]"

definition SCALEWAY_KEYS :: "string list" where
  "SCALEWAY_KEYS = [''SCALEWAY_SECRET_KEY'', ''SCALEWAY_PROJECT_ID'', ''SCALEWAY_ZONE'']"

definition scaleway_resolve :: "'f floats \<Rightarrow> dict \<Rightarrow> string \<Rightarrow> string \<Rightarrow> 'f scaleway res" where
  "scaleway_resolve fl config vm_name lab_setup_path =
     (let missing = missing_config config SCALEWAY_KEYS in
      if missing \<noteq> [] then Inl (SystemExit (config_missing ''scaleway'' missing vm_name))
      else res_bind (parse_sku_table (fl_parse fl) (get config ''SCALEWAY_SERVER_TYPES'') ''SCALEWAY_SERVER_TYPES'') (\<lambda>types.
        Inr \<lparr>sw_project = py_str (get config ''SCALEWAY_PROJECT_ID''), sw_zone = py_str (get config ''SCALEWAY_ZONE''),
             sw_types = types, sw_lab_setup_path = lab_setup_path\<rparr>))"

text \<open>The zone is in the path of every request; it is part of the base here.\<close>

definition scaleway_find :: "cloud_world \<Rightarrow> lookup" where
  "scaleway_find w vm_name =
     act_bind (call w ''Scaleway'' (Http ''GET'' (''/servers?name='' @ vm_name) None)) (\<lambda>result.
     act_res (res_bind (field_or result ''servers'' (PList [])) first_item))"

definition scaleway_pick :: "'f floats \<Rightarrow> 'f scaleway \<Rightarrow> pval \<Rightarrow> pval \<Rightarrow> string \<Rightarrow> string step" where
  "scaleway_pick fl b vm_cpu vm_mem_mb vm_name =
     pick_type fl (table_or (sw_types b) (built_in fl SCALEWAY_TYPES))
       (\<lambda>cpu mem. too_small vm_name ''ScalewayBackend'' ''server_type'' ''ScalewayBackend.SERVER_TYPES'' ''SCALEWAY_SERVER_TYPES''
          (shape_text cpu mem)) vm_cpu vm_mem_mb"

definition scaleway_get_ip :: "cloud_world \<Rightarrow> string \<Rightarrow> string option step" where
  "scaleway_get_ip w vm_name =
     act_bind (scaleway_find w vm_name) (\<lambda>r. case r of
       None \<Rightarrow> act_ret None
     | Some server \<Rightarrow>
         if \<not> truthy server then act_ret None
         else act_res (res_bind (own_field server ''public_ip'') (\<lambda>p. res_bind (field p ''address'') (\<lambda>a. Inr (text_or_none a)))))"

definition scaleway_reusable :: "cloud_world \<Rightarrow> string \<Rightarrow> string \<Rightarrow> bool step" where
  "scaleway_reusable w vm_name myip = vm_is_reusable w (scaleway_find w) ''state'' ''running'' vm_name myip"

definition scaleway_action_request :: "string \<Rightarrow> string \<Rightarrow> request" where
  "scaleway_action_request action i = Http ''POST'' (''/servers/'' @ i @ ''/action'') (Some (PDict [(''action'', PStr action)]))"

definition scaleway_action :: "cloud_world \<Rightarrow> string \<Rightarrow> string \<Rightarrow> unit step" where
  "scaleway_action w vm_name action =
     act_on w (scaleway_find w) ''id'' vm_name (not_there ''Scaleway server'' vm_name action) (scaleway_action_request action) (http_failed ''Scaleway'')"

definition scaleway_reboot :: "cloud_world \<Rightarrow> string \<Rightarrow> unit step" where
  "scaleway_reboot w vm_name = scaleway_action w vm_name ''reboot''"

definition scaleway_start :: "cloud_world \<Rightarrow> string \<Rightarrow> unit step" where
  "scaleway_start w vm_name = scaleway_action w vm_name ''poweron''"

definition scaleway_stop :: "cloud_world \<Rightarrow> string \<Rightarrow> unit step" where
  "scaleway_stop w vm_name = scaleway_action w vm_name ''poweroff''"

definition scaleway_delete_request :: "string \<Rightarrow> request" where
  "scaleway_delete_request i = Http ''DELETE'' (''/servers/'' @ i) None"

definition scaleway_delete :: "cloud_world \<Rightarrow> string \<Rightarrow> unit step" where
  "scaleway_delete w vm_name = delete_found w (scaleway_find w) ''id'' vm_name scaleway_delete_request (http_failed ''Scaleway'')"

definition scaleway_copy_image :: "string \<Rightarrow> string \<Rightarrow> string \<Rightarrow> unit step" where
  "scaleway_copy_image iso_image vm_name config_method =
     check_image ''ScalewayBackend'' ''scaleway'' ''a real Scaleway image ID/label'' iso_image vm_name config_method"

definition scaleway_push :: "'f scaleway \<Rightarrow> string \<Rightarrow> string \<Rightarrow> unit step" where
  "scaleway_push b vm_name config_method = push_user_data ''ScalewayBackend'' (sw_lab_setup_path b) vm_name config_method"

definition scaleway_create_request :: "'f scaleway \<Rightarrow> string \<Rightarrow> string \<Rightarrow> string \<Rightarrow> request" where
  "scaleway_create_request b vm_name server_type iso_image =
     Http ''POST'' ''/servers'' (Some (PDict
       [(''name'', PStr vm_name), (''commercial_type'', PStr server_type), (''project'', PStr (sw_project b)), (''image'', PStr iso_image)]))"

definition scaleway_user_data_request :: "string \<Rightarrow> string \<Rightarrow> request" where
  "scaleway_user_data_request i t = Put_Text (''/servers/'' @ i @ ''/user_data/cloud-init'') t"

definition user_data_refused :: "string \<Rightarrow> string \<Rightarrow> string" where
  "user_data_refused vm_name t = ''failed to set cloud-init user_data for '' @ sq vm_name @ '': '' @ t"

definition scaleway_send_user_data :: "cloud_world \<Rightarrow> string \<Rightarrow> pval \<Rightarrow> string \<Rightarrow> unit step" where
  "scaleway_send_user_data w vm_name server_id user_data =
     (if truthy server_id \<and> user_data \<noteq> [] then
        act_then (or_die (ask w (\<lambda>_ t. user_data_refused vm_name t) (scaleway_user_data_request (py_str server_id) user_data))) (act_ret ())
      else act_ret ())"

definition scaleway_created :: "cloud_world \<Rightarrow> string \<Rightarrow> string \<Rightarrow> pval \<Rightarrow> string step" where
  "scaleway_created w vm_name user_data result =
     act_bind (act_res (res_bind (field_or result ''server'' (PDict [])) (\<lambda>server. own_field server ''id''))) (\<lambda>server_id.
     act_then (scaleway_send_user_data w vm_name server_id user_data)
     (act_then (or_die (call w ''Scaleway'' (scaleway_action_request ''poweron'' (py_str server_id))))
     (poll_for_ip (scaleway_get_ip w vm_name) vm_name)))"

definition scaleway_create ::
  "cloud_world \<Rightarrow> 'f floats \<Rightarrow> 'f scaleway \<Rightarrow> string \<Rightarrow> pval \<Rightarrow> pval \<Rightarrow> string \<Rightarrow> string \<Rightarrow> string \<Rightarrow> string step" where
  "scaleway_create w fl b vm_name vm_cpu vm_mem config_method iso_image cloud_instance_type =
     act_then (require_cloud_init ''ScalewayBackend'' config_method vm_name)
     (act_bind (type_or_pick cloud_instance_type (scaleway_pick fl b vm_cpu vm_mem vm_name)) (\<lambda>server_type.
      act_bind (or_die (call w ''Scaleway'' (scaleway_create_request b vm_name server_type iso_image))) (\<lambda>result.
      act_bind (kept_user_data vm_name) (\<lambda>user_data. scaleway_created w vm_name user_data result))))"

section \<open>UpCloud\<close>

record 'f upcloud =
  uc_zone :: string
  uc_plans :: "'f sku list option"
  uc_lab_setup_path :: string

definition UPCLOUD_PLANS :: "(string \<times> int \<times> int) list" where
  "UPCLOUD_PLANS = [(''1xCPU-2GB'', 1, 2), (''2xCPU-4GB'', 2, 4), (''4xCPU-8GB'', 4, 8), (''6xCPU-16GB'', 6, 16)]"

definition UPCLOUD_KEYS :: "string list" where
  "UPCLOUD_KEYS = [''UPCLOUD_USERNAME'', ''UPCLOUD_PASSWORD'', ''UPCLOUD_ZONE'']"

definition upcloud_resolve :: "'f floats \<Rightarrow> dict \<Rightarrow> string \<Rightarrow> string \<Rightarrow> 'f upcloud res" where
  "upcloud_resolve fl config vm_name lab_setup_path =
     (let missing = missing_config config UPCLOUD_KEYS in
      if missing \<noteq> [] then Inl (SystemExit (config_missing ''upcloud'' missing vm_name))
      else res_bind (parse_sku_table (fl_parse fl) (get config ''UPCLOUD_PLANS'') ''UPCLOUD_PLANS'') (\<lambda>plans.
        Inr \<lparr>uc_zone = py_str (get config ''UPCLOUD_ZONE''), uc_plans = plans, uc_lab_setup_path = lab_setup_path\<rparr>))"

definition upcloud_find :: "cloud_world \<Rightarrow> lookup" where
  "upcloud_find w vm_name =
     act_bind (call w ''UpCloud'' (Http ''GET'' ''/server'' None)) (\<lambda>result.
     act_res (res_bind (field result ''servers'') (\<lambda>v. res_bind (field_or v ''server'' (PList [])) (\<lambda>servers.
       res_bind (iterate servers) (first_named ''title'' vm_name)))))"

definition upcloud_pick :: "'f floats \<Rightarrow> 'f upcloud \<Rightarrow> pval \<Rightarrow> pval \<Rightarrow> string \<Rightarrow> string step" where
  "upcloud_pick fl b vm_cpu vm_mem_mb vm_name =
     pick_type fl (table_or (uc_plans b) (built_in fl UPCLOUD_PLANS))
       (\<lambda>cpu mem. too_small vm_name ''UpCloudBackend'' ''plan'' ''UpCloudBackend.PLANS'' ''UPCLOUD_PLANS'' (shape_text cpu mem))
       vm_cpu vm_mem_mb"

text \<open>\<open>next((a[k] for a in addrs if ok(a) and a.get(k)), None)\<close>\<close>

fun first_address :: "(pval \<Rightarrow> bool) \<Rightarrow> string \<Rightarrow> pval list \<Rightarrow> pval option res" where
  "first_address ok k [] = Inr None"
| "first_address ok k (a # as) =
     res_bind (own_field a k) (\<lambda>v. if ok a \<and> truthy v then Inr (Some v) else first_address ok k as)"

definition has_field :: "string \<Rightarrow> pval \<Rightarrow> pval \<Rightarrow> bool" where
  "has_field k v a = (case a of PDict d \<Rightarrow> get d k = v | _ \<Rightarrow> False)"

definition option_text :: "pval option \<Rightarrow> string option" where
  "option_text v = map_option py_str v"

definition upcloud_ip :: "pval \<Rightarrow> string option res" where
  "upcloud_ip server =
     res_bind (own_field server ''ip_addresses'') (\<lambda>v. res_bind (field v ''ip_address'') (\<lambda>l. res_bind (or_list l) (\<lambda>addrs.
     res_bind (first_address (has_field ''access'' (PStr ''public'')) ''address'' addrs) (\<lambda>pub.
     if pub \<noteq> None then Inr (option_text pub)
     else res_bind (first_address (\<lambda>_. True) ''address'' addrs) (\<lambda>priv. Inr (option_text priv))))))"

definition upcloud_get_ip :: "cloud_world \<Rightarrow> string \<Rightarrow> string option step" where
  "upcloud_get_ip w vm_name =
     act_bind (upcloud_find w vm_name) (\<lambda>r. case r of
       None \<Rightarrow> act_ret None | Some server \<Rightarrow> if truthy server then act_res (upcloud_ip server) else act_ret None)"

definition upcloud_reusable :: "cloud_world \<Rightarrow> string \<Rightarrow> string \<Rightarrow> bool step" where
  "upcloud_reusable w vm_name myip = vm_is_reusable w (upcloud_find w) ''state'' ''started'' vm_name myip"

definition upcloud_action :: "cloud_world \<Rightarrow> string \<Rightarrow> string \<Rightarrow> string \<Rightarrow> pval option \<Rightarrow> unit step" where
  "upcloud_action w vm_name action verb body =
     act_on w (upcloud_find w) ''uuid'' vm_name (not_there ''UpCloud server'' vm_name action)
       (\<lambda>i. Http ''POST'' (''/server/'' @ i @ ''/'' @ verb) body) (http_failed ''UpCloud'')"

definition upcloud_reboot :: "cloud_world \<Rightarrow> string \<Rightarrow> unit step" where
  "upcloud_reboot w vm_name = upcloud_action w vm_name ''reboot'' ''restart'' (Some (PDict [(''restart_server'', PDict [])]))"

definition upcloud_start :: "cloud_world \<Rightarrow> string \<Rightarrow> unit step" where
  "upcloud_start w vm_name = upcloud_action w vm_name ''start'' ''start'' None"

definition upcloud_stop :: "cloud_world \<Rightarrow> string \<Rightarrow> unit step" where
  "upcloud_stop w vm_name =
     upcloud_action w vm_name ''stop'' ''stop''
       (Some (PDict [(''stop_server'', PDict [(''stop_type'', PStr ''soft''), (''timeout'', PStr ''120'')])]))"

definition upcloud_delete_request :: "string \<Rightarrow> request" where
  "upcloud_delete_request i = Http ''DELETE'' (''/server/'' @ i @ ''?storages=1'') None"

definition upcloud_delete :: "cloud_world \<Rightarrow> string \<Rightarrow> unit step" where
  "upcloud_delete w vm_name = delete_found w (upcloud_find w) ''uuid'' vm_name upcloud_delete_request (http_failed ''UpCloud'')"

definition upcloud_copy_image :: "string \<Rightarrow> string \<Rightarrow> string \<Rightarrow> unit step" where
  "upcloud_copy_image iso_image vm_name config_method =
     check_image ''UpCloudBackend'' ''upcloud'' ''a real UpCloud storage/template UUID'' iso_image vm_name config_method"

definition upcloud_push :: "'f upcloud \<Rightarrow> string \<Rightarrow> string \<Rightarrow> unit step" where
  "upcloud_push b vm_name config_method = push_user_data ''UpCloudBackend'' (uc_lab_setup_path b) vm_name config_method"

definition upcloud_disk :: "string \<Rightarrow> string \<Rightarrow> int \<Rightarrow> pval" where
  "upcloud_disk vm_name iso_image gb =
     PDict [(''action'', PStr ''clone''), (''storage'', PStr iso_image), (''title'', PStr (vm_name @ ''-disk0'')), (''size'', PInt gb),
            (''tier'', PStr ''maxiops'')]"

definition upcloud_create_request :: "'f upcloud \<Rightarrow> string \<Rightarrow> string \<Rightarrow> string \<Rightarrow> string \<Rightarrow> int \<Rightarrow> request" where
  "upcloud_create_request b vm_name plan iso_image user_data gb =
     Http ''POST'' ''/server'' (Some (PDict [(''server'', PDict
       [(''zone'', PStr (uc_zone b)), (''title'', PStr vm_name), (''hostname'', PStr vm_name), (''plan'', PStr plan),
        (''user_data'', PStr user_data),
        (''storage_devices'', PDict [(''storage_device'', PList [upcloud_disk vm_name iso_image gb])])])]))"

definition upcloud_create ::
  "cloud_world \<Rightarrow> 'f floats \<Rightarrow> 'f upcloud \<Rightarrow> string \<Rightarrow> pval \<Rightarrow> pval \<Rightarrow> pval \<Rightarrow> string \<Rightarrow> string \<Rightarrow> string \<Rightarrow> string step" where
  "upcloud_create w fl b vm_name vm_cpu vm_mem vm_dsk_gb config_method iso_image cloud_instance_type =
     act_then (require_cloud_init ''UpCloudBackend'' config_method vm_name)
     (act_bind (type_or_pick cloud_instance_type (upcloud_pick fl b vm_cpu vm_mem vm_name)) (\<lambda>plan.
      act_bind (kept_user_data vm_name) (\<lambda>user_data.
      act_bind (act_res (to_int vm_dsk_gb)) (\<lambda>gb.
      act_then (or_die (call w ''UpCloud'' (upcloud_create_request b vm_name plan iso_image user_data gb)))
      (poll_for_ip (upcloud_get_ip w vm_name) vm_name)))))"

section \<open>OVHcloud\<close>

record ovhcloud =
  ov_service_name :: string
  ov_region :: string
  ov_endpoint :: string
  ov_lab_setup_path :: string

definition OVH_KEYS :: "string list" where
  "OVH_KEYS = [''OVH_APPLICATION_KEY'', ''OVH_APPLICATION_SECRET'', ''OVH_CONSUMER_KEY'', ''OVH_SERVICE_NAME'', ''OVH_REGION'']"

definition ovh_resolve :: "dict \<Rightarrow> string \<Rightarrow> string \<Rightarrow> ovhcloud res" where
  "ovh_resolve config vm_name lab_setup_path =
     (let missing = missing_config config OVH_KEYS in
      if missing \<noteq> [] then Inl (SystemExit (config_missing ''ovhcloud'' missing vm_name))
      else Inr \<lparr>ov_service_name = py_str (get config ''OVH_SERVICE_NAME''), ov_region = py_str (get config ''OVH_REGION''),
        ov_endpoint = rstrip_ch CHR ''/'' (py_str (py_or (get config ''OVH_ENDPOINT'') (PStr ''https://eu.api.ovh.com/1.0''))),
        ov_lab_setup_path = lab_setup_path\<rparr>)"

text \<open>The signature of a request: \<open>sha1_hex\<close> is SHA-1, in hexadecimal digits.\<close>

definition ovh_sign :: "(string \<Rightarrow> string) \<Rightarrow> string \<Rightarrow> string \<Rightarrow> string \<Rightarrow> string \<Rightarrow> string \<Rightarrow> int \<Rightarrow> string" where
  "ovh_sign sha1_hex application_secret consumer_key verb url body_str timestamp =
     ''$1$'' @ sha1_hex (join ''+'' [application_secret, consumer_key, verb, url, body_str, py_str (PInt timestamp)])"

text \<open>The time, for the signature, is asked of the provider before each request; without an answer it is the local one.\<close>

definition ovh_call :: "cloud_world \<Rightarrow> request \<Rightarrow> pval step" where
  "ovh_call w q = act_bind (send_request w (Http ''GET'' ''/auth/time'' None)) (\<lambda>_. call w ''OVHcloud'' q)"

definition ovh_path :: "ovhcloud \<Rightarrow> string \<Rightarrow> string" where
  "ovh_path b rest = ''/cloud/project/'' @ ov_service_name b @ rest"

definition ovh_find :: "cloud_world \<Rightarrow> ovhcloud \<Rightarrow> lookup" where
  "ovh_find w b vm_name =
     act_bind (ovh_call w (Http ''GET'' (ovh_path b ''/instance'') None)) (\<lambda>result.
     act_res (res_bind (or_list result) (first_named ''name'' vm_name)))"

definition number :: "pval \<Rightarrow> int res" where
  "number v = (case v of PInt n \<Rightarrow> Inr n | PBool y \<Rightarrow> Inr (if y then 1 else 0) | _ \<Rightarrow> Inl (TypeError ''number''))"

text \<open>
  Dividing by 1024.0 is exact, so the memory of a flavor, in MiB as the memory asked for, is compared as it is.
\<close>

definition flavor_fits :: "pval \<Rightarrow> int \<Rightarrow> pval \<Rightarrow> bool res" where
  "flavor_fits vm_cpu mem f =
     res_bind (own_field_or f ''vcpus'' (PInt 0)) (\<lambda>v. res_bind (to_int vm_cpu) (\<lambda>cpu. res_bind (number v) (\<lambda>vcpus.
     if vcpus < cpu then Inr False
     else res_bind (own_field_or f ''ram'' (PInt 0)) (\<lambda>r. res_bind (number r) (\<lambda>ram. Inr (mem \<le> ram))))))"

fun res_filter :: "('a \<Rightarrow> bool res) \<Rightarrow> 'a list \<Rightarrow> 'a list res" where
  "res_filter p [] = Inr []"
| "res_filter p (x # xs) = res_bind (p x) (\<lambda>y. res_bind (res_filter p xs) (\<lambda>ys. Inr (if y then x # ys else ys)))"

definition size_of :: "pval \<Rightarrow> string \<Rightarrow> int" where
  "size_of f k = (case res_bind (own_field_or f k (PInt 0)) number of Inr n \<Rightarrow> n | Inl _ \<Rightarrow> 0)"

definition flavor_key :: "pval \<Rightarrow> int \<times> int" where
  "flavor_key f = (size_of f ''vcpus'', size_of f ''ram'')"

definition no_flavor :: "string \<Rightarrow> string \<Rightarrow> string \<Rightarrow> string \<Rightarrow> string" where
  "no_flavor region vm_name cpu mem =
     ''OVHcloudBackend found no flavor in region '' @ sq region @ '' big enough for VM '' @ sq vm_name @ '' ('' @ shape_text cpu mem @ '')''"

definition ovh_pick_flavor :: "cloud_world \<Rightarrow> ovhcloud \<Rightarrow> pval \<Rightarrow> pval \<Rightarrow> string \<Rightarrow> pval step" where
  "ovh_pick_flavor w b vm_cpu vm_mem_mb vm_name =
     act_bind (act_res (to_int vm_mem_mb)) (\<lambda>mem.
     act_bind (ovh_call w (Http ''GET'' (ovh_path b (''/flavor?region='' @ ov_region b)) None)) (\<lambda>result.
     act_bind (act_res (res_bind (or_list result) (res_filter (flavor_fits vm_cpu mem)))) (\<lambda>candidates.
     case sort_key flavor_key candidates of
       [] \<Rightarrow> quit (no_flavor (ov_region b) vm_name (py_str vm_cpu) (py_str vm_mem_mb))
     | f # _ \<Rightarrow> act_res (item f ''id''))))"

definition public_v4 :: "pval \<Rightarrow> bool" where
  "public_v4 a = (has_field ''type'' (PStr ''public'') a \<and> has_field ''version'' (PInt 4) a)"

text \<open>\<open>next((a["ip"] for a in addrs if ...), None)\<close>\<close>

fun first_public :: "pval list \<Rightarrow> pval option res" where
  "first_public [] = Inr None"
| "first_public (a # as) =
     res_bind (own_field a ''type'') (\<lambda>_. if public_v4 a then res_bind (item a ''ip'') (\<lambda>v. Inr (Some v)) else first_public as)"

definition ovh_ip :: "pval \<Rightarrow> string option res" where
  "ovh_ip instance0 =
     res_bind (own_field instance0 ''ipAddresses'') (\<lambda>l. res_bind (or_list l) (\<lambda>addrs. res_bind (first_public addrs) (\<lambda>pub.
     case pub of
       Some v \<Rightarrow> if truthy v then Inr (Some (py_str v)) else res_bind (first_address (\<lambda>_. True) ''ip'' addrs) (\<lambda>p. Inr (option_text p))
     | None \<Rightarrow> res_bind (first_address (\<lambda>_. True) ''ip'' addrs) (\<lambda>p. Inr (option_text p)))))"

definition ovh_get_ip :: "cloud_world \<Rightarrow> ovhcloud \<Rightarrow> string \<Rightarrow> string option step" where
  "ovh_get_ip w b vm_name =
     act_bind (ovh_find w b vm_name) (\<lambda>r. case r of
       None \<Rightarrow> act_ret None | Some inst \<Rightarrow> if truthy inst then act_res (ovh_ip inst) else act_ret None)"

definition ovh_reusable :: "cloud_world \<Rightarrow> ovhcloud \<Rightarrow> string \<Rightarrow> string \<Rightarrow> bool step" where
  "ovh_reusable w b vm_name myip = vm_is_reusable w (ovh_find w b) ''status'' ''ACTIVE'' vm_name myip"

text \<open>As the others' actions and deletion, with the time asked before the request.\<close>

definition ovh_on :: "cloud_world \<Rightarrow> ovhcloud \<Rightarrow> string \<Rightarrow> unit step \<Rightarrow> (string \<Rightarrow> request) \<Rightarrow> unit step" where
  "ovh_on w b vm_name absent request_for =
     act_bind (ovh_find w b vm_name) (\<lambda>r. case r of
       None \<Rightarrow> absent
     | Some inst \<Rightarrow>
         if \<not> truthy inst then absent
         else act_bind (act_res (item inst ''id'')) (\<lambda>i. act_then (or_die (ovh_call w (request_for (py_str i)))) (act_ret ())))"

definition ovh_action_request :: "ovhcloud \<Rightarrow> string \<Rightarrow> pval option \<Rightarrow> string \<Rightarrow> request" where
  "ovh_action_request b action body i = Http ''POST'' (ovh_path b (''/instance/'' @ i @ ''/'' @ action)) body"

definition ovh_reboot :: "cloud_world \<Rightarrow> ovhcloud \<Rightarrow> string \<Rightarrow> unit step" where
  "ovh_reboot w b vm_name =
     ovh_on w b vm_name (quit (not_there ''OVHcloud instance'' vm_name ''reboot''))
       (ovh_action_request b ''reboot'' (Some (PDict [(''type'', PStr ''hard'')])))"

definition ovh_action :: "cloud_world \<Rightarrow> ovhcloud \<Rightarrow> string \<Rightarrow> string \<Rightarrow> unit step" where
  "ovh_action w b vm_name action =
     ovh_on w b vm_name (quit (not_there ''OVHcloud instance'' vm_name action)) (ovh_action_request b action None)"

definition ovh_start :: "cloud_world \<Rightarrow> ovhcloud \<Rightarrow> string \<Rightarrow> unit step" where
  "ovh_start w b vm_name = ovh_action w b vm_name ''start''"

definition ovh_stop :: "cloud_world \<Rightarrow> ovhcloud \<Rightarrow> string \<Rightarrow> unit step" where
  "ovh_stop w b vm_name = ovh_action w b vm_name ''stop''"

definition ovh_delete_request :: "ovhcloud \<Rightarrow> string \<Rightarrow> request" where
  "ovh_delete_request b i = Http ''DELETE'' (ovh_path b (''/instance/'' @ i)) None"

definition ovh_delete :: "cloud_world \<Rightarrow> ovhcloud \<Rightarrow> string \<Rightarrow> unit step" where
  "ovh_delete w b vm_name = ovh_on w b vm_name (act_ret ()) (ovh_delete_request b)"

definition ovh_copy_image :: "ovhcloud \<Rightarrow> string \<Rightarrow> string \<Rightarrow> string \<Rightarrow> unit step" where
  "ovh_copy_image b iso_image vm_name config_method =
     check_image ''OVHcloudBackend'' ''ovhcloud'' (''a real OVHcloud Public Cloud imageId (UUID) for region '' @ sq (ov_region b))
       iso_image vm_name config_method"

definition ovh_push :: "ovhcloud \<Rightarrow> string \<Rightarrow> string \<Rightarrow> unit step" where
  "ovh_push b vm_name config_method = push_user_data ''OVHcloudBackend'' (ov_lab_setup_path b) vm_name config_method"

definition ovh_create_request :: "ovhcloud \<Rightarrow> string \<Rightarrow> pval \<Rightarrow> string \<Rightarrow> string \<Rightarrow> request" where
  "ovh_create_request b vm_name flavor_id iso_image user_data =
     Http ''POST'' (ovh_path b ''/instance'') (Some (PDict
       [(''name'', PStr vm_name), (''flavorId'', flavor_id), (''imageId'', PStr iso_image), (''region'', PStr (ov_region b)),
        (''userData'', PStr user_data)]))"

definition ovh_flavor :: "cloud_world \<Rightarrow> ovhcloud \<Rightarrow> string \<Rightarrow> pval \<Rightarrow> pval \<Rightarrow> string \<Rightarrow> pval step" where
  "ovh_flavor w b cloud_instance_type vm_cpu vm_mem vm_name =
     (if cloud_instance_type \<noteq> [] then act_ret (PStr cloud_instance_type) else ovh_pick_flavor w b vm_cpu vm_mem vm_name)"

definition ovh_create ::
  "cloud_world \<Rightarrow> ovhcloud \<Rightarrow> string \<Rightarrow> pval \<Rightarrow> pval \<Rightarrow> string \<Rightarrow> string \<Rightarrow> string \<Rightarrow> string step" where
  "ovh_create w b vm_name vm_cpu vm_mem config_method iso_image cloud_instance_type =
     act_then (require_cloud_init ''OVHcloudBackend'' config_method vm_name)
     (act_bind (ovh_flavor w b cloud_instance_type vm_cpu vm_mem vm_name) (\<lambda>flavor_id.
      act_bind (kept_user_data vm_name) (\<lambda>user_data.
      act_then (or_die (ovh_call w (ovh_create_request b vm_name flavor_id iso_image user_data)))
      (poll_for_ip (ovh_get_ip w b vm_name) vm_name))))"

section \<open>Lemmas\<close>

lemma asks_call [asks_intros]: "P q \<Longrightarrow> asks P (call w provider q)"
  unfolding call_def by (rule asks_ask)

lemma is_get_simps [simp]:
  "is_get (Http m path body) \<longleftrightarrow> m = ''GET''" "is_get (Login n)" "\<not> is_get (Put_Text path x)" "\<not> is_get (Cli args)"
  by (simp_all add: is_get_def)

lemma asks_ovh_call [asks_intros]: "is_get q \<Longrightarrow> asks is_get (ovh_call w q)"
  unfolding ovh_call_def by (intro asks_intros) simp_all

text \<open>Each lookup keeps the contract.\<close>

interpretation hetzner_lookup: vm_lookup "hetzner_find w" is_get
  by unfold_locales (auto simp: hetzner_find_def intro!: asks_intros)

interpretation scaleway_lookup: vm_lookup "scaleway_find w" is_get
  by unfold_locales (auto simp: scaleway_find_def intro!: asks_intros)

interpretation upcloud_lookup: named_lookup "upcloud_find w" is_get "''title''"
  by unfold_locales
    (auto simp: upcloud_find_def act_bind_eq_Inr act_res_app res_bind_eq_Inr dest: first_named_Some intro!: asks_intros)

interpretation ovh_lookup: named_lookup "ovh_find w b" is_get "''name''"
  by unfold_locales
    (auto simp: ovh_find_def act_bind_eq_Inr act_res_app res_bind_eq_Inr dest: first_named_Some intro!: asks_intros)

lemma scaleway_get_ip_asks [asks_intros]: "asks is_get (scaleway_get_ip w n)"
  unfolding scaleway_get_ip_def by (intro asks_intros scaleway_lookup.look_asks)

lemma hetzner_get_ip_asks [asks_intros]: "asks is_get (hetzner_get_ip w n)"
  unfolding hetzner_get_ip_def by (intro asks_intros hetzner_lookup.look_asks)

lemma upcloud_get_ip_asks [asks_intros]: "asks is_get (upcloud_get_ip w n)"
  unfolding upcloud_get_ip_def by (intro asks_intros upcloud_lookup.look_asks)

lemma ovh_get_ip_asks [asks_intros]: "asks is_get (ovh_get_ip w b n)"
  unfolding ovh_get_ip_def by (intro asks_intros ovh_lookup.look_asks)

text \<open>What the provider answered to the creation of a server in a run that went from one log to another, and the server's id in
  the answer.\<close>

definition created_as :: "cloud_world \<Rightarrow> cloud \<Rightarrow> cloud \<Rightarrow> request \<Rightarrow> pval \<Rightarrow> bool" where
  "created_as w s t q i =
     (\<exists>log v server. prefix (cl_log s) log \<and> prefix (log @ [q]) (cl_log t) \<and> cw_answer w q log = Answered v \<and> field_or v ''server'' (PDict []) = Inr server \<and> own_field server ''id'' = Inr i)"

definition scaleway_start_requests :: "pval \<Rightarrow> string \<Rightarrow> request list" where
  "scaleway_start_requests i x =
     (if truthy i \<and> x \<noteq> [] then [scaleway_user_data_request (py_str i) x] else []) @ [scaleway_action_request ''poweron'' (py_str i)]"

lemma scaleway_changes: "\<not> is_get (scaleway_user_data_request i x)" "\<not> is_get (scaleway_action_request a i)"
  "\<not> is_get (scaleway_create_request b n ty img)"
  by (simp_all add: scaleway_user_data_request_def scaleway_action_request_def scaleway_create_request_def)

lemma scaleway_send_user_data_Inr:
  assumes "scaleway_send_user_data w n i x s = (Inr (), u)"
  shows "prefix (cl_log s) (cl_log u) \<and>
    others is_get s u = (if truthy i \<and> x \<noteq> [] then [scaleway_user_data_request (py_str i) x] else [])"
  using assms
  by (auto simp: scaleway_send_user_data_def act_then_eq_Inr or_die_Inr act_ret_app others_def scaleway_changes
      dest!: ask_Inr split: if_splits)

lemma scaleway_created_Inr:
  assumes "scaleway_created w n x v s = (Inr ip, t)"
  shows "\<exists>i server. field_or v ''server'' (PDict []) = Inr server \<and> own_field server ''id'' = Inr i \<and>
    prefix (cl_log s) (cl_log t) \<and> others is_get s t = scaleway_start_requests i x \<and> ip \<noteq> []"
proof -
  obtain i u v' u' where i: "res_bind (field_or v ''server'' (PDict [])) (\<lambda>server. own_field server ''id'') = Inr i"
    and send: "scaleway_send_user_data w n i x s = (Inr (), u)"
    and on: "ask w (http_failed ''Scaleway'' (scaleway_action_request ''poweron'' (py_str i))) (scaleway_action_request ''poweron'' (py_str i)) u = (Inr v', u')"
    and poll: "poll_for_ip (scaleway_get_ip w n) n u' = (Inr ip, t)"
    using assms by (auto simp: scaleway_created_def act_bind_eq_Inr act_then_eq_Inr act_res_app or_die_Inr call_def)
  obtain server where server: "field_or v ''server'' (PDict []) = Inr server" "own_field server ''id'' = Inr i"
    using i by (auto simp: res_bind_eq_Inr)
  note sent = scaleway_send_user_data_Inr [OF send]
  note p = asks_poll_for_ip [OF scaleway_get_ip_asks, of w n n]
  have "others is_get u t = [scaleway_action_request ''poweron'' (py_str i)]"
    by (rule others_around [OF asks_ret [of is_get "()"] act_ret_app on scaleway_changes(2) p poll])
  moreover have pre: "prefix (cl_log u) (cl_log t)" using ask_Inr [OF on] asks_grows [OF p poll] by (auto simp: prefix_def)
  moreover have "others is_get s t = others is_get s u @ others is_get u t" by (rule others_trans [OF conjunct1 [OF sent] pre])
  ultimately have "others is_get s t = scaleway_start_requests i x" using sent by (simp add: scaleway_start_requests_def)
  moreover have "ip \<noteq> []" by (rule poll_Inr_nonempty [OF poll [unfolded poll_for_ip_def]])
  moreover have "prefix (cl_log s) (cl_log t)" by (rule prefix_order.trans [OF conjunct1 [OF sent] pre])
  ultimately show ?thesis using server by blast
qed

text \<open>C20 A Scaleway server boots with the user data made for it. When the file was read and the server then created, the
  requests that did more than look were, in this order: the creation, with the VM's name and image and the type the lab names
  or the first of the table that is big enough; the user data, as the file had it, and the power-on, both for the id this
  creation was answered with (the user data only if there is any and an id). The address given is not empty.\<close>

theorem scaleway_starts_its_server:
  assumes "scaleway_push b n cm s = (Inr (), s1)" and "scaleway_create w fl b n cpu mem cm img ty s1 = (Inr ip, t)"
  shows "\<exists>x chosen i. map_of (cl_files s) (user_data_path (sw_lab_setup_path b) n) = Some x \<and>
    (if ty \<noteq> [] then chosen = ty else \<exists>c m size. to_int cpu = Inr c \<and> to_int mem = Inr m \<and>
       find (big_enough fl c m) (table_or (sw_types b) (built_in fl SCALEWAY_TYPES)) = Some (chosen, size)) \<and>
    created_as w s t (scaleway_create_request b n chosen img) i \<and>
    others is_get s t = scaleway_create_request b n chosen img # scaleway_start_requests i x \<and> ip \<noteq> []"
proof -
  obtain x where x: "map_of (cl_files s) (user_data_path (sw_lab_setup_path b) n) = Some x"
    and s1: "s1 = s\<lparr>cl_user_data := AList.update n x (cl_user_data s)\<rparr>"
    using push_user_data_Inr assms(1) unfolding scaleway_push_def by blast
  obtain chosen u v u' where pick: "type_or_pick ty (scaleway_pick fl b cpu mem n) s1 = (Inr chosen, u)"
    and create: "ask w (http_failed ''Scaleway'' (scaleway_create_request b n chosen img)) (scaleway_create_request b n chosen img) u = (Inr v, u')"
    and rest: "scaleway_created w n (case map_of (cl_user_data u') n of Some x \<Rightarrow> x | None \<Rightarrow> []) v u' = (Inr ip, t)"
    using assms(2)
    by (auto simp: scaleway_create_def act_bind_eq_Inr act_then_eq_Inr require_cloud_init_Inr or_die_Inr call_def kept_user_data_app)
  note p = type_or_pick_Inr [OF pick [unfolded scaleway_pick_def]]
  have u': "u' = s1\<lparr>cl_log := cl_log s1 @ [scaleway_create_request b n chosen img]\<rparr>"
    and v: "cw_answer w (scaleway_create_request b n chosen img) (cl_log s1) = Answered v"
    using ask_Inr [OF create] p by auto
  have "map_of (cl_user_data u') n = Some x" by (simp add: u' s1 update_conv)
  with rest have rest: "scaleway_created w n x v u' = (Inr ip, t)" by simp
  obtain i server where server: "field_or v ''server'' (PDict []) = Inr server" "own_field server ''id'' = Inr i" and ip: "ip \<noteq> []"
    and after: "prefix (cl_log u') (cl_log t)" "others is_get u' t = scaleway_start_requests i x"
    using scaleway_created_Inr [OF rest] by blast
  have "prefix (cl_log s1 @ [scaleway_create_request b n chosen img]) (cl_log t)" using after(1) by (simp add: u')
  moreover have "prefix (cl_log s) (cl_log s1)" by (simp add: s1)
  ultimately have i: "created_as w s t (scaleway_create_request b n chosen img) i" using v server unfolding created_as_def by blast
  have "others is_get s u' = [scaleway_create_request b n chosen img]" by (simp add: others_def u' s1 scaleway_changes)
  moreover have "prefix (cl_log s) (cl_log u')" by (simp add: u' s1)
  ultimately have "others is_get s t = scaleway_create_request b n chosen img # scaleway_start_requests i x"
    using others_trans [of s u' t is_get] after by simp
  moreover have "if ty \<noteq> [] then chosen = ty else \<exists>c m size. to_int cpu = Inr c \<and> to_int mem = Inr m \<and>
       find (big_enough fl c m) (table_or (sw_types b) (built_in fl SCALEWAY_TYPES)) = Some (chosen, size)"
    using p by (cases "table_or (sw_types b) (built_in fl SCALEWAY_TYPES) = []") auto
  ultimately show ?thesis using x i ip by blast
qed

lemma own_field_truthy: "own_field x k = Inr (PStr n) \<Longrightarrow> truthy x"
  by (cases x) (auto simp: own_field_def get_def)

text \<open>The servers an answer of UpCloud lists.\<close>

definition upcloud_servers :: "pval \<Rightarrow> pval list res" where
  "upcloud_servers v = res_bind (field v ''servers'') (\<lambda>x. res_bind (field_or x ''server'' (PList [])) iterate)"

lemma upcloud_find_Inr:
  assumes "upcloud_find w n s = (Inr r, u)"
  shows "\<exists>v servers. cw_answer w (Http ''GET'' ''/server'' None) (cl_log s) = Answered v \<and> upcloud_servers v = Inr servers \<and>
    first_named ''title'' n servers = Inr r"
  using assms
  by (auto simp: upcloud_find_def upcloud_servers_def call_def act_bind_eq_Inr act_res_app res_bind_eq_Inr dest!: ask_Inr)

text \<open>C21 Deleting a VM on UpCloud touches no other server: when it returns, either no server of the account had the VM's name and
  nothing was asked but to look, or there was one request more, the deletion of a server with that name.\<close>

theorem upcloud_deletes_named:
  assumes "upcloud_delete w n s = (Inr (), t)"
  shows "\<exists>v servers. cw_answer w (Http ''GET'' ''/server'' None) (cl_log s) = Answered v \<and> upcloud_servers v = Inr servers \<and>
    (others is_get s t = [] \<and> (\<forall>x\<in>set servers. own_field x ''title'' \<noteq> Inr (PStr n)) \<or>
     (\<exists>x\<in>set servers. \<exists>i. own_field x ''title'' = Inr (PStr n) \<and> item x ''uuid'' = Inr i \<and>
        others is_get s t = [upcloud_delete_request (py_str i)]))"
proof -
  have q: "\<not> is_get (upcloud_delete_request i)" for i by (simp add: upcloud_delete_request_def)
  obtain r u where l: "upcloud_find w n s = (Inr r, u)" and
    d: "case r of None \<Rightarrow> others is_get s t = []
     | Some x \<Rightarrow> others is_get s t =
         (if truthy x then (case item x ''uuid'' of Inr i \<Rightarrow> [upcloud_delete_request (py_str i)] | Inl _ \<Rightarrow> []) else [])"
    using upcloud_lookup.deleted [OF assms [unfolded upcloud_delete_def] q] by blast
  obtain v servers where a: "cw_answer w (Http ''GET'' ''/server'' None) (cl_log s) = Answered v" "upcloud_servers v = Inr servers"
    and f: "first_named ''title'' n servers = Inr r" using upcloud_find_Inr [OF l] by blast
  show ?thesis
  proof (cases r)
    case None
    then have "others is_get s t = []" using d by simp
    moreover have "own_field x ''title'' \<noteq> Inr (PStr n)" if "x \<in> set servers" for x
      using first_named_None f None that by blast
    ultimately show ?thesis using a by blast
  next
    case (Some x)
    then have x: "x \<in> set servers" "own_field x ''title'' = Inr (PStr n)" using first_named_Some f by blast+
    then have truthy: "truthy x" by (blast intro: own_field_truthy)
    obtain i where i: "item x ''uuid'' = Inr i"
      using assms l Some truthy by (auto simp: upcloud_delete_def delete_found_def act_bind_eq_Inr act_res_app)
    then have "others is_get s t = [upcloud_delete_request (py_str i)]" using d Some truthy by simp
    then show ?thesis using a x i by blast
  qed
qed

lemma res_filter_Inr:
  "res_filter p xs = Inr ys \<Longrightarrow> set ys = {x \<in> set xs. p x = Inr True}"
  by (induction xs arbitrary: ys) (auto simp: res_bind_eq_Inr split: if_splits)

lemma res_filter_total: "x \<in> set xs \<Longrightarrow> res_filter p xs = Inr ys \<Longrightarrow> \<exists>y. p x = Inr y"
  by (induction xs arbitrary: ys) (auto simp: res_bind_eq_Inr)

lemma sort_key_first:
  assumes "sort_key k xs = x # ys"
  shows "x \<in> set xs \<and> (\<forall>y\<in>set xs. k x \<le> k y)"
proof -
  have "sorted (map k (x # ys))" using sorted_sort_key [of k xs] by (simp only: assms)
  moreover have "set (x # ys) = set xs" by (metis assms set_sort)
  ultimately show ?thesis by auto
qed

lemma ovh_call_Inr:
  assumes "ovh_call w q s = (Inr v, u)"
  shows "u = s\<lparr>cl_log := cl_log s @ [Http ''GET'' ''/auth/time'' None, q]\<rparr> \<and>
    cw_answer w q (cl_log s @ [Http ''GET'' ''/auth/time'' None]) = Answered v"
  using assms by (auto simp: ovh_call_def call_def act_bind_app send_request_def dest!: ask_Inr)

lemma flavor_fits_Inr:
  assumes "flavor_fits vm_cpu mem f = Inr y"
  shows "\<exists>cpu. to_int vm_cpu = Inr cpu \<and> y = (cpu \<le> size_of f ''vcpus'' \<and> mem \<le> size_of f ''ram'')"
proof -
  obtain v cpu vcpus where v: "own_field_or f ''vcpus'' (PInt 0) = Inr v" "number v = Inr vcpus" and cpu: "to_int vm_cpu = Inr cpu"
    and rest: "(if vcpus < cpu then Inr False
      else res_bind (own_field_or f ''ram'' (PInt 0)) (\<lambda>r. res_bind (number r) (\<lambda>ram. Inr (mem \<le> ram)))) = Inr y"
    using assms unfolding flavor_fits_def by (auto simp only: res_bind_eq_Inr)
  have size: "size_of f ''vcpus'' = vcpus" using v by (simp add: size_of_def)
  show ?thesis
  proof (cases "vcpus < cpu")
    case True
    then show ?thesis using rest cpu size by auto
  next
    case False
    then obtain r ram where r: "own_field_or f ''ram'' (PInt 0) = Inr r" "number r = Inr ram" "y = (mem \<le> ram)"
      using rest by (auto simp: res_bind_eq_Inr)
    then have "size_of f ''ram'' = ram" by (simp add: size_of_def)
    then show ?thesis using r cpu size False by auto
  qed
qed

definition flavors_request :: "ovhcloud \<Rightarrow> request" where
  "flavors_request b = Http ''GET'' (ovh_path b (''/flavor?region='' @ ov_region b)) None"

text \<open>C24 On OVHcloud a VM gets the least flavor that is big enough: among those the provider offers with at least the
  cores and the memory asked for, one with the fewest cores and, among these, the least memory.\<close>

theorem ovh_flavor_least:
  assumes "ovh_pick_flavor w b vm_cpu vm_mem n s = (Inr i, t)"
  shows "\<exists>v flavors f cpu mem. cw_answer w (flavors_request b) (cl_log s @ [Http ''GET'' ''/auth/time'' None]) = Answered v \<and>
    or_list v = Inr flavors \<and> f \<in> set flavors \<and> item f ''id'' = Inr i \<and> to_int vm_cpu = Inr cpu \<and> to_int vm_mem = Inr mem \<and>
    cpu \<le> size_of f ''vcpus'' \<and> mem \<le> size_of f ''ram'' \<and>
    (\<forall>g\<in>set flavors. cpu \<le> size_of g ''vcpus'' \<and> mem \<le> size_of g ''ram'' \<longrightarrow> flavor_key f \<le> flavor_key g)"
proof -
  obtain mem v u flavors fits where mem: "to_int vm_mem = Inr mem" and call: "ovh_call w (flavors_request b) s = (Inr v, u)"
    and flavors: "or_list v = Inr flavors" and fits: "res_filter (flavor_fits vm_cpu mem) flavors = Inr fits"
    and pick: "(case sort_key flavor_key fits of
       [] \<Rightarrow> quit (no_flavor (ov_region b) n (py_str vm_cpu) (py_str vm_mem)) | f # _ \<Rightarrow> act_res (item f ''id'')) u = (Inr i, t)"
    using assms unfolding ovh_pick_flavor_def flavors_request_def by (auto simp: act_bind_eq_Inr act_res_app res_bind_eq_Inr)
  obtain f fs where sorted: "sort_key flavor_key fits = f # fs" and i: "item f ''id'' = Inr i"
    using pick by (cases "sort_key flavor_key fits") (auto simp: quit_def act_raise_app act_res_app)
  have f: "f \<in> set flavors" "flavor_fits vm_cpu mem f = Inr True"
    using sort_key_first [OF sorted] res_filter_Inr [OF fits] by auto
  obtain cpu where cpu: "to_int vm_cpu = Inr cpu" "cpu \<le> size_of f ''vcpus''" "mem \<le> size_of f ''ram''"
    using flavor_fits_Inr [OF f(2)] by blast
  have "flavor_key f \<le> flavor_key g" if "g \<in> set flavors" "cpu \<le> size_of g ''vcpus''" "mem \<le> size_of g ''ram''" for g
  proof -
    have "\<exists>y. flavor_fits vm_cpu mem g = Inr y" by (rule res_filter_total [OF that(1) fits])
    then obtain y where y: "flavor_fits vm_cpu mem g = Inr y" by blast
    then have "y = True" using flavor_fits_Inr [OF y] that(2,3) cpu(1) by auto
    with y have "flavor_fits vm_cpu mem g = Inr True" by simp
    then show ?thesis using sort_key_first [OF sorted] res_filter_Inr [OF fits] that(1) by auto
  qed
  then have least: "\<forall>g\<in>set flavors. cpu \<le> size_of g ''vcpus'' \<and> mem \<le> size_of g ''ram'' \<longrightarrow> flavor_key f \<le> flavor_key g" by blast
  show ?thesis
    by (rule exI [of _ v], rule exI [of _ flavors], rule exI [of _ f], rule exI [of _ cpu], rule exI [of _ mem])
      (intro conjI conjunct2 [OF ovh_call_Inr [OF call]] flavors f(1) i cpu mem least)
qed

section \<open>Findings\<close>

text \<open>Scaleway's filter by name also gives servers whose name only has the text in it. The code takes the first and compares nothing:
  whatever its name, it is deleted.\<close>

lemma scaleway_deletes_first:
  assumes "cw_answer w (Http ''GET'' (''/servers?name='' @ n) None) (cl_log s) = Answered (PDict [(''servers'', PList (PDict d # others_found))])"
    and "map_of d ''id'' = Some i"
    and "\<And>log. cw_answer w (scaleway_delete_request (py_str i)) log = Answered PNone"
  shows "\<exists>t. scaleway_delete w n s = (Inr (), t) \<and> others is_get s t = [scaleway_delete_request (py_str i)]"
proof -
  have d: "truthy (PDict d)" using assms(2) by auto
  have find: "scaleway_find w n s = (Inr (Some (PDict d)), s\<lparr>cl_log := cl_log s @ [Http ''GET'' (''/servers?name='' @ n) None]\<rparr>)"
    using assms(1)
    by (simp add: scaleway_find_def call_def ask_def send_request_def act_bind_app act_res_app act_ret_app field_or_def or_dict_def
        get_dflt_def first_item_def)
  have i: "item (PDict d) ''id'' = Inr i" using assms(2) by (simp add: item_def)
  show ?thesis
    using assms(3) d i find
    by (simp add: scaleway_delete_def delete_found_def act_bind_app act_then_app act_res_app or_die_def ask_def send_request_def act_ret_app others_def)
      (simp add: scaleway_delete_request_def)
qed

section \<open>One server of each provider\<close>

definition one_scaleway :: "int scaleway" where
  "one_scaleway = \<lparr>sw_project = ''p'', sw_zone = ''fr-par-1'', sw_types = None, sw_lab_setup_path = ''/lab''\<rparr>"

definition scaleway_world :: cloud_world where
  "scaleway_world = \<lparr>cw_answer = (\<lambda>q _. case q of
       Http verb path _ \<Rightarrow>
         if verb = ''GET'' then Answered (PDict [(''servers'', PList [PDict [(''id'', PStr ''a1''), (''public_ip'', PDict [(''address'', PStr ''192.0.2.9'')])]])])
         else if path = ''/servers'' then Answered (PDict [(''server'', PDict [(''id'', PStr ''a1'')])])
         else Answered PNone
     | _ \<Rightarrow> Answered PNone), cw_address = (\<lambda>_ _. None)\<rparr>"

lemma scaleway_starts_its_server_witness:
  "\<exists>chosen i t. created_as scaleway_world no_requests t (scaleway_create_request one_scaleway ''n1'' chosen ''leap'') i \<and>
     others is_get no_requests t = scaleway_create_request one_scaleway ''n1'' chosen ''leap'' # scaleway_start_requests i ''#cloud-config''"
proof -
  define s1 where "s1 = snd (scaleway_push one_scaleway ''n1'' ''cloud-init'' no_requests)"
  define m where "m = scaleway_create scaleway_world whole_floats one_scaleway ''n1'' (PInt 2) (PInt 2048) ''cloud-init'' ''leap'' [] s1"
  have push: "scaleway_push one_scaleway ''n1'' ''cloud-init'' no_requests = (Inr (), s1)"
  proof (rule prod_eqI)
    show "fst (scaleway_push one_scaleway ''n1'' ''cloud-init'' no_requests) = fst (Inr (), s1)" by code_simp
  qed (simp add: s1_def)
  have "fst m = Inr ''192.0.2.9''" unfolding m_def s1_def by code_simp
  then have create: "scaleway_create scaleway_world whole_floats one_scaleway ''n1'' (PInt 2) (PInt 2048) ''cloud-init'' ''leap'' [] s1 =
      (Inr ''192.0.2.9'', snd m)" unfolding m_def [symmetric] by (simp add: prod_eq_iff)
  have user_data: "map_of (cl_files no_requests) (user_data_path (sw_lab_setup_path one_scaleway) ''n1'') = Some ''#cloud-config''" by code_simp
  show ?thesis using scaleway_starts_its_server [OF push create] unfolding user_data by blast
qed

definition upcloud_world :: cloud_world where
  "upcloud_world = \<lparr>cw_answer = (\<lambda>q _. if is_get q then Answered (PDict [(''servers'', PDict [(''server'', PList
       [PDict [(''title'', PStr ''n10''), (''uuid'', PStr ''u10'')], PDict [(''title'', PStr ''n1''), (''uuid'', PStr ''u1'')]])])])
     else Answered PNone), cw_address = (\<lambda>_ _. None)\<rparr>"

lemma upcloud_deletes_named_witness:
  "\<exists>t. upcloud_delete upcloud_world ''n1'' no_requests = (Inr (), t) \<and> others is_get no_requests t = [upcloud_delete_request ''u1'']"
proof -
  define t where "t = snd (upcloud_delete upcloud_world ''n1'' no_requests)"
  have "fst (upcloud_delete upcloud_world ''n1'' no_requests) = Inr ()" by code_simp
  then have run: "upcloud_delete upcloud_world ''n1'' no_requests = (Inr (), t)" by (simp add: t_def prod_eq_iff)
  have "others is_get no_requests t \<noteq> []" unfolding t_def by code_simp
  moreover have "upcloud_servers (PDict [(''servers'', PDict [(''server'', PList
       [PDict [(''title'', PStr ''n10''), (''uuid'', PStr ''u10'')], PDict [(''title'', PStr ''n1''), (''uuid'', PStr ''u1'')]])])]) =
     Inr [PDict [(''title'', PStr ''n10''), (''uuid'', PStr ''u10'')], PDict [(''title'', PStr ''n1''), (''uuid'', PStr ''u1'')]]" by code_simp
  ultimately show ?thesis
    using upcloud_deletes_named [OF run] run
    by (auto simp: upcloud_world_def own_field_def item_def get_def py_str_def)
qed

definition one_ovh :: ovhcloud where
  "one_ovh = \<lparr>ov_service_name = ''svc'', ov_region = ''GRA'', ov_endpoint = ''https://eu.api.ovh.com/1.0'', ov_lab_setup_path = ''/lab''\<rparr>"

definition flavor :: "string \<Rightarrow> int \<Rightarrow> int \<Rightarrow> pval" where
  "flavor i vcpus ram = PDict [(''id'', PStr i), (''vcpus'', PInt vcpus), (''ram'', PInt ram)]"

definition ovh_world :: cloud_world where
  "ovh_world = \<lparr>cw_answer = (\<lambda>_ _. Answered (PList [flavor ''big'' 8 16000, flavor ''mid'' 2 8000, flavor ''low'' 2 2000])),
     cw_address = (\<lambda>_ _. None)\<rparr>"

lemma ovh_flavor_least_witness:
  "\<exists>t f. ovh_pick_flavor ovh_world one_ovh (PInt 2) (PStr ''4096'') ''n1'' no_requests = (Inr (PStr ''mid''), t) \<and>
     f \<in> {flavor ''big'' 8 16000, flavor ''mid'' 2 8000, flavor ''low'' 2 2000} \<and> item f ''id'' = Inr (PStr ''mid'') \<and> 4096 \<le> size_of f ''ram''"
proof -
  define t where "t = snd (ovh_pick_flavor ovh_world one_ovh (PInt 2) (PStr ''4096'') ''n1'' no_requests)"
  have "fst (ovh_pick_flavor ovh_world one_ovh (PInt 2) (PStr ''4096'') ''n1'' no_requests) = Inr (PStr ''mid'')" by code_simp
  then have run: "ovh_pick_flavor ovh_world one_ovh (PInt 2) (PStr ''4096'') ''n1'' no_requests = (Inr (PStr ''mid''), t)"
    by (simp add: t_def prod_eq_iff)
  have "or_list (PList [flavor ''big'' 8 16000, flavor ''mid'' 2 8000, flavor ''low'' 2 2000]) =
      Inr [flavor ''big'' 8 16000, flavor ''mid'' 2 8000, flavor ''low'' 2 2000]" by (simp add: or_list_def)
  moreover have "to_int (PStr ''4096'') = Inr 4096" by code_simp
  ultimately show ?thesis using ovh_flavor_least [OF run] run by (auto simp: ovh_world_def)
qed

end
