(* ===== verification/Cloud_Cli.thy ===== *)
theory Cloud_Cli
  imports Cloud_Api Lab_Defs
begin

text \<open>
  The backends of \<open>libs/backends.py\<close> that run their provider's command-line tool: Google's \<open>gcloud\<close>, Alibaba's
  \<open>aliyun\<close> and Exoscale's \<open>exo\<close>.
\<close>

definition cli_failed :: "request \<Rightarrow> string \<Rightarrow> string \<Rightarrow> string" where
  "cli_failed q _ err = (case q of Cli args \<Rightarrow> join '' '' args @ '' failed: '' @ str_strip err | _ \<Rightarrow> err)"

definition run_cli :: "cloud_world \<Rightarrow> string list \<Rightarrow> pval step" where
  "run_cli w args = ask w (cli_failed (Cli args)) (Cli args)"

text \<open>\<open>try: run(args) except RuntimeError as e: die(str(e))\<close>\<close>

definition cli_or_die :: "cloud_world \<Rightarrow> string list \<Rightarrow> unit step" where
  "cli_or_die w args = act_then (or_die (run_cli w args)) (act_ret ())"

text \<open>The same, but an error whose message has one of the words is passed over.\<close>

definition tolerating :: "string list \<Rightarrow> 'a step \<Rightarrow> unit step" where
  "tolerating ws m = (\<lambda>s. case m s of
      (Inl (RuntimeError t), s') \<Rightarrow> if \<exists>x\<in>set ws. contains x (str_lower t) then (Inr (), s') else (Inl (SystemExit t), s')
    | (Inl e, s') \<Rightarrow> (Inl e, s')
    | (Inr _, s') \<Rightarrow> (Inr (), s'))"

definition text_field :: "dict \<Rightarrow> string \<Rightarrow> string" where
  "text_field config k = (if truthy (get config k) then py_str (get config k) else [])"

definition first_label :: "string \<Rightarrow> string" where
  "first_label vm_name = hd (split_ch CHR ''.'' vm_name)"

section \<open>Google Compute Engine\<close>

record gcp =
  gc_zone :: string
  gc_image_project :: string
  gc_network :: string
  gc_subnet :: string
  gc_lab_setup_path :: string

definition gcp_missing :: "string \<Rightarrow> string" where
  "gcp_missing vm_name =
     ''backend '' @ sq ''gcp'' @ '' requires both GCP_PROJECT and GCP_ZONE to be set in /etc/lab_creation.cfg (VM '' @ sq vm_name @ '')''"

definition gcp_activate :: "cloud_world \<Rightarrow> pval \<Rightarrow> unit step" where
  "gcp_activate w key =
     (if \<not> truthy key then act_ret ()
      else act_bind (send_request w (Cli [''gcloud'', ''auth'', ''activate-service-account'', ''--key-file'', py_str key])) (\<lambda>r. case r of
             Refused _ t \<Rightarrow> quit (''gcloud auth activate-service-account failed: '' @ str_strip t)
           | Broken e \<Rightarrow> act_raise e
           | Answered _ \<Rightarrow> act_ret ()))"

definition gcp_resolve :: "cloud_world \<Rightarrow> dict \<Rightarrow> string \<Rightarrow> string \<Rightarrow> gcp step" where
  "gcp_resolve w config vm_name lab_setup_path =
     (if missing_config config [''GCP_PROJECT'', ''GCP_ZONE''] \<noteq> [] then quit (gcp_missing vm_name)
      else act_then (gcp_activate w (get config ''GCP_SERVICE_ACCOUNT_KEY''))
        (act_ret \<lparr>gc_zone = py_str (get config ''GCP_ZONE''), gc_image_project = text_field config ''GCP_IMAGE_PROJECT'',
          gc_network = text_field config ''GCP_NETWORK'', gc_subnet = text_field config ''GCP_SUBNET'',
          gc_lab_setup_path = lab_setup_path\<rparr>))"

definition gcp_find :: "cloud_world \<Rightarrow> lookup" where
  "gcp_find w vm_name =
     act_bind (run_cli w [''gcloud'', ''compute'', ''instances'', ''list'', ''--filter'', ''name='' @ vm_name]) (\<lambda>result.
     act_res (first_item result))"

definition normalize_cpu :: "int \<Rightarrow> int" where
  "normalize_cpu cpu = (if cpu > 1 \<and> cpu mod 2 \<noteq> 0 then cpu + 1 else cpu)"

definition normalize_mem :: "int \<Rightarrow> int" where
  "normalize_mem mem_mb = (if mem_mb mod 256 \<noteq> 0 then mem_mb + (256 - mem_mb mod 256) else mem_mb)"

definition normalize_custom_shape :: "pval \<Rightarrow> pval \<Rightarrow> (int \<times> int) res" where
  "normalize_custom_shape vm_cpu vm_mem_mb =
     res_bind (to_int vm_cpu) (\<lambda>cpu. res_bind (to_int vm_mem_mb) (\<lambda>mem_mb. Inr (normalize_cpu cpu, normalize_mem mem_mb)))"

definition first_or_none :: "pval \<Rightarrow> pval res" where
  "first_or_none v = res_bind (first_item v) (\<lambda>r. Inr (case r of Some x \<Rightarrow> x | None \<Rightarrow> PNone))"

definition gcp_ip :: "pval \<Rightarrow> string option res" where
  "gcp_ip inst =
     res_bind (own_field inst ''networkInterfaces'') (\<lambda>nics.
     if \<not> truthy nics then Inr None
     else res_bind (first_or_none nics) (\<lambda>nic. res_bind (own_field nic ''accessConfigs'') (\<lambda>configs.
          res_bind (if truthy configs then res_bind (first_or_none configs) (\<lambda>c. own_field c ''natIP'') else Inr PNone) (\<lambda>nat_ip.
          if truthy nat_ip then Inr (Some (py_str nat_ip)) else res_bind (own_field nic ''networkIP'') (\<lambda>p. Inr (text_or_none p))))))"

definition gcp_get_ip :: "cloud_world \<Rightarrow> string \<Rightarrow> string option step" where
  "gcp_get_ip w vm_name =
     act_bind (gcp_find w vm_name) (\<lambda>r. case r of
       None \<Rightarrow> act_ret None | Some inst \<Rightarrow> if truthy inst then act_res (gcp_ip inst) else act_ret None)"

definition gcp_reusable :: "cloud_world \<Rightarrow> string \<Rightarrow> string \<Rightarrow> bool step" where
  "gcp_reusable w vm_name myip = vm_is_reusable w (gcp_find w) ''status'' ''RUNNING'' vm_name myip"

definition gcp_do :: "cloud_world \<Rightarrow> gcp \<Rightarrow> string \<Rightarrow> string \<Rightarrow> unit step" where
  "gcp_do w b verb vm_name = cli_or_die w [''gcloud'', ''compute'', ''instances'', verb, vm_name, ''--zone'', gc_zone b]"

definition gcp_reboot :: "cloud_world \<Rightarrow> gcp \<Rightarrow> string \<Rightarrow> unit step" where
  "gcp_reboot w b vm_name = gcp_do w b ''reset'' vm_name"

definition gcp_start :: "cloud_world \<Rightarrow> gcp \<Rightarrow> string \<Rightarrow> unit step" where
  "gcp_start w b vm_name = gcp_do w b ''start'' vm_name"

definition gcp_stop :: "cloud_world \<Rightarrow> gcp \<Rightarrow> string \<Rightarrow> unit step" where
  "gcp_stop w b vm_name = gcp_do w b ''stop'' vm_name"

definition allow_text :: "(int \<times> string) list \<Rightarrow> string" where
  "allow_text ps = join '','' (map (\<lambda>(port, proto). proto @ '':'' @ py_str (PInt port)) ps)"

definition gcp_rule :: "gcp \<Rightarrow> string \<Rightarrow> string \<Rightarrow> bool \<Rightarrow> string list" where
  "gcp_rule b rule allow there =
     (if there then [''gcloud'', ''compute'', ''firewall-rules'', ''update'', rule, ''--allow'', allow]
      else [''gcloud'', ''compute'', ''firewall-rules'', ''create'', rule, ''--network'', if gc_network b \<noteq> [] then gc_network b else ''default'',
            ''--direction'', ''INGRESS'', ''--allow'', allow, ''--source-ranges'', ''0.0.0.0/0'', ''--target-tags'', rule])"

definition gcp_open_ports :: "cloud_world \<Rightarrow> gcp \<Rightarrow> string \<Rightarrow> pval \<Rightarrow> unit step" where
  "gcp_open_ports w b vm_name ports =
     (if \<not> truthy ports then act_ret ()
      else let rule = gce_name (first_label vm_name) in
        act_bind (act_res (parse_open_ports ports)) (\<lambda>ps.
        act_bind (or_die (run_cli w [''gcloud'', ''compute'', ''firewall-rules'', ''list'', ''--filter'', ''name='' @ rule])) (\<lambda>existing.
        act_then (cli_or_die w (gcp_rule b rule (allow_text ps) (truthy existing)))
        (cli_or_die w [''gcloud'', ''compute'', ''instances'', ''add-tags'', vm_name, ''--zone'', gc_zone b, ''--tags'', rule]))))"

definition gcp_delete :: "cloud_world \<Rightarrow> gcp \<Rightarrow> string \<Rightarrow> unit step" where
  "gcp_delete w b vm_name =
     act_bind (vm_exists (gcp_find w) vm_name) (\<lambda>there. if \<not> there then act_ret () else gcp_do w b ''delete'' vm_name)"

definition gcp_copy_image :: "string \<Rightarrow> string \<Rightarrow> string \<Rightarrow> unit step" where
  "gcp_copy_image iso_image vm_name config_method =
     check_image ''GCPBackend'' ''gcp'' (''a real GCE image name (e.g. '' @ dq ''debian-12'' @ '')'') iso_image vm_name config_method"

definition gcp_push :: "gcp \<Rightarrow> string \<Rightarrow> string \<Rightarrow> unit step" where
  "gcp_push b vm_name config_method =
     act_then (require_cloud_init ''GCPBackend'' config_method vm_name)
     (act_then (user_data_file (gc_lab_setup_path b) vm_name) (act_ret ()))"

definition gcp_machine :: "string \<Rightarrow> pval \<Rightarrow> pval \<Rightarrow> string res" where
  "gcp_machine cloud_instance_type vm_cpu vm_mem =
     (if cloud_instance_type \<noteq> [] then Inr cloud_instance_type
      else res_bind (normalize_custom_shape vm_cpu vm_mem) (\<lambda>(cpu, mem_mb).
        Inr (''e2-custom-'' @ py_str (PInt cpu) @ ''-'' @ py_str (PInt mem_mb))))"

definition opt_arg :: "string \<Rightarrow> string \<Rightarrow> string list" where
  "opt_arg flag v = (if v \<noteq> [] then [flag, v] else [])"

definition gcp_create_args :: "gcp \<Rightarrow> string \<Rightarrow> string \<Rightarrow> string \<Rightarrow> int \<Rightarrow> string list" where
  "gcp_create_args b vm_name machine iso_image gb =
     [''gcloud'', ''compute'', ''instances'', ''create'', vm_name, ''--zone'', gc_zone b, ''--machine-type'', machine, ''--image'', iso_image,
      ''--boot-disk-size'', py_str (PInt gb) @ ''GB'',
      ''--metadata-from-file'', ''user-data='' @ user_data_path (gc_lab_setup_path b) vm_name] @
     opt_arg ''--image-project'' (gc_image_project b) @ opt_arg ''--network'' (gc_network b) @ opt_arg ''--subnet'' (gc_subnet b)"

definition gcp_create ::
  "cloud_world \<Rightarrow> gcp \<Rightarrow> string \<Rightarrow> pval \<Rightarrow> pval \<Rightarrow> pval \<Rightarrow> string \<Rightarrow> string \<Rightarrow> string \<Rightarrow> string step" where
  "gcp_create w b vm_name vm_cpu vm_mem vm_dsk_gb config_method iso_image cloud_instance_type =
     act_then (require_cloud_init ''GCPBackend'' config_method vm_name)
     (act_bind (act_res (gcp_machine cloud_instance_type vm_cpu vm_mem)) (\<lambda>machine.
      act_bind (act_res (to_int vm_dsk_gb)) (\<lambda>gb.
      act_then (cli_or_die w (gcp_create_args b vm_name machine iso_image gb))
      (poll_for_ip (gcp_get_ip w vm_name) vm_name))))"

section \<open>Alibaba Cloud\<close>

record 'f alibaba =
  al_security_group_id :: string
  al_vswitch_id :: string
  al_types :: "'f sku list option"
  al_lab_setup_path :: string

definition ALIBABA_TYPES :: "(string \<times> int \<times> int) list" where
  "ALIBABA_TYPES = [(''ecs.g6.large'', 2, 8), (''ecs.g6.xlarge'', 4, 16), (''ecs.g6.2xlarge'', 8, 32)]"

definition ALIBABA_KEYS :: "string list" where
  "ALIBABA_KEYS = [''ALIBABA_ACCESS_KEY_ID'', ''ALIBABA_ACCESS_KEY_SECRET'', ''ALIBABA_REGION'', ''ALIBABA_SECURITY_GROUP_ID'',
     ''ALIBABA_VSWITCH_ID'']"

definition alibaba_resolve :: "'f floats \<Rightarrow> dict \<Rightarrow> string \<Rightarrow> string \<Rightarrow> 'f alibaba res" where
  "alibaba_resolve fl config vm_name lab_setup_path =
     (let missing = missing_config config ALIBABA_KEYS in
      if missing \<noteq> [] then Inl (SystemExit (config_missing ''alibaba'' missing vm_name))
      else res_bind (parse_sku_table (fl_parse fl) (get config ''ALIBABA_INSTANCE_TYPES'') ''ALIBABA_INSTANCE_TYPES'') (\<lambda>types.
        Inr \<lparr>al_security_group_id = py_str (get config ''ALIBABA_SECURITY_GROUP_ID''),
             al_vswitch_id = py_str (get config ''ALIBABA_VSWITCH_ID''), al_types = types, al_lab_setup_path = lab_setup_path\<rparr>))"

definition ecs :: "string list \<Rightarrow> string list" where
  "ecs args = [''aliyun'', ''ecs''] @ args"

definition alibaba_find :: "cloud_world \<Rightarrow> lookup" where
  "alibaba_find w vm_name =
     act_bind (run_cli w (ecs [''DescribeInstances'', ''--InstanceName'', vm_name])) (\<lambda>result.
     act_res (res_bind (field result ''Instances'') (\<lambda>v. res_bind (field_or v ''Instance'' (PList [])) first_item)))"

definition alibaba_pick :: "'f floats \<Rightarrow> 'f alibaba \<Rightarrow> pval \<Rightarrow> pval \<Rightarrow> string \<Rightarrow> string step" where
  "alibaba_pick fl b vm_cpu vm_mem_mb vm_name =
     pick_type fl (table_or (al_types b) (built_in fl ALIBABA_TYPES))
       (\<lambda>cpu mem. too_small vm_name ''AlibabaBackend'' ''InstanceType'' ''AlibabaBackend.INSTANCE_TYPES'' ''ALIBABA_INSTANCE_TYPES''
          (shape_text cpu mem)) vm_cpu vm_mem_mb"

definition first_text :: "pval \<Rightarrow> string option res" where
  "first_text v = res_bind (first_item v) (\<lambda>r. Inr (map_option py_str r))"

definition alibaba_ip :: "pval \<Rightarrow> string option res" where
  "alibaba_ip inst =
     res_bind (own_field inst ''PublicIpAddress'') (\<lambda>p. res_bind (field p ''IpAddress'') (\<lambda>public_ips.
     if truthy public_ips then first_text public_ips
     else res_bind (own_field inst ''VpcAttributes'') (\<lambda>v. res_bind (field v ''PrivateIpAddress'') (\<lambda>a.
          res_bind (field a ''IpAddress'') first_text))))"

definition alibaba_get_ip :: "cloud_world \<Rightarrow> string \<Rightarrow> string option step" where
  "alibaba_get_ip w vm_name =
     act_bind (alibaba_find w vm_name) (\<lambda>r. case r of
       None \<Rightarrow> act_ret None | Some inst \<Rightarrow> if truthy inst then act_res (alibaba_ip inst) else act_ret None)"

definition alibaba_reusable :: "cloud_world \<Rightarrow> string \<Rightarrow> string \<Rightarrow> bool step" where
  "alibaba_reusable w vm_name myip = vm_is_reusable w (alibaba_find w) ''Status'' ''Running'' vm_name myip"

definition alibaba_request :: "string \<Rightarrow> string \<Rightarrow> request" where
  "alibaba_request verb i = Cli (ecs [verb, ''--InstanceId'', i])"

definition alibaba_call :: "cloud_world \<Rightarrow> string \<Rightarrow> string \<Rightarrow> string \<Rightarrow> unit step" where
  "alibaba_call w vm_name verb action =
     act_on w (alibaba_find w) ''InstanceId'' vm_name (not_there ''Alibaba Cloud instance'' vm_name action) (alibaba_request verb) cli_failed"

definition alibaba_reboot :: "cloud_world \<Rightarrow> string \<Rightarrow> unit step" where
  "alibaba_reboot w vm_name = alibaba_call w vm_name ''RebootInstance'' ''reboot''"

definition alibaba_start :: "cloud_world \<Rightarrow> string \<Rightarrow> unit step" where
  "alibaba_start w vm_name = alibaba_call w vm_name ''StartInstance'' ''StartInstance''"

definition alibaba_stop :: "cloud_world \<Rightarrow> string \<Rightarrow> unit step" where
  "alibaba_stop w vm_name = alibaba_call w vm_name ''StopInstance'' ''StopInstance''"

definition alibaba_open_ports :: "cloud_world \<Rightarrow> 'f alibaba \<Rightarrow> pval \<Rightarrow> unit step" where
  "alibaba_open_ports w b ports =
     act_bind (act_res (parse_open_ports ports)) (\<lambda>ps. act_for ps (\<lambda>(port, proto).
       tolerating [''duplicate''] (run_cli w (ecs [''AuthorizeSecurityGroup'', ''--SecurityGroupId'', al_security_group_id b,
         ''--IpProtocol'', proto, ''--PortRange'', py_str (PInt port) @ ''/'' @ py_str (PInt port), ''--SourceCidrIp'', ''0.0.0.0/0'']))))"

definition alibaba_delete_request :: "string \<Rightarrow> request" where
  "alibaba_delete_request i = Cli (ecs [''DeleteInstance'', ''--InstanceId'', i, ''--Force'', ''true''])"

definition alibaba_delete :: "cloud_world \<Rightarrow> string \<Rightarrow> unit step" where
  "alibaba_delete w vm_name = delete_found w (alibaba_find w) ''InstanceId'' vm_name alibaba_delete_request cli_failed"

definition alibaba_copy_image :: "string \<Rightarrow> string \<Rightarrow> string \<Rightarrow> unit step" where
  "alibaba_copy_image iso_image vm_name config_method =
     check_image ''AlibabaBackend'' ''alibaba'' ''a real Alibaba Cloud ImageId'' iso_image vm_name config_method"

text \<open>The bytes of the file are kept in base64.\<close>

definition alibaba_push :: "'f alibaba \<Rightarrow> string \<Rightarrow> string \<Rightarrow> unit step" where
  "alibaba_push b vm_name config_method =
     act_then (require_cloud_init ''AlibabaBackend'' config_method vm_name)
     (act_bind (user_data_file (al_lab_setup_path b) vm_name) (\<lambda>raw. keep_user_data vm_name (b64 raw)))"

definition alibaba_create_args :: "'f alibaba \<Rightarrow> string \<Rightarrow> string \<Rightarrow> string \<Rightarrow> string \<Rightarrow> int \<Rightarrow> string list" where
  "alibaba_create_args b vm_name instance_type iso_image user_data gb =
     ecs [''RunInstances'', ''--ImageId'', iso_image, ''--InstanceType'', instance_type, ''--InstanceName'', vm_name,
          ''--SecurityGroupId'', al_security_group_id b, ''--VSwitchId'', al_vswitch_id b, ''--SystemDisk.Size'', py_str (PInt gb),
          ''--UserData'', user_data]"

definition alibaba_create ::
  "cloud_world \<Rightarrow> 'f floats \<Rightarrow> 'f alibaba \<Rightarrow> string \<Rightarrow> pval \<Rightarrow> pval \<Rightarrow> pval \<Rightarrow> string \<Rightarrow> string \<Rightarrow> string \<Rightarrow> string step" where
  "alibaba_create w fl b vm_name vm_cpu vm_mem vm_dsk_gb config_method iso_image cloud_instance_type =
     act_then (require_cloud_init ''AlibabaBackend'' config_method vm_name)
     (act_bind (type_or_pick cloud_instance_type (alibaba_pick fl b vm_cpu vm_mem vm_name)) (\<lambda>instance_type.
      act_bind (kept_user_data vm_name) (\<lambda>user_data.
      act_bind (act_res (to_int vm_dsk_gb)) (\<lambda>gb.
      act_then (cli_or_die w (alibaba_create_args b vm_name instance_type iso_image user_data gb))
      (poll_for_ip (alibaba_get_ip w vm_name) vm_name)))))"

section \<open>Exoscale\<close>

record 'f exoscale =
  ex_types :: "'f sku list option"
  ex_lab_setup_path :: string

definition EXOSCALE_TYPES :: "(string \<times> int \<times> int) list" where
  "EXOSCALE_TYPES = [(''standard.tiny'', 1, 1), (''standard.small'', 1, 2), (''standard.medium'', 2, 4), (''standard.large'', 4, 8),
     (''standard.extra-large'', 4, 16)]"

definition EXOSCALE_KEYS :: "string list" where
  "EXOSCALE_KEYS = [''EXOSCALE_API_KEY'', ''EXOSCALE_API_SECRET'', ''EXOSCALE_ZONE'']"

definition exoscale_resolve :: "'f floats \<Rightarrow> dict \<Rightarrow> string \<Rightarrow> string \<Rightarrow> 'f exoscale res" where
  "exoscale_resolve fl config vm_name lab_setup_path =
     (let missing = missing_config config EXOSCALE_KEYS in
      if missing \<noteq> [] then Inl (SystemExit (config_missing ''exoscale'' missing vm_name))
      else res_bind (parse_sku_table (fl_parse fl) (get config ''EXOSCALE_INSTANCE_TYPES'') ''EXOSCALE_INSTANCE_TYPES'') (\<lambda>types.
        Inr \<lparr>ex_types = types, ex_lab_setup_path = lab_setup_path\<rparr>))"

definition exo :: "string list \<Rightarrow> string list" where
  "exo args = [''exo'', ''compute''] @ args"

definition exoscale_find :: "cloud_world \<Rightarrow> lookup" where
  "exoscale_find w vm_name =
     act_bind (run_cli w (exo [''instance'', ''list''])) (\<lambda>result. act_res (res_bind (or_list result) (first_named ''name'' vm_name)))"

definition exoscale_pick :: "'f floats \<Rightarrow> 'f exoscale \<Rightarrow> pval \<Rightarrow> pval \<Rightarrow> string \<Rightarrow> string step" where
  "exoscale_pick fl b vm_cpu vm_mem_mb vm_name =
     pick_type fl (table_or (ex_types b) (built_in fl EXOSCALE_TYPES))
       (\<lambda>cpu mem. too_small vm_name ''ExoscaleBackend'' ''instance-type'' ''ExoscaleBackend.INSTANCE_TYPES'' ''EXOSCALE_INSTANCE_TYPES''
          (shape_text cpu mem)) vm_cpu vm_mem_mb"

definition exoscale_get_ip :: "cloud_world \<Rightarrow> string \<Rightarrow> string option step" where
  "exoscale_get_ip w vm_name =
     act_bind (exoscale_find w vm_name) (\<lambda>r. case r of
       None \<Rightarrow> act_ret None
     | Some inst \<Rightarrow>
         if truthy inst then act_res (res_bind (own_field inst ''public-ip'') (\<lambda>v. Inr (text_or_none v))) else act_ret None)"

definition exoscale_reusable :: "cloud_world \<Rightarrow> string \<Rightarrow> string \<Rightarrow> bool step" where
  "exoscale_reusable w vm_name myip = vm_is_reusable w (exoscale_find w) ''state'' ''running'' vm_name myip"

definition exoscale_reboot :: "cloud_world \<Rightarrow> string \<Rightarrow> unit step" where
  "exoscale_reboot w vm_name =
     act_bind (vm_exists (exoscale_find w) vm_name) (\<lambda>there.
     if \<not> there then quit (not_there ''Exoscale instance'' vm_name ''reboot'') else cli_or_die w (exo [''instance'', ''reboot'', vm_name, ''-f'']))"

definition exoscale_start :: "cloud_world \<Rightarrow> string \<Rightarrow> unit step" where
  "exoscale_start w vm_name = cli_or_die w (exo [''instance'', ''start'', vm_name])"

definition exoscale_stop :: "cloud_world \<Rightarrow> string \<Rightarrow> unit step" where
  "exoscale_stop w vm_name = cli_or_die w (exo [''instance'', ''stop'', vm_name, ''--force''])"

fun any_named :: "string \<Rightarrow> pval list \<Rightarrow> bool res" where
  "any_named n [] = Inr False"
| "any_named n (g # gs) = res_bind (own_field g ''name'') (\<lambda>v. if v = PStr n then Inr True else any_named n gs)"

definition exoscale_group :: "cloud_world \<Rightarrow> string \<Rightarrow> unit step" where
  "exoscale_group w sec_group =
     act_bind (or_die (run_cli w (exo [''security-group'', ''list'']))) (\<lambda>result.
     act_bind (act_res (res_bind (or_list result) (any_named sec_group))) (\<lambda>there.
     if there then act_ret () else cli_or_die w (exo [''security-group'', ''create'', sec_group])))"

definition exoscale_open_ports :: "cloud_world \<Rightarrow> string \<Rightarrow> pval \<Rightarrow> unit step" where
  "exoscale_open_ports w vm_name ports =
     (if \<not> truthy ports then act_ret ()
      else let sec_group = gce_name (first_label vm_name) in
        act_then (exoscale_group w sec_group)
        (act_bind (act_res (parse_open_ports ports)) (\<lambda>ps.
         act_then (act_for ps (\<lambda>(port, proto). tolerating [''already'', ''duplicate''] (run_cli w (exo [''security-group'', ''rule'', ''add'', sec_group,
           ''--flow'', ''ingress'', ''--protocol'', proto, ''--port'', py_str (PInt port), ''--network'', ''0.0.0.0/0'']))))
         (tolerating [''already''] (run_cli w (exo [''instance'', ''security-group'', ''add'', vm_name, sec_group]))))))"

definition exoscale_delete :: "cloud_world \<Rightarrow> string \<Rightarrow> unit step" where
  "exoscale_delete w vm_name =
     act_bind (vm_exists (exoscale_find w) vm_name) (\<lambda>there.
     if \<not> there then act_ret () else cli_or_die w (exo [''instance'', ''delete'', vm_name, ''-f'']))"

definition exoscale_copy_image :: "string \<Rightarrow> string \<Rightarrow> string \<Rightarrow> unit step" where
  "exoscale_copy_image iso_image vm_name config_method =
     check_image ''ExoscaleBackend'' ''exoscale'' ''a real Exoscale template ID/name'' iso_image vm_name config_method"

text \<open>The path of the file is kept, not its text.\<close>

definition exoscale_push :: "'f exoscale \<Rightarrow> string \<Rightarrow> string \<Rightarrow> unit step" where
  "exoscale_push b vm_name config_method =
     act_then (require_cloud_init ''ExoscaleBackend'' config_method vm_name)
     (act_then (user_data_file (ex_lab_setup_path b) vm_name) (keep_user_data vm_name (user_data_path (ex_lab_setup_path b) vm_name)))"

definition exoscale_create_args :: "string \<Rightarrow> string \<Rightarrow> string \<Rightarrow> int \<Rightarrow> string \<Rightarrow> string list" where
  "exoscale_create_args vm_name instance_type iso_image gb userdata_path =
     exo ([''instance'', ''create'', vm_name, ''--template'', iso_image, ''--instance-type'', instance_type, ''--disk-size'', py_str (PInt gb)] @
          opt_arg ''--cloud-init'' userdata_path)"

definition exoscale_create ::
  "cloud_world \<Rightarrow> 'f floats \<Rightarrow> 'f exoscale \<Rightarrow> string \<Rightarrow> pval \<Rightarrow> pval \<Rightarrow> pval \<Rightarrow> string \<Rightarrow> string \<Rightarrow> string \<Rightarrow> string step" where
  "exoscale_create w fl b vm_name vm_cpu vm_mem vm_dsk_gb config_method iso_image cloud_instance_type =
     act_then (require_cloud_init ''ExoscaleBackend'' config_method vm_name)
     (act_bind (type_or_pick cloud_instance_type (exoscale_pick fl b vm_cpu vm_mem vm_name)) (\<lambda>instance_type.
      act_bind (kept_user_data vm_name) (\<lambda>userdata_path.
      act_bind (act_res (to_int vm_dsk_gb)) (\<lambda>gb.
      act_then (cli_or_die w (exoscale_create_args vm_name instance_type iso_image gb userdata_path))
      (poll_for_ip (exoscale_get_ip w vm_name) vm_name)))))"

section \<open>Lemmas\<close>

text \<open>The commands that only look.\<close>

definition cli_look :: "request \<Rightarrow> bool" where
  "cli_look q = (case q of
      Cli args \<Rightarrow> ''list'' \<in> set (take 4 args) \<or> ''DescribeInstances'' \<in> set (take 3 args) | Login _ \<Rightarrow> True | _ \<Rightarrow> False)"

lemma asks_run_cli [asks_intros]: "P (Cli args) \<Longrightarrow> asks P (run_cli w args)"
  unfolding run_cli_def by (rule asks_ask)

interpretation gcp_lookup: vm_lookup "gcp_find w" cli_look
  by unfold_locales (auto simp: gcp_find_def cli_look_def intro!: asks_intros)

interpretation alibaba_lookup: vm_lookup "alibaba_find w" cli_look
  by unfold_locales (auto simp: alibaba_find_def cli_look_def ecs_def intro!: asks_intros)

interpretation exoscale_lookup: named_lookup "exoscale_find w" cli_look "''name''"
  by unfold_locales
    (auto simp: exoscale_find_def cli_look_def exo_def act_bind_eq_Inr act_res_app res_bind_eq_Inr dest: first_named_Some intro!: asks_intros)

lemma gcp_get_ip_asks [asks_intros]: "asks cli_look (gcp_get_ip w n)"
  unfolding gcp_get_ip_def by (intro asks_intros gcp_lookup.look_asks)

lemma alibaba_get_ip_asks [asks_intros]: "asks cli_look (alibaba_get_ip w n)"
  unfolding alibaba_get_ip_def by (intro asks_intros alibaba_lookup.look_asks)

lemma exoscale_get_ip_asks [asks_intros]: "asks cli_look (exoscale_get_ip w n)"
  unfolding exoscale_get_ip_def by (intro asks_intros exoscale_lookup.look_asks)

lemma cli_or_die_Inr: "cli_or_die w args s = (Inr (), u) \<Longrightarrow> \<exists>v. ask w (cli_failed (Cli args)) (Cli args) s = (Inr v, u)"
  by (auto simp: cli_or_die_def run_cli_def act_then_eq_Inr or_die_Inr act_ret_app)

text \<open>A creation by one command, and the wait for the address.\<close>

lemma cli_created:
  assumes "act_then (cli_or_die w args) (poll_for_ip look n) s = (Inr ip, t)" and "\<not> cli_look (Cli args)" and "asks cli_look look"
  shows "others cli_look s t = [Cli args] \<and> ip \<noteq> []"
proof -
  obtain u v where a: "ask w (cli_failed (Cli args)) (Cli args) s = (Inr v, u)" and p: "poll_for_ip look n u = (Inr ip, t)"
    using assms(1) by (auto simp: act_then_eq_Inr dest!: cli_or_die_Inr)
  have "others cli_look s t = [Cli args]"
    by (rule others_around [OF asks_ret [of cli_look "()"] act_ret_app a assms(2) asks_poll_for_ip [OF assms(3)] p])
  moreover have "ip \<noteq> []" by (rule poll_Inr_nonempty [OF p [unfolded poll_for_ip_def]])
  ultimately show ?thesis by blast
qed

section \<open>Properties\<close>

text \<open>The two constraints of a custom machine type that the docstring of `_normalize_custom_shape` names: an even number of vCPUs
  above one, and memory in whole multiples of 256 MB. (Google bounds the memory per vCPU as well; the code does nothing about that.)
  And the least shape that keeps to both and is no smaller than what was asked for.\<close>

definition custom_shape :: "int \<Rightarrow> int \<Rightarrow> bool" where
  "custom_shape cpu mem \<longleftrightarrow> (cpu \<le> 1 \<or> even cpu) \<and> 256 dvd mem"

definition least_shape :: "int \<Rightarrow> int \<Rightarrow> int \<Rightarrow> int \<Rightarrow> bool" where
  "least_shape c m cpu mem \<longleftrightarrow> custom_shape cpu mem \<and> c \<le> cpu \<and> m \<le> mem \<and>
     (\<forall>cpu' mem'. custom_shape cpu' mem' \<and> c \<le> cpu' \<and> m \<le> mem' \<longrightarrow> cpu \<le> cpu' \<and> mem \<le> mem')"

lemma normalize_cpu_least:
  "(normalize_cpu c \<le> 1 \<or> even (normalize_cpu c)) \<and> c \<le> normalize_cpu c \<and>
   ((cpu \<le> 1 \<or> even cpu) \<and> c \<le> cpu \<longrightarrow> normalize_cpu c \<le> cpu)"
  unfolding normalize_cpu_def even_iff_mod_2_eq_zero by presburger

lemma normalize_mem_least:
  "256 dvd normalize_mem m \<and> m \<le> normalize_mem m \<and> (256 dvd mem \<and> m \<le> mem \<longrightarrow> normalize_mem m \<le> mem)"
proof -
  define q r where "q = m div 256" and "r = m mod 256"
  have m: "m = 256 * q + r" "0 \<le> r" "r < 256" by (simp_all add: q_def r_def)
  have eq: "normalize_mem m = 256 * (if r = 0 then q else q + 1)"
    unfolding normalize_mem_def r_def [symmetric] using m by auto
  have "normalize_mem m \<le> mem" if "256 dvd mem" "m \<le> mem"
  proof -
    from that(1) obtain k where k: "mem = 256 * k" by (elim dvdE)
    have "(if r = 0 then q else q + 1) \<le> k" using m that(2) k by auto
    then show ?thesis unfolding eq k by linarith
  qed
  moreover have "256 dvd normalize_mem m" unfolding eq by (rule dvd_triv_left)
  moreover have "m \<le> normalize_mem m" unfolding eq using m by auto
  ultimately show ?thesis by blast
qed

lemma normalized_is_least: "least_shape c m (normalize_cpu c) (normalize_mem m)"
  unfolding least_shape_def custom_shape_def using normalize_cpu_least normalize_mem_least by blast

lemma gcp_machine_shape:
  assumes "gcp_machine ty vm_cpu vm_mem = Inr machine"
  shows "if ty \<noteq> [] then machine = ty
     else \<exists>c m cpu mem. to_int vm_cpu = Inr c \<and> to_int vm_mem = Inr m \<and> least_shape c m cpu mem \<and>
       machine = ''e2-custom-'' @ py_str (PInt cpu) @ ''-'' @ py_str (PInt mem)"
proof (cases "ty = []")
  case True
  with assms obtain c m where "to_int vm_cpu = Inr c" "to_int vm_mem = Inr m"
    and "machine = ''e2-custom-'' @ py_str (PInt (normalize_cpu c)) @ ''-'' @ py_str (PInt (normalize_mem m))"
    unfolding gcp_machine_def normalize_custom_shape_def by (auto simp: res_bind_eq_Inr)
  with True normalized_is_least show ?thesis by auto
qed (use assms in \<open>simp add: gcp_machine_def\<close>)

text \<open>C22 A VM created on Google's cloud has the machine type the lab names, as it is written, and otherwise the custom type of the
  least shape that is no smaller than what was asked for and keeps to the two constraints the code knows: an even number of vCPUs
  above one, memory in multiples of 256 MB. The one command that did more than look was its creation with that machine type and
  the file of user data that was checked to be there.\<close>

theorem gcp_creates_least_shape:
  assumes "gcp_push b n cm s = (Inr (), s1)" and "gcp_create w b n vm_cpu vm_mem gb cm img ty s1 = (Inr ip, t)"
  shows "\<exists>machine g x. to_int gb = Inr g \<and>
    (if ty \<noteq> [] then machine = ty
     else \<exists>c m cpu mem. to_int vm_cpu = Inr c \<and> to_int vm_mem = Inr m \<and> least_shape c m cpu mem \<and>
       machine = ''e2-custom-'' @ py_str (PInt cpu) @ ''-'' @ py_str (PInt mem)) \<and>
    map_of (cl_files s) (user_data_path (gc_lab_setup_path b) n) = Some x \<and>
    others cli_look s t = [Cli (gcp_create_args b n machine img g)] \<and> ip \<noteq> []"
proof -
  obtain x where x: "map_of (cl_files s) (user_data_path (gc_lab_setup_path b) n) = Some x" and s1: "s1 = s"
    using assms(1) unfolding gcp_push_def required_then unfolding act_then_eq_Inr user_data_file_Inr act_ret_app prod.inject by blast
  define args where "args machine g = gcp_create_args b n machine img g" for machine g
  obtain machine g where m: "gcp_machine ty vm_cpu vm_mem = Inr machine" and g: "to_int gb = Inr g"
    and run: "act_then (cli_or_die w (args machine g)) (poll_for_ip (gcp_get_ip w n) n) s = (Inr ip, t)"
    using assms(2) unfolding gcp_create_def s1 args_def [symmetric] required_then res_then by blast
  have machine: "if ty \<noteq> [] then machine = ty
     else \<exists>c m cpu mem. to_int vm_cpu = Inr c \<and> to_int vm_mem = Inr m \<and> least_shape c m cpu mem \<and>
       machine = ''e2-custom-'' @ py_str (PInt cpu) @ ''-'' @ py_str (PInt mem)"
    by (rule gcp_machine_shape [OF m])
  have look: "\<not> cli_look (Cli (args machine g))" by (simp add: cli_look_def gcp_create_args_def args_def)
  have "others cli_look s t = [Cli (args machine g)] \<and> ip \<noteq> []" by (rule cli_created [OF run look gcp_get_ip_asks])
  then show ?thesis using machine g x unfolding args_def by blast
qed

text \<open>C23 An Alibaba instance boots with the file made for it: when the file was read and the instance created, the one command
  that did more than look was its creation with user data that decodes, from base64, to the file's bytes.\<close>

theorem alibaba_boots_its_file:
  assumes "alibaba_push b n cm s = (Inr (), s1)" and "alibaba_create w fl b n vm_cpu vm_mem gb cm img ty s1 = (Inr ip, t)"
  shows "\<exists>chosen x data g. map_of (cl_files s) (user_data_path (al_lab_setup_path b) n) = Some x \<and> unb64 data = Some x \<and>
    to_int gb = Inr g \<and> (ty \<noteq> [] \<longrightarrow> chosen = ty) \<and>
    others cli_look s t = [Cli (alibaba_create_args b n chosen img data g)] \<and> ip \<noteq> []"
proof -
  obtain x where x: "map_of (cl_files s) (user_data_path (al_lab_setup_path b) n) = Some x"
    and s1: "s1 = s\<lparr>cl_user_data := AList.update n (b64 x) (cl_user_data s)\<rparr>"
    using assms(1) by (auto simp: alibaba_push_def act_then_eq_Inr act_bind_eq_Inr require_cloud_init_Inr user_data_file_Inr
        keep_user_data_def act_upd_app)
  have kept: "(case map_of (cl_user_data s1) n of Some y \<Rightarrow> y | None \<Rightarrow> []) = b64 x" by (simp add: s1 update_conv)
  define args where "args chosen data g = alibaba_create_args b n chosen img data g" for chosen data g
  obtain chosen u where pick: "type_or_pick ty (alibaba_pick fl b vm_cpu vm_mem n) s1 = (Inr chosen, u)"
    and rest: "act_bind (kept_user_data n) (\<lambda>data. act_bind (act_res (to_int gb)) (\<lambda>g.
      act_then (cli_or_die w (args chosen data g)) (poll_for_ip (alibaba_get_ip w n) n))) u = (Inr ip, t)"
    using assms(2) unfolding alibaba_create_def args_def [symmetric] required_then act_bind_eq_Inr [of "type_or_pick ty p" for p] by blast
  note p = type_or_pick_Inr [OF pick [unfolded alibaba_pick_def]]
  obtain g where g: "to_int gb = Inr g"
    and run: "act_then (cli_or_die w (args chosen (b64 x) g)) (poll_for_ip (alibaba_get_ip w n) n) s1 = (Inr ip, t)"
    using rest unfolding kept_then res_then conjunct1 [OF p] kept by blast
  have look: "\<not> cli_look (Cli (args chosen (b64 x) g))" by (simp add: cli_look_def alibaba_create_args_def ecs_def args_def)
  note made = cli_created [OF run look alibaba_get_ip_asks, unfolded args_def]
  have "others cli_look s t = others cli_look s1 t" by (rule others_log) (simp add: s1)
  then have "others cli_look s t = [Cli (alibaba_create_args b n chosen img (b64 x) g)]" using made by simp
  moreover have "ty \<noteq> [] \<longrightarrow> chosen = ty" using p by auto
  ultimately show ?thesis using x g made unb64_b64 by blast
qed

section \<open>One server of each provider\<close>

definition one_gcp :: gcp where
  "one_gcp = \<lparr>gc_zone = ''z1'', gc_image_project = ''suse-cloud'', gc_network = [], gc_subnet = [], gc_lab_setup_path = ''/lab''\<rparr>"

definition gcp_world :: cloud_world where
  "gcp_world = \<lparr>cw_answer = (\<lambda>q _. if cli_look q then Answered (PList [PDict [(''networkInterfaces'', PList [PDict
       [(''accessConfigs'', PList []), (''networkIP'', PStr ''10.0.0.9'')]])]]) else Answered PNone), cw_address = (\<lambda>_ _. None)\<rparr>"

lemma gcp_creates_least_shape_witness:
  "\<exists>g t. to_int (PInt 20) = Inr g \<and> others cli_look no_requests t = [Cli (gcp_create_args one_gcp ''n1'' ''e2-custom-4-1024'' ''leap'' g)]"
proof -
  define s1 where "s1 = snd (gcp_push one_gcp ''n1'' ''cloud-init'' no_requests)"
  define m where "m = gcp_create gcp_world one_gcp ''n1'' (PStr ''3'') (PInt 1000) (PInt 20) ''cloud-init'' ''leap'' [] s1"
  have push: "gcp_push one_gcp ''n1'' ''cloud-init'' no_requests = (Inr (), s1)"
  proof (rule prod_eqI)
    show "fst (gcp_push one_gcp ''n1'' ''cloud-init'' no_requests) = fst (Inr (), s1)" by code_simp
  qed (simp add: s1_def)
  have "fst m = Inr ''10.0.0.9''" unfolding m_def s1_def by code_simp
  then have create: "gcp_create gcp_world one_gcp ''n1'' (PStr ''3'') (PInt 1000) (PInt 20) ''cloud-init'' ''leap'' [] s1 =
      (Inr ''10.0.0.9'', snd m)" unfolding m_def [symmetric] by (simp add: prod_eq_iff)
  have three: "to_int (PStr ''3'') = Inr 3" by code_simp
  have thousand: "to_int (PInt 1000) = Inr 1000" by code_simp
  have unique: "cpu = 4 \<and> mem = 1024" if "least_shape 3 1000 cpu mem" for cpu mem
  proof -
    have four: "custom_shape 4 1024 \<and> (3::int) \<le> 4 \<and> (1000::int) \<le> 1024" by (simp add: custom_shape_def)
    have "\<forall>cpu' mem'. custom_shape cpu' mem' \<and> 3 \<le> cpu' \<and> 1000 \<le> mem' \<longrightarrow> cpu \<le> cpu' \<and> mem \<le> mem'"
      using that unfolding least_shape_def by (elim conjE)
    from this [rule_format, OF four] have "cpu \<le> 4 \<and> mem \<le> 1024" .
    moreover have "3 \<le> cpu \<and> (cpu \<le> 1 \<or> even cpu) \<and> 256 dvd mem \<and> 1000 \<le> mem"
      using that unfolding least_shape_def custom_shape_def by blast
    ultimately have "cpu \<le> 4 \<and> mem \<le> 1024 \<and> 3 \<le> cpu \<and> even cpu \<and> 256 dvd mem \<and> 1000 \<le> mem" by auto
    then show ?thesis by presburger
  qed
  have name: "''e2-custom-'' @ py_str (PInt 4) @ ''-'' @ py_str (PInt 1024) = ''e2-custom-4-1024''" by code_simp
  obtain machine g where g: "to_int (PInt 20) = Inr g"
    and shape: "\<exists>c k cpu mem. to_int (PStr ''3'') = Inr c \<and> to_int (PInt 1000) = Inr k \<and> least_shape c k cpu mem \<and>
      machine = ''e2-custom-'' @ py_str (PInt cpu) @ ''-'' @ py_str (PInt mem)"
    and made: "others cli_look no_requests (snd m) = [Cli (gcp_create_args one_gcp ''n1'' machine ''leap'' g)]"
    using gcp_creates_least_shape [OF push create] unfolding not_True_eq_False if_False simp_thms by blast
  from shape obtain cpu mem where "least_shape 3 1000 cpu mem" and "machine = ''e2-custom-'' @ py_str (PInt cpu) @ ''-'' @ py_str (PInt mem)"
    unfolding three thousand by blast
  with unique have "machine = ''e2-custom-4-1024''" unfolding name [symmetric] by blast
  with made g show ?thesis by blast
qed

definition one_alibaba :: "int alibaba" where
  "one_alibaba = \<lparr>al_security_group_id = ''sg'', al_vswitch_id = ''vsw'', al_types = None, al_lab_setup_path = ''/lab''\<rparr>"

definition alibaba_world :: cloud_world where
  "alibaba_world = \<lparr>cw_answer = (\<lambda>q _. if cli_look q then Answered (PDict [(''Instances'', PDict [(''Instance'', PList [PDict
       [(''PublicIpAddress'', PDict [(''IpAddress'', PList [PStr ''192.0.2.7''])])]])])]) else Answered PNone), cw_address = (\<lambda>_ _. None)\<rparr>"

lemma alibaba_boots_its_file_witness:
  "\<exists>chosen data g t. unb64 data = Some ''#cloud-config'' \<and>
     others cli_look no_requests t = [Cli (alibaba_create_args one_alibaba ''n1'' chosen ''leap'' data g)]"
proof -
  define s1 where "s1 = snd (alibaba_push one_alibaba ''n1'' ''cloud-init'' no_requests)"
  define m where "m = alibaba_create alibaba_world whole_floats one_alibaba ''n1'' (PInt 2) (PInt 2048) (PInt 20) ''cloud-init'' ''leap'' [] s1"
  have push: "alibaba_push one_alibaba ''n1'' ''cloud-init'' no_requests = (Inr (), s1)"
  proof (rule prod_eqI)
    show "fst (alibaba_push one_alibaba ''n1'' ''cloud-init'' no_requests) = fst (Inr (), s1)" by code_simp
  qed (simp add: s1_def)
  have "fst m = Inr ''192.0.2.7''" unfolding m_def s1_def by code_simp
  then have create: "alibaba_create alibaba_world whole_floats one_alibaba ''n1'' (PInt 2) (PInt 2048) (PInt 20) ''cloud-init'' ''leap'' [] s1 =
      (Inr ''192.0.2.7'', snd m)" unfolding m_def [symmetric] by (simp add: prod_eq_iff)
  have user_data: "map_of (cl_files no_requests) (user_data_path (al_lab_setup_path one_alibaba) ''n1'') = Some ''#cloud-config''" by code_simp
  show ?thesis using alibaba_boots_its_file [OF push create] unfolding user_data by blast
qed

end
