(* ===== verification/Spec2Isabelle.thy ===== *)
theory Spec2Isabelle
  imports Migration_Steps Py_Regex Version_Matrix Dns_Service Ip_Alloc Overlay_Net Schema_Check Schema_Record Lab_Types Kvm_Hosts Image_Fetch Backend_Select Lab_File Port_Forward K8s_Services Harvester Preflight_Passed Pxe_Service Provision_Files Libvirt_Create Cloud_Rest Cloud_Cli
begin

text \<open>
  A verification library for the Python libraries of lab-in-a-box: the tool that reads a lab
  definition (JSON or YAML: the section \<open>common\<close>, the \<open>nodes\<close>, the \<open>kclusters\<close> and one section for each
  add-on), checks it, creates its VMs on a backend, and sets up clusters, add-ons, names and networks.

  \<^bold>\<open>How the program is modelled.\<close> Every function is translated as it is written, one definition for
  each, with the guards, early returns and messages of the code. A parsed file is a \<open>pval\<close> and a
  dict an association list in insertion order, so that the order of iteration is the code's. An
  exception is a value: \<open>'a res\<close> is \<open>exc + 'a\<close>, and \<open>SystemExit\<close> carries what \<open>die\<close> prints. Code that
  changes a state and may raise is an action (\<open>Py_Action\<close>), which leaves a state also when it raised.
  What is not the program's own (a remote host, a provider, the clock, the random numbers, the JSON and
  YAML parsers, the \<open>cryptography\<close> package) is an argument, and what is relied upon of it a hypothesis
  of the theorem, shown to be possible by the theorem's witness. Log lines are left out.

  \<^bold>\<open>The theories\<close>, in the order they build on each other:

  \<^item> \<open>Py_Base\<close>: the prelude: exceptions as values, text, numbers, the values of a parsed
    file and their operations; the collections \<open>res_simps\<close> and \<open>text_simps\<close>.
  \<^item> \<open>Py_Action\<close>: actions on a state that may raise, and \<open>act_simps\<close>.
  \<^item> \<open>Py_Regex\<close>: the \<open>re\<close> module as far as it is used: parser and backtracking
    matcher.
  \<^item> \<open>Addon_Registry\<close>: \<open>libs/apps.py\<close>: plugins, add-on entries and
    requirements; \<open>targets.py\<close>.
  \<^item> \<open>Migration_Steps\<close>: \<open>libs/migrations.py\<close>: every migration step, the
    version walk and the idempotence of a migration.
  \<^item> \<open>Version_Matrix\<close>: \<open>libs/versions.py\<close> and \<open>provisioning.py\<close>:
    version constraints and their warnings.
  \<^item> \<open>Schema_Check, Schema_Record\<close>: \<open>libs/schema_validate.py\<close> and
    \<open>schema_versions.py\<close>: what a value is checked for, and the discipline of recorded schemas.
  \<^item> \<open>Dns_Zone, Dns_Service\<close>: \<open>libs/dns_zone.py\<close> and the DNS service of
    \<open>services.py\<close>: zone files, records added and removed on every master.
  \<^item> \<open>Ip_Alloc\<close>: \<open>libs/ipalloc.py\<close>: the address a node without one gets.
  \<^item> \<open>Overlay_Net\<close>: \<open>libs/overlay.py\<close>: the hub's registries, peers, gateways
    and routes; the locale \<open>keyed_rows\<close>, of a registry whose rows have a key, is interpreted for
    each registry.
  \<^item> \<open>Lab_Defs\<close>: the readers of a lab definition in \<open>libs/lab_creation.py\<close>:
    defaults, images, commands, variables, MAC addresses; \<open>source_utils.py\<close>.
  \<^item> \<open>Kvm_Hosts\<close>: \<open>lab_creation.py\<close>: the choice and location of a KVM host,
    and the waits.
  \<^item> \<open>Image_Fetch\<close>: \<open>lab_creation.py\<close>: the script that downloads a base image.
  \<^item> \<open>Crypto_Store\<close>: \<open>libs/crypto_store.py\<close>: envelopes and base64.
  \<^item> \<open>Shell_Config\<close>: \<open>libs/primary.py\<close>: shell variable files.
  \<^item> \<open>Credentials\<close>: \<open>primary.py\<close> and
    \<open>scripts/setup_credentials.py\<close>: credential files and passphrases.
  \<^item> \<open>Lab_File\<close>: \<open>primary.py\<close>: loading and saving lab definitions.
  \<^item> \<open>Backend_Select\<close>: the end of \<open>libs/backends.py\<close>: the backend of a VM and
    the cloud DNS VM.
  \<^item> \<open>Remote_Run\<close>: \<open>ssh_run\<close>, the waits and reboots of
    \<open>lab_creation.py\<close> as jobs: actions on the log of everything run. \<open>grows\<close> says that
    a job only adds to the log.
  \<^item> \<open>K8s_Plan, K8s_Install, K8s_Services\<close>: \<open>libs/k8s.py\<close>: which versions and
    needs a cluster has, the installation of RKE2 and K3s node by node, charts and services.
  \<^item> \<open>Py_Text, Harvester\<close>: \<open>libs/harvester.py\<close>: the configuration of a
    Harvester node and its installation.
  \<^item> \<open>Port_Forward\<close>: \<open>libs/portforward.py\<close> and its service: the table of
    forwarded ports, refined by the firewall rules applied.
  \<^item> \<open>Lab_Types\<close>: the values of a lab definition the helpers rely upon, and that they
    return values of their type.
  \<^item> \<open>Preflight, Preflight_Passed\<close>: \<open>validate_lab_definition\<close> and the
    preflight of \<open>lab_creation.py\<close>: what a lab that passed is known to have.
  \<^item> \<open>Pxe_Service\<close>: the PXE and HTTP services of \<open>services.py\<close>.
  \<^item> \<open>Virt_Customize\<close>: the script \<open>prepare_virt_customize\<close> sends to a
    hypervisor: what configures the network of an image, and the files sent.
  \<^item> \<open>Provision_Files\<close>: Ignition, Combustion, cloud-init, installer answers, Salt and Helm.
  \<^item> \<open>Vm_Addresses\<close>: the addresses a VM gets on any backend, and the wait for a provider's;
    sizing tables, port lists, names.
  \<^item> \<open>Libvirt_Backend, Libvirt_Create\<close>: \<open>LibvirtBackend\<close> of
    \<open>libs/backends.py\<close>: the tools and where they run, keeping, rebooting and deleting a VM, its
    disk and its creation by each method. \<open>does\<close> and \<open>succeeded\<close> speak of the commands
    in the log.
  \<^item> \<open>Cloud_Api\<close>: what the backends of cloud providers share: requests and answers, readers
    of JSON, sizing, user data; \<open>asks\<close> and \<open>others\<close> speak of the requests made. The
    locales \<open>vm_lookup\<close> and \<open>named_lookup\<close> are the contract of a lookup, interpreted
    on each provider.
  \<^item> \<open>Cloud_Rest, Cloud_Cli\<close>: the providers over HTTP (Hetzner, Scaleway, UpCloud,
    OVHcloud) and over a command line (Google, Alibaba, Exoscale).

  \<^bold>\<open>Findings\<close> are lemmas at the end of the theory of their component, each stating what the code does
  where a comment, a docstring or the purpose says otherwise.

  \<^bold>\<open>Bounds and fuel.\<close> Loops are structural or have a termination proof, but for two: the wait for a
  command (\<open>Kvm_Hosts.wait_loop\<close>, \<open>partial_function\<close>), which ends because the clock advances by the
  interval at each turn, as \<open>wait_for_ssh_command_spec\<close> proves, and the random draws of a MAC address
  (\<open>Lab_Defs.first_unused\<close>, fuel), for which \<open>unused_mac_found\<close> proves that more draws than used
  addresses are enough when the draws differ. The regular expressions of \<open>Py_Regex\<close> terminate because a
  repetition must consume text. Text is bytes: case folding and blanks are those of ASCII.

  \<^bold>\<open>Not modelled.\<close>
  \<^item> Other programs: what a remote host, a hypervisor, a provider or \<open>kubectl\<close> does with a
    command: the commands and their order are modelled, the answer is the world's.
  \<^item> \<open>libs/spacecmd_common.py\<close>: some two hundred wrappers, each one remote call whose
    effect is that of a SUSE Multi-Linux Manager server.
  \<^item> \<open>scripts/\<close>: the command lines parse arguments, print, and call the libraries phase by
    phase; the add-on installers are linear lists of remote commands for one product each.
  \<^item> \<open>webui/\<close>, \<open>mcp/\<close>, \<open>docs/\<close>, \<open>media/\<close>,
    \<open>packaging/\<close>: adapters, pages and builders around the program.
  \<^item> \<open>legacy_bash/\<close>: the superseded first version, which nothing imports.
  \<^item> Floating-point numbers, Unicode case and blanks, the escape codes of colours, log lines and locks:
    left out where the text of a definition says so.
\<close>

end
